(* ===== verification/Runner_Prelude.thy ===== *)
theory Runner_Prelude
  imports Main "HOL-Library.Word" "HOL-Library.Char_ord" "HOL-Library.List_Lexorder"
begin

section \<open>Shared vocabulary of the runners\<close>

text \<open>
  What every component below uses of Go and of its standard library: error values, byte
  strings and the functions of \<open>strings\<close>, \<open>strconv\<close>, \<open>encoding/hex\<close> and
  \<open>math/bits\<close> the sources call, instants and durations of \<open>time\<close>, and the two
  identifier patterns that the contracts share.  The lemmas at the end are the ones the
  component theories rely on: printing and parsing of decimal numbers, splitting at a
  separator, prefixes and 64-bit carries.

  A Go \<open>string\<close> is a sequence of bytes and is modelled as \<open>string\<close> (a list of
  \<open>char\<close>, each one byte).  Case mapping and white space are those of ASCII: a byte of
  128 or more is neither a letter nor a blank.  Every identifier, schema name, codec and header
  that the sources compare with these functions is ASCII.
\<close>

named_theorems op_defs \<open>definitions of the modelled operations\<close>
named_theorems str_simps \<open>evaluation of string predicates\<close>

type_synonym u64 = "64 word"
type_synonym u32 = "32 word"

subsection \<open>Errors\<close>

text \<open>
  A Go \<open>error\<close> that is not \<open>nil\<close>: a fresh \<open>errors.New\<close> text, one of the
  package-level sentinels (identified by its text), \<open>os.ErrNotExist\<close>, a \<open>%w\<close> wrapper
  and \<open>errors.Join\<close>.  A function that returns only an error gives \<open>None\<close> for
  \<open>nil\<close>; one that returns a value and an error gives a sum.
\<close>

datatype go_error =
    ErrNew string
  | ErrSentinel string
  | ErrNotExist
  | ErrWrap string go_error
  | ErrJoin "go_error list"

type_synonym error = "go_error option"
type_synonym 'a result = "go_error + 'a"

text \<open>\<open>errors.Is\<close>: the target is found at the top or below a wrapper.\<close>

fun errors_is :: "go_error \<Rightarrow> go_error \<Rightarrow> bool" where
  "errors_is (ErrWrap s e) t = (ErrWrap s e = t \<or> errors_is e t)"
| "errors_is (ErrJoin es) t = (ErrJoin es = t \<or> (\<exists>e\<in>set es. errors_is e t))"
| "errors_is e t = (e = t)"

definition err :: "string \<Rightarrow> error" where
  "err s = Some (ErrNew s)"

definition fails :: "string \<Rightarrow> 'a result" where
  "fails s = Inl (ErrNew s)"

subsection \<open>Bytes\<close>

definition is_digit :: "char \<Rightarrow> bool" where
  "is_digit c \<longleftrightarrow> 48 \<le> (of_char c :: nat) \<and> (of_char c :: nat) \<le> 57"

definition is_upper :: "char \<Rightarrow> bool" where
  "is_upper c \<longleftrightarrow> 65 \<le> (of_char c :: nat) \<and> (of_char c :: nat) \<le> 90"

definition is_lower :: "char \<Rightarrow> bool" where
  "is_lower c \<longleftrightarrow> 97 \<le> (of_char c :: nat) \<and> (of_char c :: nat) \<le> 122"

definition is_alnum :: "char \<Rightarrow> bool" where
  "is_alnum c \<longleftrightarrow> is_digit c \<or> is_upper c \<or> is_lower c"

definition is_space :: "char \<Rightarrow> bool" where
  "is_space c \<longleftrightarrow> (of_char c :: nat) = 32 \<or> (9 \<le> (of_char c :: nat) \<and> (of_char c :: nat) \<le> 13)"

definition is_lower_hex :: "char \<Rightarrow> bool" where
  "is_lower_hex c \<longleftrightarrow> is_digit c \<or> (97 \<le> (of_char c :: nat) \<and> (of_char c :: nat) \<le> 102)"

definition lower_char :: "char \<Rightarrow> char" where
  "lower_char c = (if is_upper c then char_of ((of_char c :: nat) + 32) else c)"

definition upper_char :: "char \<Rightarrow> char" where
  "upper_char c = (if is_lower c then char_of ((of_char c :: nat) - 32) else c)"

subsection \<open>The package strings\<close>

definition to_lower :: "string \<Rightarrow> string" where
  "to_lower s = map lower_char s"

definition to_upper :: "string \<Rightarrow> string" where
  "to_upper s = map upper_char s"

definition equal_fold :: "string \<Rightarrow> string \<Rightarrow> bool" where
  "equal_fold s t \<longleftrightarrow> to_lower s = to_lower t"

fun has_prefix :: "string \<Rightarrow> string \<Rightarrow> bool" where
  "has_prefix s [] = True"
| "has_prefix [] (p # ps) = False"
| "has_prefix (c # cs) (p # ps) = (c = p \<and> has_prefix cs ps)"

definition has_suffix :: "string \<Rightarrow> string \<Rightarrow> bool" where
  "has_suffix s suf \<longleftrightarrow> has_prefix (rev s) (rev suf)"

fun contains :: "string \<Rightarrow> string \<Rightarrow> bool" where
  "contains [] sub = (sub = [])"
| "contains (c # cs) sub = (has_prefix (c # cs) sub \<or> contains cs sub)"

definition contains_any :: "string \<Rightarrow> string \<Rightarrow> bool" where
  "contains_any s chars \<longleftrightarrow> (\<exists>c\<in>set s. c \<in> set chars)"

definition trim_prefix :: "string \<Rightarrow> string \<Rightarrow> string" where
  "trim_prefix s p = (if has_prefix s p then drop (length p) s else s)"

definition trim_suffix :: "string \<Rightarrow> string \<Rightarrow> string" where
  "trim_suffix s p = (if has_suffix s p then take (length s - length p) s else s)"

definition trim_left_by :: "(char \<Rightarrow> bool) \<Rightarrow> string \<Rightarrow> string" where
  "trim_left_by f s = dropWhile f s"

definition trim_right_by :: "(char \<Rightarrow> bool) \<Rightarrow> string \<Rightarrow> string" where
  "trim_right_by f s = rev (dropWhile f (rev s))"

definition trim_space :: "string \<Rightarrow> string" where
  "trim_space s = trim_right_by is_space (trim_left_by is_space s)"

text \<open>\<open>strings.Split\<close> at a one-byte separator: never empty.\<close>

fun split_at :: "char \<Rightarrow> string \<Rightarrow> string list" where
  "split_at sep [] = [[]]"
| "split_at sep (c # cs) =
     (if c = sep then [] # split_at sep cs
      else (case split_at sep cs of [] \<Rightarrow> [[c]] | p # ps \<Rightarrow> (c # p) # ps))"

fun join_with :: "string \<Rightarrow> string list \<Rightarrow> string" where
  "join_with sep [] = []"
| "join_with sep [x] = x"
| "join_with sep (x # y # ys) = x @ sep @ join_with sep (y # ys)"

text \<open>\<open>strings.Cut\<close> at a one-byte separator: \<open>None\<close> when it does not occur.\<close>

fun cut_at :: "char \<Rightarrow> string \<Rightarrow> (string \<times> string) option" where
  "cut_at sep [] = None"
| "cut_at sep (c # cs) =
     (if c = sep then Some ([], cs)
      else (case cut_at sep cs of None \<Rightarrow> None | Some (a, b) \<Rightarrow> Some (c # a, b)))"

definition cut_prefix :: "string \<Rightarrow> string \<Rightarrow> string option" where
  "cut_prefix s p = (if has_prefix s p then Some (drop (length p) s) else None)"

text \<open>\<open>strings.ReplaceAll\<close> of a one-byte pattern.\<close>

definition replace_char :: "char \<Rightarrow> string \<Rightarrow> string \<Rightarrow> string" where
  "replace_char c r s = concat (map (\<lambda>x. if x = c then r else [x]) s)"

subsection \<open>The package strconv\<close>

definition digit_char :: "nat \<Rightarrow> char" where
  "digit_char d = char_of (48 + d)"

definition digit_val :: "char \<Rightarrow> nat" where
  "digit_val c = of_char c - 48"

fun fmt_nat :: "nat \<Rightarrow> string" where
  "fmt_nat n = (if n < 10 then [digit_char n] else fmt_nat (n div 10) @ [digit_char (n mod 10)])"

declare fmt_nat.simps [simp del]

definition fmt_int :: "int \<Rightarrow> string" where
  "fmt_int i = (if i < 0 then CHR ''-'' # fmt_nat (nat (- i)) else fmt_nat (nat i))"

definition fmt_u64 :: "u64 \<Rightarrow> string" where
  "fmt_u64 w = fmt_nat (unat w)"

definition nat_of_digits :: "string \<Rightarrow> nat" where
  "nat_of_digits s = foldl (\<lambda>n c. 10 * n + digit_val c) 0 s"

text \<open>\<open>strconv.ParseUint\<close> in base 10 with a bit size of at most 64; \<open>None\<close> is any error.\<close>

definition parse_uint :: "string \<Rightarrow> nat \<Rightarrow> nat option" where
  "parse_uint s bits =
     (if s = [] \<or> \<not> list_all is_digit s then None
      else if nat_of_digits s < 2 ^ bits then Some (nat_of_digits s) else None)"

text \<open>\<open>strconv.Atoi\<close>: an optional sign, then digits, within 64 bits.\<close>

definition atoi :: "string \<Rightarrow> int option" where
  "atoi s =
     (let neg = has_prefix s ''-'';
          body = (if neg \<or> has_prefix s ''+'' then tl s else s)
      in if body = [] \<or> \<not> list_all is_digit body then None
         else (let v = (if neg then - int (nat_of_digits body) else int (nat_of_digits body))
               in if - (2 ^ 63) \<le> v \<and> v < 2 ^ 63 then Some v else None))"

subsection \<open>The package encoding/hex\<close>

definition hex_char :: "nat \<Rightarrow> char" where
  "hex_char d = (if d < 10 then char_of (48 + d) else char_of (87 + d))"

definition hex_val :: "char \<Rightarrow> nat option" where
  "hex_val c =
     (let v = (of_char c :: nat)
      in if 48 \<le> v \<and> v \<le> 57 then Some (v - 48)
         else if 97 \<le> v \<and> v \<le> 102 then Some (v - 87)
         else if 65 \<le> v \<and> v \<le> 70 then Some (v - 55) else None)"

fun hex_encode :: "string \<Rightarrow> string" where
  "hex_encode [] = []"
| "hex_encode (c # cs) = hex_char (of_char c div 16) # hex_char (of_char c mod 16) # hex_encode cs"

fun hex_decode :: "string \<Rightarrow> string option" where
  "hex_decode [] = Some []"
| "hex_decode [c] = None"
| "hex_decode (a # b # cs) =
     (case (hex_val a, hex_val b) of
        (Some x, Some y) \<Rightarrow> (case hex_decode cs of None \<Rightarrow> None | Some r \<Rightarrow> Some (char_of (16 * x + y) # r))
      | _ \<Rightarrow> None)"

subsection \<open>The package math/bits\<close>

definition add64 :: "u64 \<Rightarrow> u64 \<Rightarrow> u64 \<times> u64" where
  "add64 x y = (x + y, if unat x + unat y < 2 ^ 64 then 0 else 1)"

definition mul64 :: "u64 \<Rightarrow> u64 \<Rightarrow> u64 \<times> u64" where
  "mul64 x y = (of_nat ((unat x * unat y) div 2 ^ 64), x * y)"

definition max_u64 :: u64 where
  "max_u64 = - 1"

definition max_u32 :: u32 where
  "max_u32 = - 1"

subsection \<open>Instants and durations\<close>

text \<open>
  An instant is its distance in nanoseconds from the Unix epoch, and a duration a number of
  nanoseconds.  The zero \<open>time.Time\<close> is the first of January of the year 1;
  \<open>time.Time.Sub\<close> saturates at the bounds of \<open>int64\<close>.
\<close>

type_synonym time = int
type_synonym duration = int

definition zero_time :: time where
  "zero_time = - 62135596800 * 1000000000"

definition second :: duration where
  "second = 1000000000"

definition millisecond :: duration where
  "millisecond = 1000000"

definition max_duration :: duration where
  "max_duration = 2 ^ 63 - 1"

definition min_duration :: duration where
  "min_duration = - (2 ^ 63)"

definition time_sub :: "time \<Rightarrow> time \<Rightarrow> duration" where
  "time_sub a b = max min_duration (min max_duration (a - b))"

text \<open>
  A time stamp held in a string field.  \<open>NoStamp\<close> is the empty string, \<open>Stamp t\<close> a
  string that \<open>time.Parse\<close> accepts and that denotes \<open>t\<close>, \<open>BadStamp s\<close> any other
  string.  \<open>Format(time.RFC3339Nano)\<close> keeps every nanosecond of an instant of the years 0 to
  9999, so formatting and parsing again is the identity; \<open>Format(time.RFC3339)\<close> drops
  the fraction of a second.
\<close>

datatype stamp = NoStamp | Stamp time | BadStamp string

definition format_nano :: "time \<Rightarrow> stamp" where
  "format_nano t = Stamp t"

definition format_seconds :: "time \<Rightarrow> stamp" where
  "format_seconds t = Stamp (t div second * second)"

definition parse_stamp :: "stamp \<Rightarrow> time option" where
  "parse_stamp s = (case s of Stamp t \<Rightarrow> Some t | _ \<Rightarrow> None)"

subsection \<open>Identifier patterns\<close>

text \<open>
  \<open>^[A-Za-z0-9][A-Za-z0-9._:-]{0,127}$\<close> and \<open>^[0-9a-f]{64}$\<close>: the live runner, the
  ABR runner and the VOD runner compile the same two expressions.
\<close>

definition is_opaque_char :: "char \<Rightarrow> bool" where
  "is_opaque_char c \<longleftrightarrow> is_alnum c \<or> c \<in> set ''._:-''"

definition opaqueIDPattern :: "string \<Rightarrow> bool" where
  "opaqueIDPattern s \<longleftrightarrow>
     (case s of [] \<Rightarrow> False | c # cs \<Rightarrow> is_alnum c \<and> list_all is_opaque_char cs \<and> length cs \<le> 127)"

definition workIDPattern :: "string \<Rightarrow> bool" where
  "workIDPattern s \<longleftrightarrow> length s = 64 \<and> list_all is_lower_hex s"

subsection \<open>Maps and files\<close>

text \<open>
  A Go map or a directory is an association list; \<open>put\<close> replaces an entry where it is.  A file is
  replaced by a rename: a failure before it leaves the old file, one after it is reported although the
  new file is there.
\<close>

fun put :: "'k \<Rightarrow> 'v \<Rightarrow> ('k \<times> 'v) list \<Rightarrow> ('k \<times> 'v) list" where
  "put k v [] = [(k, v)]"
| "put k v ((k', v') # rest) = (if k = k' then (k, v) # rest else (k', v') # put k v rest)"

datatype save_outcome = SaveOK | SaveFailsBeforeRename | SaveFailsAfterRename

section \<open>Generic lemmas\<close>

lemma err_not_None [simp]: "err s \<noteq> None" "None \<noteq> err s"
  by (simp_all add: err_def)

lemma err_inject [simp]: "err s = Some e \<longleftrightarrow> e = ErrNew s"
  by (auto simp: err_def)

lemma fails_not_Inr [simp]: "fails s \<noteq> Inr x" "Inr x \<noteq> fails s"
  by (simp_all add: fails_def)

lemma errors_is_refl [simp]: "errors_is e e"
  by (cases e) simp_all

subsection \<open>Prefixes, cuts and splits\<close>

lemma has_prefix_append [simp]: "has_prefix (p @ s) p"
  by (induction p) simp_all

lemma has_prefix_iff: "has_prefix s p \<longleftrightarrow> (\<exists>r. s = p @ r)"
  by (induction s p rule: has_prefix.induct) auto

lemma has_suffix_iff: "has_suffix s p \<longleftrightarrow> (\<exists>r. s = r @ p)"
proof -
  have "has_suffix s p \<longleftrightarrow> (\<exists>r. rev s = rev p @ r)"
    by (simp add: has_suffix_def has_prefix_iff)
  also have "\<dots> \<longleftrightarrow> (\<exists>r. s = r @ p)"
    by (metis rev_append rev_rev_ident)
  finally show ?thesis .
qed

lemma trim_suffix_append [simp]: "trim_suffix (s @ p) p = s"
  by (simp add: trim_suffix_def has_suffix_iff)

lemma cut_prefix_append [simp]: "cut_prefix (p @ s) p = Some s"
  by (simp add: cut_prefix_def)

lemma cut_at_first: "sep \<notin> set a \<Longrightarrow> cut_at sep (a @ sep # b) = Some (a, b)"
  by (induction a) auto

lemma cut_at_None: "cut_at sep s = None \<longleftrightarrow> sep \<notin> set s"
  by (induction s) (auto split: option.splits)

lemma split_at_not_Nil [simp]: "split_at sep s \<noteq> []"
  by (induction s) (auto split: list.splits)

lemma split_at_none: "sep \<notin> set s \<Longrightarrow> split_at sep s = [s]"
  by (induction s) auto

lemma split_at_append: "sep \<notin> set a \<Longrightarrow> split_at sep (a @ sep # b) = a # split_at sep b"
  by (induction a) auto

lemma join_split_at: "join_with [sep] (split_at sep s) = s"
proof (induction s)
  case Nil
  then show ?case by simp
next
  case (Cons c cs)
  obtain p ps where sp: "split_at sep cs = p # ps"
    by (cases "split_at sep cs") auto
  then show ?case using Cons.IH by (cases ps) auto
qed

lemma split_at_parts: "p \<in> set (split_at sep s) \<Longrightarrow> sep \<notin> set p"
proof (induction s arbitrary: p)
  case Nil
  then show ?case by simp
next
  case (Cons c cs)
  obtain q qs where sp: "split_at sep cs = q # qs"
    by (cases "split_at sep cs") auto
  show ?case using Cons.prems Cons.IH sp by (auto split: if_splits)
qed

lemma list_all_opaque_append:
  "opaqueIDPattern s \<Longrightarrow> list_all is_opaque_char s"
  by (auto simp: opaqueIDPattern_def is_opaque_char_def split: list.splits)

lemma opaque_char_not_sep [simp]:
  "\<not> is_opaque_char (CHR ''/'')" "\<not> is_opaque_char (CHR ''?'')"
  by (simp_all add: is_opaque_char_def is_alnum_def is_digit_def is_upper_def is_lower_def)

lemma opaque_no_slash: "opaqueIDPattern s \<Longrightarrow> CHR ''/'' \<notin> set s"
  using list_all_opaque_append [of s] opaque_char_not_sep
  by (auto simp: list_all_iff)

lemma opaque_no_question: "opaqueIDPattern s \<Longrightarrow> CHR ''?'' \<notin> set s"
  using list_all_opaque_append [of s] opaque_char_not_sep
  by (auto simp: list_all_iff)

lemma opaque_not_Nil [simp]: "\<not> opaqueIDPattern []"
  by (simp add: opaqueIDPattern_def)

lemma workID_not_Nil [simp]: "\<not> workIDPattern []"
  by (simp add: workIDPattern_def)

lemma unat_u64_less: "unat (w :: u64) < 2 ^ 64"
proof -
  have "unat w < 2 ^ LENGTH(64)" by (rule unsigned_less)
  then show ?thesis by simp
qed

subsection \<open>Decimal numbers\<close>

lemma of_char_digit_char [simp]: "d < 10 \<Longrightarrow> (of_char (digit_char d) :: nat) = 48 + d"
  by (simp add: digit_char_def)

lemma digit_val_digit_char [simp]: "d < 10 \<Longrightarrow> digit_val (digit_char d) = d"
  by (simp add: digit_val_def)

lemma is_digit_digit_char [simp]: "d < 10 \<Longrightarrow> is_digit (digit_char d)"
  by (simp add: is_digit_def)

lemma has_prefix_chars: "has_prefix s p \<Longrightarrow> set p \<subseteq> set s"
  by (auto simp: has_prefix_iff)

lemma contains_chars: "contains s p \<Longrightarrow> set p \<subseteq> set s"
proof (induction s p rule: contains.induct)
  case (2 c cs sub)
  then show ?case using has_prefix_chars [of "c # cs" sub] by (cases "contains cs sub") auto
qed simp

lemma fmt_nat_digits: "list_all is_digit (fmt_nat n)"
proof (induction n rule: fmt_nat.induct)
  case (1 n)
  then show ?case by (subst fmt_nat.simps) auto
qed

lemma fmt_nat_not_Nil [simp]: "fmt_nat n \<noteq> []"
  by (subst fmt_nat.simps) simp

lemma length_fmt_nat: "n < 10 ^ k \<Longrightarrow> 0 < k \<Longrightarrow> length (fmt_nat n) \<le> k"
proof (induction k arbitrary: n)
  case (Suc k)
  show ?case
  proof (cases "n < 10")
    case False
    then have "0 < k" using Suc.prems by (cases k) auto
    moreover have "n div 10 < 10 ^ k" using Suc.prems by (simp add: less_mult_imp_div_less mult.commute)
    ultimately show ?thesis using Suc.IH [of "n div 10"] False by (subst fmt_nat.simps) simp
  qed (subst fmt_nat.simps, simp)
qed simp

lemma length_fmt_u64: "length (fmt_u64 w) \<le> 20"
  unfolding fmt_u64_def using unat_u64_less [of w] by (intro length_fmt_nat) auto

lemma nat_of_digits_snoc: "nat_of_digits (s @ [c]) = 10 * nat_of_digits s + digit_val c"
  by (simp add: nat_of_digits_def)

lemma nat_of_digits_fmt_nat [simp]: "nat_of_digits (fmt_nat n) = n"
proof (induction n rule: fmt_nat.induct)
  case (1 n)
  show ?case
  proof (cases "n < 10")
    case True
    then show ?thesis by (subst fmt_nat.simps) (simp add: nat_of_digits_def)
  next
    case False
    with "1.IH" show ?thesis
      by (subst fmt_nat.simps) (simp add: nat_of_digits_snoc)
  qed
qed

lemma fmt_nat_inject [simp]: "fmt_nat m = fmt_nat n \<longleftrightarrow> m = n"
  by (metis nat_of_digits_fmt_nat)

lemma fmt_u64_inject [simp]: "fmt_u64 a = fmt_u64 b \<longleftrightarrow> a = b"
  by (simp add: fmt_u64_def word_unat_eq_iff)

lemma parse_uint_fmt_nat: "n < 2 ^ bits \<Longrightarrow> parse_uint (fmt_nat n) bits = Some n"
  by (simp add: parse_uint_def fmt_nat_digits)

lemma parse_uint_fmt_u64: "parse_uint (fmt_u64 w) 64 = Some (unat w)"
  by (simp only: fmt_u64_def parse_uint_fmt_nat unat_u64_less)

lemma parse_uint_SomeD:
  "parse_uint s bits = Some n \<Longrightarrow> s \<noteq> [] \<and> list_all is_digit s \<and> n = nat_of_digits s \<and> n < 2 ^ bits"
  by (auto simp: parse_uint_def split: if_splits)

lemma nat_of_digits_append:
  "nat_of_digits (s @ t) = nat_of_digits s * 10 ^ length t + nat_of_digits t"
proof (induction t rule: rev_induct)
  case Nil
  then show ?case by (simp add: nat_of_digits_def)
next
  case (snoc c t)
  have "nat_of_digits (s @ t @ [c]) = 10 * nat_of_digits (s @ t) + digit_val c"
    by (metis append_assoc nat_of_digits_snoc)
  then show ?case using snoc by (simp add: nat_of_digits_snoc algebra_simps)
qed

lemma digit_val_less: "is_digit c \<Longrightarrow> digit_val c < 10"
  by (auto simp: is_digit_def digit_val_def)

lemma nat_of_digits_less: "list_all is_digit s \<Longrightarrow> nat_of_digits s < 10 ^ length s"
proof (induction s rule: rev_induct)
  case Nil
  then show ?case by (simp add: nat_of_digits_def)
next
  case (snoc c s)
  then have "nat_of_digits s < 10 ^ length s" and "digit_val c < 10"
    by (auto intro: digit_val_less)
  then show ?case by (simp add: nat_of_digits_snoc)
qed

subsection \<open>Hexadecimal\<close>

lemma hex_val_hex_char [simp]: "d < 16 \<Longrightarrow> hex_val (hex_char d) = Some d"
  by (auto simp: hex_val_def hex_char_def Let_def)

lemma hex_char_is_lower_hex: "d < 16 \<Longrightarrow> is_lower_hex (hex_char d)"
  by (auto simp: is_lower_hex_def hex_char_def is_digit_def Let_def)

lemma hex_decode_encode [simp]: "hex_decode (hex_encode s) = Some s"
proof (induction s)
  case Nil
  then show ?case by simp
next
  case (Cons c cs)
  have "(of_char c :: nat) < 256" by (rule nat_of_char_less_256)
  then have "(of_char c :: nat) div 16 < 16" by (simp add: div_less_iff_less_mult)
  with Cons show ?case by simp
qed

lemma hex_encode_Nil_iff [simp]: "hex_encode s = [] \<longleftrightarrow> s = []"
  by (cases s) simp_all

subsection \<open>64-bit carries\<close>

lemma add64_no_carry:
  "add64 x y = (s, 0) \<Longrightarrow> unat s = unat x + unat y"
  by (auto simp: add64_def unat_word_ariths split: if_splits)

lemma add64_carry_iff: "snd (add64 x y) = 0 \<longleftrightarrow> unat x + unat y < 2 ^ 64"
  by (simp add: add64_def)

lemma add64_fst: "snd (add64 x y) = 0 \<Longrightarrow> unat (fst (add64 x y)) = unat x + unat y"
  by (auto simp: add64_def unat_word_ariths split: if_splits)

lemma mul64_hi_zero_iff: "fst (mul64 x y) = 0 \<longleftrightarrow> unat x * unat y < 2 ^ 64"
proof -
  have x: "unat x < 2 ^ 64" and y: "unat y < 2 ^ 64"
    by (rule unat_u64_less)+
  have "unat x * unat y < 2 ^ 64 * 2 ^ 64"
    using x y by (rule mult_strict_mono) auto
  then have "(unat x * unat y) div 2 ^ 64 < 2 ^ 64"
    by (simp add: less_mult_imp_div_less)
  then have "unat (of_nat ((unat x * unat y) div 2 ^ 64) :: u64) = (unat x * unat y) div 2 ^ 64"
    by (simp add: unat_of_nat)
  then show ?thesis
    by (simp add: mul64_def unat_eq_0 [symmetric] div_eq_0_iff)
qed

lemma mul64_snd: "fst (mul64 x y) = 0 \<Longrightarrow> unat (snd (mul64 x y)) = unat x * unat y"
  by (simp add: mul64_hi_zero_iff) (simp add: mul64_def unat_word_ariths)

lemma max_u64_ge [simp]: "w \<le> max_u64"
  by (simp add: max_u64_def)

lemma unat_Suc_u64: "w \<noteq> max_u64 \<Longrightarrow> unat (w + 1) = Suc (unat w)"
  by (simp add: max_u64_def unatSuc add.commute) (metis add.inverse_inverse add_eq_0_iff2 unatSuc)

lemma u64_less_Suc: "w \<noteq> max_u64 \<Longrightarrow> w < w + 1"
  by (simp add: word_less_nat_alt unat_Suc_u64)

lemma parse_format_nano [simp]: "parse_stamp (format_nano t) = Some t"
  by (simp add: format_nano_def parse_stamp_def)

lemma format_nano_not_NoStamp [simp]: "format_nano t \<noteq> NoStamp"
  by (simp add: format_nano_def)

lemma parse_stamp_NoStamp [simp]: "parse_stamp NoStamp = None"
  by (simp add: parse_stamp_def)

subsection \<open>Association lists\<close>

lemma map_of_put [simp]: "map_of (put k v m) = (map_of m)(k \<mapsto> v)"
  by (induction k v m rule: put.induct) auto

lemma set_put: "map_of m k = None \<Longrightarrow> set (put k v m) = insert (k, v) (set m)"
  by (induction k v m rule: put.induct) (auto split: if_splits)

lemma put_keys: "k \<in> fst ` set m \<Longrightarrow> map fst (put k v m) = map fst m"
  by (induction k v m rule: put.induct) auto

lemma distinct_put: "distinct (map fst m) \<Longrightarrow> distinct (map fst (put k v m))"
proof -
  have "fst ` set (put k v m) \<subseteq> insert k (fst ` set m)" for k :: 'a and v :: 'b and m
    by (induction k v m rule: put.induct) auto
  then show "distinct (map fst m) \<Longrightarrow> distinct (map fst (put k v m))"
    by (induction k v m rule: put.induct) fastforce+
qed

end
