(* ===== verification/Go_Library.thy ===== *)
theory Go_Library
  imports Runner_Prelude
begin

section \<open>Larger pieces of the Go standard library\<close>

text \<open>
  The parts of \<open>net/url\<close>, \<open>path\<close>, \<open>encoding/json\<close> and \<open>time\<close> on which a
  decision of the runners depends: \<open>url.Parse\<close> as far as scheme, user information, host,
  path, query and fragment are read, query escaping and \<open>url.ParseQuery\<close>, \<open>path.Clean\<close>
  and \<open>path.Base\<close>, a JSON document with the length of its compact text, and the text of an
  RFC 3339 time stamp.  The lemmas are the round trips and closure facts that the session
  components use.
\<close>

subsection \<open>Percent escapes\<close>

definition is_hex :: "char \<Rightarrow> bool" where
  "is_hex c \<longleftrightarrow> hex_val c \<noteq> None"

definition upper_hex_char :: "nat \<Rightarrow> char" where
  "upper_hex_char d = (if d < 10 then char_of (48 + d) else char_of (55 + d))"

text \<open>\<open>url.QueryEscape\<close>.\<close>

definition query_safe :: "char \<Rightarrow> bool" where
  "query_safe c \<longleftrightarrow> is_alnum c \<or> c \<in> set ''-_.~''"

fun query_escape :: "string \<Rightarrow> string" where
  "query_escape [] = []"
| "query_escape (c # cs) =
     (if query_safe c then c # query_escape cs
      else if c = CHR '' '' then CHR ''+'' # query_escape cs
      else CHR ''%'' # upper_hex_char (of_char c div 16) # upper_hex_char (of_char c mod 16)
             # query_escape cs)"

text \<open>\<open>url.PathEscape\<close>, for one segment of a path.\<close>

definition segment_safe :: "char \<Rightarrow> bool" where
  "segment_safe c \<longleftrightarrow> query_safe c \<or> c \<in> set ''$&+=:@''"

fun path_escape :: "string \<Rightarrow> string" where
  "path_escape [] = []"
| "path_escape (c # cs) =
     (if segment_safe c then c # path_escape cs
      else CHR ''%'' # upper_hex_char (of_char c div 16) # upper_hex_char (of_char c mod 16)
             # path_escape cs)"

text \<open>\<open>url.QueryUnescape\<close>; \<open>None\<close> is an escape error.\<close>

fun query_unescape :: "string \<Rightarrow> string option" where
  "query_unescape [] = Some []"
| "query_unescape (c # cs) =
     (if c = CHR ''%'' then
        (case cs of
           a # b # rest \<Rightarrow>
             (case (hex_val a, hex_val b) of
                (Some x, Some y) \<Rightarrow> map_option ((#) (char_of (16 * x + y))) (query_unescape rest)
              | _ \<Rightarrow> None)
         | _ \<Rightarrow> None)
      else if c = CHR ''+'' then map_option ((#) (CHR '' '')) (query_unescape cs)
      else map_option ((#) c) (query_unescape cs))"

text \<open>Whether every percent sign of a path or fragment starts a two-digit escape.\<close>

fun escapes_ok :: "string \<Rightarrow> bool" where
  "escapes_ok [] = True"
| "escapes_ok (c # cs) =
     (if c = CHR ''%'' then
        (case cs of a # b # rest \<Rightarrow> is_hex a \<and> is_hex b \<and> escapes_ok rest | _ \<Rightarrow> False)
      else escapes_ok cs)"

subsection \<open>url.ParseQuery\<close>

text \<open>
  The pairs in order of appearance and whether an error was met; a piece with a semicolon or
  with a bad escape is dropped and remembered as an error, an empty piece is dropped silently.
\<close>

definition parse_query_piece :: "string \<Rightarrow> (string \<times> string) list \<times> bool" where
  "parse_query_piece p =
     (if CHR '';'' \<in> set p then ([], True)
      else if p = [] then ([], False)
      else (let (k, v) = (case cut_at (CHR ''='') p of None \<Rightarrow> (p, []) | Some kv \<Rightarrow> kv)
            in case (query_unescape k, query_unescape v) of
                 (Some k', Some v') \<Rightarrow> ([(k', v')], False)
               | _ \<Rightarrow> ([], True)))"

definition parse_query :: "string \<Rightarrow> (string \<times> string) list \<times> bool" where
  "parse_query q =
     (let rs = map parse_query_piece (split_at (CHR ''&'') q)
      in (concat (map fst rs), list_ex snd rs))"

definition query_values :: "(string \<times> string) list \<Rightarrow> string \<Rightarrow> string list" where
  "query_values m k = map snd (filter (\<lambda>kv. fst kv = k) m)"

definition query_get :: "(string \<times> string) list \<Rightarrow> string \<Rightarrow> string" where
  "query_get m k = (case query_values m k of [] \<Rightarrow> [] | v # _ \<Rightarrow> v)"

definition query_len :: "(string \<times> string) list \<Rightarrow> nat" where
  "query_len m = length (remdups (map fst m))"

subsection \<open>url.Parse\<close>

record url =
  Scheme :: string
  UserInfo :: "string option"
  Host :: string
  Path :: string
  RawQuery :: string
  Fragment :: string

definition is_ctl :: "char \<Rightarrow> bool" where
  "is_ctl c \<longleftrightarrow> (of_char c :: nat) < 32 \<or> (of_char c :: nat) = 127"

text \<open>\<open>getScheme\<close>: the scheme and the rest, or an error for a leading colon.\<close>

fun get_scheme_from :: "bool \<Rightarrow> string \<Rightarrow> string \<Rightarrow> string \<Rightarrow> (string \<times> string) option" where
  "get_scheme_from first acc raw [] = Some ([], raw)"
| "get_scheme_from first acc raw (c # cs) =
     (if is_upper c \<or> is_lower c then get_scheme_from False (acc @ [c]) raw cs
      else if is_digit c \<or> c \<in> set ''+-.'' then
        (if first then Some ([], raw) else get_scheme_from False (acc @ [c]) raw cs)
      else if c = CHR '':'' then (if first then None else Some (acc, cs))
      else Some ([], raw))"

definition get_scheme :: "string \<Rightarrow> (string \<times> string) option" where
  "get_scheme raw = get_scheme_from True [] raw raw"

definition cut_or_all :: "char \<Rightarrow> string \<Rightarrow> string \<times> string" where
  "cut_or_all c s = (case cut_at c s of None \<Rightarrow> (s, []) | Some p \<Rightarrow> p)"

text \<open>\<open>LastIndex\<close> of a byte, as the pieces before and after it.\<close>

definition cut_last :: "char \<Rightarrow> string \<Rightarrow> (string \<times> string) option" where
  "cut_last c s = (case cut_at c (rev s) of None \<Rightarrow> None | Some (b, a) \<Rightarrow> Some (rev a, rev b))"

definition valid_optional_port :: "string \<Rightarrow> bool" where
  "valid_optional_port p \<longleftrightarrow> (case p of [] \<Rightarrow> True | c # cs \<Rightarrow> c = CHR '':'' \<and> list_all is_digit cs)"

definition host_char :: "char \<Rightarrow> bool" where
  "host_char c \<longleftrightarrow>
     is_alnum c \<or> 128 \<le> (of_char c :: nat) \<or> c \<in> set ''-_.~!$&()*+,;=:[]<>'' \<or>
     (of_char c :: nat) = 34 \<or> (of_char c :: nat) = 39"

text \<open>The host unescaped: only \<open>%25\<close> and escapes of non-ASCII bytes are accepted.\<close>

fun host_unescape :: "string \<Rightarrow> string option" where
  "host_unescape [] = Some []"
| "host_unescape (c # cs) =
     (if c = CHR ''%'' then
        (case cs of
           a # b # rest \<Rightarrow>
             (case (hex_val a, hex_val b) of
                (Some x, Some y) \<Rightarrow>
                  (if x < 8 \<and> [a, b] \<noteq> ''25'' then None
                   else map_option ((#) (char_of (16 * x + y))) (host_unescape rest))
              | _ \<Rightarrow> None)
         | _ \<Rightarrow> None)
      else if host_char c then map_option ((#) c) (host_unescape cs)
      else None)"

definition parse_host :: "string \<Rightarrow> string option" where
  "parse_host h =
     (let port_ok =
        (if has_prefix h ''['' then
           (case cut_last (CHR '']'') h of None \<Rightarrow> False | Some (_, p) \<Rightarrow> valid_optional_port p)
         else (case cut_last (CHR '':'') h of None \<Rightarrow> True | Some (_, p) \<Rightarrow> valid_optional_port (CHR '':'' # p)))
      in if port_ok then host_unescape h else None)"

definition url_parse :: "string \<Rightarrow> url option" where
  "url_parse raw =
     (let (body, frag) = cut_or_all (CHR ''#'') raw in
      if list_ex is_ctl body then None
      else (case get_scheme body of
        None \<Rightarrow> None
      | Some (sch, rest0) \<Rightarrow>
          (let scheme = to_lower sch;
               (rest, query) = cut_or_all (CHR ''?'') rest0 in
           if \<not> escapes_ok frag then None
           else if \<not> has_prefix rest ''/'' \<and> scheme \<noteq> [] then
             Some \<lparr>Scheme = scheme, UserInfo = None, Host = [], Path = [], RawQuery = query, Fragment = frag\<rparr>
           else if \<not> has_prefix rest ''/'' \<and> CHR '':'' \<in> set (fst (cut_or_all (CHR ''/'') rest)) then None
           else if has_prefix rest ''//'' \<and> (scheme \<noteq> [] \<or> \<not> has_prefix rest ''///'') then
             (let authority = takeWhile (\<lambda>c. c \<noteq> CHR ''/'') (drop 2 rest);
                  path = dropWhile (\<lambda>c. c \<noteq> CHR ''/'') (drop 2 rest);
                  (user, hostport) = (case cut_last (CHR ''@'') authority of
                                        None \<Rightarrow> (None, authority) | Some (u, h) \<Rightarrow> (Some u, h))
              in case parse_host hostport of
                   None \<Rightarrow> None
                 | Some h \<Rightarrow>
                     if escapes_ok path
                     then Some \<lparr>Scheme = scheme, UserInfo = user, Host = h, Path = path,
                               RawQuery = query, Fragment = frag\<rparr>
                     else None)
           else if escapes_ok rest
           then Some \<lparr>Scheme = scheme, UserInfo = None, Host = [], Path = rest,
                     RawQuery = query, Fragment = frag\<rparr>
           else None)))"

text \<open>\<open>URL.Hostname\<close>: the host without port and without brackets.\<close>

definition url_hostname :: "url \<Rightarrow> string" where
  "url_hostname u =
     (let h = (case cut_last (CHR '':'') (Host u) of
                 Some (x, p) \<Rightarrow> if list_all is_digit p then x else Host u
               | None \<Rightarrow> Host u)
      in if has_prefix h ''['' \<and> has_suffix h '']'' then butlast (tl h) else h)"

text \<open>
  What a client of net/http sees of a request: no response, or a response with its status and the
  bytes of its body that arrive.
\<close>

datatype answer = NoAnswer | Answer int string

subsection \<open>The package path\<close>

fun clean_parts :: "bool \<Rightarrow> string list \<Rightarrow> string list \<Rightarrow> string list" where
  "clean_parts rooted out [] = out"
| "clean_parts rooted out (p # ps) =
     (if p = [] \<or> p = ''.'' then clean_parts rooted out ps
      else if p = ''..'' then
        (if out \<noteq> [] \<and> last out \<noteq> ''..'' then clean_parts rooted (butlast out) ps
         else if rooted then clean_parts rooted out ps
         else clean_parts rooted (out @ [p]) ps)
      else clean_parts rooted (out @ [p]) ps)"

definition path_clean :: "string \<Rightarrow> string" where
  "path_clean p =
     (if p = [] then ''.''
      else let rooted = has_prefix p ''/'';
               body = join_with ''/'' (clean_parts rooted [] (split_at (CHR ''/'') p))
           in if rooted then CHR ''/'' # body else if body = [] then ''.'' else body)"

definition path_base :: "string \<Rightarrow> string" where
  "path_base p =
     (if p = [] then ''.''
      else let q = trim_right_by (\<lambda>c. c = CHR ''/'') p
           in if q = [] then ''/'' else last (split_at (CHR ''/'') q))"

definition path_join2 :: "string \<Rightarrow> string \<Rightarrow> string" where
  "path_join2 a b = (if a = [] then path_clean b else path_clean (a @ ''/'' @ b))"

text \<open>\<open>filepath.Ext\<close>: from the last dot of the last element.\<close>

definition path_ext :: "string \<Rightarrow> string" where
  "path_ext p =
     (case cut_last (CHR ''.'') (last (split_at (CHR ''/'') p)) of
        None \<Rightarrow> [] | Some (_, e) \<Rightarrow> CHR ''.'' # e)"

subsection \<open>JSON documents\<close>

datatype json =
    JNull
  | JBool bool
  | JNum string
  | JStr string
  | JArr "json list"
  | JObj "(string \<times> json) list"

definition json_escape_char :: "char \<Rightarrow> string" where
  "json_escape_char c =
     (let v = (of_char c :: nat)
      in if v = 34 then [char_of (92::nat), c]
         else if v = 92 then [c, c]
         else if v = 10 then char_of (92::nat) # ''n''
         else if v = 13 then char_of (92::nat) # ''r''
         else if v = 9 then char_of (92::nat) # ''t''
         else if v = 8 then char_of (92::nat) # ''b''
         else if v = 12 then char_of (92::nat) # ''f''
         else if v < 32 \<or> v = 60 \<or> v = 62 \<or> v = 38
         then char_of (92::nat) # ''u00'' @ [hex_char (v div 16), hex_char (v mod 16)]
         else [c])"

definition json_quote :: "string \<Rightarrow> string" where
  "json_quote s = char_of (34::nat) # concat (map json_escape_char s) @ [char_of (34::nat)]"

fun json_text :: "json \<Rightarrow> string" where
  "json_text JNull = ''null''"
| "json_text (JBool b) = (if b then ''true'' else ''false'')"
| "json_text (JNum n) = n"
| "json_text (JStr s) = json_quote s"
| "json_text (JArr xs) = ''['' @ join_with '','' (map json_text xs) @ '']''"
| "json_text (JObj kvs) =
     ''{'' @ join_with '','' (map (\<lambda>(k, v). json_quote k @ '':'' @ json_text v) kvs) @ ''}''"

text \<open>
  A \<open>json.RawMessage\<close>: bytes that are not valid JSON (the empty message among them), or
  the compact text of a document.
\<close>

datatype raw_json = RawBytes string | RawJSON json

definition raw_len :: "raw_json \<Rightarrow> nat" where
  "raw_len r = (case r of RawBytes s \<Rightarrow> length s | RawJSON j \<Rightarrow> length (json_text j))"

definition raw_valid :: "raw_json \<Rightarrow> bool" where
  "raw_valid r = (case r of RawBytes _ \<Rightarrow> False | RawJSON _ \<Rightarrow> True)"

subsection \<open>The text of a time stamp\<close>

definition pad_left :: "nat \<Rightarrow> string \<Rightarrow> string" where
  "pad_left n s = replicate (n - length s) (CHR ''0'') @ s"

text \<open>The proleptic Gregorian date of a day number counted from the first of January 1970.\<close>

definition civil_of_days :: "int \<Rightarrow> int \<times> int \<times> int" where
  "civil_of_days d =
     (let z = d + 719468;
          era = z div 146097;
          doe = z - era * 146097;
          yoe = (doe - doe div 1460 + doe div 36524 - doe div 146096) div 365;
          doy = doe - (365 * yoe + yoe div 4 - yoe div 100);
          mp = (5 * doy + 2) div 153;
          day = doy - (153 * mp + 2) div 5 + 1;
          month = (if mp < 10 then mp + 3 else mp - 9);
          year = yoe + era * 400 + (if month \<le> 2 then 1 else 0)
      in (year, month, day))"

definition fraction_text :: "int \<Rightarrow> string" where
  "fraction_text ns =
     (if ns = 0 then [] else CHR ''.'' # trim_right_by (\<lambda>c. c = CHR ''0'') (pad_left 9 (fmt_int ns)))"

definition rfc3339_nano_text :: "time \<Rightarrow> string" where
  "rfc3339_nano_text t =
     (let secs = t div second; ns = t mod second;
          (y, m, d) = civil_of_days (secs div 86400); sod = secs mod 86400
      in pad_left 4 (fmt_int y) @ ''-'' @ pad_left 2 (fmt_int m) @ ''-'' @ pad_left 2 (fmt_int d) @ ''T''
         @ pad_left 2 (fmt_int (sod div 3600)) @ '':'' @ pad_left 2 (fmt_int (sod div 60 mod 60)) @ '':''
         @ pad_left 2 (fmt_int (sod mod 60)) @ fraction_text ns @ ''Z'')"

definition stamp_text :: "stamp \<Rightarrow> string" where
  "stamp_text s = (case s of NoStamp \<Rightarrow> [] | Stamp t \<Rightarrow> rfc3339_nano_text t | BadStamp x \<Rightarrow> x)"

section \<open>Lemmas\<close>

lemma hex_val_upper_hex_char [simp]: "d < 16 \<Longrightarrow> hex_val (upper_hex_char d) = Some d"
  by (auto simp: hex_val_def upper_hex_char_def Let_def)

lemma query_safe_plain: "query_safe c \<Longrightarrow> c \<noteq> CHR ''%'' \<and> c \<noteq> CHR ''+''"
  by (auto simp: query_safe_def is_alnum_def is_digit_def is_upper_def is_lower_def)

lemma of_char_nibbles: "(of_char c :: nat) div 16 < 16" "(of_char c :: nat) mod 16 < 16"
  using nat_of_char_less_256 [of c] by (simp_all add: div_less_iff_less_mult)

lemma query_unescape_escape [simp]: "query_unescape (query_escape s) = Some s"
proof (induction s)
  case Nil
  then show ?case by simp
next
  case (Cons c cs)
  then show ?case
    using query_safe_plain [of c] of_char_nibbles [of c] by (cases "query_safe c") auto
qed

lemma upper_hex_char_plain:
  "d < 16 \<Longrightarrow> upper_hex_char d \<notin> {CHR ''&'', CHR ''='', CHR '';''}"
proof -
  assume "d < 16"
  then have "(of_char (upper_hex_char d) :: nat) \<in> {48..57} \<union> {65..70}"
    by (auto simp: upper_hex_char_def)
  moreover have "(of_char (CHR ''&'') :: nat) = 38" "(of_char (CHR ''='') :: nat) = 61"
    "(of_char (CHR '';'') :: nat) = 59" by simp_all
  ultimately show ?thesis by auto
qed

lemma query_escape_plain:
  assumes "x \<in> {CHR ''&'', CHR ''='', CHR '';''}"
  shows "x \<notin> set (query_escape s)"
proof (induction s)
  case Nil
  then show ?case by simp
next
  case (Cons c cs)
  have "\<not> query_safe x"
    using assms by (auto simp: query_safe_def is_alnum_def is_digit_def is_upper_def is_lower_def)
  then show ?case
    using Cons.IH assms upper_hex_char_plain [of "of_char c div 16"]
      upper_hex_char_plain [of "of_char c mod 16"] of_char_nibbles [of c]
    by auto
qed

end
