(* ===== verification/Live_Contract.thy ===== *)
theory Live_Contract
  imports Go_Library
begin

section \<open>The paid-session contract (live-runner/contract.go)\<close>

text \<open>
  The wire types of the live runner and their validators, the event cursor, replay
  classification and the metering of a finished timeline.  Each Go struct is a record with the
  source's field names; where two structs of the package share a name the second one carries
  a short prefix (\<open>EvState\<close>, \<open>StState\<close>).  A pointer field is an \<open>option\<close>.
  A validator returns \<open>None\<close> for \<open>nil\<close>, and its conditions stand in the order of
  the source.  Where the source ranges over a map, the model takes the entries in the order the
  source writes them.
\<close>

subsection \<open>Constants\<close>

definition PaidSessionProtocolV1 :: string where "PaidSessionProtocolV1 = ''paid-session/v1''"
definition RuntimeSchemaV1 :: string where "RuntimeSchemaV1 = ''rtmp-hls/v1''"
definition SessionParamsSchemaV1 :: string where "SessionParamsSchemaV1 = ''rtmp-hls-session/v1''"
definition PaidSessionVersionV1 :: string where "PaidSessionVersionV1 = ''1.2.0''"
definition RuntimeSchemaVersionV1 :: string where "RuntimeSchemaVersionV1 = ''1.1.0''"
definition SessionParamsVersionV1 :: string where "SessionParamsVersionV1 = ''1.0.0''"
definition WorkUnitV1 :: string where "WorkUnitV1 = ''output_seconds''"
definition GrantOperationV1 :: string where "GrantOperationV1 = ''stream-key-issue''"
definition OutputStateWaitingV1 :: string where "OutputStateWaitingV1 = ''waiting''"
definition OutputStateProducingV1 :: string where "OutputStateProducingV1 = ''producing''"
definition OutputStateStalledV1 :: string where "OutputStateStalledV1 = ''stalled''"

definition closeReasonsV1 :: "string list" where
  "closeReasonsV1 =
    [''gateway_close'', ''lease_expired'', ''heartbeat_lost'',
     ''runway_exhausted'', ''refill_refused'', ''recovery_failed'',
     ''payment_unrecoverable'', ''runner_failed'', ''ingest_failed'',
     ''output_failed'',
     ''runner_ended'', ''insufficient_balance'', ''authorization_exhausted'',
     ''open_failed'', ''capacity_exhausted'',
     ''lease_exhausted'', ''customer_end'', ''publisher_disconnect'',
     ''broker_ended'', ''relay_failure'', ''refill_preannounced_refusal'',
     ''refill_policy_exhausted'', ''refill_total_exceeded'']"

definition ladderFailureCodesV1 :: "string list" where
  "ladderFailureCodesV1 =
    [''encoder_init_failed'', ''hwaccel_init_failed'', ''input_unavailable'',
     ''output_rejected'', ''process_killed'', ''unknown'']"

subsection \<open>Wire types\<close>

record S3SessionStorageV1 =
  Endpoint :: string
  Region :: string
  Bucket :: string
  Prefix :: string
  AccessKeyID :: string
  SecretAccessKey :: string
  SessionToken :: string
  ForcePathStyle :: bool

record StorageV1 =
  Kind :: string
  S3 :: "S3SessionStorageV1 option"

record RTMPHLSSessionParamsV1 =
  ParamsSchema :: string
  PublisherMode :: string
  OutputProfile :: string
  MeteringRendition :: string
  Storage :: StorageV1

record RunnerCreateRequestV1 =
  SessionID :: string
  WorkID :: string
  Capability :: string
  Offering :: string
  SessionParams :: RTMPHLSSessionParamsV1
  CallbackURL :: string
  CallbackToken :: string

record RuntimePublicV1 =
  RTMPURL :: string
  HLSURL :: string
  KeyIssueURL :: string
  StatusURL :: string

record GrantV1 =
  GrantID :: string
  Operations :: "string list"
  Secret :: string
  ExpiresAt :: stamp

record RuntimeDescriptorV1 =
  RtSchema :: string
  Public :: RuntimePublicV1
  Grants :: "GrantV1 list"

record RunnerCreateResponseV1 =
  RespRunnerSessionID :: string
  Runtime :: RuntimeDescriptorV1

record UsageV1 =
  Unit :: string
  Total :: u64

record CallbackRejectionStatusV1 =
  RejEventType :: string
  RejStatusCode :: int
  RejErrorCode :: string
  RejRejectedAt :: stamp

record RunnerStatusV1 =
  StRunnerSessionID :: string
  StState :: string
  StUsage :: UsageV1
  StLastSequence :: u64
  StCloseReason :: string
  StOutputState :: string
  StLastFailureCode :: string
  StCallbackRejectedTotal :: u64
  StLastCallbackRejection :: "CallbackRejectionStatusV1 option"

record RunnerEventV1 =
  EventID :: string
  Sequence :: u64
  EventType :: string
  EventTime :: stamp
  EvState :: string
  EvUsage :: "UsageV1 option"
  EvCloseReason :: "string option"
  Details :: raw_json

record EventCursorV1 =
  CurSequence :: u64
  CurUsageTotal :: u64
  CurHasUsage :: bool
  CurSeenIDs :: "string list"

record StreamKeyIssueRequestV1 =
  RequestID :: string
  Audience :: string

record StreamKeyIssueResponseV1 =
  RespRequestID :: string
  StreamKey :: string
  KeyExpiresAt :: stamp

datatype ReplayDispositionV1 = ReplayIdenticalV1 | RejectIDReuseV1

record TerminateRequestV1 =
  Reason :: string

record TerminateResponseV1 =
  TermRunnerSessionID :: string
  TermState :: string
  TermCloseReason :: string

record RunnerPathsV1 =
  PathReconcile :: string
  PathCreate :: string
  PathStatus :: string
  PathTerminate :: string

record LiveRunnerContractDocumentV1 =
  CapabilityID :: string
  Protocol :: string
  DescriptorSchemas :: "string list"
  WorkUnitName :: string
  MeteringKind :: string
  HeartbeatIntervalSeconds :: u32
  ReadinessType :: string
  ReadinessPath :: string
  SessionParamsSchema :: raw_json
  Paths :: RunnerPathsV1
  Identity :: "(string \<times> string) list"
  SchemaVersions :: "(string \<times> string) list"

subsection \<open>Small predicates\<close>

definition validStateV1 :: "string \<Rightarrow> bool" where
  "validStateV1 v \<longleftrightarrow> v = ''active'' \<or> v = ''ended'' \<or> v = ''failed''"

definition validCloseReasonV1 :: "string \<Rightarrow> bool" where
  "validCloseReasonV1 v \<longleftrightarrow> v \<in> set closeReasonsV1"

definition validOutputStateV1 :: "string \<Rightarrow> bool" where
  "validOutputStateV1 v \<longleftrightarrow>
     v = OutputStateWaitingV1 \<or> v = OutputStateProducingV1 \<or> v = OutputStateStalledV1"

definition validLadderFailureCodeV1 :: "string \<Rightarrow> bool \<Rightarrow> bool" where
  "validLadderFailureCodeV1 v allowEmpty \<longleftrightarrow>
     (if v = [] then allowEmpty else v \<in> set ladderFailureCodesV1)"

definition validAuthorizationIDV1 :: "string \<Rightarrow> bool" where
  "validAuthorizationIDV1 v = opaqueIDPattern v"

definition validateURLScheme :: "string \<Rightarrow> string list \<Rightarrow> error" where
  "validateURLScheme raw schemes =
     (case url_parse raw of
        None \<Rightarrow> err ''URL is invalid''
      | Some parsed \<Rightarrow>
          if Host parsed = [] \<or> UserInfo parsed \<noteq> None then err ''URL is invalid''
          else if Scheme parsed \<in> set schemes then None
          else err ''URL scheme is invalid'')"

definition validateHTTPURL :: "string \<Rightarrow> error" where
  "validateHTTPURL raw = validateURLScheme raw [''http'', ''https'']"

text \<open>\<open>callbackErrorCodePatternV1\<close> and \<open>validCallbackFailureV1\<close> of callback.go.\<close>

definition callbackErrorCodePatternV1 :: "string \<Rightarrow> bool" where
  "callbackErrorCodePatternV1 s \<longleftrightarrow>
     (case s of [] \<Rightarrow> False
      | c # cs \<Rightarrow> is_lower c \<and> length cs \<le> 63 \<and>
          list_all (\<lambda>x. is_lower x \<or> is_digit x \<or> x \<in> set ''_.-'') cs)"

definition validCallbackFailureV1 :: "int \<Rightarrow> string \<Rightarrow> bool \<Rightarrow> bool" where
  "validCallbackFailureV1 statusCode errorCode allowTransport \<longleftrightarrow>
     (if statusCode = 0 then allowTransport \<and> (errorCode = [] \<or> errorCode = ''transport_error'')
      else 100 \<le> statusCode \<and> statusCode \<le> 599 \<and> callbackErrorCodePatternV1 errorCode)"

subsection \<open>Validators\<close>

definition validateStorageV1 :: "StorageV1 \<Rightarrow> error" where
  "validateStorageV1 v =
     (if Kind v = ''runner-local'' then
        (if S3 v \<noteq> None then err ''runner-local storage cannot include s3 credentials'' else None)
      else if Kind v = ''s3'' then
        (case S3 v of
           None \<Rightarrow> err ''s3 storage credentials are required''
         | Some s3 \<Rightarrow>
             if validateHTTPURL (Endpoint s3) \<noteq> None \<or> Region s3 = [] \<or> Bucket s3 = [] \<or> Prefix s3 = []
                \<or> contains (Prefix s3) ''..'' \<or> has_prefix (Prefix s3) ''/''
                \<or> contains_any (Prefix s3) [CHR ''?'', CHR 0x5C, CHR 0x0D, CHR 0x0A]
                \<or> AccessKeyID s3 = [] \<or> SecretAccessKey s3 = [] \<or> SessionToken s3 = []
             then err ''s3 session storage is invalid'' else None)
      else err ''storage kind is invalid'')"

definition ValidateCreateRequestV1 :: "RunnerCreateRequestV1 \<Rightarrow> error" where
  "ValidateCreateRequestV1 v =
     (let p = SessionParams v in
      if \<not> opaqueIDPattern (SessionID v) \<or> \<not> validAuthorizationIDV1 (WorkID v)
      then err ''session or work identity is invalid''
      else if trim_space (Capability v) = [] \<or> trim_space (Offering v) = []
      then err ''capability and offering are required''
      else if ParamsSchema p \<noteq> SessionParamsSchemaV1
              \<or> (PublisherMode p \<noteq> ''gateway-relay'' \<and> PublisherMode p \<noteq> ''direct-publisher'')
      then err ''session parameter schema or publisher mode is invalid''
      else if \<not> opaqueIDPattern (OutputProfile p) \<or> \<not> opaqueIDPattern (MeteringRendition p)
      then err ''output profile or metering rendition is invalid''
      else (case validateStorageV1 (Storage p) of
              Some e \<Rightarrow> Some e
            | None \<Rightarrow>
                if validateHTTPURL (CallbackURL v) \<noteq> None \<or> CallbackToken v = []
                then err ''callback coordinates are invalid'' else None))"

definition ValidateCreateResponseV1 :: "RunnerCreateResponseV1 \<Rightarrow> error" where
  "ValidateCreateResponseV1 v =
     (let pub = Public (Runtime v) in
      if \<not> opaqueIDPattern (RespRunnerSessionID v) \<or> RtSchema (Runtime v) \<noteq> RuntimeSchemaV1
      then err ''runner session or runtime schema is invalid''
      else case validateURLScheme (RTMPURL pub) [''rtmp'', ''rtmps''] of
        Some e \<Rightarrow> Some (ErrWrap ''rtmp_url'' e)
      | None \<Rightarrow>
      (case validateHTTPURL (HLSURL pub) of
        Some e \<Rightarrow> Some (ErrWrap ''hls_url'' e)
      | None \<Rightarrow>
      (case validateHTTPURL (KeyIssueURL pub) of
        Some e \<Rightarrow> Some (ErrWrap ''key_issue_url'' e)
      | None \<Rightarrow>
      (case (if StatusURL pub \<noteq> [] then validateHTTPURL (StatusURL pub) else None) of
        Some e \<Rightarrow> Some e
      | None \<Rightarrow>
      (case Grants (Runtime v) of
        [grant] \<Rightarrow>
          if \<not> opaqueIDPattern (GrantID grant) \<or> Operations grant \<noteq> [GrantOperationV1] \<or> Secret grant = []
          then err ''stream-key-issue grant is invalid''
          else if parse_stamp (ExpiresAt grant) = None then err ''grant expiry is invalid''
          else None
      | _ \<Rightarrow> err ''rtmp-hls requires exactly one grant'')))))"

definition ValidateStatusV1 :: "RunnerStatusV1 \<Rightarrow> error" where
  "ValidateStatusV1 v =
     (if \<not> opaqueIDPattern (StRunnerSessionID v) \<or> \<not> validStateV1 (StState v)
         \<or> Unit (StUsage v) \<noteq> WorkUnitV1 \<or> \<not> validOutputStateV1 (StOutputState v)
         \<or> \<not> validLadderFailureCodeV1 (StLastFailureCode v) True
      then err ''runner status is invalid''
      else if (StState v = ''ended'' \<or> StState v = ''failed'') \<noteq> (StCloseReason v \<noteq> [])
      then err ''terminal status requires a close reason''
      else if StCloseReason v \<noteq> [] \<and> \<not> validCloseReasonV1 (StCloseReason v)
      then err ''terminal status close reason is invalid''
      else if (StCallbackRejectedTotal v = 0) \<noteq> (StLastCallbackRejection v = None)
      then err ''runner callback rejection status is invalid''
      else (case StLastCallbackRejection v of
              None \<Rightarrow> None
            | Some rejection \<Rightarrow>
                if RejEventType rejection = []
                   \<or> \<not> validCallbackFailureV1 (RejStatusCode rejection) (RejErrorCode rejection) False
                then err ''runner callback rejection status is invalid''
                else if parse_stamp (RejRejectedAt rejection) = None
                then err ''runner callback rejection time is invalid''
                else None))"

text \<open>
  The scan for credential-bearing details.  The key list of an object holds each key once, as
  the decoded Go map does.
\<close>

definition forbiddenDetailKeys :: "string list" where
  "forbiddenDetailKeys =
     [''token'', ''secret'', ''credential'', ''authorization'', ''stream_key'', ''streamkey'', ''url'', ''password'']"

fun unsafeEventDetailV1 :: "json \<Rightarrow> bool" where
  "unsafeEventDetailV1 (JObj kvs) =
     list_ex (\<lambda>(key, child).
        list_ex (contains (to_lower key)) forbiddenDetailKeys \<or> unsafeEventDetailV1 child) kvs"
| "unsafeEventDetailV1 (JArr xs) = list_ex unsafeEventDetailV1 xs"
| "unsafeEventDetailV1 (JStr s) =
     (let lower = to_lower s
      in contains lower ''://'' \<or> contains lower ''sig='' \<or> contains lower ''bearer '')"
| "unsafeEventDetailV1 _ = False"

definition validateSafeEventDetailsV1 :: "raw_json \<Rightarrow> error" where
  "validateSafeEventDetailsV1 raw =
     (if raw_len raw = 0 \<or> raw_len raw > 2048 \<or> \<not> raw_valid raw
      then err ''event details must be bounded JSON''
      else (case raw of
              RawJSON (JObj kvs) \<Rightarrow>
                if unsafeEventDetailV1 (JObj kvs)
                then err ''event details contain credential-bearing data'' else None
            | _ \<Rightarrow> err ''event details must be a JSON object''))"

definition closeReasonOK :: "string option \<Rightarrow> bool" where
  "closeReasonOK r = (case r of None \<Rightarrow> False | Some c \<Rightarrow> validCloseReasonV1 c)"

text \<open>The switch over the event type.\<close>

definition validateEventTypeV1 :: "RunnerEventV1 \<Rightarrow> error" where
  "validateEventTypeV1 v =
     (if EventType v \<in> {''session.started'', ''session.heartbeat'', ''session.ladder.restart'',
                        ''session.output.stalled''}
      then (if EvState v \<noteq> ''active'' then err ''liveness event must be active'' else None)
      else if EventType v = ''session.usage.tick''
      then (if EvState v \<noteq> ''active'' \<or> EvUsage v = None then err ''usage event is invalid'' else None)
      else if EventType v = ''session.failed''
      then (if EvState v \<noteq> ''failed'' \<or> EvUsage v = None \<or> \<not> closeReasonOK (EvCloseReason v)
            then err ''failed event is invalid'' else None)
      else if EventType v = ''session.ended''
      then (if EvState v \<noteq> ''ended'' \<or> EvUsage v = None \<or> \<not> closeReasonOK (EvCloseReason v)
            then err ''ended event is invalid'' else None)
      else err ''event type is invalid'')"

definition ValidateEventV1 :: "RunnerEventV1 \<Rightarrow> error" where
  "ValidateEventV1 v =
     (if \<not> opaqueIDPattern (EventID v) \<or> Sequence v = 0 then err ''event identity is invalid''
      else if parse_stamp (EventTime v) = None then err ''event time is invalid''
      else if \<not> validStateV1 (EvState v) then err ''event state is invalid''
      else (case validateEventTypeV1 v of
              Some e \<Rightarrow> Some e
            | None \<Rightarrow>
                if (case EvUsage v of None \<Rightarrow> False | Some u \<Rightarrow> Unit u \<noteq> WorkUnitV1)
                then err ''event work unit is invalid''
                else validateSafeEventDetailsV1 (Details v)))"

definition ValidateEventAdvanceV1 :: "RunnerEventV1 \<Rightarrow> RunnerEventV1 \<Rightarrow> error" where
  "ValidateEventAdvanceV1 previous next =
     (case ValidateEventV1 next of
        Some e \<Rightarrow> Some e
      | None \<Rightarrow>
          if Sequence next \<le> Sequence previous \<or> EventID next = EventID previous
          then err ''event sequence did not advance''
          else (case (EvUsage previous, EvUsage next) of
                  (Some p, Some n) \<Rightarrow>
                    if Total n < Total p then err ''cumulative usage decreased'' else None
                | _ \<Rightarrow> None))"

text \<open>The method \<open>Accept\<close> of the cursor: the updated cursor, or the error.\<close>

definition EventCursor_Accept :: "EventCursorV1 \<Rightarrow> RunnerEventV1 \<Rightarrow> EventCursorV1 result" where
  "EventCursor_Accept cursor event =
     (case ValidateEventV1 event of
        Some e \<Rightarrow> Inl e
      | None \<Rightarrow>
          if Sequence event \<le> CurSequence cursor then fails ''event sequence did not advance''
          else if EventID event \<in> set (CurSeenIDs cursor) then fails ''event ID was reused''
          else if (case EvUsage event of None \<Rightarrow> False
                   | Some u \<Rightarrow> CurHasUsage cursor \<and> Total u < CurUsageTotal cursor)
          then fails ''cumulative usage decreased''
          else (let c1 = cursor\<lparr>CurSequence := Sequence event,
                                CurSeenIDs := EventID event # CurSeenIDs cursor\<rparr>
                in Inr (case EvUsage event of
                          None \<Rightarrow> c1
                        | Some u \<Rightarrow> c1\<lparr>CurUsageTotal := Total u, CurHasUsage := True\<rparr>)))"

definition ValidateStreamKeyIssueRequestV1 :: "StreamKeyIssueRequestV1 \<Rightarrow> error" where
  "ValidateStreamKeyIssueRequestV1 v =
     (if \<not> opaqueIDPattern (RequestID v)
         \<or> (Audience v \<noteq> ''gateway-relay'' \<and> Audience v \<noteq> ''direct-publisher'')
      then err ''key issuance request is invalid'' else None)"

definition ValidateStreamKeyIssueResponseV1 ::
    "StreamKeyIssueRequestV1 \<Rightarrow> StreamKeyIssueResponseV1 \<Rightarrow> error" where
  "ValidateStreamKeyIssueResponseV1 request response =
     (if RespRequestID response \<noteq> RequestID request \<or> trim_space (StreamKey response) = []
         \<or> length (StreamKey response) > 512
      then err ''key issuance response is invalid''
      else if parse_stamp (KeyExpiresAt response) = None then err ''key expiry is invalid''
      else None)"

definition ClassifyReplayV1 :: "string \<Rightarrow> string \<Rightarrow> ReplayDispositionV1" where
  "ClassifyReplayV1 recordedFingerprint incomingFingerprint =
     (if recordedFingerprint = incomingFingerprint then ReplayIdenticalV1 else RejectIDReuseV1)"

definition ValidateTerminateV1 :: "TerminateRequestV1 \<Rightarrow> TerminateResponseV1 \<Rightarrow> error" where
  "ValidateTerminateV1 request response =
     (if \<not> validCloseReasonV1 (Reason request) \<or> \<not> opaqueIDPattern (TermRunnerSessionID response)
         \<or> (TermState response \<noteq> ''ended'' \<and> TermState response \<noteq> ''failed'')
         \<or> \<not> validCloseReasonV1 (TermCloseReason response)
      then err ''termination contract is invalid'' else None)"

subsection \<open>The advertised contract\<close>

definition sessionParamsSchemaDocument :: json where
  "sessionParamsSchemaDocument =
     JObj [(''$schema'', JStr ''https://json-schema.org/draft/2020-12/schema''),
           (''type'', JStr ''object''), (''additionalProperties'', JBool False),
           (''required'', JArr [JStr ''schema'', JStr ''publisher_mode'', JStr ''output_profile'',
                              JStr ''metering_rendition'', JStr ''storage'']),
           (''properties'', JObj
             [(''schema'', JObj [(''const'', JStr ''rtmp-hls-session/v1'')]),
              (''publisher_mode'', JObj [(''enum'', JArr [JStr ''gateway-relay'', JStr ''direct-publisher''])]),
              (''output_profile'', JObj [(''type'', JStr ''string'')]),
              (''metering_rendition'', JObj [(''type'', JStr ''string'')]),
              (''storage'', JObj [(''type'', JStr ''object'')])])]"

definition LiveRunnerContractV1 :: LiveRunnerContractDocumentV1 where
  "LiveRunnerContractV1 =
     \<lparr>CapabilityID = ''video:transcode.live'', Protocol = PaidSessionProtocolV1,
      DescriptorSchemas = [RuntimeSchemaV1], WorkUnitName = WorkUnitV1,
      MeteringKind = ''runner-reported'', HeartbeatIntervalSeconds = 5,
      ReadinessType = ''http-status'', ReadinessPath = ''/ready'',
      SessionParamsSchema = RawJSON sessionParamsSchemaDocument,
      Paths = \<lparr>PathReconcile = ''/v1/session-creates/reconcile'', PathCreate = ''/v1/sessions'',
               PathStatus = ''/v1/sessions/{id}'', PathTerminate = ''/v1/sessions/{id}''\<rparr>,
      Identity = [(''provider'', ''livepeer-live-runner'')],
      SchemaVersions = [(PaidSessionProtocolV1, PaidSessionVersionV1),
                        (RuntimeSchemaV1, RuntimeSchemaVersionV1),
                        (SessionParamsSchemaV1, SessionParamsVersionV1)]\<rparr>"

text \<open>Reading a Go map: a missing key gives the empty string.\<close>

definition map_read :: "(string \<times> string) list \<Rightarrow> string \<Rightarrow> string" where
  "map_read m k = (case map_of m k of None \<Rightarrow> [] | Some v \<Rightarrow> v)"

definition ValidateRunnerContractV1 :: "LiveRunnerContractDocumentV1 \<Rightarrow> error" where
  "ValidateRunnerContractV1 v =
     (if CapabilityID v \<noteq> ''video:transcode.live'' \<or> Protocol v \<noteq> PaidSessionProtocolV1
         \<or> DescriptorSchemas v \<noteq> [RuntimeSchemaV1] \<or> WorkUnitName v \<noteq> WorkUnitV1
         \<or> MeteringKind v \<noteq> ''runner-reported'' \<or> HeartbeatIntervalSeconds v = 0
      then err ''runner capability contract is invalid''
      else if ReadinessType v \<noteq> ''http-status'' \<or> ReadinessPath v \<noteq> ''/ready''
         \<or> PathCreate (Paths v) \<noteq> ''/v1/sessions''
         \<or> PathReconcile (Paths v) \<noteq> ''/v1/session-creates/reconcile''
         \<or> \<not> contains (PathStatus (Paths v)) ''{id}'' \<or> \<not> contains (PathTerminate (Paths v)) ''{id}''
         \<or> \<not> raw_valid (SessionParamsSchema v)
      then err ''runner paths or parameter schema is invalid''
      else if map_read (Identity v) ''provider'' = []
         \<or> map_read (SchemaVersions v) PaidSessionProtocolV1 \<noteq> PaidSessionVersionV1
         \<or> map_read (SchemaVersions v) RuntimeSchemaV1 \<noteq> RuntimeSchemaVersionV1
         \<or> map_read (SchemaVersions v) SessionParamsSchemaV1 \<noteq> SessionParamsVersionV1
      then err ''runner identity or schema versions are invalid''
      else None)"

subsection \<open>Metering of a timeline\<close>

fun sumSegmentsV1 :: "u64 \<Rightarrow> u64 list \<Rightarrow> u64 result" where
  "sumSegmentsV1 tot [] = Inr tot"
| "sumSegmentsV1 tot (duration # rest) =
     (let (tot', carry) = add64 tot duration
      in if carry \<noteq> 0 then fails ''output timeline overflow'' else sumSegmentsV1 tot' rest)"

definition CalculateOutputSecondsV1 :: "u64 list \<Rightarrow> u64 result" where
  "CalculateOutputSecondsV1 segmentMicroseconds =
     (case sumSegmentsV1 0 segmentMicroseconds of
        Inl e \<Rightarrow> Inl e
      | Inr tot \<Rightarrow> Inr (tot div 1000000))"

section \<open>Lemmas\<close>

lemma validCloseReason_not_Nil: "validCloseReasonV1 r \<Longrightarrow> r \<noteq> []"
  by (auto simp: validCloseReasonV1_def closeReasonsV1_def)

lemma publisher_disconnect_valid [simp]: "validCloseReasonV1 ''publisher_disconnect''"
  by (simp add: validCloseReasonV1_def closeReasonsV1_def)

lemma output_failed_valid [simp]: "validCloseReasonV1 ''output_failed''"
  by (simp add: validCloseReasonV1_def closeReasonsV1_def)

lemma validState_cases:
  "validStateV1 s \<longleftrightarrow> s = ''active'' \<or> s = ''ended'' \<or> s = ''failed''"
  by (simp add: validStateV1_def)

lemma validOutputState_consts [simp]:
  "validOutputStateV1 OutputStateWaitingV1" "validOutputStateV1 OutputStateProducingV1"
  "validOutputStateV1 OutputStateStalledV1"
  by (simp_all add: validOutputStateV1_def)

lemma ValidateEventV1_D:
  assumes "ValidateEventV1 e = None"
  shows "opaqueIDPattern (EventID e)" "Sequence e \<noteq> 0" "parse_stamp (EventTime e) \<noteq> None"
    "validStateV1 (EvState e)" "validateEventTypeV1 e = None"
  using assms by (auto simp: ValidateEventV1_def split: if_splits option.splits)

lemma ValidateEventV1_usage:
  "ValidateEventV1 e = None \<Longrightarrow> EvUsage e = Some u \<Longrightarrow> Unit u = WorkUnitV1"
  by (auto simp: ValidateEventV1_def split: if_splits option.splits)

lemma ValidateEventV1_details:
  "ValidateEventV1 e = None \<Longrightarrow> validateSafeEventDetailsV1 (Details e) = None"
  by (auto simp: ValidateEventV1_def split: if_splits option.splits)

text \<open>A terminal event carries usage and a close reason of the contract.\<close>

lemma ValidateEventV1_terminal:
  assumes "ValidateEventV1 e = None" and "EvState e \<noteq> ''active''"
  obtains u r where "EvUsage e = Some u" "EvCloseReason e = Some r" "validCloseReasonV1 r"
    "EvState e = ''ended'' \<or> EvState e = ''failed''"
  using assms(2) ValidateEventV1_D(4,5) [OF assms(1)]
  by (auto simp: validateEventTypeV1_def closeReasonOK_def validStateV1_def split: if_splits option.splits)

lemma EventCursor_Accept_Inr:
  assumes "EventCursor_Accept c e = Inr c'"
  shows "ValidateEventV1 e = None" "CurSequence c < Sequence e" "CurSequence c' = Sequence e"
    "EventID e \<notin> set (CurSeenIDs c)"
    "CurUsageTotal c' = (case EvUsage e of None \<Rightarrow> CurUsageTotal c | Some u \<Rightarrow> Total u)"
    "CurHasUsage c \<Longrightarrow> CurUsageTotal c \<le> CurUsageTotal c'"
  using assms
  by (auto simp: EventCursor_Accept_def Let_def not_le not_less split: option.splits if_splits)

lemma sumSegmentsV1_value:
  "sumSegmentsV1 t xs = Inr r \<Longrightarrow> unat r = unat t + sum_list (map unat xs)"
proof (induction xs arbitrary: t)
  case Nil
  then show ?case by simp
next
  case (Cons x xs)
  obtain t' c where a: "add64 t x = (t', c)" by (cases "add64 t x")
  with Cons.prems have "c = 0" and "sumSegmentsV1 t' xs = Inr r" by (auto split: if_splits)
  then show ?case using Cons.IH [of t'] add64_no_carry [of t x t'] a by simp
qed

lemma sumSegmentsV1_defined:
  "unat t + sum_list (map unat xs) < 2 ^ 64 \<Longrightarrow> \<exists>r. sumSegmentsV1 t xs = Inr r"
proof (induction xs arbitrary: t)
  case Nil
  then show ?case by simp
next
  case (Cons x xs)
  obtain t' c where a: "add64 t x = (t', c)" by (cases "add64 t x")
  have "snd (add64 t x) = 0" using Cons.prems by (simp add: add64_carry_iff)
  with a have c0: "c = 0" by simp
  with a have "unat t' = unat t + unat x" by (intro add64_no_carry) simp
  with Cons.prems have "unat t' + sum_list (map unat xs) < 2 ^ 64" by simp
  from Cons.IH [OF this] show ?case using a c0 by simp
qed

end
