(* ===== verification/Session_Store.thy ===== *)
theory Session_Store
  imports Live_Contract
begin

section \<open>The durable session store (live-runner/store.go, create_recovery.go)\<close>

text \<open>
  The encrypted per-session files of the live runner and every operation on them.

  \<^item> A session file is one \<open>SessionRecordV1\<close>; the directory is an association list
    from the broker session ID to the file, beside the create fences.  A file that cannot be
    read or that does not decode stays a value of its own, so that each error path is a branch.
  \<^item> Every method takes the mutex, loads and checks one record, decides, and replaces the file
    in one rename.  \<open>update_session\<close> is that shape; the decision of a method is its
    \<open>_step\<close> function from the loaded record to a result and, if it writes, the new record.
  \<^item> What the store takes from outside is the record \<open>env\<close>: hash, MAC and AEAD, the
    JSON texts they are applied to, random bytes, the clock, and what the file system answers to
    a save.  \<open>save_outcome\<close> tells a failure before the rename from one after it.
\<close>

subsection \<open>Records\<close>

definition sessionRecordVersionV1 :: int where "sessionRecordVersionV1 = 1"

definition maxCallbackDeadLettersV1 :: nat where "maxCallbackDeadLettersV1 = 32"

definition ErrSessionIDReuseV1 :: go_error where "ErrSessionIDReuseV1 = ErrSentinel ''runner_session_id_reuse''"
definition ErrRequestIDReuseV1 :: go_error where "ErrRequestIDReuseV1 = ErrSentinel ''request_id_reuse''"
definition ErrRequestSupersededV1 :: go_error where "ErrRequestSupersededV1 = ErrSentinel ''request_id_superseded''"
definition ErrKeyActivationInFlightV1 :: go_error where "ErrKeyActivationInFlightV1 = ErrSentinel ''key_activation_in_flight''"
definition ErrSessionTerminalV1 :: go_error where "ErrSessionTerminalV1 = ErrSentinel ''session_terminal''"
definition ErrCallbackNotDueV1 :: go_error where "ErrCallbackNotDueV1 = ErrSentinel ''callback_not_due''"
definition ErrCreateFencedV1 :: go_error where "ErrCreateFencedV1 = ErrSentinel ''session_create_fenced''"

lemmas sentinel_defs =
  ErrSessionIDReuseV1_def ErrRequestIDReuseV1_def ErrRequestSupersededV1_def
  ErrKeyActivationInFlightV1_def ErrSessionTerminalV1_def ErrCallbackNotDueV1_def ErrCreateFencedV1_def

record GrantAuditV1 =
  AuditID :: string
  AuditOperations :: "string list"
  SecretSHA256 :: string
  AuditExpiresAt :: stamp

record CallbackDeliveryAttemptV1 =
  AttEventID :: string
  AttAttempts :: u32
  LastAttemptAt :: stamp
  NextAttemptAt :: stamp
  LastStatusCode :: int
  LastErrorCode :: string

record CallbackDeadLetterV1 =
  LetterEvent :: RunnerEventV1
  LetterAttempts :: u32
  LetterStatusCode :: int
  LetterErrorCode :: string
  LetterRejectedAt :: stamp

record SessionRecordV1 =
  Version :: int
  BrokerSessionID :: string
  RunnerSessionID :: string
  CreateFingerprint :: string
  State :: string
  Stopping :: bool
  PendingCloseReason :: string
  PendingTerminalState :: string
  PendingKeyActivationID :: string
  RuntimePublic :: RuntimePublicV1
  GrantAudit :: GrantAuditV1
  UsageTotal :: u64
  LastSequence :: u64
  MeteredMicroseconds :: u64
  MeteredSegmentSHA256 :: "string list"
  PublisherSeen :: bool
  PublisherOfflineSince :: stamp
  PublisherDeadline :: stamp
  IngestOnlineAt :: stamp
  FirstFinalizedSegmentAt :: stamp
  LastFinalizedSegmentAt :: stamp
  OutputState :: string
  OutputStateSince :: stamp
  LastLadderFailureCode :: string
  LadderFailureWindowAt :: stamp
  LadderConsecutiveFailures :: u32
  LastEventAt :: stamp
  PendingEvents :: "RunnerEventV1 list"
  CallbackDelivery :: "CallbackDeliveryAttemptV1 option"
  CallbackDeadLetters :: "CallbackDeadLetterV1 list"
  CallbackRejectedTotal :: u64
  CloseReason :: string
  IntegritySHA256 :: string
  WrappedKeyNonce :: string
  WrappedKeyCiphertext :: string
  SecretNonce :: string
  SecretCiphertext :: string

record StoredKeyIssueV1 =
  Fingerprint :: string
  IssueRequest :: StreamKeyIssueRequestV1
  IssueResponse :: StreamKeyIssueResponseV1

text \<open>The map of issued keys is an association list with one entry per request ID.\<close>

record SessionSecretsV1 =
  CreateRequest :: RunnerCreateRequestV1
  CreateResponse :: RunnerCreateResponseV1
  CurrentKeyID :: string
  KeyIssues :: "(string \<times> StoredKeyIssueV1) list"

record FinalizedHLSSegmentV1 =
  URI :: string
  DurationMicroseconds :: u64

subsection \<open>The environment and the directory\<close>

record env =
  sha256 :: "string \<Rightarrow> string"
  hmac_sha256 :: "string \<Rightarrow> string \<Rightarrow> string"
  gcm_seal :: "string \<Rightarrow> string \<Rightarrow> string \<Rightarrow> string \<Rightarrow> string"
  gcm_open :: "string \<Rightarrow> string \<Rightarrow> string \<Rightarrow> string \<Rightarrow> string option"
  json_record :: "SessionRecordV1 \<Rightarrow> string"
  json_secrets :: "SessionSecretsV1 \<Rightarrow> string"
  decode_secrets :: "string \<Rightarrow> SessionSecretsV1 option"
  json_create :: "RunnerCreateRequestV1 \<Rightarrow> string"
  json_key_issue :: "StreamKeyIssueRequestV1 \<Rightarrow> string"
  master_key :: string
  rand_read :: "nat \<Rightarrow> nat \<Rightarrow> string option"
  time_now :: time
  save_io :: save_outcome
  read_dir_ok :: bool

datatype session_file = FUnreadable | FGarbage | FRecord SessionRecordV1

record disk =
  Files :: "(string \<times> session_file) list"
  Fences :: "(string \<times> string) list"

definition nonceSize :: nat where "nonceSize = 12"

definition deriveKeyV1 :: "env \<Rightarrow> string \<Rightarrow> string" where
  "deriveKeyV1 E label = hmac_sha256 E (master_key E) label"

definition encryptionKey :: "env \<Rightarrow> string" where
  "encryptionKey E = deriveKeyV1 E ''session-store/encryption/v1''"

definition integrityKey :: "env \<Rightarrow> string" where
  "integrityKey E = deriveKeyV1 E ''session-store/integrity/v1''"

definition secretSHA256V1 :: "env \<Rightarrow> string \<Rightarrow> string" where
  "secretSHA256V1 E v = hex_encode (sha256 E v)"

definition canonicalHashV1 :: "env \<Rightarrow> string \<Rightarrow> string" where
  "canonicalHashV1 E body = hex_encode (sha256 E body)"

definition CreateFingerprintV1 :: "env \<Rightarrow> RunnerCreateRequestV1 \<Rightarrow> string" where
  "CreateFingerprintV1 E v = canonicalHashV1 E (json_create E v)"

definition KeyIssueFingerprintV1 :: "env \<Rightarrow> StreamKeyIssueRequestV1 \<Rightarrow> string" where
  "KeyIssueFingerprintV1 E v = canonicalHashV1 E (json_key_issue E v)"

definition eventIDFor :: "SessionRecordV1 \<Rightarrow> u64 \<Rightarrow> string" where
  "eventIDFor r sequence = RunnerSessionID r @ '':'' @ fmt_u64 sequence"

subsection \<open>Integrity and validation of a record\<close>

definition integrityV1 :: "env \<Rightarrow> SessionRecordV1 \<Rightarrow> string" where
  "integrityV1 E r = hex_encode (hmac_sha256 E (integrityKey E) (json_record E (r\<lparr>IntegritySHA256 := []\<rparr>)))"

definition verifyIntegrityV1 :: "env \<Rightarrow> SessionRecordV1 \<Rightarrow> error" where
  "verifyIntegrityV1 E r =
     (if \<not> workIDPattern (IntegritySHA256 r) then err ''session record integrity is invalid''
      else if integrityV1 E r \<noteq> IntegritySHA256 r then err ''session record integrity check failed''
      else None)"

text \<open>The loop over the event outbox, with the sequence and usage seen so far.\<close>

fun validateOutboxV1 :: "SessionRecordV1 \<Rightarrow> u64 \<Rightarrow> u64 \<Rightarrow> bool \<Rightarrow> RunnerEventV1 list \<Rightarrow> error" where
  "validateOutboxV1 r previousSequence previousUsage hasUsage [] = None"
| "validateOutboxV1 r previousSequence previousUsage hasUsage (event # rest) =
     (if ValidateEventV1 event \<noteq> None \<or> EventID event \<noteq> eventIDFor r (Sequence event)
         \<or> Sequence event \<le> previousSequence \<or> Sequence event > LastSequence r
      then err ''session record event outbox is invalid''
      else (case EvUsage event of
              None \<Rightarrow> validateOutboxV1 r (Sequence event) previousUsage hasUsage rest
            | Some u \<Rightarrow>
                if hasUsage \<and> Total u < previousUsage
                then err ''session record event outbox usage is invalid''
                else validateOutboxV1 r (Sequence event) (Total u) True rest))"

definition validateDeliveryV1 :: "SessionRecordV1 \<Rightarrow> error" where
  "validateDeliveryV1 r =
     (case CallbackDelivery r of
        None \<Rightarrow> None
      | Some attempt \<Rightarrow>
          if (case PendingEvents r of [] \<Rightarrow> True | e # _ \<Rightarrow> EventID e \<noteq> AttEventID attempt)
             \<or> AttAttempts attempt = 0
             \<or> \<not> validCallbackFailureV1 (LastStatusCode attempt) (LastErrorCode attempt) True
          then err ''session record callback delivery cursor is invalid''
          else (case (parse_stamp (LastAttemptAt attempt), parse_stamp (NextAttemptAt attempt)) of
                  (Some lastAttempt, Some nextAttempt) \<Rightarrow>
                    if nextAttempt < lastAttempt
                    then err ''session record callback delivery time is invalid'' else None
                | _ \<Rightarrow> err ''session record callback delivery time is invalid''))"

fun validateDeadLettersV1 :: "SessionRecordV1 \<Rightarrow> CallbackDeadLetterV1 list \<Rightarrow> error" where
  "validateDeadLettersV1 r [] = None"
| "validateDeadLettersV1 r (letter # rest) =
     (if ValidateEventV1 (LetterEvent letter) \<noteq> None
         \<or> EventID (LetterEvent letter) \<noteq> eventIDFor r (Sequence (LetterEvent letter))
         \<or> Sequence (LetterEvent letter) > LastSequence r \<or> LetterAttempts letter = 0
         \<or> \<not> validCallbackFailureV1 (LetterStatusCode letter) (LetterErrorCode letter) False
      then err ''session record callback dead letter is invalid''
      else if parse_stamp (LetterRejectedAt letter) = None
      then err ''session record callback dead-letter time is invalid''
      else validateDeadLettersV1 r rest)"

fun validateSegmentIDsV1 :: "string list \<Rightarrow> string list \<Rightarrow> error" where
  "validateSegmentIDsV1 seen [] = None"
| "validateSegmentIDsV1 seen (identity # rest) =
     (if \<not> workIDPattern identity then err ''session record segment identity is invalid''
      else if identity \<in> set seen then err ''session record segment identity is duplicated''
      else validateSegmentIDsV1 (identity # seen) rest)"

text \<open>\<open>first_error\<close> runs checks in order and keeps the first error, as early returns do.\<close>

fun first_error :: "error list \<Rightarrow> error" where
  "first_error [] = None"
| "first_error (c # cs) = (case c of None \<Rightarrow> first_error cs | Some e \<Rightarrow> Some e)"

definition check :: "bool \<Rightarrow> string \<Rightarrow> error" where
  "check bad msg = (if bad then err msg else None)"

definition hasSecretsV1 :: "SessionRecordV1 \<Rightarrow> bool" where
  "hasSecretsV1 r \<longleftrightarrow> WrappedKeyNonce r \<noteq> []"

definition stamp_ok :: "stamp \<Rightarrow> bool" where
  "stamp_ok s \<longleftrightarrow> s = NoStamp \<or> parse_stamp s \<noteq> None"

definition terminalV1 :: "SessionRecordV1 \<Rightarrow> bool" where
  "terminalV1 r \<longleftrightarrow> State r = ''ended'' \<or> State r = ''failed''"

definition hasMeteringCursor :: "SessionRecordV1 \<Rightarrow> bool" where
  "hasMeteringCursor r \<longleftrightarrow> MeteredMicroseconds r > 0 \<or> MeteredSegmentSHA256 r \<noteq> []"

definition validateSessionRecordV1 :: "SessionRecordV1 \<Rightarrow> string \<Rightarrow> error" where
  "validateSessionRecordV1 r sid = first_error
    [check (Version r \<noteq> sessionRecordVersionV1 \<or> BrokerSessionID r \<noteq> sid
            \<or> \<not> opaqueIDPattern (RunnerSessionID r) \<or> \<not> workIDPattern (CreateFingerprint r)
            \<or> \<not> validStateV1 (State r))
       ''session record identity is invalid'',
     check (list_ex (\<lambda>field. (field \<noteq> []) \<noteq> hasSecretsV1 r)
              [WrappedKeyCiphertext r, SecretNonce r, SecretCiphertext r])
       ''session record secret envelope is incomplete'',
     check (State r = ''active'' \<and> \<not> hasSecretsV1 r)
       ''session record secret envelope is incomplete'',
     check (\<not> validOutputStateV1 (OutputState r) \<or> \<not> validLadderFailureCodeV1 (LastLadderFailureCode r) True)
       ''session record output health is invalid'',
     check (list_ex (\<lambda>s. \<not> stamp_ok s)
              [OutputStateSince r, IngestOnlineAt r, FirstFinalizedSegmentAt r,
               LastFinalizedSegmentAt r, LadderFailureWindowAt r])
       ''session record output health time is invalid'',
     check (OutputStateSince r = NoStamp
            \<or> (LadderConsecutiveFailures r > 0) \<noteq> (LadderFailureWindowAt r \<noteq> NoStamp))
       ''session record output health cursor is invalid'',
     check (\<not> workIDPattern (SecretSHA256 (GrantAudit r)) \<or> \<not> opaqueIDPattern (AuditID (GrantAudit r))
            \<or> AuditOperations (GrantAudit r) \<noteq> [GrantOperationV1])
       ''session record grant audit is invalid'',
     check (parse_stamp (AuditExpiresAt (GrantAudit r)) = None)
       ''session record grant expiry is invalid'',
     check (validateURLScheme (RTMPURL (RuntimePublic r)) [''rtmp'', ''rtmps''] \<noteq> None)
       ''session record RTMP coordinate is invalid'',
     check (validateHTTPURL (HLSURL (RuntimePublic r)) \<noteq> None)
       ''session record HLS coordinate is invalid'',
     check (validateHTTPURL (KeyIssueURL (RuntimePublic r)) \<noteq> None)
       ''session record key issuance coordinate is invalid'',
     check (terminalV1 r \<noteq> (CloseReason r \<noteq> [])
            \<or> (CloseReason r \<noteq> [] \<and> \<not> validCloseReasonV1 (CloseReason r)))
       ''session record terminal state is invalid'',
     check (Stopping r \<noteq> (PendingCloseReason r \<noteq> []) \<or> Stopping r \<noteq> (PendingTerminalState r \<noteq> [])
            \<or> (PendingTerminalState r \<noteq> [] \<and> PendingTerminalState r \<noteq> ''ended''
               \<and> PendingTerminalState r \<noteq> ''failed'')
            \<or> (PendingCloseReason r \<noteq> [] \<and> \<not> validCloseReasonV1 (PendingCloseReason r))
            \<or> (terminalV1 r \<and> Stopping r))
       ''session record stopping state is invalid'',
     check (PendingKeyActivationID r \<noteq> []
            \<and> (\<not> opaqueIDPattern (PendingKeyActivationID r) \<or> State r \<noteq> ''active'' \<or> Stopping r))
       ''session record key activation is invalid'',
     validateOutboxV1 r 0 0 False (PendingEvents r),
     validateDeliveryV1 r,
     check (length (CallbackDeadLetters r) > maxCallbackDeadLettersV1)
       ''session record callback dead letters exceed limit'',
     check (of_nat (length (CallbackDeadLetters r)) > CallbackRejectedTotal r)
       ''session record callback rejection cursor is invalid'',
     validateDeadLettersV1 r (CallbackDeadLetters r),
     check (UsageTotal r > 0 \<and> LastSequence r = 0)
       ''session record usage cursor is invalid'',
     check ((hasMeteringCursor r \<and> MeteredMicroseconds r div 1000000 \<noteq> UsageTotal r)
            \<or> (MeteredSegmentSHA256 r \<noteq> [] \<and> MeteredMicroseconds r = 0))
       ''session record metering cursor is invalid'',
     validateSegmentIDsV1 [] (MeteredSegmentSHA256 r),
     check (LastEventAt r \<noteq> NoStamp \<and> (parse_stamp (LastEventAt r) = None \<or> LastSequence r = 0))
       ''session record event time is invalid'',
     check (PendingEvents r \<noteq> [] \<and>
            (let l = last (PendingEvents r)
             in Sequence l \<noteq> LastSequence r
                \<or> (case EvUsage l of None \<Rightarrow> False | Some u \<Rightarrow> Total u \<noteq> UsageTotal r)))
       ''session record event cursor is inconsistent'']"

text \<open>The loop over the issued keys.\<close>

definition keyIssueOK :: "env \<Rightarrow> string \<Rightarrow> string \<times> StoredKeyIssueV1 \<Rightarrow> error" where
  "keyIssueOK E current entry =
     (let (sid, issue) = entry in
      if sid \<noteq> RequestID (IssueRequest issue)
         \<or> KeyIssueFingerprintV1 E (IssueRequest issue) \<noteq> Fingerprint issue
      then err ''session key issue identity is invalid''
      else if sid = current then
        (if ValidateStreamKeyIssueResponseV1 (IssueRequest issue) (IssueResponse issue) \<noteq> None
         then err ''session current key response is invalid'' else None)
      else if RespRequestID (IssueResponse issue) \<noteq> sid \<or> StreamKey (IssueResponse issue) \<noteq> []
      then err ''session superseded key response is invalid'' else None)"

definition validateSessionSecretsV1 :: "env \<Rightarrow> SessionRecordV1 \<Rightarrow> SessionSecretsV1 \<Rightarrow> error" where
  "validateSessionSecretsV1 E r s = first_error
    ([check (ValidateCreateRequestV1 (CreateRequest s) \<noteq> None) ''session secret create request is invalid'',
      check (ValidateCreateResponseV1 (CreateResponse s) \<noteq> None) ''session secret create response is invalid'',
      check (CreateFingerprintV1 E (CreateRequest s) \<noteq> CreateFingerprint r
             \<or> SessionID (CreateRequest s) \<noteq> BrokerSessionID r
             \<or> RespRunnerSessionID (CreateResponse s) \<noteq> RunnerSessionID r
             \<or> Public (Runtime (CreateResponse s)) \<noteq> RuntimePublic r)
        ''session secret create identity is invalid'',
      check (case Grants (Runtime (CreateResponse s)) of
               [] \<Rightarrow> True
             | grant # _ \<Rightarrow>
                 GrantID grant \<noteq> AuditID (GrantAudit r) \<or> Operations grant \<noteq> AuditOperations (GrantAudit r)
                 \<or> ExpiresAt grant \<noteq> AuditExpiresAt (GrantAudit r)
                 \<or> secretSHA256V1 E (Secret grant) \<noteq> SecretSHA256 (GrantAudit r))
        ''session secret grant identity is invalid'',
      check (CurrentKeyID s \<noteq> [] \<and> map_of (KeyIssues s) (CurrentKeyID s) = None)
        ''session current stream key is missing'',
      check (PendingKeyActivationID r \<noteq> [] \<and> CurrentKeyID s \<noteq> PendingKeyActivationID r)
        ''session pending key activation is invalid'']
     @ map (keyIssueOK E (CurrentKeyID s)) (KeyIssues s))"

subsection \<open>Loading, sealing and saving\<close>

text \<open>Records written before the output-health and terminal-state fields existed.\<close>

definition legacyDefaultsV1 :: "SessionRecordV1 \<Rightarrow> SessionRecordV1" where
  "legacyDefaultsV1 r =
     (let r1 = (if OutputState r = []
                then r\<lparr>OutputState := OutputStateWaitingV1,
                       OutputStateSince := (if LastEventAt r = NoStamp then format_nano 0 else LastEventAt r)\<rparr>
                else r)
      in if Stopping r1 \<and> PendingTerminalState r1 = [] then r1\<lparr>PendingTerminalState := ''ended''\<rparr> else r1)"

definition openSecretsV1 :: "env \<Rightarrow> SessionRecordV1 \<Rightarrow> string \<Rightarrow> SessionSecretsV1 result" where
  "openSecretsV1 E r sid =
     (case hex_decode (WrappedKeyNonce r) of
        None \<Rightarrow> fails ''session wrapped-key nonce is invalid''
      | Some wrappedKeyNonce \<Rightarrow>
      if length wrappedKeyNonce \<noteq> nonceSize then fails ''session wrapped-key nonce is invalid'' else
      (case hex_decode (WrappedKeyCiphertext r) of
        None \<Rightarrow> fails ''session wrapped-key ciphertext is invalid''
      | Some wrappedKeyCiphertext \<Rightarrow>
      (case gcm_open E (encryptionKey E) wrappedKeyNonce wrappedKeyCiphertext (sid @ '':dek'') of
        None \<Rightarrow> fails ''session data-key decryption failed''
      | Some dataKey \<Rightarrow>
      if length dataKey \<noteq> 32 then fails ''session data-key decryption failed'' else
      (case hex_decode (SecretNonce r) of
        None \<Rightarrow> fails ''session secret nonce is invalid''
      | Some nonce \<Rightarrow>
      if length nonce \<noteq> nonceSize then fails ''session secret nonce is invalid'' else
      (case hex_decode (SecretCiphertext r) of
        None \<Rightarrow> fails ''session secret ciphertext is invalid''
      | Some ciphertext \<Rightarrow>
      (case gcm_open E dataKey nonce ciphertext (sid @ '':secrets'') of
        None \<Rightarrow> fails ''session secret decryption failed''
      | Some plaintext \<Rightarrow>
      (case decode_secrets E plaintext of
        None \<Rightarrow> fails ''session secret payload is invalid''
      | Some secrets \<Rightarrow>
      if SessionID (CreateRequest secrets) \<noteq> sid
         \<or> RespRunnerSessionID (CreateResponse secrets) \<noteq> RunnerSessionID r
      then fails ''session secret identity mismatch''
      else (case validateSessionSecretsV1 E r secrets of
              Some e \<Rightarrow> Inl e | None \<Rightarrow> Inr secrets))))))))"

definition loadRecordV1 :: "env \<Rightarrow> SessionRecordV1 \<Rightarrow> string \<Rightarrow> (SessionRecordV1 \<times> SessionSecretsV1 option) result" where
  "loadRecordV1 E stored sid =
     (case verifyIntegrityV1 E stored of
        Some e \<Rightarrow> Inl e
      | None \<Rightarrow>
          (let r = legacyDefaultsV1 stored in
           case validateSessionRecordV1 r sid of
             Some e \<Rightarrow> Inl e
           | None \<Rightarrow>
               if WrappedKeyCiphertext r = [] then Inr (r, None)
               else (case openSecretsV1 E r sid of
                       Inl e \<Rightarrow> Inl e | Inr secrets \<Rightarrow> Inr (r, Some secrets))))"

definition loadLocked :: "env \<Rightarrow> disk \<Rightarrow> string \<Rightarrow> (SessionRecordV1 \<times> SessionSecretsV1 option) result" where
  "loadLocked E d sid =
     (if \<not> opaqueIDPattern sid then fails ''invalid broker session ID''
      else (case map_of (Files d) sid of
              None \<Rightarrow> Inl ErrNotExist
            | Some FUnreadable \<Rightarrow> fails ''read session record''
            | Some FGarbage \<Rightarrow> Inl (ErrWrap ''decode session record'' (ErrNew ''invalid JSON''))
            | Some (FRecord stored) \<Rightarrow> loadRecordV1 E stored sid))"

definition sealLocked :: "env \<Rightarrow> SessionRecordV1 \<Rightarrow> SessionSecretsV1 \<Rightarrow> SessionRecordV1 result" where
  "sealLocked E r secrets =
     (case rand_read E 0 32 of
        None \<Rightarrow> fails ''random source failed''
      | Some dataKey \<Rightarrow>
     (case rand_read E 1 nonceSize of
        None \<Rightarrow> fails ''random source failed''
      | Some wrappedKeyNonce \<Rightarrow>
     (case rand_read E 2 nonceSize of
        None \<Rightarrow> fails ''random source failed''
      | Some nonce \<Rightarrow>
          Inr (r\<lparr>WrappedKeyNonce := hex_encode wrappedKeyNonce,
                 WrappedKeyCiphertext := hex_encode (gcm_seal E (encryptionKey E) wrappedKeyNonce dataKey
                                                       (BrokerSessionID r @ '':dek'')),
                 SecretNonce := hex_encode nonce,
                 SecretCiphertext := hex_encode (gcm_seal E dataKey nonce (json_secrets E secrets)
                                                   (BrokerSessionID r @ '':secrets''))\<rparr>))))"

text \<open>Replacing one entry of the directory: the entry keeps its place, a new one comes last.\<close>

definition saveLocked :: "env \<Rightarrow> disk \<Rightarrow> SessionRecordV1 \<Rightarrow> error \<times> disk" where
  "saveLocked E d r =
     (let stored = r\<lparr>IntegritySHA256 := integrityV1 E r\<rparr>;
          written = d\<lparr>Files := put (BrokerSessionID r) (FRecord stored) (Files d)\<rparr>
      in case save_io E of
           SaveOK \<Rightarrow> (None, written)
         | SaveFailsBeforeRename \<Rightarrow> (err ''session record was not replaced'', d)
         | SaveFailsAfterRename \<Rightarrow> (err ''session directory was not synced'', written))"

text \<open>
  The common shape of the mutating methods: the decision sees the loaded record and secrets
  and returns an error, a result without a write, or a result with the record to save.
\<close>

type_synonym 'a decision = "('a \<times> SessionRecordV1 option) result"

definition update_session ::
    "env \<Rightarrow> disk \<Rightarrow> string \<Rightarrow> (SessionRecordV1 \<Rightarrow> SessionSecretsV1 option \<Rightarrow> 'a decision) \<Rightarrow> 'a result \<times> disk" where
  "update_session E d sid step =
     (case loadLocked E d sid of
        Inl e \<Rightarrow> (Inl e, d)
      | Inr (r, secrets) \<Rightarrow>
          (case step r secrets of
             Inl e \<Rightarrow> (Inl e, d)
           | Inr (a, None) \<Rightarrow> (Inr a, d)
           | Inr (a, Some r') \<Rightarrow>
               (case saveLocked E d r' of
                  (Some e, d') \<Rightarrow> (Inl e, d')
                | (None, d') \<Rightarrow> (Inr a, d'))))"

definition not_active :: "SessionRecordV1 \<Rightarrow> bool" where
  "not_active r \<longleftrightarrow> State r \<noteq> ''active'' \<or> Stopping r"

end
