(* ===== verification/Session_Ops.thy ===== *)
theory Session_Ops
  imports Session_Store
begin

section \<open>The methods of the session store\<close>

text \<open>
  One definition per method of \<open>EncryptedFileSessionStoreV1\<close>.  A method whose work is
  a decision on one loaded record is written as its \<open>_step\<close> (what happens between
  \<open>loadLocked\<close> and \<open>saveLocked\<close>) and the method itself (the argument checks before
  the lock, then \<open>update_session\<close>).  A method that returns a value beside an error gives
  the value only when the error is \<open>nil\<close>: no caller reads it otherwise.
\<close>

subsection \<open>Creation, replay and fences\<close>

definition createFenceMAC :: "env \<Rightarrow> string \<Rightarrow> string" where
  "createFenceMAC E sid = hmac_sha256 E (integrityKey E) (''session-create-fence/v1:'' @ sid)"

definition createFencedLocked :: "env \<Rightarrow> disk \<Rightarrow> string \<Rightarrow> bool result" where
  "createFencedLocked E d sid =
     (case map_of (Fences d) sid of
        None \<Rightarrow> Inr False
      | Some raw \<Rightarrow>
          if raw \<noteq> createFenceMAC E sid then fails ''create fence integrity check failed'' else Inr True)"

definition newSessionRecordV1 :: "env \<Rightarrow> RunnerCreateRequestV1 \<Rightarrow> RunnerCreateResponseV1 \<Rightarrow> GrantV1 \<Rightarrow> SessionRecordV1" where
  "newSessionRecordV1 E request response grant =
     \<lparr>Version = sessionRecordVersionV1, BrokerSessionID = SessionID request,
      RunnerSessionID = RespRunnerSessionID response, CreateFingerprint = CreateFingerprintV1 E request,
      State = ''active'', Stopping = False, PendingCloseReason = [], PendingTerminalState = [],
      PendingKeyActivationID = [], RuntimePublic = Public (Runtime response),
      GrantAudit = \<lparr>AuditID = GrantID grant, AuditOperations = Operations grant,
                    SecretSHA256 = secretSHA256V1 E (Secret grant), AuditExpiresAt = ExpiresAt grant\<rparr>,
      UsageTotal = 0, LastSequence = 0, MeteredMicroseconds = 0, MeteredSegmentSHA256 = [],
      PublisherSeen = False, PublisherOfflineSince = NoStamp, PublisherDeadline = NoStamp,
      IngestOnlineAt = NoStamp, FirstFinalizedSegmentAt = NoStamp, LastFinalizedSegmentAt = NoStamp,
      OutputState = OutputStateWaitingV1, OutputStateSince = format_nano (time_now E),
      LastLadderFailureCode = [], LadderFailureWindowAt = NoStamp, LadderConsecutiveFailures = 0,
      LastEventAt = NoStamp, PendingEvents = [], CallbackDelivery = None, CallbackDeadLetters = [],
      CallbackRejectedTotal = 0, CloseReason = [], IntegritySHA256 = [], WrappedKeyNonce = [],
      WrappedKeyCiphertext = [], SecretNonce = [], SecretCiphertext = []\<rparr>"

definition CreateOrReplay ::
    "env \<Rightarrow> disk \<Rightarrow> RunnerCreateRequestV1 \<Rightarrow> RunnerCreateResponseV1
      \<Rightarrow> (SessionRecordV1 \<times> SessionSecretsV1 \<times> bool) result \<times> disk" where
  "CreateOrReplay E d request response =
     (case ValidateCreateRequestV1 request of Some e \<Rightarrow> (Inl e, d) | None \<Rightarrow>
     (case ValidateCreateResponseV1 response of Some e \<Rightarrow> (Inl e, d) | None \<Rightarrow>
     (case loadLocked E d (SessionID request) of
        Inr (r, secrets) \<Rightarrow>
          (if CreateFingerprint r \<noteq> CreateFingerprintV1 E request then (Inl ErrSessionIDReuseV1, d)
           else (case secrets of
                   None \<Rightarrow> (Inl ErrSessionTerminalV1, d)
                 | Some s \<Rightarrow>
                     if not_active r then (Inl ErrSessionTerminalV1, d) else (Inr (r, s, True), d)))
      | Inl e \<Rightarrow>
          if \<not> errors_is e ErrNotExist then (Inl e, d)
          else (case createFencedLocked E d (SessionID request) of
                  Inl e' \<Rightarrow> (Inl e', d)
                | Inr True \<Rightarrow> (Inl ErrCreateFencedV1, d)
                | Inr False \<Rightarrow>
                    (let grant = hd (Grants (Runtime response));
                         secretState = \<lparr>CreateRequest = request, CreateResponse = response,
                                        CurrentKeyID = [], KeyIssues = []\<rparr>
                     in case sealLocked E (newSessionRecordV1 E request response grant) secretState of
                          Inl e' \<Rightarrow> (Inl e', d)
                        | Inr r \<Rightarrow>
                            (case saveLocked E d r of
                               (Some e', d') \<Rightarrow> (Inl e', d')
                             | (None, d') \<Rightarrow> (Inr (r, secretState, False), d')))))))"

record CreateResolutionV1 =
  ResSessionID :: string
  Outcome :: string
  ResRunnerSessionID :: string

text \<open>
  A fence file is written like a record, through a temporary file and a rename; the directory
  is synced also when the fence was there already.
\<close>

definition ReconcileCreate :: "env \<Rightarrow> disk \<Rightarrow> string \<Rightarrow> CreateResolutionV1 result \<times> disk" where
  "ReconcileCreate E d sid =
     (if \<not> opaqueIDPattern sid then (fails ''invalid broker session ID'', d)
      else (case loadLocked E d sid of
        Inr (r, _) \<Rightarrow>
          (Inr \<lparr>ResSessionID = sid, Outcome = ''created'', ResRunnerSessionID = RunnerSessionID r\<rparr>, d)
      | Inl e \<Rightarrow>
          if \<not> errors_is e ErrNotExist then (Inl e, d)
          else (case createFencedLocked E d sid of
            Inl e' \<Rightarrow> (Inl e', d)
          | Inr fenced \<Rightarrow>
              (let written = (if fenced then d else d\<lparr>Fences := put sid (createFenceMAC E sid) (Fences d)\<rparr>);
                   ok = \<lparr>ResSessionID = sid, Outcome = ''fenced'', ResRunnerSessionID = []\<rparr>
               in case save_io E of
                    SaveOK \<Rightarrow> (Inr ok, written)
                  | SaveFailsBeforeRename \<Rightarrow> (fails ''create fence was not written'', d)
                  | SaveFailsAfterRename \<Rightarrow> (fails ''session directory was not synced'', written)))))"

definition Load :: "env \<Rightarrow> disk \<Rightarrow> string \<Rightarrow> (SessionRecordV1 \<times> SessionSecretsV1 option) result" where
  "Load E d sid = loadLocked E d sid"

subsection \<open>Stream keys\<close>

definition blankStreamKey :: "StoredKeyIssueV1 \<Rightarrow> StoredKeyIssueV1" where
  "blankStreamKey issue = issue\<lparr>IssueResponse := (IssueResponse issue)\<lparr>StreamKey := []\<rparr>\<rparr>"

definition RecordKeyIssue_step ::
    "env \<Rightarrow> StreamKeyIssueRequestV1 \<Rightarrow> StreamKeyIssueResponseV1 \<Rightarrow> SessionRecordV1 \<Rightarrow> SessionSecretsV1 option
      \<Rightarrow> (StreamKeyIssueResponseV1 \<times> bool) decision" where
  "RecordKeyIssue_step E request response r secrets =
     (case secrets of None \<Rightarrow> Inl ErrSessionTerminalV1 | Some s \<Rightarrow>
      if not_active r then Inl ErrSessionTerminalV1
      else (case map_of (KeyIssues s) (RequestID request) of
        Some stored \<Rightarrow>
          if Fingerprint stored \<noteq> KeyIssueFingerprintV1 E request then Inl ErrRequestIDReuseV1
          else if CurrentKeyID s \<noteq> RequestID request then Inl ErrRequestSupersededV1
          else Inr ((IssueResponse stored, True), None)
      | None \<Rightarrow>
          if PendingKeyActivationID r \<noteq> [] then Inl ErrKeyActivationInFlightV1
          else (let blanked = map (\<lambda>(k, issue). (k, blankStreamKey issue)) (KeyIssues s);
                    r1 = (if CurrentKeyID s \<noteq> [] then r\<lparr>PendingKeyActivationID := RequestID request\<rparr> else r);
                    issue = \<lparr>Fingerprint = KeyIssueFingerprintV1 E request, IssueRequest = request,
                             IssueResponse = response\<rparr>;
                    s1 = s\<lparr>KeyIssues := put (RequestID request) issue blanked, CurrentKeyID := RequestID request\<rparr>
                in case sealLocked E r1 s1 of
                     Inl e \<Rightarrow> Inl e
                   | Inr r2 \<Rightarrow> Inr ((response, False), Some r2))))"

definition RecordKeyIssue ::
    "env \<Rightarrow> disk \<Rightarrow> string \<Rightarrow> StreamKeyIssueRequestV1 \<Rightarrow> StreamKeyIssueResponseV1
      \<Rightarrow> (StreamKeyIssueResponseV1 \<times> bool) result \<times> disk" where
  "RecordKeyIssue E d sid request response =
     (case ValidateStreamKeyIssueRequestV1 request of Some e \<Rightarrow> (Inl e, d) | None \<Rightarrow>
     (case ValidateStreamKeyIssueResponseV1 request response of Some e \<Rightarrow> (Inl e, d) | None \<Rightarrow>
        update_session E d sid (RecordKeyIssue_step E request response)))"

definition CompleteKeyActivation_step :: "string \<Rightarrow> SessionRecordV1 \<Rightarrow> SessionSecretsV1 option \<Rightarrow> unit decision" where
  "CompleteKeyActivation_step requestID r secrets =
     (case secrets of None \<Rightarrow> Inl ErrSessionTerminalV1 | Some s \<Rightarrow>
      if not_active r then Inl ErrSessionTerminalV1
      else if PendingKeyActivationID r = [] then Inr ((), None)
      else if PendingKeyActivationID r \<noteq> requestID \<or> CurrentKeyID s \<noteq> requestID
      then fails ''key activation identity mismatch''
      else Inr ((), Some (r\<lparr>PendingKeyActivationID := []\<rparr>)))"

definition CompleteKeyActivation :: "env \<Rightarrow> disk \<Rightarrow> string \<Rightarrow> string \<Rightarrow> unit result \<times> disk" where
  "CompleteKeyActivation E d sid requestID =
     (if \<not> opaqueIDPattern requestID then (fails ''key activation request ID is invalid'', d)
      else update_session E d sid (CompleteKeyActivation_step requestID))"

subsection \<open>Events and usage\<close>

definition durableCursorV1 :: "SessionRecordV1 \<Rightarrow> EventCursorV1" where
  "durableCursorV1 r =
     \<lparr>CurSequence = LastSequence r, CurUsageTotal = UsageTotal r, CurHasUsage = LastSequence r > 0,
      CurSeenIDs = map EventID (PendingEvents r)\<rparr>"

text \<open>Appending an accepted event: the same five assignments in every method that emits one.\<close>

definition appendEventV1 :: "SessionRecordV1 \<Rightarrow> RunnerEventV1 \<Rightarrow> SessionRecordV1" where
  "appendEventV1 r event =
     r\<lparr>LastSequence := Sequence event, LastEventAt := EventTime event,
       PendingEvents := PendingEvents r @ [event]\<rparr>"

definition Advance_step :: "RunnerEventV1 \<Rightarrow> SessionRecordV1 \<Rightarrow> SessionSecretsV1 option \<Rightarrow> unit decision" where
  "Advance_step event r secrets =
     (if State r \<noteq> ''active'' \<or> (Stopping r \<and> EvState event = ''active'') then Inl ErrSessionTerminalV1
      else if Stopping r \<and> EvCloseReason event \<noteq> Some (PendingCloseReason r)
      then fails ''terminal event does not match durable close reason''
      else if EventID event \<noteq> eventIDFor r (Sequence event)
      then fails ''event ID must be derived from runner session ID and sequence''
      else if hasMeteringCursor r \<and> (case EvUsage event of None \<Rightarrow> False
                | Some u \<Rightarrow> Total u \<noteq> MeteredMicroseconds r div 1000000)
      then fails ''event usage does not match the durable meter''
      else (case EventCursor_Accept (durableCursorV1 r) event of
              Inl e \<Rightarrow> Inl e
            | Inr cursor \<Rightarrow>
                (let r1 = (appendEventV1 r event)\<lparr>LastSequence := CurSequence cursor,
                                                  UsageTotal := CurUsageTotal cursor\<rparr>
                 in Inr ((), Some (if EvState event = ''ended'' \<or> EvState event = ''failed''
                                   then r1\<lparr>State := EvState event, CloseReason := the (EvCloseReason event),
                                           Stopping := False, PendingCloseReason := [],
                                           PendingTerminalState := [], PendingKeyActivationID := []\<rparr>
                                   else r1)))))"

definition Advance :: "env \<Rightarrow> disk \<Rightarrow> string \<Rightarrow> RunnerEventV1 \<Rightarrow> unit result \<times> disk" where
  "Advance E d sid event = update_session E d sid (Advance_step event)"

definition outputHealthDetailsV1 :: "SessionRecordV1 \<Rightarrow> raw_json" where
  "outputHealthDetailsV1 r =
     RawJSON (JObj ((if LastLadderFailureCode r \<noteq> []
                     then [(''last_failure_code'', JStr (LastLadderFailureCode r))] else [])
                    @ [(''output_state'', JStr (OutputState r)),
                       (''output_state_since'', JStr (stamp_text (OutputStateSince r)))]))"

text \<open>
  The loop over the segments of a playlist.  The Go set \<open>seen\<close> always holds exactly the
  identities of \<open>MeteredSegmentSHA256\<close>, so the list itself is asked.
\<close>

fun meterSegmentsV1 ::
    "env \<Rightarrow> u64 \<Rightarrow> string list \<Rightarrow> bool \<Rightarrow> FinalizedHLSSegmentV1 list \<Rightarrow> (u64 \<times> string list \<times> bool) result" where
  "meterSegmentsV1 E metered ids changed [] = Inr (metered, ids, changed)"
| "meterSegmentsV1 E metered ids changed (segment # rest) =
     (if URI segment = [] \<or> DurationMicroseconds segment = 0
      then fails ''finalized HLS segment is invalid''
      else (let identity = hex_encode (sha256 E (URI segment)) in
            if identity \<in> set ids then meterSegmentsV1 E metered ids changed rest
            else (let (tot, carry) = add64 metered (DurationMicroseconds segment) in
                  if carry \<noteq> 0 then fails ''output timeline overflow''
                  else meterSegmentsV1 E tot (ids @ [identity]) True rest)))"

definition producingV1 :: "stamp \<Rightarrow> u64 \<Rightarrow> string list \<Rightarrow> SessionRecordV1 \<Rightarrow> SessionRecordV1" where
  "producingV1 stamp metered ids r =
     r\<lparr>MeteredMicroseconds := metered, MeteredSegmentSHA256 := ids,
       FirstFinalizedSegmentAt := (if FirstFinalizedSegmentAt r = NoStamp then stamp else FirstFinalizedSegmentAt r),
       LastFinalizedSegmentAt := stamp,
       OutputStateSince := (if OutputState r \<noteq> OutputStateProducingV1 then stamp else OutputStateSince r),
       OutputState := OutputStateProducingV1,
       LadderFailureWindowAt := NoStamp, LadderConsecutiveFailures := 0\<rparr>"

definition RecordFinalizedSegments_step ::
    "env \<Rightarrow> FinalizedHLSSegmentV1 list \<Rightarrow> time \<Rightarrow> SessionRecordV1 \<Rightarrow> SessionSecretsV1 option \<Rightarrow> bool decision" where
  "RecordFinalizedSegments_step E segments eventTime r secrets =
     (if not_active r then Inl ErrSessionTerminalV1
      else if LastSequence r = 0 then fails ''session start must be recorded before usage''
      else (case meterSegmentsV1 E (MeteredMicroseconds r) (MeteredSegmentSHA256 r) False segments of
        Inl e \<Rightarrow> Inl e
      | Inr (metered, ids, changed) \<Rightarrow>
          if \<not> changed then Inr (False, None)
          else (let r1 = producingV1 (format_nano eventTime) metered ids r;
                    usageTotal = metered div 1000000
                in if UsageTotal r1 < usageTotal then
                     (if LastSequence r1 = max_u64 then fails ''event sequence overflow''
                      else (let sequence = LastSequence r1 + 1;
                                event = \<lparr>EventID = eventIDFor r1 sequence, Sequence = sequence,
                                         EventType = ''session.usage.tick'', EventTime = format_nano eventTime,
                                         EvState = ''active'',
                                         EvUsage = Some \<lparr>Unit = WorkUnitV1, Total = usageTotal\<rparr>,
                                         EvCloseReason = None, Details = outputHealthDetailsV1 r1\<rparr>
                            in case ValidateEventV1 event of
                                 Some e \<Rightarrow> Inl e
                               | None \<Rightarrow> Inr (True, Some ((appendEventV1 r1 event)\<lparr>UsageTotal := usageTotal\<rparr>))))
                   else Inr (False, Some r1))))"

definition RecordFinalizedSegments ::
    "env \<Rightarrow> disk \<Rightarrow> string \<Rightarrow> FinalizedHLSSegmentV1 list \<Rightarrow> time \<Rightarrow> bool result \<times> disk" where
  "RecordFinalizedSegments E d sid segments eventTime =
     (if eventTime = zero_time then (fails ''metering event time is required'', d)
      else update_session E d sid (RecordFinalizedSegments_step E segments eventTime))"

definition RecordHeartbeat_step :: "time \<Rightarrow> duration \<Rightarrow> SessionRecordV1 \<Rightarrow> SessionSecretsV1 option \<Rightarrow> bool decision" where
  "RecordHeartbeat_step eventTime minimumInterval r secrets =
     (if not_active r then Inl ErrSessionTerminalV1
      else if LastSequence r = 0 then fails ''session start must be recorded before heartbeat''
      else if LastEventAt r \<noteq> NoStamp \<and> parse_stamp (LastEventAt r) = None
      then fails ''durable event time is invalid''
      else if (case parse_stamp (LastEventAt r) of None \<Rightarrow> False
               | Some lastTime \<Rightarrow> eventTime < lastTime + minimumInterval)
      then Inr (False, None)
      else if LastSequence r = max_u64 then fails ''event sequence overflow''
      else (let sequence = LastSequence r + 1;
                event = \<lparr>EventID = eventIDFor r sequence, Sequence = sequence,
                         EventType = ''session.heartbeat'', EventTime = format_nano eventTime,
                         EvState = ''active'', EvUsage = Some \<lparr>Unit = WorkUnitV1, Total = UsageTotal r\<rparr>,
                         EvCloseReason = None, Details = outputHealthDetailsV1 r\<rparr>
            in case ValidateEventV1 event of
                 Some e \<Rightarrow> Inl e
               | None \<Rightarrow> Inr (True, Some (appendEventV1 r event))))"

definition RecordHeartbeat :: "env \<Rightarrow> disk \<Rightarrow> string \<Rightarrow> time \<Rightarrow> duration \<Rightarrow> bool result \<times> disk" where
  "RecordHeartbeat E d sid eventTime minimumInterval =
     (if eventTime = zero_time \<or> minimumInterval \<le> 0 then (fails ''heartbeat time and interval are required'', d)
      else update_session E d sid (RecordHeartbeat_step eventTime minimumInterval))"

subsection \<open>Publisher presence\<close>

definition RecordIngestPresence_step :: "bool \<Rightarrow> time \<Rightarrow> SessionRecordV1 \<Rightarrow> SessionSecretsV1 option \<Rightarrow> unit decision" where
  "RecordIngestPresence_step online eventTime r secrets =
     (let stamp = format_nano eventTime in
      if not_active r then Inl ErrSessionTerminalV1
      else if online \<and> IngestOnlineAt r = NoStamp then
        Inr ((), Some (r\<lparr>IngestOnlineAt := stamp, PublisherSeen := True, PublisherOfflineSince := NoStamp,
                         PublisherDeadline := NoStamp, OutputState := OutputStateWaitingV1,
                         OutputStateSince := stamp\<rparr>))
      else if \<not> online \<and> IngestOnlineAt r \<noteq> NoStamp then
        Inr ((), Some (r\<lparr>IngestOnlineAt := NoStamp, PublisherSeen := True, PublisherOfflineSince := stamp,
                         PublisherDeadline := NoStamp, OutputState := OutputStateWaitingV1,
                         OutputStateSince := stamp, LadderFailureWindowAt := NoStamp,
                         LadderConsecutiveFailures := 0\<rparr>))
      else Inr ((), None))"

definition RecordIngestPresence :: "env \<Rightarrow> disk \<Rightarrow> string \<Rightarrow> bool \<Rightarrow> time \<Rightarrow> unit result \<times> disk" where
  "RecordIngestPresence E d sid online eventTime =
     (if eventTime = zero_time then (fails ''ingest observation time is required'', d)
      else update_session E d sid (RecordIngestPresence_step online eventTime))"

text \<open>The deadline of an absent publisher: kept when it is set, else derived from its epoch.\<close>

definition publisherDeadlineV1 :: "time \<Rightarrow> duration \<Rightarrow> duration \<Rightarrow> SessionRecordV1 \<Rightarrow> (SessionRecordV1 \<times> bool) result" where
  "publisherDeadlineV1 now initialWait reconnectGrace r =
     (if PublisherDeadline r \<noteq> NoStamp then Inr (r, False)
      else (let seen = PublisherSeen r \<or> LastFinalizedSegmentAt r \<noteq> NoStamp;
                wait = (if seen then reconnectGrace else initialWait);
                r1 = (if seen \<and> PublisherOfflineSince r = NoStamp
                      then r\<lparr>PublisherOfflineSince := format_nano now\<rparr> else r);
                base = (if seen then PublisherOfflineSince r1 else OutputStateSince r)
            in case parse_stamp base of
                 None \<Rightarrow> fails ''parse publisher deadline base''
               | Some start \<Rightarrow> Inr (r1\<lparr>PublisherDeadline := format_nano (start + wait)\<rparr>, True)))"

definition ExpireAbsentPublisher_step ::
    "time \<Rightarrow> duration \<Rightarrow> duration \<Rightarrow> SessionRecordV1 \<Rightarrow> SessionSecretsV1 option \<Rightarrow> bool decision" where
  "ExpireAbsentPublisher_step now initialWait reconnectGrace r secrets =
     (if not_active r then Inl ErrSessionTerminalV1
      else if IngestOnlineAt r \<noteq> NoStamp then Inr (False, None)
      else (case publisherDeadlineV1 now initialWait reconnectGrace r of
        Inl e \<Rightarrow> Inl e
      | Inr (r1, changed) \<Rightarrow>
          (case parse_stamp (PublisherDeadline r1) of
             None \<Rightarrow> fails ''parse publisher deadline''
           | Some deadline \<Rightarrow>
               if deadline \<le> now then
                 Inr (True, Some (r1\<lparr>Stopping := True, PendingCloseReason := ''publisher_disconnect'',
                                     PendingTerminalState := ''ended'', PendingKeyActivationID := []\<rparr>))
               else Inr (False, if changed then Some r1 else None))))"

definition ExpireAbsentPublisher ::
    "env \<Rightarrow> disk \<Rightarrow> string \<Rightarrow> time \<Rightarrow> duration \<Rightarrow> duration \<Rightarrow> bool result \<times> disk" where
  "ExpireAbsentPublisher E d sid now initialWait reconnectGrace =
     (if now = zero_time \<or> initialWait \<le> 0 \<or> reconnectGrace \<le> 0
      then (fails ''publisher deadlines are invalid'', d)
      else update_session E d sid (ExpireAbsentPublisher_step now initialWait reconnectGrace))"

subsection \<open>Ladder restarts and output health\<close>

definition ladderWindowV1 :: "time \<Rightarrow> duration \<Rightarrow> SessionRecordV1 \<Rightarrow> SessionRecordV1" where
  "ladderWindowV1 now window r =
     (let windowAt = (case parse_stamp (LadderFailureWindowAt r) of None \<Rightarrow> zero_time | Some t \<Rightarrow> t)
      in if windowAt = zero_time \<or> time_sub now windowAt > window
         then r\<lparr>LadderFailureWindowAt := format_nano now, LadderConsecutiveFailures := 0\<rparr> else r)"

definition fmt_u32 :: "u32 \<Rightarrow> string" where
  "fmt_u32 w = fmt_nat (unat w)"

definition RecordLadderRestart_step ::
    "string \<Rightarrow> time \<Rightarrow> duration \<Rightarrow> SessionRecordV1 \<Rightarrow> SessionSecretsV1 option \<Rightarrow> u32 decision" where
  "RecordLadderRestart_step code now window r secrets =
     (if not_active r then Inl ErrSessionTerminalV1
      else (let r1 = ladderWindowV1 now window r in
            if LadderConsecutiveFailures r1 = max_u32 \<or> LastSequence r1 = max_u64
            then fails ''ladder restart counter overflow''
            else (let attempt = LadderConsecutiveFailures r1 + 1;
                      r2 = r1\<lparr>LadderConsecutiveFailures := attempt, LastLadderFailureCode := code\<rparr>;
                      sequence = LastSequence r2 + 1;
                      event = \<lparr>EventID = eventIDFor r2 sequence, Sequence = sequence,
                               EventType = ''session.ladder.restart'', EventTime = format_nano now,
                               EvState = ''active'', EvUsage = None, EvCloseReason = None,
                               Details = RawJSON (JObj [(''attempt'', JNum (fmt_u32 attempt)), (''code'', JStr code),
                                                       (''output_state'', JStr (OutputState r2))])\<rparr>
                  in case ValidateEventV1 event of
                       Some e \<Rightarrow> Inl e
                     | None \<Rightarrow> Inr (attempt, Some (appendEventV1 r2 event)))))"

definition RecordLadderRestart ::
    "env \<Rightarrow> disk \<Rightarrow> string \<Rightarrow> string \<Rightarrow> time \<Rightarrow> duration \<Rightarrow> u32 result \<times> disk" where
  "RecordLadderRestart E d sid code eventTime window =
     (if \<not> validLadderFailureCodeV1 code False \<or> eventTime = zero_time \<or> window \<le> 0
      then (fails ''ladder restart observation is invalid'', d)
      else update_session E d sid (RecordLadderRestart_step code eventTime window))"

definition recordOutputStalledLockedV1 :: "SessionRecordV1 \<Rightarrow> time \<Rightarrow> SessionRecordV1 result" where
  "recordOutputStalledLockedV1 r eventTime =
     (let r1 = r\<lparr>OutputState := OutputStateStalledV1, OutputStateSince := format_nano eventTime\<rparr> in
      if LastSequence r1 = max_u64 then fails ''event sequence overflow''
      else (let sequence = LastSequence r1 + 1;
                event = \<lparr>EventID = eventIDFor r1 sequence, Sequence = sequence,
                         EventType = ''session.output.stalled'', EventTime = OutputStateSince r1,
                         EvState = ''active'', EvUsage = None, EvCloseReason = None,
                         Details = outputHealthDetailsV1 r1\<rparr>
            in case ValidateEventV1 event of
                 Some e \<Rightarrow> Inl e
               | None \<Rightarrow> Inr (appendEventV1 r1 event)))"

text \<open>The instant since which output is missing: the later of ingest start and last segment.\<close>

definition outputBaseV1 :: "SessionRecordV1 \<Rightarrow> time result" where
  "outputBaseV1 r =
     (case parse_stamp (IngestOnlineAt r) of
        None \<Rightarrow> fails ''durable ingest time is invalid''
      | Some base \<Rightarrow>
          if LastFinalizedSegmentAt r = NoStamp then Inr base
          else (case parse_stamp (LastFinalizedSegmentAt r) of
                  None \<Rightarrow> fails ''durable output time is invalid''
                | Some lastTime \<Rightarrow> Inr (if base < lastTime then lastTime else base)))"

definition EvaluateOutputHealth_step ::
    "time \<Rightarrow> duration \<Rightarrow> duration \<Rightarrow> SessionRecordV1 \<Rightarrow> SessionSecretsV1 option \<Rightarrow> (bool \<times> bool) decision" where
  "EvaluateOutputHealth_step eventTime stallAfter failAfter r secrets =
     (if not_active r then Inl ErrSessionTerminalV1
      else if IngestOnlineAt r = NoStamp then Inr ((False, False), None)
      else (case outputBaseV1 r of
        Inl e \<Rightarrow> Inl e
      | Inr base \<Rightarrow>
          (let elapsed = time_sub eventTime base in
           if failAfter \<le> elapsed then Inr ((True, False), None)
           else if elapsed < stallAfter \<or> OutputState r = OutputStateStalledV1 then Inr ((False, False), None)
           else (case recordOutputStalledLockedV1 r eventTime of
                   Inl e \<Rightarrow> Inl e
                 | Inr r1 \<Rightarrow> Inr ((False, True), Some r1)))))"

definition EvaluateOutputHealth ::
    "env \<Rightarrow> disk \<Rightarrow> string \<Rightarrow> time \<Rightarrow> duration \<Rightarrow> duration \<Rightarrow> (bool \<times> bool) result \<times> disk" where
  "EvaluateOutputHealth E d sid eventTime stallAfter failAfter =
     (if eventTime = zero_time \<or> stallAfter \<le> 0 \<or> failAfter \<le> stallAfter
      then (fails ''output health deadlines are invalid'', d)
      else update_session E d sid (EvaluateOutputHealth_step eventTime stallAfter failAfter))"

definition RecordOutputStalled_step :: "time \<Rightarrow> SessionRecordV1 \<Rightarrow> SessionSecretsV1 option \<Rightarrow> bool decision" where
  "RecordOutputStalled_step eventTime r secrets =
     (if not_active r then Inl ErrSessionTerminalV1
      else if OutputState r = OutputStateStalledV1 then Inr (False, None)
      else (case recordOutputStalledLockedV1 r eventTime of
              Inl e \<Rightarrow> Inl e
            | Inr r1 \<Rightarrow> Inr (True, Some r1)))"

definition RecordOutputStalled :: "env \<Rightarrow> disk \<Rightarrow> string \<Rightarrow> time \<Rightarrow> bool result \<times> disk" where
  "RecordOutputStalled E d sid eventTime =
     (if eventTime = zero_time then (fails ''output stall time is required'', d)
      else update_session E d sid (RecordOutputStalled_step eventTime))"

subsection \<open>Termination\<close>

definition beginTerminalV1_step ::
    "string \<Rightarrow> string \<Rightarrow> SessionRecordV1 \<Rightarrow> SessionSecretsV1 option \<Rightarrow> (SessionRecordV1 \<times> bool) decision" where
  "beginTerminalV1_step reason terminalState r secrets =
     (if State r \<noteq> ''active'' then Inr ((r, False), None)
      else if Stopping r then Inr ((r, False), None)
      else (let r1 = r\<lparr>Stopping := True, PendingCloseReason := reason,
                       PendingTerminalState := terminalState, PendingKeyActivationID := []\<rparr>
            in Inr ((r1, True), Some r1)))"

definition beginTerminalV1 ::
    "env \<Rightarrow> disk \<Rightarrow> string \<Rightarrow> string \<Rightarrow> string \<Rightarrow> (SessionRecordV1 \<times> bool) result \<times> disk" where
  "beginTerminalV1 E d sid reason terminalState =
     (if \<not> validCloseReasonV1 reason then (fails ''termination reason is invalid'', d)
      else if terminalState \<noteq> ''ended'' \<and> terminalState \<noteq> ''failed''
      then (fails ''terminal target state is invalid'', d)
      else update_session E d sid (beginTerminalV1_step reason terminalState))"

definition BeginTermination :: "env \<Rightarrow> disk \<Rightarrow> string \<Rightarrow> string \<Rightarrow> (SessionRecordV1 \<times> bool) result \<times> disk" where
  "BeginTermination E d sid reason = beginTerminalV1 E d sid reason ''ended''"

definition BeginFailure :: "env \<Rightarrow> disk \<Rightarrow> string \<Rightarrow> string \<Rightarrow> (SessionRecordV1 \<times> bool) result \<times> disk" where
  "BeginFailure E d sid reason = beginTerminalV1 E d sid reason ''failed''"

subsection \<open>The callback outbox\<close>

definition AcknowledgeEvent_step :: "string \<Rightarrow> SessionRecordV1 \<Rightarrow> SessionSecretsV1 option \<Rightarrow> unit decision" where
  "AcknowledgeEvent_step eventID r secrets =
     (case PendingEvents r of
        [] \<Rightarrow> fails ''event acknowledgement is out of order''
      | e # rest \<Rightarrow>
          if EventID e \<noteq> eventID then fails ''event acknowledgement is out of order''
          else Inr ((), Some (r\<lparr>PendingEvents := rest, CallbackDelivery := None\<rparr>)))"

definition AcknowledgeEvent :: "env \<Rightarrow> disk \<Rightarrow> string \<Rightarrow> string \<Rightarrow> unit result \<times> disk" where
  "AcknowledgeEvent E d sid eventID = update_session E d sid (AcknowledgeEvent_step eventID)"

text \<open>The doubling loop of \<open>callbackRetryDelayV1\<close>; the number counts the iterations left.\<close>

fun retryBaseV1 :: "nat \<Rightarrow> duration \<Rightarrow> duration \<Rightarrow> duration" where
  "retryBaseV1 0 base maximum = base"
| "retryBaseV1 (Suc n) base maximum =
     (if base < maximum then
        (if maximum div 2 < base then maximum else retryBaseV1 n (base * 2) maximum)
      else base)"

definition jitterValueV1 :: "env \<Rightarrow> string \<Rightarrow> u32 \<Rightarrow> nat" where
  "jitterValueV1 E eventID attempt =
     foldl (\<lambda>v c. (v * 256 + of_char c) mod 2 ^ 64) 0 (take 8 (sha256 E (eventID @ '':'' @ fmt_u32 attempt)))"

definition callbackRetryDelayV1 :: "env \<Rightarrow> string \<Rightarrow> u32 \<Rightarrow> duration \<Rightarrow> duration \<Rightarrow> duration" where
  "callbackRetryDelayV1 E eventID attempt initial maximum =
     (let base = retryBaseV1 (unat attempt - 1) initial maximum;
          factor = int (750 + jitterValueV1 E eventID attempt mod 501)
      in if factor = 1000 then base
         else if factor < 1000 then
           (let delta = 1000 - factor
            in base - (base div 1000) * delta - (base mod 1000) * delta div 1000)
         else (let delta = factor - 1000;
                   extra = (base div 1000) * delta + (base mod 1000) * delta div 1000
               in if maximum - base < extra then maximum else base + extra))"

definition ReserveCallbackAttempt_step ::
    "env \<Rightarrow> string \<Rightarrow> time \<Rightarrow> duration \<Rightarrow> duration \<Rightarrow> SessionRecordV1 \<Rightarrow> SessionSecretsV1 option
      \<Rightarrow> CallbackDeliveryAttemptV1 decision" where
  "ReserveCallbackAttempt_step E eventID attemptAt initialBackoff maximumBackoff r secrets =
     (if (case PendingEvents r of [] \<Rightarrow> True | e # _ \<Rightarrow> EventID e \<noteq> eventID)
      then fails ''callback attempt is out of order''
      else (case (case CallbackDelivery r of
                    None \<Rightarrow> Inr 1
                  | Some delivery \<Rightarrow>
                      if AttEventID delivery \<noteq> eventID then fails ''callback attempt cursor is inconsistent''
                      else if AttAttempts delivery = max_u32 then fails ''callback attempt count overflow''
                      else (case parse_stamp (NextAttemptAt delivery) of
                              None \<Rightarrow> fails ''callback retry time is invalid''
                            | Some nextAttempt \<Rightarrow>
                                if attemptAt < nextAttempt then Inl ErrCallbackNotDueV1
                                else Inr (AttAttempts delivery + 1))) of
              Inl e \<Rightarrow> Inl e
            | Inr attempts \<Rightarrow>
                (let delay = callbackRetryDelayV1 E eventID attempts initialBackoff maximumBackoff;
                     attempt = \<lparr>AttEventID = eventID, AttAttempts = attempts,
                                LastAttemptAt = format_nano attemptAt,
                                NextAttemptAt = format_nano (attemptAt + delay),
                                LastStatusCode = 0, LastErrorCode = []\<rparr>
                 in Inr (attempt, Some (r\<lparr>CallbackDelivery := Some attempt\<rparr>)))))"

definition ReserveCallbackAttempt ::
    "env \<Rightarrow> disk \<Rightarrow> string \<Rightarrow> string \<Rightarrow> time \<Rightarrow> duration \<Rightarrow> duration \<Rightarrow> CallbackDeliveryAttemptV1 result \<times> disk" where
  "ReserveCallbackAttempt E d sid eventID attemptAt initialBackoff maximumBackoff =
     (if eventID = [] \<or> attemptAt = zero_time \<or> initialBackoff \<le> 0 \<or> maximumBackoff < initialBackoff
      then (fails ''callback attempt policy is invalid'', d)
      else update_session E d sid (ReserveCallbackAttempt_step E eventID attemptAt initialBackoff maximumBackoff))"

definition RecordCallbackRetryFailure_step ::
    "string \<Rightarrow> int \<Rightarrow> string \<Rightarrow> SessionRecordV1 \<Rightarrow> SessionSecretsV1 option \<Rightarrow> unit decision" where
  "RecordCallbackRetryFailure_step eventID statusCode errorCode r secrets =
     (case (CallbackDelivery r, PendingEvents r) of
        (Some delivery, e # _) \<Rightarrow>
          if AttEventID delivery \<noteq> eventID \<or> EventID e \<noteq> eventID
          then fails ''callback retry cursor is inconsistent''
          else Inr ((), Some (r\<lparr>CallbackDelivery :=
                  Some (delivery\<lparr>LastStatusCode := statusCode, LastErrorCode := errorCode\<rparr>)\<rparr>))
      | _ \<Rightarrow> fails ''callback retry cursor is inconsistent'')"

definition RecordCallbackRetryFailure ::
    "env \<Rightarrow> disk \<Rightarrow> string \<Rightarrow> string \<Rightarrow> int \<Rightarrow> string \<Rightarrow> unit result \<times> disk" where
  "RecordCallbackRetryFailure E d sid eventID statusCode errorCode =
     (if \<not> validCallbackFailureV1 statusCode errorCode True
      then (fails ''callback retry failure is invalid'', d)
      else update_session E d sid (RecordCallbackRetryFailure_step eventID statusCode errorCode))"

text \<open>The last \<open>n\<close> elements, as the source slices them.\<close>

definition keep_last :: "nat \<Rightarrow> 'a list \<Rightarrow> 'a list" where
  "keep_last n xs = (if length xs > n then drop (length xs - n) xs else xs)"

definition ParkCallbackRejection_step ::
    "string \<Rightarrow> int \<Rightarrow> string \<Rightarrow> time \<Rightarrow> SessionRecordV1 \<Rightarrow> SessionSecretsV1 option \<Rightarrow> unit decision" where
  "ParkCallbackRejection_step eventID statusCode errorCode rejectedAt r secrets =
     (case (PendingEvents r, CallbackDelivery r) of
        (e # rest, Some delivery) \<Rightarrow>
          if EventID e \<noteq> eventID \<or> AttEventID delivery \<noteq> eventID
          then fails ''callback rejection is out of order''
          else if CallbackRejectedTotal r = max_u64 then fails ''callback rejection count overflow''
          else (let letter = \<lparr>LetterEvent = e, LetterAttempts = AttAttempts delivery,
                              LetterStatusCode = statusCode, LetterErrorCode = errorCode,
                              LetterRejectedAt = format_nano rejectedAt\<rparr>
                in Inr ((), Some (r\<lparr>PendingEvents := rest, CallbackDelivery := None,
                                    CallbackRejectedTotal := CallbackRejectedTotal r + 1,
                                    CallbackDeadLetters :=
                                      keep_last maxCallbackDeadLettersV1 (CallbackDeadLetters r @ [letter])\<rparr>)))
      | _ \<Rightarrow> fails ''callback rejection is out of order'')"

definition ParkCallbackRejection ::
    "env \<Rightarrow> disk \<Rightarrow> string \<Rightarrow> string \<Rightarrow> int \<Rightarrow> string \<Rightarrow> time \<Rightarrow> unit result \<times> disk" where
  "ParkCallbackRejection E d sid eventID statusCode errorCode rejectedAt =
     (if rejectedAt = zero_time \<or> \<not> validCallbackFailureV1 statusCode errorCode False
      then (fails ''callback rejection is invalid'', d)
      else update_session E d sid (ParkCallbackRejection_step eventID statusCode errorCode rejectedAt))"

definition ClearTerminalSecrets_step :: "SessionRecordV1 \<Rightarrow> SessionSecretsV1 option \<Rightarrow> unit decision" where
  "ClearTerminalSecrets_step r secrets =
     (if State r = ''active'' \<or> PendingEvents r \<noteq> []
      then fails ''terminal secrets cannot be cleared before final event acknowledgement''
      else Inr ((), Some (r\<lparr>WrappedKeyNonce := [], WrappedKeyCiphertext := [],
                            SecretNonce := [], SecretCiphertext := []\<rparr>)))"

definition ClearTerminalSecrets :: "env \<Rightarrow> disk \<Rightarrow> string \<Rightarrow> unit result \<times> disk" where
  "ClearTerminalSecrets E d sid = update_session E d sid ClearTerminalSecrets_step"

subsection \<open>Directory scans\<close>

text \<open>
  \<open>os.ReadDir\<close> lists the directory in the order of the file names.  The IDs of the session
  files are the names without \<open>.json\<close>; fences and temporary files have other extensions.
\<close>

definition sessionFileIDs :: "disk \<Rightarrow> string list" where
  "sessionFileIDs d = sort_key (\<lambda>sid. sid @ ''.json'') (map fst (Files d))"

fun loadAllV1 :: "env \<Rightarrow> disk \<Rightarrow> string list \<Rightarrow> (SessionRecordV1 \<times> SessionSecretsV1 option) list result" where
  "loadAllV1 E d [] = Inr []"
| "loadAllV1 E d (sid # rest) =
     (case loadLocked E d sid of
        Inl e \<Rightarrow> Inl e
      | Inr r \<Rightarrow> (case loadAllV1 E d rest of Inl e \<Rightarrow> Inl e | Inr rs \<Rightarrow> Inr (r # rs)))"

definition Recoverable :: "env \<Rightarrow> disk \<Rightarrow> SessionRecordV1 list result" where
  "Recoverable E d =
     (if \<not> read_dir_ok E then fails ''read session directory''
      else (case loadAllV1 E d (sessionFileIDs d) of
              Inl e \<Rightarrow> Inl e
            | Inr rs \<Rightarrow>
                Inr (sort_key BrokerSessionID
                      (filter (\<lambda>r. State r = ''active'' \<or> PendingEvents r \<noteq> [] \<or> WrappedKeyCiphertext r \<noteq> [])
                         (map fst rs)))))"

fun findByRunnerV1 :: "env \<Rightarrow> disk \<Rightarrow> string \<Rightarrow> string list \<Rightarrow> (SessionRecordV1 \<times> SessionSecretsV1 option) result" where
  "findByRunnerV1 E d runnerID [] = Inl ErrNotExist"
| "findByRunnerV1 E d runnerID (sid # rest) =
     (case loadLocked E d sid of
        Inl e \<Rightarrow> Inl e
      | Inr (r, secrets) \<Rightarrow>
          if RunnerSessionID r = runnerID then Inr (r, secrets) else findByRunnerV1 E d runnerID rest)"

definition LoadByRunnerSessionID :: "env \<Rightarrow> disk \<Rightarrow> string \<Rightarrow> (SessionRecordV1 \<times> SessionSecretsV1 option) result" where
  "LoadByRunnerSessionID E d runnerSessionID =
     (if \<not> opaqueIDPattern runnerSessionID then fails ''invalid runner session ID''
      else if \<not> read_dir_ok E then fails ''read session directory''
      else findByRunnerV1 E d runnerSessionID (sessionFileIDs d))"

end
