(* ===== verification/Session_Invariant.thy ===== *)
theory Session_Invariant
  imports Session_Ops
begin

section \<open>Every session file stays loadable\<close>

text \<open>
  \<open>loadLocked\<close> refuses a file that fails any of the two dozen checks of
  \<open>validateSessionRecordV1\<close> or whose secrets do not open, and then no operation of the
  session can succeed any more.  This theory shows that the store never writes such a file.

  The checks alone are not inductive: a heartbeat takes its usage from \<open>UsageTotal\<close>, and
  the checks do not exclude an earlier pending event with a larger total when the last pending
  event has none.  \<open>record_ok\<close> therefore adds that the reported usage is the floor of the
  metered time and bounds the usage of every pending event.

  The interface between the methods and this argument is the locale \<open>session_op\<close>: what
  a decision on one record promises.  Its lemmas lift the promises to the directory through
  \<open>update_session\<close>, once; each method is an interpretation.
\<close>

subsection \<open>The checks as predicates\<close>

definition usages :: "RunnerEventV1 list \<Rightarrow> u64 list" where
  "usages evs = List.map_filter (\<lambda>e. map_option Total (EvUsage e)) evs"

definition event_fits :: "SessionRecordV1 \<Rightarrow> RunnerEventV1 \<Rightarrow> bool" where
  "event_fits r e \<longleftrightarrow> ValidateEventV1 e = None \<and> EventID e = eventIDFor r (Sequence e)"

definition outbox_ok :: "SessionRecordV1 \<Rightarrow> bool" where
  "outbox_ok r \<longleftrightarrow>
     (\<forall>e\<in>set (PendingEvents r). event_fits r e \<and> Sequence e \<le> LastSequence r) \<and>
     sorted_wrt (<) (map Sequence (PendingEvents r)) \<and> sorted (usages (PendingEvents r)) \<and>
     (PendingEvents r \<noteq> [] \<longrightarrow> Sequence (last (PendingEvents r)) = LastSequence r \<and>
        (\<forall>u. EvUsage (last (PendingEvents r)) = Some u \<longrightarrow> Total u = UsageTotal r))"

definition letter_ok :: "SessionRecordV1 \<Rightarrow> CallbackDeadLetterV1 \<Rightarrow> bool" where
  "letter_ok r l \<longleftrightarrow>
     event_fits r (LetterEvent l) \<and> Sequence (LetterEvent l) \<le> LastSequence r \<and> LetterAttempts l \<noteq> 0 \<and>
     validCallbackFailureV1 (LetterStatusCode l) (LetterErrorCode l) False \<and>
     parse_stamp (LetterRejectedAt l) \<noteq> None"

definition letters_ok :: "SessionRecordV1 \<Rightarrow> bool" where
  "letters_ok r \<longleftrightarrow>
     length (CallbackDeadLetters r) \<le> maxCallbackDeadLettersV1 \<and>
     length (CallbackDeadLetters r) \<le> unat (CallbackRejectedTotal r) \<and>
     (\<forall>l\<in>set (CallbackDeadLetters r). letter_ok r l)"

definition delivery_ok :: "SessionRecordV1 \<Rightarrow> bool" where
  "delivery_ok r \<longleftrightarrow>
     (\<forall>a. CallbackDelivery r = Some a \<longrightarrow>
        PendingEvents r \<noteq> [] \<and> EventID (hd (PendingEvents r)) = AttEventID a \<and> AttAttempts a \<noteq> 0 \<and>
        validCallbackFailureV1 (LastStatusCode a) (LastErrorCode a) True \<and>
        (\<exists>l n. parse_stamp (LastAttemptAt a) = Some l \<and> parse_stamp (NextAttemptAt a) = Some n \<and> l \<le> n))"

definition health_ok :: "SessionRecordV1 \<Rightarrow> bool" where
  "health_ok r \<longleftrightarrow>
     validOutputStateV1 (OutputState r) \<and> validLadderFailureCodeV1 (LastLadderFailureCode r) True \<and>
     OutputStateSince r \<noteq> NoStamp \<and> stamp_ok (OutputStateSince r) \<and> stamp_ok (IngestOnlineAt r) \<and>
     stamp_ok (FirstFinalizedSegmentAt r) \<and> stamp_ok (LastFinalizedSegmentAt r) \<and>
     stamp_ok (LadderFailureWindowAt r) \<and>
     (LadderConsecutiveFailures r > 0 \<longleftrightarrow> LadderFailureWindowAt r \<noteq> NoStamp)"

definition identity_ok :: "SessionRecordV1 \<Rightarrow> bool" where
  "identity_ok r \<longleftrightarrow>
     Version r = sessionRecordVersionV1 \<and> opaqueIDPattern (RunnerSessionID r) \<and>
     workIDPattern (CreateFingerprint r) \<and>
     workIDPattern (SecretSHA256 (GrantAudit r)) \<and> opaqueIDPattern (AuditID (GrantAudit r)) \<and>
     AuditOperations (GrantAudit r) = [GrantOperationV1] \<and>
     parse_stamp (AuditExpiresAt (GrantAudit r)) \<noteq> None \<and>
     validateURLScheme (RTMPURL (RuntimePublic r)) [''rtmp'', ''rtmps''] = None \<and>
     validateHTTPURL (HLSURL (RuntimePublic r)) = None \<and> validateHTTPURL (KeyIssueURL (RuntimePublic r)) = None"

definition lifecycle_ok :: "SessionRecordV1 \<Rightarrow> bool" where
  "lifecycle_ok r \<longleftrightarrow>
     validStateV1 (State r) \<and> (terminalV1 r \<longleftrightarrow> CloseReason r \<noteq> []) \<and>
     (CloseReason r \<noteq> [] \<longrightarrow> validCloseReasonV1 (CloseReason r)) \<and>
     (Stopping r \<longleftrightarrow> PendingCloseReason r \<noteq> []) \<and> (Stopping r \<longleftrightarrow> PendingTerminalState r \<noteq> []) \<and>
     (PendingTerminalState r \<noteq> [] \<longrightarrow> PendingTerminalState r = ''ended'' \<or> PendingTerminalState r = ''failed'') \<and>
     (PendingCloseReason r \<noteq> [] \<longrightarrow> validCloseReasonV1 (PendingCloseReason r)) \<and>
     \<not> (terminalV1 r \<and> Stopping r) \<and>
     (PendingKeyActivationID r \<noteq> [] \<longrightarrow>
        opaqueIDPattern (PendingKeyActivationID r) \<and> State r = ''active'' \<and> \<not> Stopping r)"

definition envelope_ok :: "SessionRecordV1 \<Rightarrow> bool" where
  "envelope_ok r \<longleftrightarrow>
     (WrappedKeyCiphertext r \<noteq> [] \<longleftrightarrow> hasSecretsV1 r) \<and> (SecretNonce r \<noteq> [] \<longleftrightarrow> hasSecretsV1 r) \<and>
     (SecretCiphertext r \<noteq> [] \<longleftrightarrow> hasSecretsV1 r) \<and> (State r = ''active'' \<longrightarrow> hasSecretsV1 r)"

definition meter_ok :: "SessionRecordV1 \<Rightarrow> bool" where
  "meter_ok r \<longleftrightarrow>
     (UsageTotal r > 0 \<longrightarrow> LastSequence r \<noteq> 0) \<and>
     (hasMeteringCursor r \<longrightarrow> MeteredMicroseconds r div 1000000 = UsageTotal r) \<and>
     (MeteredSegmentSHA256 r \<noteq> [] \<longrightarrow> MeteredMicroseconds r \<noteq> 0) \<and>
     (\<forall>i\<in>set (MeteredSegmentSHA256 r). workIDPattern i) \<and> distinct (MeteredSegmentSHA256 r) \<and>
     (LastEventAt r \<noteq> NoStamp \<longrightarrow> parse_stamp (LastEventAt r) \<noteq> None \<and> LastSequence r \<noteq> 0)"

lemma first_error_None: "first_error cs = None \<longleftrightarrow> (\<forall>c\<in>set cs. c = None)"
  by (induction cs) (auto split: option.splits)

lemma check_None [simp]: "check b m = None \<longleftrightarrow> \<not> b"
  by (simp add: check_def)

lemma usages_simps [simp]:
  "usages [] = []"
  "usages (e # es) = (case EvUsage e of None \<Rightarrow> usages es | Some u \<Rightarrow> Total u # usages es)"
  "usages (es @ fs) = usages es @ usages fs"
  by (simp_all add: usages_def List.map_filter_def split: option.splits)

lemma set_usages: "x \<in> set (usages es) \<longleftrightarrow> (\<exists>e\<in>set es. \<exists>u. EvUsage e = Some u \<and> x = Total u)"
  by (induction es) (auto split: option.splits)

lemma validateOutbox_iff:
  "validateOutboxV1 r p u h es = None \<longleftrightarrow>
     (\<forall>e\<in>set es. event_fits r e \<and> Sequence e \<le> LastSequence r \<and> p < Sequence e) \<and>
     sorted_wrt (<) (map Sequence es) \<and> sorted (usages es) \<and> (h \<longrightarrow> (\<forall>x\<in>set (usages es). u \<le> x))"
proof (induction es arbitrary: p u h)
  case Nil
  then show ?case by simp
next
  case (Cons e es)
  show ?case
  proof (cases "EvUsage e")
    case None
    then show ?thesis by (auto simp: Cons.IH event_fits_def)
  next
    case (Some v)
    then show ?thesis by (auto simp: Cons.IH event_fits_def not_less)
  qed
qed

lemma validateDeadLetters_iff:
  "validateDeadLettersV1 r ls = None \<longleftrightarrow> (\<forall>l\<in>set ls. letter_ok r l)"
  by (induction ls) (auto simp: letter_ok_def event_fits_def)

lemma validateSegmentIDs_iff:
  "validateSegmentIDsV1 seen ids = None \<longleftrightarrow>
     (\<forall>i\<in>set ids. workIDPattern i) \<and> distinct ids \<and> set ids \<inter> set seen = {}"
  by (induction ids arbitrary: seen) auto

lemma of_nat_length_le_u64:
  assumes "n \<le> maxCallbackDeadLettersV1"
  shows "(of_nat n :: u64) \<le> t \<longleftrightarrow> n \<le> unat t"
proof -
  have "unat (of_nat n :: u64) = n"
    using assms by (simp add: maxCallbackDeadLettersV1_def unat_of_nat)
  then show ?thesis by (simp add: word_le_nat_alt)
qed

text \<open>The checks of \<open>validateSessionRecordV1\<close>, group by group.\<close>

lemma identity_checks:
  "BrokerSessionID r = sid \<and> identity_ok r \<and> lifecycle_ok r \<longleftrightarrow>
     \<not> (Version r \<noteq> sessionRecordVersionV1 \<or> BrokerSessionID r \<noteq> sid \<or> \<not> opaqueIDPattern (RunnerSessionID r)
        \<or> \<not> workIDPattern (CreateFingerprint r) \<or> \<not> validStateV1 (State r)) \<and>
     \<not> (\<not> workIDPattern (SecretSHA256 (GrantAudit r)) \<or> \<not> opaqueIDPattern (AuditID (GrantAudit r))
        \<or> AuditOperations (GrantAudit r) \<noteq> [GrantOperationV1]) \<and>
     \<not> parse_stamp (AuditExpiresAt (GrantAudit r)) = None \<and>
     \<not> validateURLScheme (RTMPURL (RuntimePublic r)) [''rtmp'', ''rtmps''] \<noteq> None \<and>
     \<not> validateHTTPURL (HLSURL (RuntimePublic r)) \<noteq> None \<and>
     \<not> validateHTTPURL (KeyIssueURL (RuntimePublic r)) \<noteq> None \<and>
     \<not> (terminalV1 r \<noteq> (CloseReason r \<noteq> [])
        \<or> (CloseReason r \<noteq> [] \<and> \<not> validCloseReasonV1 (CloseReason r))) \<and>
     \<not> (Stopping r \<noteq> (PendingCloseReason r \<noteq> []) \<or> Stopping r \<noteq> (PendingTerminalState r \<noteq> [])
        \<or> (PendingTerminalState r \<noteq> [] \<and> PendingTerminalState r \<noteq> ''ended''
           \<and> PendingTerminalState r \<noteq> ''failed'')
        \<or> (PendingCloseReason r \<noteq> [] \<and> \<not> validCloseReasonV1 (PendingCloseReason r))
        \<or> (terminalV1 r \<and> Stopping r)) \<and>
     \<not> (PendingKeyActivationID r \<noteq> []
        \<and> (\<not> opaqueIDPattern (PendingKeyActivationID r) \<or> State r \<noteq> ''active'' \<or> Stopping r))"
  unfolding identity_ok_def lifecycle_ok_def by argo

lemma envelope_checks:
  "envelope_ok r \<longleftrightarrow>
     \<not> list_ex (\<lambda>field. (field \<noteq> []) \<noteq> hasSecretsV1 r) [WrappedKeyCiphertext r, SecretNonce r, SecretCiphertext r] \<and>
     \<not> (State r = ''active'' \<and> \<not> hasSecretsV1 r)"
  by (auto simp: envelope_ok_def)

lemma health_checks:
  "health_ok r \<longleftrightarrow>
     \<not> (\<not> validOutputStateV1 (OutputState r) \<or> \<not> validLadderFailureCodeV1 (LastLadderFailureCode r) True) \<and>
     \<not> list_ex (\<lambda>s. \<not> stamp_ok s) [OutputStateSince r, IngestOnlineAt r, FirstFinalizedSegmentAt r,
          LastFinalizedSegmentAt r, LadderFailureWindowAt r] \<and>
     \<not> (OutputStateSince r = NoStamp
        \<or> (LadderConsecutiveFailures r > 0) \<noteq> (LadderFailureWindowAt r \<noteq> NoStamp))"
  by (auto simp: health_ok_def)

lemma outbox_checks:
  "outbox_ok r \<longleftrightarrow>
     validateOutboxV1 r 0 0 False (PendingEvents r) = None \<and>
     \<not> (PendingEvents r \<noteq> [] \<and>
        (let l = last (PendingEvents r)
         in Sequence l \<noteq> LastSequence r
            \<or> (case EvUsage l of None \<Rightarrow> False | Some u \<Rightarrow> Total u \<noteq> UsageTotal r)))"
proof -
  have pos: "(\<forall>e\<in>set (PendingEvents r). event_fits r e \<and> Sequence e \<le> LastSequence r \<and> 0 < Sequence e) \<longleftrightarrow>
      (\<forall>e\<in>set (PendingEvents r). event_fits r e \<and> Sequence e \<le> LastSequence r)"
    by (auto simp: event_fits_def word_gt_0 dest: ValidateEventV1_D(2))
  show ?thesis
    unfolding outbox_ok_def validateOutbox_iff pos by (auto simp: Let_def split: option.splits)
qed

lemma delivery_checks: "delivery_ok r \<longleftrightarrow> validateDeliveryV1 r = None"
  by (cases "CallbackDelivery r"; cases "PendingEvents r")
    (auto simp: delivery_ok_def validateDeliveryV1_def split: option.splits)

lemma letters_checks:
  "letters_ok r \<longleftrightarrow>
     \<not> length (CallbackDeadLetters r) > maxCallbackDeadLettersV1 \<and>
     \<not> of_nat (length (CallbackDeadLetters r)) > CallbackRejectedTotal r \<and>
     validateDeadLettersV1 r (CallbackDeadLetters r) = None"
  using of_nat_length_le_u64 [of "length (CallbackDeadLetters r)" "CallbackRejectedTotal r"]
  by (auto simp: letters_ok_def validateDeadLetters_iff not_less)

lemma meter_checks:
  "meter_ok r \<longleftrightarrow>
     \<not> (UsageTotal r > 0 \<and> LastSequence r = 0) \<and>
     \<not> ((hasMeteringCursor r \<and> MeteredMicroseconds r div 1000000 \<noteq> UsageTotal r)
        \<or> (MeteredSegmentSHA256 r \<noteq> [] \<and> MeteredMicroseconds r = 0)) \<and>
     validateSegmentIDsV1 [] (MeteredSegmentSHA256 r) = None \<and>
     \<not> (LastEventAt r \<noteq> NoStamp \<and> (parse_stamp (LastEventAt r) = None \<or> LastSequence r = 0))"
  unfolding meter_ok_def validateSegmentIDs_iff by auto

lemma validateSessionRecord_iff:
  "validateSessionRecordV1 r sid = None \<longleftrightarrow>
     (BrokerSessionID r = sid \<and> identity_ok r \<and> lifecycle_ok r) \<and> envelope_ok r \<and> health_ok r \<and>
     outbox_ok r \<and> delivery_ok r \<and> letters_ok r \<and> meter_ok r"
  unfolding identity_checks envelope_checks health_checks outbox_checks delivery_checks letters_checks meter_checks
    validateSessionRecordV1_def first_error_None list.set ball_simps check_None
  by (rule iffI; elim conjE; intro conjI; (assumption | rule TrueI))

subsection \<open>The inductive invariant of a record\<close>

definition usage_ok :: "SessionRecordV1 \<Rightarrow> bool" where
  "usage_ok r \<longleftrightarrow>
     UsageTotal r = MeteredMicroseconds r div 1000000 \<and>
     (\<forall>x\<in>set (usages (PendingEvents r)). x \<le> UsageTotal r)"

definition record_ok :: "SessionRecordV1 \<Rightarrow> bool" where
  "record_ok r \<longleftrightarrow> validateSessionRecordV1 r (BrokerSessionID r) = None \<and> usage_ok r"

lemma record_ok_iff:
  "record_ok r \<longleftrightarrow> identity_ok r \<and> lifecycle_ok r \<and> envelope_ok r \<and> health_ok r \<and>
     outbox_ok r \<and> delivery_ok r \<and> letters_ok r \<and> meter_ok r \<and> usage_ok r"
  by (auto simp: record_ok_def validateSessionRecord_iff)

text \<open>The defaults for old records do not touch a record that passes the checks.\<close>

lemma validOutputState_not_Nil: "validOutputStateV1 s \<Longrightarrow> s \<noteq> []"
  by (auto simp: validOutputStateV1_def OutputStateWaitingV1_def OutputStateProducingV1_def OutputStateStalledV1_def)

lemma legacyDefaults_record_ok:
  assumes "record_ok r"
  shows "legacyDefaultsV1 r = r"
proof -
  have "OutputState r \<noteq> []"
    using assms validOutputState_not_Nil by (auto simp: record_ok_iff health_ok_def)
  moreover have "\<not> (Stopping r \<and> PendingTerminalState r = [])"
    using assms unfolding record_ok_iff lifecycle_ok_def by blast
  ultimately show ?thesis by (simp add: legacyDefaultsV1_def)
qed

text \<open>What an operation may not change, and the directions in which it may change the rest.\<close>

definition same_identity :: "SessionRecordV1 \<Rightarrow> SessionRecordV1 \<Rightarrow> bool" where
  "same_identity r r' \<longleftrightarrow>
     Version r' = Version r \<and> BrokerSessionID r' = BrokerSessionID r \<and> RunnerSessionID r' = RunnerSessionID r \<and>
     CreateFingerprint r' = CreateFingerprint r \<and> RuntimePublic r' = RuntimePublic r \<and> GrantAudit r' = GrantAudit r"

definition same_envelope :: "SessionRecordV1 \<Rightarrow> SessionRecordV1 \<Rightarrow> bool" where
  "same_envelope r r' \<longleftrightarrow>
     WrappedKeyNonce r' = WrappedKeyNonce r \<and> WrappedKeyCiphertext r' = WrappedKeyCiphertext r \<and>
     SecretNonce r' = SecretNonce r \<and> SecretCiphertext r' = SecretCiphertext r \<and>
     (PendingKeyActivationID r' = PendingKeyActivationID r \<or> PendingKeyActivationID r' = [])"

definition advances :: "SessionRecordV1 \<Rightarrow> SessionRecordV1 \<Rightarrow> bool" where
  "advances r r' \<longleftrightarrow>
     same_identity r r' \<and> LastSequence r \<le> LastSequence r' \<and> UsageTotal r \<le> UsageTotal r' \<and>
     MeteredMicroseconds r \<le> MeteredMicroseconds r' \<and>
     set (MeteredSegmentSHA256 r) \<subseteq> set (MeteredSegmentSHA256 r') \<and>
     CallbackRejectedTotal r \<le> CallbackRejectedTotal r' \<and>
     (terminalV1 r \<longrightarrow> State r' = State r \<and> CloseReason r' = CloseReason r \<and>
        LastSequence r' = LastSequence r \<and> UsageTotal r' = UsageTotal r \<and>
        MeteredMicroseconds r' = MeteredMicroseconds r) \<and>
     (Stopping r \<longrightarrow>
        (if State r' = ''active'' then Stopping r' \<and> PendingCloseReason r' = PendingCloseReason r
         else CloseReason r' = PendingCloseReason r))"

lemma advances_refl [simp]: "record_ok r \<Longrightarrow> advances r r"
  by (auto simp: advances_def same_identity_def record_ok_iff lifecycle_ok_def terminalV1_def validState_cases)

lemma advances_trans:
  assumes "advances r s" and "advances s t" and "record_ok r" and "record_ok s"
  shows "advances r t"
proof -
  have s: "State s \<noteq> ''active'' \<Longrightarrow> terminalV1 s" "terminalV1 r \<Longrightarrow> terminalV1 s"
    using assms(1,4)
    by (auto simp: record_ok_iff lifecycle_ok_def validState_cases terminalV1_def advances_def)
  have active: "terminalV1 x \<Longrightarrow> State x \<noteq> ''active''" for x
    by (auto simp: terminalV1_def)
  have mono: "LastSequence r \<le> LastSequence t" "UsageTotal r \<le> UsageTotal t"
      "MeteredMicroseconds r \<le> MeteredMicroseconds t" "CallbackRejectedTotal r \<le> CallbackRejectedTotal t"
      "set (MeteredSegmentSHA256 r) \<subseteq> set (MeteredSegmentSHA256 t)" "same_identity r t"
    using assms(1,2) by (auto simp: advances_def same_identity_def intro: order_trans)
  have "terminalV1 r \<longrightarrow> State t = State r \<and> CloseReason t = CloseReason r \<and> LastSequence t = LastSequence r \<and>
      UsageTotal t = UsageTotal r \<and> MeteredMicroseconds t = MeteredMicroseconds r"
    using assms(1,2) s(2) by (simp add: advances_def)
  moreover have "Stopping r \<longrightarrow> (if State t = ''active'' then Stopping t \<and> PendingCloseReason t = PendingCloseReason r
      else CloseReason t = PendingCloseReason r)"
    using assms(1,2) s(1) active [of s] unfolding advances_def by metis
  ultimately show ?thesis using mono by (simp add: advances_def)
qed

end
