(* ===== verification/Session_Safety.thy ===== *)
theory Session_Safety
  imports Session_Invariant
begin

section \<open>What every store method keeps\<close>

text \<open>
  The locale \<open>session_op\<close> is the contract of one store method: from a loadable record,
  a decision that writes gives a loadable record which only advances.  The locale
  \<open>plain_op\<close> is the contract of the methods that leave the sealed secrets alone; a
  sublocale makes each of them a \<open>session_op\<close>.  Every method of the store is interpreted.
  The lemmas of \<open>session_op\<close> carry the contract to the whole directory.
\<close>

subsection \<open>What is relied on of hash, cipher and JSON\<close>

text \<open>Texts that \<open>encoding/json\<close> writes and reads back unchanged: valid UTF-8.\<close>

definition utf8_cont :: "char \<Rightarrow> bool" where
  "utf8_cont c \<longleftrightarrow> (of_char c :: nat) div 64 = 2"

fun valid_utf8 :: "string \<Rightarrow> bool" where
  "valid_utf8 [] = True"
| "valid_utf8 (c # cs) =
     (let n = (of_char c :: nat) in
      if n < 128 then valid_utf8 cs
      else case cs of
        [] \<Rightarrow> False
      | d # ds \<Rightarrow>
          if \<not> utf8_cont d then False
          else if 194 \<le> n \<and> n \<le> 223 then valid_utf8 ds
          else (case ds of
            [] \<Rightarrow> False
          | e # es \<Rightarrow>
              if \<not> utf8_cont e then False
              else if (n = 224 \<and> 160 \<le> (of_char d :: nat)) \<or> (n = 237 \<and> (of_char d :: nat) < 160)
                      \<or> (225 \<le> n \<and> n \<le> 239 \<and> n \<noteq> 237)
              then valid_utf8 es
              else (case es of
                [] \<Rightarrow> False
              | f # fs \<Rightarrow>
                  utf8_cont f \<and> ((n = 240 \<and> 144 \<le> (of_char d :: nat)) \<or> (241 \<le> n \<and> n \<le> 243)
                                  \<or> (n = 244 \<and> (of_char d :: nat) < 144)) \<and> valid_utf8 fs)))"

definition stamp_texts :: "stamp \<Rightarrow> string list" where
  "stamp_texts s = (case s of BadStamp t \<Rightarrow> [t] | _ \<Rightarrow> [])"

definition request_texts :: "RunnerCreateRequestV1 \<Rightarrow> string list" where
  "request_texts q =
     [SessionID q, WorkID q, Capability q, Offering q, CallbackURL q, CallbackToken q,
      ParamsSchema (SessionParams q), PublisherMode (SessionParams q), OutputProfile (SessionParams q),
      MeteringRendition (SessionParams q), Kind (Storage (SessionParams q))] @
     (case S3 (Storage (SessionParams q)) of
        None \<Rightarrow> []
      | Some c \<Rightarrow> [Endpoint c, Region c, Bucket c, Prefix c, AccessKeyID c, SecretAccessKey c, SessionToken c])"

definition response_texts :: "RunnerCreateResponseV1 \<Rightarrow> string list" where
  "response_texts p =
     [RespRunnerSessionID p, RtSchema (Runtime p), RTMPURL (Public (Runtime p)), HLSURL (Public (Runtime p)),
      KeyIssueURL (Public (Runtime p)), StatusURL (Public (Runtime p))] @
     concat (map (\<lambda>g. GrantID g # Secret g # Operations g @ stamp_texts (ExpiresAt g)) (Grants (Runtime p)))"

definition issue_texts :: "StreamKeyIssueRequestV1 \<Rightarrow> StreamKeyIssueResponseV1 \<Rightarrow> string list" where
  "issue_texts q p = [RequestID q, Audience q, RespRequestID p, StreamKey p] @ stamp_texts (KeyExpiresAt p)"

definition utf8_secrets :: "SessionSecretsV1 \<Rightarrow> bool" where
  "utf8_secrets s \<longleftrightarrow>
     list_all valid_utf8 (request_texts (CreateRequest s)) \<and> list_all valid_utf8 (response_texts (CreateResponse s)) \<and>
     valid_utf8 (CurrentKeyID s) \<and>
     list_all (\<lambda>(k, i). valid_utf8 k \<and> valid_utf8 (Fingerprint i) \<and>
                 list_all valid_utf8 (issue_texts (IssueRequest i) (IssueResponse i))) (KeyIssues s)"

text \<open>
  The assumptions on the parameters: digest and MAC sizes of SHA-256, that GCM opens what it
  sealed under the same key, nonce and associated data and appends a tag, that a random read
  gives the bytes asked for, and that JSON reads back what it wrote.
\<close>

definition crypto_ok :: "env \<Rightarrow> bool" where
  "crypto_ok E \<longleftrightarrow>
     (\<forall>x. length (sha256 E x) = 32) \<and> (\<forall>k x. length (hmac_sha256 E k x) = 32) \<and>
     (\<forall>k n p a. length k = 32 \<and> length n = nonceSize \<longrightarrow> gcm_open E k n (gcm_seal E k n p a) a = Some p) \<and>
     (\<forall>k n p a. gcm_seal E k n p a \<noteq> []) \<and>
     (\<forall>i n b. rand_read E i n = Some b \<longrightarrow> length b = n) \<and>
     (\<forall>s. utf8_secrets s \<longrightarrow> decode_secrets E (json_secrets E s) = Some s)"

text \<open>Two environments of one store: the keys and functions stay, clock, randomness and I/O vary.\<close>

definition same_keys :: "env \<Rightarrow> env \<Rightarrow> bool" where
  "same_keys E F \<longleftrightarrow>
     sha256 F = sha256 E \<and> hmac_sha256 F = hmac_sha256 E \<and> gcm_seal F = gcm_seal E \<and> gcm_open F = gcm_open E \<and>
     json_record F = json_record E \<and> json_secrets F = json_secrets E \<and> decode_secrets F = decode_secrets E \<and>
     json_create F = json_create E \<and> json_key_issue F = json_key_issue E \<and> master_key F = master_key E"

subsection \<open>Opening sealed secrets\<close>

lemma of_char_div_16: "(of_char c :: nat) div 16 < 16"
  using nat_of_char_less_256 [of c] by (simp add: less_mult_imp_div_less)

lemma workIDPattern_hex_encode: "length b = 32 \<Longrightarrow> workIDPattern (hex_encode b)"
proof -
  have "length (hex_encode b) = 2 * length b" and "list_all is_lower_hex (hex_encode b)"
    by (induction b) (auto simp: hex_char_is_lower_hex of_char_div_16)
  then show "length b = 32 \<Longrightarrow> workIDPattern (hex_encode b)" by (simp add: workIDPattern_def)
qed

lemma valid_hex_digest:
  assumes "crypto_ok E"
  shows "workIDPattern (hex_encode (sha256 E x))" "workIDPattern (hex_encode (hmac_sha256 E k x))"
  using assms workIDPattern_hex_encode by (auto simp: crypto_ok_def)

text \<open>The secrets check reads only the identity and the pending activation of a record.\<close>

lemma validateSessionSecrets_iff:
  "validateSessionSecretsV1 E r s = None \<longleftrightarrow>
     ValidateCreateRequestV1 (CreateRequest s) = None \<and> ValidateCreateResponseV1 (CreateResponse s) = None \<and>
     CreateFingerprintV1 E (CreateRequest s) = CreateFingerprint r \<and>
     SessionID (CreateRequest s) = BrokerSessionID r \<and>
     RespRunnerSessionID (CreateResponse s) = RunnerSessionID r \<and>
     Public (Runtime (CreateResponse s)) = RuntimePublic r \<and>
     (case Grants (Runtime (CreateResponse s)) of
        [] \<Rightarrow> False
      | g # _ \<Rightarrow> GrantID g = AuditID (GrantAudit r) \<and> Operations g = AuditOperations (GrantAudit r) \<and>
                 ExpiresAt g = AuditExpiresAt (GrantAudit r) \<and>
                 secretSHA256V1 E (Secret g) = SecretSHA256 (GrantAudit r)) \<and>
     (CurrentKeyID s \<noteq> [] \<longrightarrow> map_of (KeyIssues s) (CurrentKeyID s) \<noteq> None) \<and>
     (PendingKeyActivationID r \<noteq> [] \<longrightarrow> CurrentKeyID s = PendingKeyActivationID r) \<and>
     (\<forall>entry\<in>set (KeyIssues s). keyIssueOK E (CurrentKeyID s) entry = None)"
  unfolding validateSessionSecretsV1_def first_error_None
  by (cases "Grants (Runtime (CreateResponse s))") auto

lemma validateSessionSecrets_cong:
  assumes "same_identity r r'" and "PendingKeyActivationID r' = PendingKeyActivationID r \<or> PendingKeyActivationID r' = []"
    and "validateSessionSecretsV1 E r s = None"
  shows "validateSessionSecretsV1 E r' s = None"
  using assms unfolding validateSessionSecrets_iff same_identity_def by (elim conjE; cases "Grants (Runtime (CreateResponse s))") auto

lemma sealLocked_Inr:
  assumes "sealLocked E r s = Inr r'"
  obtains k n m where "rand_read E 0 32 = Some k" "rand_read E 1 nonceSize = Some n"
    "rand_read E 2 nonceSize = Some m"
    "r' = r\<lparr>WrappedKeyNonce := hex_encode n,
            WrappedKeyCiphertext := hex_encode (gcm_seal E (encryptionKey E) n k (BrokerSessionID r @ '':dek'')),
            SecretNonce := hex_encode m,
            SecretCiphertext := hex_encode (gcm_seal E k m (json_secrets E s) (BrokerSessionID r @ '':secrets''))\<rparr>"
  using assms by (auto simp: sealLocked_def split: option.splits)

lemma sealLocked_opens:
  assumes E: "crypto_ok E" and "utf8_secrets s" and v: "validateSessionSecretsV1 E r s = None"
    and seal: "sealLocked E r s = Inr r'"
  shows "openSecretsV1 E r' (BrokerSessionID r) = Inr s"
    and "WrappedKeyNonce r' \<noteq> []" and "WrappedKeyCiphertext r' \<noteq> []" and "SecretNonce r' \<noteq> []"
    and "SecretCiphertext r' \<noteq> []"
proof -
  obtain k n m where r: "rand_read E 0 32 = Some k" "rand_read E 1 nonceSize = Some n"
      "rand_read E 2 nonceSize = Some m"
    and r': "r' = r\<lparr>WrappedKeyNonce := hex_encode n,
            WrappedKeyCiphertext := hex_encode (gcm_seal E (encryptionKey E) n k (BrokerSessionID r @ '':dek'')),
            SecretNonce := hex_encode m,
            SecretCiphertext := hex_encode (gcm_seal E k m (json_secrets E s) (BrokerSessionID r @ '':secrets''))\<rparr>"
    using seal by (rule sealLocked_Inr)
  have len: "length k = 32" "length n = nonceSize" "length m = nonceSize" "length (encryptionKey E) = 32"
    using E r by (auto simp: crypto_ok_def encryptionKey_def deriveKeyV1_def)
  have open1: "gcm_open E (encryptionKey E) n (gcm_seal E (encryptionKey E) n k a) a = Some k"
    and open2: "gcm_open E k m (gcm_seal E k m p a) a = Some p" for p a
    using E len by (auto simp: crypto_ok_def)
  have dec: "decode_secrets E (json_secrets E s) = Some s"
    using E \<open>utf8_secrets s\<close> by (simp add: crypto_ok_def)
  have v': "validateSessionSecretsV1 E r' s = None"
    by (rule validateSessionSecrets_cong [OF _ _ v]) (auto simp: same_identity_def r')
  have ident: "SessionID (CreateRequest s) = BrokerSessionID r" "RespRunnerSessionID (CreateResponse s) = RunnerSessionID r"
    using v by (auto simp: validateSessionSecrets_iff)
  have fields: "hex_decode (WrappedKeyNonce r') = Some n"
      "hex_decode (WrappedKeyCiphertext r') = Some (gcm_seal E (encryptionKey E) n k (BrokerSessionID r @ '':dek''))"
      "hex_decode (SecretNonce r') = Some m"
      "hex_decode (SecretCiphertext r') = Some (gcm_seal E k m (json_secrets E s) (BrokerSessionID r @ '':secrets''))"
      "RunnerSessionID r' = RunnerSessionID r"
    by (simp_all add: r')
  show "openSecretsV1 E r' (BrokerSessionID r) = Inr s"
    unfolding openSecretsV1_def fields by (simp add: len open1 open2 dec ident v')
  show "WrappedKeyNonce r' \<noteq> []" "WrappedKeyCiphertext r' \<noteq> []" "SecretNonce r' \<noteq> []" "SecretCiphertext r' \<noteq> []"
    using len E by (auto simp: r' crypto_ok_def nonceSize_def)
qed

lemma openSecrets_cong:
  assumes "openSecretsV1 E r sid = Inr s" and "same_identity r r'" and "same_envelope r r'"
  shows "openSecretsV1 E r' sid = Inr s"
proof -
  have env: "WrappedKeyNonce r' = WrappedKeyNonce r" "WrappedKeyCiphertext r' = WrappedKeyCiphertext r"
      "SecretNonce r' = SecretNonce r" "SecretCiphertext r' = SecretCiphertext r"
      "RunnerSessionID r' = RunnerSessionID r"
    using assms(2,3) by (auto simp: same_envelope_def same_identity_def)
  have "validateSessionSecretsV1 E r s = None"
    using assms(1) by (auto simp: openSecretsV1_def split: option.splits if_splits)
  then have "validateSessionSecretsV1 E r' s = None"
    using assms(2,3) by (intro validateSessionSecrets_cong [of r r']) (auto simp: same_envelope_def)
  with assms(1) show ?thesis
    unfolding openSecretsV1_def env by (auto split: option.splits if_splits)
qed

lemma openSecrets_Inr:
  assumes "openSecretsV1 E r sid = Inr s"
  shows "validateSessionSecretsV1 E r s = None"
  using assms by (auto simp: openSecretsV1_def split: option.splits if_splits)

subsection \<open>The directory\<close>

definition opened :: "env \<Rightarrow> SessionRecordV1 \<Rightarrow> SessionSecretsV1 option \<Rightarrow> bool" where
  "opened E r so \<longleftrightarrow>
     (case so of
        None \<Rightarrow> WrappedKeyCiphertext r = []
      | Some s \<Rightarrow> WrappedKeyCiphertext r \<noteq> [] \<and> openSecretsV1 E r (BrokerSessionID r) = Inr s \<and> utf8_secrets s)"

definition file_ok :: "env \<Rightarrow> string \<Rightarrow> session_file \<Rightarrow> bool" where
  "file_ok E sid f \<longleftrightarrow>
     (case f of
        FRecord r \<Rightarrow> opaqueIDPattern sid \<and> BrokerSessionID r = sid \<and> IntegritySHA256 r = integrityV1 E r \<and>
                    record_ok r \<and> (\<exists>so. opened E r so)
      | _ \<Rightarrow> False)"

definition disk_ok :: "env \<Rightarrow> disk \<Rightarrow> bool" where
  "disk_ok E d \<longleftrightarrow>
     (\<forall>sid f. map_of (Files d) sid = Some f \<longrightarrow> file_ok E sid f) \<and>
     (\<forall>sid mac. map_of (Fences d) sid = Some mac \<longrightarrow> mac = createFenceMAC E sid)"

definition disk_advances :: "disk \<Rightarrow> disk \<Rightarrow> bool" where
  "disk_advances d d' \<longleftrightarrow>
     (\<forall>sid r. map_of (Files d) sid = Some (FRecord r) \<longrightarrow>
        (\<exists>r'. map_of (Files d') sid = Some (FRecord r') \<and> advances r r')) \<and>
     map_of (Fences d) \<subseteq>\<^sub>m map_of (Fences d')"

lemma integrity_update [simp]: "integrityV1 E (r\<lparr>IntegritySHA256 := x\<rparr>) = integrityV1 E r"
  by (simp add: integrityV1_def)

lemmas record_parts =
  identity_ok_def lifecycle_ok_def envelope_ok_def health_ok_def outbox_ok_def event_fits_def eventIDFor_def
  letters_ok_def letter_ok_def meter_ok_def usage_ok_def delivery_ok_def hasSecretsV1_def terminalV1_def
  hasMeteringCursor_def

lemma integrity_irrelevant [simp]:
  "record_ok (r\<lparr>IntegritySHA256 := x\<rparr>) \<longleftrightarrow> record_ok r"
  "advances r (r'\<lparr>IntegritySHA256 := x\<rparr>) \<longleftrightarrow> advances r r'"
  unfolding record_ok_iff record_parts advances_def same_identity_def by simp_all

lemma opened_integrity [simp]: "opened E (r\<lparr>IntegritySHA256 := x\<rparr>) so \<longleftrightarrow> opened E r so"
proof -
  let ?r = "r\<lparr>IntegritySHA256 := x\<rparr>"
  have "same_identity r ?r" "same_envelope r ?r" "same_identity ?r r" "same_envelope ?r r"
    by (simp_all add: same_identity_def same_envelope_def)
  then have "openSecretsV1 E ?r sid = Inr s \<longleftrightarrow> openSecretsV1 E r sid = Inr s" for sid s
    using openSecrets_cong by blast
  then show ?thesis by (simp add: opened_def split: option.splits)
qed

lemma loadRecord_ok:
  assumes "crypto_ok E" and "file_ok E sid (FRecord r)"
  shows "\<exists>so. loadRecordV1 E r sid = Inr (r, so) \<and> opened E r so"
proof -
  have r: "BrokerSessionID r = sid" "IntegritySHA256 r = integrityV1 E r" "record_ok r"
    using assms(2) by (auto simp: file_ok_def)
  obtain so where so: "opened E r so" using assms(2) by (auto simp: file_ok_def)
  have "verifyIntegrityV1 E r = None"
    using valid_hex_digest(2) [OF assms(1)] by (simp add: verifyIntegrityV1_def r(2)) (simp add: integrityV1_def)
  moreover have "validateSessionRecordV1 r sid = None"
    using r by (simp add: record_ok_def)
  ultimately show ?thesis
    using so r(1) by (auto simp: loadRecordV1_def legacyDefaults_record_ok [OF r(3)] opened_def split: option.splits)
qed

lemma load_defined:
  assumes "crypto_ok E" and "disk_ok E d" and "map_of (Files d) sid = Some f"
  shows "\<exists>r so. f = FRecord r \<and> loadLocked E d sid = Inr (r, so) \<and> record_ok r \<and> opened E r so \<and> BrokerSessionID r = sid"
proof -
  have f: "file_ok E sid f" using assms(2,3) by (auto simp: disk_ok_def)
  then obtain r where r: "f = FRecord r" by (cases f) (auto simp: file_ok_def)
  obtain so where "loadRecordV1 E r sid = Inr (r, so)" "opened E r so"
    using loadRecord_ok [OF assms(1), of sid r] f r by blast
  then show ?thesis using f r assms(3) by (auto simp: loadLocked_def file_ok_def)
qed

lemma load_Inr:
  assumes "crypto_ok E" and "disk_ok E d" and "loadLocked E d sid = Inr (r, so)"
  shows "map_of (Files d) sid = Some (FRecord r) \<and> opaqueIDPattern sid \<and> record_ok r \<and> opened E r so \<and> BrokerSessionID r = sid"
proof -
  obtain f where f: "map_of (Files d) sid = Some f"
    using assms(3) by (cases "map_of (Files d) sid") (auto simp: loadLocked_def split: if_splits)
  have "opaqueIDPattern sid" using assms(3) by (auto simp: loadLocked_def split: if_splits)
  with load_defined [OF assms(1,2) f] f assms(3) show ?thesis by auto
qed

lemma load_missing:
  assumes "crypto_ok E" and "disk_ok E d" and "loadLocked E d sid = Inl e" and "errors_is e ErrNotExist"
  shows "map_of (Files d) sid = None"
  using load_defined [OF assms(1,2), of sid] assms(3) by (cases "map_of (Files d) sid") auto

lemma saveLocked_disk:
  "snd (saveLocked E d r) = d \<or>
   snd (saveLocked E d r) = d\<lparr>Files := put (BrokerSessionID r) (FRecord (r\<lparr>IntegritySHA256 := integrityV1 E r\<rparr>)) (Files d)\<rparr>"
  by (auto simp: saveLocked_def Let_def split: save_outcome.splits)

lemma saveLocked_OK:
  assumes "saveLocked E d r = (None, d')"
  shows "d' = d\<lparr>Files := put (BrokerSessionID r) (FRecord (r\<lparr>IntegritySHA256 := integrityV1 E r\<rparr>)) (Files d)\<rparr>"
  using assms by (auto simp: saveLocked_def Let_def split: save_outcome.splits)

lemma saveLocked_keeps:
  assumes "disk_ok E d" and "opaqueIDPattern (BrokerSessionID r)" and "record_ok r" and "opened E r so"
  shows "disk_ok E (snd (saveLocked E d r))"
proof -
  have "file_ok E (BrokerSessionID r) (FRecord (r\<lparr>IntegritySHA256 := integrityV1 E r\<rparr>))"
    using assms by (auto simp: file_ok_def)
  then show ?thesis using saveLocked_disk [of E d r] assms(1) by (auto simp: disk_ok_def split: if_splits)
qed

lemma disk_advances_refl [simp]: "disk_ok E d \<Longrightarrow> disk_advances d d"
  by (auto simp: disk_advances_def disk_ok_def file_ok_def split: session_file.splits)

lemma disk_advances_trans:
  assumes "disk_advances a b" and "disk_advances b c" and "disk_ok E a" and "disk_ok E b"
  shows "disk_advances a c"
proof -
  have ok: "record_ok r" if "map_of (Files x) sid = Some (FRecord r)" "disk_ok E x" for x sid r
    using that by (fastforce simp: disk_ok_def file_ok_def)
  show ?thesis
    using assms(1,2) unfolding disk_advances_def
    by (meson advances_trans map_le_trans ok assms(3,4))
qed

subsection \<open>The contract of a method\<close>

locale session_op =
  fixes E :: env
    and admits :: "SessionRecordV1 \<Rightarrow> bool"
    and step :: "SessionRecordV1 \<Rightarrow> SessionSecretsV1 option \<Rightarrow> 'a decision"
  assumes step_keeps:
    "crypto_ok E \<Longrightarrow> record_ok r \<Longrightarrow> opened E r so \<Longrightarrow> admits r \<Longrightarrow> step r so = Inr (a, Some r') \<Longrightarrow>
       record_ok r' \<and> advances r r' \<and> (\<exists>so'. opened E r' so')"
begin

lemma update_cases:
  assumes E: "crypto_ok E" and d: "disk_ok E d"
    and adm: "\<forall>r so. loadLocked E d sid = Inr (r, so) \<longrightarrow> admits r"
  shows "snd (update_session E d sid step) = d \<or>
    (\<exists>r so r' so'. loadLocked E d sid = Inr (r, so) \<and> record_ok r' \<and> advances r r' \<and> opened E r' so' \<and>
       BrokerSessionID r' = sid \<and> snd (update_session E d sid step) = snd (saveLocked E d r'))"
proof (cases "\<exists>r so a r'. loadLocked E d sid = Inr (r, so) \<and> step r so = Inr (a, Some r')")
  case True
  then obtain r so a r' where l: "loadLocked E d sid = Inr (r, so)" and st: "step r so = Inr (a, Some r')" by blast
  note r = load_Inr [OF E d l]
  have "record_ok r' \<and> advances r r' \<and> (\<exists>so'. opened E r' so')"
    using step_keeps [OF E _ _ _ st] adm l r by blast
  moreover from this have "BrokerSessionID r' = sid"
    using r by (simp add: advances_def same_identity_def)
  moreover have "snd (update_session E d sid step) = snd (saveLocked E d r')"
    by (simp add: update_session_def l st split: prod.splits option.splits)
  ultimately show ?thesis using l by blast
next
  case False
  then have "snd (update_session E d sid step) = d"
    by (auto simp: update_session_def split: sum.splits option.splits prod.splits)
  then show ?thesis by simp
qed

lemma update_keeps:
  assumes E: "crypto_ok E" and d: "disk_ok E d"
    and adm: "\<forall>r so. loadLocked E d sid = Inr (r, so) \<longrightarrow> admits r"
  shows "disk_ok E (snd (update_session E d sid step)) \<and> disk_advances d (snd (update_session E d sid step))"
  using update_cases [OF assms]
proof (elim disjE exE conjE)
  fix r so r' so'
  assume l: "loadLocked E d sid = Inr (r, so)" and r': "record_ok r'" "advances r r'" "opened E r' so'"
    "BrokerSessionID r' = sid" and upd: "snd (update_session E d sid step) = snd (saveLocked E d r')"
  note r = load_Inr [OF E d l]
  have "disk_ok E (snd (saveLocked E d r'))"
    by (rule saveLocked_keeps [OF d _ r'(1,3)]) (use r r' in simp)
  moreover have "disk_advances d (snd (saveLocked E d r'))"
    using saveLocked_disk [of E d r'] r r' disk_advances_refl [OF d] by (auto simp: disk_advances_def)
  ultimately show ?thesis using upd by simp
qed (use d in simp)

text \<open>A method on one session leaves the files of the others and all fences as they are.\<close>

lemma update_frame:
  assumes "crypto_ok E" and "disk_ok E d" and "\<forall>r so. loadLocked E d sid = Inr (r, so) \<longrightarrow> admits r"
  shows "sid' \<noteq> sid \<Longrightarrow> map_of (Files (snd (update_session E d sid step))) sid' = map_of (Files d) sid'"
    and "Fences (snd (update_session E d sid step)) = Fences d"
proof -
  have "snd (update_session E d sid step) = d \<or>
      (\<exists>f. snd (update_session E d sid step) = d\<lparr>Files := put sid f (Files d)\<rparr>)"
    using update_cases [OF assms] saveLocked_disk [of E d] by metis
  then show "sid' \<noteq> sid \<Longrightarrow> map_of (Files (snd (update_session E d sid step))) sid' = map_of (Files d) sid'"
    and "Fences (snd (update_session E d sid step)) = Fences d"
    by auto
qed

text \<open>No method but creation makes a file.\<close>

lemma update_absent:
  assumes "crypto_ok E" and "disk_ok E d" and "\<forall>r so. loadLocked E d sid = Inr (r, so) \<longrightarrow> admits r"
    and "map_of (Files d) x = None"
  shows "map_of (Files (snd (update_session E d sid step))) x = None"
proof (cases "x = sid")
  case True
  then have "snd (update_session E d sid step) = d"
    using assms(4) by (simp add: update_session_def loadLocked_def split: sum.splits)
  then show ?thesis using assms(4) by simp
next
  case False
  then show ?thesis using update_frame(1) [OF assms(1-3)] assms(4) by simp
qed

end

text \<open>The contract of a method that leaves the sealed secrets alone.\<close>

locale plain_op =
  fixes E :: env
    and admits :: "SessionRecordV1 \<Rightarrow> bool"
    and step :: "SessionRecordV1 \<Rightarrow> SessionSecretsV1 option \<Rightarrow> 'a decision"
  assumes plain_keeps:
    "crypto_ok E \<Longrightarrow> record_ok r \<Longrightarrow> admits r \<Longrightarrow> step r so = Inr (a, Some r') \<Longrightarrow>
       record_ok r' \<and> advances r r' \<and> same_envelope r r'"

sublocale plain_op \<subseteq> session_op
proof
  fix r so a r'
  assume a: "crypto_ok E" "record_ok r" "opened E r so" "admits r" "step r so = Inr (a, Some r')"
  then have r': "record_ok r'" "advances r r'" "same_envelope r r'" using plain_keeps by blast+
  have "opened E r' so"
    using a(3) r' openSecrets_cong [of E r "BrokerSessionID r" _ r']
    by (auto simp: opened_def advances_def same_envelope_def same_identity_def split: option.splits)
  with r' show "record_ok r' \<and> advances r r' \<and> (\<exists>so'. opened E r' so')" by blast
qed

end
