(* ===== verification/Session_Methods.thy ===== *)
theory Session_Methods
  imports Session_Safety
begin

section \<open>The store methods meet their contract\<close>

text \<open>
  For each method of the store, the interpretation of \<open>plain_op\<close> or \<open>session_op\<close>
  on its decision function.  The methods that emit an event share the lemma
  \<open>event_appended\<close>.
\<close>

subsection \<open>Appending an event\<close>

lemma sorted_wrt_append_last:
  "sorted_wrt R (xs @ [y]) \<longleftrightarrow> sorted_wrt R xs \<and> (\<forall>x\<in>set xs. R x y)"
  by (simp add: sorted_wrt_append)

lemma event_appended:
  assumes r: "record_ok r" and e: "ValidateEventV1 e = None" "EventID e = eventIDFor r (Sequence e)"
    and seq: "LastSequence r < Sequence e"
    and fields: "same_identity r r'" "PendingEvents r' = PendingEvents r @ [e]" "LastSequence r' = Sequence e"
      "LastEventAt r' = EventTime e" "CallbackDelivery r' = CallbackDelivery r"
      "CallbackDeadLetters r' = CallbackDeadLetters r" "CallbackRejectedTotal r' = CallbackRejectedTotal r"
    and usage: "UsageTotal r \<le> UsageTotal r'" "EvUsage e = None \<longrightarrow> UsageTotal r' = UsageTotal r"
      "\<forall>u. EvUsage e = Some u \<longrightarrow> Total u = UsageTotal r'" "UsageTotal r' = MeteredMicroseconds r' div 1000000"
    and ids: "\<forall>i\<in>set (MeteredSegmentSHA256 r'). workIDPattern i" "distinct (MeteredSegmentSHA256 r')"
      "MeteredSegmentSHA256 r' \<noteq> [] \<longrightarrow> MeteredMicroseconds r' \<noteq> 0"
  shows "outbox_ok r'" "delivery_ok r'" "letters_ok r'" "meter_ok r'" "usage_ok r'"
proof -
  have ids': "eventIDFor r' = eventIDFor r"
    using fields(1) by (simp add: eventIDFor_def same_identity_def fun_eq_iff)
  have fits: "event_fits r' = event_fits r" by (simp add: event_fits_def ids' fun_eq_iff)
  have ob: "outbox_ok r" and del: "delivery_ok r" and let_ok: "letters_ok r" and us: "usage_ok r"
    using r by (simp_all add: record_ok_iff)
  have bound: "x \<le> UsageTotal r" if "x \<in> set (usages (PendingEvents r))" for x
    using us that unfolding usage_ok_def by blast
  have le: "s \<le> Sequence e" "s < Sequence e" if "s \<le> LastSequence r" for s
    using seq that by auto
  show "usage_ok r'"
    unfolding usage_ok_def using usage bound order_trans [OF bound usage(1)]
    by (auto simp: fields split: option.splits)
  show "outbox_ok r'"
    unfolding outbox_ok_def fields fits map_append list.map sorted_wrt_append_last usages_simps
    using ob e le usage order_trans [OF bound usage(1)]
    by (auto simp: outbox_ok_def event_fits_def sorted_append split: option.splits)
  show "delivery_ok r'" using del by (auto simp: delivery_ok_def fields)
  show "letters_ok r'"
    using let_ok le(1) by (auto simp: letters_ok_def letter_ok_def fields fits)
  show "meter_ok r'"
    using e ids usage(4) ValidateEventV1_D [OF e(1)] by (auto simp: meter_ok_def fields)
qed

text \<open>Updates that keep the lifecycle fields, and updates that keep outbox, meter and delivery.\<close>

definition same_lifecycle :: "SessionRecordV1 \<Rightarrow> SessionRecordV1 \<Rightarrow> bool" where
  "same_lifecycle r r' \<longleftrightarrow>
     State r' = State r \<and> Stopping r' = Stopping r \<and> PendingCloseReason r' = PendingCloseReason r \<and>
     PendingTerminalState r' = PendingTerminalState r \<and> PendingKeyActivationID r' = PendingKeyActivationID r \<and>
     CloseReason r' = CloseReason r \<and> WrappedKeyNonce r' = WrappedKeyNonce r \<and>
     WrappedKeyCiphertext r' = WrappedKeyCiphertext r \<and> SecretNonce r' = SecretNonce r \<and>
     SecretCiphertext r' = SecretCiphertext r"

definition same_outbox :: "SessionRecordV1 \<Rightarrow> SessionRecordV1 \<Rightarrow> bool" where
  "same_outbox r r' \<longleftrightarrow>
     PendingEvents r' = PendingEvents r \<and> LastSequence r' = LastSequence r \<and> LastEventAt r' = LastEventAt r \<and>
     CallbackDelivery r' = CallbackDelivery r \<and> CallbackDeadLetters r' = CallbackDeadLetters r \<and>
     CallbackRejectedTotal r' = CallbackRejectedTotal r \<and> UsageTotal r' = UsageTotal r \<and>
     MeteredMicroseconds r' = MeteredMicroseconds r \<and> MeteredSegmentSHA256 r' = MeteredSegmentSHA256 r"

lemma lifecycle_unchanged:
  assumes "record_ok r" and "same_identity r r'" and "same_lifecycle r r'"
  shows "identity_ok r'" "lifecycle_ok r'" "envelope_ok r'" "same_envelope r r'"
  using assms by (auto simp: record_ok_iff identity_ok_def lifecycle_ok_def envelope_ok_def terminalV1_def
      hasSecretsV1_def same_identity_def same_lifecycle_def same_envelope_def)

lemma outbox_unchanged:
  assumes "record_ok r" and "same_identity r r'" and "same_outbox r r'"
  shows "outbox_ok r'" "delivery_ok r'" "letters_ok r'" "meter_ok r'" "usage_ok r'"
proof -
  have fits: "event_fits r' = event_fits r"
    using assms(2) by (simp add: event_fits_def eventIDFor_def same_identity_def fun_eq_iff)
  note f = assms(3) [unfolded same_outbox_def, THEN conjunct1] assms(3) [unfolded same_outbox_def, THEN conjunct2]
  have eq: "outbox_ok r' = outbox_ok r" "delivery_ok r' = delivery_ok r" "letters_ok r' = letters_ok r"
      "meter_ok r' = meter_ok r" "usage_ok r' = usage_ok r"
    by (simp_all add: outbox_ok_def delivery_ok_def letters_ok_def letter_ok_def meter_ok_def usage_ok_def
        hasMeteringCursor_def f fits)
  show "outbox_ok r'" "delivery_ok r'" "letters_ok r'" "meter_ok r'" "usage_ok r'"
    using assms(1) by (simp_all add: record_ok_iff eq)
qed

lemma Suc_u64: "w \<noteq> max_u64 \<Longrightarrow> w < w + (1 :: u64)"
  using u64_less_Suc by auto

text \<open>The shape shared by the methods that emit an event and keep the session active.\<close>

lemma active_event:
  assumes r: "record_ok r" and act: "\<not> not_active r" and e: "ValidateEventV1 e = None" "EventID e = eventIDFor r (Sequence e)"
    and seq: "LastSequence r < Sequence e"
    and same: "same_identity r r'" "same_lifecycle r r'" and h: "health_ok r'"
    and fields: "PendingEvents r' = PendingEvents r @ [e]" "LastSequence r' = Sequence e"
      "LastEventAt r' = EventTime e" "CallbackDelivery r' = CallbackDelivery r"
      "CallbackDeadLetters r' = CallbackDeadLetters r" "CallbackRejectedTotal r' = CallbackRejectedTotal r"
      "UsageTotal r' = UsageTotal r" "MeteredMicroseconds r' = MeteredMicroseconds r"
      "MeteredSegmentSHA256 r' = MeteredSegmentSHA256 r"
    and usage: "EvUsage e = None \<or> EvUsage e = Some \<lparr>Unit = WorkUnitV1, Total = UsageTotal r\<rparr>"
  shows "record_ok r' \<and> advances r r' \<and> same_envelope r r'"
proof -
  have m: "meter_ok r" "UsageTotal r = MeteredMicroseconds r div 1000000"
    using r by (auto simp: record_ok_iff usage_ok_def)
  have "outbox_ok r'" "delivery_ok r'" "letters_ok r'" "meter_ok r'" "usage_ok r'"
    by (rule event_appended [OF r e seq same(1)]; use usage m in \<open>auto simp: fields meter_ok_def\<close>)+
  moreover note lifecycle_unchanged [OF r same]
  moreover have "advances r r'"
    using act seq same(1,2)
    by (auto simp: advances_def fields not_active_def terminalV1_def same_lifecycle_def)
  ultimately show ?thesis using h by (simp add: record_ok_iff)
qed

lemma health_unchanged: "record_ok r \<Longrightarrow> health_ok r"
  by (simp add: record_ok_iff)

subsection \<open>Heartbeat, ladder restart and stalled output\<close>

lemma RecordHeartbeat_keeps:
  assumes r: "record_ok r" and st: "RecordHeartbeat_step t i r so = Inr (a, Some r')"
  shows "record_ok r' \<and> advances r r' \<and> same_envelope r r'"
proof -
  obtain e where e: "ValidateEventV1 e = None" "EventID e = eventIDFor r (Sequence e)" "LastSequence r < Sequence e"
      "EvUsage e = Some \<lparr>Unit = WorkUnitV1, Total = UsageTotal r\<rparr>" and r': "r' = appendEventV1 r e" and act: "\<not> not_active r"
    using st Suc_u64 [of "LastSequence r"]
    by (auto simp: RecordHeartbeat_step_def Let_def split: if_splits option.splits)
  have "health_ok r'" using health_unchanged [OF r] by (simp add: r' appendEventV1_def health_ok_def)
  with e show ?thesis
    by (intro active_event [OF r act e(1-3)]) (auto simp: r' appendEventV1_def same_identity_def same_lifecycle_def)
qed

lemma recordOutputStalled_keeps:
  assumes r: "record_ok r" and act: "\<not> not_active r" and st: "recordOutputStalledLockedV1 r t = Inr r'"
  shows "record_ok r' \<and> advances r r' \<and> same_envelope r r'"
proof -
  define r1 where "r1 = r\<lparr>OutputState := OutputStateStalledV1, OutputStateSince := format_nano t\<rparr>"
  obtain e where e: "ValidateEventV1 e = None" "EventID e = eventIDFor r (Sequence e)" "LastSequence r < Sequence e"
      "EvUsage e = None" and r': "r' = appendEventV1 r1 e"
    using st Suc_u64 [of "LastSequence r"]
    by (auto simp: recordOutputStalledLockedV1_def Let_def r1_def eventIDFor_def split: if_splits option.splits)
  have "health_ok r'"
    using health_unchanged [OF r] by (simp add: r' r1_def appendEventV1_def health_ok_def stamp_ok_def)
  with e show ?thesis
    by (intro active_event [OF r act e(1-3)]) (auto simp: r' r1_def appendEventV1_def same_identity_def same_lifecycle_def)
qed

lemma RecordLadderRestart_keeps:
  assumes r: "record_ok r" and code: "validLadderFailureCodeV1 code False"
    and st: "RecordLadderRestart_step code t w r so = Inr (a, Some r')"
  shows "record_ok r' \<and> advances r r' \<and> same_envelope r r'"
proof -
  define r1 where "r1 = ladderWindowV1 t w r"
  define r2 where "r2 = r1\<lparr>LadderConsecutiveFailures := LadderConsecutiveFailures r1 + 1, LastLadderFailureCode := code\<rparr>"
  have r1: "r1 = r \<and> LadderFailureWindowAt r \<noteq> NoStamp \<or>
      r1 = r\<lparr>LadderFailureWindowAt := format_nano t, LadderConsecutiveFailures := 0\<rparr>"
    by (auto simp: r1_def ladderWindowV1_def Let_def split: option.splits)
  have act: "\<not> not_active r" and nm: "LadderConsecutiveFailures r1 \<noteq> max_u32" "LastSequence r \<noteq> max_u64"
    using st r1 by (auto simp: RecordLadderRestart_step_def Let_def r1_def [symmetric] split: if_splits)
  obtain e where e: "ValidateEventV1 e = None" "EventID e = eventIDFor r1 (Sequence e)" "Sequence e = LastSequence r1 + 1"
      "EvUsage e = None" and r': "r' = appendEventV1 r2 e"
    using st act
    by (auto simp: RecordLadderRestart_step_def Let_def r1_def [symmetric] r2_def eventIDFor_def
        split: if_splits option.splits)
  have r2: "LastSequence r1 = LastSequence r" "eventIDFor r1 = eventIDFor r"
    using r1 by (auto simp: eventIDFor_def fun_eq_iff)
  have pos: "LadderConsecutiveFailures r1 + 1 > 0"
    using nm(1) by (simp add: max_u32_def word_gt_0 add_eq_0_iff2)
  have "validLadderFailureCodeV1 code True"
    using code by (simp add: validLadderFailureCodeV1_def split: if_splits)
  then have "health_ok r'"
    using health_unchanged [OF r] r1 pos
    by (auto simp: r' r2_def appendEventV1_def health_ok_def stamp_ok_def)
  with e show ?thesis using Suc_u64 [OF nm(2)] r1
    by (intro active_event [OF r act e(1)])
      (auto simp: r' r2 r2_def appendEventV1_def same_identity_def same_lifecycle_def)
qed

subsection \<open>Metering\<close>

lemma meterSegments_Inr:
  assumes "meterSegmentsV1 E m ids ch segs = Inr (m', ids', ch')" and "crypto_ok E"
    and "\<forall>i\<in>set ids. workIDPattern i" and "distinct ids" and "ids \<noteq> [] \<longrightarrow> m \<noteq> 0"
  shows "m \<le> m'" "set ids \<subseteq> set ids'" "\<forall>i\<in>set ids'. workIDPattern i" "distinct ids'" "ids' \<noteq> [] \<longrightarrow> m' \<noteq> 0"
proof -
  have "m \<le> m' \<and> set ids \<subseteq> set ids' \<and> (\<forall>i\<in>set ids'. workIDPattern i) \<and> distinct ids' \<and> (ids' \<noteq> [] \<longrightarrow> m' \<noteq> 0)"
    using assms
  proof (induction segs arbitrary: m ids ch)
    case (Cons g segs)
    obtain t c where a: "add64 m (DurationMicroseconds g) = (t, c)" by (cases "add64 m (DurationMicroseconds g)")
    let ?i = "hex_encode (sha256 E (URI g))"
    have dur: "DurationMicroseconds g \<noteq> 0" using Cons.prems(1) by (auto split: if_splits)
    show ?case
    proof (cases "?i \<in> set ids")
      case True
      then show ?thesis using Cons.IH [of m ids ch] Cons.prems by (auto simp: Let_def split: if_splits)
    next
      case False
      with Cons.prems(1) a have c: "c = 0" and rest: "meterSegmentsV1 E t (ids @ [?i]) True segs = Inr (m', ids', ch')"
        by (auto simp: Let_def split: if_splits)
      have t: "unat t = unat m + unat (DurationMicroseconds g)" using a c by (intro add64_no_carry) simp
      then have "m \<le> t" and t0: "t \<noteq> 0" using dur by (auto simp: word_le_nat_alt unat_eq_zero)
      have p: "\<forall>i\<in>set (ids @ [?i]). workIDPattern i" "distinct (ids @ [?i])" "ids @ [?i] \<noteq> [] \<longrightarrow> t \<noteq> 0"
        using Cons.prems(3,4) False valid_hex_digest(1) [OF Cons.prems(2), of "URI g"] t0 by auto
      have "set ids \<subseteq> set (ids @ [?i])" by auto
      with Cons.IH [OF rest Cons.prems(2) p] \<open>m \<le> t\<close> show ?thesis
        by (meson order_trans)
    qed
  qed simp
  then show "m \<le> m'" "set ids \<subseteq> set ids'" "\<forall>i\<in>set ids'. workIDPattern i" "distinct ids'" "ids' \<noteq> [] \<longrightarrow> m' \<noteq> 0"
    by blast+
qed

lemma RecordFinalizedSegments_keeps:
  assumes E: "crypto_ok E" and r: "record_ok r"
    and st: "RecordFinalizedSegments_step E segs t r so = Inr (a, Some r')"
  shows "record_ok r' \<and> advances r r' \<and> same_envelope r r'"
proof -
  have act: "\<not> not_active r" and seq0: "LastSequence r \<noteq> 0"
    using st by (auto simp: RecordFinalizedSegments_step_def split: if_splits)
  obtain m ids ch where m: "meterSegmentsV1 E (MeteredMicroseconds r) (MeteredSegmentSHA256 r) False segs = Inr (m, ids, ch)"
    using st act seq0 by (cases "meterSegmentsV1 E (MeteredMicroseconds r) (MeteredSegmentSHA256 r) False segs")
      (auto simp: RecordFinalizedSegments_step_def)
  have mr: "meter_ok r" "usage_ok r" using r by (simp_all add: record_ok_iff)
  note meter = meterSegments_Inr [OF m E]
  have meter: "MeteredMicroseconds r \<le> m" "set (MeteredSegmentSHA256 r) \<subseteq> set ids" "\<forall>i\<in>set ids. workIDPattern i"
      "distinct ids" "ids \<noteq> [] \<longrightarrow> m \<noteq> 0"
    using meter mr by (auto simp: meter_ok_def)
  define r1 where "r1 = producingV1 (format_nano t) m ids r"
  have r1: "same_identity r r1" "same_lifecycle r r1" "LastSequence r1 = LastSequence r" "UsageTotal r1 = UsageTotal r"
    "eventIDFor r1 = eventIDFor r" "PendingEvents r1 = PendingEvents r" "CallbackDelivery r1 = CallbackDelivery r"
    "CallbackDeadLetters r1 = CallbackDeadLetters r" "CallbackRejectedTotal r1 = CallbackRejectedTotal r"
    "MeteredMicroseconds r1 = m" "MeteredSegmentSHA256 r1 = ids" "LastEventAt r1 = LastEventAt r"
    by (auto simp: r1_def producingV1_def same_identity_def same_lifecycle_def eventIDFor_def fun_eq_iff)
  have h1: "health_ok r1"
    using health_unchanged [OF r] by (auto simp: r1_def producingV1_def health_ok_def stamp_ok_def)
  have mono: "UsageTotal r \<le> m div 1000000"
    using meter(1) mr(2) by (simp add: usage_ok_def word_le_nat_alt unat_div div_le_mono)
  show ?thesis
  proof (cases "UsageTotal r < m div 1000000")
    case True
    obtain e where e: "ValidateEventV1 e = None" "EventID e = eventIDFor r (Sequence e)" "LastSequence r < Sequence e"
        "EvUsage e = Some \<lparr>Unit = WorkUnitV1, Total = m div 1000000\<rparr>"
      and r': "r' = (appendEventV1 r1 e)\<lparr>UsageTotal := m div 1000000\<rparr>"
      using st True Suc_u64 [of "LastSequence r"] act seq0 m
      by (auto simp: RecordFinalizedSegments_step_def Let_def r1_def [symmetric] r1(3-5) split: if_splits option.splits)
    have same: "same_identity r r'" "same_lifecycle r r'" "health_ok r'"
      using r1 h1 by (auto simp: r' appendEventV1_def same_identity_def same_lifecycle_def health_ok_def)
    have "outbox_ok r'" "delivery_ok r'" "letters_ok r'" "meter_ok r'" "usage_ok r'"
      by (rule event_appended [OF r e(1-3) same(1)]; use meter mono e(4) r1 in \<open>simp add: r' appendEventV1_def\<close>)+
    moreover have "advances r r'"
      using same e(3) meter mono act
      by (auto simp: advances_def r' appendEventV1_def r1 not_active_def terminalV1_def)
    ultimately show ?thesis using same lifecycle_unchanged [OF r same(1,2)] by (simp add: record_ok_iff)
  next
    case False
    then have r': "r' = r1"
      using st act seq0 m by (auto simp: RecordFinalizedSegments_step_def Let_def r1_def [symmetric] r1 split: if_splits)
    have eq: "UsageTotal r = m div 1000000" using False mono by simp
    have "event_fits r1 = event_fits r" by (simp add: event_fits_def r1 fun_eq_iff)
    then have "outbox_ok r1 = outbox_ok r" "delivery_ok r1 = delivery_ok r" "letters_ok r1 = letters_ok r"
      by (simp_all add: outbox_ok_def delivery_ok_def letters_ok_def letter_ok_def r1)
    moreover have "usage_ok r1" using mr(2) eq unfolding usage_ok_def r1 by blast
    moreover have "meter_ok r1" using mr(1) seq0 eq meter by (auto simp: meter_ok_def r1)
    moreover have "advances r r1"
      using r1 meter act by (auto simp: advances_def not_active_def terminalV1_def same_lifecycle_def)
    ultimately show ?thesis
      using r h1 lifecycle_unchanged [OF r r1(1,2)] by (simp add: record_ok_iff r')
  qed
qed

subsection \<open>Publisher presence, stopping and key activation\<close>

text \<open>The shape shared by the methods that touch neither outbox nor meter.\<close>

lemma quiet_update:
  assumes r: "record_ok r" and act: "\<not> not_active r" and same: "same_identity r r'" "same_outbox r r'" "same_envelope r r'"
    and h: "health_ok r'" and l: "lifecycle_ok r'" and st: "State r' = ''active''"
  shows "record_ok r' \<and> advances r r' \<and> same_envelope r r'"
proof -
  have "envelope_ok r'" "identity_ok r'"
    using r same st act
    by (auto simp: record_ok_iff envelope_ok_def identity_ok_def hasSecretsV1_def same_envelope_def same_identity_def
        not_active_def)
  moreover note outbox_unchanged [OF r same(1,2)]
  moreover have "advances r r'"
    using act same(1,2) st by (auto simp: advances_def same_outbox_def not_active_def terminalV1_def)
  ultimately show ?thesis using h l same by (simp add: record_ok_iff)
qed

lemma active_lifecycle:
  "record_ok r \<Longrightarrow> \<not> not_active r \<Longrightarrow> State r' = ''active'' \<Longrightarrow> CloseReason r' = CloseReason r \<Longrightarrow>
   Stopping r' = Stopping r \<Longrightarrow> PendingCloseReason r' = PendingCloseReason r \<Longrightarrow>
   PendingTerminalState r' = PendingTerminalState r \<Longrightarrow>
   PendingKeyActivationID r' = PendingKeyActivationID r \<or> PendingKeyActivationID r' = [] \<Longrightarrow> lifecycle_ok r'"
  by (auto simp: record_ok_iff lifecycle_ok_def terminalV1_def not_active_def validState_cases)

lemma stopping_lifecycle:
  "record_ok r \<Longrightarrow> \<not> not_active r \<Longrightarrow> State r' = ''active'' \<Longrightarrow> CloseReason r' = CloseReason r \<Longrightarrow>
   Stopping r' \<Longrightarrow> validCloseReasonV1 (PendingCloseReason r') \<Longrightarrow>
   PendingTerminalState r' = ''ended'' \<or> PendingTerminalState r' = ''failed'' \<Longrightarrow>
   PendingKeyActivationID r' = [] \<Longrightarrow> lifecycle_ok r'"
  using validCloseReason_not_Nil [of "PendingCloseReason r'"]
  by (auto simp: record_ok_iff lifecycle_ok_def terminalV1_def not_active_def validState_cases)

lemma RecordIngestPresence_keeps:
  assumes r: "record_ok r" and st: "RecordIngestPresence_step online t r so = Inr (a, Some r')"
  shows "record_ok r' \<and> advances r r' \<and> same_envelope r r'"
proof -
  have act: "\<not> not_active r" using st by (auto simp: RecordIngestPresence_step_def Let_def split: if_splits)
  have h: "health_ok r'"
    using st health_unchanged [OF r]
    by (auto simp: RecordIngestPresence_step_def Let_def health_ok_def stamp_ok_def split: if_splits)
  have eq: "State r' = State r" "CloseReason r' = CloseReason r" "Stopping r' = Stopping r"
      "PendingCloseReason r' = PendingCloseReason r" "PendingTerminalState r' = PendingTerminalState r"
      "PendingKeyActivationID r' = PendingKeyActivationID r" "same_identity r r'" "same_outbox r r'" "same_envelope r r'"
    using st by (auto simp: RecordIngestPresence_step_def Let_def same_identity_def same_outbox_def same_envelope_def
        split: if_splits)
  have "State r = ''active''" using act by (simp add: not_active_def)
  with eq show ?thesis by (intro quiet_update [OF r act] h active_lifecycle [OF r act]) auto
qed

lemma publisherDeadline_Inr:
  assumes "publisherDeadlineV1 t w g r = Inr (r1, ch)"
  shows "r1 = r\<lparr>PublisherOfflineSince := PublisherOfflineSince r1, PublisherDeadline := PublisherDeadline r1\<rparr>"
  using assms by (auto simp: publisherDeadlineV1_def Let_def split: if_splits option.splits)

lemma ExpireAbsentPublisher_keeps:
  assumes r: "record_ok r" and st: "ExpireAbsentPublisher_step t w g r so = Inr (a, Some r')"
  shows "record_ok r' \<and> advances r r' \<and> same_envelope r r'"
proof -
  have act: "\<not> not_active r" using st by (auto simp: ExpireAbsentPublisher_step_def split: if_splits)
  obtain r1 ch where p: "publisherDeadlineV1 t w g r = Inr (r1, ch)"
    using st act by (cases "publisherDeadlineV1 t w g r") (auto simp: ExpireAbsentPublisher_step_def split: if_splits)
  obtain off dl where r1: "r1 = r\<lparr>PublisherOfflineSince := off, PublisherDeadline := dl\<rparr>"
    using publisherDeadline_Inr [OF p] by blast
  have r': "r' = r1 \<or> r' = r1\<lparr>Stopping := True, PendingCloseReason := ''publisher_disconnect'',
                                     PendingTerminalState := ''ended'', PendingKeyActivationID := []\<rparr>"
    using st act p by (auto simp: ExpireAbsentPublisher_step_def split: if_splits option.splits)
  have h: "health_ok r'" using r' health_unchanged [OF r] by (auto simp: r1 health_ok_def)
  have eq: "State r' = ''active''" "CloseReason r' = CloseReason r" "same_identity r r'" "same_outbox r r'" "same_envelope r r'"
    using r' act by (auto simp: r1 same_identity_def same_outbox_def same_envelope_def not_active_def)
  have "lifecycle_ok r'"
    using r' active_lifecycle [OF r act, of r'] stopping_lifecycle [OF r act, of r'] eq by (auto simp: r1)
  with eq h show ?thesis by (intro quiet_update [OF r act]) auto
qed

lemma beginTerminal_keeps:
  assumes r: "record_ok r" and ok: "validCloseReasonV1 reason" "terminal = ''ended'' \<or> terminal = ''failed''"
    and st: "beginTerminalV1_step reason terminal r so = Inr (a, Some r')"
  shows "record_ok r' \<and> advances r r' \<and> same_envelope r r'"
proof -
  have act: "\<not> not_active r" and r': "r' = r\<lparr>Stopping := True, PendingCloseReason := reason,
        PendingTerminalState := terminal, PendingKeyActivationID := []\<rparr>"
    using st by (auto simp: beginTerminalV1_step_def Let_def not_active_def split: if_splits)
  have "State r = ''active''" using act by (simp add: not_active_def)
  then show ?thesis using ok health_unchanged [OF r]
    by (intro quiet_update [OF r act] stopping_lifecycle [OF r act])
      (auto simp: r' same_identity_def same_outbox_def same_envelope_def health_ok_def)
qed

lemma CompleteKeyActivation_keeps:
  assumes r: "record_ok r" and st: "CompleteKeyActivation_step q r so = Inr (a, Some r')"
  shows "record_ok r' \<and> advances r r' \<and> same_envelope r r'"
proof -
  have act: "\<not> not_active r" and r': "r' = r\<lparr>PendingKeyActivationID := []\<rparr>"
    using st by (auto simp: CompleteKeyActivation_step_def split: if_splits option.splits)
  have "State r = ''active''" using act by (simp add: not_active_def)
  then show ?thesis using health_unchanged [OF r]
    by (intro quiet_update [OF r act] active_lifecycle [OF r act])
      (auto simp: r' same_identity_def same_outbox_def same_envelope_def health_ok_def)
qed

lemma EvaluateOutputHealth_keeps:
  assumes r: "record_ok r" and st: "EvaluateOutputHealth_step t s f r so = Inr (a, Some r')"
  shows "record_ok r' \<and> advances r r' \<and> same_envelope r r'"
  using st recordOutputStalled_keeps [OF r]
  by (auto simp: EvaluateOutputHealth_step_def Let_def split: if_splits sum.splits)

lemma RecordOutputStalled_keeps:
  assumes r: "record_ok r" and st: "RecordOutputStalled_step t r so = Inr (a, Some r')"
  shows "record_ok r' \<and> advances r r' \<and> same_envelope r r'"
  using st recordOutputStalled_keeps [OF r]
  by (auto simp: RecordOutputStalled_step_def split: if_splits sum.splits)

end
