(* ===== verification/Session_Delivery.thy ===== *)
theory Session_Delivery
  imports Session_Methods
begin

section \<open>Outbox, terminal events and stream keys meet their contract\<close>

text \<open>
  The second half of the store methods: those that consume the callback outbox, \<open>Advance\<close>,
  which can end the session, and those that seal or clear the secrets.  The theory ends with
  one interpretation per method.
\<close>

subsection \<open>Consuming the outbox\<close>

lemma pop_head:
  assumes r: "record_ok r" and pe: "PendingEvents r = e # rest"
    and same: "same_identity r r'" "same_lifecycle r r'" and h: "health_ok r'"
    and f: "PendingEvents r' = rest" "CallbackDelivery r' = None" "LastSequence r' = LastSequence r"
      "LastEventAt r' = LastEventAt r" "UsageTotal r' = UsageTotal r"
      "MeteredMicroseconds r' = MeteredMicroseconds r" "MeteredSegmentSHA256 r' = MeteredSegmentSHA256 r"
    and l: "letters_ok r'" "CallbackRejectedTotal r \<le> CallbackRejectedTotal r'"
  shows "record_ok r' \<and> advances r r' \<and> same_envelope r r'"
proof -
  have fits: "event_fits r' = event_fits r"
    using same(1) by (simp add: event_fits_def eventIDFor_def same_identity_def fun_eq_iff)
  have ob: "outbox_ok r" and us: "usage_ok r" using r by (simp_all add: record_ok_iff)
  have "sorted (usages rest)" "\<forall>x\<in>set (usages rest). x \<in> set (usages (PendingEvents r))"
    using ob by (auto simp: outbox_ok_def pe split: option.splits)
  then have "outbox_ok r'" using ob by (auto simp: outbox_ok_def fits f pe)
  moreover have "usage_ok r'"
    using us \<open>\<forall>x\<in>set (usages rest). x \<in> set (usages (PendingEvents r))\<close> unfolding usage_ok_def f by blast
  moreover have "meter_ok r' = meter_ok r" by (simp add: meter_ok_def hasMeteringCursor_def f)
  moreover have "delivery_ok r'" by (simp add: delivery_ok_def f)
  moreover have "advances r r'"
    using same l(2) r by (auto simp: advances_def f same_lifecycle_def record_ok_iff lifecycle_ok_def terminalV1_def
        validState_cases)
  ultimately show ?thesis using lifecycle_unchanged [OF r same] h l r by (simp add: record_ok_iff)
qed

lemma AcknowledgeEvent_keeps:
  assumes r: "record_ok r" and st: "AcknowledgeEvent_step q r so = Inr (a, Some r')"
  shows "record_ok r' \<and> advances r r' \<and> same_envelope r r'"
proof -
  obtain e rest where pe: "PendingEvents r = e # rest" and r': "r' = r\<lparr>PendingEvents := rest, CallbackDelivery := None\<rparr>"
    using st by (auto simp: AcknowledgeEvent_step_def split: list.splits if_splits)
  have "letters_ok r" "health_ok r" using r by (simp_all add: record_ok_iff)
  then show ?thesis
    by (intro pop_head [OF r pe]) (auto simp: r' same_identity_def same_lifecycle_def letters_ok_def letter_ok_def
        event_fits_def eventIDFor_def health_ok_def)
qed

lemma set_keep_last: "set (keep_last n xs) \<subseteq> set xs"
  by (auto simp: keep_last_def dest: in_set_dropD)

lemma length_keep_last: "length (keep_last n xs) = min n (length xs)"
  by (simp add: keep_last_def)

lemma ParkCallbackRejection_keeps:
  assumes r: "record_ok r" and f: "validCallbackFailureV1 c m False"
    and st: "ParkCallbackRejection_step q c m t r so = Inr (a, Some r')"
  shows "record_ok r' \<and> advances r r' \<and> same_envelope r r'"
proof -
  obtain e rest dl where pe: "PendingEvents r = e # rest" and cd: "CallbackDelivery r = Some dl"
    and nm: "CallbackRejectedTotal r \<noteq> max_u64"
    and r': "r' = r\<lparr>PendingEvents := rest, CallbackDelivery := None, CallbackRejectedTotal := CallbackRejectedTotal r + 1,
        CallbackDeadLetters := keep_last maxCallbackDeadLettersV1 (CallbackDeadLetters r @
          [\<lparr>LetterEvent = e, LetterAttempts = AttAttempts dl, LetterStatusCode = c, LetterErrorCode = m,
            LetterRejectedAt = format_nano t\<rparr>])\<rparr>"
    using st by (auto simp: ParkCallbackRejection_step_def Let_def split: list.splits option.splits if_splits)
  let ?l = "\<lparr>LetterEvent = e, LetterAttempts = AttAttempts dl, LetterStatusCode = c, LetterErrorCode = m,
            LetterRejectedAt = format_nano t\<rparr>"
  have old: "letters_ok r" "health_ok r" "outbox_ok r" "delivery_ok r" using r by (simp_all add: record_ok_iff)
  have lok: "letter_ok r' = letter_ok r"
    by (simp add: r' letter_ok_def event_fits_def eventIDFor_def fun_eq_iff)
  have "letter_ok r ?l"
    using old f by (auto simp: letter_ok_def outbox_ok_def delivery_ok_def pe cd)
  then have "\<forall>l\<in>set (CallbackDeadLetters r'). letter_ok r' l"
    unfolding lok using old(1) set_keep_last [of maxCallbackDeadLettersV1 "CallbackDeadLetters r @ [?l]"]
    by (auto simp: letters_ok_def r')
  moreover have "unat (CallbackRejectedTotal r') = unat (CallbackRejectedTotal r) + 1"
    using unat_Suc_u64 [OF nm] by (simp add: r')
  ultimately have "letters_ok r'"
    using old(1) by (auto simp: letters_ok_def length_keep_last r')
  then show ?thesis using old Suc_u64 [OF nm]
    by (intro pop_head [OF r pe]) (auto simp: r' same_identity_def same_lifecycle_def health_ok_def)
qed

text \<open>The shape shared by the methods that only move the delivery cursor.\<close>

lemma cursor_update:
  assumes r: "record_ok r" and r': "r' = r\<lparr>CallbackDelivery := c\<rparr>" and d: "delivery_ok r'"
  shows "record_ok r' \<and> advances r r' \<and> same_envelope r r'"
proof -
  have same: "same_identity r r'" "same_lifecycle r r'" by (simp_all add: r' same_identity_def same_lifecycle_def)
  have "outbox_ok r' = outbox_ok r" "letters_ok r' = letters_ok r" "meter_ok r' = meter_ok r" "usage_ok r' = usage_ok r"
      "health_ok r' = health_ok r"
    by (simp_all add: r' outbox_ok_def letters_ok_def letter_ok_def event_fits_def eventIDFor_def meter_ok_def
        hasMeteringCursor_def usage_ok_def health_ok_def)
  moreover have "advances r r'"
    using advances_refl [OF r] by (simp add: advances_def same_identity_def r')
  ultimately show ?thesis using r d lifecycle_unchanged [OF r same] by (simp add: record_ok_iff)
qed

subsection \<open>Retry delays\<close>

lemma retryBase_min:
  assumes "0 < b" and "b \<le> m"
  shows "retryBaseV1 n b m = min m (b * 2 ^ n)"
  using assms
proof (induction n arbitrary: b)
  case (Suc n)
  have pow: "1 \<le> (2 :: int) ^ n" by simp
  consider "b = m" | "b < m" "m div 2 < b" | "b < m" "\<not> m div 2 < b" using Suc.prems by linarith
  then show ?case
  proof cases
    case 1
    have "(1 :: int) \<le> 2 ^ Suc n" by (rule one_le_power) simp
    then have "m * 1 \<le> m * 2 ^ Suc n" using Suc.prems by (intro mult_left_mono) auto
    with 1 show ?thesis by simp
  next
    case 2
    have "m \<le> b * 2" using 2 by linarith
    also have "b * 2 * 1 \<le> b * 2 * 2 ^ n" using Suc.prems pow by (intro mult_left_mono) auto
    finally show ?thesis using 2 by (simp add: mult.assoc)
  next
    case 3
    then show ?thesis using Suc.IH [of "b * 2"] Suc.prems by (simp add: mult.assoc)
  qed
qed simp

lemma scaled_div: "((b :: int) div 1000) * d + (b mod 1000) * d div 1000 = b * d div 1000"
proof -
  have "(1000 * q + r) * d div 1000 = q * d + r * d div 1000" for q r :: int
  proof -
    have "(1000 * q + r) * d = r * d + 1000 * (q * d)" by (simp add: algebra_simps)
    then show ?thesis by simp
  qed
  from this [of "b div 1000" "b mod 1000"] show ?thesis by simp
qed

text \<open>
  The delay before attempt \<open>n\<close> is \<open>min maximum (initial * 2 ^ (n - 1))\<close>, shortened
  or lengthened by at most a quarter and never above the maximum.
\<close>

lemma callbackRetryDelay_bounds:
  fixes n :: u32
  assumes "0 < initial" and "initial \<le> maximum"
  defines "base \<equiv> min maximum (initial * 2 ^ (unat n - 1))"
  shows "3 * base \<le> 4 * callbackRetryDelayV1 E q n initial maximum"
    and "callbackRetryDelayV1 E q n initial maximum \<le> maximum"
    and "4 * callbackRetryDelayV1 E q n initial maximum \<le> 5 * base"
proof -
  have b: "retryBaseV1 (unat n - 1) initial maximum = base"
    using retryBase_min [OF assms(1,2)] by (simp add: base_def)
  have pos: "0 < base" "base \<le> maximum" using assms(1,2) by (auto simp: base_def)
  define f where "f = int (750 + jitterValueV1 E q n mod 501)"
  have "jitterValueV1 E q n mod 501 \<le> 500" using mod_less_divisor [of 501 "jitterValueV1 E q n"] by linarith
  then have f: "750 \<le> f" "f \<le> 1250" by (auto simp: f_def)
  define up where "up = base * (f - 1000) div 1000"
  define down where "down = base * (1000 - f) div 1000"
  have d: "callbackRetryDelayV1 E q n initial maximum =
      (if f = 1000 then base else if f < 1000 then base - down
       else if maximum - base < up then maximum else base + up)"
    unfolding callbackRetryDelayV1_def Let_def b f_def [symmetric] up_def down_def
    by (simp add: scaled_div diff_diff_eq)
  have "4 * down \<le> base" if "f \<le> 1000"
  proof -
    have "base * (1000 - f) \<le> base * 250" using f pos by (intro mult_left_mono) auto
    then show ?thesis unfolding down_def by linarith
  qed
  moreover have "0 \<le> down" if "f \<le> 1000"
    using that pos by (simp add: down_def pos_imp_zdiv_nonneg_iff)
  moreover have "4 * up \<le> base"
  proof -
    have "base * (f - 1000) \<le> base * 250" using f pos by (intro mult_left_mono) auto
    then show ?thesis unfolding up_def by linarith
  qed
  moreover have "0 \<le> up" if "1000 < f"
    using that pos by (simp add: up_def pos_imp_zdiv_nonneg_iff)
  ultimately show "3 * base \<le> 4 * callbackRetryDelayV1 E q n initial maximum"
    and "callbackRetryDelayV1 E q n initial maximum \<le> maximum"
    and "4 * callbackRetryDelayV1 E q n initial maximum \<le> 5 * base"
    using pos unfolding d by (auto simp: not_less)
qed

lemma callbackRetryDelay_positive:
  assumes "0 < initial" and "initial \<le> maximum"
  shows "0 < callbackRetryDelayV1 E q n initial maximum"
proof -
  have "0 < min maximum (initial * 2 ^ (unat n - 1))" using assms by simp
  then show ?thesis using callbackRetryDelay_bounds(1) [OF assms, of n E q] by linarith
qed

lemma ReserveCallbackAttempt_keeps:
  assumes r: "record_ok r" and p: "0 < i" "i \<le> m"
    and st: "ReserveCallbackAttempt_step E q t i m r so = Inr (a, Some r')"
  shows "record_ok r' \<and> advances r r' \<and> same_envelope r r'"
proof -
  obtain e rest where pe: "PendingEvents r = e # rest" "EventID e = q"
    using st by (cases "PendingEvents r") (auto simp: ReserveCallbackAttempt_step_def split: if_splits)
  have r': "r' = r\<lparr>CallbackDelivery := Some a\<rparr>" and a: "AttEventID a = q" "LastAttemptAt a = format_nano t"
      "NextAttemptAt a = format_nano (t + callbackRetryDelayV1 E q (AttAttempts a) i m)" "LastStatusCode a = 0"
      "LastErrorCode a = []"
    using st pe by (auto simp: ReserveCallbackAttempt_step_def Let_def fails_def split: option.splits if_splits sum.splits)
  have "AttAttempts a \<noteq> 0"
    using st pe by (auto simp: ReserveCallbackAttempt_step_def Let_def fails_def max_u32_def add_eq_0_iff2
        split: option.splits if_splits sum.splits)
  then have "delivery_ok r'"
    using a callbackRetryDelay_positive [OF p, of E q "AttAttempts a"]
    by (auto simp: delivery_ok_def r' pe validCallbackFailureV1_def)
  then show ?thesis using cursor_update [OF r r'] by blast
qed

lemma RecordCallbackRetryFailure_keeps:
  assumes r: "record_ok r" and f: "validCallbackFailureV1 c m True"
    and st: "RecordCallbackRetryFailure_step q c m r so = Inr (a, Some r')"
  shows "record_ok r' \<and> advances r r' \<and> same_envelope r r'"
proof -
  obtain dl where cd: "CallbackDelivery r = Some dl"
    and r': "r' = r\<lparr>CallbackDelivery := Some (dl\<lparr>LastStatusCode := c, LastErrorCode := m\<rparr>)\<rparr>"
    using st by (auto simp: RecordCallbackRetryFailure_step_def split: option.splits list.splits if_splits)
  have "delivery_ok r" using r by (simp add: record_ok_iff)
  then have "delivery_ok r'" using f by (auto simp: delivery_ok_def r' cd)
  then show ?thesis using cursor_update [OF r r'] by blast
qed

subsection \<open>Events of the callers\<close>

text \<open>
  \<open>Advance\<close> takes its usage from the caller.  The runner passes none with the start event
  and the durable total with a terminal one.
\<close>

definition advance_admits :: "RunnerEventV1 \<Rightarrow> SessionRecordV1 \<Rightarrow> bool" where
  "advance_admits event r \<longleftrightarrow> (\<forall>u. EvUsage event = Some u \<longrightarrow> Total u = UsageTotal r)"

lemma Advance_keeps:
  assumes r: "record_ok r" and adm: "advance_admits e r" and st: "Advance_step e r so = Inr (a, Some r')"
  shows "record_ok r' \<and> advances r r' \<and> same_envelope r r'"
proof -
  have act: "State r = ''active''" and id: "EventID e = eventIDFor r (Sequence e)"
    and stop: "Stopping r \<Longrightarrow> EvState e \<noteq> ''active'' \<and> EvCloseReason e = Some (PendingCloseReason r)"
    using st by (auto simp: Advance_step_def split: if_splits)
  obtain c where c: "EventCursor_Accept (durableCursorV1 r) e = Inr c"
    using st by (cases "EventCursor_Accept (durableCursorV1 r) e") (auto simp: Advance_step_def split: if_splits)
  note acc = EventCursor_Accept_Inr [OF c]
  have seq: "LastSequence r < Sequence e" using acc(2) by (simp add: durableCursorV1_def)
  have tot: "CurUsageTotal c = UsageTotal r"
    using acc(5) adm by (auto simp: durableCursorV1_def advance_admits_def split: option.splits)
  define r1 where "r1 = (appendEventV1 r e)\<lparr>LastSequence := CurSequence c, UsageTotal := CurUsageTotal c\<rparr>"
  have r': "r' = (if EvState e = ''ended'' \<or> EvState e = ''failed''
      then r1\<lparr>State := EvState e, CloseReason := the (EvCloseReason e), Stopping := False, PendingCloseReason := [],
             PendingTerminalState := [], PendingKeyActivationID := []\<rparr> else r1)"
    using st c by (auto simp: Advance_step_def Let_def r1_def split: if_splits)
  have same: "same_identity r r'" "same_envelope r r'"
    by (auto simp: r' r1_def appendEventV1_def same_identity_def same_envelope_def)
  have m: "meter_ok r" "UsageTotal r = MeteredMicroseconds r div 1000000"
    using r by (auto simp: record_ok_iff usage_ok_def)
  have parts: "outbox_ok r'" "delivery_ok r'" "letters_ok r'" "meter_ok r'" "usage_ok r'"
    by (rule event_appended [OF r acc(1) id seq same(1)];
        use acc(3) tot m adm in \<open>auto simp: r' r1_def appendEventV1_def meter_ok_def advance_admits_def\<close>)+
  have h: "health_ok r'" using health_unchanged [OF r] by (auto simp: r' r1_def appendEventV1_def health_ok_def)
  have ident: "identity_ok r'" using r same by (auto simp: record_ok_iff identity_ok_def same_identity_def)
  show ?thesis
  proof (cases "EvState e = ''active''")
    case True
    then have "same_lifecycle r r'" by (simp add: r' r1_def appendEventV1_def same_lifecycle_def)
    moreover have "advances r r'"
      using True stop same seq acc(3) act tot
      by (auto simp: advances_def r' r1_def appendEventV1_def same_lifecycle_def terminalV1_def)
    ultimately show ?thesis
      using lifecycle_unchanged [OF r same(1)] parts h by (simp add: record_ok_iff)
  next
    case False
    obtain reason where tm: "EvCloseReason e = Some reason" "validCloseReasonV1 reason"
        "EvState e = ''ended'' \<or> EvState e = ''failed''"
      using acc(1) False by (rule ValidateEventV1_terminal)
    have "lifecycle_ok r'"
      using tm validCloseReason_not_Nil [OF tm(2)]
      by (auto simp: r' lifecycle_ok_def terminalV1_def validState_cases)
    moreover have "envelope_ok r'"
      using r tm act by (auto simp: r' r1_def appendEventV1_def record_ok_iff envelope_ok_def hasSecretsV1_def)
    moreover have "advances r r'"
      using same(1) seq acc(3) act tot stop tm
      by (auto simp: advances_def r' r1_def appendEventV1_def terminalV1_def)
    ultimately show ?thesis using parts h ident same by (simp add: record_ok_iff)
  qed
qed

lemma ClearTerminalSecrets_keeps:
  assumes r: "record_ok r" and st: "ClearTerminalSecrets_step r so = Inr (a, Some r')"
  shows "record_ok r' \<and> advances r r' \<and> opened E r' None"
proof -
  have nact: "State r \<noteq> ''active''" and r': "r' = r\<lparr>WrappedKeyNonce := [], WrappedKeyCiphertext := [],
                            SecretNonce := [], SecretCiphertext := []\<rparr>"
    using st by (auto simp: ClearTerminalSecrets_step_def split: if_splits)
  have same: "same_identity r r'" "same_outbox r r'" by (simp_all add: r' same_identity_def same_outbox_def)
  have "identity_ok r' = identity_ok r" "lifecycle_ok r' = lifecycle_ok r" "health_ok r' = health_ok r"
    by (simp_all add: r' identity_ok_def lifecycle_ok_def terminalV1_def health_ok_def)
  moreover have "envelope_ok r'" using nact by (simp add: r' envelope_ok_def hasSecretsV1_def)
  moreover have "advances r r'"
    using advances_refl [OF r] by (simp add: advances_def same_identity_def r')
  ultimately show ?thesis
    using r outbox_unchanged [OF r same] by (simp add: record_ok_iff opened_def r')
qed

subsection \<open>Stream keys\<close>

lemma valid_utf8_hex: "list_all is_lower_hex s \<Longrightarrow> valid_utf8 s"
  by (induction s) (auto simp: Let_def is_lower_hex_def is_digit_def)

lemma valid_utf8_hex_encode [simp]: "valid_utf8 (hex_encode b)"
proof -
  have "list_all is_lower_hex (hex_encode b)"
    by (induction b) (auto simp: hex_char_is_lower_hex of_char_div_16)
  then show ?thesis by (rule valid_utf8_hex)
qed

definition issue_admits :: "StreamKeyIssueRequestV1 \<Rightarrow> StreamKeyIssueResponseV1 \<Rightarrow> bool" where
  "issue_admits q p \<longleftrightarrow>
     ValidateStreamKeyIssueRequestV1 q = None \<and> ValidateStreamKeyIssueResponseV1 q p = None \<and>
     list_all valid_utf8 (issue_texts q p)"

lemma blanked_key_ok:
  assumes "keyIssueOK E cur (k, i) = None" and "k \<noteq> new"
  shows "keyIssueOK E new (k, blankStreamKey i) = None"
  using assms by (auto simp: keyIssueOK_def blankStreamKey_def ValidateStreamKeyIssueResponseV1_def split: if_splits)

text \<open>The secrets that \<open>RecordKeyIssue\<close> seals: the old keys blanked, the new one current.\<close>

definition issuedSecrets :: "env \<Rightarrow> StreamKeyIssueRequestV1 \<Rightarrow> StreamKeyIssueResponseV1 \<Rightarrow> SessionSecretsV1 \<Rightarrow> SessionSecretsV1" where
  "issuedSecrets E q p s =
     s\<lparr>KeyIssues := put (RequestID q) \<lparr>Fingerprint = KeyIssueFingerprintV1 E q, IssueRequest = q, IssueResponse = p\<rparr>
                      (map (\<lambda>(k, issue). (k, blankStreamKey issue)) (KeyIssues s)),
       CurrentKeyID := RequestID q\<rparr>"

lemma issued_simps [simp]:
  "CreateRequest (issuedSecrets E q p s) = CreateRequest s" "CreateResponse (issuedSecrets E q p s) = CreateResponse s"
  "CurrentKeyID (issuedSecrets E q p s) = RequestID q"
  "map_of (KeyIssues (issuedSecrets E q p s)) (RequestID q) =
     Some \<lparr>Fingerprint = KeyIssueFingerprintV1 E q, IssueRequest = q, IssueResponse = p\<rparr>"
  by (simp_all add: issuedSecrets_def)

lemma set_issued:
  assumes "map_of (KeyIssues s) (RequestID q) = None"
  shows "set (KeyIssues (issuedSecrets E q p s)) =
    insert (RequestID q, \<lparr>Fingerprint = KeyIssueFingerprintV1 E q, IssueRequest = q, IssueResponse = p\<rparr>)
      ((\<lambda>(k, issue). (k, blankStreamKey issue)) ` set (KeyIssues s))"
proof -
  have "map_of (map (\<lambda>(k, issue). (k, blankStreamKey issue)) (KeyIssues s)) (RequestID q) = None"
    using assms by (auto simp: map_of_eq_None_iff image_image split_beta)
  then show ?thesis by (simp add: issuedSecrets_def set_put)
qed

lemma issued_validates:
  assumes adm: "issue_admits q p" and s: "validateSessionSecretsV1 E r s = None"
    and new: "map_of (KeyIssues s) (RequestID q) = None"
    and r': "same_identity r r'" "PendingKeyActivationID r' = [] \<or> PendingKeyActivationID r' = RequestID q"
  shows "validateSessionSecretsV1 E r' (issuedSecrets E q p s) = None"
proof -
  have "keyIssueOK E (RequestID q) entry = None" if "entry \<in> set (KeyIssues (issuedSecrets E q p s))" for entry
  proof -
    consider "entry = (RequestID q, \<lparr>Fingerprint = KeyIssueFingerprintV1 E q, IssueRequest = q, IssueResponse = p\<rparr>)"
      | k i where "entry = (k, blankStreamKey i)" "(k, i) \<in> set (KeyIssues s)"
      using \<open>entry \<in> _\<close> unfolding set_issued [OF new] by auto
    then show ?thesis
    proof cases
      case 1
      then show ?thesis using adm by (simp add: keyIssueOK_def issue_admits_def)
    next
      case 2
      have k: "k \<noteq> RequestID q" using 2(2) new by (auto simp: map_of_eq_None_iff image_iff)
      have ok: "keyIssueOK E (CurrentKeyID s) (k, i) = None"
        using s 2(2) unfolding validateSessionSecrets_iff by blast
      show ?thesis unfolding 2(1) by (rule blanked_key_ok [OF ok k])
    qed
  qed
  then show ?thesis
    using s r' unfolding validateSessionSecrets_iff same_identity_def
    by (elim conjE; cases "Grants (Runtime (CreateResponse s))") auto
qed

lemma issued_utf8:
  assumes "issue_admits q p" and "utf8_secrets s" and "map_of (KeyIssues s) (RequestID q) = None"
  shows "utf8_secrets (issuedSecrets E q p s)"
proof -
  have "list_all (\<lambda>(k, i). valid_utf8 k \<and> valid_utf8 (Fingerprint i) \<and>
      list_all valid_utf8 (issue_texts (IssueRequest i) (IssueResponse i))) (KeyIssues (issuedSecrets E q p s))"
    using assms unfolding list_all_iff [of _ "KeyIssues (issuedSecrets E q p s)"] set_issued [OF assms(3)]
    by (auto simp: utf8_secrets_def issue_admits_def issue_texts_def blankStreamKey_def KeyIssueFingerprintV1_def
        canonicalHashV1_def list_all_iff)
  then show ?thesis
    using assms by (simp add: utf8_secrets_def issuedSecrets_def issue_admits_def issue_texts_def)
qed

lemma RecordKeyIssue_new:
  assumes "RecordKeyIssue_step E q p r so = Inr (a, Some r')"
  obtains s r1 where "so = Some s" "\<not> not_active r" "map_of (KeyIssues s) (RequestID q) = None"
    "PendingKeyActivationID r = []" "a = (p, False)"
    "r1 = (if CurrentKeyID s \<noteq> [] then r\<lparr>PendingKeyActivationID := RequestID q\<rparr> else r)"
    "sealLocked E r1 (issuedSecrets E q p s) = Inr r'"
  using assms
  by (auto simp: RecordKeyIssue_step_def issuedSecrets_def Let_def split: option.splits if_splits sum.splits)

lemma sealLocked_same:
  assumes "sealLocked E r s = Inr r'"
  shows "same_identity r r'" "same_outbox r r'" "health_ok r' = health_ok r" "lifecycle_ok r' = lifecycle_ok r"
    "State r' = State r" "Stopping r' = Stopping r" "PendingKeyActivationID r' = PendingKeyActivationID r"
    "BrokerSessionID r' = BrokerSessionID r"
proof -
  obtain a b c d where r': "r' = r\<lparr>WrappedKeyNonce := a, WrappedKeyCiphertext := b, SecretNonce := c, SecretCiphertext := d\<rparr>"
    using assms by (rule sealLocked_Inr) blast
  show "same_identity r r'" "same_outbox r r'" "health_ok r' = health_ok r" "lifecycle_ok r' = lifecycle_ok r"
    "State r' = State r" "Stopping r' = Stopping r" "PendingKeyActivationID r' = PendingKeyActivationID r"
    "BrokerSessionID r' = BrokerSessionID r"
    by (simp_all add: r' same_identity_def same_outbox_def health_ok_def lifecycle_ok_def terminalV1_def)
qed

lemma RecordKeyIssue_keeps:
  assumes E: "crypto_ok E" and r: "record_ok r" and so: "opened E r so" and adm: "issue_admits q p"
    and st: "RecordKeyIssue_step E q p r so = Inr (a, Some r')"
  shows "record_ok r' \<and> advances r r' \<and> (\<exists>so'. opened E r' so')"
proof -
  obtain s r1 where s: "so = Some s" and act: "\<not> not_active r" and new: "map_of (KeyIssues s) (RequestID q) = None"
    and r1: "r1 = (if CurrentKeyID s \<noteq> [] then r\<lparr>PendingKeyActivationID := RequestID q\<rparr> else r)"
    and pend: "PendingKeyActivationID r = []"
    and seal: "sealLocked E r1 (issuedSecrets E q p s) = Inr r'"
    using st by (rule RecordKeyIssue_new)
  have id1: "same_identity r r1" "same_outbox r r1" by (auto simp: r1 same_identity_def same_outbox_def)
  have u: "utf8_secrets (issuedSecrets E q p s)" and v: "validateSessionSecretsV1 E r1 (issuedSecrets E q p s) = None"
    using so s issued_utf8 [OF adm _ new] issued_validates [OF adm _ new id1(1)] openSecrets_Inr pend
    by (auto simp: opened_def r1)
  note opens = sealLocked_opens [OF E u v seal]
  note same = sealLocked_same [OF seal]
  have same': "same_identity r r'" "same_outbox r r'"
    using id1 same(1,2) by (auto simp: same_identity_def same_outbox_def)
  have "State r = ''active''" "\<not> Stopping r" using act by (simp_all add: not_active_def)
  have req: "opaqueIDPattern (RequestID q)"
    using adm by (auto simp: issue_admits_def ValidateStreamKeyIssueRequestV1_def split: if_splits)
  have "health_ok r1 = health_ok r" by (simp add: r1 health_ok_def)
  then have "health_ok r'" using r same(3) by (simp add: record_ok_iff)
  moreover have "lifecycle_ok (r\<lparr>PendingKeyActivationID := RequestID q\<rparr>)"
    using r act req by (auto simp: record_ok_iff lifecycle_ok_def terminalV1_def not_active_def)
  then have "lifecycle_ok r'" using r same(4) by (simp add: r1 record_ok_iff)
  moreover have "envelope_ok r'" "identity_ok r'"
    using opens r same'(1) by (auto simp: envelope_ok_def hasSecretsV1_def record_ok_iff identity_ok_def same_identity_def)
  moreover have "advances r r'"
    using same' act same(5,6) by (auto simp: advances_def same_outbox_def not_active_def terminalV1_def r1)
  moreover have "opened E r' (Some (issuedSecrets E q p s))"
    using opens u same(8) by (simp add: opened_def)
  ultimately show ?thesis using outbox_unchanged [OF r same'] by (auto simp: record_ok_iff)
qed

subsection \<open>The interpretations\<close>

interpretation heartbeat: plain_op E "\<lambda>_. True" "RecordHeartbeat_step t i" for E t i
  by unfold_locales (rule RecordHeartbeat_keeps)

interpretation segments: plain_op E "\<lambda>_. True" "RecordFinalizedSegments_step E segs t" for E segs t
  by unfold_locales (rule RecordFinalizedSegments_keeps)

interpretation presence: plain_op E "\<lambda>_. True" "RecordIngestPresence_step online t" for E online t
  by unfold_locales (rule RecordIngestPresence_keeps)

interpretation absent: plain_op E "\<lambda>_. True" "ExpireAbsentPublisher_step t w g" for E t w g
  by unfold_locales (rule ExpireAbsentPublisher_keeps)

interpretation ladder: plain_op E "\<lambda>_. validLadderFailureCodeV1 code False" "RecordLadderRestart_step code t w"
  for E code t w
  by unfold_locales (rule RecordLadderRestart_keeps)

interpretation health: plain_op E "\<lambda>_. True" "EvaluateOutputHealth_step t s f" for E t s f
  by unfold_locales (rule EvaluateOutputHealth_keeps)

interpretation stalled: plain_op E "\<lambda>_. True" "RecordOutputStalled_step t" for E t
  by unfold_locales (rule RecordOutputStalled_keeps)

interpretation begin_terminal: plain_op E "\<lambda>_. validCloseReasonV1 reason \<and> (terminal = ''ended'' \<or> terminal = ''failed'')"
    "beginTerminalV1_step reason terminal" for E reason terminal
  by unfold_locales (use beginTerminal_keeps in blast)

interpretation activation: plain_op E "\<lambda>_. True" "CompleteKeyActivation_step q" for E q
  by unfold_locales (rule CompleteKeyActivation_keeps)

interpretation ack: plain_op E "\<lambda>_. True" "AcknowledgeEvent_step q" for E q
  by unfold_locales (rule AcknowledgeEvent_keeps)

interpretation reserve: plain_op E "\<lambda>_. 0 < i \<and> i \<le> m" "ReserveCallbackAttempt_step E q t i m" for E q t i m
  by unfold_locales (use ReserveCallbackAttempt_keeps in blast)

interpretation retry: plain_op E "\<lambda>_. validCallbackFailureV1 c m True" "RecordCallbackRetryFailure_step q c m" for E q c m
  by unfold_locales (rule RecordCallbackRetryFailure_keeps)

interpretation park: plain_op E "\<lambda>_. validCallbackFailureV1 c m False" "ParkCallbackRejection_step q c m t" for E q c m t
  by unfold_locales (rule ParkCallbackRejection_keeps)

interpretation advance: plain_op E "advance_admits e" "Advance_step e" for E e
  by unfold_locales (rule Advance_keeps)

interpretation clear: session_op E "\<lambda>_. True" ClearTerminalSecrets_step for E
  by unfold_locales (use ClearTerminalSecrets_keeps in blast)

interpretation key_issue: session_op E "\<lambda>_. issue_admits q p" "RecordKeyIssue_step E q p" for E q p
  by unfold_locales (rule RecordKeyIssue_keeps)

end
