(* ===== verification/Session_Reachable.thy ===== *)
theory Session_Reachable
  imports Session_Delivery "HOL-Library.Countable"
begin

section \<open>Reachable session directories\<close>

text \<open>
  A store call with its arguments is a value of \<open>store_call\<close>; \<open>exec\<close> runs it.  The
  directories a runner can reach are those of finitely many calls, each with its own clock,
  randomness and I/O outcome, crashes of a save included.  The main theorems of the store are
  about them: every file stays loadable, and no session ever moves backwards.
\<close>

subsection \<open>Creating a session\<close>

definition create_admits :: "RunnerCreateRequestV1 \<Rightarrow> RunnerCreateResponseV1 \<Rightarrow> bool" where
  "create_admits q p \<longleftrightarrow> list_all valid_utf8 (request_texts q) \<and> list_all valid_utf8 (response_texts p)"

lemma ValidateCreateResponse_grant:
  assumes "ValidateCreateResponseV1 p = None"
  obtains g where "Grants (Runtime p) = [g]" "opaqueIDPattern (GrantID g)" "Operations g = [GrantOperationV1]"
    "parse_stamp (ExpiresAt g) \<noteq> None"
  using assms by (auto simp: ValidateCreateResponseV1_def Let_def split: if_splits option.splits list.splits)

lemma ValidateCreateResponse_urls:
  assumes "ValidateCreateResponseV1 p = None"
  shows "opaqueIDPattern (RespRunnerSessionID p)" "validateURLScheme (RTMPURL (Public (Runtime p))) [''rtmp'', ''rtmps''] = None"
    "validateHTTPURL (HLSURL (Public (Runtime p))) = None" "validateHTTPURL (KeyIssueURL (Public (Runtime p))) = None"
  using assms by (auto simp: ValidateCreateResponseV1_def Let_def split: if_splits option.splits)

lemma new_record_keeps:
  assumes E: "crypto_ok E" and q: "ValidateCreateRequestV1 q = None" and p: "ValidateCreateResponseV1 p = None"
    and adm: "create_admits q p"
    and s: "s = \<lparr>CreateRequest = q, CreateResponse = p, CurrentKeyID = [], KeyIssues = []\<rparr>"
    and seal: "sealLocked E (newSessionRecordV1 E q p (hd (Grants (Runtime p)))) s = Inr r"
  shows "record_ok r" "opened E r (Some s)" "BrokerSessionID r = SessionID q" "opaqueIDPattern (SessionID q)"
    "RunnerSessionID r = RespRunnerSessionID p" "CreateFingerprint r = CreateFingerprintV1 E q"
    "State r = ''active''" "\<not> Stopping r"
proof -
  obtain g where g: "Grants (Runtime p) = [g]" "opaqueIDPattern (GrantID g)" "Operations g = [GrantOperationV1]"
      "parse_stamp (ExpiresAt g) \<noteq> None"
    using p by (rule ValidateCreateResponse_grant)
  note u = ValidateCreateResponse_urls [OF p]
  define n where "n = newSessionRecordV1 E q p g"
  have seal': "sealLocked E n s = Inr r" using seal g by (simp add: n_def)
  have v: "validateSessionSecretsV1 E n s = None"
    using q p g by (simp add: validateSessionSecrets_iff s n_def newSessionRecordV1_def)
  have utf: "utf8_secrets s" using adm by (simp add: utf8_secrets_def s create_admits_def)
  note opens = sealLocked_opens [OF E utf v seal']
  note same = sealLocked_same [OF seal']
  show sid: "opaqueIDPattern (SessionID q)"
    using q by (auto simp: ValidateCreateRequestV1_def Let_def split: if_splits)
  have "workIDPattern (secretSHA256V1 E (Secret g))" "workIDPattern (CreateFingerprintV1 E q)"
    using valid_hex_digest(1) [OF E] by (simp_all add: secretSHA256V1_def CreateFingerprintV1_def canonicalHashV1_def)
  then have "identity_ok n"
    using g u sid by (simp add: identity_ok_def n_def newSessionRecordV1_def)
  then have "identity_ok r" using same(1) by (auto simp: identity_ok_def same_identity_def)
  moreover have "health_ok n" "lifecycle_ok n"
    by (simp_all add: n_def newSessionRecordV1_def health_ok_def lifecycle_ok_def stamp_ok_def terminalV1_def
        validState_cases validLadderFailureCodeV1_def)
  then have "health_ok r" "lifecycle_ok r" using same by simp_all
  moreover have "envelope_ok r" using opens by (simp add: envelope_ok_def hasSecretsV1_def)
  moreover have "outbox_ok r" "delivery_ok r" "letters_ok r" "meter_ok r" "usage_ok r"
    using same(2) by (simp_all add: same_outbox_def n_def newSessionRecordV1_def outbox_ok_def delivery_ok_def
        letters_ok_def meter_ok_def usage_ok_def hasMeteringCursor_def)
  ultimately show "record_ok r" by (simp add: record_ok_iff)
  show "opened E r (Some s)" using opens utf same(8) by (simp add: opened_def)
  show "BrokerSessionID r = SessionID q" using same(8) by (simp add: n_def newSessionRecordV1_def)
  show "RunnerSessionID r = RespRunnerSessionID p" "CreateFingerprint r = CreateFingerprintV1 E q"
    "State r = ''active''" "\<not> Stopping r"
    using same by (simp_all add: same_identity_def n_def newSessionRecordV1_def)
qed

text \<open>The branches of \<open>CreateOrReplay\<close>: it leaves the directory alone or saves a new record.\<close>

lemma CreateOrReplay_cases:
  obtains "snd (CreateOrReplay E d q p) = d" "\<forall>r s. fst (CreateOrReplay E d q p) \<noteq> Inr (r, s, False)"
  | e r s where "ValidateCreateRequestV1 q = None" "ValidateCreateResponseV1 p = None"
      "loadLocked E d (SessionID q) = Inl e" "errors_is e ErrNotExist" "createFencedLocked E d (SessionID q) = Inr False"
      "s = \<lparr>CreateRequest = q, CreateResponse = p, CurrentKeyID = [], KeyIssues = []\<rparr>"
      "sealLocked E (newSessionRecordV1 E q p (hd (Grants (Runtime p)))) s = Inr r"
      "CreateOrReplay E d q p = (case saveLocked E d r of (Some e', d') \<Rightarrow> (Inl e', d') | (None, d') \<Rightarrow> (Inr (r, s, False), d'))"
proof (cases "\<exists>e r. ValidateCreateRequestV1 q = None \<and> ValidateCreateResponseV1 p = None \<and>
    loadLocked E d (SessionID q) = Inl e \<and> errors_is e ErrNotExist \<and> createFencedLocked E d (SessionID q) = Inr False \<and>
    sealLocked E (newSessionRecordV1 E q p (hd (Grants (Runtime p))))
      \<lparr>CreateRequest = q, CreateResponse = p, CurrentKeyID = [], KeyIssues = []\<rparr> = Inr r")
  case True
  then show ?thesis using that(2) by (auto simp: CreateOrReplay_def Let_def)
next
  case False
  have "snd (CreateOrReplay E d q p) = d \<and> (\<forall>r s. fst (CreateOrReplay E d q p) \<noteq> Inr (r, s, False))"
    using False by (auto simp: CreateOrReplay_def Let_def split: option.splits sum.splits bool.splits)
  then show ?thesis using that(1) by blast
qed

lemma createFenced_value:
  assumes "disk_ok E d"
  shows "createFencedLocked E d sid = Inr (map_of (Fences d) sid \<noteq> None)"
  using assms by (auto simp: createFencedLocked_def disk_ok_def split: option.splits)

lemma CreateOrReplay_keeps:
  assumes E: "crypto_ok E" and d: "disk_ok E d" and adm: "create_admits q p"
  shows "disk_ok E (snd (CreateOrReplay E d q p)) \<and> disk_advances d (snd (CreateOrReplay E d q p))"
proof (rule CreateOrReplay_cases [of E d q p])
  fix e r s
  assume v: "ValidateCreateRequestV1 q = None" "ValidateCreateResponseV1 p = None"
    and l: "loadLocked E d (SessionID q) = Inl e" "errors_is e ErrNotExist"
    and s: "s = \<lparr>CreateRequest = q, CreateResponse = p, CurrentKeyID = [], KeyIssues = []\<rparr>"
    and seal: "sealLocked E (newSessionRecordV1 E q p (hd (Grants (Runtime p)))) s = Inr r"
    and c: "CreateOrReplay E d q p = (case saveLocked E d r of (Some e', d') \<Rightarrow> (Inl e', d') | (None, d') \<Rightarrow> (Inr (r, s, False), d'))"
  note r = new_record_keeps [OF E v adm s seal]
  have snd: "snd (CreateOrReplay E d q p) = snd (saveLocked E d r)"
    by (simp add: c split: prod.splits option.splits)
  have "disk_ok E (snd (saveLocked E d r))"
    using saveLocked_keeps [OF d _ r(1,2)] r(3,4) by simp
  moreover have "map_of (Files d) (SessionID q) = None" using load_missing [OF E d l] .
  then have "disk_advances d (snd (saveLocked E d r))"
    using saveLocked_disk [of E d r] r(3) disk_advances_refl [OF d] by (auto simp: disk_advances_def)
  ultimately show ?thesis using snd by simp
qed (use d in simp)

lemma ReconcileCreate_keeps:
  assumes E: "crypto_ok E" and d: "disk_ok E d"
  shows "disk_ok E (snd (ReconcileCreate E d sid)) \<and> disk_advances d (snd (ReconcileCreate E d sid))"
proof -
  have "snd (ReconcileCreate E d sid) = d \<or>
      (map_of (Fences d) sid = None \<and>
       snd (ReconcileCreate E d sid) = d\<lparr>Fences := put sid (createFenceMAC E sid) (Fences d)\<rparr>)"
    by (auto simp: ReconcileCreate_def createFenced_value [OF d] Let_def split: sum.splits save_outcome.splits)
  then show ?thesis
  proof
    assume n: "map_of (Fences d) sid = None \<and>
       snd (ReconcileCreate E d sid) = d\<lparr>Fences := put sid (createFenceMAC E sid) (Fences d)\<rparr>"
    then have "map_of (Fences d) \<subseteq>\<^sub>m (map_of (Fences d))(sid \<mapsto> createFenceMAC E sid)"
      by (auto simp: map_le_def)
    with n d disk_advances_refl [OF d] show ?thesis by (auto simp: disk_ok_def disk_advances_def split: if_splits)
  qed (use d in simp)
qed

subsection \<open>Store calls\<close>

datatype store_call =
    CallCreate RunnerCreateRequestV1 RunnerCreateResponseV1
  | CallReconcile string
  | CallKeyIssue string StreamKeyIssueRequestV1 StreamKeyIssueResponseV1
  | CallActivate string string
  | CallAdvance string RunnerEventV1
  | CallSegments string "FinalizedHLSSegmentV1 list" time
  | CallHeartbeat string time duration
  | CallPresence string bool time
  | CallExpire string time duration duration
  | CallRestart string string time duration
  | CallHealth string time duration duration
  | CallStalled string time
  | CallTerminate string string
  | CallFail string string
  | CallAck string string
  | CallReserve string string time duration duration
  | CallRetry string string int string
  | CallPark string string int string time
  | CallClear string

fun exec :: "env \<Rightarrow> store_call \<Rightarrow> disk \<Rightarrow> disk" where
  "exec E (CallCreate q p) d = snd (CreateOrReplay E d q p)"
| "exec E (CallReconcile sid) d = snd (ReconcileCreate E d sid)"
| "exec E (CallKeyIssue sid q p) d = snd (RecordKeyIssue E d sid q p)"
| "exec E (CallActivate sid q) d = snd (CompleteKeyActivation E d sid q)"
| "exec E (CallAdvance sid e) d = snd (Advance E d sid e)"
| "exec E (CallSegments sid segs t) d = snd (RecordFinalizedSegments E d sid segs t)"
| "exec E (CallHeartbeat sid t i) d = snd (RecordHeartbeat E d sid t i)"
| "exec E (CallPresence sid online t) d = snd (RecordIngestPresence E d sid online t)"
| "exec E (CallExpire sid t w g) d = snd (ExpireAbsentPublisher E d sid t w g)"
| "exec E (CallRestart sid code t w) d = snd (RecordLadderRestart E d sid code t w)"
| "exec E (CallHealth sid t s f) d = snd (EvaluateOutputHealth E d sid t s f)"
| "exec E (CallStalled sid t) d = snd (RecordOutputStalled E d sid t)"
| "exec E (CallTerminate sid reason) d = snd (BeginTermination E d sid reason)"
| "exec E (CallFail sid reason) d = snd (BeginFailure E d sid reason)"
| "exec E (CallAck sid q) d = snd (AcknowledgeEvent E d sid q)"
| "exec E (CallReserve sid q t i m) d = snd (ReserveCallbackAttempt E d sid q t i m)"
| "exec E (CallRetry sid q c m) d = snd (RecordCallbackRetryFailure E d sid q c m)"
| "exec E (CallPark sid q c m t) d = snd (ParkCallbackRejection E d sid q c m t)"
| "exec E (CallClear sid) d = snd (ClearTerminalSecrets E d sid)"

text \<open>
  What the callers in the runner ensure: texts come out of JSON, so they are UTF-8, and an event
  handed to \<open>Advance\<close> carries no usage or the durable total.
\<close>

fun admissible :: "env \<Rightarrow> disk \<Rightarrow> store_call \<Rightarrow> bool" where
  "admissible E d (CallCreate q p) \<longleftrightarrow> create_admits q p"
| "admissible E d (CallKeyIssue sid q p) \<longleftrightarrow> list_all valid_utf8 (issue_texts q p)"
| "admissible E d (CallAdvance sid e) \<longleftrightarrow>
     (case loadLocked E d sid of Inl _ \<Rightarrow> True | Inr (r, _) \<Rightarrow> advance_admits e r)"
| "admissible E d _ \<longleftrightarrow> True"

lemmas call_defs =
  CompleteKeyActivation_def RecordFinalizedSegments_def RecordHeartbeat_def RecordIngestPresence_def
  ExpireAbsentPublisher_def RecordLadderRestart_def EvaluateOutputHealth_def RecordOutputStalled_def
  BeginTermination_def BeginFailure_def beginTerminalV1_def AcknowledgeEvent_def ReserveCallbackAttempt_def
  RecordCallbackRetryFailure_def ParkCallbackRejection_def ClearTerminalSecrets_def

lemma exec_keeps:
  assumes E: "crypto_ok E" and d: "disk_ok E d" and adm: "admissible E d c"
  shows "disk_ok E (exec E c d) \<and> disk_advances d (exec E c d)"
proof (cases c)
  case (CallCreate q p)
  then show ?thesis using CreateOrReplay_keeps [OF E d] adm by simp
next
  case (CallReconcile sid)
  then show ?thesis using ReconcileCreate_keeps [OF E d] by simp
next
  case (CallKeyIssue sid q p)
  then show ?thesis using key_issue.update_keeps [OF E d, of sid q p] d adm
    by (auto simp: RecordKeyIssue_def issue_admits_def split: option.splits)
next
  case (CallAdvance sid e)
  then have "\<forall>r so. loadLocked E d sid = Inr (r, so) \<longrightarrow> advance_admits e r" using adm by auto
  from advance.update_keeps [OF E d this] show ?thesis by (simp add: CallAdvance Advance_def)
qed (use d segments.update_keeps [OF E d] heartbeat.update_keeps [OF E d] presence.update_keeps [OF E d]
    absent.update_keeps [OF E d] ladder.update_keeps [OF E d] health.update_keeps [OF E d]
    stalled.update_keeps [OF E d] begin_terminal.update_keeps [OF E d] activation.update_keeps [OF E d]
    ack.update_keeps [OF E d] reserve.update_keeps [OF E d] retry.update_keeps [OF E d] park.update_keeps [OF E d]
    clear.update_keeps [OF E d] in
    \<open>simp_all add: call_defs\<close>)

lemma CreateOrReplay_absent:
  assumes E: "crypto_ok E" and d: "disk_ok E d" and adm: "create_admits q p" and x: "map_of (Files d) x = None"
    and f: "map_of (Fences d) x \<noteq> None"
  shows "map_of (Files (snd (CreateOrReplay E d q p))) x = None" "Fences (snd (CreateOrReplay E d q p)) = Fences d"
proof -
  have "map_of (Files (snd (CreateOrReplay E d q p))) x = None \<and> Fences (snd (CreateOrReplay E d q p)) = Fences d"
  proof (rule CreateOrReplay_cases [of E d q p])
    fix e r s
    assume v: "ValidateCreateRequestV1 q = None" "ValidateCreateResponseV1 p = None"
      and fd: "createFencedLocked E d (SessionID q) = Inr False"
      and s: "s = \<lparr>CreateRequest = q, CreateResponse = p, CurrentKeyID = [], KeyIssues = []\<rparr>"
      and seal: "sealLocked E (newSessionRecordV1 E q p (hd (Grants (Runtime p)))) s = Inr r"
      and c: "CreateOrReplay E d q p = (case saveLocked E d r of (Some e', d') \<Rightarrow> (Inl e', d') | (None, d') \<Rightarrow> (Inr (r, s, False), d'))"
    note r = new_record_keeps [OF E v adm s seal]
    have "SessionID q \<noteq> x" using fd f createFenced_value [OF d, of "SessionID q"] by auto
    moreover have "snd (CreateOrReplay E d q p) = snd (saveLocked E d r)"
      by (simp add: c split: prod.splits option.splits)
    ultimately show ?thesis using saveLocked_disk [of E d r] x r(3) by auto
  qed (use x in simp)
  then show "map_of (Files (snd (CreateOrReplay E d q p))) x = None" "Fences (snd (CreateOrReplay E d q p)) = Fences d"
    by simp_all
qed

lemma ReconcileCreate_files: "Files (snd (ReconcileCreate E d sid)) = Files d"
  by (auto simp: ReconcileCreate_def Let_def split: sum.splits save_outcome.splits)

text \<open>A fenced session ID that has no file never gets one.\<close>

lemma exec_fenced:
  assumes E: "crypto_ok E" and d: "disk_ok E d" and adm: "admissible E d c" and x: "map_of (Files d) x = None"
    and f: "map_of (Fences d) x \<noteq> None"
  shows "map_of (Files (exec E c d)) x = None"
proof (cases c)
  case (CallCreate q p)
  then show ?thesis using CreateOrReplay_absent [OF E d _ x f] adm by simp
next
  case (CallReconcile sid)
  then show ?thesis using ReconcileCreate_files x by simp
next
  case (CallKeyIssue sid q p)
  then show ?thesis using key_issue.update_absent [OF E d _ x, of sid q p] x adm
    by (auto simp: RecordKeyIssue_def issue_admits_def split: option.splits)
next
  case (CallAdvance sid e)
  then have "\<forall>r so. loadLocked E d sid = Inr (r, so) \<longrightarrow> advance_admits e r" using adm by auto
  from advance.update_absent [OF E d this x] show ?thesis by (simp add: CallAdvance Advance_def)
qed (use x segments.update_absent [OF E d _ x] heartbeat.update_absent [OF E d _ x] presence.update_absent [OF E d _ x]
    absent.update_absent [OF E d _ x] ladder.update_absent [OF E d _ x] health.update_absent [OF E d _ x]
    stalled.update_absent [OF E d _ x] begin_terminal.update_absent [OF E d _ x] activation.update_absent [OF E d _ x]
    ack.update_absent [OF E d _ x] reserve.update_absent [OF E d _ x] retry.update_absent [OF E d _ x]
    park.update_absent [OF E d _ x] clear.update_absent [OF E d _ x] in
    \<open>simp_all add: call_defs\<close>)

subsection \<open>Runs of the store\<close>

inductive runs :: "env \<Rightarrow> disk \<Rightarrow> disk \<Rightarrow> bool" for K where
  runs_refl: "runs K d d"
| runs_call: "runs K a d \<Longrightarrow> same_keys K E \<Longrightarrow> crypto_ok E \<Longrightarrow> admissible E d c \<Longrightarrow> runs K a (exec E c d)"

definition empty_disk :: disk where "empty_disk = \<lparr>Files = [], Fences = []\<rparr>"

definition reachable :: "env \<Rightarrow> disk \<Rightarrow> bool" where
  "reachable K d \<longleftrightarrow> runs K empty_disk d"

lemma same_keys_open:
  assumes "same_keys K E"
  shows "integrityV1 E = integrityV1 K" "openSecretsV1 E = openSecretsV1 K" "createFenceMAC E = createFenceMAC K"
proof -
  have k: "encryptionKey E = encryptionKey K" "integrityKey E = integrityKey K"
    using assms by (simp_all add: same_keys_def encryptionKey_def integrityKey_def deriveKeyV1_def)
  have f: "KeyIssueFingerprintV1 E = KeyIssueFingerprintV1 K" "CreateFingerprintV1 E = CreateFingerprintV1 K"
      "secretSHA256V1 E = secretSHA256V1 K"
    using assms by (simp_all add: same_keys_def KeyIssueFingerprintV1_def CreateFingerprintV1_def canonicalHashV1_def
        secretSHA256V1_def fun_eq_iff)
  have ki: "keyIssueOK E = keyIssueOK K" by (simp add: keyIssueOK_def f fun_eq_iff)
  have v: "validateSessionSecretsV1 E = validateSessionSecretsV1 K"
    unfolding validateSessionSecretsV1_def [abs_def] f ki ..
  have g: "gcm_open E = gcm_open K" "decode_secrets E = decode_secrets K" "hmac_sha256 E = hmac_sha256 K"
      "json_record E = json_record K"
    using assms by (simp_all add: same_keys_def)
  show "integrityV1 E = integrityV1 K" "createFenceMAC E = createFenceMAC K"
    unfolding integrityV1_def [abs_def] createFenceMAC_def [abs_def] k g by (rule refl)+
  show "openSecretsV1 E = openSecretsV1 K"
    unfolding openSecretsV1_def [abs_def] k g v ..
qed

lemma same_keys_disk_ok: "same_keys K E \<Longrightarrow> disk_ok E d = disk_ok K d"
  by (simp add: disk_ok_def file_ok_def opened_def same_keys_open split: session_file.splits option.splits)

lemma runs_keeps:
  assumes "runs K a d" and "disk_ok K a"
  shows "disk_ok K d \<and> disk_advances a d"
  using assms
proof (induction rule: runs.induct)
  case (runs_refl a)
  then show ?case by simp
next
  case (runs_call a d E c)
  then have d: "disk_ok K d" "disk_advances a d" by auto
  then have "disk_ok E (exec E c d) \<and> disk_advances d (exec E c d)"
    using exec_keeps runs_call.hyps same_keys_disk_ok by blast
  then show ?case
    using d disk_advances_trans runs_call.prems runs_call.hyps(2) same_keys_disk_ok by blast
qed

lemma empty_disk_ok [simp]: "disk_ok K empty_disk"
  by (simp add: disk_ok_def empty_disk_def)

lemma reachable_disk_ok: "reachable K d \<Longrightarrow> disk_ok K d"
  using runs_keeps by (auto simp: reachable_def)

text \<open>Runs compose, and a fence holds along a run.\<close>

lemma runs_trans: "runs K b c \<Longrightarrow> runs K a b \<Longrightarrow> runs K a c"
  by (induction rule: runs.induct) (auto intro: runs.intros)

lemma runs_fenced:
  assumes "runs K a d" and "disk_ok K a" and "map_of (Files a) x = None" and "map_of (Fences a) x \<noteq> None"
  shows "map_of (Files d) x = None \<and> map_of (Fences d) x \<noteq> None"
  using assms
proof (induction rule: runs.induct)
  case (runs_call a d E c)
  then have d: "disk_ok E d" using runs_keeps same_keys_disk_ok by blast
  have "disk_advances d (exec E c d)" using exec_keeps [OF _ d] runs_call.hyps by blast
  then have "map_of (Fences (exec E c d)) x \<noteq> None"
    using runs_call by (auto simp: disk_advances_def map_le_def dom_def)
  then show ?case using exec_fenced [OF _ d] runs_call by blast
qed simp

lemma runs_loads:
  assumes "runs K a d" and "disk_ok K a" and "crypto_ok K" and "Load K a sid = Inr (r, so)"
  obtains r' so' where "Load K d sid = Inr (r', so')" "advances r r'" "record_ok r'" "opened K r' so'"
proof -
  have d: "disk_ok K d" "disk_advances a d" using runs_keeps [OF assms(1,2)] by auto
  have "map_of (Files a) sid = Some (FRecord r)"
    using load_Inr [OF assms(3,2)] assms(4) by (simp add: Load_def)
  then obtain r' where r': "map_of (Files d) sid = Some (FRecord r')" "advances r r'"
    using d(2) by (auto simp: disk_advances_def)
  from load_defined [OF assms(3) d(1) r'(1)] r' show ?thesis using that by (auto simp: Load_def)
qed

end
