(* ===== verification/Session_Example.thy ===== *)
theory Session_Example
  imports Session_Reachable
begin

section \<open>A concrete environment\<close>

text \<open>
  An environment that satisfies \<open>crypto_ok\<close>, and one session created in it, so that the
  theorems with hypotheses on the cryptography and on JSON can be applied to a concrete run.  The
  JSON text of the secrets is a decimal number: the secrets are a countable type.
\<close>

instance stamp :: countable
  by countable_datatype

instance S3SessionStorageV1_ext :: (countable) countable
  by (rule countable_classI [of "\<lambda>r. to_nat (Endpoint r, Region r, Bucket r, Prefix r, AccessKeyID r, SecretAccessKey r,
        SessionToken r, ForcePathStyle r, S3SessionStorageV1.more r)"]) simp

instance StorageV1_ext :: (countable) countable
  by (rule countable_classI [of "\<lambda>r. to_nat (Kind r, S3 r, StorageV1.more r)"]) simp

instance RTMPHLSSessionParamsV1_ext :: (countable) countable
  by (rule countable_classI [of "\<lambda>r. to_nat (ParamsSchema r, PublisherMode r, OutputProfile r, MeteringRendition r,
        Storage r, RTMPHLSSessionParamsV1.more r)"]) simp

instance RunnerCreateRequestV1_ext :: (countable) countable
  by (rule countable_classI [of "\<lambda>r. to_nat (SessionID r, WorkID r, Capability r, Offering r, SessionParams r,
        CallbackURL r, CallbackToken r, RunnerCreateRequestV1.more r)"]) simp

instance RuntimePublicV1_ext :: (countable) countable
  by (rule countable_classI [of "\<lambda>r. to_nat (RTMPURL r, HLSURL r, KeyIssueURL r, StatusURL r, RuntimePublicV1.more r)"]) simp

instance GrantV1_ext :: (countable) countable
  by (rule countable_classI [of "\<lambda>r. to_nat (GrantID r, Operations r, Secret r, ExpiresAt r, GrantV1.more r)"]) simp

instance RuntimeDescriptorV1_ext :: (countable) countable
  by (rule countable_classI [of "\<lambda>r. to_nat (RtSchema r, Public r, Grants r, RuntimeDescriptorV1.more r)"]) simp

instance RunnerCreateResponseV1_ext :: (countable) countable
  by (rule countable_classI [of "\<lambda>r. to_nat (RespRunnerSessionID r, Runtime r, RunnerCreateResponseV1.more r)"]) simp

instance StreamKeyIssueRequestV1_ext :: (countable) countable
  by (rule countable_classI [of "\<lambda>r. to_nat (RequestID r, Audience r, StreamKeyIssueRequestV1.more r)"]) simp

instance StreamKeyIssueResponseV1_ext :: (countable) countable
  by (rule countable_classI [of "\<lambda>r. to_nat (RespRequestID r, StreamKey r, KeyExpiresAt r,
        StreamKeyIssueResponseV1.more r)"]) simp

instance StoredKeyIssueV1_ext :: (countable) countable
  by (rule countable_classI [of "\<lambda>r. to_nat (Fingerprint r, IssueRequest r, IssueResponse r, StoredKeyIssueV1.more r)"]) simp

instance SessionSecretsV1_ext :: (countable) countable
  by (rule countable_classI [of "\<lambda>r. to_nat (CreateRequest r, CreateResponse r, CurrentKeyID r, KeyIssues r,
        SessionSecretsV1.more r)"]) simp

definition example_env :: env where
  "example_env =
     \<lparr>sha256 = (\<lambda>x. take 32 (x @ replicate 32 CHR ''-'')),
      hmac_sha256 = (\<lambda>k x. take 32 (x @ replicate 32 CHR ''+'')),
      gcm_seal = (\<lambda>k n p a. CHR ''t'' # p), gcm_open = (\<lambda>k n c a. if c = [] then None else Some (tl c)),
      json_record = BrokerSessionID, json_secrets = (\<lambda>s. fmt_nat (to_nat s)),
      decode_secrets = (\<lambda>t. Some (from_nat (nat_of_digits t))),
      json_create = SessionID, json_key_issue = RequestID, master_key = ''master'',
      rand_read = (\<lambda>i n. Some (replicate n CHR ''r'')), time_now = 5, save_io = SaveOK, read_dir_ok = True\<rparr>"

lemma example_env_ok [simp]: "crypto_ok example_env"
  by (auto simp: crypto_ok_def example_env_def min_def)

lemma same_keys_refl [simp]: "same_keys E E"
  by (simp add: same_keys_def)

definition example_request :: RunnerCreateRequestV1 where
  "example_request =
     \<lparr>SessionID = ''s1'', WorkID = ''w1'', Capability = ''video:transcode.live'', Offering = ''o'',
      SessionParams = \<lparr>ParamsSchema = SessionParamsSchemaV1, PublisherMode = ''gateway-relay'', OutputProfile = ''p'',
        MeteringRendition = ''m'', Storage = \<lparr>Kind = ''runner-local'', S3 = None\<rparr>\<rparr>,
      CallbackURL = ''https://b/c'', CallbackToken = ''t''\<rparr>"

definition example_response :: RunnerCreateResponseV1 where
  "example_response =
     \<lparr>RespRunnerSessionID = ''r1'',
      Runtime = \<lparr>RtSchema = RuntimeSchemaV1,
        Public = \<lparr>RTMPURL = ''rtmp://h/live'', HLSURL = ''http://h/x'', KeyIssueURL = ''http://h/k'', StatusURL = []\<rparr>,
        Grants = [\<lparr>GrantID = ''g'', Operations = [GrantOperationV1], Secret = ''z'', ExpiresAt = Stamp 9\<rparr>]\<rparr>\<rparr>"

lemma example_valid [simp]:
  "ValidateCreateRequestV1 example_request = None" "ValidateCreateResponseV1 example_response = None"
  "create_admits example_request example_response"
  by code_simp+

definition example_secrets :: SessionSecretsV1 where
  "example_secrets = \<lparr>CreateRequest = example_request, CreateResponse = example_response, CurrentKeyID = [], KeyIssues = []\<rparr>"

text \<open>The directory after the creation, and the record in it.\<close>

definition example_disk :: disk where
  "example_disk = exec example_env (CallCreate example_request example_response) empty_disk"

lemma example_missing:
  "loadLocked example_env empty_disk ''s1'' = Inl ErrNotExist"
  "createFencedLocked example_env empty_disk ''s1'' = Inr False"
  by (simp_all add: loadLocked_def createFencedLocked_def empty_disk_def) code_simp

definition example_record :: SessionRecordV1 where
  "example_record =
     (newSessionRecordV1 example_env example_request example_response (hd (Grants (Runtime example_response))))
       \<lparr>WrappedKeyNonce := hex_encode (replicate 12 CHR ''r''), WrappedKeyCiphertext := hex_encode (CHR ''t'' # replicate 32 CHR ''r''),
        SecretNonce := hex_encode (replicate 12 CHR ''r''),
        SecretCiphertext := hex_encode (CHR ''t'' # json_secrets example_env example_secrets)\<rparr>"

lemma example_seal:
  "sealLocked example_env (newSessionRecordV1 example_env example_request example_response
      (hd (Grants (Runtime example_response)))) example_secrets = Inr example_record"
  by (simp add: sealLocked_def example_record_def example_env_def nonceSize_def)

lemma example_fields [simp]:
  "BrokerSessionID example_record = ''s1''" "RunnerSessionID example_record = ''r1''" "State example_record = ''active''"
  "\<not> Stopping example_record" "LastSequence example_record = 0" "PendingEvents example_record = []"
  "UsageTotal example_record = 0" "MeteredMicroseconds example_record = 0" "MeteredSegmentSHA256 example_record = []"
  "CallbackDelivery example_record = None" "CallbackDeadLetters example_record = []" "CallbackRejectedTotal example_record = 0"
  "PendingKeyActivationID example_record = []"
  by (simp_all add: example_record_def newSessionRecordV1_def example_request_def example_response_def)

lemma example_create:
  "CreateOrReplay example_env empty_disk example_request example_response =
     (Inr (example_record, example_secrets, False), example_disk)"
  "Files example_disk = [(''s1'', FRecord (example_record\<lparr>IntegritySHA256 := integrityV1 example_env example_record\<rparr>))]"
  "Fences example_disk = []"
proof -
  have sid: "SessionID example_request = ''s1''" by (simp add: example_request_def)
  have io: "save_io example_env = SaveOK" by (simp add: example_env_def)
  define d where "d = empty_disk\<lparr>Files := [(''s1'', FRecord (example_record\<lparr>IntegritySHA256 := integrityV1 example_env example_record\<rparr>))]\<rparr>"
  have save: "saveLocked example_env empty_disk example_record = (None, d)"
    by (simp add: saveLocked_def io empty_disk_def d_def)
  have c: "CreateOrReplay example_env empty_disk example_request example_response = (Inr (example_record, example_secrets, False), d)"
    unfolding CreateOrReplay_def example_valid sid example_missing
    by (simp add: example_secrets_def [symmetric] example_seal save)
  then have d: "example_disk = d" by (simp add: example_disk_def)
  then show "CreateOrReplay example_env empty_disk example_request example_response =
      (Inr (example_record, example_secrets, False), example_disk)" using c by simp
  show "Files example_disk = [(''s1'', FRecord (example_record\<lparr>IntegritySHA256 := integrityV1 example_env example_record\<rparr>))]"
    "Fences example_disk = []"
    by (simp_all add: d d_def empty_disk_def)
qed

lemma example_reachable [simp]: "reachable example_env example_disk"
  unfolding reachable_def example_disk_def
  by (rule runs_call [OF runs_refl]) simp_all

end
