(* ===== verification/Session_Properties.thy ===== *)
theory Session_Properties
  imports Session_Example
begin

section \<open>Properties of the session store\<close>

text \<open>
  The guarantees of the durable store over all runs from an empty directory: every file loads,
  sessions never move backwards, creation is idempotent, fences hold, segments are metered
  exactly once, and at most one stream key is live.  \<open>Session_Witnesses\<close> applies each of them to a concrete run.
\<close>

subsection \<open>One successful call\<close>

lemma opened_unique: "opened E r so \<Longrightarrow> opened E r so' \<Longrightarrow> so' = so"
  by (auto simp: opened_def split: option.splits)

lemma same_keys_opened: "same_keys K E \<Longrightarrow> opened E r so = opened K r so"
  by (simp add: opened_def same_keys_open split: option.splits)

text \<open>A successful save makes the new record the loaded one.\<close>

lemma load_after_save:
  assumes E: "crypto_ok E" and d: "disk_ok E d" and r: "opaqueIDPattern (BrokerSessionID r)" "record_ok r" "opened E r so"
    and io: "save_io E = SaveOK"
  shows "\<exists>d'. saveLocked E d r = (None, d') \<and> disk_ok E d' \<and>
     Load E d' (BrokerSessionID r) = Inr (r\<lparr>IntegritySHA256 := integrityV1 E r\<rparr>, so)"
proof -
  let ?s = "r\<lparr>IntegritySHA256 := integrityV1 E r\<rparr>"
  let ?d = "d\<lparr>Files := put (BrokerSessionID r) (FRecord ?s) (Files d)\<rparr>"
  have save: "saveLocked E d r = (None, ?d)" by (simp add: saveLocked_def io Let_def)
  then have ok: "disk_ok E ?d" using saveLocked_keeps [OF d r] by simp
  obtain r1 so1 where l: "loadLocked E ?d (BrokerSessionID r) = Inr (r1, so1)" "r1 = ?s" "opened E r1 so1"
    using load_defined [OF E ok, of "BrokerSessionID r" "FRecord ?s"] by auto
  have "so1 = so" using l(2,3) r(3) opened_unique by simp
  with l save ok show ?thesis by (auto simp: Load_def)
qed

lemma load_after_update:
  assumes E: "crypto_ok E" and d: "disk_ok E d" and l: "Load E d sid = Inr (r, so)"
    and st: "step r so = Inr (a, Some r')" and r': "record_ok r'" "advances r r'" "opened E r' so'"
    and io: "save_io E = SaveOK"
  shows "\<exists>d'. update_session E d sid step = (Inr a, d') \<and> disk_ok E d' \<and>
     Load E d' sid = Inr (r'\<lparr>IntegritySHA256 := integrityV1 E r'\<rparr>, so')"
proof -
  have r: "opaqueIDPattern sid" "BrokerSessionID r = sid"
    using load_Inr [OF E d] l by (auto simp: Load_def)
  then have b: "BrokerSessionID r' = sid" using r'(2) by (simp add: advances_def same_identity_def)
  obtain d' where "saveLocked E d r' = (None, d')" "disk_ok E d'"
      "Load E d' sid = Inr (r'\<lparr>IntegritySHA256 := integrityV1 E r'\<rparr>, so')"
    using load_after_save [OF E d _ r'(1,3) io] r b by auto
  moreover have "update_session E d sid step = (Inr a, d')" if "saveLocked E d r' = (None, d')" for d'
    using l st that by (simp add: update_session_def Load_def)
  ultimately show ?thesis by blast
qed

subsection \<open>Durability and monotonicity\<close>

text \<open>
  (C1) Whatever the runner does with its store, in any order and with saves failing before or
  after the rename, every session file loads again: it passes the integrity check, all checks of
  the record and of its secrets, and belongs to the session it is named after.
\<close>

theorem store_files_load:
  assumes "crypto_ok K" and "reachable K d" and "map_of (Files d) sid = Some f"
  shows "\<exists>r so. Load K d sid = Inr (r, so) \<and> BrokerSessionID r = sid"
  using load_defined [OF assms(1) reachable_disk_ok [OF assms(2)] assms(3)] by (auto simp: Load_def)

text \<open>
  (C2) Along every run of the store a session keeps its identity, and its sequence number,
  reported usage, metered time, metered segments and rejection count never decrease.
\<close>

theorem session_never_moves_back:
  assumes "crypto_ok K" and "reachable K a" and "runs K a d" and "Load K a sid = Inr (r, so)"
  shows "\<exists>r' so'. Load K d sid = Inr (r', so') \<and> RunnerSessionID r' = RunnerSessionID r \<and>
     CreateFingerprint r' = CreateFingerprint r \<and> RuntimePublic r' = RuntimePublic r \<and> GrantAudit r' = GrantAudit r \<and>
     LastSequence r \<le> LastSequence r' \<and> UsageTotal r \<le> UsageTotal r' \<and>
     MeteredMicroseconds r \<le> MeteredMicroseconds r' \<and>
     set (MeteredSegmentSHA256 r) \<subseteq> set (MeteredSegmentSHA256 r') \<and>
     CallbackRejectedTotal r \<le> CallbackRejectedTotal r'"
  by (rule runs_loads [OF assms(3) reachable_disk_ok [OF assms(2)] assms(1,4)])
    (auto simp: advances_def same_identity_def)

text \<open>
  (C3) A terminal session stays terminal with the same state, close reason, usage and sequence;
  nothing is metered after it and no event follows it.
\<close>

theorem terminal_is_final:
  assumes "crypto_ok K" and "reachable K a" and "runs K a d" and "Load K a sid = Inr (r, so)"
    and "State r = ''ended'' \<or> State r = ''failed''"
  shows "\<exists>r' so'. Load K d sid = Inr (r', so') \<and> State r' = State r \<and> CloseReason r' = CloseReason r \<and>
     UsageTotal r' = UsageTotal r \<and> LastSequence r' = LastSequence r \<and> MeteredMicroseconds r' = MeteredMicroseconds r"
  by (rule runs_loads [OF assms(3) reachable_disk_ok [OF assms(2)] assms(1,4)])
    (use assms(5) in \<open>auto simp: advances_def terminalV1_def\<close>)

text \<open>
  (C4) The first close reason wins: once a session is stopping, it stays stopping for that reason
  until it is terminal, and then that is its close reason.
\<close>

theorem first_close_reason_wins:
  assumes "crypto_ok K" and "reachable K a" and "runs K a d" and "Load K a sid = Inr (r, so)" and "Stopping r"
  shows "\<exists>r' so'. Load K d sid = Inr (r', so') \<and>
     (if State r' = ''active'' then Stopping r' \<and> PendingCloseReason r' = PendingCloseReason r
      else CloseReason r' = PendingCloseReason r)"
  by (rule runs_loads [OF assms(3) reachable_disk_ok [OF assms(2)] assms(1,4)])
    (use assms(5) in \<open>auto simp: advances_def\<close>)

subsection \<open>Creation\<close>

text \<open>
  (C5) Creation is idempotent: repeating the request that created a session, with any freshly
  minted response, at any later time while the session is active, returns the first response and
  secrets and leaves the directory as it is.
\<close>

theorem create_replays:
  assumes K: "crypto_ok K" and a: "reachable K a" and adm: "create_admits q p"
    and c: "CreateOrReplay K a q p = (Inr (r, s, False), d)"
    and E: "crypto_ok E" "same_keys K E" and p': "ValidateCreateResponseV1 p' = None"
  shows "\<exists>r'. CreateOrReplay E d q p' = (Inr (r', s, True), d) \<and> CreateResponse s = p \<and>
     RunnerSessionID r' = RespRunnerSessionID p"
proof -
  note ok = reachable_disk_ok [OF a]
  show ?thesis
  proof (rule CreateOrReplay_cases [of K a q p])
    fix e r1 s1
    assume v: "ValidateCreateRequestV1 q = None" "ValidateCreateResponseV1 p = None"
      and s1: "s1 = \<lparr>CreateRequest = q, CreateResponse = p, CurrentKeyID = [], KeyIssues = []\<rparr>"
      and seal: "sealLocked K (newSessionRecordV1 K q p (hd (Grants (Runtime p)))) s1 = Inr r1"
      and cc: "CreateOrReplay K a q p = (case saveLocked K a r1 of (Some e', d') \<Rightarrow> (Inl e', d') | (None, d') \<Rightarrow> (Inr (r1, s1, False), d'))"
    note n = new_record_keeps [OF K v adm s1 seal]
    have rs: "r1 = r" "s1 = s" and save: "saveLocked K a r = (None, d)"
      using c cc by (auto split: prod.splits option.splits)
    let ?r = "r\<lparr>IntegritySHA256 := integrityV1 K r\<rparr>"
    have "save_io K = SaveOK" using save by (auto simp: saveLocked_def Let_def split: save_outcome.splits)
    then have d: "disk_ok K d" and "Load K d (SessionID q) = Inr (?r, Some s)"
      using load_after_save [OF K ok _ n(1) n(2)] n(3,4) rs save by auto
    then have f: "map_of (Files d) (SessionID q) = Some (FRecord ?r)"
      using load_Inr [OF K d, of "SessionID q" ?r "Some s"] by (simp add: Load_def)
    have dE: "disk_ok E d" using d same_keys_disk_ok [OF E(2)] by simp
    obtain so where l: "loadLocked E d (SessionID q) = Inr (?r, so)" "opened E ?r so"
      using load_defined [OF E(1) dE f] by auto
    have "opened E ?r (Some s)"
      using n(2) rs same_keys_opened [OF E(2)] by simp
    with l(2) have so: "so = Some s" using opened_unique by blast
    have "CreateFingerprintV1 E q = CreateFingerprintV1 K q"
      using E(2) by (simp add: CreateFingerprintV1_def canonicalHashV1_def same_keys_def)
    then have "CreateOrReplay E d q p' = (Inr (?r, s, True), d)"
      using v(1) p' l(1) so n(6-8) rs by (simp add: CreateOrReplay_def not_active_def)
    with n(5) rs s1 show ?thesis by auto
  qed (use c in auto)
qed

text \<open>
  (C6) Fences are final: when \<open>ReconcileCreate\<close> answers \<open>fenced\<close> for a session ID,
  then in every later state of the store the ID has no session, a create request for it is
  refused with \<open>session_create_fenced\<close> and changes nothing.
\<close>

theorem fenced_create_never_succeeds:
  assumes K: "crypto_ok K" and a: "reachable K a" and f: "ReconcileCreate K a sid = (Inr res, b)" "Outcome res = ''fenced''"
    and d: "runs K b d" and E: "crypto_ok E" "same_keys K E"
    and q: "SessionID q = sid" "ValidateCreateRequestV1 q = None" "ValidateCreateResponseV1 p = None"
  shows "map_of (Files d) sid = None \<and> CreateOrReplay E d q p = (Inl ErrCreateFencedV1, d)"
proof -
  note ok = reachable_disk_ok [OF a]
  have sid: "opaqueIDPattern sid" and none: "map_of (Files a) sid = None"
    using f load_missing [OF K ok] by (auto simp: ReconcileCreate_def split: if_splits sum.splits)
  have fen: "map_of (Fences b) sid \<noteq> None" and fil: "Files b = Files a"
    using f none by (auto simp: ReconcileCreate_def createFenced_value [OF ok] loadLocked_def Let_def
        split: if_splits save_outcome.splits)
  have b: "disk_ok K b" using ReconcileCreate_keeps [OF K ok, of sid] f(1) by simp
  have d': "map_of (Files d) sid = None" "map_of (Fences d) sid \<noteq> None"
    using runs_fenced [OF d b _ fen] none fil by simp_all
  have dE: "disk_ok E d" using runs_keeps [OF d b] same_keys_disk_ok [OF E(2)] by simp
  have "loadLocked E d sid = Inl ErrNotExist" using d' sid by (simp add: loadLocked_def)
  then show ?thesis
    using d' q createFenced_value [OF dE, of sid] by (simp add: CreateOrReplay_def)
qed

subsection \<open>Metering\<close>

text \<open>The segments a batch adds: the first of each identity that was not metered before.\<close>

definition segment_id :: "env \<Rightarrow> FinalizedHLSSegmentV1 \<Rightarrow> string" where
  "segment_id E g = hex_encode (sha256 E (URI g))"

fun fresh_segments :: "env \<Rightarrow> string list \<Rightarrow> FinalizedHLSSegmentV1 list \<Rightarrow> FinalizedHLSSegmentV1 list" where
  "fresh_segments E ids [] = []"
| "fresh_segments E ids (g # segs) =
     (if segment_id E g \<in> set ids then fresh_segments E ids segs
      else g # fresh_segments E (ids @ [segment_id E g]) segs)"

lemma meterSegments_value:
  assumes "meterSegmentsV1 E m ids ch segs = Inr (m', ids', ch')"
  shows "unat m' = unat m + sum_list (map (\<lambda>g. unat (DurationMicroseconds g)) (fresh_segments E ids segs))"
    and "ids' = ids @ map (segment_id E) (fresh_segments E ids segs)"
    and "ch' = (ch \<or> fresh_segments E ids segs \<noteq> [])"
proof -
  have "unat m' = unat m + sum_list (map (\<lambda>g. unat (DurationMicroseconds g)) (fresh_segments E ids segs)) \<and>
      ids' = ids @ map (segment_id E) (fresh_segments E ids segs) \<and> ch' = (ch \<or> fresh_segments E ids segs \<noteq> [])"
    using assms
  proof (induction segs arbitrary: m ids ch)
    case (Cons g segs)
    obtain t c where a: "add64 m (DurationMicroseconds g) = (t, c)" by (cases "add64 m (DurationMicroseconds g)")
    show ?case
    proof (cases "segment_id E g \<in> set ids")
      case True
      then show ?thesis using Cons by (auto simp: segment_id_def Let_def split: if_splits)
    next
      case False
      with Cons.prems a have c: "c = 0" and rest: "meterSegmentsV1 E t (ids @ [segment_id E g]) True segs = Inr (m', ids', ch')"
        by (auto simp: segment_id_def Let_def split: if_splits)
      have "unat t = unat m + unat (DurationMicroseconds g)" using a c by (intro add64_no_carry) simp
      with Cons.IH [OF rest] False show ?thesis by simp
    qed
  qed simp
  then show "unat m' = unat m + sum_list (map (\<lambda>g. unat (DurationMicroseconds g)) (fresh_segments E ids segs))"
    and "ids' = ids @ map (segment_id E) (fresh_segments E ids segs)"
    and "ch' = (ch \<or> fresh_segments E ids segs \<noteq> [])"
    by blast+
qed

lemma fresh_none: "segment_id E ` set segs \<subseteq> set ids \<Longrightarrow> fresh_segments E ids segs = []"
  by (induction segs) auto

lemma fresh_ids: "segment_id E ` set segs \<subseteq> set ids \<union> segment_id E ` set (fresh_segments E ids segs)"
  by (induction E ids segs rule: fresh_segments.induct) auto

lemma meterSegments_seen:
  assumes "segment_id E ` set segs \<subseteq> set ids" and "\<forall>g\<in>set segs. URI g \<noteq> [] \<and> DurationMicroseconds g \<noteq> 0"
  shows "meterSegmentsV1 E m ids ch segs = Inr (m, ids, ch)"
  using assms by (induction segs) (auto simp: segment_id_def)

lemma meterSegments_valid:
  "meterSegmentsV1 E m ids ch segs = Inr x \<Longrightarrow> \<forall>g\<in>set segs. URI g \<noteq> [] \<and> DurationMicroseconds g \<noteq> 0"
proof (induction segs arbitrary: m ids ch)
  case (Cons g segs)
  then have "URI g \<noteq> [] \<and> DurationMicroseconds g \<noteq> 0" by (auto split: if_splits)
  moreover have "\<exists>m ids ch. meterSegmentsV1 E m ids ch segs = Inr x"
    using Cons.prems by (auto simp: Let_def split_beta split: if_splits)
  ultimately show ?case using Cons.IH by auto
qed simp

lemma RecordFinalizedSegments_values:
  assumes st: "RecordFinalizedSegments_step E segs t r so = Inr (a, Some r')"
  shows "meterSegmentsV1 E (MeteredMicroseconds r) (MeteredSegmentSHA256 r) False segs =
      Inr (MeteredMicroseconds r', MeteredSegmentSHA256 r', True)"
    and "State r' = State r" "Stopping r' = Stopping r" "LastSequence r \<noteq> 0"
  using st by (auto simp: RecordFinalizedSegments_step_def producingV1_def appendEventV1_def Let_def
      split: if_splits sum.splits option.splits)

text \<open>
  (C7) Usage is metered exactly once: a batch of finalized segments adds the exact sum of the
  durations of the segments whose identity was not metered before, each identity once, however
  often the playlist repeats it; no sum wraps around; the reported usage is the whole seconds of
  the metered time; and a usage event is emitted only when that figure grows.
\<close>

theorem segments_metered_once:
  assumes K: "crypto_ok K" and d: "reachable K d" and l: "Load K d sid = Inr (r, so)"
    and st: "RecordFinalizedSegments_step K segs t r so = Inr (ticked, Some r')"
  shows "unat (MeteredMicroseconds r') = unat (MeteredMicroseconds r) +
       sum_list (map (\<lambda>g. unat (DurationMicroseconds g)) (fresh_segments K (MeteredSegmentSHA256 r) segs)) \<and>
     MeteredSegmentSHA256 r' = MeteredSegmentSHA256 r @ map (segment_id K) (fresh_segments K (MeteredSegmentSHA256 r) segs) \<and>
     distinct (MeteredSegmentSHA256 r') \<and>
     unat (UsageTotal r') = unat (MeteredMicroseconds r') div 1000000 \<and>
     ticked = (UsageTotal r < UsageTotal r')"
proof -
  have r: "record_ok r" using load_Inr [OF K reachable_disk_ok [OF d]] l by (simp add: Load_def)
  note v = RecordFinalizedSegments_values [OF st]
  have r': "record_ok r'" "advances r r'" using RecordFinalizedSegments_keeps [OF K r st] by auto
  have u: "UsageTotal r' = MeteredMicroseconds r' div 1000000" "distinct (MeteredSegmentSHA256 r')"
    using r'(1) by (auto simp: record_ok_iff usage_ok_def meter_ok_def)
  have "ticked = (UsageTotal r < UsageTotal r')"
    using st by (auto simp: RecordFinalizedSegments_step_def producingV1_def appendEventV1_def Let_def
      split: if_splits sum.splits option.splits)
  moreover have "unat (UsageTotal r') = unat (MeteredMicroseconds r') div 1000000"
    by (simp add: u(1) unat_div)
  ultimately show ?thesis using meterSegments_value [OF v(1)] u(2) by blast
qed

text \<open>
  Metering is idempotent: after a batch was recorded, recording any segments of it again,
  in any order and multiplicity, reports no change and writes nothing.
\<close>

theorem metering_idempotent:
  assumes K: "crypto_ok K" and d: "reachable K d" and io: "save_io K = SaveOK"
    and m: "RecordFinalizedSegments K d sid segs t = (Inr ticked, d')" and again: "set segs' \<subseteq> set segs"
    and t': "t' \<noteq> zero_time"
  shows "RecordFinalizedSegments K d' sid segs' t' = (Inr False, d')"
proof -
  note ok = reachable_disk_ok [OF d]
  have upd: "update_session K d sid (RecordFinalizedSegments_step K segs t) = (Inr ticked, d')"
    using m by (auto simp: RecordFinalizedSegments_def split: if_splits)
  then obtain r so where l: "Load K d sid = Inr (r, so)"
    by (auto simp: update_session_def Load_def split: sum.splits)
  have r: "record_ok r" "opened K r so"
    using load_Inr [OF K ok] l by (auto simp: Load_def)
  have act: "\<not> not_active r" "LastSequence r \<noteq> 0"
    using upd l by (auto simp: update_session_def Load_def RecordFinalizedSegments_step_def fails_def split: if_splits)
  obtain m ids ch where ms: "meterSegmentsV1 K (MeteredMicroseconds r) (MeteredSegmentSHA256 r) False segs = Inr (m, ids, ch)"
    using upd l act by (cases "meterSegmentsV1 K (MeteredMicroseconds r) (MeteredSegmentSHA256 r) False segs")
      (auto simp: update_session_def Load_def RecordFinalizedSegments_step_def)
  note valid = meterSegments_valid [OF ms] and val = meterSegments_value [OF ms]
  have seen: "segment_id K ` set segs' \<subseteq> set ids"
    using again fresh_ids [of K segs "MeteredSegmentSHA256 r"] val(2) by auto
  have stay: "meterSegmentsV1 K m' ids False segs' = Inr (m', ids, False)" for m'
    using meterSegments_seen [OF seen] valid again by blast
  show ?thesis
  proof (cases ch)
    case False
    then have "d' = d" using upd l act ms by (auto simp: update_session_def Load_def RecordFinalizedSegments_step_def)
    moreover have "ids = MeteredSegmentSHA256 r" using val False by simp
    ultimately show ?thesis using l act stay t'
      by (simp add: RecordFinalizedSegments_def update_session_def Load_def RecordFinalizedSegments_step_def)
  next
    case True
    obtain a r' where st: "RecordFinalizedSegments_step K segs t r so = Inr (a, Some r')"
      using upd l act ms True
      by (cases "RecordFinalizedSegments_step K segs t r so")
        (auto simp: update_session_def Load_def RecordFinalizedSegments_step_def Let_def split: if_splits option.splits)
    obtain so' where r': "record_ok r'" "advances r r'" "opened K r' so'"
      using segments.step_keeps [OF K r TrueI st] by blast
    note v = RecordFinalizedSegments_values [OF st]
    have ids: "MeteredSegmentSHA256 r' = ids" using v(1) ms by simp
    have "LastSequence r' \<noteq> 0" using act(2) r'(2) by (auto simp: advances_def)
    moreover have "Load K d' sid = Inr (r'\<lparr>IntegritySHA256 := integrityV1 K r'\<rparr>, so')"
      using load_after_update [where step = "RecordFinalizedSegments_step K segs t", OF K ok l st r' io] upd by auto
    ultimately show ?thesis using act v stay ids t'
      by (simp add: RecordFinalizedSegments_def update_session_def Load_def RecordFinalizedSegments_step_def not_active_def)
  qed
qed

subsection \<open>Stream keys, outbox and recovery\<close>



lemma loadAll_ok:
  assumes "crypto_ok K" and "disk_ok K d" and "\<forall>sid\<in>set ids. map_of (Files d) sid \<noteq> None"
  shows "\<exists>rs. loadAllV1 K d ids = Inr rs \<and> map (\<lambda>x. BrokerSessionID (fst x)) rs = ids \<and>
    (\<forall>x\<in>set rs. loadLocked K d (BrokerSessionID (fst x)) = Inr x)"
  using assms(3)
proof (induction ids)
  case (Cons sid ids)
  then obtain rs where rs: "loadAllV1 K d ids = Inr rs" "map (\<lambda>x. BrokerSessionID (fst x)) rs = ids"
      "\<forall>x\<in>set rs. loadLocked K d (BrokerSessionID (fst x)) = Inr x" by auto
  obtain f where "map_of (Files d) sid = Some f" using Cons.prems by auto
  then obtain r so where "loadLocked K d sid = Inr (r, so)" "BrokerSessionID r = sid"
    using load_defined [OF assms(1,2)] by blast
  with rs show ?case by auto
qed simp

lemma recoverable_value:
  assumes K: "crypto_ok K" and ok: "disk_ok K d" and io: "read_dir_ok K"
  shows "\<exists>rs. Recoverable K d = Inr rs \<and> sorted (map BrokerSessionID rs) \<and>
     set rs = {r. \<exists>sid so. Load K d sid = Inr (r, so) \<and>
                 (State r = ''active'' \<or> PendingEvents r \<noteq> [] \<or> WrappedKeyCiphertext r \<noteq> [])}"
proof -
  have ids: "set (sessionFileIDs d) = dom (map_of (Files d))"
    by (simp add: sessionFileIDs_def dom_map_of_conv_image_fst)
  then obtain rs where rs: "loadAllV1 K d (sessionFileIDs d) = Inr rs"
      "map (\<lambda>x. BrokerSessionID (fst x)) rs = sessionFileIDs d"
      "\<forall>x\<in>set rs. loadLocked K d (BrokerSessionID (fst x)) = Inr x"
    using loadAll_ok [OF K ok, of "sessionFileIDs d"] by blast
  have "x \<in> set rs \<longleftrightarrow> (\<exists>sid. loadLocked K d sid = Inr x)" for x
  proof
    assume "\<exists>sid. loadLocked K d sid = Inr x"
    then obtain sid where l: "loadLocked K d sid = Inr x" by blast
    have f: "map_of (Files d) sid = Some (FRecord (fst x))"
      using load_Inr [OF K ok, of sid "fst x" "snd x"] l by simp
    have "sid \<in> set (map (\<lambda>x. BrokerSessionID (fst x)) rs)" unfolding rs(2) ids using f by blast
    then obtain y where "y \<in> set rs" "BrokerSessionID (fst y) = sid" by auto
    with rs(3) l show "x \<in> set rs" by auto
  qed (use rs(3) in blast)
  then have "fst ` set rs = {r. \<exists>sid so. Load K d sid = Inr (r, so)}"
    by (force simp: Load_def)
  then show ?thesis using rs(1) io by (auto simp: Recoverable_def image_iff)
qed

text \<open>
  Recovery finds all work: on a reachable store a readable directory scan always succeeds and
  returns, ordered by session ID, exactly the sessions that are active, have undelivered events
  or still hold sealed secrets.
\<close>

theorem recoverable_complete:
  assumes K: "crypto_ok K" and d: "reachable K d" and io: "read_dir_ok K"
  shows "\<exists>rs. Recoverable K d = Inr rs \<and> sorted (map BrokerSessionID rs) \<and>
     set rs = {r. \<exists>sid so. Load K d sid = Inr (r, so) \<and>
                 (State r = ''active'' \<or> PendingEvents r \<noteq> [] \<or> WrappedKeyCiphertext r \<noteq> [])}"
  by (rule recoverable_value [OF K reachable_disk_ok [OF d] io])

text \<open>
  Retry delays: before attempt \<open>n\<close> of a callback the runner waits
  \<open>min maximum (initial * 2 ^ (n - 1))\<close>, shortened or lengthened by at most a quarter, never
  more than the maximum and always a positive time; the doubling never overflows the range.
\<close>

theorem retry_delay_bounded:
  fixes n :: u32
  assumes "0 < initial" and "initial \<le> maximum"
  shows "let base = min maximum (initial * 2 ^ (unat n - 1)); delay = callbackRetryDelayV1 E q n initial maximum
     in 0 < delay \<and> delay \<le> maximum \<and> 3 * base \<le> 4 * delay \<and> 4 * delay \<le> 5 * base"
  using callbackRetryDelay_bounds [OF assms, where n = n and E = E and q = q] callbackRetryDelay_positive [OF assms, where n = n and E = E and q = q]
  by (simp add: Let_def)

text \<open>
  Rejected callbacks are never lost silently: parking the head of the outbox removes it,
  counts it, and keeps it as the newest of at most 32 dead letters; older ones are dropped only when
  there are more.
\<close>

theorem rejection_parked:
  assumes K: "crypto_ok K" and d: "reachable K d" and l: "Load K d sid = Inr (r, so)"
    and f: "validCallbackFailureV1 c m False"
    and st: "ParkCallbackRejection_step q c m t r so = Inr (u, Some r')"
  shows "\<exists>e rest letter. PendingEvents r = e # rest \<and> EventID e = q \<and> PendingEvents r' = rest \<and>
     unat (CallbackRejectedTotal r') = unat (CallbackRejectedTotal r) + 1 \<and> LetterEvent letter = e \<and>
     last (CallbackDeadLetters r') = letter \<and> length (CallbackDeadLetters r') \<le> 32 \<and>
     (length (CallbackDeadLetters r) < 32 \<longrightarrow> CallbackDeadLetters r' = CallbackDeadLetters r @ [letter])"
proof -
  have nm: "CallbackRejectedTotal r \<noteq> max_u64"
    using st by (auto simp: ParkCallbackRejection_step_def split: list.splits option.splits if_splits)
  have keep: "last (keep_last 32 (xs @ [x])) = x" "length (keep_last 32 (xs @ [x])) \<le> 32"
      "length xs < 32 \<Longrightarrow> keep_last 32 (xs @ [x]) = xs @ [x]" for xs :: "CallbackDeadLetterV1 list" and x
    by (auto simp: keep_last_def)
  show ?thesis
    using st nm unat_Suc_u64 [OF nm] keep
    by (auto simp: ParkCallbackRejection_step_def Let_def maxCallbackDeadLettersV1_def
        split: list.splits option.splits if_splits)
qed

end
