(* ===== verification/Session_Witnesses.thy ===== *)
theory Session_Witnesses
  imports Session_Properties
begin

section \<open>The store properties on concrete runs\<close>

text \<open>
  A session created, started, stopped and ended in the example environment, and each property
  of the store applied there.
\<close>

lemma example_io [simp]: "save_io example_env = SaveOK" "read_dir_ok example_env"
  by (simp_all add: example_env_def)

lemma example_load:
  "Load example_env example_disk ''s1'' =
     Inr (example_record\<lparr>IntegritySHA256 := integrityV1 example_env example_record\<rparr>, Some example_secrets)"
proof -
  let ?r = "example_record\<lparr>IntegritySHA256 := integrityV1 example_env example_record\<rparr>"
  have m: "map_of (Files example_disk) ''s1'' = Some (FRecord ?r)" by (simp add: example_create)
  obtain so where l: "loadLocked example_env example_disk ''s1'' = Inr (?r, so)" "opened example_env ?r so"
    using load_defined [OF example_env_ok reachable_disk_ok [OF example_reachable] m] by auto
  have "opened example_env example_record (Some example_secrets)"
    by (rule new_record_keeps(2) [OF example_env_ok example_valid example_secrets_def example_seal])
  then have "so = Some example_secrets" using l(2) opened_unique by auto
  with l show ?thesis by (simp add: Load_def)
qed

lemma reachable_call: "reachable example_env d \<Longrightarrow> admissible example_env d c \<Longrightarrow> reachable example_env (exec example_env c d)"
  unfolding reachable_def by (rule runs_call) simp_all

lemma runs_one: "admissible example_env d c \<Longrightarrow> runs example_env d (exec example_env c d)"
  by (rule runs_call [OF runs_refl]) simp_all

text \<open>The start event, an end event and a key of the example session, and the directories after them.\<close>

definition start_event :: RunnerEventV1 where
  "start_event = \<lparr>EventID = ''r1:1'', Sequence = 1, EventType = ''session.started'', EventTime = Stamp 6, EvState = ''active'',
     EvUsage = None, EvCloseReason = None, Details = RawJSON (JObj [])\<rparr>"

definition end_event :: RunnerEventV1 where
  "end_event = \<lparr>EventID = ''r1:1'', Sequence = 1, EventType = ''session.ended'', EventTime = Stamp 6, EvState = ''ended'',
     EvUsage = Some \<lparr>Unit = WorkUnitV1, Total = 0\<rparr>, EvCloseReason = Some ''customer_end'', Details = RawJSON (JObj [])\<rparr>"

lemma example_events_valid: "ValidateEventV1 start_event = None" "ValidateEventV1 end_event = None"
  by code_simp+

lemma event_id_1: "''r1'' @ '':'' @ fmt_u64 1 = ''r1:1''"
  by code_simp

definition started_disk :: disk where "started_disk = exec example_env (CallAdvance ''s1'' start_event) example_disk"
definition ended_disk :: disk where "ended_disk = exec example_env (CallAdvance ''s1'' end_event) example_disk"
definition stopping_disk :: disk where "stopping_disk = exec example_env (CallTerminate ''s1'' ''customer_end'') example_disk"

text \<open>A step of the example session that writes, with its contract.\<close>

lemma example_step:
  assumes "reachable example_env d" and "Load example_env d ''s1'' = Inr (r, so)" and "step r so = Inr (a, Some r')"
    and "record_ok r \<Longrightarrow> opened example_env r so \<Longrightarrow> record_ok r' \<and> advances r r' \<and> (\<exists>so'. opened example_env r' so')"
  shows "\<exists>so'. update_session example_env d ''s1'' step = (Inr a, snd (update_session example_env d ''s1'' step)) \<and>
     Load example_env (snd (update_session example_env d ''s1'' step)) ''s1'' =
       Inr (r'\<lparr>IntegritySHA256 := integrityV1 example_env r'\<rparr>, so')"
proof -
  note ok = reachable_disk_ok [OF assms(1)]
  have "record_ok r" "opened example_env r so"
    using load_Inr [OF example_env_ok ok] assms(2) by (auto simp: Load_def)
  then obtain so' where "record_ok r'" "advances r r'" "opened example_env r' so'" using assms(4) by blast
  from load_after_update [where step = step, OF example_env_ok ok assms(2,3) this] show ?thesis by auto
qed

lemma started_load:
  "reachable example_env started_disk"
  "\<exists>r so. Load example_env started_disk ''s1'' = Inr (r, so) \<and> State r = ''active'' \<and> \<not> Stopping r \<and> LastSequence r = 1 \<and>
     PendingEvents r = [start_event] \<and> MeteredMicroseconds r = 0 \<and> MeteredSegmentSHA256 r = [] \<and> UsageTotal r = 0 \<and>
     CallbackDelivery r = None \<and> CallbackRejectedTotal r = 0 \<and> CallbackDeadLetters r = [] \<and> RunnerSessionID r = ''r1''"
proof -
  let ?r = "example_record\<lparr>IntegritySHA256 := integrityV1 example_env example_record\<rparr>"
  have adm: "admissible example_env example_disk (CallAdvance ''s1'' start_event)"
    using example_load by (simp add: Load_def advance_admits_def start_event_def)
  then show "reachable example_env started_disk" unfolding started_disk_def by (rule reachable_call [OF example_reachable])
  have "Advance_step start_event ?r (Some example_secrets) =
      Inr ((), Some ((appendEventV1 ?r start_event)\<lparr>LastSequence := 1, UsageTotal := 0\<rparr>))"
    using example_events_valid(1) event_id_1
    by (simp add: Advance_step_def EventCursor_Accept_def durableCursorV1_def hasMeteringCursor_def eventIDFor_def Let_def)
      (simp add: start_event_def)
  from example_step [where step = "Advance_step start_event", OF example_reachable example_load this] advance.step_keeps [OF example_env_ok _ _ _ this]
  have "\<exists>so. Load example_env started_disk ''s1'' = Inr (((appendEventV1 ?r start_event)\<lparr>LastSequence := 1, UsageTotal := 0\<rparr>)
      \<lparr>IntegritySHA256 := integrityV1 example_env ((appendEventV1 ?r start_event)\<lparr>LastSequence := 1, UsageTotal := 0\<rparr>)\<rparr>, so)"
    by (auto simp: started_disk_def Advance_def advance_admits_def start_event_def)
  then show "\<exists>r so. Load example_env started_disk ''s1'' = Inr (r, so) \<and> State r = ''active'' \<and> \<not> Stopping r \<and> LastSequence r = 1 \<and>
     PendingEvents r = [start_event] \<and> MeteredMicroseconds r = 0 \<and> MeteredSegmentSHA256 r = [] \<and> UsageTotal r = 0 \<and>
     CallbackDelivery r = None \<and> CallbackRejectedTotal r = 0 \<and> CallbackDeadLetters r = [] \<and> RunnerSessionID r = ''r1''"
    by (auto simp: appendEventV1_def)
qed

lemma ended_load:
  "reachable example_env ended_disk"
  "\<exists>r so. Load example_env ended_disk ''s1'' = Inr (r, so) \<and> State r = ''ended'' \<and> CloseReason r = ''customer_end''"
proof -
  let ?r = "example_record\<lparr>IntegritySHA256 := integrityV1 example_env example_record\<rparr>"
  have adm: "admissible example_env example_disk (CallAdvance ''s1'' end_event)"
    using example_load by (simp add: Load_def advance_admits_def end_event_def)
  then show "reachable example_env ended_disk" unfolding ended_disk_def by (rule reachable_call [OF example_reachable])
  let ?r' = "((appendEventV1 ?r end_event)\<lparr>LastSequence := 1, UsageTotal := 0\<rparr>)\<lparr>State := ''ended'', CloseReason := ''customer_end'',
      Stopping := False, PendingCloseReason := [], PendingTerminalState := [], PendingKeyActivationID := []\<rparr>"
  have "Advance_step end_event ?r (Some example_secrets) = Inr ((), Some ?r')"
    using example_events_valid(2) event_id_1
    by (simp add: Advance_step_def EventCursor_Accept_def durableCursorV1_def hasMeteringCursor_def eventIDFor_def Let_def)
      (simp add: end_event_def)
  from example_step [where step = "Advance_step end_event", OF example_reachable example_load this]
    advance.step_keeps [OF example_env_ok _ _ _ this]
  have "\<exists>so. Load example_env ended_disk ''s1'' = Inr (?r'\<lparr>IntegritySHA256 := integrityV1 example_env ?r'\<rparr>, so)"
    by (auto simp: ended_disk_def Advance_def advance_admits_def end_event_def)
  then show "\<exists>r so. Load example_env ended_disk ''s1'' = Inr (r, so) \<and> State r = ''ended'' \<and> CloseReason r = ''customer_end''"
    by auto
qed

lemma stopping_load:
  "reachable example_env stopping_disk"
  "\<exists>r so. Load example_env stopping_disk ''s1'' = Inr (r, so) \<and> Stopping r \<and> PendingCloseReason r = ''customer_end'' \<and>
     State r = ''active'' \<and> RunnerSessionID r = ''r1'' \<and> LastSequence r = 0 \<and> OutputStateSince r = format_nano 5"
proof -
  let ?r = "example_record\<lparr>IntegritySHA256 := integrityV1 example_env example_record\<rparr>"
  show "reachable example_env stopping_disk"
    unfolding stopping_disk_def by (rule reachable_call [OF example_reachable]) simp
  let ?r' = "?r\<lparr>Stopping := True, PendingCloseReason := ''customer_end'', PendingTerminalState := ''ended'',
      PendingKeyActivationID := []\<rparr>"
  have ok: "validCloseReasonV1 ''customer_end''" by (simp add: validCloseReasonV1_def closeReasonsV1_def)
  have "beginTerminalV1_step ''customer_end'' ''ended'' ?r (Some example_secrets) = Inr ((?r', True), Some ?r')"
    by (simp add: beginTerminalV1_step_def Let_def)
  from example_step [where step = "beginTerminalV1_step ''customer_end'' ''ended''", OF example_reachable example_load this]
    begin_terminal.step_keeps [OF example_env_ok _ _ _ this] ok
  have "\<exists>so. Load example_env stopping_disk ''s1'' = Inr (?r'\<lparr>IntegritySHA256 := integrityV1 example_env ?r'\<rparr>, so)"
    by (auto simp: stopping_disk_def BeginTermination_def beginTerminalV1_def)
  moreover have "OutputStateSince example_record = format_nano 5"
    by (simp add: example_record_def newSessionRecordV1_def example_env_def)
  ultimately show "\<exists>r so. Load example_env stopping_disk ''s1'' = Inr (r, so) \<and> Stopping r \<and> PendingCloseReason r = ''customer_end'' \<and>
     State r = ''active'' \<and> RunnerSessionID r = ''r1'' \<and> LastSequence r = 0 \<and> OutputStateSince r = format_nano 5"
    by auto
qed

subsection \<open>The witnesses\<close>

theorem store_files_load_witness:
  "\<exists>r so. Load example_env example_disk ''s1'' = Inr (r, so) \<and> BrokerSessionID r = ''s1''"
  by (rule store_files_load [OF example_env_ok example_reachable]) (simp add: example_create)

theorem session_never_moves_back_witness:
  "\<exists>r' so'. Load example_env (exec example_env (CallTerminate ''s1'' ''customer_end'') example_disk) ''s1'' = Inr (r', so') \<and>
     RunnerSessionID r' = ''r1''"
  using session_never_moves_back [OF example_env_ok example_reachable
      runs_one [of _ "CallTerminate ''s1'' ''customer_end''"] example_load] by auto

theorem terminal_is_final_witness:
  "\<exists>r' so'. Load example_env (exec example_env (CallHeartbeat ''s1'' 20 5) ended_disk) ''s1'' = Inr (r', so') \<and>
     State r' = ''ended'' \<and> CloseReason r' = ''customer_end''"
proof -
  obtain r so where "Load example_env ended_disk ''s1'' = Inr (r, so)" "State r = ''ended''" "CloseReason r = ''customer_end''"
    using ended_load(2) by blast
  then show ?thesis
    using terminal_is_final [OF example_env_ok ended_load(1) runs_one [of _ "CallHeartbeat ''s1'' 20 5"], of "''s1''" r so] by auto
qed

theorem first_close_reason_wins_witness:
  "\<exists>r' so'. Load example_env (exec example_env (CallFail ''s1'' ''runner_failed'') stopping_disk) ''s1'' = Inr (r', so') \<and>
     (PendingCloseReason r' = ''customer_end'' \<or> CloseReason r' = ''customer_end'')"
proof -
  obtain r so where "Load example_env stopping_disk ''s1'' = Inr (r, so)" "Stopping r" "PendingCloseReason r = ''customer_end''"
    using stopping_load(2) by blast
  then show ?thesis
    using first_close_reason_wins [OF example_env_ok stopping_load(1) runs_one [of _ "CallFail ''s1'' ''runner_failed''"], of "''s1''" r so]
    by (auto split: if_splits)
qed

lemma empty_reachable: "reachable example_env empty_disk"
  by (simp add: reachable_def runs_refl)

theorem create_replays_witness:
  "\<exists>r'. CreateOrReplay example_env example_disk example_request example_response = (Inr (r', example_secrets, True), example_disk)"
  using create_replays [OF example_env_ok empty_reachable example_valid(3) example_create(1) example_env_ok same_keys_refl
      example_valid(2)] by auto

theorem fenced_create_never_succeeds_witness:
  "CreateOrReplay example_env (exec example_env (CallReconcile ''s1'') empty_disk) example_request example_response =
     (Inl ErrCreateFencedV1, exec example_env (CallReconcile ''s1'') empty_disk)"
proof -
  let ?d = "exec example_env (CallReconcile ''s1'') empty_disk"
  have o: "opaqueIDPattern ''s1''" by code_simp
  have "ReconcileCreate example_env empty_disk ''s1'' =
      (Inr \<lparr>ResSessionID = ''s1'', Outcome = ''fenced'', ResRunnerSessionID = []\<rparr>, ?d)"
    by (simp add: ReconcileCreate_def o example_missing Let_def)
  from fenced_create_never_succeeds [OF example_env_ok empty_reachable this _ runs_refl example_env_ok same_keys_refl _
      example_valid(1,2)]
  show ?thesis by (simp add: example_request_def)
qed

definition half_second :: FinalizedHLSSegmentV1 where
  "half_second = \<lparr>URI = ''a.ts'', DurationMicroseconds = 500000\<rparr>"

lemma half_second_metered:
  "meterSegmentsV1 example_env 0 [] False [half_second, half_second] = Inr (500000, [segment_id example_env half_second], True)"
proof -
  have "add64 0 (500000 :: u64) = (500000, 0)" by (simp add: add64_def Let_def)
  then show ?thesis by (simp add: half_second_def segment_id_def Let_def)
qed

theorem segments_metered_once_witness:
  "\<exists>r so r'. Load example_env started_disk ''s1'' = Inr (r, so) \<and>
     RecordFinalizedSegments_step example_env [half_second, half_second] 7 r so = Inr (False, Some r') \<and>
     unat (MeteredMicroseconds r') = 500000 \<and> UsageTotal r' = UsageTotal r"
proof -
  obtain r so where l: "Load example_env started_disk ''s1'' = Inr (r, so)" "State r = ''active''" "\<not> Stopping r"
      "LastSequence r = 1" "MeteredMicroseconds r = 0" "MeteredSegmentSHA256 r = []" "UsageTotal r = 0"
    using started_load(2) by blast
  let ?r' = "producingV1 (format_nano 7) 500000 [segment_id example_env half_second] r"
  have "(500000 :: u64) div 1000000 = 0" by simp
  then have st: "RecordFinalizedSegments_step example_env [half_second, half_second] 7 r so = Inr (False, Some ?r')"
    by (simp add: RecordFinalizedSegments_step_def not_active_def l half_second_metered producingV1_def Let_def
        del: meterSegmentsV1.simps)
  have "fresh_segments example_env [] [half_second, half_second] = [half_second]" by simp
  then show ?thesis
    using segments_metered_once [OF example_env_ok started_load(1) l(1) st] l st
    by (auto simp: half_second_def producingV1_def)
qed

theorem metering_idempotent_witness:
  "RecordFinalizedSegments example_env (exec example_env (CallSegments ''s1'' [half_second] 7) started_disk) ''s1'' [half_second, half_second] 9 =
     (Inr False, exec example_env (CallSegments ''s1'' [half_second] 7) started_disk)"
proof -
  obtain r so where l: "Load example_env started_disk ''s1'' = Inr (r, so)" "State r = ''active''" "\<not> Stopping r"
      "LastSequence r = 1" "MeteredMicroseconds r = 0" "MeteredSegmentSHA256 r = []" "UsageTotal r = 0"
    using started_load(2) by blast
  have "add64 0 (500000 :: u64) = (500000, 0)" by (simp add: add64_def Let_def)
  then have "meterSegmentsV1 example_env 0 [] False [half_second] = Inr (500000, [segment_id example_env half_second], True)"
    by (simp add: half_second_def segment_id_def Let_def)
  moreover have "(500000 :: u64) div 1000000 = 0" by simp
  ultimately have st: "RecordFinalizedSegments_step example_env [half_second] 7 r so =
      Inr (False, Some (producingV1 (format_nano 7) 500000 [segment_id example_env half_second] r))"
    by (simp add: RecordFinalizedSegments_step_def not_active_def l producingV1_def Let_def del: meterSegmentsV1.simps)
  have z: "(7 :: time) \<noteq> zero_time" "(9 :: time) \<noteq> zero_time" by (simp_all add: zero_time_def)
  have "fst (update_session example_env started_disk ''s1'' (RecordFinalizedSegments_step example_env [half_second] 7)) = Inr False"
    using l(1) st by (simp add: update_session_def Load_def saveLocked_def Let_def)
  then have "RecordFinalizedSegments example_env started_disk ''s1'' [half_second] 7 =
      (Inr False, exec example_env (CallSegments ''s1'' [half_second] 7) started_disk)"
    using z by (simp add: RecordFinalizedSegments_def prod_eq_iff)
  from metering_idempotent [OF example_env_ok started_load(1) example_io(1) this _ z(2)] show ?thesis by simp
qed

definition key_request :: StreamKeyIssueRequestV1 where
  "key_request = \<lparr>RequestID = ''k1'', Audience = ''gateway-relay''\<rparr>"

definition key_response :: StreamKeyIssueResponseV1 where
  "key_response = \<lparr>RespRequestID = ''k1'', StreamKey = ''r1?token=q'', KeyExpiresAt = Stamp 99\<rparr>"

lemma key_example_valid: "issue_admits key_request key_response"
  by code_simp

lemma key_issued_with:
  assumes adm: "issue_admits key_request p"
  obtains r where "fst (RecordKeyIssue example_env example_disk ''s1'' key_request p) = Inr (p, False)"
    "Load example_env (exec example_env (CallKeyIssue ''s1'' key_request p) example_disk) ''s1'' =
       Inr (r, Some (issuedSecrets example_env key_request p example_secrets))"
    "RunnerSessionID r = ''r1''" "State r = ''active''" "\<not> Stopping r" "PendingKeyActivationID r = []"
proof -
  let ?r = "example_record\<lparr>IntegritySHA256 := integrityV1 example_env example_record\<rparr>"
  let ?s = "issuedSecrets example_env key_request p example_secrets"
  obtain r' where seal: "sealLocked example_env ?r ?s = Inr r'"
    by (auto simp: sealLocked_def example_env_def)
  have sec: "KeyIssues example_secrets = []" "CurrentKeyID example_secrets = []" by (simp_all add: example_secrets_def)
  have st: "RecordKeyIssue_step example_env key_request p ?r (Some example_secrets) = Inr ((p, False), Some r')"
    using seal by (simp add: RecordKeyIssue_step_def not_active_def sec Let_def issuedSecrets_def)
  have op: "opened example_env example_record (Some example_secrets)"
    by (rule new_record_keeps(2) [OF example_env_ok example_valid example_secrets_def example_seal])
  then have "opened example_env ?r (Some example_secrets)" by simp
  then have v: "validateSessionSecretsV1 example_env ?r example_secrets = None" "utf8_secrets example_secrets"
    unfolding opened_def by (auto intro: openSecrets_Inr)
  have v': "validateSessionSecretsV1 example_env ?r ?s = None" "utf8_secrets ?s"
    using issued_validates [OF adm v(1), of ?r] issued_utf8 [OF adm v(2)] sec
    by (auto simp: same_identity_def)
  note opens = sealLocked_opens [OF example_env_ok v'(2,1) seal]
  have op': "opened example_env r' (Some ?s)"
    using opens v'(2) sealLocked_same(8) [OF seal] by (simp add: opened_def)
  have ok: "record_ok ?r" "opened example_env ?r (Some example_secrets)"
    using load_Inr [OF example_env_ok reachable_disk_ok [OF example_reachable] example_load [unfolded Load_def]] by blast+
  have r': "record_ok r'" "advances ?r r'"
    using RecordKeyIssue_keeps [OF example_env_ok ok adm st] by auto
  from load_after_update [where step = "RecordKeyIssue_step example_env key_request p",
      OF example_env_ok reachable_disk_ok [OF example_reachable] example_load st r' op']
  have "fst (RecordKeyIssue example_env example_disk ''s1'' key_request p) = Inr (p, False)"
    using adm by (auto simp: RecordKeyIssue_def issue_admits_def)
  moreover from load_after_update [where step = "RecordKeyIssue_step example_env key_request p",
      OF example_env_ok reachable_disk_ok [OF example_reachable] example_load st r' op']
  have "Load example_env (snd (update_session example_env example_disk ''s1'' (RecordKeyIssue_step example_env key_request p))) ''s1'' =
      Inr (r'\<lparr>IntegritySHA256 := integrityV1 example_env r'\<rparr>, Some ?s)" by auto
  moreover have "RunnerSessionID r' = ''r1''" "State r' = ''active''" "\<not> Stopping r'" "PendingKeyActivationID r' = []"
    using sealLocked_same [OF seal] by (simp_all add: same_identity_def)
  ultimately show ?thesis
    using that [of "r'\<lparr>IntegritySHA256 := integrityV1 example_env r'\<rparr>"] adm by (simp add: RecordKeyIssue_def issue_admits_def)
qed

lemma key_issued:
  obtains r where
    "Load example_env (exec example_env (CallKeyIssue ''s1'' key_request key_response) example_disk) ''s1'' =
       Inr (r, Some (issuedSecrets example_env key_request key_response example_secrets))"
    "RunnerSessionID r = ''r1''" "State r = ''active''" "\<not> Stopping r" "PendingKeyActivationID r = []"
  by (rule key_issued_with [OF key_example_valid]) blast



theorem recoverable_complete_witness:
  "\<exists>rs. Recoverable example_env example_disk = Inr rs \<and>
     example_record\<lparr>IntegritySHA256 := integrityV1 example_env example_record\<rparr> \<in> set rs"
  using recoverable_complete [OF example_env_ok example_reachable example_io(2)] example_load by fastforce

theorem retry_delay_bounded_witness:
  "0 < callbackRetryDelayV1 example_env ''r1:1'' 3 1000 3000 \<and> callbackRetryDelayV1 example_env ''r1:1'' 3 1000 3000 \<le> 3000"
  using retry_delay_bounded [of 1000 3000 3 example_env "''r1:1''"] by (simp add: Let_def)

theorem rejection_parked_witness:
  "\<exists>r so r'. Load example_env (exec example_env (CallReserve ''s1'' ''r1:1'' 8 5 9) started_disk) ''s1'' = Inr (r, so) \<and>
     ParkCallbackRejection_step ''r1:1'' 410 ''gone'' 9 r so = Inr ((), Some r') \<and>
     PendingEvents r' = [] \<and> unat (CallbackRejectedTotal r') = 1 \<and> length (CallbackDeadLetters r') = 1"
proof -
  let ?d = "exec example_env (CallReserve ''s1'' ''r1:1'' 8 5 9) started_disk"
  obtain r so where l: "Load example_env started_disk ''s1'' = Inr (r, so)" "PendingEvents r = [start_event]"
      "CallbackDelivery r = None" "CallbackRejectedTotal r = 0" "CallbackDeadLetters r = []"
    using started_load(2) by blast
  have z: "(8 :: time) \<noteq> zero_time" by (simp add: zero_time_def)
  obtain att where st: "ReserveCallbackAttempt_step example_env ''r1:1'' 8 5 9 r so = Inr (att, Some (r\<lparr>CallbackDelivery := Some att\<rparr>))"
    and att: "AttEventID att = ''r1:1''"
    using l by (auto simp: ReserveCallbackAttempt_step_def start_event_def Let_def)
  from example_step [where step = "ReserveCallbackAttempt_step example_env ''r1:1'' 8 5 9", OF started_load(1) l(1) st]
    reserve.step_keeps [OF example_env_ok _ _ _ st] z
  obtain so' where l': "Load example_env ?d ''s1'' = Inr ((r\<lparr>CallbackDelivery := Some att\<rparr>)
      \<lparr>IntegritySHA256 := integrityV1 example_env (r\<lparr>CallbackDelivery := Some att\<rparr>)\<rparr>, so')"
    by (auto simp: ReserveCallbackAttempt_def)
  let ?r = "(r\<lparr>CallbackDelivery := Some att\<rparr>)\<lparr>IntegritySHA256 := integrityV1 example_env (r\<lparr>CallbackDelivery := Some att\<rparr>)\<rparr>"
  have reach: "reachable example_env ?d" by (rule reachable_call [OF started_load(1)]) simp
  have f: "validCallbackFailureV1 410 ''gone'' False" by code_simp
  have m: "(0 :: u64) \<noteq> max_u64" by (simp add: max_u64_def)
  obtain r' where p: "ParkCallbackRejection_step ''r1:1'' 410 ''gone'' 9 ?r so' = Inr ((), Some r')"
    and n: "length (CallbackDeadLetters r') = 1"
    using l m by (auto simp: ParkCallbackRejection_step_def att start_event_def Let_def length_keep_last maxCallbackDeadLettersV1_def)
  from rejection_parked [OF example_env_ok reach l' f p] l l' p n show ?thesis
    by (intro exI [of _ ?r] exI [of _ so'] exI [of _ r']) auto
qed

end
