(* ===== verification/Session_Credentials.thy ===== *)
theory Session_Credentials
  imports Session_Properties
begin

section \<open>Credentials outlive the outbox\<close>

text \<open>
  An event can only be delivered with the callback token in the sealed secrets of its session.
  The checks of a record do not say that a record with pending events still has its secrets; the
  methods of the store keep it so.  They also keep a dead letter as long as rejections are counted.
  The locale \<open>credential_op\<close> extends the contract of a
  method by this promise, and every method is interpreted.
\<close>

definition creds_ok :: "SessionRecordV1 \<Rightarrow> bool" where
  "creds_ok r \<longleftrightarrow>
     (PendingEvents r \<noteq> [] \<longrightarrow> WrappedKeyCiphertext r \<noteq> []) \<and>
     (CallbackRejectedTotal r \<noteq> 0 \<longrightarrow> CallbackDeadLetters r \<noteq> [])"

definition disk_creds :: "disk \<Rightarrow> bool" where
  "disk_creds d \<longleftrightarrow> (\<forall>sid r. map_of (Files d) sid = Some (FRecord r) \<longrightarrow> creds_ok r)"

lemma active_has_secrets: "record_ok r \<Longrightarrow> State r = ''active'' \<Longrightarrow> WrappedKeyCiphertext r \<noteq> []"
  by (auto simp: record_ok_iff envelope_ok_def)

lemma disk_creds_save: "disk_creds d \<Longrightarrow> creds_ok r \<Longrightarrow> disk_creds (snd (saveLocked E d r))"
  using saveLocked_disk [of E d r] by (auto simp: disk_creds_def creds_ok_def split: if_splits)

locale credential_op = session_op +
  assumes keeps_creds:
    "crypto_ok E \<Longrightarrow> record_ok r \<Longrightarrow> opened E r so \<Longrightarrow> admits r \<Longrightarrow> creds_ok r \<Longrightarrow> step r so = Inr (a, Some r') \<Longrightarrow> creds_ok r'"
begin

lemma update_creds:
  assumes E: "crypto_ok E" and d: "disk_ok E d" and c: "disk_creds d"
    and adm: "\<forall>r so. loadLocked E d sid = Inr (r, so) \<longrightarrow> admits r"
  shows "disk_creds (snd (update_session E d sid step))"
proof (cases "\<exists>r so a r'. loadLocked E d sid = Inr (r, so) \<and> step r so = Inr (a, Some r')")
  case True
  then obtain r so a r' where l: "loadLocked E d sid = Inr (r, so)" and st: "step r so = Inr (a, Some r')" by blast
  note r = load_Inr [OF E d l]
  have "creds_ok r" using c r by (auto simp: disk_creds_def)
  then have "creds_ok r'" using keeps_creds [OF E _ _ _ _ st] r adm l by blast
  then show ?thesis using disk_creds_save [OF c]
    by (simp add: update_session_def l st split: prod.splits option.splits) (metis snd_conv)
next
  case False
  then have "snd (update_session E d sid step) = d"
    by (auto simp: update_session_def split: sum.splits option.splits prod.splits)
  then show ?thesis using c by simp
qed

end

text \<open>Dead letters are dropped only for newer ones, and the count moves only with them.\<close>

definition letters_stay :: "SessionRecordV1 \<Rightarrow> SessionRecordV1 \<Rightarrow> bool" where
  "letters_stay r r' \<longleftrightarrow>
     (CallbackDeadLetters r' = [] \<longrightarrow> CallbackDeadLetters r = [] \<and> CallbackRejectedTotal r' = CallbackRejectedTotal r)"

lemma stalled_letters: "recordOutputStalledLockedV1 r t = Inr r' \<Longrightarrow> letters_stay r r'"
  by (auto simp: recordOutputStalledLockedV1_def letters_stay_def appendEventV1_def Let_def split: if_splits option.splits)

lemma publisher_letters:
  "publisherDeadlineV1 t w g r = Inr (r', ch) \<Longrightarrow> CallbackDeadLetters r' = CallbackDeadLetters r \<and> CallbackRejectedTotal r' = CallbackRejectedTotal r"
  by (auto simp: publisherDeadlineV1_def Let_def split: if_splits option.splits)

lemma letters_kept:
  "RecordHeartbeat_step t i r so = Inr (u, Some r') \<Longrightarrow> letters_stay r r'"
  "RecordFinalizedSegments_step E segs t r so = Inr (u, Some r') \<Longrightarrow> letters_stay r r'"
  "RecordIngestPresence_step online t r so = Inr (v, Some r') \<Longrightarrow> letters_stay r r'"
  "RecordLadderRestart_step code t w r so = Inr (n, Some r') \<Longrightarrow> letters_stay r r'"
  "beginTerminalV1_step reason terminal r so = Inr (q, Some r') \<Longrightarrow> letters_stay r r'"
  "CompleteKeyActivation_step x r so = Inr (v, Some r') \<Longrightarrow> letters_stay r r'"
  "Advance_step e r so = Inr (v, Some r') \<Longrightarrow> letters_stay r r'"
  "AcknowledgeEvent_step x r so = Inr (v, Some r') \<Longrightarrow> letters_stay r r'"
  "ReserveCallbackAttempt_step E x t i m r so = Inr (z, Some r') \<Longrightarrow> letters_stay r r'"
  "RecordCallbackRetryFailure_step x c y r so = Inr (v, Some r') \<Longrightarrow> letters_stay r r'"
  by (auto simp: RecordHeartbeat_step_def RecordFinalizedSegments_step_def RecordIngestPresence_step_def RecordLadderRestart_step_def
      ladderWindowV1_def beginTerminalV1_step_def CompleteKeyActivation_step_def Advance_step_def AcknowledgeEvent_step_def
      ReserveCallbackAttempt_step_def RecordCallbackRetryFailure_step_def letters_stay_def producingV1_def appendEventV1_def Let_def
      split: if_splits option.splits sum.splits prod.splits list.splits)

lemma letters_kept_absent: "ExpireAbsentPublisher_step t w g r so = Inr (u, Some r') \<Longrightarrow> letters_stay r r'"
  by (auto simp: ExpireAbsentPublisher_step_def letters_stay_def split: if_splits sum.splits option.splits dest!: publisher_letters)

lemma letters_kept_health:
  "EvaluateOutputHealth_step t s f r so = Inr (b, Some r') \<Longrightarrow> letters_stay r r'"
  "RecordOutputStalled_step t r so = Inr (u, Some r') \<Longrightarrow> letters_stay r r'"
  by (auto simp: EvaluateOutputHealth_step_def RecordOutputStalled_step_def Let_def split: if_splits sum.splits dest: stalled_letters)

lemma letters_kept_park: "ParkCallbackRejection_step x c m t r so = Inr (u, Some r') \<Longrightarrow> letters_stay r r'"
  by (auto simp: ParkCallbackRejection_step_def letters_stay_def keep_last_def maxCallbackDeadLettersV1_def Let_def
      split: if_splits list.splits option.splits)

context plain_op
begin

text \<open>A plain method keeps the promise when only an active session gets a first pending event.\<close>

lemma plain_credential_op:
  assumes "\<And>r so a r'. step r so = Inr (a, Some r') \<Longrightarrow> letters_stay r r'"
    and "\<And>r so a r'. step r so = Inr (a, Some r') \<Longrightarrow> PendingEvents r' \<noteq> [] \<Longrightarrow> PendingEvents r \<noteq> [] \<or> State r = ''active''"
  shows "credential_op E admits step"
proof
  fix r so a r'
  assume a: "crypto_ok E" "record_ok r" "opened E r so" "admits r" "creds_ok r" "step r so = Inr (a, Some r')"
  then have "same_envelope r r'" using plain_keeps by blast
  then show "creds_ok r'"
    using assms [OF a(6)] a(2,5) active_has_secrets by (auto simp: creds_ok_def same_envelope_def letters_stay_def)
qed

end

interpretation c_heartbeat: credential_op E "\<lambda>_. True" "RecordHeartbeat_step t i" for E t i
  by (rule heartbeat.plain_credential_op, erule letters_kept(1))
    (auto simp: RecordHeartbeat_step_def not_active_def Let_def split: if_splits option.splits stamp.splits)

interpretation c_segments: credential_op E "\<lambda>_. True" "RecordFinalizedSegments_step E segs t" for E segs t
  by (rule segments.plain_credential_op, erule letters_kept(2)) (auto simp: RecordFinalizedSegments_step_def not_active_def split: if_splits)

interpretation c_presence: credential_op E "\<lambda>_. True" "RecordIngestPresence_step online t" for E online t
  by (rule presence.plain_credential_op, erule letters_kept(3)) (auto simp: RecordIngestPresence_step_def not_active_def Let_def split: if_splits)

interpretation c_absent: credential_op E "\<lambda>_. True" "ExpireAbsentPublisher_step t w g" for E t w g
  by (rule absent.plain_credential_op, erule letters_kept_absent) (auto simp: ExpireAbsentPublisher_step_def not_active_def split: if_splits)

interpretation c_ladder: credential_op E "\<lambda>_. validLadderFailureCodeV1 code False" "RecordLadderRestart_step code t w"
  for E code t w
  by (rule ladder.plain_credential_op, erule letters_kept(4)) (auto simp: RecordLadderRestart_step_def not_active_def split: if_splits)

interpretation c_health: credential_op E "\<lambda>_. True" "EvaluateOutputHealth_step t s f" for E t s f
  by (rule health.plain_credential_op, erule letters_kept_health(1)) (auto simp: EvaluateOutputHealth_step_def not_active_def split: if_splits)

interpretation c_stalled: credential_op E "\<lambda>_. True" "RecordOutputStalled_step t" for E t
  by (rule stalled.plain_credential_op, erule letters_kept_health(2)) (auto simp: RecordOutputStalled_step_def not_active_def split: if_splits)

interpretation c_begin_terminal: credential_op E
    "\<lambda>_. validCloseReasonV1 reason \<and> (terminal = ''ended'' \<or> terminal = ''failed'')"
    "beginTerminalV1_step reason terminal" for E reason terminal
  by (rule begin_terminal.plain_credential_op, erule letters_kept(5)) (auto simp: beginTerminalV1_step_def split: if_splits)

interpretation c_activation: credential_op E "\<lambda>_. True" "CompleteKeyActivation_step q" for E q
  by (rule activation.plain_credential_op, erule letters_kept(6))
    (auto simp: CompleteKeyActivation_step_def not_active_def split: if_splits option.splits)

interpretation c_ack: credential_op E "\<lambda>_. True" "AcknowledgeEvent_step q" for E q
  by (rule ack.plain_credential_op, erule letters_kept(8)) (auto simp: AcknowledgeEvent_step_def split: if_splits list.splits)

interpretation c_reserve: credential_op E "\<lambda>_. 0 < i \<and> i \<le> m" "ReserveCallbackAttempt_step E q t i m" for E q t i m
  by (rule reserve.plain_credential_op, erule letters_kept(9)) (auto simp: ReserveCallbackAttempt_step_def split: if_splits list.splits)

interpretation c_retry: credential_op E "\<lambda>_. validCallbackFailureV1 c m True" "RecordCallbackRetryFailure_step q c m"
  for E q c m
  by (rule retry.plain_credential_op, erule letters_kept(10))
    (auto simp: RecordCallbackRetryFailure_step_def split: if_splits list.splits option.splits)

interpretation c_park: credential_op E "\<lambda>_. validCallbackFailureV1 c m False" "ParkCallbackRejection_step q c m t"
  for E q c m t
  by (rule park.plain_credential_op, erule letters_kept_park) (auto simp: ParkCallbackRejection_step_def split: if_splits list.splits option.splits)

interpretation c_advance: credential_op E "advance_admits e" "Advance_step e" for E e
  by (rule advance.plain_credential_op, erule letters_kept(7)) (auto simp: Advance_step_def split: if_splits)

interpretation c_clear: credential_op E "\<lambda>_. True" ClearTerminalSecrets_step for E
  by unfold_locales (auto simp: ClearTerminalSecrets_step_def creds_ok_def split: if_splits)

text \<open>A new key seals the secrets of an active session again.\<close>

lemma RecordKeyIssue_creds:
  assumes E: "crypto_ok E" and r: "record_ok r" "opened E r so" and adm: "issue_admits q p"
    and st: "RecordKeyIssue_step E q p r so = Inr (a, Some r')" and c: "creds_ok r"
  shows "creds_ok r'"
proof -
  have "State r = ''active''"
    using st by (auto simp: RecordKeyIssue_step_def not_active_def split: option.splits if_splits)
  moreover have "State r' = State r" "CallbackDeadLetters r' = CallbackDeadLetters r" "CallbackRejectedTotal r' = CallbackRejectedTotal r"
    using st by (auto simp: RecordKeyIssue_step_def Let_def sealLocked_def split: option.splits if_splits sum.splits)
  ultimately show ?thesis
    using active_has_secrets key_issue.step_keeps [OF E r adm st] c by (auto simp: creds_ok_def)
qed

interpretation c_key_issue: credential_op E "\<lambda>_. issue_admits q p" "RecordKeyIssue_step E q p" for E q p
  by unfold_locales (rule RecordKeyIssue_creds)

lemma CreateOrReplay_creds:
  assumes c: "disk_creds d"
  shows "disk_creds (snd (CreateOrReplay E d q p))"
proof (rule CreateOrReplay_cases [of E d q p])
  fix e r s
  assume seal: "sealLocked E (newSessionRecordV1 E q p (hd (Grants (Runtime p)))) s = Inr r"
    and v: "CreateOrReplay E d q p = (case saveLocked E d r of (Some e', d') \<Rightarrow> (Inl e', d') | (None, d') \<Rightarrow> (Inr (r, s, False), d'))"
  have "PendingEvents r = []" "CallbackRejectedTotal r = 0"
    using seal by (auto simp: sealLocked_def newSessionRecordV1_def split: option.splits)
  then have "disk_creds (snd (saveLocked E d r))" using disk_creds_save [OF c] by (simp add: creds_ok_def)
  then show ?thesis by (cases "saveLocked E d r") (simp add: v split: option.splits)
qed (use c in simp)

lemma exec_creds:
  assumes E: "crypto_ok E" and d: "disk_ok E d" and adm: "admissible E d c" and cr: "disk_creds d"
  shows "disk_creds (exec E c d)"
proof (cases c)
  case (CallCreate q p)
  then show ?thesis using CreateOrReplay_creds [OF cr] by simp
next
  case (CallReconcile sid)
  then show ?thesis using cr by (simp add: disk_creds_def ReconcileCreate_files)
next
  case (CallKeyIssue sid q p)
  then show ?thesis using c_key_issue.update_creds [OF E d cr, of sid q p] cr adm
    by (auto simp: RecordKeyIssue_def issue_admits_def split: option.splits)
next
  case (CallAdvance sid e)
  then have "\<forall>r so. loadLocked E d sid = Inr (r, so) \<longrightarrow> advance_admits e r" using adm by auto
  from c_advance.update_creds [OF E d cr this] show ?thesis by (simp add: CallAdvance Advance_def)
qed (use cr c_segments.update_creds [OF E d cr] c_heartbeat.update_creds [OF E d cr] c_presence.update_creds [OF E d cr]
    c_absent.update_creds [OF E d cr] c_ladder.update_creds [OF E d cr] c_health.update_creds [OF E d cr]
    c_stalled.update_creds [OF E d cr] c_begin_terminal.update_creds [OF E d cr] c_activation.update_creds [OF E d cr]
    c_ack.update_creds [OF E d cr] c_reserve.update_creds [OF E d cr] c_retry.update_creds [OF E d cr]
    c_park.update_creds [OF E d cr] c_clear.update_creds [OF E d cr] in
    \<open>simp_all add: call_defs\<close>)

lemma runs_creds:
  assumes "runs K a d" and "disk_ok K a" and "disk_creds a"
  shows "disk_creds d"
  using assms
proof (induction rule: runs.induct)
  case (runs_call a d E c)
  then have "disk_ok E d" using runs_keeps same_keys_disk_ok by blast
  then show ?case using exec_creds runs_call by blast
qed simp

lemma reachable_creds: "reachable K d \<Longrightarrow> disk_creds d"
  using runs_creds [of K empty_disk d] by (simp add: reachable_def) (simp add: disk_creds_def empty_disk_def)

text \<open>
  Every undelivered event can be delivered: in a reachable store a session with pending events
  still has its secrets, and they hold a callback address that parses and a token.
\<close>

theorem pending_events_have_credentials:
  assumes K: "crypto_ok K" and d: "reachable K d" and l: "Load K d sid = Inr (r, so)" and pe: "PendingEvents r \<noteq> []"
  shows "\<exists>s. so = Some s \<and> url_parse (CallbackURL (CreateRequest s)) \<noteq> None \<and> CallbackToken (CreateRequest s) \<noteq> []"
proof -
  have r: "map_of (Files d) sid = Some (FRecord r)" "opened K r so"
    using load_Inr [OF K reachable_disk_ok [OF d]] l by (auto simp: Load_def)
  then have "WrappedKeyCiphertext r \<noteq> []" using reachable_creds [OF d] pe by (auto simp: disk_creds_def creds_ok_def)
  then obtain s where s: "so = Some s" "openSecretsV1 K r (BrokerSessionID r) = Inr s"
    using r(2) by (auto simp: opened_def split: option.splits)
  then have "ValidateCreateRequestV1 (CreateRequest s) = None"
    using openSecrets_Inr validateSessionSecrets_iff by blast
  with s show ?thesis
    by (auto simp: ValidateCreateRequestV1_def validateHTTPURL_def validateURLScheme_def Let_def split: if_splits option.splits)
qed

end
