(* ===== verification/Store_Client.thy ===== *)
theory Store_Client
  imports Session_Credentials
begin

section \<open>A goroutine that uses the store\<close>

text \<open>
  The store is shared by all goroutines of the runner; each call takes its lock.  A component that
  calls it sees a directory that the others may have moved since its last call.  The record
  \<open>setting\<close> says what a component meets: the environment of its n-th call (clock,
  randomness, outcome of a save) and what the others do to the directory before it.  The record
  \<open>client\<close> is the state of such a component as far as the store is concerned; components
  extend both records.

  \<open>friendly\<close> settings are those in which the others only make calls of the store;
  \<open>calm\<close> ones are those without others and with saves that succeed.
\<close>

record setting =
  env_of :: "nat \<Rightarrow> env"
  between :: "nat \<Rightarrow> disk \<Rightarrow> disk"

record client =
  store :: disk
  accesses :: nat

text \<open>One access to the store: the others come first, then the method runs.\<close>

definition reach_store :: "'a setting_scheme \<Rightarrow> 'b client_scheme \<Rightarrow> env \<times> 'b client_scheme" where
  "reach_store W w =
     (env_of W (accesses w),
      w\<lparr>store := between W (accesses w) (store w), accesses := Suc (accesses w)\<rparr>)"

definition store_call_of ::
    "'a setting_scheme \<Rightarrow> 'b client_scheme \<Rightarrow> (env \<Rightarrow> disk \<Rightarrow> 'c result \<times> disk) \<Rightarrow> 'c result \<times> 'b client_scheme" where
  "store_call_of W w f =
     (let (E, w1) = reach_store W w; (res, d) = f E (store w1) in (res, w1\<lparr>store := d\<rparr>))"

subsection \<open>Successful plain calls\<close>

lemma same_keys_load: "same_keys K E \<Longrightarrow> Load E = Load K"
proof -
  assume k: "same_keys K E"
  have v: "verifyIntegrityV1 E = verifyIntegrityV1 K"
    unfolding verifyIntegrityV1_def [abs_def] same_keys_open(1) [OF k] ..
  have l: "loadRecordV1 E = loadRecordV1 K"
    unfolding loadRecordV1_def [abs_def] v same_keys_open(2) [OF k] ..
  show ?thesis unfolding Load_def [abs_def] loadLocked_def [abs_def] l ..
qed

context plain_op
begin

lemma plain_opened:
  assumes "crypto_ok E" and "record_ok r" and "opened E r so" and "admits r" and "step r so = Inr (a, Some r')"
  shows "record_ok r' \<and> advances r r' \<and> opened E r' so"
proof -
  have r': "record_ok r'" "advances r r'" "same_envelope r r'" using plain_keeps assms by blast+
  then show ?thesis
    using assms(3) openSecrets_cong [of E r "BrokerSessionID r" _ r']
    by (auto simp: opened_def advances_def same_envelope_def same_identity_def split: option.splits)
qed

lemma plain_done:
  assumes E: "crypto_ok E" and d: "disk_ok E d" and u: "update_session E d sid step = (Inr a, d')"
    and adm: "\<forall>r. admits r" and writes: "\<And>r so a. step r so \<noteq> Inr (a, None)"
  obtains r so r' where "Load E d sid = Inr (r, so)" "record_ok r" "opened E r so" "step r so = Inr (a, Some r')"
    "Load E d' sid = Inr (r'\<lparr>IntegritySHA256 := integrityV1 E r'\<rparr>, so)"
proof -
  obtain r so where l: "Load E d sid = Inr (r, so)"
    using u by (auto simp: update_session_def Load_def split: sum.splits)
  then have r: "record_ok r" "opened E r so" using load_Inr [OF E d] by (auto simp: Load_def)
  obtain r' where st: "step r so = Inr (a, Some r')" and io: "save_io E = SaveOK"
    using u l writes [of r so]
    by (auto simp: update_session_def Load_def saveLocked_def Let_def
        split: sum.splits option.splits prod.splits save_outcome.splits)
  note r' = plain_opened [OF E r _ st]
  have "Load E d' sid = Inr (r'\<lparr>IntegritySHA256 := integrityV1 E r'\<rparr>, so)"
    using load_after_update [where step = step, OF E d l st _ _ _ io] r' adm u by auto
  with l r st show ?thesis using that by blast
qed

lemma plain_succeeds:
  assumes E: "crypto_ok E" and d: "disk_ok E d" and io: "save_io E = SaveOK"
    and l: "Load E d sid = Inr (r, so)" and adm: "\<forall>r. admits r" and st: "step r so = Inr (a, Some r')"
  shows "\<exists>d'. update_session E d sid step = (Inr a, d') \<and> disk_ok E d' \<and>
    Load E d' sid = Inr (r'\<lparr>IntegritySHA256 := integrityV1 E r'\<rparr>, so) \<and>
    (\<forall>x. x \<noteq> sid \<longrightarrow> map_of (Files d') x = map_of (Files d) x)"
proof -
  have r: "record_ok r" "opened E r so" using load_Inr [OF E d] l by (auto simp: Load_def)
  obtain d' where "update_session E d sid step = (Inr a, d')" "disk_ok E d'"
      "Load E d' sid = Inr (r'\<lparr>IntegritySHA256 := integrityV1 E r'\<rparr>, so)"
    using load_after_update [where step = step, OF E d l st _ _ _ io] plain_opened [OF E r _ st] adm by blast
  then show ?thesis using update_frame(1) [OF E d, of sid] adm by auto
qed

end

subsection \<open>Among other goroutines\<close>

definition friendly :: "env \<Rightarrow> 'a setting_scheme \<Rightarrow> bool" where
  "friendly K W \<longleftrightarrow>
     (\<forall>n. same_keys K (env_of W n) \<and> crypto_ok (env_of W n) \<and> (\<forall>d. runs K d (between W n d)))"

lemma friendlyD:
  assumes "friendly K W"
  shows "same_keys K (env_of W n)" "crypto_ok (env_of W n)" "runs K d (between W n d)" "Load (env_of W n) = Load K"
    "disk_ok (env_of W n) d = disk_ok K d"
  using assms by (auto simp: friendly_def same_keys_load same_keys_disk_ok)

lemma reach_store_runs:
  assumes "friendly K W" and "reach_store W w = (E, w')"
  shows "runs K (store w) (store w')" "E = env_of W (accesses w)"
  using assms by (auto simp: reach_store_def friendly_def)

lemma store_call_runs:
  assumes F: "friendly K W" and call: "store_call_of W w f = (res, w')"
    and ex: "\<And>E d. snd (f E d) = exec E c d" and adm: "\<And>E d. admissible E d c"
  shows "runs K (store w) (store w')"
proof -
  let ?d = "between W (accesses w) (store w)" and ?E = "env_of W (accesses w)"
  have "runs K (store w) (exec ?E c ?d)"
    by (rule runs_call) (use F adm in \<open>auto simp: friendly_def\<close>)
  moreover have "store w' = exec ?E c ?d"
    using call ex [of ?E ?d] by (auto simp: store_call_of_def reach_store_def Let_def split: prod.splits)
  ultimately show ?thesis by simp
qed

text \<open>
  The part of a move of the store that the last access made: between some directory that the
  worker and the others reached and the final one, the record of the session changed by \<open>P\<close>.
\<close>

definition last_move :: "env \<Rightarrow> string \<Rightarrow> 'b client_scheme \<Rightarrow> 'b client_scheme \<Rightarrow> (SessionRecordV1 \<Rightarrow> SessionRecordV1 \<Rightarrow> bool) \<Rightarrow> bool" where
  "last_move K sid w w' P \<longleftrightarrow>
     (\<exists>d r so r'. runs K (store w) d \<and> Load K d sid = Inr (r, so) \<and> Load K (store w') sid = Inr (r', so) \<and> P r r')"

lemma last_move_earlier: "runs K (store u) (store w) \<Longrightarrow> last_move K sid w w' P \<Longrightarrow> last_move K sid u w' P"
  unfolding last_move_def using runs_trans by blast

lemma store_call_move:
  assumes F: "friendly K W" and d: "disk_ok K (store w)"
    and call: "store_call_of W w f = (Inr a, w')"
    and p: "plain_op (env_of W (accesses w)) admits step" and adm: "\<forall>r. admits r"
    and u: "\<And>d res d'. f (env_of W (accesses w)) d = (Inr a, d') \<Longrightarrow>
        update_session (env_of W (accesses w)) d sid step = (Inr a, d')"
    and writes: "\<And>r so a. step r so \<noteq> Inr (a, None)"
    and P: "\<And>r so r' x. step r so = Inr (a, Some r') \<Longrightarrow> P r (r'\<lparr>IntegritySHA256 := x\<rparr>)"
  shows "last_move K sid w w' P"
proof -
  let ?E = "env_of W (accesses w)" and ?d = "between W (accesses w) (store w)"
  have runs: "runs K (store w) ?d" using F by (simp add: friendlyD)
  then have dd: "disk_ok ?E ?d" using runs_keeps [OF _ d] friendlyD(5) [OF F] by blast
  have "update_session ?E ?d sid step = (Inr a, store w')"
    using call u by (auto simp: store_call_of_def reach_store_def Let_def split: prod.splits)
  from plain_op.plain_done [OF p friendlyD(2) [OF F] dd this adm writes]
  obtain r so r' where "Load K ?d sid = Inr (r, so)" "step r so = Inr (a, Some r')"
      "Load K (store w') sid = Inr (r'\<lparr>IntegritySHA256 := integrityV1 ?E r'\<rparr>, so)"
    unfolding friendlyD(4) [OF F] by blast
  then show ?thesis using runs P unfolding last_move_def by blast
qed

subsection \<open>Alone with the store\<close>

definition calm :: "env \<Rightarrow> 'a setting_scheme \<Rightarrow> bool" where
  "calm K W \<longleftrightarrow>
     (\<forall>n. same_keys K (env_of W n) \<and> crypto_ok (env_of W n) \<and> save_io (env_of W n) = SaveOK \<and>
        read_dir_ok (env_of W n) \<and> time_now (env_of W n) \<noteq> zero_time \<and> (\<forall>d. between W n d = d))"

lemma calm_friendly: "calm K W \<Longrightarrow> friendly K W"
  by (simp add: calm_def friendly_def runs_refl)

lemma calmD:
  assumes "calm K W"
  shows "save_io (env_of W n) = SaveOK" "read_dir_ok (env_of W n)" "time_now (env_of W n) \<noteq> zero_time"
    "between W n d = d"
  using assms by (auto simp: calm_def)

lemma reach_store_calm:
  assumes "calm K W"
  shows "reach_store W w = (env_of W (accesses w), w\<lparr>accesses := Suc (accesses w)\<rparr>)"
  using calmD(4) [OF assms] by (simp add: reach_store_def)

definition only_session :: "string \<Rightarrow> 'b client_scheme \<Rightarrow> 'b client_scheme \<Rightarrow> bool" where
  "only_session sid w w' \<longleftrightarrow> (\<forall>x. x \<noteq> sid \<longrightarrow> map_of (Files (store w')) x = map_of (Files (store w)) x)"

lemma only_session_trans: "only_session sid w w1 \<Longrightarrow> only_session sid w1 w2 \<Longrightarrow> only_session sid w w2"
  by (simp add: only_session_def)

lemma only_session_simps [simp]:
  "only_session sid w (v\<lparr>accesses := n\<rparr>) = only_session sid w v"
  "only_session sid w w"
  by (simp_all add: only_session_def)

lemma load_frame: "map_of (Files d') x = map_of (Files d) x \<Longrightarrow> Load K d' x = Load K d x"
  by (simp add: Load_def loadLocked_def)

text \<open>A store call whose decision is known, in calm settings.\<close>

lemma calm_call:
  assumes Q: "calm K W" and d: "disk_ok K (store w)" and l: "Load K (store w) sid = Inr (r, so)"
    and p: "plain_op (env_of W (accesses w)) admits step" and adm: "\<forall>r. admits r"
    and f: "\<And>d. f (env_of W (accesses w)) d = update_session (env_of W (accesses w)) d sid step"
    and st: "step r so = Inr (a, Some r')"
  shows "\<exists>d'. store_call_of W w f = (Inr a, w\<lparr>accesses := Suc (accesses w), store := d'\<rparr>) \<and> disk_ok K d' \<and>
    only_session sid w (w\<lparr>store := d'\<rparr>) \<and> (\<exists>x. Load K d' sid = Inr (r'\<lparr>IntegritySHA256 := x\<rparr>, so))"
proof -
  let ?E = "env_of W (accesses w)"
  note F = friendlyD [OF calm_friendly [OF Q]]
  have dd: "disk_ok ?E (store w)" and ll: "Load ?E (store w) sid = Inr (r, so)"
    using d l by (simp_all add: F)
  from plain_op.plain_succeeds [OF p F(2) dd calmD(1) [OF Q] ll adm st]
  obtain d' where "update_session ?E (store w) sid step = (Inr a, d')" "disk_ok ?E d'"
      "Load ?E d' sid = Inr (r'\<lparr>IntegritySHA256 := integrityV1 ?E r'\<rparr>, so)"
      "\<forall>x. x \<noteq> sid \<longrightarrow> map_of (Files d') x = map_of (Files (store w)) x" by blast
  then show ?thesis
    by (intro exI [of _ d']) (auto simp: store_call_of_def reach_store_def Let_def f calmD(4) [OF Q] F only_session_def)
qed

end
