(* ===== verification/Go_Json.thy ===== *)
theory Go_Json
  imports Go_Library
begin

section \<open>Reading JSON\<close>

text \<open>
  \<open>json.Unmarshal\<close> as the runners use it: the scanner of \<open>encoding/json\<close> (white
  space, literals, numbers, strings with their escapes, arrays, objects, nothing after the value)
  and the replacement of bytes that are not UTF-8 and of lone surrogates by U+FFFD.  The nesting
  limit of 10000 is \<open>json_depth\<close>, for the callers that read more than 4096 bytes.  The parser takes fuel;
  \<open>json_parse\<close> starts it with twice the length of the text, and \<open>json_value_fuel\<close>
  shows that more never changes the answer.
\<close>

subsection \<open>Strings\<close>

definition byte_in :: "nat \<Rightarrow> nat \<Rightarrow> char \<Rightarrow> bool" where
  "byte_in a b c \<longleftrightarrow> a \<le> of_char c \<and> of_char c \<le> b"

text \<open>The length of the UTF-8 sequence a text starts with, 0 when it is not one.\<close>

fun utf8_len :: "string \<Rightarrow> nat" where
  "utf8_len [] = 0"
| "utf8_len (a # cs) =
     (if byte_in 0 127 a then 1
      else (case cs of
        [] \<Rightarrow> 0
      | b # cs' \<Rightarrow>
          if byte_in 194 223 a \<and> byte_in 128 191 b then 2
          else (case cs' of
            [] \<Rightarrow> 0
          | c # cs'' \<Rightarrow>
              if ((byte_in 225 236 a \<or> byte_in 238 239 a) \<and> byte_in 128 191 b
                  \<or> byte_in 224 224 a \<and> byte_in 160 191 b \<or> byte_in 237 237 a \<and> byte_in 128 159 b)
                 \<and> byte_in 128 191 c then 3
              else (case cs'' of
                [] \<Rightarrow> 0
              | d # _ \<Rightarrow>
                  if (byte_in 241 243 a \<and> byte_in 128 191 b \<or> byte_in 240 240 a \<and> byte_in 144 191 b
                      \<or> byte_in 244 244 a \<and> byte_in 128 143 b)
                     \<and> byte_in 128 191 c \<and> byte_in 128 191 d then 4
                  else 0))))"

definition utf8_encode :: "nat \<Rightarrow> string" where
  "utf8_encode v =
     (if v < 128 then [char_of v]
      else if v < 2048 then [char_of (192 + v div 64), char_of (128 + v mod 64)]
      else if v < 65536
      then [char_of (224 + v div 4096), char_of (128 + v div 64 mod 64), char_of (128 + v mod 64)]
      else [char_of (240 + v div 262144), char_of (128 + v div 4096 mod 64),
            char_of (128 + v div 64 mod 64), char_of (128 + v mod 64)])"

definition replacement :: string where "replacement = utf8_encode 65533"

definition quote_char :: char where "quote_char = char_of (34::nat)"
definition backslash :: char where "backslash = char_of (92::nat)"

fun hex4 :: "string \<Rightarrow> (nat \<times> string) option" where
  "hex4 (a # b # c # d # rest) =
     (case (hex_val a, hex_val b, hex_val c, hex_val d) of
        (Some w, Some x, Some y, Some z) \<Rightarrow> Some (((w * 16 + x) * 16 + y) * 16 + z, rest)
      | _ \<Rightarrow> None)"
| "hex4 _ = None"

definition is_surrogate :: "nat \<Rightarrow> bool" where
  "is_surrogate v \<longleftrightarrow> 55296 \<le> v \<and> v < 57344"

text \<open>The code point and the rest after the four digits of \<open>\u\<close>; a pair of surrogates is one.\<close>

definition unicode_escape :: "string \<Rightarrow> (string \<times> string) option" where
  "unicode_escape s =
     (case hex4 s of
        None \<Rightarrow> None
      | Some (v, rest) \<Rightarrow>
          if \<not> is_surrogate v then Some (utf8_encode v, rest)
          else (case rest of
                  b # u # tail \<Rightarrow>
                    (if b = backslash \<and> u = CHR ''u'' then
                       (case hex4 tail of
                          Some (w, rest') \<Rightarrow>
                            if v < 56320 \<and> 56320 \<le> w \<and> w < 57344
                            then Some (utf8_encode (65536 + (v - 55296) * 1024 + (w - 56320)), rest')
                            else Some (replacement, rest)
                        | None \<Rightarrow> Some (replacement, rest))
                     else Some (replacement, rest))
                | _ \<Rightarrow> Some (replacement, rest)))"

definition simple_escape :: "char \<Rightarrow> char option" where
  "simple_escape c =
     (if c = quote_char \<or> c = backslash \<or> c = CHR ''/'' then Some c
      else if c = CHR ''b'' then Some (char_of (8::nat))
      else if c = CHR ''f'' then Some (char_of (12::nat))
      else if c = CHR ''n'' then Some (char_of (10::nat))
      else if c = CHR ''r'' then Some (char_of (13::nat))
      else if c = CHR ''t'' then Some (char_of (9::nat))
      else None)"

lemma hex4_shorter: "hex4 s = Some (v, r) \<Longrightarrow> length r < length s"
  by (induction s rule: hex4.induct) (auto split: option.splits)

lemma unicode_escape_shorter: "unicode_escape s = Some (v, r) \<Longrightarrow> length r < length s"
  by (auto simp: unicode_escape_def dest!: hex4_shorter split: option.splits if_splits list.splits)

text \<open>What follows the opening quote: the contents and the rest after the closing one.\<close>

function (sequential) json_string :: "string \<Rightarrow> (string \<times> string) option" where
  "json_string [] = None"
| "json_string (c # cs) =
     (if c = quote_char then Some ([], cs)
      else if c = backslash then
        (case cs of
           [] \<Rightarrow> None
         | e # rest \<Rightarrow>
             if e = CHR ''u'' then
               (case unicode_escape rest of
                  None \<Rightarrow> None
                | Some (x, rest') \<Rightarrow> map_option (map_prod ((@) x) id) (json_string rest'))
             else (case simple_escape e of
                     None \<Rightarrow> None
                   | Some x \<Rightarrow> map_option (map_prod ((#) x) id) (json_string rest)))
      else if (of_char c :: nat) < 32 then None
      else (let n = utf8_len (c # cs)
            in if n = 0 then map_option (map_prod ((@) replacement) id) (json_string cs)
               else map_option (map_prod ((@) (take n (c # cs))) id) (json_string (drop (n - 1) cs))))"
  by pat_completeness auto
termination
  by (relation "measure length") (auto dest: unicode_escape_shorter)

lemma json_string_shorter: "json_string s = Some (v, r) \<Longrightarrow> length r < length s"
proof (induction s arbitrary: v rule: json_string.induct)
  case (2 c cs)
  then show ?case
    by (auto simp: Let_def simp del: utf8_len.simps split: if_splits list.splits option.splits
        dest!: unicode_escape_shorter) (metis diff_le_self le_trans less_SucI length_drop less_le_trans less_or_eq_imp_le)+
qed simp

subsection \<open>Numbers and values\<close>

definition take_digits :: "string \<Rightarrow> string \<times> string" where
  "take_digits s = (takeWhile is_digit s, dropWhile is_digit s)"

definition json_int :: "string \<Rightarrow> (string \<times> string) option" where
  "json_int s =
     (case s of
        [] \<Rightarrow> None
      | c # cs \<Rightarrow> if c = CHR ''0'' then Some ([c], cs) else if is_digit c then Some (take_digits s) else None)"

definition json_frac :: "string \<Rightarrow> (string \<times> string) option" where
  "json_frac s =
     (case s of
        c # d # cs \<Rightarrow> if c \<noteq> CHR ''.'' then Some ([], s)
                      else if is_digit d then Some (c # fst (take_digits (d # cs)), snd (take_digits (d # cs)))
                      else None
      | [c] \<Rightarrow> if c = CHR ''.'' then None else Some ([], s)
      | [] \<Rightarrow> Some ([], s))"

definition json_exp :: "string \<Rightarrow> (string \<times> string) option" where
  "json_exp s =
     (case s of
        [] \<Rightarrow> Some ([], s)
      | c # cs \<Rightarrow>
          if c \<noteq> CHR ''e'' \<and> c \<noteq> CHR ''E'' then Some ([], s)
          else (let (sign, ds) = (case cs of x # xs \<Rightarrow> if x = CHR ''+'' \<or> x = CHR ''-'' then ([x], xs) else ([], cs)
                                             | [] \<Rightarrow> ([], cs))
                in if fst (take_digits ds) = [] then None
                   else Some (c # sign @ fst (take_digits ds), snd (take_digits ds))))"

definition json_number :: "string \<Rightarrow> (string \<times> string) option" where
  "json_number s =
     (let (sign, s1) = (case s of c # cs \<Rightarrow> if c = CHR ''-'' then ([c], cs) else ([], s) | [] \<Rightarrow> ([], s))
      in case json_int s1 of None \<Rightarrow> None | Some (i, s2) \<Rightarrow>
        (case json_frac s2 of None \<Rightarrow> None | Some (f, s3) \<Rightarrow>
          (case json_exp s3 of None \<Rightarrow> None | Some (e, s4) \<Rightarrow> Some (sign @ i @ f @ e, s4))))"

definition json_space :: "char \<Rightarrow> bool" where
  "json_space c \<longleftrightarrow> c = CHR '' '' \<or> of_char c \<in> {9::nat, 10, 13}"

definition skip_space :: "string \<Rightarrow> string" where
  "skip_space s = dropWhile json_space s"

fun json_value :: "nat \<Rightarrow> string \<Rightarrow> (json \<times> string) option"
and json_items :: "nat \<Rightarrow> string \<Rightarrow> (json list \<times> string) option"
and json_fields :: "nat \<Rightarrow> string \<Rightarrow> ((string \<times> json) list \<times> string) option" where
  "json_value 0 s = None"
| "json_value (Suc n) s =
     (let s = skip_space s in
      if has_prefix s ''null'' then Some (JNull, drop 4 s)
      else if has_prefix s ''true'' then Some (JBool True, drop 4 s)
      else if has_prefix s ''false'' then Some (JBool False, drop 5 s)
      else (case s of
        [] \<Rightarrow> None
      | c # cs \<Rightarrow>
          if c = quote_char then map_option (map_prod JStr id) (json_string cs)
          else if c = CHR ''['' then
            (case skip_space cs of
               [] \<Rightarrow> None
             | d # ds \<Rightarrow> if d = CHR '']'' then Some (JArr [], ds)
                         else map_option (map_prod JArr id) (json_items n cs))
          else if c = CHR ''{'' then
            (case skip_space cs of
               [] \<Rightarrow> None
             | d # ds \<Rightarrow> if d = CHR ''}'' then Some (JObj [], ds)
                         else map_option (map_prod JObj id) (json_fields n cs))
          else map_option (map_prod JNum id) (json_number s)))"
| "json_items 0 s = None"
| "json_items (Suc n) s =
     (case json_value n s of
        None \<Rightarrow> None
      | Some (v, rest) \<Rightarrow>
          (case skip_space rest of
             [] \<Rightarrow> None
           | c # cs \<Rightarrow> if c = CHR '']'' then Some ([v], cs)
                       else if c = CHR '','' then map_option (map_prod ((#) v) id) (json_items n cs)
                       else None))"
| "json_fields 0 s = None"
| "json_fields (Suc n) s =
     (case skip_space s of
        [] \<Rightarrow> None
      | q # qs \<Rightarrow>
          if q \<noteq> quote_char then None
          else (case json_string qs of
            None \<Rightarrow> None
          | Some (k, rest) \<Rightarrow>
              (case skip_space rest of
                 [] \<Rightarrow> None
               | c # cs \<Rightarrow>
                   if c \<noteq> CHR '':'' then None
                   else (case json_value n cs of
                     None \<Rightarrow> None
                   | Some (v, rest') \<Rightarrow>
                       (case skip_space rest' of
                          [] \<Rightarrow> None
                        | d # ds \<Rightarrow> if d = CHR ''}'' then Some ([(k, v)], ds)
                                    else if d = CHR '','' then map_option (map_prod ((#) (k, v)) id) (json_fields n ds)
                                    else None)))))"

definition json_parse :: "string \<Rightarrow> json option" where
  "json_parse s =
     (case json_value (2 * length s + 2) s of
        None \<Rightarrow> None
      | Some (v, rest) \<Rightarrow> if skip_space rest = [] then Some v else None)"

subsection \<open>Enough fuel\<close>

lemma skip_space_length: "length (skip_space s) \<le> length s"
  by (simp add: skip_space_def length_dropWhile_le)

lemma skip_space_Cons: "skip_space s = c # cs \<Longrightarrow> length cs < length s"
  using skip_space_length [of s] by simp

lemma json_int_shorter: "json_int s = Some (v, r) \<Longrightarrow> length r < length s"
  by (auto simp: json_int_def take_digits_def length_dropWhile_le less_Suc_eq_le split: list.splits if_splits)

lemma json_frac_shorter: "json_frac s = Some (v, r) \<Longrightarrow> length r \<le> length s"
  by (auto simp: json_frac_def take_digits_def split: list.splits if_splits)
    (metis le_SucI length_dropWhile_le)+

lemma json_exp_shorter: "json_exp s = Some (v, r) \<Longrightarrow> length r \<le> length s"
  by (auto simp: json_exp_def take_digits_def Let_def split: list.splits if_splits prod.splits)
    (metis le_SucI length_dropWhile_le length_Cons)+

lemma json_number_shorter: "json_number s = Some (v, r) \<Longrightarrow> length r < length s"
  by (auto simp: json_number_def Let_def split: list.splits if_splits option.splits prod.splits
      dest!: json_int_shorter json_frac_shorter json_exp_shorter)

lemma json_value_step:
  assumes "\<And>s x r. its s = Some (x, r) \<Longrightarrow> length r < length s"
    and "\<And>s x r. flds s = Some (x, r) \<Longrightarrow> length r < length s"
    and its: "its = json_items n" and flds: "flds = json_fields n"
    and v: "json_value (Suc n) s = Some (v, r)"
  shows "length r < length s"
proof -
  define t where "t = skip_space s"
  have t: "length t \<le> length s" by (simp add: t_def skip_space_length)
  show ?thesis
  proof (cases t)
    case (Cons c cs)
    have "length cs - k < length s" for k
      using t Cons by (simp add: less_le_trans [OF le_imp_less_Suc])
    moreover have "json_string cs = Some (x, r) \<Longrightarrow> length r < length s" for x
      using json_string_shorter [of cs x r] t Cons by simp
    moreover have "json_number t = Some (x, r) \<Longrightarrow> length r < length s" for x
      using json_number_shorter [of t x r] t by simp
    moreover have "skip_space cs = d # r \<Longrightarrow> length r < length s" for d
      using skip_space_Cons [of cs d r] t Cons by simp
    moreover have "its cs = Some (x, r) \<Longrightarrow> length r < length s" for x
      using assms(1) [of cs x r] t Cons by simp
    moreover have "flds cs = Some (x, r) \<Longrightarrow> length r < length s" for x
      using assms(2) [of cs x r] t Cons by simp
    ultimately show ?thesis using v Cons
      unfolding json_value.simps Let_def t_def [symmetric] its [symmetric] flds [symmetric]
      by (auto split: if_splits list.splits)
  qed (use v in \<open>simp add: t_def Let_def\<close>)
qed

lemma json_shorter_all:
  "(\<forall>s x r. json_value n s = Some (x, r) \<longrightarrow> length r < length s) \<and>
   (\<forall>s x r. json_items n s = Some (x, r) \<longrightarrow> length r < length s) \<and>
   (\<forall>s x r. json_fields n s = Some (x, r) \<longrightarrow> length r < length s)"
proof (induction n)
  case (Suc n)
  then have IH: "json_value n s = Some (x, r) \<Longrightarrow> length r < length s"
      "json_items n s = Some (xs, r) \<Longrightarrow> length r < length s"
      "json_fields n s = Some (fs, r) \<Longrightarrow> length r < length s" for s x r xs fs by blast+
  have "length r < length s" if "json_value (Suc n) s = Some (x, r)" for s x r
    by (rule json_value_step [OF IH(2,3) refl refl that])
  moreover have "length r < length s" if "json_items (Suc n) s = Some (x, r)" for s x r
    using that by (auto split: option.splits list.splits if_splits dest!: IH skip_space_Cons)
  moreover have "length r < length s" if "json_fields (Suc n) s = Some (x, r)" for s x r
    using that by (auto split: option.splits list.splits if_splits dest!: IH skip_space_Cons json_string_shorter)
  ultimately show ?case by blast
qed simp

lemmas json_shorter = json_shorter_all [THEN conjunct1, rule_format]
  json_shorter_all [THEN conjunct2, THEN conjunct1, rule_format]
  json_shorter_all [THEN conjunct2, THEN conjunct2, rule_format]

lemma json_fuel_all:
  "(2 * length s + 1 \<le> n \<longrightarrow> 2 * length s + 1 \<le> m \<longrightarrow> json_value n s = json_value m s) \<and>
   (2 * length s + 2 \<le> n \<longrightarrow> 2 * length s + 2 \<le> m \<longrightarrow> json_items n s = json_items m s) \<and>
   (2 * length s + 2 \<le> n \<longrightarrow> 2 * length s + 2 \<le> m \<longrightarrow> json_fields n s = json_fields m s)"
proof (induction "length s" arbitrary: s n m rule: less_induct)
  case less
  have value_eq: "json_value n s = json_value m s" if "2 * length s + 1 \<le> n" "2 * length s + 1 \<le> m" for n m
  proof -
    from that obtain i j where ij: "n = Suc i" "m = Suc j" by (cases n; cases m) auto
    have rest: "json_items i cs = json_items j cs \<and> json_fields i cs = json_fields j cs" if "skip_space s = c # cs" for c cs
      using less [of cs i j] skip_space_Cons [OF that] \<open>_ \<le> n\<close> \<open>_ \<le> m\<close> ij by simp
    then show ?thesis
    proof (cases "skip_space s")
      case (Cons c cs)
      show ?thesis
        unfolding ij json_value.simps Let_def Cons list.case rest [OF Cons, THEN conjunct1] rest [OF Cons, THEN conjunct2] ..
    qed (simp add: ij Let_def)
  qed
  moreover have "json_items n s = json_items m s" if big: "2 * length s + 2 \<le> n" "2 * length s + 2 \<le> m"
  proof -
    from big obtain i j where ij: "n = Suc i" "m = Suc j" by (cases n; cases m) auto
    have v: "json_value i s = json_value j s" by (rule value_eq) (use big ij in simp_all)
    show ?thesis
    proof (cases "json_value j s")
      case (Some p)
      obtain x rest where p: "p = (x, rest)" by fastforce
      show ?thesis
      proof (cases "skip_space rest")
        case (Cons c cs)
        have "length cs < length s" using skip_space_Cons [OF Cons] json_shorter(1) [of j s x rest] Some p by simp
        then have "json_items i cs = json_items j cs" using less [of cs i j] big ij by simp
        then show ?thesis by (simp add: ij v Some p Cons)
      qed (simp add: ij v Some p)
    qed (simp add: ij v)
  qed
  moreover have "json_fields n s = json_fields m s" if big: "2 * length s + 2 \<le> n" "2 * length s + 2 \<le> m"
  proof -
    from big obtain i j where ij: "n = Suc i" "m = Suc j" by (cases n; cases m) auto
    have small: "json_value i cs = json_value j cs \<and> json_fields i cs = json_fields j cs" if "length cs < length s" for cs
      using less [of cs i j] that big ij by simp
    show ?thesis
    proof (cases "skip_space s")
      case (Cons q qs)
      show ?thesis
      proof (cases "json_string qs")
        case (Some p)
        obtain k rest where p: "p = (k, rest)" by fastforce
        show ?thesis
        proof (cases "skip_space rest")
          case (Cons c cs)
          have cs: "length cs < length s"
            using skip_space_Cons [OF Cons] json_string_shorter [of qs k rest] skip_space_Cons [OF \<open>skip_space s = q # qs\<close>]
              Some p by simp
          then have v: "json_value i cs = json_value j cs" using small by blast
          show ?thesis
          proof (cases "json_value j cs")
            case (Some p')
            obtain x rest' where p': "p' = (x, rest')" by fastforce
            show ?thesis
            proof (cases "skip_space rest'")
              case (Cons d ds)
              have "length ds < length s" using skip_space_Cons [OF Cons] json_shorter(1) [of j cs x rest'] Some p' cs by simp
              then have "json_fields i ds = json_fields j ds" using small by blast
              then show ?thesis
                by (simp add: ij \<open>skip_space s = q # qs\<close> \<open>json_string qs = Some p\<close> p \<open>skip_space rest = c # cs\<close> v Some p' Cons)
            qed (simp add: ij \<open>skip_space s = q # qs\<close> \<open>json_string qs = Some p\<close> p \<open>skip_space rest = c # cs\<close> v Some p')
          qed (simp add: ij \<open>skip_space s = q # qs\<close> Some p Cons v)
        qed (simp add: ij \<open>skip_space s = q # qs\<close> Some p)
      qed (simp add: ij Cons)
    qed (simp add: ij)
  qed
  ultimately show ?case by blast
qed

lemma json_value_fuel: "2 * length s + 2 \<le> n \<Longrightarrow> json_value n s = json_value (2 * length s + 2) s"
  using json_fuel_all [of s n "2 * length s + 2"] by simp

subsection \<open>Decoding into a structure\<close>

text \<open>
  A field of type \<open>string\<close> of a structure that \<open>json.Unmarshal\<close> fills: the keys
  are compared without regard to case, the last value wins, \<open>null\<close> leaves the field alone
  and any other value makes the whole call fail.  The value \<open>None\<close> is that failure.
\<close>

fun string_field :: "string \<Rightarrow> string \<Rightarrow> (string \<times> json) list \<Rightarrow> string option" where
  "string_field name acc [] = Some acc"
| "string_field name acc ((k, v) # rest) =
     (if equal_fold k name
      then (case v of JStr x \<Rightarrow> string_field name x rest | JNull \<Rightarrow> string_field name acc rest | _ \<Rightarrow> None)
      else string_field name acc rest)"

text \<open>
  \<open>Decoder.Decode\<close> reads the first value of a text and leaves the rest; here with the
  limit on the nesting of arrays and objects.
\<close>

fun json_depth :: "json \<Rightarrow> nat" where
  "json_depth (JArr vs) = Suc (foldr (\<lambda>v. max (json_depth v)) vs 0)"
| "json_depth (JObj fs) = Suc (foldr (\<lambda>f. max (json_depth (snd f))) fs 0)"
| "json_depth _ = 0"

definition json_first :: "string \<Rightarrow> json option" where
  "json_first s =
     (case json_value (2 * length s + 2) s of
        Some (v, _) \<Rightarrow> if json_depth v > 10000 then None else Some v
      | None \<Rightarrow> None)"

text \<open>
  The fold of a key: letters in upper case, and the two letters beyond ASCII that fold to ASCII
  (U+017F and U+212A).
\<close>

function (sequential) fold_key :: "string \<Rightarrow> string" where
  "fold_key [] = []"
| "fold_key (c # cs) =
     (if of_char c = (197::nat) \<and> take 1 cs = [char_of (191::nat)] then CHR ''S'' # fold_key (drop 1 cs)
      else if of_char c = (226::nat) \<and> take 2 cs = [char_of (132::nat), char_of (170::nat)] then CHR ''K'' # fold_key (drop 2 cs)
      else upper_char c # fold_key cs)"
  by pat_completeness auto
termination by (relation "measure length") auto

text \<open>A field of any type: \<open>dec\<close> says what a value makes of the field's present content.\<close>

fun fill_field :: "(json \<Rightarrow> 'a \<Rightarrow> 'a option) \<Rightarrow> string \<Rightarrow> 'a \<Rightarrow> (string \<times> json) list \<Rightarrow> 'a option" where
  "fill_field dec name acc [] = Some acc"
| "fill_field dec name acc ((k, v) # rest) =
     (if fold_key k = fold_key name
      then (case dec v acc of None \<Rightarrow> None | Some x \<Rightarrow> fill_field dec name x rest)
      else fill_field dec name acc rest)"

definition dec_string :: "json \<Rightarrow> string \<Rightarrow> string option" where
  "dec_string v acc = (case v of JStr x \<Rightarrow> Some x | JNull \<Rightarrow> Some acc | _ \<Rightarrow> None)"

definition dec_bool :: "json \<Rightarrow> bool \<Rightarrow> bool option" where
  "dec_bool v acc = (case v of JBool x \<Rightarrow> Some x | JNull \<Rightarrow> Some acc | _ \<Rightarrow> None)"

definition dec_u64 :: "json \<Rightarrow> u64 \<Rightarrow> u64 option" where
  "dec_u64 v acc = (case v of JNum x \<Rightarrow> map_option of_nat (parse_uint x 64) | JNull \<Rightarrow> Some acc | _ \<Rightarrow> None)"

definition dec_string_pointer :: "json \<Rightarrow> string option \<Rightarrow> string option option" where
  "dec_string_pointer v acc = (case v of JStr x \<Rightarrow> Some (Some x) | JNull \<Rightarrow> Some None | _ \<Rightarrow> None)"

subsection \<open>Strict decoding\<close>

text \<open>
  A structure whose fields have the decoders of the list; a key that matches none is an error, as is a
  value that is no object.  The value \<open>null\<close> leaves the structure as it is.
\<close>

fun strict_members :: "(string \<times> (json \<Rightarrow> 'a \<Rightarrow> 'a option)) list \<Rightarrow> (string \<times> json) list \<Rightarrow> 'a \<Rightarrow> 'a option" where
  "strict_members decs [] acc = Some acc"
| "strict_members decs ((k, v) # rest) acc =
     (case find (\<lambda>d. fold_key (fst d) = fold_key k) decs of
        None \<Rightarrow> None
      | Some (_, dec) \<Rightarrow> (case dec v acc of None \<Rightarrow> None | Some acc' \<Rightarrow> strict_members decs rest acc'))"

definition strict_object :: "(string \<times> (json \<Rightarrow> 'a \<Rightarrow> 'a option)) list \<Rightarrow> json \<Rightarrow> 'a \<Rightarrow> 'a option" where
  "strict_object decs v acc =
     (case v of JNull \<Rightarrow> Some acc | JObj fs \<Rightarrow> strict_members decs fs acc | _ \<Rightarrow> None)"

definition text_member :: "string \<Rightarrow> ('a \<Rightarrow> string) \<Rightarrow> (string \<Rightarrow> 'a \<Rightarrow> 'a) \<Rightarrow> string \<times> (json \<Rightarrow> 'a \<Rightarrow> 'a option)" where
  "text_member name get upd = (name, \<lambda>v r. map_option (\<lambda>x. upd x r) (dec_string v (get r)))"

text \<open>A map: every entry is decoded into a fresh value, and the last of equal keys stays.\<close>

fun map_members :: "(json \<Rightarrow> 'a \<Rightarrow> 'a option) \<Rightarrow> 'a \<Rightarrow> (string \<times> json) list \<Rightarrow> (string \<times> 'a) list \<Rightarrow> (string \<times> 'a) list option" where
  "map_members dec zero [] acc = Some acc"
| "map_members dec zero ((k, v) # rest) acc =
     (case dec v zero of None \<Rightarrow> None | Some x \<Rightarrow> map_members dec zero rest (put k x acc))"

definition dec_map :: "(json \<Rightarrow> 'a \<Rightarrow> 'a option) \<Rightarrow> 'a \<Rightarrow> json \<Rightarrow> (string \<times> 'a) list \<Rightarrow> (string \<times> 'a) list option" where
  "dec_map dec zero v acc =
     (case v of JNull \<Rightarrow> Some [] | JObj fs \<Rightarrow> map_members dec zero fs acc | _ \<Rightarrow> None)"

text \<open>A document and nothing after it, nested at most 10000 deep.\<close>

definition decode_strict :: "(json \<Rightarrow> 'a \<Rightarrow> 'a option) \<Rightarrow> 'a \<Rightarrow> string \<Rightarrow> 'a option" where
  "decode_strict dec zero body =
     (case json_parse body of None \<Rightarrow> None | Some v \<Rightarrow> if json_depth v > 10000 then None else dec v zero)"

end
