(* ===== verification/Live_Callback.thy ===== *)
theory Live_Callback
  imports Store_Client Go_Json
begin

section \<open>The callback dispatcher (live-runner/callback.go)\<close>

text \<open>
  The dispatcher posts the head of a session's outbox to the broker and acknowledges it, keeps it
  for a retry or parks it; the worker sweeps over all sessions with work left.

  The record \<open>surroundings\<close> extends the setting of a client of the store by the broker's
  answer to a request and by the cancellation of the context; the state \<open>worker\<close> is the
  client with the events posted and the rejections counted.
\<close>

subsection \<open>Answers of the broker\<close>

definition retryInitialV1 :: duration where "retryInitialV1 = 500 * millisecond"
definition retryMaximumV1 :: duration where "retryMaximumV1 = 30 * second"

definition callbackStatusRetryableV1 :: "int \<Rightarrow> bool" where
  "callbackStatusRetryableV1 statusCode \<longleftrightarrow>
     statusCode = 408 \<or> statusCode = 429 \<or> statusCode \<ge> 500 \<and> statusCode \<le> 599"

definition safeBrokerCallbackCodeV1 :: "string \<Rightarrow> bool" where
  "safeBrokerCallbackCodeV1 code \<longleftrightarrow>
     callbackErrorCodePatternV1 code \<and>
     code \<in> {''duplicate_event'', ''event_not_supported'', ''invalid_event'', ''sequence_conflict'', ''session_terminal''}"

text \<open>The two fields of the error body, \<open>None\<close> when \<open>json.Unmarshal\<close> fails.\<close>

definition decodeCallbackReply :: "string \<Rightarrow> (string \<times> string) option" where
  "decodeCallbackReply body =
     (case json_parse body of
        Some JNull \<Rightarrow> Some ([], [])
      | Some (JObj fs) \<Rightarrow>
          (case (string_field ''error'' [] fs, string_field ''code'' [] fs) of
             (Some e, Some c) \<Rightarrow> Some (e, c)
           | _ \<Rightarrow> None)
      | _ \<Rightarrow> None)"

definition safeCallbackErrorCodeV1 :: "int \<Rightarrow> string \<Rightarrow> string" where
  "safeCallbackErrorCodeV1 statusCode body =
     (if statusCode = 401 \<or> statusCode = 403 then ''callback_auth_rejected''
      else if statusCode = 404 \<or> statusCode = 410 then ''broker_session_terminal''
      else (case decodeCallbackReply body of
              Some (e, c) \<Rightarrow>
                if safeBrokerCallbackCodeV1 e then e
                else if safeBrokerCallbackCodeV1 c then c
                else ''http_'' @ fmt_int statusCode
            | None \<Rightarrow> ''http_'' @ fmt_int statusCode))"

record CallbackDeliveryErrorV1 =
  StatusCode :: int
  ErrorCode :: string
  Retryable :: bool

text \<open>The error of a delivery: what the broker made of it, or an error of the runner itself.\<close>

datatype delivery_error = DeliveryError CallbackDeliveryErrorV1 | OtherError go_error

subsection \<open>The surroundings\<close>

record surroundings = setting +
  broker :: "nat \<Rightarrow> string \<Rightarrow> string \<Rightarrow> RunnerEventV1 \<Rightarrow> answer"
  cancelled :: "nat \<Rightarrow> bool"

record worker = client +
  posts :: "RunnerEventV1 list"
  rejections :: "(int \<times> string) list"

subsection \<open>One delivery\<close>

text \<open>\<open>json.Marshal\<close> of an event fails only on details that are not JSON.\<close>

definition event_marshals :: "RunnerEventV1 \<Rightarrow> bool" where
  "event_marshals e \<longleftrightarrow> (case Details e of RawBytes b \<Rightarrow> b = [] | RawJSON _ \<Rightarrow> True)"

text \<open>The outcome of the request, recorded in the store: what stands behind \<open>client.Do\<close>.\<close>

definition recordAnswerV1 ::
    "surroundings \<Rightarrow> string \<Rightarrow> RunnerEventV1 \<Rightarrow> time \<Rightarrow> answer \<Rightarrow> worker \<Rightarrow> (delivery_error + bool) \<times> worker" where
  "recordAnswerV1 W sid event now reply w =
     (case reply of
        NoAnswer \<Rightarrow>
          (case store_call_of W w (\<lambda>E d. RecordCallbackRetryFailure E d sid (EventID event) 0 ''transport_error'') of
             (Inl e, w') \<Rightarrow> (Inl (OtherError e), w')
           | (Inr _, w') \<Rightarrow>
               (Inl (DeliveryError \<lparr>StatusCode = 0, ErrorCode = ''transport_error'', Retryable = True\<rparr>), w'))
      | Answer status body \<Rightarrow>
          if status < 200 \<or> status \<ge> 300 then
            (let code = safeCallbackErrorCodeV1 status (take 4096 body) in
             if callbackStatusRetryableV1 status then
               (case store_call_of W w (\<lambda>E d. RecordCallbackRetryFailure E d sid (EventID event) status code) of
                  (Inl e, w') \<Rightarrow> (Inl (OtherError e), w')
                | (Inr _, w') \<Rightarrow>
                    (Inl (DeliveryError \<lparr>StatusCode = status, ErrorCode = code, Retryable = True\<rparr>), w'))
             else
               (case store_call_of W w (\<lambda>E d. ParkCallbackRejection E d sid (EventID event) status code now) of
                  (Inl e, w') \<Rightarrow> (Inl (OtherError e), w')
                | (Inr _, w') \<Rightarrow>
                    (Inl (DeliveryError \<lparr>StatusCode = status, ErrorCode = code, Retryable = False\<rparr>),
                     w'\<lparr>rejections := rejections w' @ [(status, code)]\<rparr>)))
          else
            (case store_call_of W w (\<lambda>E d. AcknowledgeEvent E d sid (EventID event)) of
               (Inl e, w') \<Rightarrow> (Inl (OtherError e), w')
             | (Inr _, w') \<Rightarrow> (Inr True, w')))"

text \<open>What follows a reserved attempt: the request and its outcome.\<close>

definition settleDeliveryV1 ::
    "surroundings \<Rightarrow> string \<Rightarrow> SessionSecretsV1 \<Rightarrow> RunnerEventV1 \<Rightarrow> time \<Rightarrow> worker
      \<Rightarrow> (delivery_error + bool) \<times> worker" where
  "settleDeliveryV1 W sid secrets event now w =
     (if \<not> event_marshals event then (Inl (OtherError (ErrNew ''runner event serialization failed'')), w)
      else if url_parse (CallbackURL (CreateRequest secrets)) = None
      then (Inl (OtherError (ErrNew ''runner event callback request failed'')), w)
      else recordAnswerV1 W sid event now
             (broker W (accesses w) (CallbackURL (CreateRequest secrets))
                (''Bearer '' @ CallbackToken (CreateRequest secrets)) event)
             (w\<lparr>posts := posts w @ [event]\<rparr>))"

definition callbackDueV1 :: "CallbackDeliveryAttemptV1 option \<Rightarrow> time \<Rightarrow> bool result" where
  "callbackDueV1 delivery now =
     (case delivery of
        None \<Rightarrow> Inr True
      | Some a \<Rightarrow> (case parse_stamp (NextAttemptAt a) of
                     None \<Rightarrow> fails ''callback retry time is invalid''
                   | Some next \<Rightarrow> Inr (next \<le> now)))"

definition DeliverNext :: "surroundings \<Rightarrow> string \<Rightarrow> worker \<Rightarrow> (delivery_error + bool) \<times> worker" where
  "DeliverNext W sid w =
     (let (E, w1) = reach_store W w in
      case Load E (store w1) sid of
        Inl e \<Rightarrow> (Inl (OtherError e), w1)
      | Inr (r, secrets) \<Rightarrow>
          (case PendingEvents r of
             [] \<Rightarrow> (Inr False, w1)
           | event # _ \<Rightarrow>
               (case secrets of
                  None \<Rightarrow> (Inl (OtherError (ErrNew ''pending runner event has no callback credentials'')), w1)
                | Some s \<Rightarrow>
                    (let now = time_now E in
                     case callbackDueV1 (CallbackDelivery r) now of
                       Inl e \<Rightarrow> (Inl (OtherError e), w1)
                     | Inr False \<Rightarrow> (Inr False, w1)
                     | Inr True \<Rightarrow>
                         (case store_call_of W w1
                                 (\<lambda>E d. ReserveCallbackAttempt E d sid (EventID event) now retryInitialV1 retryMaximumV1) of
                            (Inl e, w2) \<Rightarrow>
                              if errors_is e ErrCallbackNotDueV1 then (Inr False, w2) else (Inl (OtherError e), w2)
                          | (Inr _, w2) \<Rightarrow> settleDeliveryV1 W sid s event now w2)))))"

subsection \<open>The sweep\<close>

datatype drain_exit = DrainCancelled | Drained | DrainFails go_error

text \<open>The inner loop: at most as many deliveries as the snapshot had events.\<close>

fun drainOutboxV1 :: "surroundings \<Rightarrow> string \<Rightarrow> nat \<Rightarrow> worker \<Rightarrow> drain_exit \<times> worker" where
  "drainOutboxV1 W sid 0 w = (Drained, w)"
| "drainOutboxV1 W sid (Suc n) w =
     (if cancelled W (accesses w) then (DrainCancelled, w)
      else (case DeliverNext W sid w of
              (Inl (DeliveryError e), w') \<Rightarrow> if Retryable e then (Drained, w') else drainOutboxV1 W sid n w'
            | (Inl (OtherError e), w') \<Rightarrow> (DrainFails e, w')
            | (Inr delivered, w') \<Rightarrow> if delivered then drainOutboxV1 W sid n w' else (Drained, w')))"

fun sweepRecordsV1 :: "surroundings \<Rightarrow> SessionRecordV1 list \<Rightarrow> worker \<Rightarrow> error \<times> worker" where
  "sweepRecordsV1 W [] w = (None, w)"
| "sweepRecordsV1 W (r # rs) w =
     (case drainOutboxV1 W (BrokerSessionID r) (length (PendingEvents r)) w of
        (DrainCancelled, w1) \<Rightarrow> (None, w1)
      | (DrainFails e, w1) \<Rightarrow> (Some e, w1)
      | (Drained, w1) \<Rightarrow>
          (let (E, w2) = reach_store W w1 in
           case Load E (store w2) (BrokerSessionID r) of
             Inl e \<Rightarrow> (Some e, w2)
           | Inr (current, secrets) \<Rightarrow>
               if State current \<noteq> ''active'' \<and> PendingEvents current = [] \<and> secrets \<noteq> None
               then (case store_call_of W w2 (\<lambda>E d. ClearTerminalSecrets E d (BrokerSessionID r)) of
                       (Inl e, w3) \<Rightarrow> (Some e, w3)
                     | (Inr _, w3) \<Rightarrow> sweepRecordsV1 W rs w3)
               else sweepRecordsV1 W rs w2))"

definition SweepOnce :: "surroundings \<Rightarrow> worker \<Rightarrow> error \<times> worker" where
  "SweepOnce W w =
     (let (E, w1) = reach_store W w in
      case Recoverable E (store w1) of
        Inl e \<Rightarrow> (Some e, w1)
      | Inr records \<Rightarrow> sweepRecordsV1 W records w1)"

text \<open>
  The worker's loop over sweeps; the number bounds the sweeps looked at.  The first component is
  \<open>None\<close> while it still runs, \<open>Some None\<close> when it returned \<open>nil\<close>.
\<close>

fun callbackWorkerRun :: "surroundings \<Rightarrow> nat \<Rightarrow> worker \<Rightarrow> error option \<times> worker" where
  "callbackWorkerRun W 0 w = (None, w)"
| "callbackWorkerRun W (Suc n) w =
     (case SweepOnce W w of
        (Some e, w') \<Rightarrow> if cancelled W (accesses w') then (Some None, w') else (Some (Some e), w')
      | (None, w') \<Rightarrow> if cancelled W (accesses w') then (Some None, w') else callbackWorkerRun W n w')"

end
