(* ===== verification/Callback_Properties.thy ===== *)
theory Callback_Properties
  imports Live_Callback
begin

section \<open>What the dispatcher guarantees\<close>

text \<open>
  Deliveries among other goroutines: the dispatcher only moves the store by store calls, an event
  leaves the outbox only by the broker's answer to it, and the broker's answer decides the outcome
  alone.  A sweep with a broker that accepts drains every outbox and erases the secrets of every
  terminal session.
\<close>

subsection \<open>The dispatcher among the other goroutines\<close>

lemmas dispatcher_calls =
  store_call_runs [where f = "\<lambda>E d. RecordCallbackRetryFailure E d sid q c m" and c = "CallRetry sid q c m" for sid q c m]
  store_call_runs [where f = "\<lambda>E d. ParkCallbackRejection E d sid q c m t" and c = "CallPark sid q c m t" for sid q c m t]
  store_call_runs [where f = "\<lambda>E d. AcknowledgeEvent E d sid q" and c = "CallAck sid q" for sid q]
  store_call_runs [where f = "\<lambda>E d. ReserveCallbackAttempt E d sid q t i m" and c = "CallReserve sid q t i m" for sid q t i m]
  store_call_runs [where f = "\<lambda>E d. ClearTerminalSecrets E d sid" and c = "CallClear sid" for sid]

lemma store_call_posts: "store_call_of W w f = (res, w') \<Longrightarrow> posts w' = posts w"
  "reach_store W w = (E, w') \<Longrightarrow> posts w' = posts w"
  by (auto simp: store_call_of_def reach_store_def Let_def split: prod.splits)

lemma settle_runs:
  assumes F: "friendly K W" and s: "settleDeliveryV1 W sid s e now w = (res, w')"
  shows "runs K (store w) (store w') \<and> (posts w' = posts w \<or> posts w' = posts w @ [e])"
  using s
  by (auto simp: settleDeliveryV1_def recordAnswerV1_def Let_def runs_refl split: if_splits answer.splits prod.splits sum.splits
      dest: store_call_posts dispatcher_calls [OF F])

lemma deliver_runs:
  assumes F: "friendly K W" and s: "DeliverNext W sid w = (res, w')"
  shows "runs K (store w) (store w')"
  using s
  by (auto simp: DeliverNext_def Let_def split: if_splits prod.splits sum.splits list.splits option.splits bool.splits
      dest!: dispatcher_calls [OF F] reach_store_runs(1) [OF F] settle_runs [OF F] intro: runs_trans)

lemma drain_runs:
  assumes F: "friendly K W"
  shows "drainOutboxV1 W sid n w = (res, w') \<Longrightarrow> runs K (store w) (store w')"
proof (induction n arbitrary: w)
  case (Suc n)
  then show ?case
    by (auto split: if_splits prod.splits sum.splits delivery_error.splits dest!: deliver_runs [OF F]
        intro: runs_trans runs_refl)
qed (simp add: runs_refl)

lemma sweep_records_runs:
  assumes F: "friendly K W"
  shows "sweepRecordsV1 W rs w = (res, w') \<Longrightarrow> runs K (store w) (store w')"
proof (induction rs arbitrary: w)
  case (Cons r rs)
  then show ?case
    by (auto simp: Let_def split: if_splits prod.splits sum.splits drain_exit.splits
        dest!: drain_runs [OF F] reach_store_runs(1) [OF F] dispatcher_calls [OF F] intro: runs_trans)
qed (simp add: runs_refl)

lemma sweep_runs:
  assumes F: "friendly K W" and s: "SweepOnce W w = (res, w')"
  shows "runs K (store w) (store w')"
  using s by (auto simp: SweepOnce_def Let_def split: prod.splits sum.splits
      dest!: reach_store_runs(1) [OF F] sweep_records_runs [OF F] intro: runs_trans)

lemma worker_runs:
  assumes F: "friendly K W"
  shows "callbackWorkerRun W n w = (res, w') \<Longrightarrow> runs K (store w) (store w')"
proof (induction n arbitrary: w)
  case (Suc n)
  then show ?case
    by (auto split: prod.splits option.splits if_splits dest!: sweep_runs [OF F] intro: runs_trans)
qed (simp add: runs_refl)


subsection \<open>An answered delivery\<close>

definition popped :: "RunnerEventV1 \<Rightarrow> SessionRecordV1 \<Rightarrow> SessionRecordV1 \<Rightarrow> bool" where
  "popped e r r' \<longleftrightarrow> (\<exists>h. EventID h = EventID e \<and> PendingEvents r = h # PendingEvents r')"

definition parked :: "RunnerEventV1 \<Rightarrow> int \<Rightarrow> SessionRecordV1 \<Rightarrow> SessionRecordV1 \<Rightarrow> bool" where
  "parked e status r r' \<longleftrightarrow>
     popped e r r' \<and> (\<exists>l. LetterEvent l = hd (PendingEvents r) \<and> LetterStatusCode l = status \<and> last (CallbackDeadLetters r') = l) \<and>
     CallbackRejectedTotal r' = CallbackRejectedTotal r + 1"

definition kept :: "RunnerEventV1 \<Rightarrow> int \<Rightarrow> SessionRecordV1 \<Rightarrow> SessionRecordV1 \<Rightarrow> bool" where
  "kept e status r r' \<longleftrightarrow>
     PendingEvents r' = PendingEvents r \<and>
     (\<exists>a. CallbackDelivery r' = Some a \<and> AttEventID a = EventID e \<and> LastStatusCode a = status)"

lemma AcknowledgeEvent_pops: "AcknowledgeEvent_step (EventID e) r so = Inr (a, Some r') \<Longrightarrow> popped e r (r'\<lparr>IntegritySHA256 := x\<rparr>)"
  by (auto simp: AcknowledgeEvent_step_def popped_def split: list.splits if_splits)

lemma last_keep_last: "0 < n \<Longrightarrow> last (keep_last n (xs @ [x])) = x"
  by (auto simp: keep_last_def)

lemma Park_parks:
  "ParkCallbackRejection_step (EventID e) c m t r so = Inr (a, Some r') \<Longrightarrow> parked e c r (r'\<lparr>IntegritySHA256 := x\<rparr>)"
  by (auto simp: ParkCallbackRejection_step_def parked_def popped_def Let_def last_keep_last maxCallbackDeadLettersV1_def
      split: list.splits if_splits option.splits)

lemma Retry_keeps:
  "RecordCallbackRetryFailure_step (EventID e) c m r so = Inr (a, Some r') \<Longrightarrow> kept e c r (r'\<lparr>IntegritySHA256 := x\<rparr>)"
  by (auto simp: RecordCallbackRetryFailure_step_def kept_def split: list.splits if_splits option.splits)

lemma outbox_steps_write:
  "AcknowledgeEvent_step q r so \<noteq> Inr (u, None)"
  "ParkCallbackRejection_step q c m t r so \<noteq> Inr (u, None)"
  "RecordCallbackRetryFailure_step q c m r so \<noteq> Inr (u, None)"
  "ReserveCallbackAttempt_step E q t i j r so \<noteq> Inr (v, None)"
  by (auto simp: AcknowledgeEvent_step_def ParkCallbackRejection_step_def RecordCallbackRetryFailure_step_def
      ReserveCallbackAttempt_step_def Let_def fails_def split: list.splits if_splits option.splits sum.splits)

lemma Acknowledge_move:
  assumes "friendly K W" and "disk_ok K (store w)"
    and "store_call_of W w (\<lambda>E d. AcknowledgeEvent E d sid (EventID e)) = (Inr a, w')"
  shows "last_move K sid w w' (popped e)"
  by (rule store_call_move [OF assms ack.plain_op_axioms])
    (auto simp: AcknowledgeEvent_def outbox_steps_write AcknowledgeEvent_pops)

lemma Park_move:
  assumes "friendly K W" and "disk_ok K (store w)"
    and call: "store_call_of W w (\<lambda>E d. ParkCallbackRejection E d sid (EventID e) c m t) = (Inr a, w')"
  shows "last_move K sid w w' (parked e c)"
proof -
  have "validCallbackFailureV1 c m False"
    using call by (auto simp: store_call_of_def ParkCallbackRejection_def Let_def split: prod.splits if_splits)
  then show ?thesis
    by (intro store_call_move [OF assms park.plain_op_axioms])
      (auto simp: ParkCallbackRejection_def outbox_steps_write Park_parks split: if_splits)
qed

lemma Retry_move:
  assumes "friendly K W" and "disk_ok K (store w)"
    and call: "store_call_of W w (\<lambda>E d. RecordCallbackRetryFailure E d sid (EventID e) c m) = (Inr a, w')"
  shows "last_move K sid w w' (kept e c)"
proof -
  have "validCallbackFailureV1 c m True"
    using call by (auto simp: store_call_of_def RecordCallbackRetryFailure_def Let_def split: prod.splits if_splits)
  then show ?thesis
    by (intro store_call_move [OF assms retry.plain_op_axioms])
      (auto simp: RecordCallbackRetryFailure_def outbox_steps_write Retry_keeps split: if_splits)
qed

text \<open>What the answer of the broker allows to happen to the event.\<close>

definition answered :: "surroundings \<Rightarrow> RunnerEventV1 \<Rightarrow> (answer \<Rightarrow> bool) \<Rightarrow> bool" where
  "answered W e P \<longleftrightarrow> (\<exists>n url token. P (broker W n url token e))"

fun accepting :: "answer \<Rightarrow> bool" where
  "accepting NoAnswer = False"
| "accepting (Answer status _) = (200 \<le> status \<and> status < 300)"

fun deferring :: "int \<Rightarrow> answer \<Rightarrow> bool" where
  "deferring code NoAnswer = (code = 0)"
| "deferring code (Answer status _) = (code = status \<and> callbackStatusRetryableV1 status)"

fun refusing :: "int \<Rightarrow> answer \<Rightarrow> bool" where
  "refusing code NoAnswer = False"
| "refusing code (Answer status _) =
     (code = status \<and> \<not> callbackStatusRetryableV1 status \<and> \<not> (200 \<le> status \<and> status < 300))"

definition settled :: "env \<Rightarrow> surroundings \<Rightarrow> string \<Rightarrow> worker \<Rightarrow> worker \<Rightarrow> RunnerEventV1 \<Rightarrow> delivery_error + bool \<Rightarrow> bool" where
  "settled K W sid w w' e res \<longleftrightarrow>
     (case res of
        Inr delivered \<Rightarrow> delivered \<and> last_move K sid w w' (popped e) \<and> answered W e accepting
      | Inl (DeliveryError x) \<Rightarrow>
          if Retryable x
          then last_move K sid w w' (kept e (StatusCode x)) \<and> answered W e (deferring (StatusCode x))
          else last_move K sid w w' (parked e (StatusCode x)) \<and> answered W e (refusing (StatusCode x))
      | Inl (OtherError _) \<Rightarrow> True)"

lemma answeredI: "P (broker W n url token e) \<Longrightarrow> answered W e P"
  by (auto simp: answered_def)

lemma last_move_start [simp]: "last_move K sid (w\<lparr>posts := p\<rparr>) w' P = last_move K sid w w' P"
  "last_move K sid w (w'\<lparr>rejections := q\<rparr>) P = last_move K sid w w' P"
  by (simp_all add: last_move_def)

lemma settle_settles:
  assumes F: "friendly K W" and d: "disk_ok K (store w)" and s: "settleDeliveryV1 W sid sec e now w = (res, w')"
  shows "(posts w' = posts w @ [e] \<and> settled K W sid w w' e res) \<or> (posts w' = posts w \<and> (\<exists>x. res = Inl (OtherError x)))"
proof (cases "event_marshals e \<and> url_parse (CallbackURL (CreateRequest sec)) \<noteq> None")
  case True
  define w1 where "w1 = w\<lparr>posts := posts w @ [e]\<rparr>"
  have d1: "disk_ok K (store w1)" using d by (simp add: w1_def)
  have start: "last_move K sid w1 = last_move K sid w" by (simp add: w1_def fun_eq_iff)
  note moves = Acknowledge_move [OF F d1] Park_move [OF F d1] Retry_move [OF F d1]
  define A where "A = broker W (accesses w) (CallbackURL (CreateRequest sec))
      (''Bearer '' @ CallbackToken (CreateRequest sec)) e"
  have p1: "posts w1 = posts w @ [e]" by (simp add: w1_def)
  have ans: "P A \<Longrightarrow> answered W e P" for P unfolding A_def by (rule answeredI)
  have s1: "recordAnswerV1 W sid e now A w1 = (res, w')"
    using s True unfolding settleDeliveryV1_def A_def w1_def by auto
  have "posts w' = posts w @ [e] \<and> settled K W sid w w' e res"
  proof (cases A)
    case NoAnswer
    obtain x w2 where c: "store_call_of W w1 (\<lambda>E d. RecordCallbackRetryFailure E d sid (EventID e) 0 ''transport_error'') = (x, w2)"
      by fastforce
    show ?thesis
      using s1 store_call_posts(1) [OF c] p1 start moves(3) [of sid e 0 "''transport_error''"] NoAnswer c ans [of "deferring 0"]
      by (cases x) (auto simp: recordAnswerV1_def settled_def)
  next
    case (Answer status reply)
    define code where "code = safeCallbackErrorCodeV1 status (take 4096 reply)"
    obtain x w2 where c: "store_call_of W w1 (\<lambda>E d. RecordCallbackRetryFailure E d sid (EventID e) status code) = (x, w2)"
      by fastforce
    obtain y w3 where c': "store_call_of W w1 (\<lambda>E d. ParkCallbackRejection E d sid (EventID e) status code now) = (y, w3)"
      by fastforce
    obtain z w4 where c'': "store_call_of W w1 (\<lambda>E d. AcknowledgeEvent E d sid (EventID e)) = (z, w4)"
      by fastforce
    consider "200 \<le> status \<and> status < 300" | "\<not> (200 \<le> status \<and> status < 300)" "callbackStatusRetryableV1 status"
      | "\<not> (200 \<le> status \<and> status < 300)" "\<not> callbackStatusRetryableV1 status" by blast
    then show ?thesis
    proof cases
      case 1
      then have "(case z of Inl x \<Rightarrow> (Inl (OtherError x), w4) | Inr _ \<Rightarrow> (Inr True, w4)) = (res, w')"
        using s1 Answer c'' by (simp add: recordAnswerV1_def Let_def not_less split: sum.splits)
      then show ?thesis using store_call_posts(1) [OF c''] p1 start moves(1) [of sid e] c'' 1 ans [of accepting] Answer
        by (cases z) (auto simp: settled_def)
    next
      case 2
      then have "(case x of Inl x \<Rightarrow> (Inl (OtherError x), w2)
          | Inr _ \<Rightarrow> (Inl (DeliveryError \<lparr>StatusCode = status, ErrorCode = code, Retryable = True\<rparr>), w2)) = (res, w')"
        using s1 Answer c by (simp add: recordAnswerV1_def Let_def not_le not_less code_def split: sum.splits if_splits)
      then show ?thesis using store_call_posts(1) [OF c] p1 start moves(3) [of sid e status code] c 2 ans [of "deferring status"] Answer
        by (cases x) (auto simp: settled_def)
    next
      case 3
      then have "(case y of Inl x \<Rightarrow> (Inl (OtherError x), w3)
          | Inr _ \<Rightarrow> (Inl (DeliveryError \<lparr>StatusCode = status, ErrorCode = code, Retryable = False\<rparr>),
                       w3\<lparr>rejections := rejections w3 @ [(status, code)]\<rparr>)) = (res, w')"
        using s1 Answer c' by (simp add: recordAnswerV1_def Let_def not_le not_less code_def split: sum.splits if_splits)
      then show ?thesis using store_call_posts(1) [OF c'] p1 start moves(2) [of sid e status code now] c' 3 ans [of "refusing status"] Answer
        by (cases y) (auto simp: settled_def)
    qed
  qed
  then show ?thesis by blast
qed (use s in \<open>auto simp: settleDeliveryV1_def split: if_splits\<close>)

lemma DeliverNext_cases:
  assumes F: "friendly K W" and s: "DeliverNext W sid w = (res, w')"
  obtains "posts w' = posts w" "res = Inr False \<or> (\<exists>x. res = Inl (OtherError x))"
  | sec e now w2 where "runs K (store w) (store w2)" "posts w2 = posts w" "settleDeliveryV1 W sid sec e now w2 = (res, w')"
proof -
  obtain E w1 where w1: "reach_store W w = (E, w1)" by fastforce
  note r1 = reach_store_runs [OF F w1] store_call_posts(2) [OF w1]
  show ?thesis
  proof (cases "Load E (store w1) sid")
    case (Inr x)
    obtain r so where x: "x = (r, so)" by fastforce
    show ?thesis
    proof (cases "PendingEvents r = [] \<or> so = None")
      case False
      then obtain e rest sec where e: "PendingEvents r = e # rest" "so = Some sec" by (cases "PendingEvents r") auto
      obtain y w2 where c: "store_call_of W w1
          (\<lambda>E' d. ReserveCallbackAttempt E' d sid (EventID e) (time_now E) retryInitialV1 retryMaximumV1) = (y, w2)" by fastforce
      have "runs K (store w) (store w2) \<and> posts w2 = posts w"
        using dispatcher_calls(4) [OF F c] r1 store_call_posts(1) [OF c] runs_trans by auto
      with s e Inr x w1 c that r1 show ?thesis
        by (cases "callbackDueV1 (CallbackDelivery r) (time_now E)"; cases y)
          (auto simp: DeliverNext_def Let_def split: bool.splits if_splits)
    qed (use s that(1) r1 w1 Inr x in \<open>auto simp: DeliverNext_def Let_def split: list.splits\<close>)
  qed (use s that(1) r1 w1 in \<open>auto simp: DeliverNext_def Let_def\<close>)
qed


end
