(* ===== verification/Callback_Liveness.thy ===== *)
theory Callback_Liveness
  imports Callback_Properties
begin

section \<open>What the broker's answer decides\<close>

text \<open>
  The dispatcher alone with its store: saves succeed, nobody else moves the directory and the
  context is not cancelled.  Then the answer of the broker decides the outcome of a delivery
  completely, and a broker that accepts drains everything.
\<close>

definition quiet :: "env \<Rightarrow> surroundings \<Rightarrow> bool" where
  "quiet K W \<longleftrightarrow> calm K W \<and> (\<forall>n. \<not> cancelled W n)"

lemma quiet_calm: "quiet K W \<Longrightarrow> calm K W" and quiet_running: "quiet K W \<Longrightarrow> \<not> cancelled W n"
  by (simp_all add: quiet_def)

lemmas quiet_friendly = calm_friendly [OF quiet_calm]
lemmas quietD = calmD [OF quiet_calm] quiet_running
lemmas reach_store_quiet = reach_store_calm [OF quiet_calm]

lemma only_session_posts [simp]:
  "only_session sid (w\<lparr>posts := p\<rparr>) v = only_session sid w v"
  "only_session sid w (v\<lparr>rejections := q\<rparr>) = only_session sid w v"
  "only_session sid w (v\<lparr>posts := p\<rparr>) = only_session sid w v"
  by (simp_all add: only_session_def)

lemma quiet_call:
  fixes w :: worker
  assumes Q: "quiet K W" and d: "disk_ok K (store w)" and l: "Load K (store w) sid = Inr (r, so)"
    and p: "plain_op (env_of W (accesses w)) admits step" and adm: "\<forall>r. admits r"
    and f: "\<And>d. f (env_of W (accesses w)) d = update_session (env_of W (accesses w)) d sid step"
    and st: "step r so = Inr (a, Some r')"
  shows "\<exists>w'. store_call_of W w f = (Inr a, w') \<and> disk_ok K (store w') \<and> posts w' = posts w \<and>
    accesses w' = Suc (accesses w) \<and> only_session sid w w' \<and>
    (\<exists>x. Load K (store w') sid = Inr (r'\<lparr>IntegritySHA256 := x\<rparr>, so))"
proof -
  obtain d' where "store_call_of W w f = (Inr a, w\<lparr>accesses := Suc (accesses w), store := d'\<rparr>)" "disk_ok K d'"
      "only_session sid w (w\<lparr>store := d'\<rparr>)" "\<exists>x. Load K d' sid = Inr (r'\<lparr>IntegritySHA256 := x\<rparr>, so)"
    using calm_call [where f = f and step = step, OF quiet_calm [OF Q] d l p adm f st] by blast
  then show ?thesis by (simp add: only_session_def)
qed

subsection \<open>Valid failure codes\<close>

lemma safe_code_valid:
  assumes "100 \<le> status" and "status \<le> 599"
  shows "validCallbackFailureV1 status (safeCallbackErrorCodeV1 status body) False"
proof -
  obtain n where n: "status = int n" "n < 1000" using assms by (cases status) auto
  have digits: "list_all is_digit (fmt_int status)" "length (fmt_int status) \<le> 3"
    using fmt_nat_digits length_fmt_nat [of _ 3] n by (simp_all add: fmt_int_def)
  then have "callbackErrorCodePatternV1 (''http_'' @ fmt_int status)"
    by (auto simp: callbackErrorCodePatternV1_def is_lower_def list_all_iff)
  moreover have "callbackErrorCodePatternV1 ''callback_auth_rejected''" "callbackErrorCodePatternV1 ''broker_session_terminal''"
    by (simp_all add: callbackErrorCodePatternV1_def is_lower_def is_digit_def)
  ultimately have "callbackErrorCodePatternV1 (safeCallbackErrorCodeV1 status body)"
    by (auto simp: safeCallbackErrorCodeV1_def safeBrokerCallbackCodeV1_def split: option.splits)
  with assms show ?thesis by (simp add: validCallbackFailureV1_def)
qed

lemma valid_failure_weaken: "validCallbackFailureV1 c m False \<Longrightarrow> validCallbackFailureV1 c m True"
  by (auto simp: validCallbackFailureV1_def split: if_splits)

subsection \<open>A delivery that is due\<close>

definition due :: "SessionRecordV1 \<Rightarrow> time \<Rightarrow> bool" where
  "due r now \<longleftrightarrow>
     (\<forall>a. CallbackDelivery r = Some a \<longrightarrow>
        AttAttempts a \<noteq> max_u32 \<and> (\<exists>t. parse_stamp (NextAttemptAt a) = Some t \<and> t \<le> now))"

lemma pending_event_ok:
  assumes "record_ok r" and "PendingEvents r = e # rest"
  shows "event_marshals e" "EventID e \<noteq> []"
proof -
  have "ValidateEventV1 e = None" using assms by (auto simp: record_ok_iff outbox_ok_def event_fits_def)
  then show "event_marshals e" "EventID e \<noteq> []"
    by (auto simp: ValidateEventV1_def validateSafeEventDetailsV1_def event_marshals_def raw_valid_def
        split: if_splits option.splits raw_json.splits)
qed

lemma callback_url_parses:
  assumes "opened K r (Some s)"
  shows "url_parse (CallbackURL (CreateRequest s)) \<noteq> None"
proof -
  have "ValidateCreateRequestV1 (CreateRequest s) = None"
    using assms openSecrets_Inr unfolding opened_def validateSessionSecrets_iff [symmetric]
    by (auto simp: validateSessionSecrets_iff)
  then show ?thesis
    by (auto simp: ValidateCreateRequestV1_def validateHTTPURL_def validateURLScheme_def Let_def split: if_splits option.splits)
qed

lemma deliver_reserves:
  assumes Q: "quiet K W" and K: "crypto_ok K" and d: "disk_ok K (store w)"
    and l: "Load K (store w) sid = Inr (r, Some s)" and pe: "PendingEvents r = e # rest"
    and due: "due r (time_now (env_of W (accesses w)))"
  shows "\<exists>w2 a x. DeliverNext W sid w = settleDeliveryV1 W sid s e (time_now (env_of W (accesses w))) w2 \<and>
    posts w2 = posts w \<and> accesses w2 = accesses w + 2 \<and> disk_ok K (store w2) \<and> only_session sid w w2 \<and>
    Load K (store w2) sid = Inr (r\<lparr>CallbackDelivery := Some a, IntegritySHA256 := x\<rparr>, Some s) \<and> AttEventID a = EventID e"
proof -
  let ?E = "env_of W (accesses w)" and ?now = "time_now (env_of W (accesses w))"
  define w1 where "w1 = w\<lparr>accesses := Suc (accesses w)\<rparr>"
  have reach: "reach_store W w = (?E, w1)" using quietD(4) [OF Q] by (simp add: reach_store_def w1_def)
  have r: "record_ok r" using load_Inr [OF K d] l by (simp add: Load_def)
  have ev: "EventID e \<noteq> []" using pending_event_ok(2) [OF r pe] .
  have del: "AttEventID b = EventID e" if "CallbackDelivery r = Some b" for b
    using r that pe by (auto simp: record_ok_iff delivery_ok_def)
  obtain a where st: "ReserveCallbackAttempt_step (env_of W (accesses w1)) (EventID e) ?now retryInitialV1 retryMaximumV1 r (Some s) =
      Inr (a, Some (r\<lparr>CallbackDelivery := Some a\<rparr>))" and a: "AttEventID a = EventID e"
    using pe del due
    by (cases "CallbackDelivery r") (auto simp: ReserveCallbackAttempt_step_def due_def Let_def)
  have pos: "0 < retryInitialV1 \<and> retryInitialV1 \<le> retryMaximumV1"
    by (simp add: retryInitialV1_def retryMaximumV1_def millisecond_def second_def)
  have l1: "Load K (store w1) sid = Inr (r, Some s)" and d1: "disk_ok K (store w1)" using l d by (simp_all add: w1_def)
  let ?f = "\<lambda>E d. ReserveCallbackAttempt E d sid (EventID e) ?now retryInitialV1 retryMaximumV1"
  have "\<exists>w2. store_call_of W w1 ?f = (Inr a, w2) \<and> disk_ok K (store w2) \<and> posts w2 = posts w1 \<and>
      accesses w2 = Suc (accesses w1) \<and> only_session sid w1 w2 \<and>
      (\<exists>x. Load K (store w2) sid = Inr (r\<lparr>CallbackDelivery := Some a\<rparr>\<lparr>IntegritySHA256 := x\<rparr>, Some s))"
    by (rule quiet_call [OF Q d1 l1 reserve.plain_op_axioms _ _ st])
      (use pos ev quietD(3) [OF Q] in \<open>auto simp: ReserveCallbackAttempt_def\<close>)
  then obtain w2 x where w2: "store_call_of W w1 ?f = (Inr a, w2)" "disk_ok K (store w2)" "posts w2 = posts w1"
      "accesses w2 = Suc (accesses w1)" "only_session sid w1 w2"
      "Load K (store w2) sid = Inr (r\<lparr>CallbackDelivery := Some a, IntegritySHA256 := x\<rparr>, Some s)" by auto
  have "callbackDueV1 (CallbackDelivery r) ?now = Inr True"
    using due by (auto simp: callbackDueV1_def due_def split: option.splits)
  moreover have "Load ?E (store w1) sid = Inr (r, Some s)"
    using l1 friendlyD(4) [OF quiet_friendly [OF Q]] by simp
  ultimately have "DeliverNext W sid w = settleDeliveryV1 W sid s e ?now w2"
    using reach pe w2(1) by (simp add: DeliverNext_def Let_def)
  then show ?thesis using w2 a by (auto simp: w1_def only_session_def)
qed

text \<open>What the answer makes of the record, and the result the caller sees.\<close>

definition after_answer ::
    "answer \<Rightarrow> RunnerEventV1 \<Rightarrow> RunnerEventV1 list \<Rightarrow> SessionRecordV1 \<Rightarrow> SessionRecordV1 \<Rightarrow> delivery_error + bool \<Rightarrow> bool" where
  "after_answer A e rest r r' res \<longleftrightarrow>
     (if accepting A then res = Inr True \<and> PendingEvents r' = rest \<and> CallbackDelivery r' = None
      else if \<exists>c. deferring c A
      then (\<exists>x a. res = Inl (DeliveryError x) \<and> Retryable x \<and> PendingEvents r' = e # rest \<and>
              CallbackDelivery r' = Some a \<and> deferring (LastStatusCode a) A \<and> StatusCode x = LastStatusCode a)
      else (\<exists>c b. A = Answer c b \<and>
              (if 100 \<le> c \<and> c \<le> 599
               then (\<exists>x l. res = Inl (DeliveryError x) \<and> \<not> Retryable x \<and> StatusCode x = c \<and> PendingEvents r' = rest \<and>
                       last (CallbackDeadLetters r') = l \<and> LetterEvent l = e \<and> LetterStatusCode l = c \<and>
                       CallbackRejectedTotal r' = CallbackRejectedTotal r + 1)
               else (\<exists>x. res = Inl (OtherError x)) \<and> PendingEvents r' = e # rest)))"

lemma settle_outcome:
  assumes Q: "quiet K W" and K: "crypto_ok K" and d: "disk_ok K (store w)"
    and l: "Load K (store w) sid = Inr (r, Some s)" and pe: "PendingEvents r = e # rest"
    and del: "CallbackDelivery r = Some a" and now: "now \<noteq> zero_time"
    and room: "accepting A \<or> CallbackRejectedTotal r \<noteq> max_u64"
    and A: "A = broker W (accesses w) (CallbackURL (CreateRequest s)) (''Bearer '' @ CallbackToken (CreateRequest s)) e"
  shows "\<exists>res w' r'. settleDeliveryV1 W sid s e now w = (res, w') \<and> posts w' = posts w @ [e] \<and> disk_ok K (store w') \<and>
    only_session sid w w' \<and> Load K (store w') sid = Inr (r', Some s) \<and> after_answer A e rest r r' res"
proof -
  define w1 where "w1 = w\<lparr>posts := posts w @ [e]\<rparr>"
  have r: "record_ok r" "opened K r (Some s)" using load_Inr [OF K d] l by (auto simp: Load_def)
  have att: "AttEventID a = EventID e" using r(1) pe del by (auto simp: record_ok_iff delivery_ok_def)
  note ok = pending_event_ok(1) [OF r(1) pe] callback_url_parses [OF r(2)]
  have l1: "Load K (store w1) sid = Inr (r, Some s)" and d1: "disk_ok K (store w1)" using l d by (simp_all add: w1_def)
  have unfold: "settleDeliveryV1 W sid s e now w = recordAnswerV1 W sid e now A w1"
    using ok unfolding settleDeliveryV1_def A w1_def by auto
  have retry: "\<exists>w2 r2. store_call_of W w1 (\<lambda>E d. RecordCallbackRetryFailure E d sid (EventID e) c m) = (Inr (), w2) \<and>
      disk_ok K (store w2) \<and> posts w2 = posts w @ [e] \<and> only_session sid w w2 \<and>
      Load K (store w2) sid = Inr (r2, Some s) \<and> PendingEvents r2 = e # rest \<and>
      CallbackDelivery r2 = Some (a\<lparr>LastStatusCode := c, LastErrorCode := m\<rparr>)"
    if "validCallbackFailureV1 c m True" for c m
    using quiet_call [OF Q d1 l1 retry.plain_op_axioms, of c m "\<lambda>E d. RecordCallbackRetryFailure E d sid (EventID e) c m" "EventID e" "()"
        "r\<lparr>CallbackDelivery := Some (a\<lparr>LastStatusCode := c, LastErrorCode := m\<rparr>)\<rparr>"] that pe del att
    by (auto simp: RecordCallbackRetryFailure_def RecordCallbackRetryFailure_step_def w1_def)
  show ?thesis
  proof (cases A)
    case NoAnswer
    have "validCallbackFailureV1 0 ''transport_error'' True" by (simp add: validCallbackFailureV1_def)
    from retry [OF this] show ?thesis by (auto simp: unfold recordAnswerV1_def NoAnswer after_answer_def pe)
  next
    case (Answer c b)
    define code where "code = safeCallbackErrorCodeV1 c (take 4096 b)"
    consider "200 \<le> c" "c < 300" | "\<not> (200 \<le> c \<and> c < 300)" "callbackStatusRetryableV1 c"
      | "\<not> (200 \<le> c \<and> c < 300)" "\<not> callbackStatusRetryableV1 c" "100 \<le> c \<and> c \<le> 599"
      | "\<not> (200 \<le> c \<and> c < 300)" "\<not> callbackStatusRetryableV1 c" "\<not> (100 \<le> c \<and> c \<le> 599)" by blast
    then show ?thesis
    proof cases
      case 1
      from quiet_call [OF Q d1 l1 ack.plain_op_axioms, of "\<lambda>E d. AcknowledgeEvent E d sid (EventID e)" "EventID e" "()"
          "r\<lparr>PendingEvents := rest, CallbackDelivery := None\<rparr>"] pe 1
      show ?thesis by (auto simp: unfold recordAnswerV1_def Answer after_answer_def AcknowledgeEvent_def AcknowledgeEvent_step_def w1_def)
    next
      case 2
      then have "100 \<le> c" "c \<le> 599" by (auto simp: callbackStatusRetryableV1_def)
      from retry [OF valid_failure_weaken [OF safe_code_valid [OF this, of "take 4096 b"]]] 2
      show ?thesis by (auto simp: unfold recordAnswerV1_def Answer after_answer_def Let_def pe)
    next
      case 3
      let ?l = "\<lparr>LetterEvent = e, LetterAttempts = AttAttempts a, LetterStatusCode = c, LetterErrorCode = code,
          LetterRejectedAt = format_nano now\<rparr>"
      have v: "validCallbackFailureV1 c code False" using safe_code_valid 3(3) by (simp add: code_def)
      have "ParkCallbackRejection_step (EventID e) c code now r (Some s) =
          Inr ((), Some (r\<lparr>PendingEvents := rest, CallbackDelivery := None, CallbackRejectedTotal := CallbackRejectedTotal r + 1,
                 CallbackDeadLetters := keep_last maxCallbackDeadLettersV1 (CallbackDeadLetters r @ [?l])\<rparr>))"
        using pe del att room 3 Answer by (auto simp: ParkCallbackRejection_step_def Let_def)
      from quiet_call [OF Q d1 l1 park.plain_op_axioms _ _ this, of "\<lambda>E d. ParkCallbackRejection E d sid (EventID e) c code now"] v 3 now
      show ?thesis
        by (auto simp: unfold recordAnswerV1_def Answer after_answer_def Let_def ParkCallbackRejection_def w1_def code_def [symmetric]
            last_keep_last maxCallbackDeadLettersV1_def)
    next
      case 4
      have "ParkCallbackRejection E dd sid (EventID e) c code now = (fails ''callback rejection is invalid'', dd)" for E dd
        using 4(3) by (auto simp: ParkCallbackRejection_def validCallbackFailureV1_def)
      then have "store_call_of W w1 (\<lambda>E d. ParkCallbackRejection E d sid (EventID e) c code now) =
          (fails ''callback rejection is invalid'', w1\<lparr>accesses := Suc (accesses w1)\<rparr>)"
        using quietD(4) [OF Q] by (simp add: store_call_of_def reach_store_def)
      then show ?thesis using 4 l1 d1 pe
        by (auto simp: unfold recordAnswerV1_def Answer after_answer_def Let_def code_def [symmetric] fails_def w1_def)
    qed
  qed
qed

lemma after_answer_cong:
  "CallbackRejectedTotal q = CallbackRejectedTotal r \<Longrightarrow> after_answer A e rest q = after_answer A e rest r"
  by (simp add: after_answer_def fun_eq_iff)

lemma deliver_outcome:
  assumes K: "crypto_ok K" and Q: "quiet K W" and d: "disk_ok K (store w)"
    and l: "Load K (store w) sid = Inr (r, Some s)" and pe: "PendingEvents r = e # rest"
    and due: "due r (time_now (env_of W (accesses w)))" and A: "A = broker W (accesses w + 2) (CallbackURL (CreateRequest s)) (''Bearer '' @ CallbackToken (CreateRequest s)) e"
    and room: "accepting A \<or> CallbackRejectedTotal r \<noteq> max_u64"
  shows "\<exists>res w' r'. DeliverNext W sid w = (res, w') \<and> posts w' = posts w @ [e] \<and> disk_ok K (store w') \<and>
    only_session sid w w' \<and> Load K (store w') sid = Inr (r', Some s) \<and> after_answer A e rest r r' res"
proof -
  let ?now = "time_now (env_of W (accesses w))"
  obtain w2 a x where w2: "DeliverNext W sid w = settleDeliveryV1 W sid s e ?now w2"
      "posts w2 = posts w" "accesses w2 = accesses w + 2" "disk_ok K (store w2)" "only_session sid w w2"
    and l2: "Load K (store w2) sid = Inr (r\<lparr>CallbackDelivery := Some a, IntegritySHA256 := x\<rparr>, Some s)"
    using deliver_reserves [OF Q K d l pe due] by blast
  let ?r = "r\<lparr>CallbackDelivery := Some a, IntegritySHA256 := x\<rparr>"
  have r2: "PendingEvents ?r = e # rest" "CallbackDelivery ?r = Some a" "accepting A \<or> CallbackRejectedTotal ?r \<noteq> max_u64"
    using pe room by simp_all
  have cong: "after_answer A e rest ?r = after_answer A e rest r" for A by (rule after_answer_cong) simp
  have A2: "A = broker W (accesses w2) (CallbackURL (CreateRequest s)) (''Bearer '' @ CallbackToken (CreateRequest s)) e"
    unfolding A w2(3) ..
  obtain res w' r' where "settleDeliveryV1 W sid s e ?now w2 = (res, w')" "posts w' = posts w2 @ [e]"
      "disk_ok K (store w')" "only_session sid w2 w'" "Load K (store w') sid = Inr (r', Some s)" "after_answer A e rest r r' res"
    using settle_outcome [OF Q K w2(4) l2 r2(1,2) quietD(3) [OF Q] r2(3) A2] unfolding cong by blast
  then show ?thesis unfolding w2(1,2) using only_session_trans [OF w2(5)] by blast
qed

text \<open>
  (C12) The broker's answer decides the outcome alone.  In quiet surroundings a delivery that is due
  posts exactly the head of the outbox, with the callback address and the token of its session,
  and then: 2xx acknowledges it; no answer, 408, 429 and 5xx keep it and record the status for the
  retry; any other status from 100 to 599 parks it as the newest dead letter and counts it; and a
  status outside that range is an error of the runner itself that leaves the event at the head.
\<close>

theorem delivery_outcome:
  assumes K: "crypto_ok K" and Q: "quiet K W" and d: "reachable K (store w)"
    and l: "Load K (store w) sid = Inr (r, Some s)" and pe: "PendingEvents r = e # rest"
    and due: "due r (time_now (env_of W (accesses w)))" and room: "CallbackRejectedTotal r \<noteq> max_u64"
  shows "\<exists>res w' r'. DeliverNext W sid w = (res, w') \<and> posts w' = posts w @ [e] \<and>
    Load K (store w') sid = Inr (r', Some s) \<and>
    after_answer (broker W (accesses w + 2) (CallbackURL (CreateRequest s))
                    (''Bearer '' @ CallbackToken (CreateRequest s)) e) e rest r r' res"
  using deliver_outcome [OF K Q reachable_disk_ok [OF d] l pe due refl] room by blast

subsection \<open>A sweep\<close>

definition always_due :: "surroundings \<Rightarrow> SessionRecordV1 \<Rightarrow> bool" where
  "always_due W r \<longleftrightarrow> (\<forall>n. due r (time_now (env_of W n)))"

definition always_accepting :: "surroundings \<Rightarrow> bool" where
  "always_accepting W \<longleftrightarrow> (\<forall>n url token e. accepting (broker W n url token e))"

lemma DeliverNext_empty:
  assumes Q: "quiet K W" and l: "Load K (store w) sid = Inr (r, so)" and pe: "PendingEvents r = []"
  shows "DeliverNext W sid w = (Inr False, w\<lparr>accesses := Suc (accesses w)\<rparr>)"
  using l pe friendlyD(4) [OF quiet_friendly [OF Q]] by (simp add: DeliverNext_def reach_store_quiet [OF Q])

lemma empty_outbox_due:
  assumes "crypto_ok K" and "disk_ok K d" and "Load K d sid = Inr (r, so)" and "PendingEvents r = []"
  shows "always_due W r"
proof -
  have "record_ok r" using load_Inr [OF assms(1,2)] assms(3) by (simp add: Load_def)
  then have "CallbackDelivery r = None" using assms(4) by (auto simp: record_ok_iff delivery_ok_def)
  then show ?thesis by (simp add: always_due_def due_def)
qed

lemma drain_accepted:
  assumes K: "crypto_ok K" and Q: "quiet K W" and acc: "always_accepting W"
  shows "disk_ok K (store w) \<Longrightarrow> Load K (store w) sid = Inr (r, so) \<Longrightarrow> length (PendingEvents r) \<le> n \<Longrightarrow>
    (PendingEvents r \<noteq> [] \<longrightarrow> so \<noteq> None) \<Longrightarrow> always_due W r \<Longrightarrow>
    \<exists>w' r'. drainOutboxV1 W sid n w = (Drained, w') \<and> disk_ok K (store w') \<and> only_session sid w w' \<and>
      Load K (store w') sid = Inr (r', so) \<and> PendingEvents r' = []"
proof (induction n arbitrary: w r)
  case (Suc n)
  show ?case
  proof (cases "PendingEvents r")
    case Nil
    then show ?thesis using Suc.prems DeliverNext_empty [OF Q Suc.prems(2) Nil] quietD(5) [OF Q] by simp
  next
    case (Cons e rest)
    then obtain s where so: "so = Some s" using Suc.prems(4) by auto
    have due: "due r (time_now (env_of W (accesses w)))" using Suc.prems(5) by (simp add: always_due_def)
    define A where "A = broker W (accesses w + 2) (CallbackURL (CreateRequest s)) (''Bearer '' @ CallbackToken (CreateRequest s)) e"
    have "accepting A" using acc by (simp add: always_accepting_def A_def)
    with deliver_outcome [OF K Q Suc.prems(1) _ Cons due A_def] Suc.prems(2)
    obtain res w1 r1 where 0: "DeliverNext W sid w = (res, w1)" "disk_ok K (store w1)" "only_session sid w w1"
        "Load K (store w1) sid = Inr (r1, Some s)" "after_answer A e rest r r1 res"
      unfolding so by blast
    then have 1: "DeliverNext W sid w = (Inr True, w1)" "disk_ok K (store w1)" "only_session sid w w1"
        "Load K (store w1) sid = Inr (r1, so)" "PendingEvents r1 = rest" "CallbackDelivery r1 = None"
      using \<open>accepting A\<close> by (auto simp: after_answer_def so)
    have "always_due W r1" using 1(6) by (simp add: always_due_def due_def)
    then obtain w' r' where "drainOutboxV1 W sid n w1 = (Drained, w')" "disk_ok K (store w')" "only_session sid w1 w'"
        "Load K (store w') sid = Inr (r', so)" "PendingEvents r' = []"
      using Suc.IH [OF 1(2,4)] 1(5) Cons Suc.prems(3) so by auto
    then show ?thesis using 1 quietD(5) [OF Q] only_session_trans by auto
  qed
qed simp

text \<open>Erasing the secrets of a finished session.\<close>

lemma clear_quiet:
  assumes K: "crypto_ok K" and Q: "quiet K W" and d: "disk_ok K (store w)"
    and l: "Load K (store w) sid = Inr (r, so)" and fin: "State r \<noteq> ''active''" "PendingEvents r = []"
  shows "\<exists>w' r'. store_call_of W w (\<lambda>E d. ClearTerminalSecrets E d sid) = (Inr (), w') \<and> disk_ok K (store w') \<and>
    only_session sid w w' \<and> Load K (store w') sid = Inr (r', None) \<and> PendingEvents r' = []"
proof -
  let ?E = "env_of W (accesses w)"
  let ?r = "r\<lparr>WrappedKeyNonce := [], WrappedKeyCiphertext := [], SecretNonce := [], SecretCiphertext := []\<rparr>"
  note F = friendlyD [OF quiet_friendly [OF Q]]
  have dd: "disk_ok ?E (store w)" and ll: "Load ?E (store w) sid = Inr (r, so)" using d l by (simp_all add: F)
  then have r: "record_ok r" "opened ?E r so" using load_Inr [OF F(2)] by (auto simp: Load_def)
  have st: "ClearTerminalSecrets_step r so = Inr ((), Some ?r)" using fin by (simp add: ClearTerminalSecrets_step_def)
  obtain so' where r': "record_ok ?r" "advances r ?r" "opened ?E ?r so'"
    using clear.step_keeps [OF F(2) r TrueI st] by blast
  then have "so' = None" by (auto simp: opened_def split: option.splits)
  with load_after_update [where step = ClearTerminalSecrets_step, OF F(2) dd ll st r' quietD(1) [OF Q]]
  obtain d' where "update_session ?E (store w) sid ClearTerminalSecrets_step = (Inr (), d')" "disk_ok ?E d'"
      "Load ?E d' sid = Inr (?r\<lparr>IntegritySHA256 := integrityV1 ?E ?r\<rparr>, None)" by auto
  moreover have "map_of (Files (snd (update_session ?E (store w) sid ClearTerminalSecrets_step))) x = map_of (Files (store w)) x"
    if "x \<noteq> sid" for x using clear.update_frame(1) [OF F(2) dd _ that] by blast
  ultimately show ?thesis
    using fin by (auto simp: store_call_of_def reach_store_quiet [OF Q] ClearTerminalSecrets_def F only_session_def)
qed

text \<open>What a sweep leaves of a session: an empty outbox, and no secrets once it is terminal.\<close>

definition swept :: "env \<Rightarrow> worker \<Rightarrow> string \<Rightarrow> bool" where
  "swept K w sid \<longleftrightarrow>
     (\<exists>r so. Load K (store w) sid = Inr (r, so) \<and> PendingEvents r = [] \<and> (State r = ''active'' \<or> so = None))"

definition ready :: "env \<Rightarrow> surroundings \<Rightarrow> worker \<Rightarrow> SessionRecordV1 \<Rightarrow> bool" where
  "ready K W w r \<longleftrightarrow>
     (\<exists>c so. Load K (store w) (BrokerSessionID r) = Inr (c, so) \<and> length (PendingEvents c) \<le> length (PendingEvents r) \<and>
        (PendingEvents c \<noteq> [] \<longrightarrow> so \<noteq> None) \<and> always_due W c)"

lemma only_session_ready: "only_session sid w w' \<Longrightarrow> BrokerSessionID r \<noteq> sid \<Longrightarrow> ready K W w' r = ready K W w r"
  using load_frame [of "store w'" "BrokerSessionID r" "store w" K] by (simp add: ready_def only_session_def)

lemma only_session_swept: "only_session sid w w' \<Longrightarrow> x \<noteq> sid \<Longrightarrow> swept K w' x = swept K w x"
  using load_frame [of "store w'" x "store w" K] by (simp add: swept_def only_session_def)

lemma swept_ready:
  assumes "crypto_ok K" and "disk_ok K (store w)" and "swept K w (BrokerSessionID r)"
  shows "ready K W w r"
  using assms(3) empty_outbox_due [OF assms(1,2)] unfolding swept_def ready_def by fastforce

lemma sweep_one:
  assumes K: "crypto_ok K" and Q: "quiet K W" and acc: "always_accepting W"
    and d: "disk_ok K (store w)" and rdy: "ready K W w r"
  shows "\<exists>w'. sweepRecordsV1 W (r # rs) w = sweepRecordsV1 W rs w' \<and> disk_ok K (store w') \<and>
    only_session (BrokerSessionID r) w w' \<and> swept K w' (BrokerSessionID r)"
proof -
  let ?sid = "BrokerSessionID r"
  note F = friendlyD [OF quiet_friendly [OF Q]]
  obtain c so where c: "Load K (store w) ?sid = Inr (c, so)" "length (PendingEvents c) \<le> length (PendingEvents r)"
      "PendingEvents c \<noteq> [] \<longrightarrow> so \<noteq> None" "always_due W c" using rdy by (auto simp: ready_def)
  obtain w1 c1 where 1: "drainOutboxV1 W ?sid (length (PendingEvents r)) w = (Drained, w1)" "disk_ok K (store w1)"
      "only_session ?sid w w1" "Load K (store w1) ?sid = Inr (c1, so)" "PendingEvents c1 = []"
    using drain_accepted [OF K Q acc d c] by blast
  define w2 where "w2 = w1\<lparr>accesses := Suc (accesses w1)\<rparr>"
  have 2: "disk_ok K (store w2)" "Load K (store w2) ?sid = Inr (c1, so)" "only_session ?sid w w2"
    using 1 by (simp_all add: w2_def)
  have step: "sweepRecordsV1 W (r # rs) w =
      (if State c1 \<noteq> ''active'' \<and> so \<noteq> None
       then (case store_call_of W w2 (\<lambda>E d. ClearTerminalSecrets E d ?sid) of
               (Inl e, w3) \<Rightarrow> (Some e, w3) | (Inr _, w3) \<Rightarrow> sweepRecordsV1 W rs w3)
       else sweepRecordsV1 W rs w2)"
    using 1 2 by (simp add: reach_store_quiet [OF Q] F w2_def)
  show ?thesis
  proof (cases "State c1 \<noteq> ''active'' \<and> so \<noteq> None")
    case True
    obtain w3 c3 where "store_call_of W w2 (\<lambda>E d. ClearTerminalSecrets E d ?sid) = (Inr (), w3)" "disk_ok K (store w3)"
        "only_session ?sid w2 w3" "Load K (store w3) ?sid = Inr (c3, None)" "PendingEvents c3 = []"
      using clear_quiet [OF K Q 2(1,2)] 1(5) True by blast
    then show ?thesis using step True only_session_trans [OF 2(3)] by (auto simp: swept_def)
  next
    case False
    then show ?thesis unfolding step using 1(5) 2 by (auto simp: swept_def)
  qed
qed

lemma sweep_records:
  assumes K: "crypto_ok K" and Q: "quiet K W" and acc: "always_accepting W"
  shows "disk_ok K (store w) \<Longrightarrow> \<forall>r\<in>set rs. ready K W w r \<Longrightarrow>
    \<exists>w'. sweepRecordsV1 W rs w = (None, w') \<and> (\<forall>r\<in>set rs. swept K w' (BrokerSessionID r)) \<and>
      (\<forall>x. x \<notin> BrokerSessionID ` set rs \<longrightarrow> map_of (Files (store w')) x = map_of (Files (store w)) x) \<and>
      (\<forall>x. swept K w x \<longrightarrow> swept K w' x)"
proof (induction rs arbitrary: w)
  case (Cons r rs)
  obtain w1 where 1: "sweepRecordsV1 W (r # rs) w = sweepRecordsV1 W rs w1" "disk_ok K (store w1)"
      "only_session (BrokerSessionID r) w w1" "swept K w1 (BrokerSessionID r)"
    using sweep_one [OF K Q acc Cons.prems(1)] Cons.prems(2) by (metis list.set_intros(1))
  have "ready K W w1 q" if "q \<in> set rs" for q
  proof (cases "BrokerSessionID q = BrokerSessionID r")
    case True
    then have "swept K w1 (BrokerSessionID q)" using 1(4) by simp
    then show ?thesis by (rule swept_ready [OF K 1(2)])
  next
    case False
    then show ?thesis using that Cons.prems(2) only_session_ready [OF 1(3)] by simp
  qed
  then obtain w' where 2: "sweepRecordsV1 W rs w1 = (None, w')" "\<forall>r\<in>set rs. swept K w' (BrokerSessionID r)"
      "\<forall>x. x \<notin> BrokerSessionID ` set rs \<longrightarrow> map_of (Files (store w')) x = map_of (Files (store w1)) x"
      "\<forall>x. swept K w1 x \<longrightarrow> swept K w' x"
    using Cons.IH [OF 1(2)] by blast
  have "swept K w x \<Longrightarrow> swept K w1 x" for x
    using only_session_swept [OF 1(3)] 1(4) by (cases "x = BrokerSessionID r") auto
  with 1 2 show ?case by (auto simp: only_session_def)
qed simp

text \<open>What the scan at the start of a sweep finds.\<close>

lemma sweep_scan:
  assumes K: "crypto_ok K" and Q: "quiet K W" and d: "reachable K (store w)"
    and due: "\<forall>sid r so. Load K (store w) sid = Inr (r, so) \<longrightarrow> always_due W r"
  obtains w1 rs where "SweepOnce W w = sweepRecordsV1 W rs w1" "store w1 = store w"
    "\<forall>r\<in>set rs. ready K W w1 r \<and> (\<exists>so. Load K (store w1) (BrokerSessionID r) = Inr (r, so))"
    "\<forall>sid r so. Load K (store w1) sid = Inr (r, so) \<longrightarrow> r \<in> set rs \<or> swept K w1 sid"
    "\<forall>sid r so. Load K (store w1) sid = Inr (r, so) \<longrightarrow> PendingEvents r \<noteq> [] \<longrightarrow> r \<in> set rs"
proof -
  let ?E = "env_of W (accesses w)"
  note F = friendlyD [OF quiet_friendly [OF Q]] and ok = reachable_disk_ok [OF d]
  define w1 where "w1 = w\<lparr>accesses := Suc (accesses w)\<rparr>"
  have "disk_ok ?E (store w)" using ok by (simp add: F(5))
  from recoverable_value [OF F(2) this quietD(2) [OF Q]] obtain rs where
    rs: "Recoverable ?E (store w) = Inr rs" and set: "set rs = {r. \<exists>sid so. Load K (store w) sid = Inr (r, so) \<and>
           (State r = ''active'' \<or> PendingEvents r \<noteq> [] \<or> WrappedKeyCiphertext r \<noteq> [])}"
    unfolding F(4) by blast
  have entry: "map_of (Files (store w)) sid = Some (FRecord r) \<and> opened K r so \<and> BrokerSessionID r = sid"
    if "Load K (store w) sid = Inr (r, so)" for sid r so
    using load_Inr [OF K ok] that by (simp add: Load_def)
  have secrets: "so \<noteq> None" if "Load K (store w) sid = Inr (r, so)" "PendingEvents r \<noteq> []" for sid r so
    using reachable_creds [OF d] entry [OF that(1)] that(2) by (auto simp: disk_creds_def creds_ok_def opened_def split: option.splits)
  have "ready K W w1 r \<and> (\<exists>so. Load K (store w1) (BrokerSessionID r) = Inr (r, so))" if "r \<in> set rs" for r
  proof -
    obtain sid so where l: "Load K (store w) sid = Inr (r, so)" using \<open>r \<in> set rs\<close> unfolding set by blast
    have "BrokerSessionID r = sid" using entry [OF l] by blast
    with l show ?thesis using secrets [OF l] due by (auto simp: ready_def w1_def)
  qed
  moreover have "r \<in> set rs \<or> swept K w1 sid" if l: "Load K (store w1) sid = Inr (r, so)" for sid r so
  proof (cases "r \<in> set rs")
    case False
    have l': "Load K (store w) sid = Inr (r, so)" using l by (simp add: w1_def)
    then have "PendingEvents r = []" "WrappedKeyCiphertext r = []" using False unfolding set by blast+
    then show ?thesis using l entry [OF l'] by (auto simp: swept_def opened_def split: option.splits)
  qed simp
  moreover have "r \<in> set rs" if "Load K (store w1) sid = Inr (r, so)" "PendingEvents r \<noteq> []" for sid r so
    using that unfolding set by (auto simp: w1_def)
  moreover have "SweepOnce W w = sweepRecordsV1 W rs w1"
    using rs by (simp add: SweepOnce_def reach_store_quiet [OF Q] w1_def)
  ultimately show ?thesis using that [of rs w1] by (simp add: w1_def)
qed

text \<open>
  (C13) A sweep drains everything a willing broker accepts.  In quiet surroundings, when every request
  is answered with 2xx and no retry is waiting, one sweep succeeds, and after it every session has
  an empty outbox and every terminal session has lost its secrets: no event is left behind, in
  whatever number and order the sessions held them.
\<close>

theorem sweep_drains:
  assumes K: "crypto_ok K" and Q: "quiet K W" and d: "reachable K (store w)" and acc: "always_accepting W"
    and due: "\<forall>sid r so. Load K (store w) sid = Inr (r, so) \<longrightarrow> always_due W r"
  shows "\<exists>w'. SweepOnce W w = (None, w') \<and>
    (\<forall>sid r so. Load K (store w') sid = Inr (r, so) \<longrightarrow> PendingEvents r = [] \<and> (State r = ''active'' \<or> so = None))"
proof (rule sweep_scan [OF K Q d due])
  fix w1 rs
  assume sw: "SweepOnce W w = sweepRecordsV1 W rs w1" and st: "store w1 = store w"
    and rdy: "\<forall>r\<in>set rs. ready K W w1 r \<and> (\<exists>so. Load K (store w1) (BrokerSessionID r) = Inr (r, so))"
    and rest: "\<forall>sid r so. Load K (store w1) sid = Inr (r, so) \<longrightarrow> r \<in> set rs \<or> swept K w1 sid"
  have ok: "disk_ok K (store w1)" using reachable_disk_ok [OF d] st by simp
  from sweep_records [OF K Q acc ok] rdy obtain w' where
    w': "sweepRecordsV1 W rs w1 = (None, w')" "\<forall>r\<in>set rs. swept K w' (BrokerSessionID r)"
        "\<forall>x. x \<notin> BrokerSessionID ` set rs \<longrightarrow> map_of (Files (store w')) x = map_of (Files (store w1)) x"
        "\<forall>x. swept K w1 x \<longrightarrow> swept K w' x" by blast
  have "swept K w' sid" if l: "Load K (store w') sid = Inr (r, so)" for sid r so
  proof (cases "sid \<in> BrokerSessionID ` set rs")
    case False
    then have "Load K (store w1) sid = Inr (r, so)" using l w'(3) load_frame [of "store w'" sid "store w1" K] by simp
    moreover from this have "BrokerSessionID r = sid" using load_Inr [OF K ok] by (simp add: Load_def)
    ultimately show ?thesis using rest w'(4) False by blast
  qed (use w'(2) in auto)
  then show ?thesis using w'(1) sw by (fastforce simp: swept_def)
qed

subsection \<open>A status outside the known range\<close>

definition emptied :: "env \<Rightarrow> worker \<Rightarrow> string \<Rightarrow> bool" where
  "emptied K w sid \<longleftrightarrow> (\<exists>c so. Load K (store w) sid = Inr (c, so) \<and> PendingEvents c = [])"

lemma sweep_skips_empty:
  assumes K: "crypto_ok K" and Q: "quiet K W" and d: "disk_ok K (store w)"
    and em: "emptied K w (BrokerSessionID r)" and pe: "PendingEvents r = []"
  shows "\<exists>w'. sweepRecordsV1 W (r # rs) w = sweepRecordsV1 W rs w' \<and> disk_ok K (store w') \<and>
    only_session (BrokerSessionID r) w w' \<and> emptied K w' (BrokerSessionID r)"
proof -
  note F = friendlyD [OF quiet_friendly [OF Q]]
  obtain c so where l: "Load K (store w) (BrokerSessionID r) = Inr (c, so)" "PendingEvents c = []"
    using em by (auto simp: emptied_def)
  define w2 where "w2 = w\<lparr>accesses := Suc (accesses w)\<rparr>"
  have 2: "disk_ok K (store w2)" "Load K (store w2) (BrokerSessionID r) = Inr (c, so)" "only_session (BrokerSessionID r) w w2"
    using d l by (simp_all add: w2_def)
  show ?thesis
  proof (cases "State c \<noteq> ''active'' \<and> so \<noteq> None")
    case True
    obtain w3 c3 where 3: "store_call_of W w2 (\<lambda>E d. ClearTerminalSecrets E d (BrokerSessionID r)) = (Inr (), w3)"
        "disk_ok K (store w3)" "only_session (BrokerSessionID r) w2 w3" "Load K (store w3) (BrokerSessionID r) = Inr (c3, None)"
        "PendingEvents c3 = []"
      using clear_quiet [OF K Q 2(1,2)] True l(2) by blast
    then have "sweepRecordsV1 W (r # rs) w = sweepRecordsV1 W rs w3"
      using True 2 pe l by (auto simp: reach_store_quiet [OF Q] F(4) w2_def)
    then show ?thesis using 3 only_session_trans [OF 2(3)] by (auto simp: emptied_def)
  next
    case False
    then have "sweepRecordsV1 W (r # rs) w = sweepRecordsV1 W rs w2"
      using 2 pe l by (auto simp: reach_store_quiet [OF Q] F(4) w2_def)
    then show ?thesis using 2 l(2) by (auto simp: emptied_def)
  qed
qed

definition unread :: "env \<Rightarrow> surroundings \<Rightarrow> worker \<Rightarrow> SessionRecordV1 \<Rightarrow> bool" where
  "unread K W w r \<longleftrightarrow>
     (if PendingEvents r = [] then emptied K w (BrokerSessionID r)
      else ready K W w r \<and> (\<exists>so. Load K (store w) (BrokerSessionID r) = Inr (r, so)))"

lemma sweep_aborts:
  assumes K: "crypto_ok K" and Q: "quiet K W" and bad: "\<forall>n url token e. \<exists>c b. broker W n url token e = Answer c b \<and> c \<ge> 600"
  shows "disk_ok K (store w) \<Longrightarrow> \<exists>r\<in>set rs. PendingEvents r \<noteq> [] \<Longrightarrow> \<forall>r\<in>set rs. unread K W w r \<Longrightarrow>
    \<exists>x w'. sweepRecordsV1 W rs w = (Some x, w')"
proof (induction rs arbitrary: w)
  case (Cons r rs)
  show ?case
  proof (cases "PendingEvents r")
    case Nil
    then have em: "emptied K w (BrokerSessionID r)" using Cons.prems(3) by (simp add: unread_def)
    obtain w' where w': "sweepRecordsV1 W (r # rs) w = sweepRecordsV1 W rs w'" "disk_ok K (store w')"
        "only_session (BrokerSessionID r) w w'" "emptied K w' (BrokerSessionID r)"
      using sweep_skips_empty [OF K Q Cons.prems(1) em Nil] by blast
    have "unread K W w' q" if "q \<in> set rs" for q
    proof (cases "BrokerSessionID q = BrokerSessionID r")
      case True
      then show ?thesis using that Cons.prems(3) em w'(4) by (auto simp: unread_def emptied_def split: if_splits)
    next
      case False
      then show ?thesis using that Cons.prems(3) only_session_ready [OF w'(3)] w'(3)
          load_frame [of "store w'" "BrokerSessionID q" "store w" K] by (auto simp: only_session_def unread_def emptied_def)
    qed
    then show ?thesis using Cons.IH [OF w'(2)] Cons.prems(2) Nil w'(1) by simp
  next
    case (Cons e rest)
    then obtain so where l: "Load K (store w) (BrokerSessionID r) = Inr (r, so)" and rdy: "ready K W w r"
      using Cons.prems(3) by (auto simp: unread_def)
    obtain s where s: "so = Some s" using rdy l Cons by (auto simp: ready_def)
    have due: "due r (time_now (env_of W (accesses w)))" using rdy l by (auto simp: ready_def always_due_def)
    define A where "A = broker W (accesses w + 2) (CallbackURL (CreateRequest s)) (''Bearer '' @ CallbackToken (CreateRequest s)) e"
    obtain c b where A: "A = Answer c b" "c \<ge> 600" using bad unfolding A_def by blast
    have "\<exists>x w'. DeliverNext W (BrokerSessionID r) w = (Inl (OtherError x), w')"
    proof -
      obtain w2 where w2: "DeliverNext W (BrokerSessionID r) w = settleDeliveryV1 W (BrokerSessionID r) s e (time_now (env_of W (accesses w))) w2"
          "accesses w2 = accesses w + 2"
        using deliver_reserves [OF Q K Cons.prems(1) _ Cons due] l s by blast
      have "ParkCallbackRejection E d (BrokerSessionID r) (EventID e) c x t = (fails ''callback rejection is invalid'', d)" for E d x t
        using A(2) by (simp add: ParkCallbackRejection_def validCallbackFailureV1_def)
      then show ?thesis using A unfolding w2(1) A_def w2(2) [symmetric]
        by (auto simp: settleDeliveryV1_def recordAnswerV1_def store_call_of_def reach_store_quiet [OF Q]
            callbackStatusRetryableV1_def fails_def Let_def)
    qed
    then show ?thesis using Cons quietD(5) [OF Q] by auto
  qed
qed simp

text \<open>
  (C14) The worker does not survive an answer outside the HTTP status classes.  If the broker
  answers with a status of 600 or more, as \<open>net/http\<close> lets it, the rejection can be neither
  retried nor parked; the sweep returns the error of the store, the worker's loop returns it, and
  the runner, which ends when its worker ends, goes down with every session.
\<close>

theorem unknown_status_stops_worker:
  assumes K: "crypto_ok K" and Q: "quiet K W" and d: "reachable K (store w)"
    and due: "\<forall>sid r so. Load K (store w) sid = Inr (r, so) \<longrightarrow> always_due W r"
    and bad: "\<forall>n url token e. \<exists>c b. broker W n url token e = Answer c b \<and> c \<ge> 600"
    and work: "Load K (store w) sid = Inr (r, so)" "PendingEvents r \<noteq> []"
  shows "\<exists>x w'. SweepOnce W w = (Some x, w') \<and> callbackWorkerRun W (Suc n) w = (Some (Some x), w')"
proof (rule sweep_scan [OF K Q d due])
  fix w1 rs
  assume sw: "SweepOnce W w = sweepRecordsV1 W rs w1" and st: "store w1 = store w"
    and rdy: "\<forall>r\<in>set rs. ready K W w1 r \<and> (\<exists>so. Load K (store w1) (BrokerSessionID r) = Inr (r, so))"
    and found: "\<forall>sid r so. Load K (store w1) sid = Inr (r, so) \<longrightarrow> PendingEvents r \<noteq> [] \<longrightarrow> r \<in> set rs"
  have "r \<in> set rs" using found work st by auto
  moreover have "\<forall>r\<in>set rs. unread K W w1 r" using rdy by (auto simp: unread_def emptied_def)
  ultimately obtain x w' where "sweepRecordsV1 W rs w1 = (Some x, w')"
    using sweep_aborts [OF K Q bad, of w1 rs] reachable_disk_ok [OF d] st work by auto
  then show ?thesis using sw quietD(5) [OF Q] by simp
qed

end
