(* ===== verification/Callback_Witnesses.thy ===== *)
theory Callback_Witnesses
  imports Session_Witnesses Callback_Liveness
begin

section \<open>The callback properties on a concrete session\<close>

text \<open>The example session with its start event in the outbox, and a broker that always gives the same answer.\<close>

definition same_answer :: "answer \<Rightarrow> surroundings" where
  "same_answer a = \<lparr>env_of = (\<lambda>_. example_env), between = (\<lambda>_ d. d), broker = (\<lambda>_ _ _ _. a), cancelled = (\<lambda>_. False)\<rparr>"

definition started_worker :: worker where
  "started_worker = \<lparr>store = started_disk, accesses = 0, posts = [], rejections = []\<rparr>"

lemma same_answer_quiet [simp]: "quiet example_env (same_answer a)"
  by (simp add: quiet_def calm_def same_answer_def) (simp add: example_env_def zero_time_def)

lemma same_answer_friendly [simp]: "friendly example_env (same_answer a)"
  by (simp add: quiet_friendly)

lemma started_store [simp]: "store started_worker = started_disk" "accesses started_worker = 0" "posts started_worker = []"
  by (simp_all add: started_worker_def)

lemma started_only: "Load example_env started_disk sid = Inr (r, so) \<Longrightarrow> sid = ''s1''"
proof (rule ccontr)
  assume l: "Load example_env started_disk sid = Inr (r, so)" and other: "sid \<noteq> ''s1''"
  have "\<forall>r so. loadLocked example_env example_disk ''s1'' = Inr (r, so) \<longrightarrow> advance_admits start_event r"
    by (simp add: advance_admits_def start_event_def)
  from advance.update_absent [OF example_env_ok reachable_disk_ok [OF example_reachable] this, of sid] other
  have "map_of (Files started_disk) sid = None"
    by (simp add: example_create started_disk_def Advance_def)
  then show False using l by (auto simp: Load_def loadLocked_def split: if_splits)
qed

lemma started_due: "\<forall>sid r so. Load example_env started_disk sid = Inr (r, so) \<longrightarrow> always_due W r"
  using started_load(2) started_only by (fastforce simp: always_due_def due_def)

theorem pending_events_have_credentials_witness:
  "\<exists>r s. Load example_env started_disk ''s1'' = Inr (r, Some s) \<and> PendingEvents r = [start_event] \<and>
     CallbackToken (CreateRequest s) \<noteq> []"
proof -
  obtain r so where l: "Load example_env started_disk ''s1'' = Inr (r, so)" "PendingEvents r = [start_event]"
    using started_load(2) by blast
  then show ?thesis using pending_events_have_credentials [OF example_env_ok started_load(1) l(1)] by auto
qed



theorem delivery_outcome_witness:
  "\<exists>w'. DeliverNext (same_answer (Answer 204 [])) ''s1'' started_worker = (Inr True, w') \<and> posts w' = [start_event]"
proof -
  obtain r s where l: "Load example_env started_disk ''s1'' = Inr (r, Some s)" "PendingEvents r = [start_event]"
    using pending_events_have_credentials_witness by blast
  then have d: "CallbackDelivery r = None" "CallbackRejectedTotal r = 0" using started_load(2) by auto
  have "\<exists>res w' r'. DeliverNext (same_answer (Answer 204 [])) ''s1'' started_worker = (res, w') \<and>
      posts w' = posts started_worker @ [start_event] \<and> Load example_env (store w') ''s1'' = Inr (r', Some s) \<and>
      after_answer (broker (same_answer (Answer 204 [])) (accesses started_worker + 2) (CallbackURL (CreateRequest s))
        (''Bearer '' @ CallbackToken (CreateRequest s)) start_event) start_event [] r r' res"
    by (rule delivery_outcome [OF example_env_ok same_answer_quiet])
      (use l d started_load(1) in \<open>auto simp: due_def max_u64_def\<close>)
  then show ?thesis by (auto simp: after_answer_def same_answer_def)
qed

theorem sweep_drains_witness:
  "\<exists>w' r so. SweepOnce (same_answer (Answer 200 [])) started_worker = (None, w') \<and>
     Load example_env (store w') ''s1'' = Inr (r, so) \<and> PendingEvents r = []"
proof -
  have "always_accepting (same_answer (Answer 200 []))" by (simp add: always_accepting_def same_answer_def)
  from sweep_drains [OF example_env_ok same_answer_quiet _ this, of started_worker] started_due started_load(1)
  obtain w' where w': "SweepOnce (same_answer (Answer 200 [])) started_worker = (None, w')"
      "\<forall>sid r so. Load example_env (store w') sid = Inr (r, so) \<longrightarrow> PendingEvents r = [] \<and> (State r = ''active'' \<or> so = None)"
    by auto
  obtain r so where "Load example_env started_disk ''s1'' = Inr (r, so)" using started_load(2) by blast
  with runs_loads [OF sweep_runs [OF same_answer_friendly w'(1)] _ example_env_ok, of "''s1''" r so]
  obtain r' so' where "Load example_env (store w') ''s1'' = Inr (r', so')"
    using reachable_disk_ok [OF started_load(1)] by (metis started_store(1))
  with w' show ?thesis by blast
qed

theorem unknown_status_stops_worker_witness:
  "\<exists>x w'. callbackWorkerRun (same_answer (Answer 600 [])) 1 started_worker = (Some (Some x), w')"
proof -
  obtain r so where l: "Load example_env started_disk ''s1'' = Inr (r, so)" "PendingEvents r \<noteq> []"
    using started_load(2) by fastforce
  have "\<exists>x w'. SweepOnce (same_answer (Answer 600 [])) started_worker = (Some x, w') \<and>
      callbackWorkerRun (same_answer (Answer 600 [])) (Suc 0) started_worker = (Some (Some x), w')"
    by (rule unknown_status_stops_worker [OF example_env_ok same_answer_quiet, where sid = "''s1''" and r = r and so = so])
      (use l started_load(1) started_due in \<open>auto simp: same_answer_def\<close>)
  then show ?thesis by auto
qed

end
