(* ===== verification/Live_Media.thy ===== *)
theory Live_Media
  imports Store_Client
begin

section \<open>Media paths, stream keys and media authorisation (live-runner/media.go)\<close>

text \<open>
  The names under which MediaMTX serves a session, the private key a publisher pushes with, the
  configuration file of MediaMTX, and the decision whether MediaMTX may let a connection in.  The
  lookup of a session is the store's \<open>LoadByRunnerSessionID\<close>; the HTTP frame around the
  decision (method, size limit, JSON decoding) is \<open>authorizeHTTP\<close>.
\<close>

subsection \<open>Listen addresses\<close>

text \<open>\<open>net.SplitHostPort\<close>: host and port, \<open>None\<close> for an error.\<close>

definition split_host_port :: "string \<Rightarrow> (string \<times> string) option" where
  "split_host_port s =
     (case cut_last (CHR '':'') s of
        None \<Rightarrow> None
      | Some (h, p) \<Rightarrow>
          if has_prefix s ''['' then
            (case cut_at (CHR '']'') s of
               None \<Rightarrow> None
             | Some (inner, rest) \<Rightarrow>
                 if rest \<noteq> CHR '':'' # p then None
                 else if CHR ''['' \<in> set (tl inner) \<or> CHR ''['' \<in> set rest \<or> CHR '']'' \<in> set rest then None
                 else Some (tl inner, p))
          else if CHR '':'' \<in> set h then None
          else if CHR ''['' \<in> set s \<or> CHR '']'' \<in> set s then None
          else Some (h, p))"

text \<open>
  \<open>net.ParseIP\<close>: an IPv4 address as its four bytes, an IPv6 address as its eight 16-bit
  groups; a zone is an error.
\<close>

definition parse_octet :: "string \<Rightarrow> nat option" where
  "parse_octet s =
     (if s = [] \<or> length s > 3 \<or> \<not> list_all is_digit s \<or> (length s > 1 \<and> hd s = CHR ''0'') then None
      else if nat_of_digits s > 255 then None else Some (nat_of_digits s))"

definition parse_ipv4 :: "string \<Rightarrow> nat list option" where
  "parse_ipv4 s =
     (let ps = map parse_octet (split_at (CHR ''.'') s)
      in if length ps = 4 \<and> None \<notin> set ps then Some (map the ps) else None)"

fun hex_value :: "nat \<Rightarrow> string \<Rightarrow> nat option" where
  "hex_value acc [] = Some acc"
| "hex_value acc (c # cs) = (case hex_val c of None \<Rightarrow> None | Some d \<Rightarrow> hex_value (acc * 16 + d) cs)"

definition parse_group :: "string \<Rightarrow> nat option" where
  "parse_group s = (if s = [] \<or> length s > 4 then None else hex_value 0 s)"

text \<open>Groups separated by single colons; the last piece may be an IPv4 address.\<close>

fun parse_groups :: "string list \<Rightarrow> nat list option" where
  "parse_groups [] = Some []"
| "parse_groups [p] =
     (if CHR ''.'' \<in> set p
      then (case parse_ipv4 p of Some [a, b, c, d] \<Rightarrow> Some [a * 256 + b, c * 256 + d] | _ \<Rightarrow> None)
      else map_option (\<lambda>g. [g]) (parse_group p))"
| "parse_groups (p # ps) =
     (case parse_group p of None \<Rightarrow> None | Some g \<Rightarrow> map_option ((#) g) (parse_groups ps))"

definition groups_of :: "string \<Rightarrow> nat list option" where
  "groups_of s = (if s = [] then Some [] else parse_groups (split_at (CHR '':'') s))"

text \<open>The parts before and after the first double colon.\<close>

fun cut_double :: "string \<Rightarrow> (string \<times> string) option" where
  "cut_double (a # b # s) =
     (if a = CHR '':'' \<and> b = CHR '':'' then Some ([], s)
      else map_option (\<lambda>(x, y). (a # x, y)) (cut_double (b # s)))"
| "cut_double _ = None"

definition parse_ipv6 :: "string \<Rightarrow> nat list option" where
  "parse_ipv6 s =
     (case cut_double s of
        None \<Rightarrow> (case groups_of s of Some gs \<Rightarrow> if length gs = 8 then Some gs else None | None \<Rightarrow> None)
      | Some (l, r) \<Rightarrow>
          if CHR ''.'' \<in> set l then None
          else (case (groups_of l, groups_of r) of
                  (Some ls, Some rs) \<Rightarrow>
                    if length ls + length rs < 8 then Some (ls @ replicate (8 - length ls - length rs) 0 @ rs) else None
                | _ \<Rightarrow> None))"

text \<open>\<open>net.ParseIP(host).IsLoopback()\<close>; an IPv4-mapped address counts as its IPv4 address.\<close>

definition is_loopback_ip :: "string \<Rightarrow> bool" where
  "is_loopback_ip s \<longleftrightarrow>
     (case parse_ipv4 s of
        Some o4 \<Rightarrow> hd o4 = 127
      | None \<Rightarrow>
          (case parse_ipv6 s of
             None \<Rightarrow> False
           | Some gs \<Rightarrow> gs = [0, 0, 0, 0, 0, 0, 0, 1] \<or> (take 6 gs = [0, 0, 0, 0, 0, 65535] \<and> gs ! 6 div 256 = 127)))"

definition validateListenAddressV1 :: "string \<Rightarrow> bool \<Rightarrow> error" where
  "validateListenAddressV1 address loopbackOnly =
     (case split_host_port address of
        None \<Rightarrow> err ''listen address is invalid''
      | Some (host, port) \<Rightarrow>
          if port = [] then err ''listen address is invalid''
          else (case atoi port of
            None \<Rightarrow> err ''listen port is invalid''
          | Some n \<Rightarrow>
              if n < 1 \<or> n > 65535 then err ''listen port is invalid''
              else if \<not> loopbackOnly then None
              else if host \<noteq> ''localhost'' \<and> \<not> is_loopback_ip host
              then err ''listen address must be loopback-only'' else None))"

subsection \<open>The configuration of MediaMTX\<close>

record MediaMTXConfigV1 =
  AuthHTTPAddress :: string
  RTMPAddress :: string
  HLSAddress :: string
  APIAddress :: string
  MetricsAddress :: string
  ReadTimeout :: duration
  WriteTimeout :: duration
  SegmentDuration :: duration
  PartDuration :: duration
  SegmentCount :: u32

definition DefaultMediaMTXConfigV1 :: "string \<Rightarrow> MediaMTXConfigV1" where
  "DefaultMediaMTXConfigV1 authHTTPAddress =
     \<lparr>AuthHTTPAddress = authHTTPAddress, RTMPAddress = '':1935'', HLSAddress = ''127.0.0.1:8888'',
      APIAddress = ''127.0.0.1:9997'', MetricsAddress = ''127.0.0.1:9998'',
      ReadTimeout = 10 * second, WriteTimeout = 10 * second, SegmentDuration = second,
      PartDuration = 200 * millisecond, SegmentCount = 7\<rparr>"

text \<open>\<open>Duration.String\<close> of a positive duration.\<close>

definition frac_text :: "nat \<Rightarrow> int \<Rightarrow> string" where
  "frac_text digits f =
     (if f = 0 then [] else CHR ''.'' # trim_right_by (\<lambda>c. c = CHR ''0'') (pad_left digits (fmt_int f)))"

definition duration_text :: "duration \<Rightarrow> string" where
  "duration_text d =
     (if d < 1000 then fmt_int d @ ''ns''
      else if d < 1000000 then fmt_int (d div 1000) @ frac_text 3 (d mod 1000) @ [char_of (194::nat), char_of (181::nat)] @ ''s''
      else if d < second then fmt_int (d div 1000000) @ frac_text 6 (d mod 1000000) @ ''ms''
      else (let secs = d div second; f = frac_text 9 (d mod second)
            in if secs < 60 then fmt_int secs @ f @ ''s''
               else if secs < 3600 then fmt_int (secs div 60) @ ''m'' @ fmt_int (secs mod 60) @ f @ ''s''
               else fmt_int (secs div 3600) @ ''h'' @ fmt_int (secs div 60 mod 60) @ ''m'' @ fmt_int (secs mod 60) @ f @ ''s''))"

definition RenderMediaMTXConfigV1 :: "MediaMTXConfigV1 \<Rightarrow> string result" where
  "RenderMediaMTXConfigV1 v =
     (if validateHTTPURL (AuthHTTPAddress v) \<noteq> None then fails ''MediaMTX auth address is invalid''
      else case validateListenAddressV1 (RTMPAddress v) False of Some e \<Rightarrow> Inl (ErrWrap ''MediaMTX RTMP address'' e)
      | None \<Rightarrow>
      case validateListenAddressV1 (HLSAddress v) True of Some e \<Rightarrow> Inl (ErrWrap ''MediaMTX HLS address'' e)
      | None \<Rightarrow>
      case validateListenAddressV1 (APIAddress v) True of Some e \<Rightarrow> Inl (ErrWrap ''MediaMTX API address'' e)
      | None \<Rightarrow>
      case validateListenAddressV1 (MetricsAddress v) True of Some e \<Rightarrow> Inl (ErrWrap ''MediaMTX metrics address'' e)
      | None \<Rightarrow>
      if ReadTimeout v \<le> 0 \<or> WriteTimeout v \<le> 0 \<or> SegmentDuration v \<le> 0 \<or> PartDuration v \<le> 0
         \<or> PartDuration v \<ge> SegmentDuration v \<or> SegmentCount v < 3
      then fails ''MediaMTX timing configuration is invalid''
      else Inr (concat (map (\<lambda>l. l @ [char_of (10::nat)])
        [''logLevel: info'', ''logDestinations: [stdout]'', ''logStructured: true'',
         ''readTimeout: '' @ duration_text (ReadTimeout v),
         ''writeTimeout: '' @ duration_text (WriteTimeout v), [],
         ''authMethod: http'', ''authHTTPAddress: '' @ AuthHTTPAddress v, ''authHTTPExclude:'',
         ''  - action: api'', ''  - action: metrics'', [],
         ''api: true'', ''apiAddress: '' @ APIAddress v, ''metrics: true'', ''metricsAddress: '' @ MetricsAddress v,
         ''pprof: false'', ''playback: false'', [],
         ''rtsp: false'', ''rtmp: true'', ''rtmpEncryption: '' @ [char_of (34::nat)] @ ''no'' @ [char_of (34::nat)],
         ''rtmpAddress: '' @ RTMPAddress v, [],
         ''hls: true'', ''hlsAddress: '' @ HLSAddress v, ''hlsEncryption: false'', ''hlsAlwaysRemux: true'',
         ''hlsVariant: lowLatency'', ''hlsSegmentCount: '' @ fmt_u32 (SegmentCount v),
         ''hlsSegmentDuration: '' @ duration_text (SegmentDuration v),
         ''hlsPartDuration: '' @ duration_text (PartDuration v),
         ''hlsDirectory: '' @ [char_of (34::nat), char_of (34::nat)], [],
         ''webrtc: false'', ''srt: false'', ''moq: false'', [],
         ''pathDefaults:'', ''  source: publisher'', ''  overridePublisher: false'', ''  record: false'', [],
         ''paths:'', ''  all_others:''])))"

subsection \<open>Paths and keys\<close>

definition IngestMediaPathV1 :: "string \<Rightarrow> string result" where
  "IngestMediaPathV1 runnerSessionID =
     (if \<not> opaqueIDPattern runnerSessionID then fails ''invalid runner session ID''
      else Inr (''ingest/'' @ runnerSessionID))"

definition RenditionMediaPathV1 :: "string \<Rightarrow> string \<Rightarrow> string result" where
  "RenditionMediaPathV1 runnerSessionID rendition =
     (if \<not> opaqueIDPattern runnerSessionID \<or> \<not> opaqueIDPattern rendition
      then fails ''invalid runner session or rendition ID''
      else Inr (''renditions/'' @ runnerSessionID @ ''/'' @ rendition))"

definition BuildPrivateIngestStreamKeyV1 :: "string \<Rightarrow> string \<Rightarrow> string result" where
  "BuildPrivateIngestStreamKeyV1 runnerSessionID secret =
     (if isl (IngestMediaPathV1 runnerSessionID) \<or> secret = [] \<or> length secret > 256
         \<or> contains_any secret [char_of (13::nat), char_of (10::nat)]
      then fails ''invalid private ingest key''
      else Inr (runnerSessionID @ ''?token='' @ query_escape secret))"

text \<open>The path and the token, \<open>None\<close> when the key is not one of ours.\<close>

definition ParsePrivateIngestStreamKeyV1 :: "string \<Rightarrow> (string \<times> string) option" where
  "ParsePrivateIngestStreamKeyV1 streamKey =
     (case cut_at (CHR ''?'') streamKey of
        None \<Rightarrow> None
      | Some (runnerSessionID, rawQuery) \<Rightarrow>
          (let (q, bad) = parse_query rawQuery; token = query_get q ''token'' in
           case IngestMediaPathV1 runnerSessionID of
             Inl _ \<Rightarrow> None
           | Inr ingestPath \<Rightarrow>
               if bad \<or> token = [] \<or> query_len q \<noteq> 1 \<or> length (query_values q ''token'') \<noteq> 1
               then None else Some (ingestPath, token)))"

text \<open>The kind of a path, the runner session and the rendition (empty for an ingest path).\<close>

definition parseMediaPathV1 :: "string \<Rightarrow> (string \<times> string \<times> string) option" where
  "parseMediaPathV1 raw =
     (if raw = [] \<or> path_clean raw \<noteq> raw \<or> has_prefix raw ''/'' then None
      else (case split_at (CHR ''/'') raw of
              [k, sid] \<Rightarrow> if k = ''ingest'' \<and> opaqueIDPattern sid then Some (k, sid, []) else None
            | [k, sid, r] \<Rightarrow>
                if k = ''renditions'' \<and> opaqueIDPattern sid \<and> opaqueIDPattern r then Some (k, sid, r) else None
            | _ \<Rightarrow> None))"

definition secureEqualV1 :: "env \<Rightarrow> string \<Rightarrow> string \<Rightarrow> bool" where
  "secureEqualV1 E a b \<longleftrightarrow> sha256 E a = sha256 E b"

definition InternalMediaTokenV1 :: "env \<Rightarrow> string \<Rightarrow> string \<Rightarrow> string" where
  "InternalMediaTokenV1 E rootSecret runnerSessionID =
     hex_encode (hmac_sha256 E rootSecret (''live-runner/media/v1:'' @ runnerSessionID))"

subsection \<open>Authorisation\<close>

record MediaMTXAuthRequestV1 =
  AuthUser :: string
  AuthPassword :: string
  AuthToken :: string
  AuthIP :: string
  AuthAction :: string
  AuthPath :: string
  AuthProtocol :: string
  AuthID :: string
  AuthQuery :: string
  AuthUserAgent :: string

text \<open>The first case of the switch: a publisher with its private key.\<close>

definition publishAllowedV1 :: "env \<Rightarrow> time \<Rightarrow> MediaMTXAuthRequestV1 \<Rightarrow> SessionRecordV1 \<Rightarrow> SessionSecretsV1 \<Rightarrow> bool" where
  "publishAllowedV1 E now request r secrets =
     (if PendingKeyActivationID r \<noteq> [] then False
      else (case map_of (KeyIssues secrets) (CurrentKeyID secrets) of
              None \<Rightarrow> False
            | Some current \<Rightarrow>
                (case (ParsePrivateIngestStreamKeyV1 (StreamKey (IssueResponse current)),
                       parse_stamp (KeyExpiresAt (IssueResponse current))) of
                   (Some (streamPath, streamToken), Some expiresAt) \<Rightarrow>
                     now < expiresAt \<and> streamPath = AuthPath request
                     \<and> secureEqualV1 E (AuthToken request) streamToken
                 | _ \<Rightarrow> False)))"

text \<open>The authoriser without a session store is the argument \<open>None\<close>.\<close>

definition Authorize ::
    "env \<Rightarrow> (string \<Rightarrow> (SessionRecordV1 \<times> SessionSecretsV1 option) result) option \<Rightarrow> string \<Rightarrow> time
      \<Rightarrow> MediaMTXAuthRequestV1 \<Rightarrow> bool" where
  "Authorize E sessions internalTokenRoot now request =
     (case sessions of
        None \<Rightarrow> False
      | Some lookup \<Rightarrow>
          if length internalTokenRoot < 32 \<or> (AuthProtocol request \<noteq> ''rtmp'' \<and> AuthProtocol request \<noteq> ''hls'')
          then False
          else (case parseMediaPathV1 (AuthPath request) of
            None \<Rightarrow> False
          | Some (kind, runnerSessionID, _) \<Rightarrow>
              (case lookup runnerSessionID of
                 Inl _ \<Rightarrow> False
               | Inr (_, None) \<Rightarrow> False
               | Inr (r, Some secrets) \<Rightarrow>
                   if State r \<noteq> ''active'' \<or> Stopping r then False
                   else (let internalToken = InternalMediaTokenV1 E internalTokenRoot runnerSessionID in
                     if kind = ''ingest'' \<and> AuthProtocol request = ''rtmp'' \<and> AuthAction request = ''publish''
                     then publishAllowedV1 E now request r secrets
                     else if kind = ''ingest'' \<and> AuthProtocol request = ''rtmp'' \<and> AuthAction request = ''read''
                     then secureEqualV1 E (AuthToken request) internalToken
                     else if kind = ''renditions'' \<and> AuthProtocol request = ''rtmp'' \<and> AuthAction request = ''publish''
                     then secureEqualV1 E (AuthToken request) internalToken
                     else kind = ''renditions'' \<and> AuthProtocol request = ''hls'' \<and> AuthAction request = ''read''))))"

text \<open>\<open>ServeHTTP\<close>: the status of the response; the body is decoded by \<open>DecodeStrictV1\<close>.\<close>

definition authorizeHTTP ::
    "env \<Rightarrow> (string \<Rightarrow> (SessionRecordV1 \<times> SessionSecretsV1 option) result) option \<Rightarrow> string \<Rightarrow> time
      \<Rightarrow> string \<Rightarrow> MediaMTXAuthRequestV1 result \<Rightarrow> nat" where
  "authorizeHTTP E sessions internalTokenRoot now httpMethod body =
     (if httpMethod \<noteq> ''POST'' then 405
      else (case body of
              Inl _ \<Rightarrow> 400
            | Inr request \<Rightarrow> if Authorize E sessions internalTokenRoot now request then 204 else 401))"

end
