(* ===== verification/Media_Properties.thy ===== *)
theory Media_Properties
  imports Live_Media
begin

section \<open>What the media names and keys guarantee\<close>

subsection \<open>Private stream keys\<close>

lemma split_at_single: "sep \<notin> set s \<Longrightarrow> split_at sep s = [s]"
  by (rule split_at_none)

lemma parse_token_query:
  "parse_query (''token='' @ query_escape s) = ([(''token'', s)], False)"
proof -
  have amp: "CHR ''&'' \<notin> set (''token='' @ query_escape s)" and semi: "CHR '';'' \<notin> set (''token='' @ query_escape s)"
    using query_escape_plain [of "CHR ''&''"] query_escape_plain [of "CHR '';''"] by auto
  have cut: "cut_at (CHR ''='') (''token'' @ CHR ''='' # query_escape s) = Some (''token'', query_escape s)"
    by (rule cut_at_first) simp
  have "query_unescape ''token'' = Some ''token''" by code_simp
  with cut semi have "parse_query_piece (''token='' @ query_escape s) = ([(''token'', s)], False)"
    by (simp add: parse_query_piece_def)
  then show ?thesis using split_at_single [OF amp] by (simp add: parse_query_def)
qed

text \<open>
  A private stream key is read back as it was built: the path of its session and its secret,
  whatever bytes the secret has.  And a key that parses at all names the ingest path of a
  well-formed session with a non-empty token.
\<close>

theorem stream_key_roundtrip:
  "(BuildPrivateIngestStreamKeyV1 r s = Inr k \<longrightarrow> ParsePrivateIngestStreamKeyV1 k = Some (''ingest/'' @ r, s)) \<and>
   (ParsePrivateIngestStreamKeyV1 k = Some (p, t) \<longrightarrow> (\<exists>i. opaqueIDPattern i \<and> p = ''ingest/'' @ i) \<and> t \<noteq> [])"
proof (intro conjI impI)
  assume "BuildPrivateIngestStreamKeyV1 r s = Inr k"
  then have b: "opaqueIDPattern r" "s \<noteq> []" "k = r @ CHR ''?'' # ''token='' @ query_escape s"
    by (auto simp: BuildPrivateIngestStreamKeyV1_def IngestMediaPathV1_def fails_def split: if_splits)
  have "cut_at (CHR ''?'') k = Some (r, ''token='' @ query_escape s)"
    unfolding b(3) by (rule cut_at_first) (rule opaque_no_question [OF b(1)])
  with b(1,2) parse_token_query [of s] show "ParsePrivateIngestStreamKeyV1 k = Some (''ingest/'' @ r, s)"
    by (simp add: ParsePrivateIngestStreamKeyV1_def IngestMediaPathV1_def query_get_def query_values_def query_len_def)
qed (auto simp: ParsePrivateIngestStreamKeyV1_def IngestMediaPathV1_def fails_def Let_def
    split: option.splits prod.splits if_splits)

subsection \<open>Paths\<close>

lemma opaque_part:
  assumes "opaqueIDPattern s"
  shows "s \<noteq> []" "s \<noteq> ''.''" "s \<noteq> ''..''"
  using assms by (auto simp: opaqueIDPattern_def is_alnum_def is_digit_def is_upper_def is_lower_def)

lemma clean_ingest:
  assumes "opaqueIDPattern s"
  shows "split_at (CHR ''/'') (''ingest/'' @ s) = [''ingest'', s]" "path_clean (''ingest/'' @ s) = ''ingest/'' @ s"
proof -
  have "split_at (CHR ''/'') (''ingest'' @ CHR ''/'' # s) = ''ingest'' # split_at (CHR ''/'') s"
    by (rule split_at_append) simp
  then show sp: "split_at (CHR ''/'') (''ingest/'' @ s) = [''ingest'', s]"
    using split_at_none [OF opaque_no_slash [OF assms]] by simp
  show "path_clean (''ingest/'' @ s) = ''ingest/'' @ s"
    unfolding path_clean_def sp using opaque_part [OF assms] by simp
qed

lemma clean_rendition:
  assumes "opaqueIDPattern s" and "opaqueIDPattern r"
  shows "split_at (CHR ''/'') (''renditions/'' @ s @ ''/'' @ r) = [''renditions'', s, r]"
    "path_clean (''renditions/'' @ s @ ''/'' @ r) = ''renditions/'' @ s @ ''/'' @ r"
proof -
  have "split_at (CHR ''/'') (''renditions'' @ CHR ''/'' # s @ CHR ''/'' # r) = [''renditions'', s, r]"
    using split_at_append [of "CHR ''/''" "''renditions''" "s @ CHR ''/'' # r"] split_at_append [OF opaque_no_slash [OF assms(1)], of r]
      split_at_none [OF opaque_no_slash [OF assms(2)]] by simp
  then show sp: "split_at (CHR ''/'') (''renditions/'' @ s @ ''/'' @ r) = [''renditions'', s, r]" by simp
  show "path_clean (''renditions/'' @ s @ ''/'' @ r) = ''renditions/'' @ s @ ''/'' @ r"
    unfolding path_clean_def sp using opaque_part [OF assms(1)] opaque_part [OF assms(2)] by simp
qed

lemma split_two: "split_at sep s = [a, b] \<Longrightarrow> s = a @ [sep] @ b"
  using join_split_at [of sep s] by simp

lemma split_three: "split_at sep s = [a, b, c] \<Longrightarrow> s = a @ [sep] @ b @ [sep] @ c"
  using join_split_at [of sep s] by simp

text \<open>
  (C16) Media paths and sessions correspond one to one: a path parses to a kind, a session and a
  rendition exactly when it is the path the runner builds for them.  So no other spelling of a
  path, with dots, doubled slashes or a leading slash, is ever taken for a session.
\<close>

theorem media_paths_one_to_one:
  "parseMediaPathV1 p = Some (kind, sid, rendition) \<longleftrightarrow>
     (kind = ''ingest'' \<and> rendition = [] \<and> IngestMediaPathV1 sid = Inr p \<or>
      kind = ''renditions'' \<and> RenditionMediaPathV1 sid rendition = Inr p)"
proof
  assume a: "parseMediaPathV1 p = Some (kind, sid, rendition)"
  have "(kind = ''ingest'' \<and> opaqueIDPattern sid \<and> rendition = [] \<and> split_at (CHR ''/'') p = [kind, sid]) \<or>
      (kind = ''renditions'' \<and> opaqueIDPattern sid \<and> opaqueIDPattern rendition \<and> split_at (CHR ''/'') p = [kind, sid, rendition])"
    using a by (auto simp: parseMediaPathV1_def split: if_splits list.splits)
  then show "kind = ''ingest'' \<and> rendition = [] \<and> IngestMediaPathV1 sid = Inr p \<or>
      kind = ''renditions'' \<and> RenditionMediaPathV1 sid rendition = Inr p"
    using split_two [of "CHR ''/''" p kind sid] split_three [of "CHR ''/''" p kind sid rendition]
    by (auto simp: IngestMediaPathV1_def RenditionMediaPathV1_def)
next
  assume b: "kind = ''ingest'' \<and> rendition = [] \<and> IngestMediaPathV1 sid = Inr p \<or>
      kind = ''renditions'' \<and> RenditionMediaPathV1 sid rendition = Inr p"
  then show "parseMediaPathV1 p = Some (kind, sid, rendition)"
  proof (elim disjE conjE)
    assume "kind = ''ingest''" "rendition = []" "IngestMediaPathV1 sid = Inr p"
    moreover from this have "opaqueIDPattern sid" "p = ''ingest/'' @ sid"
      by (auto simp: IngestMediaPathV1_def fails_def split: if_splits)
    ultimately show ?thesis unfolding parseMediaPathV1_def using clean_ingest [of sid] by simp
  next
    assume "kind = ''renditions''" "RenditionMediaPathV1 sid rendition = Inr p"
    moreover from this have "opaqueIDPattern sid" "opaqueIDPattern rendition" "p = ''renditions/'' @ sid @ ''/'' @ rendition"
      by (auto simp: RenditionMediaPathV1_def fails_def split: if_splits)
    ultimately show ?thesis unfolding parseMediaPathV1_def using clean_rendition [of sid rendition] by simp
  qed
qed

subsection \<open>Who may publish\<close>

lemma find_loads:
  "findByRunnerV1 E d rid ids = Inr (r, so) \<Longrightarrow> RunnerSessionID r = rid \<and> (\<exists>sid\<in>set ids. Load E d sid = Inr (r, so))"
  by (induction ids) (auto simp: Load_def split: sum.splits if_splits)

lemma lookup_loads:
  "LoadByRunnerSessionID E d rid = Inr (r, so) \<Longrightarrow> RunnerSessionID r = rid \<and> (\<exists>sid. Load E d sid = Inr (r, so))"
  using find_loads [of E d rid "sessionFileIDs d" r so] by (auto simp: LoadByRunnerSessionID_def split: if_splits)

text \<open>
  (C15) Only the one live key of an active session publishes.  When MediaMTX is allowed to let a
  publisher in, the session exists in the store, is active and not stopping, waits for no key
  activation, the presented token has the hash of the token in the current key, that key names
  this very path and has not expired, and no other key the session ever issued has a key text.
\<close>

theorem publisher_holds_the_live_key:
  assumes K: "crypto_ok K" and d: "reachable K d"
    and a: "Authorize K (Some (LoadByRunnerSessionID K d)) root now request" and pub: "AuthAction request = ''publish''"
    and ingest: "IngestMediaPathV1 rid = Inr (AuthPath request)"
  shows "\<exists>sid r s i token. Load K d sid = Inr (r, Some s) \<and> RunnerSessionID r = rid \<and>
     State r = ''active'' \<and> \<not> Stopping r \<and> PendingKeyActivationID r = [] \<and>
     map_of (KeyIssues s) (CurrentKeyID s) = Some i \<and>
     ParsePrivateIngestStreamKeyV1 (StreamKey (IssueResponse i)) = Some (AuthPath request, token) \<and>
     sha256 K (AuthToken request) = sha256 K token \<and>
     (\<exists>t. parse_stamp (KeyExpiresAt (IssueResponse i)) = Some t \<and> now < t) \<and>
     (\<forall>(k, j)\<in>set (KeyIssues s). k \<noteq> CurrentKeyID s \<longrightarrow> StreamKey (IssueResponse j) = [])"
proof -
  have o: "opaqueIDPattern rid" "AuthPath request = ''ingest/'' @ rid"
    using ingest by (auto simp: IngestMediaPathV1_def fails_def split: if_splits)
  have p: "parseMediaPathV1 (AuthPath request) = Some (''ingest'', rid, [])"
    unfolding parseMediaPathV1_def o(2) using clean_ingest [OF o(1)] o(1) by simp
  obtain r s where l: "LoadByRunnerSessionID K d rid = Inr (r, Some s)"
    and act: "State r = ''active''" "\<not> Stopping r" and allowed: "publishAllowedV1 K now request r s"
    using a pub by (auto simp: Authorize_def p split: if_splits sum.splits option.splits)
  then have pend: "PendingKeyActivationID r = []" and key: "\<exists>i token. map_of (KeyIssues s) (CurrentKeyID s) = Some i \<and>
        ParsePrivateIngestStreamKeyV1 (StreamKey (IssueResponse i)) = Some (AuthPath request, token) \<and>
        sha256 K (AuthToken request) = sha256 K token \<and>
        (\<exists>t. parse_stamp (KeyExpiresAt (IssueResponse i)) = Some t \<and> now < t)"
    by (auto simp: publishAllowedV1_def secureEqualV1_def split: if_splits option.splits)
  obtain sid where ld: "Load K d sid = Inr (r, Some s)" and rid: "RunnerSessionID r = rid" using lookup_loads [OF l] by blast
  have "opened K r (Some s)" using load_Inr [OF K reachable_disk_ok [OF d]] ld by (simp add: Load_def)
  then have "validateSessionSecretsV1 K r s = None" by (auto simp: opened_def intro: openSecrets_Inr)
  then have ok: "\<forall>e\<in>set (KeyIssues s). keyIssueOK K (CurrentKeyID s) e = None" unfolding validateSessionSecrets_iff by blast
  have "\<forall>(k, j)\<in>set (KeyIssues s). k \<noteq> CurrentKeyID s \<longrightarrow> StreamKey (IssueResponse j) = []"
  proof (rule ballI, rule case_prodI2, rule impI)
    fix e k j assume "e \<in> set (KeyIssues s)" "e = (k, j)" "k \<noteq> CurrentKeyID s"
    then show "StreamKey (IssueResponse j) = []" using ok by (auto simp: keyIssueOK_def split: if_splits)
  qed
  with ld rid act pend key show ?thesis by blast
qed

end
