(* ===== verification/Media_Witnesses.thy ===== *)
theory Media_Witnesses
  imports Callback_Witnesses Media_Properties
begin

section \<open>The media properties on a concrete session\<close>

theorem stream_key_roundtrip_witness:
  "ParsePrivateIngestStreamKeyV1 ''r1?token=a%2Fb'' = Some (''ingest/r1'', ''a/b'')"
proof -
  have "BuildPrivateIngestStreamKeyV1 ''r1'' ''a/b'' = Inr ''r1?token=a%2Fb''" by code_simp
  then show ?thesis using stream_key_roundtrip [of "''r1''" "''a/b''" "''r1?token=a%2Fb''"] by simp
qed

text \<open>The example session after its key was issued, and its publisher.\<close>

definition keyed_disk :: disk where
  "keyed_disk = exec example_env (CallKeyIssue ''s1'' key_request key_response) example_disk"

definition publish_request :: MediaMTXAuthRequestV1 where
  "publish_request = \<lparr>AuthUser = [], AuthPassword = [], AuthToken = ''q'', AuthIP = [], AuthAction = ''publish'',
     AuthPath = ''ingest/r1'', AuthProtocol = ''rtmp'', AuthID = [], AuthQuery = [], AuthUserAgent = []\<rparr>"

lemma keyed_reachable: "reachable example_env keyed_disk"
  using reachable_call [OF example_reachable, of "CallKeyIssue ''s1'' key_request key_response"] key_example_valid
  by (simp add: keyed_disk_def issue_admits_def)

lemma keyed_files: "sessionFileIDs keyed_disk = [''s1'']"
proof -
  let ?r = "example_record\<lparr>IntegritySHA256 := integrityV1 example_env example_record\<rparr>"
  have l: "loadLocked example_env example_disk ''s1'' = Inr (?r, Some example_secrets)"
    using example_load by (simp add: Load_def)
  have "BrokerSessionID r' = ''s1''"
    if "RecordKeyIssue_step example_env key_request key_response ?r (Some example_secrets) = Inr (a, Some r')" for a r'
    using RecordKeyIssue_keeps [OF example_env_ok _ _ key_example_valid that] load_Inr [OF example_env_ok reachable_disk_ok [OF example_reachable] l]
    by (auto simp: advances_def same_identity_def)
  then have "map fst (Files keyed_disk) = [''s1'']"
    using key_example_valid l
    by (auto simp: keyed_disk_def RecordKeyIssue_def issue_admits_def update_session_def saveLocked_def example_create Let_def
        split: sum.splits option.splits prod.splits save_outcome.splits)
  then show ?thesis by (simp add: sessionFileIDs_def)
qed

lemma keyed_lookup:
  obtains r where "LoadByRunnerSessionID example_env keyed_disk ''r1'' =
       Inr (r, Some (issuedSecrets example_env key_request key_response example_secrets))"
    "RunnerSessionID r = ''r1''" "State r = ''active''" "\<not> Stopping r" "PendingKeyActivationID r = []"
proof -
  obtain r where r: "Load example_env keyed_disk ''s1'' = Inr (r, Some (issuedSecrets example_env key_request key_response example_secrets))"
    "RunnerSessionID r = ''r1''" "State r = ''active''" "\<not> Stopping r" "PendingKeyActivationID r = []"
    using key_issued unfolding keyed_disk_def by blast
  have o: "opaqueIDPattern ''r1''" by code_simp
  show ?thesis using that r o by (simp add: LoadByRunnerSessionID_def keyed_files Load_def split: if_splits)
qed

theorem publisher_holds_the_live_key_witness:
  "\<exists>sid r s. Load example_env keyed_disk sid = Inr (r, Some s) \<and> RunnerSessionID r = ''r1'' \<and> State r = ''active''"
proof -
  obtain r where r: "LoadByRunnerSessionID example_env keyed_disk ''r1'' =
       Inr (r, Some (issuedSecrets example_env key_request key_response example_secrets))"
    "State r = ''active''" "\<not> Stopping r" "PendingKeyActivationID r = []"
    using keyed_lookup by metis
  have p: "parseMediaPathV1 ''ingest/r1'' = Some (''ingest'', ''r1'', [])"
    "ParsePrivateIngestStreamKeyV1 ''r1?token=q'' = Some (''ingest/r1'', ''q'')" "parse_stamp (Stamp 99) = Some 99"
    "IngestMediaPathV1 ''r1'' = Inr ''ingest/r1''"
    by code_simp+
  have i: "map_of (KeyIssues (issuedSecrets example_env key_request key_response example_secrets)) ''k1'' =
      Some \<lparr>Fingerprint = KeyIssueFingerprintV1 example_env key_request, IssueRequest = key_request, IssueResponse = key_response\<rparr>"
    "CurrentKeyID (issuedSecrets example_env key_request key_response example_secrets) = ''k1''"
    by (simp_all add: issuedSecrets_def example_secrets_def key_request_def)
  have "publishAllowedV1 example_env 5 publish_request r (issuedSecrets example_env key_request key_response example_secrets)"
    unfolding publishAllowedV1_def using r(4) i p(2,3) by (simp add: key_response_def publish_request_def secureEqualV1_def)
  then have "Authorize example_env (Some (LoadByRunnerSessionID example_env keyed_disk)) (replicate 32 CHR ''z'') 5 publish_request"
    using r p(1) by (simp add: Authorize_def publish_request_def)
  from publisher_holds_the_live_key [OF example_env_ok keyed_reachable this, of "''r1''"] p(4)
  show ?thesis by (auto simp: publish_request_def)
qed

end
