(* ===== verification/Live_Router.thy ===== *)
theory Live_Router
  imports Live_Media Go_Json
begin

section \<open>The client of the media router (live-runner/router.go)\<close>

text \<open>
  The client asks the loopback API of MediaMTX about one path and closes a publisher's connection.
  What the API answers is a parameter: \<open>http_do\<close> gives the answer to the n-th request and
  \<open>ctx_err\<close> the error of the context at that moment.
\<close>

record MediaPathSourceV1 =
  SourceID :: string
  SourceType :: string

record MediaPathStatusV1 =
  PathName :: string
  Online :: bool
  OnlineTime :: "string option"
  InboundBytes :: u64
  OutboundBytes :: u64
  Source :: "MediaPathSourceV1 option"

text \<open>The error type \<open>MediaRouterAPIErrorV1\<close>, or any other error.\<close>

datatype router_error = MediaRouterAPIErrorV1 int | RouterError go_error

definition ErrMediaPathNotFoundV1 :: go_error where "ErrMediaPathNotFoundV1 = ErrSentinel ''media_path_not_found''"
definition ErrUnexpectedMediaSourceV1 :: go_error where "ErrUnexpectedMediaSourceV1 = ErrSentinel ''unexpected_media_source''"

text \<open>\<open>errors.Is(err, ErrMediaPathNotFoundV1)\<close>.\<close>

definition path_not_found :: "router_error \<Rightarrow> bool" where
  "path_not_found e \<longleftrightarrow> (case e of RouterError g \<Rightarrow> errors_is g ErrMediaPathNotFoundV1 | _ \<Rightarrow> False)"

definition routerErrorRetryable :: "int \<Rightarrow> bool" where
  "routerErrorRetryable statusCode \<longleftrightarrow> statusCode = 408 \<or> statusCode = 429 \<or> statusCode \<ge> 500"

record network =
  http_do :: "nat \<Rightarrow> string \<Rightarrow> string \<Rightarrow> answer"
  ctx_err :: "nat \<Rightarrow> error"

subsection \<open>Construction\<close>

definition NewMediaRouterClientV1 :: "string \<Rightarrow> duration \<Rightarrow> string result" where
  "NewMediaRouterClientV1 baseURL timeout =
     (if timeout \<le> 0 then fails ''positive media router timeout is required''
      else (case url_parse baseURL of
        None \<Rightarrow> fails ''media router API URL is invalid''
      | Some u \<Rightarrow>
          if Scheme u \<noteq> ''http'' \<or> UserInfo u \<noteq> None \<or> RawQuery u \<noteq> [] \<or> Fragment u \<noteq> []
          then fails ''media router API URL is invalid''
          else if url_hostname u \<noteq> ''localhost'' \<and> \<not> is_loopback_ip (url_hostname u)
          then fails ''media router API must be loopback-only''
          else Inr (trim_right_by (\<lambda>c. c = CHR ''/'') baseURL)))"

subsection \<open>The status of a path\<close>

definition decodeSource :: "json \<Rightarrow> MediaPathSourceV1 option \<Rightarrow> MediaPathSourceV1 option option" where
  "decodeSource v acc =
     (case v of
        JNull \<Rightarrow> Some None
      | JObj fs \<Rightarrow>
          (let s0 = (case acc of None \<Rightarrow> \<lparr>SourceID = [], SourceType = []\<rparr> | Some s \<Rightarrow> s)
           in case (fill_field dec_string ''id'' (SourceID s0) fs, fill_field dec_string ''type'' (SourceType s0) fs) of
                (Some i, Some t) \<Rightarrow> Some (Some \<lparr>SourceID = i, SourceType = t\<rparr>)
              | _ \<Rightarrow> None)
      | _ \<Rightarrow> None)"

definition decodeMediaPathStatus :: "string \<Rightarrow> MediaPathStatusV1 option" where
  "decodeMediaPathStatus body =
     (case json_first body of
        Some (JObj fs) \<Rightarrow>
          (case (fill_field dec_string ''name'' [] fs, fill_field dec_bool ''online'' False fs,
                 fill_field dec_string_pointer ''onlineTime'' None fs, fill_field dec_u64 ''inboundBytes'' 0 fs,
                 fill_field dec_u64 ''outboundBytes'' 0 fs, fill_field decodeSource ''source'' None fs) of
             (Some n, Some b, Some t, Some i, Some out, Some src) \<Rightarrow>
               Some \<lparr>PathName = n, Online = b, OnlineTime = t, InboundBytes = i, OutboundBytes = out, Source = src\<rparr>
           | _ \<Rightarrow> None)
      | Some JNull \<Rightarrow>
          Some \<lparr>PathName = [], Online = False, OnlineTime = None, InboundBytes = 0, OutboundBytes = 0, Source = None\<rparr>
      | _ \<Rightarrow> None)"

definition mediaPathRequest ::
    "network \<Rightarrow> string \<Rightarrow> nat \<Rightarrow> string \<Rightarrow> router_error + MediaPathStatusV1" where
  "mediaPathRequest N baseURL n name =
     (if parseMediaPathV1 name = None then Inl (RouterError (ErrNew ''media path is invalid''))
      else (let target = baseURL @ ''/v3/paths/get/'' @ path_escape name in
        if url_parse target = None then Inl (RouterError (ErrNew ''media router request failed''))
        else (case http_do N n ''GET'' target of
          NoAnswer \<Rightarrow>
            (case ctx_err N n of
               Some e \<Rightarrow> Inl (RouterError e)
             | None \<Rightarrow> Inl (RouterError (ErrNew ''media router request failed'')))
        | Answer status body \<Rightarrow>
            if status = 404 then Inl (RouterError ErrMediaPathNotFoundV1)
            else if status < 200 \<or> status \<ge> 300 then Inl (MediaRouterAPIErrorV1 status)
            else (case decodeMediaPathStatus (take (64 * 1024) body) of
                    None \<Rightarrow> Inl (RouterError (ErrNew ''media router response is invalid''))
                  | Some st \<Rightarrow>
                      if PathName st \<noteq> name then Inl (RouterError (ErrNew ''media router response is invalid''))
                      else Inr st))))"

definition isRTMPSource :: "MediaPathStatusV1 \<Rightarrow> bool" where
  "isRTMPSource st \<longleftrightarrow>
     (case Source st of None \<Rightarrow> False | Some s \<Rightarrow> SourceType s = ''rtmpConn'' \<or> SourceType s = ''rtmpsConn'')"

subsection \<open>Closing a publisher's connection\<close>

text \<open>The error, \<open>None\<close> for none, from the n-th and the next request.\<close>

definition kickRequest :: "network \<Rightarrow> string \<Rightarrow> nat \<Rightarrow> MediaPathSourceV1 \<Rightarrow> router_error option" where
  "kickRequest N baseURL n src =
     (if SourceID src = [] \<or> (SourceType src \<noteq> ''rtmpConn'' \<and> SourceType src \<noteq> ''rtmpsConn'')
      then Some (RouterError ErrUnexpectedMediaSourceV1)
      else (let collection = (if SourceType src = ''rtmpsConn'' then ''rtmpsconns'' else ''rtmpconns'');
                target = baseURL @ ''/v3/'' @ collection @ ''/kick/'' @ path_escape (SourceID src) in
        if url_parse target = None then Some (RouterError (ErrNew ''media router kick request failed''))
        else (case http_do N n ''POST'' target of
          NoAnswer \<Rightarrow>
            (case ctx_err N n of
               Some e \<Rightarrow> Some (RouterError e)
             | None \<Rightarrow> Some (RouterError (ErrNew ''media router kick request failed'')))
        | Answer status _ \<Rightarrow>
            if status = 404 \<or> (status \<ge> 200 \<and> status < 300) then None else Some (MediaRouterAPIErrorV1 status))))"

definition KickPublisher :: "network \<Rightarrow> string \<Rightarrow> nat \<Rightarrow> string \<Rightarrow> router_error option" where
  "KickPublisher N baseURL n ingestPath =
     (case mediaPathRequest N baseURL n ingestPath of
        Inl e \<Rightarrow> if path_not_found e then None else Some e
      | Inr st \<Rightarrow>
          if \<not> Online st then None
          else (case Source st of None \<Rightarrow> None | Some src \<Rightarrow> kickRequest N baseURL (Suc n) src))"

subsection \<open>Waiting for a publisher\<close>

text \<open>
  The loop of \<open>WaitForRTMPPublisher\<close>: one request per tick.  The fuel bounds the number of
  requests; \<open>None\<close> says that it did not suffice.
\<close>

fun waitForPublisher ::
    "nat \<Rightarrow> network \<Rightarrow> string \<Rightarrow> nat \<Rightarrow> string \<Rightarrow> (router_error + MediaPathStatusV1) option" where
  "waitForPublisher 0 N baseURL n ingestPath = None"
| "waitForPublisher (Suc fuel) N baseURL n ingestPath =
     (let again = (case ctx_err N n of
                     Some e \<Rightarrow> Some (Inl (RouterError e))
                   | None \<Rightarrow> waitForPublisher fuel N baseURL (Suc n) ingestPath) in
      case mediaPathRequest N baseURL n ingestPath of
        Inr st \<Rightarrow>
          if \<not> Online st then again
          else if isRTMPSource st then Some (Inr st)
          else Some (Inl (RouterError ErrUnexpectedMediaSourceV1))
      | Inl (RouterError e) \<Rightarrow> if path_not_found (RouterError e) then again else Some (Inl (RouterError e))
      | Inl (MediaRouterAPIErrorV1 s) \<Rightarrow>
          if routerErrorRetryable s then again else Some (Inl (MediaRouterAPIErrorV1 s)))"

definition WaitForRTMPPublisher ::
    "nat \<Rightarrow> network \<Rightarrow> string \<Rightarrow> nat \<Rightarrow> string \<Rightarrow> duration \<Rightarrow> (router_error + MediaPathStatusV1) option" where
  "WaitForRTMPPublisher fuel N baseURL n ingestPath interval =
     (if interval \<le> 0 then Some (Inl (RouterError (ErrNew ''positive media router poll interval is required'')))
      else waitForPublisher fuel N baseURL n ingestPath)"

end
