(* ===== verification/Router_Properties.thy ===== *)
theory Router_Properties
  imports Live_Router
begin

section \<open>Waiting for a publisher\<close>

text \<open>A request after which the loop sleeps and asks again, and the answer of one that ends it.\<close>

definition keeps_waiting :: "network \<Rightarrow> string \<Rightarrow> string \<Rightarrow> nat \<Rightarrow> bool" where
  "keeps_waiting N baseURL ingestPath n \<longleftrightarrow>
     ctx_err N n = None \<and>
     (case mediaPathRequest N baseURL n ingestPath of
        Inr st \<Rightarrow> \<not> Online st
      | Inl (RouterError e) \<Rightarrow> path_not_found (RouterError e)
      | Inl (MediaRouterAPIErrorV1 s) \<Rightarrow> routerErrorRetryable s)"

definition verdict :: "network \<Rightarrow> string \<Rightarrow> string \<Rightarrow> nat \<Rightarrow> router_error + MediaPathStatusV1" where
  "verdict N baseURL ingestPath n =
     (case mediaPathRequest N baseURL n ingestPath of
        Inr st \<Rightarrow>
          if \<not> Online st then Inl (RouterError (the (ctx_err N n)))
          else if isRTMPSource st then Inr st else Inl (RouterError ErrUnexpectedMediaSourceV1)
      | Inl (RouterError e) \<Rightarrow>
          Inl (RouterError (if path_not_found (RouterError e) then the (ctx_err N n) else e))
      | Inl (MediaRouterAPIErrorV1 s) \<Rightarrow>
          if routerErrorRetryable s then Inl (RouterError (the (ctx_err N n))) else Inl (MediaRouterAPIErrorV1 s))"

lemma wait_step:
  "waitForPublisher (Suc fuel) N b n p =
     (if keeps_waiting N b p n then waitForPublisher fuel N b (Suc n) p else Some (verdict N b p n))"
  by (auto simp: keeps_waiting_def verdict_def Let_def split: sum.splits router_error.splits option.splits)

lemma wait_None: "waitForPublisher fuel N b n p = None \<longleftrightarrow> (\<forall>k<fuel. keeps_waiting N b p (n + k))"
proof (induction fuel arbitrary: n)
  case (Suc fuel)
  show ?case unfolding wait_step using Suc [of "Suc n"] by (auto simp: All_less_Suc2)
qed simp

lemma wait_Some:
  "waitForPublisher fuel N b n p = Some x \<longleftrightarrow>
     (\<exists>k<fuel. (\<forall>j<k. keeps_waiting N b p (n + j)) \<and> \<not> keeps_waiting N b p (n + k) \<and> x = verdict N b p (n + k))"
proof (induction fuel arbitrary: n)
  case (Suc fuel)
  show ?case
    unfolding wait_step using Suc [of "Suc n"]
    by (auto simp: Ex_less_Suc2 All_less_Suc2)
qed simp

lemma verdict_Inr:
  "\<not> keeps_waiting N b p n \<and> verdict N b p n = Inr st \<longleftrightarrow>
     mediaPathRequest N b n p = Inr st \<and> Online st \<and> isRTMPSource st"
  by (auto simp: keeps_waiting_def verdict_def split: sum.splits router_error.splits if_splits)

text \<open>
  (C17) The wait for a publisher ends exactly when some request decides it.  It is still
  waiting after a number of requests exactly if each of them found the path missing or offline, or
  met a retryable status, with the context alive; and it returns a status exactly if that is the
  status of the first deciding request and shows an online RTMP connection on the path asked for.
\<close>

theorem waits_for_publisher:
  assumes "0 < interval"
  shows "(WaitForRTMPPublisher fuel N b n p interval = None \<longleftrightarrow> (\<forall>k<fuel. keeps_waiting N b p (n + k))) \<and>
    (WaitForRTMPPublisher fuel N b n p interval = Some (Inr st) \<longleftrightarrow>
      (\<exists>k<fuel. (\<forall>j<k. keeps_waiting N b p (n + j)) \<and> mediaPathRequest N b (n + k) p = Inr st \<and>
         PathName st = p \<and> Online st \<and> isRTMPSource st))"
proof (rule conjI)
  have w: "WaitForRTMPPublisher fuel N b n p interval = waitForPublisher fuel N b n p"
    using assms by (simp add: WaitForRTMPPublisher_def)
  show "WaitForRTMPPublisher fuel N b n p interval = None \<longleftrightarrow> (\<forall>k<fuel. keeps_waiting N b p (n + k))"
    unfolding w by (rule wait_None)
  have name: "PathName st = p" if "mediaPathRequest N b k p = Inr st" for k
    using that by (auto simp: mediaPathRequest_def Let_def split: if_splits option.splits answer.splits)
  show "WaitForRTMPPublisher fuel N b n p interval = Some (Inr st) \<longleftrightarrow>
      (\<exists>k<fuel. (\<forall>j<k. keeps_waiting N b p (n + j)) \<and> mediaPathRequest N b (n + k) p = Inr st \<and>
         PathName st = p \<and> Online st \<and> isRTMPSource st)"
    unfolding w wait_Some using name verdict_Inr by metis
qed

text \<open>A router that does not know the path first and then shows a publisher.\<close>

definition example_status :: string where
  "example_status = json_text (JObj [(''name'', JStr ''ingest/r1''), (''online'', JBool True),
     (''source'', JObj [(''id'', JStr ''c1''), (''type'', JStr ''rtmpConn'')])])"

definition example_network :: network where
  "example_network = \<lparr>http_do = (\<lambda>n _ _. if n = 0 then Answer 404 [] else Answer 200 example_status), ctx_err = (\<lambda>_. None)\<rparr>"

definition example_found :: MediaPathStatusV1 where
  "example_found = \<lparr>PathName = ''ingest/r1'', Online = True, OnlineTime = None, InboundBytes = 0, OutboundBytes = 0,
     Source = Some \<lparr>SourceID = ''c1'', SourceType = ''rtmpConn''\<rparr>\<rparr>"

lemma router_keys:
  "fold_key ''name'' = ''NAME''" "fold_key ''online'' = ''ONLINE''" "fold_key ''onlineTime'' = ''ONLINETIME''"
  "fold_key ''source'' = ''SOURCE''" "fold_key ''id'' = ''ID''" "fold_key ''type'' = ''TYPE''"
  "fold_key ''inboundBytes'' = ''INBOUNDBYTES''" "fold_key ''outboundBytes'' = ''OUTBOUNDBYTES''"
  by code_simp+

lemma example_decodes: "decodeMediaPathStatus example_status = Some example_found"
proof -
  let ?fs = "[(''name'', JStr ''ingest/r1''), (''online'', JBool True),
     (''source'', JObj [(''id'', JStr ''c1''), (''type'', JStr ''rtmpConn'')])]"
  have "json_value (2 * length example_status + 2) example_status = Some (JObj ?fs, [])" by code_simp
  then have "json_first example_status = Some (JObj ?fs)" by (simp add: json_first_def)
  moreover have "(fill_field dec_string ''name'' [] ?fs, fill_field dec_bool ''online'' False ?fs,
      fill_field dec_string_pointer ''onlineTime'' None ?fs, fill_field dec_u64 ''inboundBytes'' 0 ?fs,
      fill_field dec_u64 ''outboundBytes'' 0 ?fs, fill_field decodeSource ''source'' None ?fs) =
    (Some ''ingest/r1'', Some True, Some None, Some 0, Some 0, Some (Some \<lparr>SourceID = ''c1'', SourceType = ''rtmpConn''\<rparr>))"
    by (simp add: router_keys dec_string_def dec_bool_def decodeSource_def del: fold_key.simps)
  ultimately show ?thesis by (simp add: decodeMediaPathStatus_def example_found_def)
qed

lemma example_requests:
  "mediaPathRequest example_network ''http://localhost:9997'' 0 ''ingest/r1'' = Inl (RouterError ErrMediaPathNotFoundV1)"
  "mediaPathRequest example_network ''http://localhost:9997'' 1 ''ingest/r1'' = Inr example_found"
proof -
  have p: "(parseMediaPathV1 ''ingest/r1'' = None) = False"
    "(url_parse (''http://localhost:9997'' @ ''/v3/paths/get/'' @ path_escape ''ingest/r1'') = None) = False"
    by code_simp+
  have "length example_status \<le> 200" by code_simp
  then have t: "take (64 * 1024) example_status = example_status" by simp
  show "mediaPathRequest example_network ''http://localhost:9997'' 0 ''ingest/r1'' = Inl (RouterError ErrMediaPathNotFoundV1)"
    unfolding mediaPathRequest_def Let_def p by (simp add: example_network_def)
  show "mediaPathRequest example_network ''http://localhost:9997'' 1 ''ingest/r1'' = Inr example_found"
    unfolding mediaPathRequest_def Let_def p
    by (simp add: example_network_def t [simplified] example_decodes) (simp add: example_found_def)
qed

theorem waits_for_publisher_witness:
  "\<exists>st. WaitForRTMPPublisher 2 example_network ''http://localhost:9997'' 0 ''ingest/r1'' second = Some (Inr st) \<and> Online st"
proof -
  have "keeps_waiting example_network ''http://localhost:9997'' ''ingest/r1'' 0"
    by (simp add: keeps_waiting_def example_requests path_not_found_def) (simp add: example_network_def)
  then show ?thesis
    using waits_for_publisher [of second 2 example_network "''http://localhost:9997''" 0 "''ingest/r1''"] example_requests(2)
    by (auto simp: second_def isRTMPSource_def example_found_def intro!: exI [of _ "1::nat"])
qed

end
