(* ===== verification/Live_Playlist.thy ===== *)
theory Live_Playlist
  imports Session_Ops
begin

section \<open>Reading HLS playlists (live-runner/metering.go)\<close>

text \<open>
  The finalized segments of a media playlist and the media playlist a master names.  A scanner of
  the package bufio stops at a line that does not fit its buffer; it is silent about that until it
  is asked.
\<close>

definition line_feed :: char where "line_feed = CHR 0x0A"
definition carriage_return :: char where "carriage_return = CHR 0x0D"
definition byte_order_mark :: string where "byte_order_mark = [CHR 0xEF, CHR 0xBB, CHR 0xBF]"

definition maxMediaPlaylistBytesV1 :: nat where "maxMediaPlaylistBytesV1 = 1048576"

text \<open>The lines a scanner with a buffer of \<open>max_size\<close> bytes yields, and whether it failed.\<close>

definition scan_lines :: "nat \<Rightarrow> string \<Rightarrow> string list \<times> bool" where
  "scan_lines max_size s =
     (let parts = split_at line_feed s;
          parts = (if last parts = [] then butlast parts else parts);
          fit = takeWhile (\<lambda>p. length p < max_size) parts
      in (map (\<lambda>p. trim_suffix p [carriage_return]) fit, length fit < length parts))"

subsection \<open>Durations\<close>

definition parseHLSMicrosecondsV1 :: "string \<Rightarrow> u64 result" where
  "parseHLSMicrosecondsV1 raw =
     (let bad = fails ''HLS segment duration is invalid''; parts = split_at (CHR ''.'') raw in
      if raw = [] \<or> trim_space raw \<noteq> raw \<or> has_prefix raw ''-'' \<or> has_prefix raw ''+'' then bad
      else if length parts > 2 \<or> hd parts = []
              \<or> (length parts = 2 \<and> (parts ! 1 = [] \<or> length (parts ! 1) > 6)) then bad
      else (case parse_uint (hd parts) 58 of None \<Rightarrow> bad | Some seconds \<Rightarrow>
        (case (if length parts = 2
               then parse_uint (parts ! 1 @ replicate (6 - length (parts ! 1)) (CHR ''0'')) 64
               else Some 0) of
           None \<Rightarrow> bad
         | Some fraction \<Rightarrow>
             (let duration = (of_nat seconds * 1000000 + of_nat fraction :: u64)
              in if duration = 0 then bad else Inr duration))))"

subsection \<open>Media playlists\<close>

text \<open>The loop over the lines after the header; the pending duration of an EXTINF is an option.\<close>

fun finalizedLinesV1 ::
    "string list \<Rightarrow> bool \<Rightarrow> u64 option \<Rightarrow> FinalizedHLSSegmentV1 list
      \<Rightarrow> (bool \<times> u64 option \<times> FinalizedHLSSegmentV1 list) result" where
  "finalizedLinesV1 [] mediaPlaylist pending segments = Inr (mediaPlaylist, pending, segments)"
| "finalizedLinesV1 (l # ls) mediaPlaylist pending segments =
     (let line = trim_suffix l [carriage_return] in
      if line = [] then finalizedLinesV1 ls mediaPlaylist pending segments
      else if has_prefix line ''#EXTINF:'' then
        (if pending \<noteq> None then fails ''HLS segment duration has no URI''
         else (case parseHLSMicrosecondsV1 (takeWhile (\<lambda>c. c \<noteq> CHR '','') (trim_prefix line ''#EXTINF:'')) of
                 Inl e \<Rightarrow> Inl e
               | Inr duration \<Rightarrow> finalizedLinesV1 ls True (Some duration) segments))
      else if has_prefix line ''#'' then finalizedLinesV1 ls mediaPlaylist pending segments
      else (case pending of
        None \<Rightarrow> finalizedLinesV1 ls mediaPlaylist None segments
      | Some duration \<Rightarrow>
          if length line > 2048 \<or> contains_any line [CHR 0x00, carriage_return, line_feed]
          then fails ''HLS segment URI is invalid''
          else (case find (\<lambda>g. URI g = line) segments of
            Some previous \<Rightarrow>
              if DurationMicroseconds previous \<noteq> duration
              then fails ''HLS segment URI has conflicting durations''
              else finalizedLinesV1 ls mediaPlaylist None segments
          | None \<Rightarrow>
              finalizedLinesV1 ls mediaPlaylist None
                (segments @ [\<lparr>URI = line, DurationMicroseconds = duration\<rparr>]))))"

definition ParseFinalizedHLSSegmentsV1 :: "string \<Rightarrow> FinalizedHLSSegmentV1 list result" where
  "ParseFinalizedHLSSegmentsV1 text =
     (let (ls, tooLong) = scan_lines (maxMediaPlaylistBytesV1 + 1) (take (maxMediaPlaylistBytesV1 + 1) text) in
      if ls \<noteq> [] \<and> trim_prefix (trim_suffix (hd ls) [carriage_return]) byte_order_mark \<noteq> ''#EXTM3U''
      then fails ''HLS playlist header is invalid''
      else (case finalizedLinesV1 (tl ls) False None [] of
        Inl e \<Rightarrow> Inl e
      | Inr (mediaPlaylist, pending, segments) \<Rightarrow>
          if tooLong then fails ''HLS playlist exceeds the size limit''
          else if ls = [] \<or> \<not> mediaPlaylist then fails ''HLS media playlist has no finalized segments''
          else if pending \<noteq> None then fails ''HLS segment duration has no URI''
          else Inr segments))"

subsection \<open>Master playlists\<close>

text \<open>The default buffer of a scanner holds 65536 bytes.\<close>

definition scannerBufferV1 :: nat where "scannerBufferV1 = 65536"

fun mediaURILinesV1 :: "string list \<Rightarrow> bool \<Rightarrow> string result" where
  "mediaURILinesV1 [] wantURI = fails ''HLS master playlist has no media playlist''"
| "mediaURILinesV1 (l # ls) wantURI =
     (let line = trim_suffix l [carriage_return] in
      if has_prefix line ''#EXT-X-STREAM-INF:'' then mediaURILinesV1 ls True
      else if line = [] \<or> has_prefix line ''#'' then mediaURILinesV1 ls wantURI
      else if wantURI \<and> path_base line = line \<and> has_suffix line ''.m3u8'' \<and> length line \<le> 255 then Inr line
      else if wantURI then fails ''HLS media playlist URI is invalid''
      else mediaURILinesV1 ls wantURI)"

definition mediaPlaylistURIV1 :: "string \<Rightarrow> string result" where
  "mediaPlaylistURIV1 master =
     (case fst (scan_lines scannerBufferV1 master) of
        [] \<Rightarrow> fails ''HLS master playlist has no media playlist''
      | l # ls \<Rightarrow>
          if trim_prefix (trim_suffix l [carriage_return]) byte_order_mark \<noteq> ''#EXTM3U''
          then fails ''HLS master playlist header is invalid''
          else mediaURILinesV1 ls False)"

end
