(* ===== verification/Runner_HTTP.thy ===== *)
theory Runner_HTTP
  imports Go_Json
begin

section \<open>Requests and responses (net/http)\<close>

text \<open>
  What a handler writes: the status, the headers in the order they are set and the body.  A handler
  that writes nothing answers with status 200 and an empty body; \<open>no_output\<close> is the handler
  that gives up on a connection that is gone.
\<close>

record http_out =
  OutStatus :: int
  OutHeaders :: "(string \<times> string) list"
  OutBody :: string

definition http_status :: "int \<Rightarrow> http_out" where
  "http_status s = \<lparr>OutStatus = s, OutHeaders = [], OutBody = []\<rparr>"

definition writeRunnerJSONV1 :: "(string \<times> string) list \<Rightarrow> int \<Rightarrow> json \<Rightarrow> http_out" where
  "writeRunnerJSONV1 headers status v =
     \<lparr>OutStatus = status, OutHeaders = headers @ [(''Content-Type'', ''application/json'')],
      OutBody = json_text v @ [CHR 0x0A]\<rparr>"

definition writeRunnerErrorV1 :: "(string \<times> string) list \<Rightarrow> int \<Rightarrow> string \<Rightarrow> http_out" where
  "writeRunnerErrorV1 headers status code = writeRunnerJSONV1 headers status (JObj [(''error'', JStr code)])"

subsection \<open>Escapes of a path\<close>

text \<open>\<open>url.PathUnescape\<close>.\<close>

fun path_unescape :: "string \<Rightarrow> string option" where
  "path_unescape [] = Some []"
| "path_unescape (c # cs) =
     (if c = CHR ''%'' then
        (case cs of
           a # b # rest \<Rightarrow>
             (case (hex_val a, hex_val b) of
                (Some x, Some y) \<Rightarrow> map_option ((#) (char_of (16 * x + y))) (path_unescape rest)
              | _ \<Rightarrow> None)
         | _ \<Rightarrow> None)
      else map_option ((#) c) (path_unescape cs))"

text \<open>The field \<open>Path\<close> of a \<open>url.URL\<close>: decoded.\<close>

definition url_path :: "url \<Rightarrow> string" where
  "url_path u = (case path_unescape (Path u) of Some p \<Rightarrow> p | None \<Rightarrow> [])"

definition path_dir :: "string \<Rightarrow> string" where
  "path_dir p = path_clean (case cut_last (CHR ''/'') p of None \<Rightarrow> [] | Some (d, _) \<Rightarrow> d @ ''/'')"

text \<open>\<open>Values.Encode\<close>: by key, the values of a key in their order.\<close>

definition query_encode :: "(string \<times> string) list \<Rightarrow> string" where
  "query_encode q = join_with ''&'' (map (\<lambda>(k, v). query_escape k @ ''='' @ query_escape v) (sort_key fst q))"

definition query_del :: "string \<Rightarrow> (string \<times> string) list \<Rightarrow> (string \<times> string) list" where
  "query_del k q = filter (\<lambda>e. fst e \<noteq> k) q"

subsection \<open>Cookies (net/http/cookiejar)\<close>

text \<open>
  A cookie of a response, and an entry of a jar.  A jar lists its entries in the order of their
  creation; the entry that replaces another keeps its place.  There is no list of public suffixes.
\<close>

record set_cookie =
  CookieName :: string
  CookieValue :: string
  CookiePath :: string
  CookieDomain :: string
  CookieMaxAge :: int
  CookieExpires :: "time option"
  CookieSecure :: bool

record jar_entry =
  EntryName :: string
  EntryValue :: string
  EntryDomain :: string
  EntryPath :: string
  EntrySecure :: bool
  EntryHostOnly :: bool
  EntryExpires :: "time option"

type_synonym jar = "jar_entry list"

definition canonical_host :: "url \<Rightarrow> string" where
  "canonical_host u = to_lower (trim_suffix (url_hostname u) ''.'')"

definition default_path :: "string \<Rightarrow> string" where
  "default_path p =
     (if \<not> has_prefix p ''/'' then ''/''
      else case cut_last (CHR ''/'') p of Some (d, _) \<Rightarrow> if d = [] then ''/'' else d | None \<Rightarrow> ''/'')"

definition dot_suffix :: "string \<Rightarrow> string \<Rightarrow> bool" where
  "dot_suffix s suf \<longleftrightarrow> has_suffix s (CHR ''.'' # suf)"

text \<open>The domain of a new entry and whether it is for the host only; \<open>None\<close> rejects it.\<close>

definition domain_and_type :: "string \<Rightarrow> string \<Rightarrow> (string \<times> bool) option" where
  "domain_and_type host domain =
     (if domain = [] then Some (host, True)
      else if CHR '':'' \<in> set host \<or> list_all (\<lambda>c. is_digit c \<or> c = CHR ''.'') host
      then (if host = domain then Some (host, True) else None)
      else (let d = to_lower (trim_prefix domain ''.'') in
        if d = [] \<or> hd d = CHR ''.'' \<or> list_ex (\<lambda>c. (of_char c :: nat) \<ge> 128) d \<or> last d = CHR ''.'' then None
        else if host \<noteq> d \<and> \<not> dot_suffix host d then None
        else Some (d, False)))"

definition same_entry :: "jar_entry \<Rightarrow> jar_entry \<Rightarrow> bool" where
  "same_entry a b \<longleftrightarrow> EntryDomain a = EntryDomain b \<and> EntryPath a = EntryPath b \<and> EntryName a = EntryName b"

fun jar_put :: "jar_entry \<Rightarrow> jar \<Rightarrow> jar" where
  "jar_put e [] = [e]"
| "jar_put e (x # xs) = (if same_entry e x then e # xs else x # jar_put e xs)"

definition jar_set :: "time \<Rightarrow> url \<Rightarrow> set_cookie \<Rightarrow> jar \<Rightarrow> jar" where
  "jar_set now u c j =
     (case domain_and_type (canonical_host u) (CookieDomain c) of
        None \<Rightarrow> j
      | Some (d, hostOnly) \<Rightarrow>
          (let e = \<lparr>EntryName = CookieName c, EntryValue = CookieValue c, EntryDomain = d,
                    EntryPath = (if has_prefix (CookiePath c) ''/'' then CookiePath c else default_path (url_path u)),
                    EntrySecure = CookieSecure c, EntryHostOnly = hostOnly,
                    EntryExpires = (if CookieMaxAge c > 0 then Some (now + CookieMaxAge c * second)
                                    else CookieExpires c)\<rparr>
           in if CookieMaxAge c < 0 \<or> (CookieMaxAge c = 0 \<and> (\<exists>t \<in> set_option (CookieExpires c). t \<le> now))
              then filter (\<lambda>x. \<not> same_entry e x) j
              else jar_put e j))"

definition jar_set_all :: "time \<Rightarrow> url \<Rightarrow> set_cookie list \<Rightarrow> jar \<Rightarrow> jar" where
  "jar_set_all now u cs j =
     (if Scheme u \<noteq> ''http'' \<and> Scheme u \<noteq> ''https'' then j else fold (jar_set now u) cs j)"

definition path_match :: "jar_entry \<Rightarrow> string \<Rightarrow> bool" where
  "path_match e p \<longleftrightarrow>
     p = EntryPath e \<or>
     (has_prefix p (EntryPath e) \<and>
        (last (EntryPath e) = CHR ''/'' \<or> take 1 (drop (length (EntryPath e)) p) = ''/''))"

definition should_send :: "time \<Rightarrow> url \<Rightarrow> jar_entry \<Rightarrow> bool" where
  "should_send now u e \<longleftrightarrow>
     (case EntryExpires e of None \<Rightarrow> True | Some t \<Rightarrow> now < t) \<and>
     (EntryDomain e = canonical_host u \<or> (\<not> EntryHostOnly e \<and> dot_suffix (canonical_host u) (EntryDomain e))) \<and>
     path_match e (if url_path u = [] then ''/'' else url_path u) \<and> (Scheme u = ''https'' \<or> \<not> EntrySecure e)"

definition jar_cookies :: "time \<Rightarrow> url \<Rightarrow> jar \<Rightarrow> (string \<times> string) list" where
  "jar_cookies now u j =
     (if Scheme u \<noteq> ''http'' \<and> Scheme u \<noteq> ''https'' then []
      else map (\<lambda>e. (EntryName e, EntryValue e))
             (sort_key (\<lambda>e. - int (length (EntryPath e))) (filter (should_send now u) j)))"

end
