(* ===== verification/GPU_Presets.thy ===== *)
theory GPU_Presets
  imports Go_Library
begin

section \<open>Hardware detection and presets (transcode-core/gpu.go, presets.go, abr_presets.go, io.go)\<close>

text \<open>
  What the runners know of the machine and of the work they offer: the hardware profile and how
  it is read from the output of \<open>nvidia-smi\<close>, \<open>vainfo\<close> and \<open>ffmpeg\<close>, the
  choice of an encoder or decoder for a codec, and the filtering of presets against the hardware.
  The outside commands are the parameter \<open>run\<close>, a function from the argument vector to
  the standard output or \<open>None\<close> when the command fails; the YAML parser is a third-party
  package, so the loaders take its result.
\<close>

subsection \<open>More of the package strings\<close>

fun index_of :: "string \<Rightarrow> string \<Rightarrow> nat option" where
  "index_of [] sub = (if sub = [] then Some 0 else None)"
| "index_of (c # cs) sub =
     (if has_prefix (c # cs) sub then Some 0 else map_option Suc (index_of cs sub))"

fun last_index_of :: "string \<Rightarrow> string \<Rightarrow> nat option" where
  "last_index_of [] sub = (if sub = [] then Some 0 else None)"
| "last_index_of (c # cs) sub =
     (case last_index_of cs sub of
        Some i \<Rightarrow> Some (Suc i)
      | None \<Rightarrow> if has_prefix (c # cs) sub then Some 0 else None)"

text \<open>\<open>strings.Fields\<close>: the maximal runs of bytes that are not white space.\<close>

function fields_of :: "string \<Rightarrow> string list" where
  "fields_of s =
     (let t = dropWhile is_space s
      in if t = [] then [] else takeWhile (\<lambda>c. \<not> is_space c) t # fields_of (dropWhile (\<lambda>c. \<not> is_space c) t))"
  by auto
termination
proof (relation "measure length")
  fix s t
  assume t: "t = dropWhile is_space s" "t \<noteq> []"
  then obtain c cs where c: "t = c # cs" "\<not> is_space c" by (metis hd_dropWhile list.collapse)
  have "length (dropWhile (\<lambda>c. \<not> is_space c) cs) \<le> length cs" by (rule length_dropWhile_le)
  moreover have "length t \<le> length s" unfolding t(1) by (rule length_dropWhile_le)
  ultimately show "(dropWhile (\<lambda>c. \<not> is_space c) t, s) \<in> measure length" using c by simp
qed simp

declare fields_of.simps [simp del]

subsection \<open>The hardware profile\<close>

definition VendorNone :: string where "VendorNone = []"
definition VendorNVIDIA :: string where "VendorNVIDIA = ''nvidia''"
definition VendorIntel :: string where "VendorIntel = ''intel''"
definition VendorAMD :: string where "VendorAMD = ''amd''"

record HWProfile =
  GPUName :: string
  Vendor :: string
  DevicePath :: string
  VRAM_MB :: int
  Encoders :: "string list"
  Decoders :: "string list"
  HWAccels :: "string list"
  MaxSessions :: int

definition emptyHWProfile :: HWProfile where
  "emptyHWProfile = \<lparr>GPUName = [], Vendor = VendorNone, DevicePath = [], VRAM_MB = 0, Encoders = [],
     Decoders = [], HWAccels = [], MaxSessions = 0\<rparr>"

type_synonym commands = "string list \<Rightarrow> string option"

definition newline :: char where "newline = CHR 0x0A"

text \<open>The second field of every line that contains one of the patterns.\<close>

definition matching_names :: "string list \<Rightarrow> string \<Rightarrow> string list" where
  "matching_names patterns out =
     List.map_filter (\<lambda>line.
        if list_ex (contains line) patterns
        then (let fs = fields_of line in if length fs \<ge> 2 then Some (fs ! 1) else None)
        else None) (split_at newline out)"

definition probeEncodersByPattern :: "commands \<Rightarrow> string list \<Rightarrow> string list" where
  "probeEncodersByPattern run patterns =
     (case run [''ffmpeg'', ''-encoders''] of None \<Rightarrow> [] | Some out \<Rightarrow> matching_names patterns out)"

definition probeDecoders :: "commands \<Rightarrow> string list \<Rightarrow> string list" where
  "probeDecoders run patterns =
     (case run [''ffmpeg'', ''-decoders''] of None \<Rightarrow> [] | Some out \<Rightarrow> matching_names patterns out)"

definition probeHWAccels :: "commands \<Rightarrow> string list" where
  "probeHWAccels run =
     (case run [''ffmpeg'', ''-hwaccels''] of
        None \<Rightarrow> []
      | Some out \<Rightarrow> filter (\<lambda>l. l \<noteq> [] \<and> l \<noteq> ''Hardware acceleration methods:'') (map trim_space (split_at newline out)))"

definition unlimitedGPUs :: "string list" where
  "unlimitedGPUs = [''QUADRO'', ''TESLA'', ''A100'', ''A10'', ''A30'', ''A40'', ''L4'', ''L40'', ''H100'', ''H200'', ''B200'']"

definition maxSessionsForGPU :: "string \<Rightarrow> string \<Rightarrow> int" where
  "maxSessionsForGPU name vendor =
     (if vendor = VendorIntel \<or> vendor = VendorAMD then 8
      else if vendor = VendorNVIDIA then
        (if list_ex (contains (to_upper name)) unlimitedGPUs then 0 else 5)
      else 5)"

definition IsGPUAvailable :: "HWProfile \<Rightarrow> bool" where
  "IsGPUAvailable p \<longleftrightarrow> GPUName p \<noteq> [] \<and> Encoders p \<noteq> []"

text \<open>\<open>strings.SplitN(s, ", ", 2)\<close> when it gives two parts.\<close>

definition split_comma :: "string \<Rightarrow> (string \<times> string) option" where
  "split_comma s = (case index_of s '', '' of None \<Rightarrow> None | Some i \<Rightarrow> Some (take i s, drop (i + 2) s))"

definition detectNVIDIA :: "commands \<Rightarrow> HWProfile \<times> bool" where
  "detectNVIDIA run =
     (case run [''nvidia-smi'', ''--query-gpu=name,memory.total'', ''--format=csv,noheader,nounits''] of
        None \<Rightarrow> (emptyHWProfile, False)
      | Some out \<Rightarrow>
          (let hw0 = emptyHWProfile\<lparr>Vendor := VendorNVIDIA\<rparr>;
               hw1 = (case split_comma (trim_space out) of
                        None \<Rightarrow> hw0
                      | Some (a, b) \<Rightarrow>
                          hw0\<lparr>GPUName := trim_space a,
                              VRAM_MB := (case atoi (trim_space b) of None \<Rightarrow> VRAM_MB hw0 | Some v \<Rightarrow> v)\<rparr>);
               hw2 = hw1\<lparr>HWAccels := probeHWAccels run, Encoders := probeEncodersByPattern run [''nvenc'', ''nv_''],
                         Decoders := probeDecoders run [''cuvid'', ''nv_'']\<rparr>;
               hw3 = hw2\<lparr>MaxSessions := maxSessionsForGPU (GPUName hw2) (Vendor hw2)\<rparr>
           in (hw3, IsGPUAvailable hw3)))"

definition detectVAAPIDevice :: "string list option \<Rightarrow> string" where
  "detectVAAPIDevice glob = (case glob of Some (m # _) \<Rightarrow> m | _ \<Rightarrow> ''/dev/dri/renderD128'')"

fun parseVAInfoLines :: "string list \<Rightarrow> string" where
  "parseVAInfoLines [] = ''Unknown GPU''"
| "parseVAInfoLines (line # rest) =
     (if contains line ''Driver version'' then
        (let fallback = (case index_of line ''Driver version:'' of
                           None \<Rightarrow> parseVAInfoLines rest
                         | Some i \<Rightarrow> trim_space (drop (i + length ''Driver version:'') line))
         in case last_index_of line '' - '' of
              None \<Rightarrow> fallback
            | Some i \<Rightarrow> (let name = trim_space (drop (i + 3) line) in if name \<noteq> [] then name else fallback))
      else parseVAInfoLines rest)"

definition parseVAInfoGPUName :: "string \<Rightarrow> string" where
  "parseVAInfoGPUName vainfo = parseVAInfoLines (split_at newline vainfo)"

definition detectIntel :: "commands \<Rightarrow> string list option \<Rightarrow> HWProfile \<times> bool" where
  "detectIntel run glob =
     (case run [''vainfo''] of
        None \<Rightarrow> (emptyHWProfile, False)
      | Some out \<Rightarrow>
          if \<not> contains out ''iHD'' \<and> \<not> contains out ''i965'' then (emptyHWProfile, False)
          else (let hw = emptyHWProfile\<lparr>Vendor := VendorIntel, DevicePath := detectVAAPIDevice glob,
                           GPUName := parseVAInfoGPUName out, HWAccels := probeHWAccels run,
                           Encoders := probeEncodersByPattern run [''_qsv'', ''_vaapi''],
                           Decoders := probeDecoders run [''_qsv'']\<rparr>;
                    hw1 = hw\<lparr>MaxSessions := maxSessionsForGPU (GPUName hw) (Vendor hw)\<rparr>
                in (hw1, IsGPUAvailable hw1)))"

definition detectAMD :: "commands \<Rightarrow> string list option \<Rightarrow> HWProfile \<times> bool" where
  "detectAMD run glob =
     (case run [''vainfo''] of
        None \<Rightarrow> (emptyHWProfile, False)
      | Some out \<Rightarrow>
          if \<not> contains out ''radeonsi'' \<and> \<not> contains out ''AMDGPU'' then (emptyHWProfile, False)
          else (let hw = emptyHWProfile\<lparr>Vendor := VendorAMD, DevicePath := detectVAAPIDevice glob,
                           GPUName := parseVAInfoGPUName out, HWAccels := probeHWAccels run,
                           Encoders := probeEncodersByPattern run [''_vaapi'']\<rparr>;
                    hw1 = hw\<lparr>MaxSessions := maxSessionsForGPU (GPUName hw) (Vendor hw)\<rparr>
                in (hw1, IsGPUAvailable hw1)))"

definition DetectGPU :: "commands \<Rightarrow> string list option \<Rightarrow> HWProfile" where
  "DetectGPU run glob =
     (if snd (detectNVIDIA run) then fst (detectNVIDIA run)
      else if snd (detectIntel run glob) then fst (detectIntel run glob)
      else if snd (detectAMD run glob) then fst (detectAMD run glob)
      else emptyHWProfile)"

definition HasEncoder :: "HWProfile \<Rightarrow> string \<Rightarrow> bool" where
  "HasEncoder p name \<longleftrightarrow> list_ex (\<lambda>e. equal_fold e name) (Encoders p)"

definition HasDecoder :: "HWProfile \<Rightarrow> string \<Rightarrow> bool" where
  "HasDecoder p name \<longleftrightarrow> list_ex (\<lambda>d. equal_fold d name) (Decoders p)"

definition HasHWAccel :: "HWProfile \<Rightarrow> string \<Rightarrow> bool" where
  "HasHWAccel p name \<longleftrightarrow> list_ex (\<lambda>a. equal_fold a name) (HWAccels p)"

subsection \<open>Codecs\<close>

text \<open>The first of the candidates the hardware has, else the fallback.\<close>

fun first_having :: "(string \<Rightarrow> bool) \<Rightarrow> string list \<Rightarrow> string \<Rightarrow> string" where
  "first_having has [] fallback = fallback"
| "first_having has (n # ns) fallback = (if has n then n else first_having has ns fallback)"

definition EncoderForCodec :: "string \<Rightarrow> HWProfile \<Rightarrow> string" where
  "EncoderForCodec codec hw =
     (let c = to_lower codec in
      if c = ''h264'' \<or> c = ''avc''
      then first_having (HasEncoder hw) [''h264_nvenc'', ''h264_qsv'', ''h264_vaapi''] ''libx264''
      else if c = ''h265'' \<or> c = ''hevc''
      then first_having (HasEncoder hw) [''hevc_nvenc'', ''hevc_qsv'', ''hevc_vaapi''] ''libx265''
      else if c = ''av1''
      then first_having (HasEncoder hw) [''av1_nvenc'', ''av1_qsv'', ''av1_vaapi''] ''libsvtav1''
      else if c = ''vp9'' then first_having (HasEncoder hw) [''vp9_vaapi''] ''libvpx-vp9''
      else codec)"

definition softwareEncoderForCodec :: "string \<Rightarrow> string" where
  "softwareEncoderForCodec codec =
     (let c = to_lower codec in
      if c = ''h264'' \<or> c = ''avc'' then ''libx264''
      else if c = ''h265'' \<or> c = ''hevc'' then ''libx265''
      else if c = ''av1'' then ''libsvtav1''
      else if c = ''vp9'' then ''libvpx-vp9''
      else codec)"

definition DecoderForCodec :: "string \<Rightarrow> HWProfile \<Rightarrow> string" where
  "DecoderForCodec codec hw =
     (let c = to_lower codec in
      if c = ''h264'' \<or> c = ''avc'' then first_having (HasDecoder hw) [''h264_cuvid'', ''h264_qsv''] []
      else if c = ''h265'' \<or> c = ''hevc'' then first_having (HasDecoder hw) [''hevc_cuvid'', ''hevc_qsv''] []
      else if c = ''av1'' then first_having (HasDecoder hw) [''av1_cuvid'', ''av1_qsv''] []
      else if c = ''vp9'' then first_having (HasDecoder hw) [''vp9_cuvid'', ''vp9_qsv''] []
      else [])"

subsection \<open>Presets\<close>

record Preset =
  PresetName :: string
  PresetDescription :: string
  PresetVideoCodec :: string
  PresetAudioCodec :: string
  PresetWidth :: int
  PresetHeight :: int
  PresetBitrate :: string
  PresetMaxRate :: string
  PresetBufSize :: string
  PresetCRF :: int
  PresetFPS :: int
  PresetPixFmt :: string
  PresetProfile :: string
  PresetTier :: string
  GPURequired :: bool
  PresetAudioBitrate :: string
  PresetAudioChannels :: int
  PresetAudioSampleRate :: int

definition LoadPresetsFromBytes :: "Preset list result \<Rightarrow> Preset list result" where
  "LoadPresetsFromBytes decoded =
     (case decoded of
        Inl e \<Rightarrow> Inl (ErrWrap ''parse presets YAML'' e)
      | Inr ps \<Rightarrow> if ps = [] then fails ''no presets found in YAML'' else Inr ps)"

fun ValidatePresets :: "Preset list \<Rightarrow> HWProfile \<Rightarrow> Preset list \<times> string list" where
  "ValidatePresets [] hw = ([], [])"
| "ValidatePresets (p # ps) hw =
     (let (valid, skipped) = ValidatePresets ps hw in
      if GPURequired p \<and> \<not> IsGPUAvailable hw then (valid, PresetName p # skipped)
      else if GPURequired p \<and> EncoderForCodec (PresetVideoCodec p) hw = softwareEncoderForCodec (PresetVideoCodec p)
      then (valid, PresetName p # skipped)
      else (p # valid, skipped))"

definition FindPreset :: "Preset list \<Rightarrow> string \<Rightarrow> Preset option" where
  "FindPreset presets name = find (\<lambda>p. equal_fold (PresetName p) name) presets"

record ABRVideoSettings =
  VideoCodecName :: string
  VideoWidth :: int
  VideoHeight :: int
  VideoBitrate :: string
  VideoMaxBitrate :: string
  VideoBufSize :: string
  VideoProfile :: string
  VideoLevel :: string
  VideoPixFmt :: string

record ABRAudioSettings =
  AudioCodecName :: string
  AudioBitrate :: string
  AudioChannels :: int
  AudioSampleRate :: int

record ABRRendition =
  RenditionName :: string
  Video :: "ABRVideoSettings option"
  Audio :: ABRAudioSettings

record ABRPreset =
  ABRName :: string
  ABRDescription :: string
  ABRType :: string
  ABRFormat :: string
  ABRHLSMode :: string
  ABRSegmentDuration :: int
  ABRRenditions :: "ABRRendition list"

definition defaultSegmentDuration :: "ABRPreset \<Rightarrow> ABRPreset" where
  "defaultSegmentDuration p = (if ABRSegmentDuration p \<le> 0 then p\<lparr>ABRSegmentDuration := 6\<rparr> else p)"

definition LoadABRPresetsFromBytes :: "ABRPreset list result \<Rightarrow> ABRPreset list result" where
  "LoadABRPresetsFromBytes decoded =
     (case decoded of
        Inl e \<Rightarrow> Inl (ErrWrap ''parse ABR presets YAML'' e)
      | Inr ps \<Rightarrow>
          if ps = [] then fails ''no ABR presets found in YAML''
          else if list_ex (\<lambda>p. ABRRenditions p = []) ps then fails ''ABR preset has no renditions''
          else Inr (map defaultSegmentDuration ps))"

definition canEncodeRendition :: "HWProfile \<Rightarrow> ABRRendition \<Rightarrow> bool" where
  "canEncodeRendition hw r \<longleftrightarrow>
     (case Video r of
        None \<Rightarrow> True
      | Some v \<Rightarrow>
          IsGPUAvailable hw \<and> EncoderForCodec (VideoCodecName v) hw \<noteq> softwareEncoderForCodec (VideoCodecName v))"

fun ValidateABRPresets :: "ABRPreset list \<Rightarrow> HWProfile \<Rightarrow> ABRPreset list \<times> string list" where
  "ValidateABRPresets [] hw = ([], [])"
| "ValidateABRPresets (p # ps) hw =
     (let (valid, skipped) = ValidateABRPresets ps hw in
      if list_all (canEncodeRendition hw) (ABRRenditions p) then (p # valid, skipped)
      else (valid, ABRName p # skipped))"

definition FindABRPreset :: "ABRPreset list \<Rightarrow> string \<Rightarrow> ABRPreset option" where
  "FindABRPreset presets name = find (\<lambda>p. equal_fold (ABRName p) name) presets"

definition RenditionNames :: "ABRPreset \<Rightarrow> string list" where
  "RenditionNames p = map RenditionName (ABRRenditions p)"

definition VideoRenditions :: "ABRPreset \<Rightarrow> ABRRendition list" where
  "VideoRenditions p = filter (\<lambda>r. Video r \<noteq> None) (ABRRenditions p)"

definition ContentTypeForExt :: "string \<Rightarrow> string" where
  "ContentTypeForExt ext =
     (let e = to_lower ext in
      if e = ''.mp4'' then ''video/mp4'' else if e = ''.mkv'' then ''video/x-matroska''
      else if e = ''.webm'' then ''video/webm'' else if e = ''.mov'' then ''video/quicktime''
      else if e = ''.avi'' then ''video/x-msvideo'' else if e = ''.ts'' then ''video/mp2t''
      else if e = ''.m3u8'' then ''application/vnd.apple.mpegurl'' else if e = ''.m4s'' then ''video/iso.segment''
      else if e = ''.jpg'' \<or> e = ''.jpeg'' then ''image/jpeg'' else if e = ''.png'' then ''image/png''
      else ''application/octet-stream'')"

section \<open>Lemmas and properties\<close>

lemma first_having_cases: "first_having has ns fb = fb \<or> (first_having has ns fb \<in> set ns \<and> has (first_having has ns fb))"
  by (induction ns) auto

lemma EncoderForCodec_choice:
  "EncoderForCodec codec hw = softwareEncoderForCodec codec \<or>
   (HasEncoder hw (EncoderForCodec codec hw) \<and>
    list_ex (has_suffix (EncoderForCodec codec hw)) [''_nvenc'', ''_qsv'', ''_vaapi''])"
proof -
  note c = first_having_cases [of "HasEncoder hw"]
  show ?thesis
    unfolding EncoderForCodec_def softwareEncoderForCodec_def Let_def
    using c [of "[''h264_nvenc'', ''h264_qsv'', ''h264_vaapi'']" "''libx264''"]
      c [of "[''hevc_nvenc'', ''hevc_qsv'', ''hevc_vaapi'']" "''libx265''"]
      c [of "[''av1_nvenc'', ''av1_qsv'', ''av1_vaapi'']" "''libsvtav1''"] c [of "[''vp9_vaapi'']" "''libvpx-vp9''"]
    by (auto simp: has_suffix_def)
qed

lemma ValidatePresets_filter:
  "ValidatePresets ps hw =
     (let ok = (\<lambda>p. GPURequired p \<longrightarrow> IsGPUAvailable hw \<and>
                     EncoderForCodec (PresetVideoCodec p) hw \<noteq> softwareEncoderForCodec (PresetVideoCodec p))
      in (filter ok ps, map PresetName (filter (\<lambda>p. \<not> ok p) ps)))"
  by (induction ps) (auto simp: Let_def split_beta)

lemma ValidateABRPresets_filter:
  "ValidateABRPresets ps hw =
     (let ok = (\<lambda>p. list_all (canEncodeRendition hw) (ABRRenditions p))
      in (filter ok ps, map ABRName (filter (\<lambda>p. \<not> ok p) ps)))"
  by (induction ps) (auto simp: Let_def split_beta)

text \<open>
  A preset that requires a GPU survives the filter exactly when a GPU was detected and the
  encoder chosen for it is a hardware encoder the GPU has; a preset that does not is always
  kept; the filter keeps the order, and every preset is either kept or reported as skipped.
\<close>

theorem valid_presets_are_encodable:
  assumes "ValidatePresets presets hw = (valid, skipped)"
  shows "(\<forall>p\<in>set valid. GPURequired p \<longrightarrow> IsGPUAvailable hw \<and> HasEncoder hw (EncoderForCodec (PresetVideoCodec p) hw)) \<and>
     (\<forall>p\<in>set presets. p \<in> set valid \<or> (PresetName p \<in> set skipped \<and> GPURequired p)) \<and>
     valid = filter (\<lambda>p. p \<in> set valid) presets \<and> length valid + length skipped = length presets"
proof -
  let ?ok = "\<lambda>p. GPURequired p \<longrightarrow> IsGPUAvailable hw \<and>
      EncoderForCodec (PresetVideoCodec p) hw \<noteq> softwareEncoderForCodec (PresetVideoCodec p)"
  have v: "valid = filter ?ok presets" and s: "skipped = map PresetName (filter (\<lambda>p. \<not> ?ok p) presets)"
    using assms by (auto simp: ValidatePresets_filter Let_def)
  have "filter (\<lambda>p. p \<in> set valid) presets = valid" unfolding v by (rule filter_cong) auto
  moreover have "length valid + length skipped = length presets"
    unfolding v s length_map by (rule sum_length_filter_compl)
  moreover have "\<forall>p\<in>set valid. GPURequired p \<longrightarrow> IsGPUAvailable hw \<and> HasEncoder hw (EncoderForCodec (PresetVideoCodec p) hw)"
    using EncoderForCodec_choice by (auto simp: v)
  moreover have "\<forall>p\<in>set presets. p \<in> set valid \<or> (PresetName p \<in> set skipped \<and> GPURequired p)"
    by (auto simp: v s)
  ultimately show ?thesis by simp
qed

definition nvenc_profile :: HWProfile where
  "nvenc_profile = emptyHWProfile\<lparr>GPUName := ''T4'', Vendor := VendorNVIDIA, Encoders := [''h264_nvenc''], HWAccels := [''cuda'']\<rparr>"

definition h264_preset :: Preset where
  "h264_preset = \<lparr>PresetName = ''p'', PresetDescription = [], PresetVideoCodec = ''H264'', PresetAudioCodec = [],
     PresetWidth = 1280, PresetHeight = 720, PresetBitrate = ''3M'', PresetMaxRate = [], PresetBufSize = [], PresetCRF = 0,
     PresetFPS = 0, PresetPixFmt = ''yuv420p'', PresetProfile = [], PresetTier = [], GPURequired = True,
     PresetAudioBitrate = [], PresetAudioChannels = 2, PresetAudioSampleRate = 0\<rparr>"

theorem valid_presets_are_encodable_witness:
  "ValidatePresets [h264_preset, h264_preset\<lparr>PresetVideoCodec := ''av1''\<rparr>] nvenc_profile = ([h264_preset], [''p'']) \<and>
     HasEncoder nvenc_profile (EncoderForCodec ''H264'' nvenc_profile)"
proof -
  have v: "ValidatePresets [h264_preset, h264_preset\<lparr>PresetVideoCodec := ''av1''\<rparr>] nvenc_profile = ([h264_preset], [''p''])"
    by code_simp
  from valid_presets_are_encodable [OF v] show ?thesis using v by (simp add: h264_preset_def)
qed

lemma probeEncoders_printed:
  assumes "e \<in> set (probeEncodersByPattern run ps)"
  shows "\<exists>out line. run [''ffmpeg'', ''-encoders''] = Some out \<and> line \<in> set (split_at newline out) \<and> e \<in> set (fields_of line)"
proof -
  obtain out where out: "run [''ffmpeg'', ''-encoders''] = Some out" "e \<in> set (matching_names ps out)"
    using assms by (cases "run [''ffmpeg'', ''-encoders'']") (simp_all add: probeEncodersByPattern_def)
  then obtain line where "line \<in> set (split_at newline out)" "e = fields_of line ! 1" "2 \<le> length (fields_of line)"
    by (auto simp: matching_names_def List.map_filter_def Let_def split: if_splits)
  then show ?thesis using out(1) by (intro exI [of _ out] exI [of _ line]) simp
qed

text \<open>
  Hardware detection is sound: the profile of \<open>DetectGPU\<close> is either empty or names a GPU
  with at least one encoder, its session limit is the one for that GPU and vendor, and every
  encoder it lists was printed by \<open>ffmpeg -encoders\<close>.
\<close>

theorem detected_gpu_is_usable:
  "DetectGPU run glob = emptyHWProfile \<or>
     (IsGPUAvailable (DetectGPU run glob) \<and>
      Vendor (DetectGPU run glob) \<in> {VendorNVIDIA, VendorIntel, VendorAMD} \<and>
      MaxSessions (DetectGPU run glob) = maxSessionsForGPU (GPUName (DetectGPU run glob)) (Vendor (DetectGPU run glob)) \<and>
      (\<forall>e\<in>set (Encoders (DetectGPU run glob)). \<exists>out line. run [''ffmpeg'', ''-encoders''] = Some out \<and>
         line \<in> set (split_at newline out) \<and> e \<in> set (fields_of line)))"
proof -
  have n: "snd (detectNVIDIA run) \<Longrightarrow> IsGPUAvailable (fst (detectNVIDIA run)) \<and> Vendor (fst (detectNVIDIA run)) = VendorNVIDIA \<and>
      MaxSessions (fst (detectNVIDIA run)) = maxSessionsForGPU (GPUName (fst (detectNVIDIA run))) VendorNVIDIA \<and>
      Encoders (fst (detectNVIDIA run)) = probeEncodersByPattern run [''nvenc'', ''nv_'']"
    by (auto simp: detectNVIDIA_def Let_def split: option.splits)
  have i: "snd (detectIntel run glob) \<Longrightarrow> IsGPUAvailable (fst (detectIntel run glob)) \<and> Vendor (fst (detectIntel run glob)) = VendorIntel \<and>
      MaxSessions (fst (detectIntel run glob)) = maxSessionsForGPU (GPUName (fst (detectIntel run glob))) VendorIntel \<and>
      Encoders (fst (detectIntel run glob)) = probeEncodersByPattern run [''_qsv'', ''_vaapi'']"
    by (auto simp: detectIntel_def Let_def split: option.splits if_splits)
  have a: "snd (detectAMD run glob) \<Longrightarrow> IsGPUAvailable (fst (detectAMD run glob)) \<and> Vendor (fst (detectAMD run glob)) = VendorAMD \<and>
      MaxSessions (fst (detectAMD run glob)) = maxSessionsForGPU (GPUName (fst (detectAMD run glob))) VendorAMD \<and>
      Encoders (fst (detectAMD run glob)) = probeEncodersByPattern run [''_vaapi'']"
    by (auto simp: detectAMD_def Let_def split: option.splits if_splits)
  have "DetectGPU run glob = emptyHWProfile \<or> (IsGPUAvailable (DetectGPU run glob) \<and>
      Vendor (DetectGPU run glob) \<in> {VendorNVIDIA, VendorIntel, VendorAMD} \<and>
      MaxSessions (DetectGPU run glob) = maxSessionsForGPU (GPUName (DetectGPU run glob)) (Vendor (DetectGPU run glob)) \<and>
      (\<exists>ps. Encoders (DetectGPU run glob) = probeEncodersByPattern run ps))"
    unfolding DetectGPU_def using n i a by (auto simp: Let_def)
  then show ?thesis using probeEncoders_printed by metis
qed

definition example_commands :: commands where
  "example_commands args =
     (if hd args = ''nvidia-smi'' then Some ''Tesla T4, 15360''
      else if args = [''ffmpeg'', ''-encoders''] then Some '' V..... h264_nvenc NVENC'' else None)"

theorem detected_gpu_is_usable_witness:
  "GPUName (DetectGPU example_commands None) = ''Tesla T4'' \<and> IsGPUAvailable (DetectGPU example_commands None) \<and>
     MaxSessions (DetectGPU example_commands None) = 0"
proof -
  have "(case DetectGPU example_commands None of hw \<Rightarrow> (GPUName hw, Vendor hw)) = (''Tesla T4'', VendorNVIDIA)"
    by code_simp
  then have n: "GPUName (DetectGPU example_commands None) = ''Tesla T4''" "Vendor (DetectGPU example_commands None) = VendorNVIDIA"
    by simp_all
  have "GPUName emptyHWProfile = []" "maxSessionsForGPU ''Tesla T4'' VendorNVIDIA = 0" by code_simp+
  then show ?thesis using detected_gpu_is_usable [of example_commands None] n by force
qed

end
