(* ===== verification/Go_Float.thy ===== *)
theory Go_Float
  imports Complex_Main Go_Library
begin

section \<open>Floating point numbers\<close>

text \<open>
  A finite \<open>float64\<close> is its exact value, a rational number.  \<open>fl\<close> rounds to the
  nearest double, ties to even; an operation is the exact one followed by \<open>fl\<close>.  The
  model has no infinities, no subnormal numbers and no negative zero: the values of the sources
  are durations, frame rates, bit rates and scale factors.  \<open>parse_float\<close> reads the decimal
  forms of \<open>strconv.ParseFloat\<close>.
\<close>

definition round_even :: "rat \<Rightarrow> int" where
  "round_even x =
     (let f = \<lfloor>x\<rfloor>; r = x - of_int f
      in if r < 1 / 2 then f else if 1 / 2 < r then f + 1 else if even f then f else f + 1)"

definition scale2 :: "int \<Rightarrow> rat \<Rightarrow> rat" where
  "scale2 e x = (if 0 \<le> e then x * 2 ^ nat e else x / 2 ^ nat (- e))"

text \<open>The binary logarithm of a positive integer, and the exponent of the last of the 53 bits.\<close>

function ilog2 :: "int \<Rightarrow> int" where
  "ilog2 n = (if n \<le> 1 then 0 else 1 + ilog2 (n div 2))"
  by auto
termination by (relation "measure nat") auto

declare ilog2.simps [simp del]

definition fl_exponent :: "rat \<Rightarrow> int" where
  "fl_exponent x =
     (let (p, q) = quotient_of \<bar>x\<bar>; e = ilog2 p - ilog2 q - 53
      in if scale2 (- e) \<bar>x\<bar> < 2 ^ 53 then e else e + 1)"

definition fl :: "rat \<Rightarrow> rat" where
  "fl x = (if x = 0 then 0 else (let e = fl_exponent x in scale2 e (of_int (round_even (scale2 (- e) x)))))"

definition fl_mul :: "rat \<Rightarrow> rat \<Rightarrow> rat" where "fl_mul x y = fl (x * y)"
definition fl_div :: "rat \<Rightarrow> rat \<Rightarrow> rat" where "fl_div x y = fl (x / y)"
definition fl_add :: "rat \<Rightarrow> rat \<Rightarrow> rat" where "fl_add x y = fl (x + y)"

text \<open>Conversion to an integer truncates.\<close>

definition trunc :: "rat \<Rightarrow> int" where
  "trunc x = (if 0 \<le> x then \<lfloor>x\<rfloor> else \<lceil>x\<rceil>)"

text \<open>\<open>%.nf\<close>: the exact value rounded to \<open>n\<close> decimals.\<close>

definition fmt_fixed :: "nat \<Rightarrow> rat \<Rightarrow> string" where
  "fmt_fixed n x =
     (let v = nat (round_even (\<bar>x\<bar> * 10 ^ n)); i = v div 10 ^ n; f = v mod 10 ^ n
      in (if x < 0 then ''-'' else []) @ fmt_nat i @ (if n = 0 then [] else ''.'' @ pad_left n (fmt_nat f)))"

definition all_digits :: "string \<Rightarrow> bool" where
  "all_digits s \<longleftrightarrow> s \<noteq> [] \<and> list_all is_digit s"

text \<open>A decimal mantissa: digits with at most one point, at least one digit.\<close>

definition parse_mantissa :: "string \<Rightarrow> rat option" where
  "parse_mantissa s =
     (case cut_at CHR ''.'' s of
        None \<Rightarrow> if all_digits s then Some (of_nat (nat_of_digits s)) else None
      | Some (a, b) \<Rightarrow>
          if (a @ b) \<noteq> [] \<and> list_all is_digit (a @ b)
          then Some (of_nat (nat_of_digits (a @ b)) / 10 ^ length b) else None)"

definition parse_exponent :: "string \<Rightarrow> int option" where
  "parse_exponent s =
     (case s of
        c # cs \<Rightarrow>
          if c = CHR ''-'' then (if all_digits cs then Some (- int (nat_of_digits cs)) else None)
          else if c = CHR ''+'' then (if all_digits cs then Some (int (nat_of_digits cs)) else None)
          else if all_digits s then Some (int (nat_of_digits s)) else None
      | [] \<Rightarrow> None)"

definition parse_unsigned_float :: "string \<Rightarrow> rat option" where
  "parse_unsigned_float s =
     (case cut_at CHR ''e'' (map (\<lambda>c. if c = CHR ''E'' then CHR ''e'' else c) s) of
        None \<Rightarrow> parse_mantissa s
      | Some (m, e) \<Rightarrow>
          (case (parse_mantissa m, parse_exponent e) of
             (Some v, Some x) \<Rightarrow> Some (if 0 \<le> x then v * 10 ^ nat x else v / 10 ^ nat (- x))
           | _ \<Rightarrow> None))"

definition parse_float :: "string \<Rightarrow> rat option" where
  "parse_float s =
     (case s of
        [] \<Rightarrow> None
      | c # cs \<Rightarrow>
          if c = CHR ''-'' then map_option (\<lambda>v. fl (- v)) (parse_unsigned_float cs)
          else if c = CHR ''+'' then map_option fl (parse_unsigned_float cs)
          else map_option fl (parse_unsigned_float s))"

subsection \<open>Rounding\<close>

lemma round_even_int [simp]: "round_even (of_int i) = i"
  by (simp add: round_even_def Let_def)

lemma round_even_mono: "x \<le> y \<Longrightarrow> round_even x \<le> round_even y"
proof -
  assume xy: "x \<le> y"
  then have f: "\<lfloor>x\<rfloor> \<le> \<lfloor>y\<rfloor>" by (rule floor_mono)
  have b: "round_even z = \<lfloor>z\<rfloor> \<or> round_even z = \<lfloor>z\<rfloor> + 1" for z
    by (simp add: round_even_def Let_def)
  show ?thesis
  proof (cases "\<lfloor>x\<rfloor> = \<lfloor>y\<rfloor>")
    case True
    then show ?thesis using xy by (auto simp: round_even_def Let_def)
  next
    case False
    then show ?thesis using f b [of x] b [of y] by linarith
  qed
qed

lemma round_even_error: "\<bar>x - of_int (round_even x)\<bar> \<le> 1 / 2"
proof -
  have "of_int \<lfloor>x\<rfloor> \<le> x" "x < of_int \<lfloor>x\<rfloor> + 1" by linarith+
  then show ?thesis by (auto simp: round_even_def Let_def abs_le_iff)
qed

lemma scale2_of_int: "scale2 0 x = x"
  by (simp add: scale2_def)

lemma fl_zero [simp]: "fl 0 = 0"
  by (simp add: fl_def)

end
