(* ===== verification/Live_HLS.thy ===== *)
theory Live_HLS
  imports Live_Playlist Live_Media Runner_HTTP GPU_Presets Go_Float
begin

section \<open>The HLS proxy (live-runner/hls.go, hls_master.go)\<close>

text \<open>
  Viewers fetch a session's playlists and segments through the runner, which fetches them from
  MediaMTX on a loopback address.  \<open>upstream\<close> is MediaMTX: the answer to the n-th request
  the proxy sends, with the headers net/http has decoded.  The state \<open>hls\<close> holds the cookie
  jars, one per session and directory, and the requests sent so far.
\<close>

record response =
  RespStatus :: int
  RespLocation :: "url option"
  RespCookies :: "set_cookie list"
  RespHeaders :: "(string \<times> string) list"
  RespBody :: string
  RespBroken :: bool

record up_request =
  UpMethod :: string
  UpURL :: url
  UpRange :: "string option"
  UpCookies :: "(string \<times> string) list"

text \<open>The error of a failed request says whether the context was cancelled.\<close>

datatype up_answer = UpFailed bool | UpAnswer response

record mediamtx =
  upstream :: "nat \<Rightarrow> up_request \<Rightarrow> up_answer"
  up_time :: "nat \<Rightarrow> time"

record hls =
  Cookies :: "string \<Rightarrow> string \<Rightarrow> jar option"
  Sent :: "up_request list"

subsection \<open>Construction\<close>

record HLSHandlerV1 =
  HLSPresets :: "string \<Rightarrow> ABRPreset option"
  BaseURL :: string

definition byNameV1 :: "ABRPreset list \<Rightarrow> string \<Rightarrow> ABRPreset option" where
  "byNameV1 presets = map_of (rev (map (\<lambda>p. (to_lower (ABRName p), p)) presets))"

definition NewHLSHandlerV1 :: "ABRPreset list \<Rightarrow> string \<Rightarrow> duration \<Rightarrow> HLSHandlerV1 result" where
  "NewHLSHandlerV1 presets upstreamURL timeout =
     (case url_parse upstreamURL of
        None \<Rightarrow> fails ''HLS proxy dependencies are invalid''
      | Some u \<Rightarrow>
          (case split_host_port (Host u) of
             None \<Rightarrow> fails ''HLS proxy dependencies are invalid''
           | Some (host, _) \<Rightarrow>
               if presets = [] \<or> Scheme u \<noteq> ''http'' \<or> UserInfo u \<noteq> None \<or> Path u \<noteq> [] \<or> RawQuery u \<noteq> []
                  \<or> Fragment u \<noteq> [] \<or> (host \<noteq> ''localhost'' \<and> \<not> is_loopback_ip host) \<or> timeout \<le> 0
               then fails ''HLS proxy dependencies are invalid''
               else if list_ex (\<lambda>p. ABRName p = [] \<or> ABRRenditions p = []) presets
               then fails ''HLS proxy preset is invalid''
               else Inr \<lparr>HLSPresets = byNameV1 presets, BaseURL = trim_right_by (\<lambda>c. c = CHR ''/'') upstreamURL\<rparr>))"

subsection \<open>Cookies of a session\<close>

definition cookie_dir :: "url \<Rightarrow> string" where
  "cookie_dir u = path_dir (url_path u)"

definition sessionCookiesV1 :: "mediamtx \<Rightarrow> hls \<Rightarrow> string \<Rightarrow> url \<Rightarrow> (string \<times> string) list" where
  "sessionCookiesV1 M h runnerID u =
     (case Cookies h runnerID (cookie_dir u) of
        None \<Rightarrow> []
      | Some j \<Rightarrow> jar_cookies (up_time M (length (Sent h))) u j)"

definition storeSessionCookies :: "mediamtx \<Rightarrow> string \<Rightarrow> url \<Rightarrow> set_cookie list \<Rightarrow> hls \<Rightarrow> hls" where
  "storeSessionCookies M runnerID target cookies h =
     (if cookies = [] then h
      else (let key = cookie_dir target;
                j = (case Cookies h runnerID key of None \<Rightarrow> [] | Some j \<Rightarrow> j);
                localCookies = map (\<lambda>c. c\<lparr>CookieSecure := False\<rparr>) cookies
            in h\<lparr>Cookies := (Cookies h)(runnerID := (Cookies h runnerID)(key :=
                   Some (jar_set_all (up_time M (length (Sent h))) target localCookies j)))\<rparr>))"

definition forgetSessionCookies :: "string \<Rightarrow> hls \<Rightarrow> hls" where
  "forgetSessionCookies runnerID h = h\<lparr>Cookies := (Cookies h)(runnerID := (\<lambda>_. None))\<rparr>"

text \<open>One request with the cookies of its session and directory: \<open>addSessionCookies\<close> and \<open>client.Do\<close>.\<close>

definition sendUpstreamV1 :: "mediamtx \<Rightarrow> string \<Rightarrow> string \<Rightarrow> url \<Rightarrow> string option \<Rightarrow> hls \<Rightarrow> up_answer \<times> hls" where
  "sendUpstreamV1 M runnerID httpMethod u rangeHeader h =
     (let q = \<lparr>UpMethod = httpMethod, UpURL = u, UpRange = rangeHeader, UpCookies = sessionCookiesV1 M h runnerID u\<rparr>
      in (upstream M (length (Sent h)) q, h\<lparr>Sent := Sent h @ [q]\<rparr>))"

definition followMediaMTXCookieCheck ::
    "mediamtx \<Rightarrow> string \<Rightarrow> string \<Rightarrow> url \<Rightarrow> string option \<Rightarrow> response \<Rightarrow> hls \<Rightarrow> response result \<times> hls" where
  "followMediaMTXCookieCheck M runnerID httpMethod original rangeHeader redirect h =
     (let untrusted = (fails ''untrusted HLS redirect'', h) in
      case RespLocation redirect of
        None \<Rightarrow> untrusted
      | Some location \<Rightarrow>
          if Scheme location \<noteq> Scheme original \<or> Host location \<noteq> Host original \<or> url_path location \<noteq> url_path original
          then untrusted
          else (let query = fst (parse_query (RawQuery location)) in
            if query_values query ''cookieCheck'' \<noteq> [''1''] then untrusted
            else if query_encode (query_del ''cookieCheck'' query) \<noteq> query_encode (fst (parse_query (RawQuery original)))
                    \<or> RespCookies redirect = [] then untrusted
            else (let h1 = storeSessionCookies M runnerID original (RespCookies redirect) h;
                      (reply, h2) = sendUpstreamV1 M runnerID httpMethod location
                        (Some (case rangeHeader of None \<Rightarrow> [] | Some r \<Rightarrow> r)) h1
                  in case reply of
                       UpFailed _ \<Rightarrow> (fails ''upstream request failed'', h2)
                     | UpAnswer r \<Rightarrow>
                         if RespStatus r \<ge> 300 \<and> RespStatus r < 400 then (fails ''repeated HLS redirect'', h2)
                         else (Inr r, storeSessionCookies M runnerID location (RespCookies r) h2))))"

subsection \<open>Playlists from MediaMTX\<close>

definition fetchPlaylist :: "mediamtx \<Rightarrow> string \<Rightarrow> string \<Rightarrow> string \<Rightarrow> hls \<Rightarrow> string result \<times> hls" where
  "fetchPlaylist M baseURL runnerID mediaPath h =
     (case url_parse (baseURL @ ''/'' @ mediaPath) of
        None \<Rightarrow> (fails ''HLS playlist request failed'', h)
      | Some u \<Rightarrow>
          (case sendUpstreamV1 M runnerID ''GET'' u None h of
             (UpFailed _, h1) \<Rightarrow> (fails ''HLS playlist request failed'', h1)
           | (UpAnswer r1, h1) \<Rightarrow>
               (case (if RespStatus r1 \<ge> 300 \<and> RespStatus r1 < 400
                      then followMediaMTXCookieCheck M runnerID ''GET'' u None r1 h1 else (Inr r1, h1)) of
                  (Inl e, h2) \<Rightarrow> (Inl e, h2)
                | (Inr r, h2) \<Rightarrow>
                    (let h3 = storeSessionCookies M runnerID u (RespCookies r) h2 in
                     if RespStatus r \<noteq> 200 then (fails ''HLS playlist is unavailable'', h3)
                     else if RespBroken r \<or> length (RespBody r) > maxMediaPlaylistBytesV1
                     then (fails ''HLS playlist is invalid'', h3)
                     else (Inr (RespBody r), h3)))))"

subsection \<open>Names of assets\<close>

definition validHLSAssetNameV1 :: "string \<Rightarrow> bool" where
  "validHLSAssetNameV1 name \<longleftrightarrow>
     \<not> (name = [] \<or> path_base name \<noteq> name \<or> has_prefix name ''.'') \<and>
     list_ex (has_suffix name) [''.m3u8'', ''.mp4'', ''.m4s'', ''.ts'']"

definition renditionAssetPathV1 :: "string \<Rightarrow> ABRPreset \<Rightarrow> string \<Rightarrow> string option" where
  "renditionAssetPathV1 runnerID preset asset =
     (if asset = [] \<or> path_clean asset \<noteq> asset \<or> has_prefix asset ''/'' then None
      else (case split_at (CHR ''/'') asset of
              [rendition, name] \<Rightarrow>
                if \<not> opaqueIDPattern rendition \<or> \<not> validHLSAssetNameV1 name then None
                else (case RenditionMediaPathV1 runnerID rendition of
                        Inl _ \<Rightarrow> None
                      | Inr mediaPath \<Rightarrow>
                          if list_ex (\<lambda>r. RenditionName r = rendition) (ABRRenditions preset)
                          then Some (mediaPath @ ''/'' @ name) else None)
            | _ \<Rightarrow> None))"

definition validHLSQueryV1 :: "(string \<times> string) list \<Rightarrow> bool" where
  "validHLSQueryV1 q \<longleftrightarrow>
     list_all (\<lambda>key.
       (key = ''_HLS_msn'' \<or> key = ''_HLS_part'' \<or> key = ''_HLS_skip'') \<and>
       (case query_values q key of
          [v] \<Rightarrow> v \<noteq> [] \<and> \<not> contains_any v [carriage_return, line_feed] \<and>
                 (if key = ''_HLS_skip'' then v = ''YES'' \<or> v = ''v2'' else parse_uint v 64 \<noteq> None)
        | _ \<Rightarrow> False)) (remdups (map fst q))"

definition safePlaylistName :: "string \<Rightarrow> bool" where
  "safePlaylistName value \<longleftrightarrow>
     validHLSAssetNameV1 value \<and> has_suffix value ''.m3u8'' \<and>
     \<not> contains_any value (''?#:%'' @ [CHR 0x5C, CHR 0x22, CHR 0x0D, CHR 0x0A, CHR 0x09, CHR 0x20])"

subsection \<open>One rendition as a variant of the public playlist\<close>

record publicHLSVariant =
  VideoURI :: string
  AudioRef :: string
  AudioLines :: string

definition double_quote :: char where "double_quote = CHR 0x22"

text \<open>The pieces between the commas outside of quotes, and whether a quote is left open.\<close>

fun attribute_pieces :: "string \<Rightarrow> bool \<Rightarrow> string \<Rightarrow> string list \<times> bool" where
  "attribute_pieces acc quoted [] = ([acc], quoted)"
| "attribute_pieces acc quoted (c # cs) =
     (let quoted' = (if c = double_quote then \<not> quoted else quoted) in
      if c = CHR '','' \<and> \<not> quoted' then (let (ps, q) = attribute_pieces [] quoted' cs in (acc # ps, q))
      else attribute_pieces (acc @ [c]) quoted' cs)"

definition attribute :: "(string \<times> string) list \<Rightarrow> string \<Rightarrow> string" where
  "attribute attrs k = (case map_of attrs k of None \<Rightarrow> [] | Some v \<Rightarrow> v)"

fun collect_attributes :: "string list \<Rightarrow> (string \<times> string) list \<Rightarrow> (string \<times> string) list result" where
  "collect_attributes [] out = Inr out"
| "collect_attributes (p # ps) out =
     (case cut_at (CHR ''='') p of
        None \<Rightarrow> fails ''invalid HLS attributes''
      | Some (key, v) \<Rightarrow>
          if key = [] \<or> v = [] \<or> attribute out key \<noteq> [] \<or> contains_any v [carriage_return, line_feed]
          then fails ''invalid HLS attributes''
          else collect_attributes ps (out @ [(key, v)]))"

definition hlsAttributes :: "string \<Rightarrow> (string \<times> string) list result" where
  "hlsAttributes raw =
     (let (pieces, open_quote) = attribute_pieces [] False raw in
      if open_quote then fails ''invalid HLS attributes'' else collect_attributes pieces [])"

text \<open>The first STREAM-INF and the audio entries of a master playlist.\<close>

fun masterLinesV1 ::
    "string list \<Rightarrow> (string \<times> string) list option \<Rightarrow> (string \<times> string) list list
      \<Rightarrow> ((string \<times> string) list option \<times> (string \<times> string) list list) result" where
  "masterLinesV1 [] stream audio = Inr (stream, audio)"
| "masterLinesV1 (l # ls) stream audio =
     (let line = trim_suffix l [carriage_return] in
      if has_prefix line ''#EXT-X-STREAM-INF:'' \<and> stream = None then
        (case hlsAttributes (trim_prefix line ''#EXT-X-STREAM-INF:'') of
           Inl e \<Rightarrow> Inl e
         | Inr attrs \<Rightarrow> masterLinesV1 ls (Some attrs) audio)
      else if has_prefix line ''#EXT-X-MEDIA:'' then
        (case hlsAttributes (trim_prefix line ''#EXT-X-MEDIA:'') of
           Inl e \<Rightarrow> Inl e
         | Inr attrs \<Rightarrow>
             masterLinesV1 ls stream (if attribute attrs ''TYPE'' = ''AUDIO'' then audio @ [attrs] else audio))
      else masterLinesV1 ls stream audio)"

text \<open>\<open>%q\<close> of a text of printable characters without quotes and backslashes.\<close>

definition quoted_text :: "string \<Rightarrow> string" where
  "quoted_text s = double_quote # s @ [double_quote]"

definition mediaAttributeNames :: "string list" where
  "mediaAttributeNames =
     [''TYPE'', ''GROUP-ID'', ''NAME'', ''LANGUAGE'', ''ASSOC-LANGUAGE'', ''DEFAULT'', ''AUTOSELECT'', ''FORCED'',
      ''CHARACTERISTICS'', ''CHANNELS'', ''URI'']"

definition trim_quotes :: "string \<Rightarrow> string" where
  "trim_quotes s = trim_right_by (\<lambda>c. c = double_quote) (trim_left_by (\<lambda>c. c = double_quote) s)"

text \<open>The lines of the audio entries of the group, and the playlists they name.\<close>

fun audioEntriesV1 ::
    "string \<Rightarrow> string \<Rightarrow> string \<Rightarrow> (string \<times> string) list list \<Rightarrow> (string \<times> string list) result" where
  "audioEntriesV1 rendition groupID newGroup [] = Inr ([], [])"
| "audioEntriesV1 rendition groupID newGroup (attrs # rest) =
     (if attribute attrs ''GROUP-ID'' \<noteq> groupID then audioEntriesV1 rendition groupID newGroup rest
      else (let uri = trim_quotes (attribute attrs ''URI'') in
        if attribute attrs ''URI'' \<noteq> [] \<and> \<not> safePlaylistName uri then fails ''invalid audio playlist''
        else (case audioEntriesV1 rendition groupID newGroup rest of
          Inl e \<Rightarrow> Inl e
        | Inr (ls, uris) \<Rightarrow>
            (let linked = (if attribute attrs ''URI'' \<noteq> []
                           then (map_of attrs)(''URI'' \<mapsto> quoted_text (rendition @ ''/'' @ uri)) else map_of attrs);
                 attrs' = linked(''GROUP-ID'' \<mapsto> newGroup);
                 parts = concat (map (\<lambda>k. case attrs' k of None \<Rightarrow> [] | Some v \<Rightarrow> [k @ ''='' @ v]) mediaAttributeNames)
             in Inr (''#EXT-X-MEDIA:'' @ join_with '','' parts @ [line_feed] @ ls,
                     if attribute attrs ''URI'' \<noteq> [] then uri # uris else uris)))))"

definition flattenHLSVariant :: "string \<Rightarrow> string \<Rightarrow> (publicHLSVariant \<times> string list) result" where
  "flattenHLSVariant master rendition =
     (case mediaPlaylistURIV1 master of
        Inl _ \<Rightarrow> fails ''invalid video playlist''
      | Inr video \<Rightarrow>
          if \<not> safePlaylistName video then fails ''invalid video playlist''
          else (case masterLinesV1 (split_at line_feed master) None [] of
            Inl e \<Rightarrow> Inl e
          | Inr (stream, audio) \<Rightarrow>
              (let groupID = (case stream of None \<Rightarrow> [] | Some attrs \<Rightarrow> attribute attrs ''AUDIO'');
                   newGroup = quoted_text (rendition @ ''-audio'') in
               if groupID = [] then Inr (\<lparr>VideoURI = video, AudioRef = [], AudioLines = []\<rparr>, [])
               else (case audioEntriesV1 rendition groupID newGroup audio of
                 Inl e \<Rightarrow> Inl e
               | Inr (ls, uris) \<Rightarrow>
                   if ls = [] then fails ''missing audio group''
                   else Inr (\<lparr>VideoURI = video, AudioRef = '',AUDIO='' @ newGroup, AudioLines = ls\<rparr>, uris)))))"

text \<open>Every playlist of the variant has a finalized segment.\<close>

fun variantReadyV1 :: "mediamtx \<Rightarrow> string \<Rightarrow> string \<Rightarrow> string \<Rightarrow> string list \<Rightarrow> hls \<Rightarrow> error \<times> hls" where
  "variantReadyV1 M baseURL runnerID renderPath [] h = (None, h)"
| "variantReadyV1 M baseURL runnerID renderPath (uri # uris) h =
     (case fetchPlaylist M baseURL runnerID (renderPath @ ''/'' @ uri) h of
        (Inl e, h1) \<Rightarrow> (Some e, h1)
      | (Inr media, h1) \<Rightarrow>
          (case ParseFinalizedHLSSegmentsV1 media of
             Inr (_ # _) \<Rightarrow> variantReadyV1 M baseURL runnerID renderPath uris h1
           | _ \<Rightarrow> (err ''rendition media is not ready'', h1)))"

definition publicVariant ::
    "mediamtx \<Rightarrow> string \<Rightarrow> string \<Rightarrow> string \<Rightarrow> string \<Rightarrow> hls \<Rightarrow> publicHLSVariant result \<times> hls" where
  "publicVariant M baseURL runnerID renderPath rendition h =
     (case fetchPlaylist M baseURL runnerID (renderPath @ ''/index.m3u8'') h of
        (Inl e, h1) \<Rightarrow> (Inl e, h1)
      | (Inr master, h1) \<Rightarrow>
          (case flattenHLSVariant master rendition of
             Inl e \<Rightarrow> (Inl e, h1)
           | Inr (variant, audioURIs) \<Rightarrow>
               (case variantReadyV1 M baseURL runnerID renderPath (audioURIs @ [VideoURI variant]) h1 of
                  (Some e, h2) \<Rightarrow> (Inl e, h2)
                | (None, h2) \<Rightarrow> (Inr variant, h2))))"

subsection \<open>The public master playlist\<close>

text \<open>A conversion of a float to an unsigned integer truncates; it is used within 64 bits.\<close>

definition bitrateBitsV1 :: "string \<Rightarrow> u64 result" where
  "bitrateBitsV1 raw =
     (let (multiplier, v) = (if has_suffix raw ''M'' then (1000000, butlast raw)
                             else if has_suffix raw ''k'' \<or> has_suffix raw ''K'' then (1000, butlast raw)
                             else (1, raw))
      in case parse_float v of
           None \<Rightarrow> fails ''invalid bitrate''
         | Some parsed \<Rightarrow>
             if parsed \<le> 0 then fails ''invalid bitrate'' else Inr (word_of_int (trunc (fl_mul parsed multiplier))))"

definition h264CodecV1 :: "string \<Rightarrow> string \<Rightarrow> string result" where
  "h264CodecV1 profile level =
     (let p = to_lower (if profile = [] then ''high'' else profile);
          l = (if level = [] then ''3.1'' else level) in
      case map_of [(''baseline'', ''42''), (''main'', ''4d''), (''high'', ''64'')] p of
        None \<Rightarrow> fails ''invalid H264 profile or level''
      | Some profileID \<Rightarrow>
          (case split_at (CHR ''.'') l of
             [a, b] \<Rightarrow>
               (case (atoi a, atoi b) of
                  (Some major, Some minor) \<Rightarrow>
                    (let levelID = sint (word_of_int (major * 10 + minor) :: 64 word) in
                     if levelID < 0 \<or> levelID > 255 then fails ''invalid H264 profile or level''
                     else Inr (''avc1.'' @ profileID @ ''00'' @ hex_encode [char_of (nat levelID)]))
                | _ \<Rightarrow> fails ''invalid H264 profile or level'')
           | _ \<Rightarrow> fails ''invalid H264 profile or level''))"

definition variantEntryV1 :: "ABRRendition \<Rightarrow> ABRVideoSettings \<Rightarrow> publicHLSVariant \<Rightarrow> string option" where
  "variantEntryV1 r v variant =
     (case (bitrateBitsV1 (VideoMaxBitrate v), bitrateBitsV1 (AudioBitrate (Audio r)), h264CodecV1 (VideoProfile v) (VideoLevel v)) of
        (Inr videoBandwidth, Inr audioBandwidth, Inr codec) \<Rightarrow>
          Some (AudioLines variant @
            ''#EXT-X-STREAM-INF:BANDWIDTH='' @ fmt_u64 (videoBandwidth + audioBandwidth) @ '',RESOLUTION='' @ fmt_int (VideoWidth v)
            @ ''x'' @ fmt_int (VideoHeight v) @ '',CODECS='' @ [double_quote] @ codec @ '',mp4a.40.2'' @ [double_quote] @ AudioRef variant
            @ [line_feed] @ RenditionName r @ ''/'' @ VideoURI variant @ [line_feed])
      | _ \<Rightarrow> None)"

text \<open>The entries of the playable renditions; \<open>None\<close> when a profile cannot be described.\<close>

fun masterEntriesV1 :: "mediamtx \<Rightarrow> string \<Rightarrow> string \<Rightarrow> ABRRendition list \<Rightarrow> hls \<Rightarrow> string list option \<times> hls" where
  "masterEntriesV1 M baseURL runnerID [] h = (Some [], h)"
| "masterEntriesV1 M baseURL runnerID (r # rs) h =
     (case (Video r, RenditionMediaPathV1 runnerID (RenditionName r)) of
        (Some v, Inr renderPath) \<Rightarrow>
          (case publicVariant M baseURL runnerID renderPath (RenditionName r) h of
             (Inl _, h1) \<Rightarrow> masterEntriesV1 M baseURL runnerID rs h1
           | (Inr variant, h1) \<Rightarrow>
               (case variantEntryV1 r v variant of
                  None \<Rightarrow> (None, h1)
                | Some entry \<Rightarrow>
                    (case masterEntriesV1 M baseURL runnerID rs h1 of
                       (None, h2) \<Rightarrow> (None, h2)
                     | (Some es, h2) \<Rightarrow> (Some (entry # es), h2))))
      | _ \<Rightarrow> masterEntriesV1 M baseURL runnerID rs h)"

definition serveMaster ::
    "mediamtx \<Rightarrow> string \<Rightarrow> (string \<times> string) list \<Rightarrow> string \<Rightarrow> string \<Rightarrow> ABRPreset \<Rightarrow> hls \<Rightarrow> http_out \<times> hls" where
  "serveMaster M baseURL headers httpMethod runnerID preset h =
     (case masterEntriesV1 M baseURL runnerID (ABRRenditions preset) h of
        (None, h1) \<Rightarrow> (writeRunnerErrorV1 headers 503 ''profile_unavailable'', h1)
      | (Some [], h1) \<Rightarrow> (writeRunnerErrorV1 (headers @ [(''Retry-After'', ''1'')]) 503 ''output_unavailable'', h1)
      | (Some es, h1) \<Rightarrow>
          (\<lparr>OutStatus = 200,
            OutHeaders = headers @ [(''Content-Type'', ''application/vnd.apple.mpegurl''), (''Cache-Control'', ''no-store'')],
            OutBody = (if httpMethod = ''GET''
                       then ''#EXTM3U'' @ [line_feed] @ ''#EXT-X-VERSION:9'' @ [line_feed] @ concat es else [])\<rparr>, h1))"

subsection \<open>Serving viewers\<close>

record viewer_request =
  ViewerMethod :: string
  ViewerID :: string
  ViewerRendition :: string
  ViewerAsset :: string
  ViewerURLPath :: string
  ViewerQuery :: string
  ViewerRange :: string

definition header_of :: "(string \<times> string) list \<Rightarrow> string \<Rightarrow> string" where
  "header_of hs k = (case map_of hs k of None \<Rightarrow> [] | Some v \<Rightarrow> v)"

text \<open>No output at all (\<open>None\<close>) when the viewer has gone.\<close>

definition proxyAsset ::
    "mediamtx \<Rightarrow> string \<Rightarrow> (string \<times> string) list \<Rightarrow> viewer_request \<Rightarrow> string \<Rightarrow> string \<Rightarrow> hls \<Rightarrow> http_out option \<times> hls" where
  "proxyAsset M baseURL headers q runnerID mediaPath h =
     (let unavailable = Some (writeRunnerErrorV1 headers 502 ''media_unavailable'') in
      case url_parse (baseURL @ ''/'' @ mediaPath) of
        None \<Rightarrow> (unavailable, h)
      | Some u0 \<Rightarrow>
          (let u = u0\<lparr>RawQuery := ViewerQuery q\<rparr>;
               rangeHeader = (if ViewerRange q = [] then None else Some (ViewerRange q)) in
           case sendUpstreamV1 M runnerID (ViewerMethod q) u rangeHeader h of
             (UpFailed gone, h1) \<Rightarrow> (if gone then None else unavailable, h1)
           | (UpAnswer r1, h1) \<Rightarrow>
               (case (if RespStatus r1 \<ge> 300 \<and> RespStatus r1 < 400
                      then followMediaMTXCookieCheck M runnerID (ViewerMethod q) u rangeHeader r1 h1 else (Inr r1, h1)) of
                  (Inl _, h2) \<Rightarrow> (unavailable, h2)
                | (Inr r, h2) \<Rightarrow>
                    (Some \<lparr>OutStatus = RespStatus r,
                      OutHeaders = headers @
                        concat (map (\<lambda>k. if header_of (RespHeaders r) k = [] then [] else [(k, header_of (RespHeaders r) k)])
                          [''Content-Type'', ''Content-Length'', ''Accept-Ranges'', ''Content-Range'']) @
                        [(''Cache-Control'', ''no-store'')],
                      OutBody = (if ViewerMethod q = ''GET'' then RespBody r else [])\<rparr>,
                     storeSessionCookies M runnerID u (RespCookies r) h2))))"

definition corsHeadersV1 :: "(string \<times> string) list" where
  "corsHeadersV1 =
     [(''Access-Control-Allow-Origin'', ''*''),
      (''Access-Control-Expose-Headers'', ''Content-Length, Content-Range, Accept-Ranges, Retry-After'')]"

definition serveHLS ::
    "mediamtx \<Rightarrow> HLSHandlerV1 \<Rightarrow> (string \<Rightarrow> (SessionRecordV1 \<times> SessionSecretsV1 option) result) \<Rightarrow> viewer_request \<Rightarrow> hls
      \<Rightarrow> http_out option \<times> hls" where
  "serveHLS M H lookup q h =
     (let cors = corsHeadersV1 in
      if ViewerMethod q = ''OPTIONS'' then
        (Some \<lparr>OutStatus = 204,
          OutHeaders = cors @ [(''Access-Control-Allow-Methods'', ''GET, HEAD, OPTIONS''),
            (''Access-Control-Allow-Headers'', ''Range''), (''Access-Control-Max-Age'', ''600'')], OutBody = []\<rparr>, h)
      else if ViewerMethod q \<noteq> ''GET'' \<and> ViewerMethod q \<noteq> ''HEAD'' then
        (Some (writeRunnerErrorV1 (cors @ [(''Allow'', ''GET, HEAD, OPTIONS'')]) 405 ''method_not_allowed''), h)
      else (case lookup (ViewerID q) of
        Inr (r, Some secrets) \<Rightarrow>
          if State r \<noteq> ''active'' \<or> Stopping r then (Some (writeRunnerErrorV1 cors 404 ''stream_not_found''), h)
          else (case HLSPresets H (to_lower (OutputProfile (SessionParams (CreateRequest secrets)))) of
            None \<Rightarrow> (Some (writeRunnerErrorV1 cors 503 ''profile_unavailable''), h)
          | Some preset \<Rightarrow>
              (let asset = (if ViewerRendition q \<noteq> [] then ViewerRendition q @ ''/'' @ ViewerAsset q
                            else if ViewerAsset q = [] \<and> has_suffix (ViewerURLPath q) ''/master.m3u8'' then ''master.m3u8''
                            else ViewerAsset q) in
               if asset = ''master.m3u8'' then
                 (case serveMaster M (BaseURL H) cors (ViewerMethod q) (RunnerSessionID r) preset h of
                    (reply, h1) \<Rightarrow> (Some reply, h1))
               else (case renditionAssetPathV1 (RunnerSessionID r) preset asset of
                 None \<Rightarrow> (Some (writeRunnerErrorV1 cors 404 ''asset_not_found''), h)
               | Some renderPath \<Rightarrow>
                   if \<not> validHLSQueryV1 (fst (parse_query (ViewerQuery q)))
                   then (Some (writeRunnerErrorV1 cors 404 ''asset_not_found''), h)
                   else proxyAsset M (BaseURL H) cors q (RunnerSessionID r) renderPath h)))
      | _ \<Rightarrow> (Some (writeRunnerErrorV1 cors 404 ''stream_not_found''), h)))"

end
