(* ===== verification/Live_Meter.thy ===== *)
theory Live_Meter
  imports Live_HLS Live_Router
begin

section \<open>The output meter (live-runner/metering.go)\<close>

text \<open>
  The meter of a session polls MediaMTX: it records whether the publisher is online, meters the
  finalized segments of one rendition, watches the health of the output and keeps heartbeats
  flowing.  Its surroundings are those of a client of the store, the answers of the media router
  (the interface \<open>MediaPathReaderV1\<close>, which \<open>Live_Router\<close> implements), MediaMTX as
  the HLS proxy reaches it, and the cancellation of its context.
\<close>

record meter_setting = setting +
  path_status :: "nat \<Rightarrow> string \<Rightarrow> router_error + MediaPathStatusV1"
  media_server :: mediamtx
  meter_cancelled :: "nat \<Rightarrow> bool"

record meter = client +
  proxy :: hls
  stalls :: nat
  polls :: nat

record LiveOutputMeterV1 =
  MeterBaseURL :: string
  PollInterval :: duration
  HeartbeatInterval :: duration
  RequestTimeout :: duration
  StallAfter :: duration
  FailAfter :: duration
  InitialPublishWait :: duration
  ReconnectGrace :: duration

definition NewLiveOutputMeterV1 ::
    "HLSHandlerV1 \<Rightarrow> duration \<Rightarrow> duration \<Rightarrow> duration \<Rightarrow> duration \<Rightarrow> duration \<Rightarrow> LiveOutputMeterV1 result" where
  "NewLiveOutputMeterV1 H pollInterval heartbeatInterval requestTimeout stallAfter failAfter =
     (if pollInterval \<le> 0 \<or> heartbeatInterval \<le> 0 \<or> requestTimeout \<le> 0 \<or> pollInterval > heartbeatInterval
         \<or> stallAfter \<le> 0 \<or> failAfter \<le> stallAfter
      then fails ''live output meter dependencies are invalid''
      else Inr \<lparr>MeterBaseURL = BaseURL H, PollInterval = pollInterval, HeartbeatInterval = heartbeatInterval,
                RequestTimeout = requestTimeout, StallAfter = stallAfter, FailAfter = failAfter,
                InitialPublishWait = 300 * second, ReconnectGrace = 120 * second\<rparr>)"

subsection \<open>One poll\<close>

definition finalizedSegments ::
    "mediamtx \<Rightarrow> string \<Rightarrow> string \<Rightarrow> string \<Rightarrow> hls \<Rightarrow> FinalizedHLSSegmentV1 list result \<times> hls" where
  "finalizedSegments M baseURL runnerID renderPath h =
     (case fetchPlaylist M baseURL runnerID (renderPath @ ''/index.m3u8'') h of
        (Inl e, h1) \<Rightarrow> (Inl e, h1)
      | (Inr master, h1) \<Rightarrow>
          (case mediaPlaylistURIV1 master of
             Inl e \<Rightarrow> (Inl e, h1)
           | Inr mediaURI \<Rightarrow>
               (case fetchPlaylist M baseURL runnerID (renderPath @ ''/'' @ mediaURI) h1 of
                  (Inl e, h2) \<Rightarrow> (Inl e, h2)
                | (Inr media, h2) \<Rightarrow> (ParseFinalizedHLSSegmentsV1 media, h2))))"

text \<open>What the router says of the publisher: whether it says anything, and whether it is online.\<close>

definition publisher_known :: "router_error + MediaPathStatusV1 \<Rightarrow> bool" where
  "publisher_known status \<longleftrightarrow> (case status of Inr _ \<Rightarrow> True | Inl e \<Rightarrow> path_not_found e)"

definition publisher_online :: "router_error + MediaPathStatusV1 \<Rightarrow> bool" where
  "publisher_online status \<longleftrightarrow> (case status of Inr st \<Rightarrow> Online st \<and> isRTMPSource st | Inl _ \<Rightarrow> False)"

definition terminal_error :: "'a result \<Rightarrow> bool" where
  "terminal_error res \<longleftrightarrow> (case res of Inl e \<Rightarrow> errors_is e ErrSessionTerminalV1 | Inr _ \<Rightarrow> False)"

text \<open>
  The three parts of a poll; each returns \<open>Some b\<close> when the poll returns \<open>b\<close> there.
  The first records the presence of the publisher and gives up on one that stays away.
\<close>

definition pollPresenceV1 ::
    "meter_setting \<Rightarrow> LiveOutputMeterV1 \<Rightarrow> string \<Rightarrow> time \<Rightarrow> (router_error + MediaPathStatusV1) \<Rightarrow> meter \<Rightarrow> bool option \<times> meter" where
  "pollPresenceV1 W m sid now status w =
     (let online = publisher_online status in
      if \<not> publisher_known status then (None, w)
      else (case store_call_of W w (\<lambda>E d. RecordIngestPresence E d sid online now) of
        (res, w1) \<Rightarrow>
          if terminal_error res then (Some False, w1)
          else if online then (None, w1)
          else (case store_call_of W w1 (\<lambda>E d. ExpireAbsentPublisher E d sid now (InitialPublishWait m) (ReconnectGrace m)) of
                  (res2, w2) \<Rightarrow> (if res2 = Inr True then Some True else None, w2))))"

definition pollSegmentsV1 ::
    "meter_setting \<Rightarrow> LiveOutputMeterV1 \<Rightarrow> string \<Rightarrow> string \<Rightarrow> string \<Rightarrow> time \<Rightarrow> bool \<Rightarrow> meter \<Rightarrow> bool option \<times> meter" where
  "pollSegmentsV1 W m sid runnerID renderPath now online w =
     (case finalizedSegments (media_server W) (MeterBaseURL m) runnerID renderPath (proxy w) of
        (segments, h) \<Rightarrow>
          (let w1 = w\<lparr>proxy := h\<rparr> in
           case segments of
             Inl _ \<Rightarrow> (None, w1)
           | Inr segs \<Rightarrow>
               if \<not> online then (None, w1)
               else (case store_call_of W w1 (\<lambda>E d. RecordFinalizedSegments E d sid segs now) of
                       (res, w2) \<Rightarrow> (if terminal_error res then Some False else None, w2))))"

definition pollHealthV1 ::
    "meter_setting \<Rightarrow> LiveOutputMeterV1 \<Rightarrow> string \<Rightarrow> time \<Rightarrow> bool \<Rightarrow> meter \<Rightarrow> bool \<times> meter" where
  "pollHealthV1 W m sid now online w =
     (let heartbeat = (\<lambda>v. snd (store_call_of W v (\<lambda>E d. RecordHeartbeat E d sid now (HeartbeatInterval m)))) in
      if \<not> online then (False, heartbeat w)
      else (case store_call_of W w (\<lambda>E d. EvaluateOutputHealth E d sid now (StallAfter m) (FailAfter m)) of
              (res, w1) \<Rightarrow>
                if terminal_error res then (False, w1)
                else (case res of
                        Inl _ \<Rightarrow> (False, heartbeat w1)
                      | Inr (failed, stalled) \<Rightarrow>
                          (failed, heartbeat (if stalled then w1\<lparr>stalls := stalls w1 + 1\<rparr> else w1)))))"

definition poll ::
    "meter_setting \<Rightarrow> LiveOutputMeterV1 \<Rightarrow> string \<Rightarrow> string \<Rightarrow> string \<Rightarrow> string \<Rightarrow> meter \<Rightarrow> bool \<times> meter" where
  "poll W m sid runnerID ingestPath renderPath w =
     (let now = time_now (env_of W (accesses w));
          status = path_status W (polls w) ingestPath;
          online = publisher_online status in
      case pollPresenceV1 W m sid now status (w\<lparr>polls := polls w + 1\<rparr>) of
        (Some b, w1) \<Rightarrow> (b, w1)
      | (None, w1) \<Rightarrow>
          (case pollSegmentsV1 W m sid runnerID renderPath now online w1 of
             (Some b, w2) \<Rightarrow> (b, w2)
           | (None, w2) \<Rightarrow> pollHealthV1 W m sid now online w2))"

subsection \<open>The loop\<close>

definition meterCloseReason :: "meter_setting \<Rightarrow> string \<Rightarrow> meter \<Rightarrow> string \<times> meter" where
  "meterCloseReason W sid w =
     (let (E, w1) = reach_store W w in
      case Load E (store w1) sid of
        Inr (r, _) \<Rightarrow> (if Stopping r then PendingCloseReason r else ''output_failed'', w1)
      | Inl _ \<Rightarrow> (''output_failed'', w1))"

text \<open>
  One tick after another until the context ends or a poll says that the session is over; the fuel
  bounds the number of ticks, \<open>None\<close> says that it did not suffice.
\<close>

fun meterTicks ::
    "nat \<Rightarrow> meter_setting \<Rightarrow> LiveOutputMeterV1 \<Rightarrow> string \<Rightarrow> string \<Rightarrow> string \<Rightarrow> string \<Rightarrow> meter \<Rightarrow> string option \<times> meter" where
  "meterTicks 0 W m sid runnerID ingestPath renderPath w = (None, w)"
| "meterTicks (Suc fuel) W m sid runnerID ingestPath renderPath w =
     (if meter_cancelled W (polls w) then (Some [], w)
      else (case poll W m sid runnerID ingestPath renderPath w of
              (True, w1) \<Rightarrow> (case meterCloseReason W sid w1 of (reason, w2) \<Rightarrow> (Some reason, w2))
            | (False, w1) \<Rightarrow> meterTicks fuel W m sid runnerID ingestPath renderPath w1))"

definition meterRun ::
    "nat \<Rightarrow> meter_setting \<Rightarrow> LiveOutputMeterV1 \<Rightarrow> SessionRecordV1 \<Rightarrow> SessionSecretsV1 \<Rightarrow> meter \<Rightarrow> string option \<times> meter" where
  "meterRun fuel W m record secrets w =
     (let forget = (\<lambda>(res, v). (res, v\<lparr>proxy := forgetSessionCookies (RunnerSessionID record) (proxy v)\<rparr>));
          sid = BrokerSessionID record; runnerID = RunnerSessionID record in
      case (RenditionMediaPathV1 runnerID (MeteringRendition (SessionParams (CreateRequest secrets))),
            IngestMediaPathV1 runnerID) of
        (Inr renderPath, Inr ingestPath) \<Rightarrow>
          forget (case poll W m sid runnerID ingestPath renderPath w of
                    (True, w1) \<Rightarrow> (case meterCloseReason W sid w1 of (reason, w2) \<Rightarrow> (Some reason, w2))
                  | (False, w1) \<Rightarrow> meterTicks fuel W m sid runnerID ingestPath renderPath w1)
      | _ \<Rightarrow> forget (Some [], w))"

end
