(* ===== verification/Meter_Properties.thy ===== *)
theory Meter_Properties
  imports Live_Meter
begin

section \<open>What a poll of the meter does to its session\<close>

subsection \<open>A store call in calm settings, whatever it decides\<close>

lemma calm_step:
  assumes Q: "calm K W" and d: "disk_ok K (store w)" and l: "Load K (store w) sid = Inr (r, so)"
    and p: "plain_op (env_of W (accesses w)) admits step" and adm: "\<forall>r. admits r"
    and f: "(\<forall>d. f (env_of W (accesses w)) d = update_session (env_of W (accesses w)) d sid step) \<or>
            (\<exists>e. \<forall>d. f (env_of W (accesses w)) d = (Inl e, d))"
    and call: "store_call_of W w f = (res, w')"
  obtains r' where "disk_ok K (store w')" "only_session sid w w'" "w' = w\<lparr>accesses := Suc (accesses w), store := store w'\<rparr>"
    "Load K (store w') sid = Inr (r', so)"
    "(\<exists>e. res = Inl e \<and> r' = r) \<or> (\<exists>a. step r so = Inr (a, None) \<and> res = Inr a \<and> r' = r) \<or>
       (\<exists>a r1 x. res = Inr a \<and> step r so = Inr (a, Some r1) \<and> r' = r1\<lparr>IntegritySHA256 := x\<rparr>)"
proof -
  let ?E = "env_of W (accesses w)"
  note F = friendlyD [OF calm_friendly [OF Q]]
  have l': "loadLocked ?E (store w) sid = Inr (r, so)" using l F(4) by (metis Load_def)
  have w': "w' = w\<lparr>accesses := Suc (accesses w), store := store w'\<rparr>" and fd: "f ?E (store w) = (res, store w')"
    using call by (auto simp: store_call_of_def reach_store_def Let_def calmD(4) [OF Q] split: prod.splits)
  show ?thesis
  proof (cases "\<forall>d. f ?E d = update_session ?E d sid step")
    case True
    then have us: "update_session ?E (store w) sid step = (res, store w')" using fd by simp
    consider e where "step r so = Inl e" | a where "step r so = Inr (a, None)" | a r1 where "step r so = Inr (a, Some r1)"
      by (metis not_Some_eq obj_sumE surj_pair)
    then show ?thesis
    proof cases
      case (1 e)
      then have "res = Inl e" "store w' = store w" using us by (auto simp: update_session_def l')
      then show ?thesis using that [of r] d l w' by (simp add: only_session_def)
    next
      case (2 a)
      then have "res = Inr a" "store w' = store w" using us by (auto simp: update_session_def l')
      then show ?thesis using that [of r] d l w' 2 by (simp add: only_session_def)
    next
      case (3 a r1)
      have fu: "\<And>d. f ?E d = update_session ?E d sid step" using True by simp
      obtain d' x where
        d': "store_call_of W w f = (Inr a, w\<lparr>accesses := Suc (accesses w), store := d'\<rparr>)" "disk_ok K d'"
          "only_session sid w (w\<lparr>store := d'\<rparr>)" "Load K d' sid = Inr (r1\<lparr>IntegritySHA256 := x\<rparr>, so)"
        using calm_call [where f = f, OF Q d l p adm fu 3] by blast
      have eq: "res = Inr a" "w' = w\<lparr>accesses := Suc (accesses w), store := d'\<rparr>"
        using trans [OF call [symmetric] d'(1)] by (simp_all only: prod.inject)
      have "store w' = d'" unfolding eq(2) by simp
      note eq = eq(1) this
      show ?thesis
      proof (rule that [of "r1\<lparr>IntegritySHA256 := x\<rparr>"])
        show "disk_ok K (store w')" "only_session sid w w'" "Load K (store w') sid = Inr (r1\<lparr>IntegritySHA256 := x\<rparr>, so)"
          using d'(2-4) eq(2) by (simp_all add: only_session_def)
        show "(\<exists>e. res = Inl e \<and> r1\<lparr>IntegritySHA256 := x\<rparr> = r) \<or>
            (\<exists>a. step r so = Inr (a, None) \<and> res = Inr a \<and> r1\<lparr>IntegritySHA256 := x\<rparr> = r) \<or>
            (\<exists>a r2 y. res = Inr a \<and> step r so = Inr (a, Some r2) \<and> r1\<lparr>IntegritySHA256 := x\<rparr> = r2\<lparr>IntegritySHA256 := y\<rparr>)"
          using 3 eq(1) by blast
      qed (rule w')
    qed
  next
    case False
    then obtain e where "res = Inl e" "store w' = store w" using f fd by auto
    then show ?thesis using that [of r] d l w' by (simp add: only_session_def)
  qed
qed

subsection \<open>Which calls touch the meter\<close>

definition same_usage :: "SessionRecordV1 \<Rightarrow> SessionRecordV1 \<Rightarrow> bool" where
  "same_usage r r' \<longleftrightarrow>
     UsageTotal r' = UsageTotal r \<and> MeteredMicroseconds r' = MeteredMicroseconds r \<and>
     MeteredSegmentSHA256 r' = MeteredSegmentSHA256 r"

lemma same_usage_refl [simp]: "same_usage r r"
  by (simp add: same_usage_def)

lemma same_usage_trans: "same_usage a b \<Longrightarrow> same_usage b c \<Longrightarrow> same_usage a c"
  by (simp add: same_usage_def)

lemma same_usage_integrity [simp]: "same_usage r (r'\<lparr>IntegritySHA256 := x\<rparr>) = same_usage r r'"
  by (simp add: same_usage_def)

lemma presence_usage: "RecordIngestPresence_step online t r so = Inr (a, Some r') \<Longrightarrow> same_usage r r'"
  by (auto simp: RecordIngestPresence_step_def same_usage_def Let_def split: if_splits)

lemma absent_usage:
  assumes "ExpireAbsentPublisher_step t w g r so = Inr (a, Some r')"
  shows "same_usage r r'" "a \<Longrightarrow> Stopping r' \<and> PendingCloseReason r' = ''publisher_disconnect''"
proof -
  obtain r1 ch where p: "publisherDeadlineV1 t w g r = Inr (r1, ch)"
    using assms by (cases "publisherDeadlineV1 t w g r") (auto simp: ExpireAbsentPublisher_step_def split: if_splits)
  obtain x y where r1: "r1 = r\<lparr>PublisherOfflineSince := x, PublisherDeadline := y\<rparr>"
    using publisherDeadline_Inr [OF p] by blast
  show "same_usage r r'" "a \<Longrightarrow> Stopping r' \<and> PendingCloseReason r' = ''publisher_disconnect''"
    using assms p by (auto simp: ExpireAbsentPublisher_step_def same_usage_def r1 split: if_splits option.splits)
qed

lemma stalled_usage: "recordOutputStalledLockedV1 r t = Inr r' \<Longrightarrow> same_usage r r'"
  by (auto simp: recordOutputStalledLockedV1_def same_usage_def appendEventV1_def Let_def split: if_splits option.splits)

lemma health_usage: "EvaluateOutputHealth_step t s f r so = Inr (a, Some r') \<Longrightarrow> same_usage r r'"
  by (auto simp: EvaluateOutputHealth_step_def Let_def split: if_splits sum.splits dest: stalled_usage)

lemma heartbeat_usage: "RecordHeartbeat_step t i r so = Inr (a, Some r') \<Longrightarrow> same_usage r r'"
  by (auto simp: RecordHeartbeat_step_def same_usage_def appendEventV1_def Let_def split: if_splits option.splits)

lemma outputBase_integrity [simp]: "outputBaseV1 (r\<lparr>IntegritySHA256 := x\<rparr>) = outputBaseV1 r"
  by (simp add: outputBaseV1_def cong: if_cong option.case_cong)

lemma heartbeat_keeps_health:
  "RecordHeartbeat_step t i r so = Inr (a, Some r') \<Longrightarrow>
     outputBaseV1 r' = outputBaseV1 r \<and> Stopping r' = Stopping r"
  by (auto simp: RecordHeartbeat_step_def outputBaseV1_def appendEventV1_def Let_def split: if_splits option.splits)

subsection \<open>The parts of a poll\<close>

definition at_session :: "env \<Rightarrow> string \<Rightarrow> SessionSecretsV1 option \<Rightarrow> meter \<Rightarrow> SessionRecordV1 \<Rightarrow> bool" where
  "at_session K sid so w r \<longleftrightarrow> disk_ok K (store w) \<and> Load K (store w) sid = Inr (r, so)"

lemma at_session_simps [simp]:
  "at_session K sid so (w\<lparr>proxy := h\<rparr>) r = at_session K sid so w r"
  "at_session K sid so (w\<lparr>polls := n\<rparr>) r = at_session K sid so w r"
  "at_session K sid so (w\<lparr>stalls := n\<rparr>) r = at_session K sid so w r"
  by (simp_all add: at_session_def)

lemma only_session_meter [simp]:
  "only_session sid (w\<lparr>proxy := h\<rparr>) v = only_session sid w v" "only_session sid (w\<lparr>polls := n\<rparr>) v = only_session sid w v"
  "only_session sid (w\<lparr>stalls := n\<rparr>) v = only_session sid w v" "only_session sid w (v\<lparr>proxy := h\<rparr>) = only_session sid w v"
  "only_session sid w (v\<lparr>polls := n\<rparr>) = only_session sid w v" "only_session sid w (v\<lparr>stalls := n\<rparr>) = only_session sid w v"
  by (simp_all add: only_session_def)

text \<open>The store calls of a poll, each with what it can do to the record.\<close>

lemma meter_call:
  assumes Q: "calm K W" and w: "at_session K sid so w r" and call: "store_call_of W w f = (res, w')"
    and p: "plain_op (env_of W (accesses w)) admits step" and adm: "\<forall>r. admits r"
    and f: "(\<forall>d. f (env_of W (accesses w)) d = update_session (env_of W (accesses w)) d sid step) \<or>
            (\<exists>e. \<forall>d. f (env_of W (accesses w)) d = (Inl e, d))"
    and P: "\<And>a r1 x. step r so = Inr (a, Some r1) \<Longrightarrow> P (Inr a) (r1\<lparr>IntegritySHA256 := x\<rparr>)"
    and P': "\<And>e. P (Inl e) r" "\<And>a. step r so = Inr (a, None) \<Longrightarrow> P (Inr a) r"
  shows "\<exists>r'. at_session K sid so w' r' \<and> P res r' \<and> only_session sid w w' \<and> proxy w' = proxy w \<and> polls w' = polls w"
proof -
  have l: "disk_ok K (store w)" "Load K (store w) sid = Inr (r, so)" using w by (simp_all add: at_session_def)
  obtain r' where r': "disk_ok K (store w')" "only_session sid w w'" "w' = w\<lparr>accesses := Suc (accesses w), store := store w'\<rparr>"
    "Load K (store w') sid = Inr (r', so)"
    "(\<exists>e. res = Inl e \<and> r' = r) \<or> (\<exists>a. step r so = Inr (a, None) \<and> res = Inr a \<and> r' = r) \<or>
       (\<exists>a r1 x. res = Inr a \<and> step r so = Inr (a, Some r1) \<and> r' = r1\<lparr>IntegritySHA256 := x\<rparr>)"
    by (rule calm_step [OF Q l p adm f call])
  have "proxy w' = proxy w" "polls w' = polls w" by (subst r'(3), simp)+
  moreover have "P res r'" using r'(5) P P' by blast
  ultimately show ?thesis using r' by (auto simp: at_session_def)
qed

lemma presence_stage:
  assumes Q: "calm K W" and w: "at_session K sid so w r" and now: "now \<noteq> zero_time"
    and res: "pollPresenceV1 W m sid now status w = (b, w')"
  shows "\<exists>r'. at_session K sid so w' r' \<and> same_usage r r' \<and> only_session sid w w' \<and> proxy w' = proxy w \<and> polls w' = polls w \<and>
    (b = Some True \<longrightarrow> \<not> publisher_online status \<and> publisher_known status \<and> Stopping r' \<and> PendingCloseReason r' = ''publisher_disconnect'')"
proof (cases "publisher_known status")
  case False
  then show ?thesis using res w by (auto simp: pollPresenceV1_def)
next
  case known: True
  let ?on = "publisher_online status"
  obtain r1 w1 where c1: "store_call_of W w (\<lambda>E d. RecordIngestPresence E d sid ?on now) = (r1, w1)" by fastforce
  have "\<exists>r'. at_session K sid so w1 r' \<and> same_usage r r' \<and> only_session sid w w1 \<and> proxy w1 = proxy w \<and> polls w1 = polls w"
    by (rule meter_call [OF Q w c1 presence.plain_op_axioms, where P = "\<lambda>_. same_usage r"])
      (use now in \<open>auto simp: RecordIngestPresence_def fails_def dest: presence_usage\<close>)
  then obtain ra where ra: "at_session K sid so w1 ra" "same_usage r ra" "only_session sid w w1" "proxy w1 = proxy w" "polls w1 = polls w"
    by blast
  show ?thesis
  proof (cases "terminal_error r1 \<or> ?on")
    case True
    then show ?thesis using res known c1 ra by (auto simp: pollPresenceV1_def split: if_splits)
  next
    case False
    obtain r2 w2 where c2: "store_call_of W w1 (\<lambda>E d. ExpireAbsentPublisher E d sid now (InitialPublishWait m) (ReconnectGrace m)) = (r2, w2)"
      by fastforce
    have "\<exists>r'. at_session K sid so w2 r' \<and> (same_usage ra r' \<and> (r2 = Inr True \<longrightarrow> Stopping r' \<and> PendingCloseReason r' = ''publisher_disconnect'')) \<and>
        only_session sid w1 w2 \<and> proxy w2 = proxy w1 \<and> polls w2 = polls w1"
    proof (rule meter_call [OF Q ra(1) c2 absent.plain_op_axioms, where P = "\<lambda>res r'. same_usage ra r' \<and>
          (res = Inr True \<longrightarrow> Stopping r' \<and> PendingCloseReason r' = ''publisher_disconnect'')"])
      fix a assume "ExpireAbsentPublisher_step now (InitialPublishWait m) (ReconnectGrace m) ra so = Inr (a, None)"
      then have "\<not> a" by (auto simp: ExpireAbsentPublisher_step_def split: if_splits sum.splits option.splits)
      then show "same_usage ra ra \<and> (Inr a = (Inr True :: bool result) \<longrightarrow> Stopping ra \<and> PendingCloseReason ra = ''publisher_disconnect'')"
        by simp
    qed (use now in \<open>auto simp: ExpireAbsentPublisher_def fails_def dest: absent_usage\<close>)
    then obtain rb where rb: "at_session K sid so w2 rb" "same_usage ra rb"
        "r2 = Inr True \<longrightarrow> Stopping rb \<and> PendingCloseReason rb = ''publisher_disconnect''"
        "only_session sid w1 w2" "proxy w2 = proxy w1" "polls w2 = polls w1" by blast
    have "b = (if r2 = Inr True then Some True else None)" "w' = w2"
      using res known c1 False c2 by (auto simp: pollPresenceV1_def split: if_splits)
    then show ?thesis using rb ra False known same_usage_trans only_session_trans by (intro exI [of _ rb]) auto
  qed
qed

text \<open>What metering a batch of segments adds to a record.\<close>

definition meters :: "env \<Rightarrow> FinalizedHLSSegmentV1 list \<Rightarrow> SessionRecordV1 \<Rightarrow> SessionRecordV1 \<Rightarrow> bool" where
  "meters K segs r r' \<longleftrightarrow>
     (let new = fresh_segments K (MeteredSegmentSHA256 r) segs in
      unat (MeteredMicroseconds r') = unat (MeteredMicroseconds r) + sum_list (map (\<lambda>g. unat (DurationMicroseconds g)) new) \<and>
      MeteredSegmentSHA256 r' = MeteredSegmentSHA256 r @ map (segment_id K) new)"

lemma meters_same: "same_usage r r1 \<Longrightarrow> meters K segs r1 r2 \<Longrightarrow> same_usage r2 r' \<Longrightarrow> meters K segs r r'"
  by (simp add: meters_def same_usage_def)

lemma fresh_same_keys: "same_keys K E \<Longrightarrow> fresh_segments E ids segs = fresh_segments K ids segs"
  by (induction K ids segs rule: fresh_segments.induct) (simp_all add: segment_id_def same_keys_def)

lemma segments_meter:
  assumes "same_keys K E" and "RecordFinalizedSegments_step E segs t r so = Inr (a, Some r')"
  shows "meters K segs r (r'\<lparr>IntegritySHA256 := x\<rparr>)"
proof -
  have "segment_id E = segment_id K" using assms(1) by (simp add: segment_id_def [abs_def] same_keys_def)
  then show ?thesis
    using meterSegments_value [OF RecordFinalizedSegments_values(1) [OF assms(2)]]
    by (simp add: meters_def fresh_same_keys [OF assms(1)])
qed

lemma segments_stage:
  assumes Q: "calm K W" and w: "at_session K sid so w r" and now: "now \<noteq> zero_time"
    and res: "pollSegmentsV1 W m sid runnerID renderPath now online w = (b, w')"
  shows "\<exists>r'. at_session K sid so w' r' \<and> only_session sid w w' \<and> polls w' = polls w \<and> b \<noteq> Some True \<and>
    (same_usage r r' \<or> online \<and> (\<exists>segs. fst (finalizedSegments (media_server W) (MeterBaseURL m) runnerID renderPath (proxy w)) = Inr segs \<and>
       meters K segs r r'))"
proof -
  obtain segments h where g: "finalizedSegments (media_server W) (MeterBaseURL m) runnerID renderPath (proxy w) = (segments, h)" by fastforce
  show ?thesis
  proof (cases "\<exists>segs. segments = Inr segs \<and> online")
    case False
    then show ?thesis using res g w by (auto simp: pollSegmentsV1_def Let_def split: sum.splits intro!: exI [of _ r])
  next
    case True
    then obtain segs where segs: "segments = Inr segs" "online" by blast
    let ?w = "w\<lparr>proxy := h\<rparr>"
    obtain r2 w2 where c: "store_call_of W ?w (\<lambda>E d. RecordFinalizedSegments E d sid segs now) = (r2, w2)" by fastforce
    have "\<exists>r'. at_session K sid so w2 r' \<and> (same_usage r r' \<or> meters K segs r r') \<and> only_session sid ?w w2 \<and> proxy w2 = proxy ?w \<and> polls w2 = polls ?w"
      by (rule meter_call [OF Q _ c segments.plain_op_axioms, where P = "\<lambda>_ r'. same_usage r r' \<or> meters K segs r r'"])
        (use w now friendlyD(1) [OF calm_friendly [OF Q]] in
          \<open>auto simp: RecordFinalizedSegments_def fails_def intro: segments_meter\<close>)
    then show ?thesis using res g segs c by (auto simp: pollSegmentsV1_def Let_def)
  qed
qed

lemma health_stage:
  assumes Q: "calm K W" and w: "at_session K sid so w r" and now: "now \<noteq> zero_time"
    and res: "pollHealthV1 W m sid now online w = (b, w')"
  shows "\<exists>r'. at_session K sid so w' r' \<and> same_usage r r' \<and> only_session sid w w' \<and> polls w' = polls w \<and>
    (b \<longrightarrow> online \<and> \<not> Stopping r' \<and> (\<exists>base. outputBaseV1 r' = Inr base \<and> FailAfter m \<le> time_sub now base))"
proof -
  let ?H = "\<lambda>E d. RecordHeartbeat E d sid now (HeartbeatInterval m)"
  have beat: "\<exists>r'. at_session K sid so (snd (store_call_of W v ?H)) r' \<and> (same_usage q r' \<and> outputBaseV1 r' = outputBaseV1 q \<and> Stopping r' = Stopping q) \<and>
      only_session sid v (snd (store_call_of W v ?H)) \<and> proxy (snd (store_call_of W v ?H)) = proxy v \<and>
      polls (snd (store_call_of W v ?H)) = polls v"
    if "at_session K sid so v q" for v q
    by (rule meter_call [OF Q that prod.collapse [symmetric] heartbeat.plain_op_axioms,
          where P = "\<lambda>_ r'. same_usage q r' \<and> outputBaseV1 r' = outputBaseV1 q \<and> Stopping r' = Stopping q"])
      (use now in \<open>auto simp: RecordHeartbeat_def fails_def dest: heartbeat_usage heartbeat_keeps_health\<close>)
  show ?thesis
  proof (cases online)
    case False
    then show ?thesis using res beat [OF w] by (auto simp: pollHealthV1_def)
  next
    case True
    obtain r1 w1 where c: "store_call_of W w (\<lambda>E d. EvaluateOutputHealth E d sid now (StallAfter m) (FailAfter m)) = (r1, w1)" by fastforce
    have "\<exists>r'. at_session K sid so w1 r' \<and> (same_usage r r' \<and> (\<forall>s. r1 = Inr (True, s) \<longrightarrow>
          \<not> Stopping r' \<and> (\<exists>base. outputBaseV1 r' = Inr base \<and> FailAfter m \<le> time_sub now base))) \<and>
        only_session sid w w1 \<and> proxy w1 = proxy w \<and> polls w1 = polls w"
      by (rule meter_call [OF Q w c health.plain_op_axioms, where P = "\<lambda>res r'. same_usage r r' \<and> (\<forall>s. res = Inr (True, s) \<longrightarrow>
            \<not> Stopping r' \<and> (\<exists>base. outputBaseV1 r' = Inr base \<and> FailAfter m \<le> time_sub now base))"])
        (use now in \<open>auto simp: EvaluateOutputHealth_def fails_def dest: health_usage\<close>,
         auto simp: EvaluateOutputHealth_step_def not_active_def Let_def split: if_splits sum.splits)
    then obtain ra where ra: "at_session K sid so w1 ra" "same_usage r ra" "only_session sid w w1" "polls w1 = polls w"
      "\<And>s. r1 = Inr (True, s) \<Longrightarrow> \<not> Stopping ra \<and> (\<exists>base. outputBaseV1 ra = Inr base \<and> FailAfter m \<le> time_sub now base)"
      by blast
    show ?thesis
    proof (cases "terminal_error r1")
      case True
      then show ?thesis using res c \<open>online\<close> ra by (auto simp: pollHealthV1_def)
    next
      case False
      define v where "v = (case r1 of Inr (_, True) \<Rightarrow> w1\<lparr>stalls := stalls w1 + 1\<rparr> | _ \<Rightarrow> w1)"
      have v: "at_session K sid so v ra" "only_session sid w1 v" "polls v = polls w1"
        using ra(1) by (auto simp: v_def split: sum.splits prod.splits bool.splits)
      have bw: "b = (case r1 of Inl _ \<Rightarrow> False | Inr (failed, _) \<Rightarrow> failed)" "w' = snd (store_call_of W v ?H)"
        using res c \<open>online\<close> False by (auto simp: pollHealthV1_def v_def split: sum.splits prod.splits if_splits)
      obtain rb where rb: "at_session K sid so w' rb" "same_usage ra rb" "outputBaseV1 rb = outputBaseV1 ra"
          "Stopping rb = Stopping ra" "only_session sid v w'" "polls w' = polls v"
        using beat [OF v(1)] unfolding bw(2) by blast
      have "only_session sid w w'" using ra(3) v(2) rb(5) only_session_trans by blast
      moreover have "b \<longrightarrow> \<not> Stopping rb \<and> (\<exists>base. outputBaseV1 rb = Inr base \<and> FailAfter m \<le> time_sub now base)"
        using bw(1) ra(5) rb(3,4) by (cases r1) auto
      ultimately show ?thesis using rb(1,2,6) v(3) ra(2,4) same_usage_trans \<open>online\<close> by auto
    qed
  qed
qed

subsection \<open>Polls\<close>

lemma poll_stages:
  assumes Q: "calm K W" and d: "disk_ok K (store w)" and l: "Load K (store w) sid = Inr (r, so)"
    and res: "poll W m sid runnerID ingestPath renderPath w = (b, w')"
  shows "\<exists>r'. at_session K sid so w' r' \<and> only_session sid w w' \<and> polls w' = polls w + 1 \<and>
    (same_usage r r' \<or> publisher_online (path_status W (polls w) ingestPath) \<and>
       (\<exists>segs. fst (finalizedSegments (media_server W) (MeterBaseURL m) runnerID renderPath (proxy w)) = Inr segs \<and> meters K segs r r')) \<and>
    (b \<longrightarrow> (if publisher_online (path_status W (polls w) ingestPath)
           then \<not> Stopping r' \<and> (\<exists>base. outputBaseV1 r' = Inr base \<and>
                   FailAfter m \<le> time_sub (time_now (env_of W (accesses w))) base)
           else publisher_known (path_status W (polls w) ingestPath) \<and>
                Stopping r' \<and> PendingCloseReason r' = ''publisher_disconnect''))"
proof -
  let ?now = "time_now (env_of W (accesses w))" and ?st = "path_status W (polls w) ingestPath"
  let ?on = "publisher_online ?st" and ?w = "w\<lparr>polls := polls w + 1\<rparr>"
  have now: "?now \<noteq> zero_time" by (rule calmD(3) [OF Q])
  have w: "at_session K sid so ?w r" using d l by (simp add: at_session_def)
  obtain b1 w1 where p1: "pollPresenceV1 W m sid ?now ?st ?w = (b1, w1)" by fastforce
  obtain r1 where r1: "at_session K sid so w1 r1" "same_usage r r1" "only_session sid ?w w1" "proxy w1 = proxy ?w" "polls w1 = polls ?w"
      "b1 = Some True \<longrightarrow> \<not> ?on \<and> publisher_known ?st \<and> Stopping r1 \<and> PendingCloseReason r1 = ''publisher_disconnect''"
    using presence_stage [OF Q w now p1] by blast
  show ?thesis
  proof (cases b1)
    case (Some x)
    then have "b = x" "w' = w1" using res p1 by (simp_all add: poll_def Let_def)
    then show ?thesis using r1 Some by (intro exI [of _ r1]) auto
  next
    case None
    obtain b2 w2 where p2: "pollSegmentsV1 W m sid runnerID renderPath ?now ?on w1 = (b2, w2)" by fastforce
    obtain r2 where r2: "at_session K sid so w2 r2" "only_session sid w1 w2" "polls w2 = polls w1" "b2 \<noteq> Some True"
      "same_usage r1 r2 \<or> ?on \<and> (\<exists>segs. fst (finalizedSegments (media_server W) (MeterBaseURL m) runnerID renderPath (proxy w1)) = Inr segs \<and>
         meters K segs r1 r2)"
      using segments_stage [OF Q r1(1) now p2] by blast
    have u2: "same_usage r r2 \<or> ?on \<and> (\<exists>segs. fst (finalizedSegments (media_server W) (MeterBaseURL m) runnerID renderPath (proxy w)) = Inr segs \<and>
         meters K segs r r2)"
      using r2(5) r1(2,4) same_usage_trans meters_same [OF r1(2) _ same_usage_refl] by auto
    have o2: "only_session sid w w2" using r1(3) r2(2) only_session_trans [of sid w w1 w2] by simp
    show ?thesis
    proof (cases b2)
      case (Some x)
      then have "b = False" "w' = w2" using res p1 p2 None r2(4) by (auto simp: poll_def Let_def)
      then show ?thesis using r2 u2 o2 r1(5) by (intro exI [of _ r2]) auto
    next
      case none2: None
      have p3: "pollHealthV1 W m sid ?now ?on w2 = (b, w')" using res p1 p2 None none2 by (simp add: poll_def Let_def)
      obtain r3 where r3: "at_session K sid so w' r3" "same_usage r2 r3" "only_session sid w2 w'" "polls w' = polls w2"
        "b \<longrightarrow> ?on \<and> \<not> Stopping r3 \<and> (\<exists>base. outputBaseV1 r3 = Inr base \<and> FailAfter m \<le> time_sub ?now base)"
        using health_stage [OF Q r2(1) now p3] by blast
      have "only_session sid w w'" using o2 r3(3) by (rule only_session_trans)
      moreover have "same_usage r r3 \<or> ?on \<and> (\<exists>segs. fst (finalizedSegments (media_server W) (MeterBaseURL m) runnerID renderPath (proxy w)) = Inr segs \<and>
         meters K segs r r3)"
        using u2 same_usage_trans [OF _ r3(2)] meters_same [OF same_usage_refl _ r3(2)] by blast
      ultimately show ?thesis using r3(1,4,5) r2(3) r1(5) by (intro exI [of _ r3]) auto
    qed
  qed
qed


text \<open>
  The meter ends a session for one of two reasons.  When a poll says that the session is
  over, either no publisher is online, which the router has confirmed, the store has begun the
  termination and the reason is \<open>publisher_disconnect\<close>; or a publisher is online, no
  segment was finalized for the failure interval and the reason is \<open>output_failed\<close>.
\<close>

theorem meter_ends_for_a_reason:
  assumes "calm K W" and "disk_ok K (store w)" and "Load K (store w) sid = Inr (r, so)"
    and "poll W m sid runnerID ingestPath renderPath w = (True, w')"
  shows "\<exists>r'. Load K (store w') sid = Inr (r', so) \<and>
     (if publisher_online (path_status W (polls w) ingestPath)
      then fst (meterCloseReason W sid w') = ''output_failed'' \<and> \<not> Stopping r' \<and>
           (\<exists>base. outputBaseV1 r' = Inr base \<and> FailAfter m \<le> time_sub (time_now (env_of W (accesses w))) base)
      else fst (meterCloseReason W sid w') = ''publisher_disconnect'' \<and> Stopping r' \<and>
           publisher_known (path_status W (polls w) ingestPath))"
proof -
  obtain r' where r': "at_session K sid so w' r'"
    "if publisher_online (path_status W (polls w) ingestPath)
     then \<not> Stopping r' \<and> (\<exists>base. outputBaseV1 r' = Inr base \<and> FailAfter m \<le> time_sub (time_now (env_of W (accesses w))) base)
     else publisher_known (path_status W (polls w) ingestPath) \<and> Stopping r' \<and> PendingCloseReason r' = ''publisher_disconnect''"
    using poll_stages [OF assms] by blast
  have "fst (meterCloseReason W sid w') = (if Stopping r' then PendingCloseReason r' else ''output_failed'')"
    using r'(1) friendlyD(4) [OF calm_friendly [OF assms(1)]]
    by (simp add: meterCloseReason_def reach_store_calm [OF assms(1)] at_session_def)
  then show ?thesis using r' by (auto simp: at_session_def split: if_splits)
qed

end
