(* ===== verification/HLS_Properties.thy ===== *)
theory HLS_Properties
  imports Live_HLS
begin

section \<open>What the HLS proxy asks MediaMTX\<close>

text \<open>
  Each operation of the proxy extends the list of requests and moves cookies; \<open>proxied\<close> says
  of one that all its requests satisfy a predicate and that it keeps the ownership of cookies.
\<close>

definition set_by :: "mediamtx \<Rightarrow> hls \<Rightarrow> string \<Rightarrow> nat \<Rightarrow> string \<times> string \<Rightarrow> bool" where
  "set_by M h dir n nv \<longleftrightarrow>
     n < length (Sent h) \<and> cookie_dir (UpURL (Sent h ! n)) = dir \<and>
     (\<exists>r c. upstream M n (Sent h ! n) = UpAnswer r \<and> c \<in> set (RespCookies r) \<and> nv = (CookieName c, CookieValue c))"

definition jars_ok :: "mediamtx \<Rightarrow> hls \<Rightarrow> bool" where
  "jars_ok M h \<longleftrightarrow>
     (\<forall>rid dir j e. Cookies h rid dir = Some j \<longrightarrow> e \<in> set j \<longrightarrow> (\<exists>n. set_by M h dir n (EntryName e, EntryValue e)))"

definition sent_ok :: "mediamtx \<Rightarrow> hls \<Rightarrow> bool" where
  "sent_ok M h \<longleftrightarrow>
     (\<forall>m<length (Sent h). \<forall>nv\<in>set (UpCookies (Sent h ! m)). \<exists>n<m. set_by M h (cookie_dir (UpURL (Sent h ! m))) n nv)"

definition cookies_ok :: "mediamtx \<Rightarrow> hls \<Rightarrow> bool" where
  "cookies_ok M h \<longleftrightarrow> jars_ok M h \<and> sent_ok M h"

lemma jars_okD:
  "cookies_ok M h \<Longrightarrow> Cookies h rid dir = Some j \<Longrightarrow> e \<in> set j \<Longrightarrow>
     \<exists>n. set_by M h dir n (EntryName e, EntryValue e)"
  unfolding cookies_ok_def jars_ok_def by blast

definition proxied :: "mediamtx \<Rightarrow> (up_request \<Rightarrow> bool) \<Rightarrow> hls \<Rightarrow> hls \<Rightarrow> bool" where
  "proxied M P h h' \<longleftrightarrow>
     (\<exists>qs. Sent h' = Sent h @ qs \<and> (\<forall>x\<in>set qs. P x)) \<and> (cookies_ok M h \<longrightarrow> cookies_ok M h')"

lemma proxied_refl [simp]: "proxied M P h h"
  by (simp add: proxied_def)

lemma proxied_trans: "proxied M P a b \<Longrightarrow> proxied M P b c \<Longrightarrow> proxied M P a c"
  unfolding proxied_def by (metis Un_iff append.assoc set_append)

lemma proxied_mono: "proxied M P a b \<Longrightarrow> (\<And>x. P x \<Longrightarrow> Q x) \<Longrightarrow> proxied M Q a b"
  unfolding proxied_def by blast

lemma set_by_later: "set_by M h dir n nv \<Longrightarrow> Sent h' = Sent h @ qs \<Longrightarrow> set_by M h' dir n nv"
  by (auto simp: set_by_def nth_append)

subsection \<open>Cookies\<close>

lemma jar_put_entries: "x \<in> set (jar_put e j) \<Longrightarrow> x = e \<or> x \<in> set j"
  by (induction j) (auto split: if_splits)

lemma jar_set_entries:
  "x \<in> set (jar_set now u c j) \<Longrightarrow> x \<in> set j \<or> (EntryName x = CookieName c \<and> EntryValue x = CookieValue c)"
  by (auto simp: jar_set_def Let_def split: option.splits prod.splits if_splits dest!: jar_put_entries)

lemma jar_set_all_entries:
  "x \<in> set (jar_set_all now u cs j) \<Longrightarrow>
     x \<in> set j \<or> (\<exists>c\<in>set cs. EntryName x = CookieName c \<and> EntryValue x = CookieValue c)"
proof -
  have "x \<in> set (fold (jar_set now u) cs j) \<Longrightarrow>
      x \<in> set j \<or> (\<exists>c\<in>set cs. EntryName x = CookieName c \<and> EntryValue x = CookieValue c)"
    by (induction cs arbitrary: j) (auto dest: jar_set_entries)
  then show "x \<in> set (jar_set_all now u cs j) \<Longrightarrow>
      x \<in> set j \<or> (\<exists>c\<in>set cs. EntryName x = CookieName c \<and> EntryValue x = CookieValue c)"
    by (auto simp: jar_set_all_def split: if_splits)
qed

lemma store_keeps:
  assumes "cookies_ok M h" and "\<forall>c\<in>set cs. \<exists>n. set_by M h (cookie_dir u) n (CookieName c, CookieValue c)"
  shows "cookies_ok M (storeSessionCookies M rid u cs h)" "Sent (storeSessionCookies M rid u cs h) = Sent h"
proof -
  let ?h = "storeSessionCookies M rid u cs h"
  show s: "Sent ?h = Sent h" by (simp add: storeSessionCookies_def Let_def)
  have sb: "set_by M ?h = set_by M h" by (intro ext) (simp add: set_by_def s)
  have "\<exists>n. set_by M h dir n (EntryName e, EntryValue e)" if j: "Cookies ?h r dir = Some j" and e: "e \<in> set j" for r dir j e
  proof (cases "cs = [] \<or> r \<noteq> rid \<or> dir \<noteq> cookie_dir u")
    case True
    then have "Cookies h r dir = Some j" using j by (auto simp: storeSessionCookies_def Let_def split: if_splits)
    then show ?thesis using assms(1) e by (auto simp: cookies_ok_def jars_ok_def)
  next
    case False
    define j0 where "j0 = (case Cookies h rid (cookie_dir u) of None \<Rightarrow> [] | Some j \<Rightarrow> j)"
    have "j = jar_set_all (up_time M (length (Sent h))) u (map (\<lambda>c. c\<lparr>CookieSecure := False\<rparr>) cs) j0"
      using False j by (auto simp: storeSessionCookies_def Let_def j0_def)
    then consider "e \<in> set j0" | c where "c \<in> set cs" "EntryName e = CookieName c" "EntryValue e = CookieValue c"
      using jar_set_all_entries e by fastforce
    then show ?thesis
    proof cases
      case 1
      then obtain j where "Cookies h rid (cookie_dir u) = Some j" "e \<in> set j"
        by (cases "Cookies h rid (cookie_dir u)") (simp_all add: j0_def)
      then show ?thesis using jars_okD [OF assms(1)] False by blast
    next
      case 2
      then show ?thesis using assms(2) False by auto
    qed
  qed
  then show "cookies_ok M ?h" using assms(1) by (simp add: cookies_ok_def jars_ok_def sent_ok_def sb s)
qed

lemma jar_cookies_entries: "nv \<in> set (jar_cookies now u j) \<Longrightarrow> \<exists>e\<in>set j. nv = (EntryName e, EntryValue e)"
  by (auto simp: jar_cookies_def split: if_splits)

lemma send_keeps:
  assumes "sendUpstreamV1 M rid m u rg h = (a, h')"
  obtains q where "Sent h' = Sent h @ [q]" "UpURL q = u" "UpMethod q = m" "a = upstream M (length (Sent h)) q"
    "cookies_ok M h \<longrightarrow> cookies_ok M h'"
proof -
  define q where "q = \<lparr>UpMethod = m, UpURL = u, UpRange = rg, UpCookies = sessionCookiesV1 M h rid u\<rparr>"
  have a: "a = upstream M (length (Sent h)) q" and h': "h' = h\<lparr>Sent := Sent h @ [q]\<rparr>"
    using assms by (simp_all add: sendUpstreamV1_def q_def Let_def)
  have later: "set_by M h dir n nv \<Longrightarrow> set_by M h' dir n nv" for dir n nv
    using set_by_later [of M h dir n nv h' "[q]"] by (simp add: h')
  have "cookies_ok M h'" if ok: "cookies_ok M h"
  proof -
    have "jars_ok M h'" using ok later by (auto simp: cookies_ok_def jars_ok_def h') blast
    moreover have "sent_ok M h'"
      unfolding sent_ok_def
    proof (intro allI impI ballI)
      fix i nv assume i: "i < length (Sent h')" and nv: "nv \<in> set (UpCookies (Sent h' ! i))"
      show "\<exists>n<i. set_by M h' (cookie_dir (UpURL (Sent h' ! i))) n nv"
      proof (cases "i < length (Sent h)")
        case True
        then have "Sent h' ! i = Sent h ! i" by (simp add: h' nth_append)
        then show ?thesis using ok True nv later unfolding cookies_ok_def sent_ok_def by metis
      next
        case False
        then have i: "i = length (Sent h)" "Sent h' ! i = q" using i by (simp_all add: h' nth_append)
        then obtain j e where "Cookies h rid (cookie_dir u) = Some j" "e \<in> set j" "nv = (EntryName e, EntryValue e)"
          using nv by (auto simp: q_def sessionCookiesV1_def split: option.splits dest!: jar_cookies_entries)
        then obtain n where n: "set_by M h (cookie_dir u) n nv" using jars_okD [OF ok] by blast
        then have "n < i" using i by (simp add: set_by_def)
        moreover have "set_by M h' (cookie_dir (UpURL (Sent h' ! i))) n nv" using later [OF n] i by (simp add: q_def)
        ultimately show ?thesis by blast
      qed
    qed
    ultimately show ?thesis by (simp add: cookies_ok_def)
  qed
  then show ?thesis using that [of q] a by (simp add: h' q_def)
qed

subsection \<open>Requests\<close>

definition same_target :: "url \<Rightarrow> url \<Rightarrow> bool" where
  "same_target u v \<longleftrightarrow> Scheme v = Scheme u \<and> Host v = Host u \<and> url_path v = url_path u"

definition asks :: "string \<Rightarrow> url \<Rightarrow> up_request \<Rightarrow> bool" where
  "asks m u q \<longleftrightarrow> UpMethod q = m \<and> same_target u (UpURL q)"

lemma same_target_dir: "same_target u v \<Longrightarrow> cookie_dir v = cookie_dir u"
  by (simp add: same_target_def cookie_dir_def)

text \<open>A request that was answered, with the cookies of the answer.\<close>

definition answered_by :: "mediamtx \<Rightarrow> hls \<Rightarrow> url \<Rightarrow> response \<Rightarrow> bool" where
  "answered_by M h u r \<longleftrightarrow>
     (\<forall>c\<in>set (RespCookies r). \<exists>n. set_by M h (cookie_dir u) n (CookieName c, CookieValue c))"

lemma send_proxied:
  assumes "sendUpstreamV1 M rid m v rg h = (a, h')" and "same_target u v"
  shows "proxied M (asks m u) h h'" "a = UpAnswer r \<Longrightarrow> answered_by M h' u r"
proof -
  obtain q where q: "Sent h' = Sent h @ [q]" "UpURL q = v" "UpMethod q = m" "a = upstream M (length (Sent h)) q"
      "cookies_ok M h \<longrightarrow> cookies_ok M h'"
    using send_keeps [OF assms(1)] by blast
  then show "proxied M (asks m u) h h'" using assms(2) by (auto simp: proxied_def asks_def)
  show "answered_by M h' u r" if "a = UpAnswer r"
  proof -
    have up: "upstream M (length (Sent h)) q = UpAnswer r" using q(4) that by simp
    have "set_by M h' (cookie_dir u) (length (Sent h)) (CookieName c, CookieValue c)" if "c \<in> set (RespCookies r)" for c
      unfolding set_by_def using q(1,2) up that same_target_dir [OF assms(2)] by (simp add: nth_append) blast
    then show ?thesis unfolding answered_by_def by blast
  qed
qed

lemma store_proxied:
  assumes "answered_by M h u r" and "same_target u v"
  shows "proxied M P h (storeSessionCookies M rid v (RespCookies r) h)"
    "Sent (storeSessionCookies M rid v (RespCookies r) h) = Sent h"
proof -
  show s: "Sent (storeSessionCookies M rid v (RespCookies r) h) = Sent h" by (simp add: storeSessionCookies_def Let_def)
  have "cookies_ok M h \<Longrightarrow> cookies_ok M (storeSessionCookies M rid v (RespCookies r) h)"
    using store_keeps(1) [of M h "RespCookies r" v rid] assms same_target_dir [OF assms(2)] by (simp add: answered_by_def)
  then show "proxied M P h (storeSessionCookies M rid v (RespCookies r) h)" by (simp add: proxied_def s)
qed

lemma answered_same: "Sent h' = Sent h \<Longrightarrow> answered_by M h' u r = answered_by M h u r"
  by (simp add: answered_by_def set_by_def)

lemma follow_proxied:
  assumes "followMediaMTXCookieCheck M rid m u rg redirect h = (res, h')" and "answered_by M h u redirect"
  shows "proxied M (asks m u) h h'" "res = Inr r \<Longrightarrow> answered_by M h' u r"
proof -
  have "proxied M (asks m u) h h' \<and> (\<forall>r. res = Inr r \<longrightarrow> answered_by M h' u r)"
  proof (cases "h' = h \<and> (\<exists>e. res = Inl e)")
    case False
    then obtain location where loc: "RespLocation redirect = Some location" "same_target u location"
      and rest: "followMediaMTXCookieCheck M rid m u rg redirect h =
        (let h1 = storeSessionCookies M rid u (RespCookies redirect) h;
             (reply, h2) = sendUpstreamV1 M rid m location (Some (case rg of None \<Rightarrow> [] | Some r \<Rightarrow> r)) h1
         in case reply of
              UpFailed _ \<Rightarrow> (fails ''upstream request failed'', h2)
            | UpAnswer r \<Rightarrow>
                if RespStatus r \<ge> 300 \<and> RespStatus r < 400 then (fails ''repeated HLS redirect'', h2)
                else (Inr r, storeSessionCookies M rid location (RespCookies r) h2))"
      using assms(1) by (auto simp: followMediaMTXCookieCheck_def same_target_def fails_def Let_def split: option.splits if_splits)
    define h1 where "h1 = storeSessionCookies M rid u (RespCookies redirect) h"
    have h1: "proxied M (asks m u) h h1" "Sent h1 = Sent h"
      using store_proxied [OF assms(2), of u] by (simp_all add: h1_def same_target_def)
    obtain reply h2 where s: "sendUpstreamV1 M rid m location (Some (case rg of None \<Rightarrow> [] | Some r \<Rightarrow> r)) h1 = (reply, h2)"
      by fastforce
    note h2 = send_proxied [OF s loc(2)]
    have h12: "proxied M (asks m u) h h2" using proxied_trans [OF h1(1) h2(1)] .
    show ?thesis
    proof (cases reply)
      case (UpFailed g)
      then show ?thesis using rest assms(1) s h12 by (simp add: h1_def fails_def)
    next
      case (UpAnswer r)
      have ans: "answered_by M h2 u r" by (rule h2(2) [OF UpAnswer])
      note st = store_proxied [OF ans loc(2)]
      show ?thesis
      proof (cases "RespStatus r \<ge> 300 \<and> RespStatus r < 400")
        case True
        then show ?thesis using rest assms(1) s h12 UpAnswer by (simp add: h1_def fails_def)
      next
        case False
        then have "res = Inr r" "h' = storeSessionCookies M rid location (RespCookies r) h2"
          using rest assms(1) s UpAnswer by (auto simp: h1_def)
        then show ?thesis using proxied_trans [OF h12 st(1)] answered_same [OF st(2)] ans by simp
      qed
    qed
  qed auto
  then show "proxied M (asks m u) h h'" "res = Inr r \<Longrightarrow> answered_by M h' u r" by blast+
qed

text \<open>One exchange with MediaMTX: the request, and the second one after a cookie check.\<close>

lemma exchange_proxied:
  assumes "sendUpstreamV1 M rid m u rg h = (UpAnswer r1, h1)"
    and "(if RespStatus r1 \<ge> 300 \<and> RespStatus r1 < 400
          then followMediaMTXCookieCheck M rid m u rg r1 h1 else (Inr r1, h1)) = (res, h2)"
  shows "proxied M (asks m u) h h2" "res = Inr r \<Longrightarrow> proxied M (asks m u) h (storeSessionCookies M rid u (RespCookies r) h2)"
proof -
  have u: "same_target u u" by (simp add: same_target_def)
  note send = send_proxied [OF assms(1) u]
  have b: "proxied M (asks m u) h1 h2 \<and> (\<forall>r. res = Inr r \<longrightarrow> answered_by M h2 u r)"
    using assms(2) follow_proxied [OF _ send(2) [OF refl]] send(2) [OF refl] by (auto split: if_splits)
  then show h2: "proxied M (asks m u) h h2" using proxied_trans [OF send(1)] by blast
  show "proxied M (asks m u) h (storeSessionCookies M rid u (RespCookies r) h2)" if "res = Inr r"
    using proxied_trans [OF h2 store_proxied(1) [OF _ u]] b that by blast
qed

lemma fetch_proxied:
  assumes "fetchPlaylist M b rid mp h = (res, h')" and "url_parse (b @ ''/'' @ mp) = Some u"
  shows "proxied M (asks ''GET'' u) h h'"
proof -
  obtain a h1 where s: "sendUpstreamV1 M rid ''GET'' u None h = (a, h1)" by fastforce
  show ?thesis
  proof (cases a)
    case (UpFailed g)
    then show ?thesis using assms s send_proxied(1) [OF s, of u] by (auto simp: fetchPlaylist_def same_target_def)
  next
    case (UpAnswer r1)
    obtain res2 h2 where e: "(if RespStatus r1 \<ge> 300 \<and> RespStatus r1 < 400
          then followMediaMTXCookieCheck M rid ''GET'' u None r1 h1 else (Inr r1, h1)) = (res2, h2)"
      by fastforce
    have f: "fetchPlaylist M b rid mp h =
       (case res2 of Inl e \<Rightarrow> (Inl e, h2)
        | Inr r \<Rightarrow>
            (let h3 = storeSessionCookies M rid u (RespCookies r) h2 in
             if RespStatus r \<noteq> 200 then (fails ''HLS playlist is unavailable'', h3)
             else if RespBroken r \<or> length (RespBody r) > maxMediaPlaylistBytesV1
             then (fails ''HLS playlist is invalid'', h3)
             else (Inr (RespBody r), h3)))"
      by (simp only: fetchPlaylist_def assms(2) option.case s UpAnswer prod.case up_answer.case e)
    show ?thesis
      using assms(1) exchange_proxied [OF s [unfolded UpAnswer] e] unfolding f
      by (auto simp: Let_def split: sum.splits if_splits)
  qed
qed

subsection \<open>Names\<close>

lemma base_no_slash:
  assumes "path_base s = s" and "last s \<noteq> CHR ''/''"
  shows "CHR ''/'' \<notin> set s"
proof (cases "s = [] \<or> trim_right_by (\<lambda>c. c = CHR ''/'') s = []")
  case True
  then show ?thesis using assms by (auto simp: path_base_def Let_def split: if_splits)
next
  case False
  let ?t = "trim_right_by (\<lambda>c. c = CHR ''/'') s"
  have "s = last (split_at (CHR ''/'') ?t)" using assms(1) False by (simp add: path_base_def Let_def)
  then have "s \<in> set (split_at (CHR ''/'') ?t)" by (metis last_in_set split_at_not_Nil)
  then show ?thesis by (rule split_at_parts)
qed

lemma asset_name_D:
  assumes "validHLSAssetNameV1 name"
  shows "name \<noteq> []" "CHR ''/'' \<notin> set name" "name \<noteq> ''.''" "name \<noteq> ''..''"
proof -
  have n: "name \<noteq> []" "path_base name = name" "\<not> has_prefix name ''.''"
    and s: "\<exists>x \<in> {''.m3u8'', ''.mp4'', ''.m4s'', ''.ts''}. has_suffix name x"
    using assms by (auto simp: validHLSAssetNameV1_def)
  then show "name \<noteq> []" "name \<noteq> ''.''" "name \<noteq> ''..''" by auto
  have "last name \<noteq> CHR ''/''" using s by (auto simp: has_suffix_iff)
  then show "CHR ''/'' \<notin> set name" by (rule base_no_slash [OF n(2)])
qed

lemma split_pair_clean:
  assumes "opaqueIDPattern r" and "validHLSAssetNameV1 n"
  shows "split_at (CHR ''/'') (r @ ''/'' @ n) = [r, n]" "path_clean (r @ ''/'' @ n) = r @ ''/'' @ n"
    "\<not> has_prefix (r @ ''/'' @ n) ''/''"
proof -
  note n = asset_name_D [OF assms(2)]
  have r: "r \<noteq> []" "r \<noteq> ''.''" "r \<noteq> ''..''" "CHR ''/'' \<notin> set r"
    using assms(1) opaque_no_slash [OF assms(1)]
    by (auto simp: opaqueIDPattern_def is_alnum_def is_digit_def is_upper_def is_lower_def)
  have "split_at (CHR ''/'') (r @ CHR ''/'' # n) = [r, n]" using split_at_append [OF r(4), of n] split_at_none [OF n(2)] by simp
  then show sp: "split_at (CHR ''/'') (r @ ''/'' @ n) = [r, n]" by simp
  show pre: "\<not> has_prefix (r @ ''/'' @ n) ''/''" using r(1,4) by (cases r) auto
  show "path_clean (r @ ''/'' @ n) = r @ ''/'' @ n" unfolding path_clean_def sp using r n pre by simp
qed

lemma rendition_asset_iff:
  "renditionAssetPathV1 runnerID preset asset = Some p \<longleftrightarrow>
     (\<exists>r n. asset = r @ ''/'' @ n \<and> opaqueIDPattern r \<and> opaqueIDPattern runnerID \<and> validHLSAssetNameV1 n \<and>
        (\<exists>x\<in>set (ABRRenditions preset). RenditionName x = r) \<and> p = ''renditions/'' @ runnerID @ ''/'' @ r @ ''/'' @ n)"
proof
  assume a: "renditionAssetPathV1 runnerID preset asset = Some p"
  then obtain r n where sp: "split_at (CHR ''/'') asset = [r, n]"
    by (auto simp: renditionAssetPathV1_def split: if_splits list.splits)
  have "asset = r @ ''/'' @ n" using join_split_at [of "CHR ''/''" asset] by (simp add: sp)
  then show "\<exists>r n. asset = r @ ''/'' @ n \<and> opaqueIDPattern r \<and> opaqueIDPattern runnerID \<and> validHLSAssetNameV1 n \<and>
        (\<exists>x\<in>set (ABRRenditions preset). RenditionName x = r) \<and> p = ''renditions/'' @ runnerID @ ''/'' @ r @ ''/'' @ n"
    using a sp by (auto simp: renditionAssetPathV1_def RenditionMediaPathV1_def fails_def list_ex_iff split: if_splits sum.splits)
next
  assume "\<exists>r n. asset = r @ ''/'' @ n \<and> opaqueIDPattern r \<and> opaqueIDPattern runnerID \<and> validHLSAssetNameV1 n \<and>
        (\<exists>x\<in>set (ABRRenditions preset). RenditionName x = r) \<and> p = ''renditions/'' @ runnerID @ ''/'' @ r @ ''/'' @ n"
  then obtain r n where a: "asset = r @ ''/'' @ n" and o: "opaqueIDPattern r" "opaqueIDPattern runnerID" "validHLSAssetNameV1 n"
    and x: "\<exists>x\<in>set (ABRRenditions preset). RenditionName x = r" and p: "p = ''renditions/'' @ runnerID @ ''/'' @ r @ ''/'' @ n"
    by blast
  show "renditionAssetPathV1 runnerID preset asset = Some p"
    unfolding renditionAssetPathV1_def a split_pair_clean(1) [OF o(1,3)] using split_pair_clean [OF o(1,3)] o x p
    by (simp add: RenditionMediaPathV1_def list_ex_iff)
qed

subsection \<open>The handler\<close>

text \<open>A request for a file of one of the session's declared renditions, at the proxy's own upstream.\<close>

definition confined :: "HLSHandlerV1 \<Rightarrow> string \<Rightarrow> ABRPreset \<Rightarrow> up_request \<Rightarrow> bool" where
  "confined H runnerID preset q \<longleftrightarrow>
     (\<exists>r n u. opaqueIDPattern runnerID \<and> opaqueIDPattern r \<and> (\<exists>x\<in>set (ABRRenditions preset). RenditionName x = r) \<and>
        validHLSAssetNameV1 n \<and>
        url_parse (BaseURL H @ ''/renditions/'' @ runnerID @ ''/'' @ r @ ''/'' @ n) = Some u \<and> same_target u (UpURL q))"

lemma safe_playlist_asset: "safePlaylistName v \<Longrightarrow> validHLSAssetNameV1 v"
  by (simp add: safePlaylistName_def)

lemma index_asset: "validHLSAssetNameV1 ''index.m3u8''"
  by code_simp

lemma fetch_confined:
  assumes "fetchPlaylist M (BaseURL H) rid (''renditions/'' @ rid @ ''/'' @ r @ ''/'' @ n) h = (res, h')"
    and "opaqueIDPattern rid" "opaqueIDPattern r" "\<exists>x\<in>set (ABRRenditions preset). RenditionName x = r" "validHLSAssetNameV1 n"
  shows "proxied M (confined H rid preset) h h'"
proof (cases "url_parse (BaseURL H @ ''/'' @ ''renditions/'' @ rid @ ''/'' @ r @ ''/'' @ n)")
  case None
  then show ?thesis using assms(1) by (simp add: fetchPlaylist_def)
next
  case (Some u)
  have u: "url_parse (BaseURL H @ ''/renditions/'' @ rid @ ''/'' @ r @ ''/'' @ n) = Some u" using Some by simp
  show ?thesis
  proof (rule proxied_mono [OF fetch_proxied [OF assms(1) Some]])
    fix x assume "asks ''GET'' u x"
    then show "confined H rid preset x" unfolding confined_def asks_def using assms(2-5) u by blast
  qed
qed

lemma audio_entries_step:
  assumes "audioEntriesV1 r g n (a # as) = Inr (ls, uris)"
  obtains ls' uris' where "audioEntriesV1 r g n as = Inr (ls', uris')"
    "uris = uris' \<or> (\<exists>u. safePlaylistName u \<and> uris = u # uris')"
proof -
  let ?u = "trim_quotes (attribute a ''URI'')"
  consider "attribute a ''GROUP-ID'' \<noteq> g" | "attribute a ''GROUP-ID'' = g" "attribute a ''URI'' = [] \<or> safePlaylistName ?u"
    using assms unfolding audioEntriesV1.simps Let_def fails_def by (meson Inl_Inr_False)
  then show ?thesis
  proof cases
    case 1
    then show ?thesis using assms that by simp
  next
    case 2
    have not: "\<not> (attribute a ''URI'' \<noteq> [] \<and> \<not> safePlaylistName ?u)" using 2(2) by blast
    obtain ls' uris' where rest: "audioEntriesV1 r g n as = Inr (ls', uris')"
      using assms unfolding audioEntriesV1.simps Let_def if_not_P [OF not] using 2(1)
      by (cases "audioEntriesV1 r g n as") auto
    have "uris = (if attribute a ''URI'' \<noteq> [] then ?u # uris' else uris')"
      using assms unfolding audioEntriesV1.simps Let_def if_not_P [OF not] rest sum.case prod.case using 2(1) by simp
    then show ?thesis using that [OF rest] 2(2) by auto
  qed
qed

lemma audio_entries_safe:
  "audioEntriesV1 r g n as = Inr (ls, uris) \<Longrightarrow> u \<in> set uris \<Longrightarrow> safePlaylistName u"
proof (induction as arbitrary: ls uris)
  case (Cons a as)
  from Cons.prems(1) obtain ls' uris' where "audioEntriesV1 r g n as = Inr (ls', uris')"
      "uris = uris' \<or> (\<exists>v. safePlaylistName v \<and> uris = v # uris')"
    by (rule audio_entries_step)
  then show ?case using Cons.IH Cons.prems(2) by auto
qed simp

lemma flatten_safe:
  assumes "flattenHLSVariant master r = Inr (variant, uris)"
  shows "safePlaylistName (VideoURI variant)" "u \<in> set uris \<Longrightarrow> safePlaylistName u"
proof -
  obtain video where v: "mediaPlaylistURIV1 master = Inr video" "safePlaylistName video"
    using assms by (cases "mediaPlaylistURIV1 master") (auto simp: flattenHLSVariant_def fails_def split: if_splits)
  obtain stream audio where m: "masterLinesV1 (split_at line_feed master) None [] = Inr (stream, audio)"
    using assms v by (cases "masterLinesV1 (split_at line_feed master) None []") (auto simp: flattenHLSVariant_def)
  define groupID where "groupID = (case stream of None \<Rightarrow> [] | Some attrs \<Rightarrow> attribute attrs ''AUDIO'')"
  have f: "flattenHLSVariant master r =
      (if groupID = [] then Inr (\<lparr>VideoURI = video, AudioRef = [], AudioLines = []\<rparr>, [])
       else (case audioEntriesV1 r groupID (quoted_text (r @ ''-audio'')) audio of
               Inl e \<Rightarrow> Inl e
             | Inr (ls, us) \<Rightarrow>
                 if ls = [] then fails ''missing audio group''
                 else Inr (\<lparr>VideoURI = video, AudioRef = '',AUDIO='' @ quoted_text (r @ ''-audio''), AudioLines = ls\<rparr>, us)))"
    unfolding flattenHLSVariant_def v(1) sum.case m using v(2) by (simp add: groupID_def Let_def)
  show "safePlaylistName (VideoURI variant)" "u \<in> set uris \<Longrightarrow> safePlaylistName u"
    using assms v(2) unfolding f by (auto simp: fails_def split: if_splits sum.splits prod.splits dest: audio_entries_safe)
qed

lemma ready_confined:
  assumes "variantReadyV1 M (BaseURL H) rid (''renditions/'' @ rid @ ''/'' @ r) uris h = (e, h')"
    and "opaqueIDPattern rid" "opaqueIDPattern r" "\<exists>x\<in>set (ABRRenditions preset). RenditionName x = r"
    and "\<forall>u\<in>set uris. validHLSAssetNameV1 u"
  shows "proxied M (confined H rid preset) h h'"
  using assms(1,5)
proof (induction uris arbitrary: h)
  case (Cons u us)
  obtain res h1 where f: "fetchPlaylist M (BaseURL H) rid (''renditions/'' @ rid @ ''/'' @ r @ ''/'' @ u) h = (res, h1)" by fastforce
  have h1: "proxied M (confined H rid preset) h h1" using fetch_confined [OF f assms(2-4)] Cons.prems(2) by simp
  show ?case
    using Cons.prems f h1 Cons.IH [of h1] proxied_trans [OF h1] by (auto split: sum.splits list.splits)
qed simp

lemma variant_confined:
  assumes "publicVariant M (BaseURL H) rid (''renditions/'' @ rid @ ''/'' @ r) name h = (res, h')"
    and "opaqueIDPattern rid" "opaqueIDPattern r" "\<exists>x\<in>set (ABRRenditions preset). RenditionName x = r"
  shows "proxied M (confined H rid preset) h h'" "res = Inr v \<Longrightarrow> safePlaylistName (VideoURI v)"
proof -
  obtain f h1 where f: "fetchPlaylist M (BaseURL H) rid (''renditions/'' @ rid @ ''/'' @ r @ ''/index.m3u8'') h = (f, h1)" by fastforce
  have h1: "proxied M (confined H rid preset) h h1"
    using fetch_confined [where n = "''index.m3u8''", OF _ assms(2-4) index_asset] f by simp
  have "proxied M (confined H rid preset) h h' \<and> (\<forall>v. res = Inr v \<longrightarrow> safePlaylistName (VideoURI v))"
  proof (cases "\<exists>master w uris. f = Inr master \<and> flattenHLSVariant master name = Inr (w, uris)")
    case True
    then obtain master w uris where w: "f = Inr master" "flattenHLSVariant master name = Inr (w, uris)" by blast
    note safe = flatten_safe [OF w(2)]
    obtain e h2 where e: "variantReadyV1 M (BaseURL H) rid (''renditions/'' @ rid @ ''/'' @ r) (uris @ [VideoURI w]) h1 = (e, h2)"
      by fastforce
    have "\<forall>u\<in>set (uris @ [VideoURI w]). validHLSAssetNameV1 u" using safe safe_playlist_asset by auto
    from proxied_trans [OF h1 ready_confined [OF e assms(2-4) this]]
    have "proxied M (confined H rid preset) h h2" .
    moreover have "publicVariant M (BaseURL H) rid (''renditions/'' @ rid @ ''/'' @ r) name h =
        (case e of Some x \<Rightarrow> (Inl x, h2) | None \<Rightarrow> (Inr w, h2))"
      unfolding publicVariant_def append_assoc f w(1) prod.case sum.case w(2) e by (cases e) simp_all
    ultimately show ?thesis using assms(1) safe(1) by (auto split: option.splits)
  next
    case False
    then show ?thesis using assms(1) f h1 by (auto simp: publicVariant_def split: sum.splits prod.splits)
  qed
  then show "proxied M (confined H rid preset) h h'" "res = Inr v \<Longrightarrow> safePlaylistName (VideoURI v)" by blast+
qed

lemma entries_confined:
  assumes "masterEntriesV1 M (BaseURL H) rid rs h = (es, h')" and "set rs \<subseteq> set (ABRRenditions preset)"
  shows "proxied M (confined H rid preset) h h'"
  using assms
proof (induction rs arbitrary: h h' es)
  case (Cons r rs)
  show ?case
  proof (cases "\<exists>v p. Video r = Some v \<and> RenditionMediaPathV1 rid (RenditionName r) = Inr p")
    case True
    then obtain v p where v: "Video r = Some v" "RenditionMediaPathV1 rid (RenditionName r) = Inr p" by blast
    then have o: "opaqueIDPattern rid" "opaqueIDPattern (RenditionName r)" "p = ''renditions/'' @ rid @ ''/'' @ RenditionName r"
      by (auto simp: RenditionMediaPathV1_def fails_def split: if_splits)
    obtain res h1 where p: "publicVariant M (BaseURL H) rid p (RenditionName r) h = (res, h1)" by fastforce
    have x: "\<exists>x\<in>set (ABRRenditions preset). RenditionName x = RenditionName r" using Cons.prems(2) by auto
    have h1: "proxied M (confined H rid preset) h h1" by (rule variant_confined(1) [OF p [unfolded o(3)] o(1,2) x])
    have sub: "set rs \<subseteq> set (ABRRenditions preset)" using Cons.prems(2) by simp
    obtain es2 h2 where m: "masterEntriesV1 M (BaseURL H) rid rs h1 = (es2, h2)" by fastforce
    have h2: "proxied M (confined H rid preset) h h2 \<Longrightarrow> h' = h1 \<or> h' = h2 \<Longrightarrow> ?thesis" using h1 by auto
    have "h' = h1 \<or> h' = h2" using Cons.prems(1) v p m by (auto split: sum.splits option.splits)
    moreover have "proxied M (confined H rid preset) h1 h2" by (rule Cons.IH [OF m sub])
    ultimately show ?thesis using h2 proxied_trans [OF h1] by blast
  next
    case False
    then have "masterEntriesV1 M (BaseURL H) rid (r # rs) h = masterEntriesV1 M (BaseURL H) rid rs h"
      by (auto split: sum.splits option.splits)
    then show ?thesis using Cons by simp
  qed
qed simp

lemma proxy_confined:
  assumes "proxyAsset M (BaseURL H) hs q rid (''renditions/'' @ rid @ ''/'' @ r @ ''/'' @ n) h = (res, h')"
    and "opaqueIDPattern rid" "opaqueIDPattern r" "\<exists>x\<in>set (ABRRenditions preset). RenditionName x = r" "validHLSAssetNameV1 n"
  shows "proxied M (confined H rid preset) h h'"
proof (cases "url_parse (BaseURL H @ ''/'' @ ''renditions/'' @ rid @ ''/'' @ r @ ''/'' @ n)")
  case None
  then show ?thesis using assms(1) by (simp add: proxyAsset_def)
next
  case (Some u0)
  define u where "u = u0\<lparr>RawQuery := ViewerQuery q\<rparr>"
  define rg where "rg = (if ViewerRange q = [] then None else Some (ViewerRange q))"
  have u0: "url_parse (BaseURL H @ ''/renditions/'' @ rid @ ''/'' @ r @ ''/'' @ n) = Some u0" using Some by simp
  have same: "same_target u0 v" if "same_target u v" for v
    using that by (simp add: same_target_def u_def url_path_def)
  have conf: "confined H rid preset x" if "asks (ViewerMethod q) u x" for x
    unfolding confined_def using that same assms(2-5) u0 unfolding asks_def by blast
  have "proxied M (asks (ViewerMethod q) u) h h'"
  proof -
    obtain a h1 where s: "sendUpstreamV1 M rid (ViewerMethod q) u rg h = (a, h1)" by fastforce
    show ?thesis
    proof (cases a)
      case (UpFailed g)
      then show ?thesis using assms(1) s send_proxied(1) [OF s, of u]
        by (simp add: proxyAsset_def Some [simplified] u_def [symmetric] rg_def [symmetric] same_target_def Let_def)
    next
      case (UpAnswer r1)
      obtain res2 h2 where e: "(if RespStatus r1 \<ge> 300 \<and> RespStatus r1 < 400
            then followMediaMTXCookieCheck M rid (ViewerMethod q) u rg r1 h1 else (Inr r1, h1)) = (res2, h2)"
        by fastforce
      have "h' = (case res2 of Inl _ \<Rightarrow> h2 | Inr r \<Rightarrow> storeSessionCookies M rid u (RespCookies r) h2)"
        using assms(1) unfolding proxyAsset_def Let_def Some option.case u_def [symmetric] rg_def [symmetric] s UpAnswer
          prod.case up_answer.case e by (auto split: sum.splits)
      then show ?thesis using exchange_proxied [OF s [unfolded UpAnswer] e] by (auto split: sum.splits)
    qed
  qed
  then show ?thesis by (rule proxied_mono) (rule conf)
qed

lemma serve_proxied:
  assumes "serveHLS M H lookup q h = (out, h')"
  shows "h' = h \<or>
     (\<exists>r s preset. lookup (ViewerID q) = Inr (r, Some s) \<and> State r = ''active'' \<and> \<not> Stopping r \<and>
        HLSPresets H (to_lower (OutputProfile (SessionParams (CreateRequest s)))) = Some preset \<and>
        proxied M (confined H (RunnerSessionID r) preset) h h')"
proof (cases "\<exists>r s preset. lookup (ViewerID q) = Inr (r, Some s) \<and> State r = ''active'' \<and> \<not> Stopping r \<and>
        HLSPresets H (to_lower (OutputProfile (SessionParams (CreateRequest s)))) = Some preset \<and>
        (ViewerMethod q = ''GET'' \<or> ViewerMethod q = ''HEAD'')")
  case False
  then show ?thesis using assms
    by (auto simp: serveHLS_def Let_def split: if_splits sum.splits prod.splits option.splits)
next
  case True
  then obtain r s preset where r: "lookup (ViewerID q) = Inr (r, Some s)" "State r = ''active''" "\<not> Stopping r"
    and p: "HLSPresets H (to_lower (OutputProfile (SessionParams (CreateRequest s)))) = Some preset"
    and m: "(ViewerMethod q = ''OPTIONS'') = False"
      "(ViewerMethod q \<noteq> ''GET'' \<and> ViewerMethod q \<noteq> ''HEAD'') = False" "(State r \<noteq> ''active'' \<or> Stopping r) = False" by auto
  define asset where "asset = (if ViewerRendition q \<noteq> [] then ViewerRendition q @ ''/'' @ ViewerAsset q
     else if ViewerAsset q = [] \<and> has_suffix (ViewerURLPath q) ''/master.m3u8'' then ''master.m3u8'' else ViewerAsset q)"
  have e: "serveHLS M H lookup q h =
     (if asset = ''master.m3u8'' then
        (case serveMaster M (BaseURL H) corsHeadersV1 (ViewerMethod q) (RunnerSessionID r) preset h of (reply, h1) \<Rightarrow> (Some reply, h1))
      else (case renditionAssetPathV1 (RunnerSessionID r) preset asset of
        None \<Rightarrow> (Some (writeRunnerErrorV1 corsHeadersV1 404 ''asset_not_found''), h)
      | Some renderPath \<Rightarrow>
          if \<not> validHLSQueryV1 (fst (parse_query (ViewerQuery q)))
          then (Some (writeRunnerErrorV1 corsHeadersV1 404 ''asset_not_found''), h)
          else proxyAsset M (BaseURL H) corsHeadersV1 q (RunnerSessionID r) renderPath h))"
    by (simp only: serveHLS_def Let_def m r(1) p sum.case prod.case option.case if_False asset_def [symmetric])
  have "h' = h \<or> proxied M (confined H (RunnerSessionID r) preset) h h'"
  proof (cases "asset = ''master.m3u8''")
    case True
    obtain es h1 where es: "masterEntriesV1 M (BaseURL H) (RunnerSessionID r) (ABRRenditions preset) h = (es, h1)" by fastforce
    have "h' = h1" using assms unfolding e if_P [OF True] serveMaster_def es
      by (auto split: option.splits list.splits)
    then show ?thesis using entries_confined [OF es, of preset] by simp
  next
    case False
    show ?thesis
    proof (cases "renditionAssetPathV1 (RunnerSessionID r) preset asset")
      case None
      then show ?thesis using assms False by (simp add: e)
    next
      case (Some path)
      then obtain x n where x: "opaqueIDPattern x" "opaqueIDPattern (RunnerSessionID r)" "validHLSAssetNameV1 n"
          "\<exists>y\<in>set (ABRRenditions preset). RenditionName y = x" "path = ''renditions/'' @ RunnerSessionID r @ ''/'' @ x @ ''/'' @ n"
        unfolding rendition_asset_iff by blast
      show ?thesis
      proof (cases "validHLSQueryV1 (fst (parse_query (ViewerQuery q)))")
        case True
        then have "proxyAsset M (BaseURL H) corsHeadersV1 q (RunnerSessionID r) path h = (out, h')"
          using assms False Some by (simp add: e)
        from proxy_confined [OF this [unfolded x(5)] x(2,1,4,3)] show ?thesis ..
      next
        case bad: False
        then show ?thesis using assms False Some by (simp add: e)
      qed
    qed
  qed
  then show ?thesis using r p by blast
qed


text \<open>
  Cookies of MediaMTX never cross sessions or renditions: if every cookie in the jars
  and in the requests sent so far was set by an earlier answer to a request for the same directory,
  which names one session and one rendition, this still holds after any viewer's request.  It holds
  at the start, when there are no jars, and after the cookies of a session are dropped.
\<close>

theorem cookies_stay_in_their_directory:
  assumes "cookies_ok M h" and "serveHLS M H lookup q h = (out, h')"
  shows "cookies_ok M h' \<and> cookies_ok M (forgetSessionCookies rid h') \<and>
     cookies_ok M \<lparr>Cookies = (\<lambda>_ _. None), Sent = []\<rparr>"
proof -
  have h': "cookies_ok M h'" using serve_proxied [OF assms(2)] assms(1) by (auto simp: proxied_def)
  moreover have "set_by M (forgetSessionCookies rid h') = set_by M h'"
    by (intro ext) (simp add: set_by_def forgetSessionCookies_def)
  then have "cookies_ok M (forgetSessionCookies rid h')"
    using h' by (auto simp: cookies_ok_def jars_ok_def sent_ok_def forgetSessionCookies_def split: if_splits)
  moreover have "cookies_ok M \<lparr>Cookies = (\<lambda>_ _. None), Sent = []\<rparr>" by (simp add: cookies_ok_def jars_ok_def sent_ok_def)
  ultimately show ?thesis by blast
qed

lemma entries_links:
  fixes H :: HLSHandlerV1 and preset :: ABRPreset
  assumes "masterEntriesV1 M b rid rs h = (Some es, h')" and "b = BaseURL H" and "e \<in> set es"
    and "set rs \<subseteq> set (ABRRenditions preset)"
  shows "\<exists>r\<in>set rs. \<exists>pre uri. e = pre @ RenditionName r @ ''/'' @ uri @ [line_feed] \<and>
     opaqueIDPattern rid \<and> opaqueIDPattern (RenditionName r) \<and> validHLSAssetNameV1 uri"
  using assms
proof (induction rs arbitrary: h es)
  case (Cons r rs)
  show ?case
  proof (cases "\<exists>v p. Video r = Some v \<and> RenditionMediaPathV1 rid (RenditionName r) = Inr p")
    case True
    then obtain v p where v: "Video r = Some v" "RenditionMediaPathV1 rid (RenditionName r) = Inr p" by blast
    then have o: "opaqueIDPattern rid" "opaqueIDPattern (RenditionName r)" "p = ''renditions/'' @ rid @ ''/'' @ RenditionName r"
      by (auto simp: RenditionMediaPathV1_def fails_def split: if_splits)
    obtain res h1 where p: "publicVariant M b rid p (RenditionName r) h = (res, h1)" by fastforce
    obtain es2 h2 where m: "masterEntriesV1 M b rid rs h1 = (es2, h2)" by fastforce
    show ?thesis
    proof (cases res)
      case (Inl x)
      then show ?thesis using Cons.IH [of h1 es] Cons.prems v p by auto
    next
      case (Inr w)
      obtain y ys where y: "variantEntryV1 r v w = Some y" "es2 = Some ys" "es = y # ys" "h2 = h'"
        using Cons.prems(1) v p m Inr by (auto split: option.splits)
      have "\<exists>x\<in>set (ABRRenditions preset). RenditionName x = RenditionName r" using Cons.prems(4) by auto
      from variant_confined(2) [OF p [unfolded o(3) Cons.prems(2)] o(1,2) this Inr]
      have "safePlaylistName (VideoURI w)" .
      moreover obtain pre where "y = pre @ RenditionName r @ ''/'' @ VideoURI w @ [line_feed]"
        using y(1) by (auto simp: variantEntryV1_def split: sum.splits)
      ultimately show ?thesis using Cons.IH [of h1 ys] Cons.prems(2-4) m y(2-4) o(1,2) safe_playlist_asset by auto
    qed
  next
    case False
    then have "masterEntriesV1 M b rid (r # rs) h = masterEntriesV1 M b rid rs h"
      by (auto split: sum.splits option.splits)
    then show ?thesis using Cons by auto
  qed
qed simp

text \<open>
  Every link of the public master playlist is served: each entry ends with the line
  \<open>rendition/name\<close> of a declared rendition, and the asset handler resolves exactly that
  line to the playlist of this rendition of this session.
\<close>

theorem master_links_resolve:
  fixes H :: HLSHandlerV1 and preset :: ABRPreset
  assumes "masterEntriesV1 M (BaseURL H) runnerID (ABRRenditions preset) h = (Some es, h')" and "e \<in> set es"
  shows "\<exists>pre link r uri. e = pre @ link @ [line_feed] \<and> link = r @ ''/'' @ uri \<and>
     renditionAssetPathV1 runnerID preset link = Some (''renditions/'' @ runnerID @ ''/'' @ r @ ''/'' @ uri)"
proof -
  obtain r pre uri where r: "r \<in> set (ABRRenditions preset)" "e = pre @ RenditionName r @ ''/'' @ uri @ [line_feed]"
      "opaqueIDPattern runnerID" "opaqueIDPattern (RenditionName r)" "validHLSAssetNameV1 uri"
    using entries_links [OF assms(1) refl assms(2) order.refl] by blast
  have "renditionAssetPathV1 runnerID preset (RenditionName r @ ''/'' @ uri) =
      Some (''renditions/'' @ runnerID @ ''/'' @ RenditionName r @ ''/'' @ uri)"
    unfolding rendition_asset_iff using r by blast
  moreover have "e = pre @ (RenditionName r @ ''/'' @ uri) @ [line_feed]" using r(2) by simp
  ultimately show ?thesis by blast
qed

end
