(* ===== verification/Playlist_Properties.thy ===== *)
theory Playlist_Properties
  imports Live_Playlist
begin

section \<open>What the playlist reader makes of a playlist\<close>

subsection \<open>Decimal durations\<close>

lemma nat_of_digits_zeros [simp]: "nat_of_digits (replicate k (CHR ''0'')) = 0"
  by (induction k) (simp_all add: nat_of_digits_def digit_val_def)

lemma pad_left_digits:
  assumes "f < 10 ^ k" and "0 < k"
  shows "length (pad_left k (fmt_nat f)) = k" "list_all is_digit (pad_left k (fmt_nat f))"
    "nat_of_digits (pad_left k (fmt_nat f)) = f"
  using length_fmt_nat [OF assms] fmt_nat_digits [of f]
  by (auto simp: pad_left_def nat_of_digits_append list_all_iff is_digit_def)

lemma digits_no_char: "list_all is_digit s \<Longrightarrow> \<not> is_digit c \<Longrightarrow> c \<notin> set s"
  by (auto simp: list_all_iff)

text \<open>The text of a number of microseconds, and how the meter reads any such text.\<close>

definition microseconds_text :: "nat \<Rightarrow> nat \<Rightarrow> string" where
  "microseconds_text s f = fmt_nat s @ ''.'' @ pad_left 6 (fmt_nat f)"

lemma not_digit [simp]: "\<not> is_digit (CHR ''.'')" "\<not> is_digit (CHR ''-'')" "\<not> is_digit (CHR ''+'')" "\<not> is_digit (CHR '','')"
  by (simp_all add: is_digit_def)

lemma digit_not_space: "is_digit c \<Longrightarrow> \<not> is_space c"
  by (auto simp: is_digit_def is_space_def)

lemma dropWhile_id: "s = [] \<or> \<not> p (hd s) \<Longrightarrow> dropWhile p s = s"
  by (cases s) auto

lemma trim_space_id:
  assumes "s \<noteq> []" and "\<not> is_space (hd s)" and "\<not> is_space (last s)"
  shows "trim_space s = s"
  using assms dropWhile_id [of s is_space] dropWhile_id [of "rev s" is_space]
  by (simp add: trim_space_def trim_left_by_def trim_right_by_def hd_rev)

lemma parse_microseconds:
  assumes "s < 2 ^ 58" and "f < 1000000"
  shows "parseHLSMicrosecondsV1 (microseconds_text s f) =
    (if (of_nat s * 1000000 + of_nat f :: u64) = 0 then fails ''HLS segment duration is invalid''
     else Inr (of_nat s * 1000000 + of_nat f))"
proof -
  let ?p = "pad_left 6 (fmt_nat f)" and ?t = "microseconds_text s f"
  have p: "length ?p = 6" "list_all is_digit ?p" "nat_of_digits ?p = f" using pad_left_digits [of f 6] assms(2) by simp_all
  have sp: "split_at (CHR ''.'') ?t = [fmt_nat s, ?p]"
    using split_at_append [OF digits_no_char [OF fmt_nat_digits, of "CHR ''.''"], of s ?p]
      split_at_none [OF digits_no_char [OF p(2), of "CHR ''.''"]] by (simp add: microseconds_text_def)
  obtain c cs where c: "fmt_nat s = c # cs" "is_digit c" using fmt_nat_digits [of s] by (cases "fmt_nat s") auto
  have pne: "?p \<noteq> []" using p(1) by auto
  have last: "is_digit (last ?t)" using p(2) pne by (simp add: microseconds_text_def list_all_iff)
  have hd: "?t \<noteq> []" "is_digit (hd ?t)" using c by (simp_all add: microseconds_text_def)
  have front: "?t \<noteq> []" "\<not> has_prefix ?t ''-''" "\<not> has_prefix ?t ''+''"
    using c by (auto simp: microseconds_text_def)
  have trim: "trim_space ?t = ?t"
    by (rule trim_space_id [OF hd(1) digit_not_space [OF hd(2)] digit_not_space [OF last]])
  have u: "parse_uint (fmt_nat s) 58 = Some s" by (rule parse_uint_fmt_nat [OF assms(1)])
  have "f < 2 ^ 64" using assms(2) by simp
  then have v: "parse_uint ?p 64 = Some f" using p pne by (simp add: parse_uint_def)
  show ?thesis
    unfolding parseHLSMicrosecondsV1_def Let_def sp
    using front trim u v p(1) pne by simp
qed

text \<open>
  (C21) A duration in a playlist is metered exactly as long as it fits 64 bits of
  microseconds, and wraps beyond: the reader admits seconds up to 58 bits, and the product with a
  million is not checked.  A segment of 18446744073710 seconds is metered as 0.448384 seconds.
\<close>

theorem hls_duration_wraps:
  "(s < 2 ^ 58 \<longrightarrow> f < 1000000 \<longrightarrow>
      (case parseHLSMicrosecondsV1 (microseconds_text s f) of
         Inl _ \<Rightarrow> (s * 1000000 + f) mod 2 ^ 64 = 0
       | Inr d \<Rightarrow> unat d = (s * 1000000 + f) mod 2 ^ 64 \<and> (s * 1000000 + f < 2 ^ 64 \<longrightarrow> unat d = s * 1000000 + f))) \<and>
   parseHLSMicrosecondsV1 ''18446744073710'' = Inr 448384"
proof (intro conjI impI)
  assume b: "s < 2 ^ 58" "f < 1000000"
  have u: "unat (of_nat s * 1000000 + of_nat f :: u64) = (s * 1000000 + f) mod 2 ^ 64"
  proof -
    have "(of_nat s * 1000000 + of_nat f :: u64) = of_nat (s * 1000000 + f)" by simp
    then show ?thesis by (simp only: unat_of_nat) simp
  qed
  show "case parseHLSMicrosecondsV1 (microseconds_text s f) of
         Inl _ \<Rightarrow> (s * 1000000 + f) mod 2 ^ 64 = 0
       | Inr d \<Rightarrow> unat d = (s * 1000000 + f) mod 2 ^ 64 \<and> (s * 1000000 + f < 2 ^ 64 \<longrightarrow> unat d = s * 1000000 + f)"
    unfolding parse_microseconds [OF b] using u by (auto simp: fails_def)
next
  have "split_at (CHR ''.'') ''18446744073710'' = [''18446744073710'']" "trim_space ''18446744073710'' = ''18446744073710''"
    by code_simp+
  moreover have "parse_uint ''18446744073710'' 58 = Some 18446744073710"
    by (simp add: parse_uint_def is_digit_def nat_of_digits_def digit_val_def)
  ultimately show "parseHLSMicrosecondsV1 ''18446744073710'' = Inr 448384"
    by (simp add: parseHLSMicrosecondsV1_def)
qed

subsection \<open>Playlists\<close>

text \<open>A media playlist with the given segments, and the segments it can carry.\<close>

definition segment_lines :: "FinalizedHLSSegmentV1 \<Rightarrow> string list" where
  "segment_lines g =
     [''#EXTINF:'' @ microseconds_text (unat (DurationMicroseconds g) div 1000000) (unat (DurationMicroseconds g) mod 1000000) @ '','',
      URI g]"

definition media_playlist :: "FinalizedHLSSegmentV1 list \<Rightarrow> string" where
  "media_playlist gs = concat (map (\<lambda>l. l @ [line_feed]) (''#EXTM3U'' # concat (map segment_lines gs)))"

definition carried :: "FinalizedHLSSegmentV1 \<Rightarrow> bool" where
  "carried g \<longleftrightarrow>
     DurationMicroseconds g \<noteq> 0 \<and> URI g \<noteq> [] \<and> hd (URI g) \<noteq> CHR ''#'' \<and> length (URI g) \<le> 2048 \<and>
     \<not> contains_any (URI g) [CHR 0x00, carriage_return, line_feed]"

lemma split_lines:
  "\<forall>l\<in>set ls. line_feed \<notin> set l \<Longrightarrow> split_at line_feed (concat (map (\<lambda>l. l @ [line_feed]) ls)) = ls @ [[]]"
proof (induction ls)
  case (Cons l ls)
  then show ?case using split_at_append [of line_feed l "concat (map (\<lambda>l. l @ [line_feed]) ls)"] by simp
qed simp

lemma trim_suffix_none: "c \<notin> set s \<Longrightarrow> trim_suffix s [c] = s"
  by (auto simp: trim_suffix_def has_suffix_iff)

lemma length_line: "l \<in> set ls \<Longrightarrow> length l < length (concat (map (\<lambda>l. l @ [line_feed]) ls))"
  by (induction ls) auto

lemma scan_written:
  assumes "\<forall>l\<in>set ls. line_feed \<notin> set l \<and> carriage_return \<notin> set l"
    and "length (concat (map (\<lambda>l. l @ [line_feed]) ls)) \<le> k"
  shows "scan_lines k (concat (map (\<lambda>l. l @ [line_feed]) ls)) = (ls, False)"
proof -
  have sp: "split_at line_feed (concat (map (\<lambda>l. l @ [line_feed]) ls)) = ls @ [[]]" using assms(1) by (intro split_lines) blast
  have tw: "takeWhile (\<lambda>p. length p < k) ls = ls" using assms(2) length_line [of _ ls] by (fastforce simp: takeWhile_eq_all_conv)
  have "map (\<lambda>p. trim_suffix p [carriage_return]) ls = ls" using assms(1) by (intro map_idI trim_suffix_none) blast
  then show ?thesis by (simp add: scan_lines_def sp tw)
qed

lemma find_URI: "find (\<lambda>g. URI g = u) gs = None \<longleftrightarrow> u \<notin> URI ` set gs"
  by (auto simp: find_None_iff)

lemma microseconds_chars: "c \<in> set (microseconds_text s f) \<Longrightarrow> is_digit c \<or> c = CHR ''.''"
  using fmt_nat_digits [of s] fmt_nat_digits [of f] by (auto simp: microseconds_text_def pad_left_def list_all_iff is_digit_def)

lemma ctl_not_digit: "\<not> is_digit line_feed" "\<not> is_digit carriage_return" "line_feed \<noteq> CHR ''.''" "carriage_return \<noteq> CHR ''.''"
  by (auto simp: is_digit_def line_feed_def carriage_return_def)

lemma segment_lines_clean:
  assumes "carried g" and "l \<in> set (segment_lines g)"
  shows "line_feed \<notin> set l \<and> carriage_return \<notin> set l"
proof -
  have "line_feed \<notin> set ''#EXTINF:,''" "carriage_return \<notin> set ''#EXTINF:,''" by (simp_all add: line_feed_def carriage_return_def)
  then show ?thesis using assms microseconds_chars ctl_not_digit
    by (fastforce simp: segment_lines_def carried_def contains_any_def)
qed

lemma read_segment:
  assumes "carried g" and "URI g \<notin> URI ` set gs"
  shows "finalizedLinesV1 (segment_lines g @ ls) mp None gs = finalizedLinesV1 ls True None (gs @ [g])"
proof -
  let ?d = "unat (DurationMicroseconds g)" let ?t = "microseconds_text (?d div 1000000) (?d mod 1000000)"
  note clean = segment_lines_clean [OF assms(1)]
  have t: "trim_suffix l [carriage_return] = l" if "l \<in> set (segment_lines g)" for l
    using clean that by (intro trim_suffix_none) blast
  have d: "?d < 2 ^ 64" by (rule unat_u64_less)
  have "(of_nat (?d div 1000000) * 1000000 + of_nat (?d mod 1000000) :: u64) = of_nat (?d div 1000000 * 1000000 + ?d mod 1000000)"
    by (simp only: of_nat_add of_nat_mult of_nat_numeral)
  also have "\<dots> = of_nat ?d" by (simp only: div_mult_mod_eq)
  also have "\<dots> = DurationMicroseconds g" by simp
  finally have w: "(of_nat (?d div 1000000) * 1000000 + of_nat (?d mod 1000000) :: u64) = DurationMicroseconds g" .
  have "?d div 1000000 < 2 ^ 58" using d by simp
  then have p: "parseHLSMicrosecondsV1 ?t = Inr (DurationMicroseconds g)"
    using parse_microseconds [of "?d div 1000000" "?d mod 1000000"] assms(1) w by (simp add: carried_def)
  have comma: "CHR '','' \<notin> set ?t" using microseconds_chars by fastforce
  have tw: "takeWhile (\<lambda>c. c \<noteq> CHR '','') (?t @ '','') = ?t"
    using comma by (subst takeWhile_append2) (auto simp: in_set_conv_decomp)
  have uri: "URI g \<noteq> []" "\<not> has_prefix (URI g) ''#''" "\<not> has_prefix (URI g) ''#EXTINF:''" "length (URI g) \<le> 2048"
      "\<not> contains_any (URI g) [CHR 0x00, carriage_return, line_feed]"
    using assms(1) by (cases "URI g"; auto simp: carried_def)+
  have f: "find (\<lambda>h. URI h = URI g) gs = None" using assms(2) by (simp add: find_URI)
  have t1: "trim_suffix (''#EXTINF:'' @ ?t @ '','') [carriage_return] = ''#EXTINF:'' @ ?t @ '',''"
    and t2: "trim_suffix (URI g) [carriage_return] = URI g"
    using t by (simp_all add: segment_lines_def)
  have px: "trim_prefix (''#EXTINF:'' @ ?t @ '','') ''#EXTINF:'' = ?t @ '',''" by (simp add: trim_prefix_def)
  have one: "finalizedLinesV1 ((''#EXTINF:'' @ ?t @ '','') # URI g # ls) mp None gs =
      finalizedLinesV1 (URI g # ls) True (Some (DurationMicroseconds g)) gs"
    unfolding finalizedLinesV1.simps(2) [of "''#EXTINF:'' @ ?t @ '',''"] Let_def t1 px tw p
    by simp
  have two: "finalizedLinesV1 (URI g # ls) True (Some (DurationMicroseconds g)) gs =
      finalizedLinesV1 ls True None (gs @ [\<lparr>URI = URI g, DurationMicroseconds = DurationMicroseconds g\<rparr>])"
    unfolding finalizedLinesV1.simps(2) [of "URI g"] Let_def t2 using uri f by simp
  have eta: "\<lparr>URI = URI g, DurationMicroseconds = DurationMicroseconds g\<rparr> = g" by (cases g) simp
  have "segment_lines g @ ls = (''#EXTINF:'' @ ?t @ '','') # URI g # ls" by (simp add: segment_lines_def)
  then show ?thesis by (simp only: one two eta)
qed

lemma read_segments:
  assumes "\<forall>g\<in>set gs. carried g" and "distinct (map URI (hs @ gs))"
  shows "finalizedLinesV1 (concat (map segment_lines gs)) mp None hs = Inr (mp \<or> gs \<noteq> [], None, hs @ gs)"
  using assms
proof (induction gs arbitrary: hs mp)
  case (Cons g gs)
  have "URI g \<notin> URI ` set hs" using Cons.prems(2) by auto
  with Cons.prems have "finalizedLinesV1 (concat (map segment_lines (g # gs))) mp None hs =
      finalizedLinesV1 (concat (map segment_lines gs)) True None (hs @ [g])"
    using read_segment [of g hs "concat (map segment_lines gs)" mp] by simp
  with Cons.IH [of "hs @ [g]" True] Cons.prems show ?case by simp
qed simp

lemma parse_media_playlist:
  assumes "\<forall>g\<in>set gs. carried g" and "distinct (map URI gs)" and "gs \<noteq> []"
    and "length (media_playlist gs) \<le> maxMediaPlaylistBytesV1"
  shows "ParseFinalizedHLSSegmentsV1 (media_playlist gs) = Inr gs"
proof -
  let ?ls = "''#EXTM3U'' # concat (map segment_lines gs)"
  have len: "length (concat (map (\<lambda>l. l @ [line_feed]) ?ls)) \<le> maxMediaPlaylistBytesV1 + 1"
    using assms(4) by (simp add: media_playlist_def)
  have header: "line_feed \<notin> set ''#EXTM3U''" "carriage_return \<notin> set ''#EXTM3U''"
    by (simp_all add: line_feed_def carriage_return_def)
  have "\<forall>l\<in>set ?ls. line_feed \<notin> set l \<and> carriage_return \<notin> set l"
    using header segment_lines_clean assms(1) by auto
  then have "scan_lines (maxMediaPlaylistBytesV1 + 1) (take (maxMediaPlaylistBytesV1 + 1) (media_playlist gs)) = (?ls, False)"
    using scan_written [of ?ls] len by (simp add: media_playlist_def)
  moreover have "trim_prefix (trim_suffix ''#EXTM3U'' [carriage_return]) byte_order_mark = ''#EXTM3U''"
    using trim_suffix_none [OF header(2)] by (simp add: trim_prefix_def byte_order_mark_def)
  moreover have "finalizedLinesV1 (concat (map segment_lines gs)) False None [] = Inr (gs \<noteq> [], None, gs)"
    using read_segments [of gs "[]" False] assms(1,2) by simp
  ultimately show ?thesis using assms(3) by (simp add: ParseFinalizedHLSSegmentsV1_def)
qed

text \<open>
  (C20) The meter sees exactly the finalized segments of a playlist: for every list of segments
  with distinct names of at most 2048 bytes and positive durations, the playlist that advertises
  them, if it is not larger than the limit, is read back as that list, in its order and to the
  microsecond.
\<close>

theorem media_playlist_roundtrip:
  assumes "\<forall>g\<in>set gs. carried g" and "distinct (map URI gs)" and "gs \<noteq> []"
    and "length (media_playlist gs) \<le> maxMediaPlaylistBytesV1"
  shows "ParseFinalizedHLSSegmentsV1 (media_playlist gs) = Inr gs"
  using assms by (rule parse_media_playlist)

definition example_segments :: "FinalizedHLSSegmentV1 list" where
  "example_segments = [\<lparr>URI = ''a.ts'', DurationMicroseconds = 2000000\<rparr>, \<lparr>URI = ''b.ts'', DurationMicroseconds = 1500000\<rparr>]"

lemma example_segments_fit:
  "\<forall>g\<in>set example_segments. carried g" "distinct (map URI example_segments)" "example_segments \<noteq> []"
  "length (media_playlist example_segments) \<le> maxMediaPlaylistBytesV1"
proof -
  show "\<forall>g\<in>set example_segments. carried g"
    by (simp add: example_segments_def carried_def contains_any_def line_feed_def carriage_return_def)
  have "length (media_playlist example_segments) \<le> 100"
    by (simp add: media_playlist_def segment_lines_def example_segments_def microseconds_text_def pad_left_def fmt_nat.simps)
  then show "length (media_playlist example_segments) \<le> maxMediaPlaylistBytesV1" by (simp add: maxMediaPlaylistBytesV1_def)
qed (simp_all add: example_segments_def)

theorem media_playlist_roundtrip_witness:
  "ParseFinalizedHLSSegmentsV1 (media_playlist example_segments) = Inr example_segments"
  by (rule media_playlist_roundtrip [OF example_segments_fit])

theorem hls_duration_wraps_witness:
  "parseHLSMicrosecondsV1 (microseconds_text 2 5) = Inr 2000005"
  using parse_microseconds [of 2 5] hls_duration_wraps [of 2 5] by simp

end
