(* ===== verification/HLS_Witnesses.thy ===== *)
theory HLS_Witnesses
  imports HLS_Properties Playlist_Properties Session_Witnesses
begin

section \<open>The HLS properties on a concrete session\<close>

text \<open>
  A MediaMTX that serves one rendition of the example session: a master playlist that names
  \<open>main.m3u8\<close>, that playlist with two segments, and a cookie with each answer.
\<close>

definition example_preset :: ABRPreset where
  "example_preset = \<lparr>ABRName = ''P'', ABRDescription = [], ABRType = [], ABRFormat = [], ABRHLSMode = [], ABRSegmentDuration = 2,
     ABRRenditions = [\<lparr>RenditionName = ''m'',
       Video = Some \<lparr>VideoCodecName = ''h264'', VideoWidth = 1280, VideoHeight = 720, VideoBitrate = ''3000k'', VideoMaxBitrate = ''3.2M'',
         VideoBufSize = [], VideoProfile = ''main'', VideoLevel = ''4.0'', VideoPixFmt = []\<rparr>,
       Audio = \<lparr>AudioCodecName = ''aac'', AudioBitrate = ''128k'', AudioChannels = 2, AudioSampleRate = 48000\<rparr>\<rparr>]\<rparr>"

definition example_handler :: HLSHandlerV1 where
  "example_handler = \<lparr>HLSPresets = byNameV1 [example_preset], BaseURL = ''http://127.0.0.1:8888''\<rparr>"

definition master_lines :: "string list" where
  "master_lines = [''#EXTM3U'', ''#EXT-X-STREAM-INF:BANDWIDTH=1'', ''main.m3u8'']"

definition served :: "string \<Rightarrow> response" where
  "served body = \<lparr>RespStatus = 200, RespLocation = None,
     RespCookies = [\<lparr>CookieName = ''hlsSession'', CookieValue = ''v'', CookiePath = [], CookieDomain = [], CookieMaxAge = 0,
       CookieExpires = None, CookieSecure = True\<rparr>],
     RespHeaders = [], RespBody = body, RespBroken = False\<rparr>"

definition example_mediamtx :: mediamtx where
  "example_mediamtx = \<lparr>upstream = (\<lambda>_ q. UpAnswer (served
      (if has_suffix (Path (UpURL q)) ''index.m3u8'' then concat (map (\<lambda>l. l @ [line_feed]) master_lines)
       else media_playlist example_segments))), up_time = (\<lambda>_. 5)\<rparr>"

definition no_requests :: hls where
  "no_requests = \<lparr>Cookies = (\<lambda>_ _. None), Sent = []\<rparr>"

definition viewer :: viewer_request where
  "viewer = \<lparr>ViewerMethod = ''GET'', ViewerID = ''r1'', ViewerRendition = ''m'', ViewerAsset = ''a.ts'',
     ViewerURLPath = ''/v1/public/sessions/r1/m/a.ts'', ViewerQuery = [], ViewerRange = []\<rparr>"

definition example_lookup :: "string \<Rightarrow> (SessionRecordV1 \<times> SessionSecretsV1 option) result" where
  "example_lookup _ = Inr (example_record, Some example_secrets)"

lemma example_profile: "HLSPresets example_handler (to_lower (OutputProfile (SessionParams (CreateRequest example_secrets)))) = Some example_preset"
  by (simp add: example_secrets_def example_request_def) code_simp

lemma viewer_sends: "length (Sent (snd (serveHLS example_mediamtx example_handler example_lookup viewer no_requests))) = 1"
proof -
  have p: "renditionAssetPathV1 ''r1'' example_preset (''m'' @ ''/'' @ ''a.ts'') = Some ''renditions/r1/m/a.ts''"
    "validHLSQueryV1 (fst (parse_query (ViewerQuery viewer)))" "((''m'' @ ''/'' @ ''a.ts'') = ''master.m3u8'') = False"
    by code_simp+
  have v: "ViewerMethod viewer = ''GET''" "ViewerRendition viewer = ''m''" "ViewerAsset viewer = ''a.ts''"
    by (simp_all add: viewer_def)
  have "(url_parse (BaseURL example_handler @ ''/'' @ ''renditions/r1/m/a.ts'') = None) = False" by code_simp
  then obtain u where u: "url_parse (BaseURL example_handler @ ''/'' @ ''renditions/r1/m/a.ts'') = Some u" by blast
  have conds: "(''GET'' = ''OPTIONS'') = False" "(''GET'' \<noteq> ''GET'' \<and> ''GET'' \<noteq> ''HEAD'') = False"
    "(''m'' \<noteq> []) = True" "(State example_record \<noteq> ''active'' \<or> Stopping example_record) = False"
    "RunnerSessionID example_record = ''r1''" "(\<not> True) = False" by simp_all
  have q: "validHLSQueryV1 (fst (parse_query (ViewerQuery viewer))) = True" using p(2) by simp
  have "serveHLS example_mediamtx example_handler example_lookup viewer no_requests =
      proxyAsset example_mediamtx (BaseURL example_handler) corsHeadersV1 viewer ''r1'' ''renditions/r1/m/a.ts'' no_requests"
    by (simp only: serveHLS_def Let_def v conds example_lookup_def sum.case prod.case option.case example_profile if_True if_False p(3) p(1) q)
  then show ?thesis
    by (simp add: proxyAsset_def u [simplified] sendUpstreamV1_def Let_def example_mediamtx_def served_def storeSessionCookies_def
        no_requests_def)
qed


theorem cookies_stay_in_their_directory_witness:
  "cookies_ok example_mediamtx (snd (serveHLS example_mediamtx example_handler example_lookup viewer no_requests))"
proof -
  have "cookies_ok example_mediamtx no_requests" by (simp add: cookies_ok_def jars_ok_def sent_ok_def no_requests_def)
  from cookies_stay_in_their_directory [OF this prod.collapse [symmetric]] show ?thesis by blast
qed

text \<open>Fetching from a MediaMTX that answers at once.\<close>

lemma fetch_served:
  assumes "url_parse (b @ ''/'' @ mp) = Some u"
    and "\<And>n q. UpURL q = u \<Longrightarrow> upstream M n q = UpAnswer (served text)" and "length text \<le> maxMediaPlaylistBytesV1"
  obtains h' where "fetchPlaylist M b rid mp h = (Inr text, h')"
proof -
  have "\<exists>h'. fetchPlaylist M b rid mp h = (Inr text, h')"
    using assms by (simp add: fetchPlaylist_def sendUpstreamV1_def Let_def) (simp add: served_def)
  then show ?thesis using that by blast
qed

lemma master_text:
  "length (concat (map (\<lambda>l. l @ [line_feed]) master_lines)) \<le> 100"
  "\<forall>l\<in>set master_lines. line_feed \<notin> set l \<and> carriage_return \<notin> set l"
  by code_simp+

lemma master_flattens:
  "flattenHLSVariant (concat (map (\<lambda>l. l @ [line_feed]) master_lines)) ''m'' =
     Inr (\<lparr>VideoURI = ''main.m3u8'', AudioRef = [], AudioLines = []\<rparr>, [])"
proof -
  let ?t = "concat (map (\<lambda>l. l @ [line_feed]) master_lines)"
  have "scan_lines scannerBufferV1 ?t = (master_lines, False)"
    using scan_written [OF master_text(2), of scannerBufferV1] master_text(1) by (simp add: scannerBufferV1_def)
  moreover have "trim_prefix (trim_suffix (hd master_lines) [carriage_return]) byte_order_mark = ''#EXTM3U''"
    "mediaURILinesV1 (tl master_lines) False = Inr ''main.m3u8''"
    by code_simp+
  ultimately have v: "mediaPlaylistURIV1 ?t = Inr ''main.m3u8''"
    by (simp add: mediaPlaylistURIV1_def master_lines_def)
  have s: "safePlaylistName ''main.m3u8'' = True" "masterLinesV1 (split_at line_feed ?t) None [] = Inr (Some [(''BANDWIDTH'', ''1'')], [])"
    by code_simp+
  show ?thesis unfolding flattenHLSVariant_def v sum.case s by (simp add: attribute_def)
qed

theorem master_links_resolve_witness:
  "\<exists>es h' pre link r uri. masterEntriesV1 example_mediamtx (BaseURL example_handler) ''r1'' (ABRRenditions example_preset) no_requests =
       (Some es, h') \<and> hd es = pre @ link @ [line_feed] \<and> link = r @ ''/'' @ uri \<and>
     renditionAssetPathV1 ''r1'' example_preset link = Some (''renditions/r1/'' @ r @ ''/'' @ uri)"
proof -
  define x where "x = hd (ABRRenditions example_preset)"
  define v where "v = the (Video x)"
  let ?w = "\<lparr>VideoURI = ''main.m3u8'', AudioRef = [], AudioLines = []\<rparr>"
  have r: "ABRRenditions example_preset = [x]" "Video x = Some v" "RenditionName x = ''m''"
    by (simp_all add: x_def v_def example_preset_def)
  have m: "RenditionMediaPathV1 ''r1'' ''m'' = Inr ''renditions/r1/m''" by code_simp
  define u1 where "u1 = \<lparr>Scheme = ''http'', UserInfo = None, Host = ''127.0.0.1:8888'', Path = ''/renditions/r1/m/index.m3u8'',
     RawQuery = [], Fragment = []\<rparr>"
  define u2 where "u2 = \<lparr>Scheme = ''http'', UserInfo = None, Host = ''127.0.0.1:8888'', Path = ''/renditions/r1/m/main.m3u8'',
     RawQuery = [], Fragment = []\<rparr>"
  have u: "url_parse (BaseURL example_handler @ ''/'' @ ''renditions/r1/m'' @ ''/index.m3u8'') = Some u1"
    "url_parse (BaseURL example_handler @ ''/'' @ ''renditions/r1/m'' @ ''/'' @ ''main.m3u8'') = Some u2"
    "has_suffix (Path u1) ''index.m3u8''" "\<not> has_suffix (Path u2) ''index.m3u8''"
    unfolding u1_def u2_def by code_simp+
  obtain h1 where f1: "fetchPlaylist example_mediamtx (BaseURL example_handler) ''r1'' (''renditions/r1/m'' @ ''/index.m3u8'') no_requests =
      (Inr (concat (map (\<lambda>l. l @ [line_feed]) master_lines)), h1)"
    by (rule fetch_served [OF u(1)]) (use u(3) master_text(1) in \<open>auto simp: example_mediamtx_def maxMediaPlaylistBytesV1_def\<close>)
  obtain h2 where f2: "fetchPlaylist example_mediamtx (BaseURL example_handler) ''r1'' (''renditions/r1/m'' @ ''/'' @ ''main.m3u8'') h1 =
      (Inr (media_playlist example_segments), h2)"
    by (rule fetch_served [OF u(2)]) (use u(4) example_segments_fit(4) in \<open>auto simp: example_mediamtx_def\<close>)
  have seg: "ParseFinalizedHLSSegmentsV1 (media_playlist example_segments) = Inr (hd example_segments # tl example_segments)"
    using parse_media_playlist [OF example_segments_fit] by (simp add: example_segments_def)
  have pv: "publicVariant example_mediamtx (BaseURL example_handler) ''r1'' ''renditions/r1/m'' ''m'' no_requests = (Inr ?w, h2)"
    by (simp only: publicVariant_def f1 prod.case sum.case master_flattens append_Nil variantReadyV1.simps
        publicHLSVariant.select_convs f2 seg list.case option.case)
  obtain entry where entry: "variantEntryV1 x v ?w = Some entry"
  proof -
    have k: "has_suffix ''3.2M'' ''M'' = True" "has_suffix ''128k'' ''M'' = False"
      "has_suffix ''128k'' ''k'' = True" "butlast ''3.2M'' = ''3.2''" "butlast ''128k'' = ''128''" by code_simp+
    have f: "(case parse_float ''3.2'' of None \<Rightarrow> 0 | Some v \<Rightarrow> if v \<le> 0 then 0 else trunc (fl_mul v 1000000)) = 3200000"
      "(case parse_float ''128'' of None \<Rightarrow> 0 | Some v \<Rightarrow> if v \<le> 0 then 0 else trunc (fl_mul v 1000)) = 128000"
      by code_simp+
    have b: "bitrateBitsV1 ''3.2M'' = Inr 3200000" "bitrateBitsV1 ''128k'' = Inr 128000"
      unfolding bitrateBitsV1_def k using f by (auto simp: split: option.splits if_splits)
    have a: "split_at (CHR ''.'') ''4.0'' = [''4'', ''0'']" "atoi ''4'' = Some 4" "atoi ''0'' = Some 0" "to_lower ''main'' = ''main''" by code_simp+
    have "h264CodecV1 ''main'' ''4.0'' = Inr (''avc1.'' @ ''4d'' @ ''00'' @ hex_encode [char_of (40::nat)])"
      by (simp add: h264CodecV1_def a)
    then show ?thesis using that b by (simp add: variantEntryV1_def x_def v_def example_preset_def)
  qed
  have es: "masterEntriesV1 example_mediamtx (BaseURL example_handler) ''r1'' (ABRRenditions example_preset) no_requests = (Some [entry], h2)"
    unfolding r(1) by (simp only: masterEntriesV1.simps r(2,3) m prod.case option.case sum.case pv entry)
  have in_es: "entry \<in> set [entry]" by simp
  obtain pre link r uri where l: "entry = pre @ link @ [line_feed]" "link = r @ ''/'' @ uri"
      "renditionAssetPathV1 ''r1'' example_preset link = Some (''renditions/'' @ ''r1'' @ ''/'' @ r @ ''/'' @ uri)"
    using master_links_resolve [OF es in_es] by blast
  have "Some (''renditions/'' @ ''r1'' @ ''/'' @ r @ ''/'' @ uri) = Some (''renditions/r1/'' @ r @ ''/'' @ uri)" by simp
  with l es show ?thesis by (metis list.sel(1))
qed

end
