(* ===== verification/Meter_Witnesses.thy ===== *)
theory Meter_Witnesses
  imports Meter_Properties HLS_Witnesses
begin

section \<open>The meter on a concrete session\<close>

definition example_meter :: LiveOutputMeterV1 where
  "example_meter = \<lparr>MeterBaseURL = BaseURL example_handler, PollInterval = second, HeartbeatInterval = 10 * second,
     RequestTimeout = second, StallAfter = 20 * second, FailAfter = 60 * second, InitialPublishWait = 300 * second,
     ReconnectGrace = 120 * second\<rparr>"

text \<open>A late clock, and a router that always says the same.\<close>

definition later :: "time \<Rightarrow> (router_error + MediaPathStatusV1) \<Rightarrow> meter_setting" where
  "later t status = \<lparr>env_of = (\<lambda>_. example_env\<lparr>time_now := t\<rparr>), between = (\<lambda>_ d. d), path_status = (\<lambda>_ _. status),
     media_server = example_mediamtx, meter_cancelled = (\<lambda>_. False)\<rparr>"

definition metering :: "disk \<Rightarrow> meter" where
  "metering d = \<lparr>store = d, accesses = 0, proxy = no_requests, stalls = 0, polls = 0\<rparr>"

lemma later_calm: "t \<noteq> zero_time \<Longrightarrow> calm example_env (later t status)"
  by (simp add: calm_def later_def same_keys_def) (auto simp: crypto_ok_def example_env_def min_def)


text \<open>The example session, whose publisher never came, ten minutes after its creation.\<close>

lemma absent_poll:
  "fst (poll (later (600 * second) (Inl (RouterError ErrMediaPathNotFoundV1))) example_meter
      ''s1'' ''r1'' ''ingest/r1'' ''renditions/r1/m'' (metering example_disk)) = True"
proof -
  let ?W = "later (600 * second) (Inl (RouterError ErrMediaPathNotFoundV1))" and ?w = "(metering example_disk)\<lparr>polls := 1\<rparr>"
  let ?r = "example_record\<lparr>IntegritySHA256 := integrityV1 example_env example_record\<rparr>"
  have nz: "600 * second \<noteq> zero_time" by (simp add: second_def zero_time_def)
  note Q = later_calm [OF nz, of "Inl (RouterError ErrMediaPathNotFoundV1)"]
  note F = friendlyD(4) [OF calm_friendly [OF Q]]
  have fields: "IngestOnlineAt example_record = NoStamp" "PublisherDeadline example_record = NoStamp" "\<not> PublisherSeen example_record"
    "LastFinalizedSegmentAt example_record = NoStamp" "OutputStateSince example_record = format_nano 5"
    by (simp_all add: example_record_def newSessionRecordV1_def example_env_def)
  have l: "loadLocked (env_of ?W n) example_disk ''s1'' = Inr (?r, Some example_secrets)" for n
    using example_load F by (metis Load_def)
  have "RecordIngestPresence_step False (600 * second) ?r (Some example_secrets) = Inr ((), None)"
    by (simp add: RecordIngestPresence_step_def not_active_def fields Let_def)
  then have c1: "store_call_of ?W ?w (\<lambda>E d. RecordIngestPresence E d ''s1'' False (600 * second)) = (Inr (), ?w\<lparr>accesses := 1\<rparr>)"
    using nz l [of 0]
    by (simp add: store_call_of_def reach_store_calm [OF Q] RecordIngestPresence_def update_session_def metering_def)
  obtain r1 where st: "ExpireAbsentPublisher_step (600 * second) (300 * second) (120 * second) ?r (Some example_secrets) = Inr (True, Some r1)"
    by (simp add: ExpireAbsentPublisher_step_def not_active_def publisherDeadlineV1_def fields Let_def) (simp add: second_def)
  have d: "disk_ok example_env (store (?w\<lparr>accesses := 1\<rparr>))" "Load example_env (store (?w\<lparr>accesses := 1\<rparr>)) ''s1'' = Inr (?r, Some example_secrets)"
    using reachable_disk_ok [OF example_reachable] example_load by (simp_all add: metering_def)
  have u: "ExpireAbsentPublisher E d' ''s1'' (600 * second) (300 * second) (120 * second) =
      update_session E d' ''s1'' (ExpireAbsentPublisher_step (600 * second) (300 * second) (120 * second))" for E d'
    using nz by (simp add: ExpireAbsentPublisher_def) (simp add: second_def)
  obtain w2 where c2: "store_call_of ?W (?w\<lparr>accesses := 1\<rparr>) (\<lambda>E d. ExpireAbsentPublisher E d ''s1'' (600 * second) (300 * second) (120 * second)) = (Inr True, w2)"
    using calm_call [where f = "\<lambda>E d. ExpireAbsentPublisher E d ''s1'' (600 * second) (300 * second) (120 * second)",
        OF Q d absent.plain_op_axioms _ u st] by blast
  have st: "path_status ?W n p = Inl (RouterError ErrMediaPathNotFoundV1)" "time_now (env_of ?W n) = 600 * second" for n p
    by (simp_all add: later_def)
  have k: "publisher_known (Inl (RouterError ErrMediaPathNotFoundV1)) = True" "publisher_online (Inl (RouterError ErrMediaPathNotFoundV1)) = False"
    by (simp_all add: publisher_known_def publisher_online_def path_not_found_def)
  have w: "(metering example_disk)\<lparr>polls := polls (metering example_disk) + 1\<rparr> = ?w" by (simp add: metering_def)
  have "pollPresenceV1 ?W example_meter ''s1'' (600 * second) (Inl (RouterError ErrMediaPathNotFoundV1)) ?w = (Some True, w2)"
    using c1 c2 by (simp add: pollPresenceV1_def k terminal_error_def example_meter_def)
  then show ?thesis by (simp only: poll_def Let_def st w prod.case option.case fst_conv)
qed

theorem meter_ends_for_a_reason_witness:
  "\<exists>w'. poll (later (600 * second) (Inl (RouterError ErrMediaPathNotFoundV1))) example_meter
      ''s1'' ''r1'' ''ingest/r1'' ''renditions/r1/m'' (metering example_disk) = (True, w') \<and>
    fst (meterCloseReason (later (600 * second) (Inl (RouterError ErrMediaPathNotFoundV1))) ''s1'' w') = ''publisher_disconnect''"
proof -
  let ?W = "later (600 * second) (Inl (RouterError ErrMediaPathNotFoundV1))"
  obtain w' where w': "poll ?W example_meter ''s1'' ''r1'' ''ingest/r1'' ''renditions/r1/m'' (metering example_disk) = (True, w')"
  proof (rule that)
    show "poll ?W example_meter ''s1'' ''r1'' ''ingest/r1'' ''renditions/r1/m'' (metering example_disk) =
        (True, snd (poll ?W example_meter ''s1'' ''r1'' ''ingest/r1'' ''renditions/r1/m'' (metering example_disk)))"
      by (rule prod_eqI) (simp_all only: absent_poll fst_conv snd_conv)
  qed
  have Q: "calm example_env ?W" by (rule later_calm) (simp add: second_def zero_time_def)
  have d: "disk_ok example_env (store (metering example_disk))" "Load example_env (store (metering example_disk)) ''s1'' =
      Inr (example_record\<lparr>IntegritySHA256 := integrityV1 example_env example_record\<rparr>, Some example_secrets)"
    using reachable_disk_ok [OF example_reachable] example_load by (simp_all add: metering_def)
  have off: "publisher_online (path_status ?W n p) = False" for n p by (simp add: later_def publisher_online_def)
  from meter_ends_for_a_reason [OF Q d w'] have "fst (meterCloseReason ?W ''s1'' w') = ''publisher_disconnect''"
    unfolding off if_False by blast
  with w' show ?thesis by blast
qed

end
