(* ===== verification/Session_Closing.thy ===== *)
theory Session_Closing
  imports Session_Credentials
begin

section \<open>A closing session stands still\<close>

text \<open>
  From the moment a session stops, its meter, its sequence and the state of its output no longer
  change, until the terminal event ends it.  Whoever finishes the session therefore reads the total
  and the sequence once and may use them later, whatever other goroutines do in between.  The
  locale \<open>closing_op\<close> extends the contract of a method by this promise.
\<close>

definition stands_still :: "SessionRecordV1 \<Rightarrow> SessionRecordV1 \<Rightarrow> bool" where
  "stands_still r r' \<longleftrightarrow>
     (not_active r \<longrightarrow>
        not_active r' \<and> UsageTotal r' = UsageTotal r \<and>
        (State r' = ''active'' \<longrightarrow>
           State r = ''active'' \<and> LastSequence r' = LastSequence r \<and> PendingTerminalState r' = PendingTerminalState r \<and>
           OutputState r' = OutputState r \<and> OutputStateSince r' = OutputStateSince r \<and>
           LastLadderFailureCode r' = LastLadderFailureCode r))"

lemma stands_still_refl [simp]: "stands_still r r"
  by (simp add: stands_still_def)

lemma stands_still_trans: "stands_still a b \<Longrightarrow> stands_still b c \<Longrightarrow> stands_still a c"
  by (auto simp: stands_still_def)

lemma stands_still_integrity [simp]:
  "stands_still r (r'\<lparr>IntegritySHA256 := x\<rparr>) = stands_still r r'"
  by (simp add: stands_still_def not_active_def)

definition disk_still :: "disk \<Rightarrow> disk \<Rightarrow> bool" where
  "disk_still d d' \<longleftrightarrow>
     (\<forall>sid r. map_of (Files d) sid = Some (FRecord r) \<longrightarrow>
        (\<exists>r'. map_of (Files d') sid = Some (FRecord r') \<and> stands_still r r'))"

lemma disk_still_refl [simp]: "disk_still d d"
  by (auto simp: disk_still_def)

lemma disk_still_trans: "disk_still a b \<Longrightarrow> disk_still b c \<Longrightarrow> disk_still a c"
  unfolding disk_still_def using stands_still_trans by meson

lemma disk_still_save:
  assumes "map_of (Files d) (BrokerSessionID r') = Some (FRecord r) \<or> map_of (Files d) (BrokerSessionID r') = None"
    and "map_of (Files d) (BrokerSessionID r') \<noteq> None \<Longrightarrow> stands_still r r'"
  shows "disk_still d (snd (saveLocked E d r'))"
  using saveLocked_disk [of E d r'] assms by (auto simp: disk_still_def)

locale closing_op = session_op +
  assumes keeps_still:
    "crypto_ok E \<Longrightarrow> record_ok r \<Longrightarrow> opened E r so \<Longrightarrow> admits r \<Longrightarrow> step r so = Inr (a, Some r') \<Longrightarrow> stands_still r r'"
begin

lemma update_still:
  assumes E: "crypto_ok E" and d: "disk_ok E d"
    and adm: "\<forall>r so. loadLocked E d sid = Inr (r, so) \<longrightarrow> admits r"
  shows "disk_still d (snd (update_session E d sid step))"
proof (cases "\<exists>r so a r'. loadLocked E d sid = Inr (r, so) \<and> step r so = Inr (a, Some r')")
  case True
  then obtain r so a r' where l: "loadLocked E d sid = Inr (r, so)" and st: "step r so = Inr (a, Some r')" by blast
  note r = load_Inr [OF E d l]
  have "stands_still r r'" "BrokerSessionID r' = sid"
    using keeps_still [OF E _ _ _ st] step_keeps [OF E _ _ _ st] r adm l
    by (auto simp: advances_def same_identity_def)
  then have "disk_still d (snd (saveLocked E d r'))" using r by (intro disk_still_save [of d r' r]) auto
  then show ?thesis
    by (simp add: update_session_def l st split: prod.splits option.splits) (metis snd_conv)
next
  case False
  then have "snd (update_session E d sid step) = d"
    by (auto simp: update_session_def split: sum.splits option.splits prod.splits)
  then show ?thesis by simp
qed

end

context session_op
begin

text \<open>A method that only writes to active sessions, or leaves the frozen fields alone, keeps the promise.\<close>

lemma closing_opI:
  assumes "\<And>r so a r'. admits r \<Longrightarrow> step r so = Inr (a, Some r') \<Longrightarrow> not_active r \<Longrightarrow> stands_still r r'"
  shows "closing_op E admits step"
  by unfold_locales (use assms in \<open>auto simp: stands_still_def\<close>)

end

lemma stands_still_delivery:
  "stands_still r (r\<lparr>PendingEvents := p, CallbackDelivery := c\<rparr>)" "stands_still r (r\<lparr>CallbackDelivery := c\<rparr>)"
  "stands_still r (r\<lparr>PendingEvents := p, CallbackDelivery := c, CallbackDeadLetters := l, CallbackRejectedTotal := n\<rparr>)"
  "stands_still r (r\<lparr>WrappedKeyNonce := a, WrappedKeyCiphertext := b, SecretNonce := n1, SecretCiphertext := n2\<rparr>)"
  by (simp_all add: stands_still_def not_active_def)

interpretation s_heartbeat: closing_op E "\<lambda>_. True" "RecordHeartbeat_step t i" for E t i
  by (rule heartbeat.closing_opI) (simp add: RecordHeartbeat_step_def)

interpretation s_segments: closing_op E "\<lambda>_. True" "RecordFinalizedSegments_step E segs t" for E segs t
  by (rule segments.closing_opI) (simp add: RecordFinalizedSegments_step_def)

interpretation s_presence: closing_op E "\<lambda>_. True" "RecordIngestPresence_step online t" for E online t
  by (rule presence.closing_opI) (simp add: RecordIngestPresence_step_def)

interpretation s_absent: closing_op E "\<lambda>_. True" "ExpireAbsentPublisher_step t w g" for E t w g
  by (rule absent.closing_opI) (auto simp: ExpireAbsentPublisher_step_def split: if_splits)

interpretation s_ladder: closing_op E "\<lambda>_. validLadderFailureCodeV1 code False" "RecordLadderRestart_step code t w"
  for E code t w
  by (rule ladder.closing_opI) (simp add: RecordLadderRestart_step_def)

interpretation s_health: closing_op E "\<lambda>_. True" "EvaluateOutputHealth_step t s f" for E t s f
  by (rule health.closing_opI) (auto simp: EvaluateOutputHealth_step_def split: if_splits)

interpretation s_stalled: closing_op E "\<lambda>_. True" "RecordOutputStalled_step t" for E t
  by (rule stalled.closing_opI) (simp add: RecordOutputStalled_step_def)

interpretation s_begin_terminal: closing_op E
    "\<lambda>_. validCloseReasonV1 reason \<and> (terminal = ''ended'' \<or> terminal = ''failed'')"
    "beginTerminalV1_step reason terminal" for E reason terminal
  by (rule begin_terminal.closing_opI) (auto simp: beginTerminalV1_step_def not_active_def split: if_splits)

interpretation s_activation: closing_op E "\<lambda>_. True" "CompleteKeyActivation_step q" for E q
  by (rule activation.closing_opI) (auto simp: CompleteKeyActivation_step_def split: if_splits option.splits)

interpretation s_ack: closing_op E "\<lambda>_. True" "AcknowledgeEvent_step q" for E q
  by (rule ack.closing_opI) (auto simp: AcknowledgeEvent_step_def stands_still_delivery split: if_splits list.splits)

interpretation s_reserve: closing_op E "\<lambda>_. 0 < i \<and> i \<le> m" "ReserveCallbackAttempt_step E q t i m" for E q t i m
  by (rule reserve.closing_opI)
    (auto simp: ReserveCallbackAttempt_step_def Let_def stands_still_delivery split: if_splits list.splits sum.splits option.splits)

interpretation s_retry: closing_op E "\<lambda>_. validCallbackFailureV1 c m True" "RecordCallbackRetryFailure_step q c m"
  for E q c m
  by (rule retry.closing_opI)
    (auto simp: RecordCallbackRetryFailure_step_def stands_still_delivery split: if_splits list.splits option.splits)

interpretation s_park: closing_op E "\<lambda>_. validCallbackFailureV1 c m False" "ParkCallbackRejection_step q c m t"
  for E q c m t
  by (rule park.closing_opI)
    (auto simp: ParkCallbackRejection_step_def Let_def stands_still_def not_active_def split: if_splits list.splits option.splits)

lemma accepted_total:
  assumes "EventCursor_Accept c e = Inr c'" and "\<forall>u. EvUsage e = Some u \<longrightarrow> Total u = CurUsageTotal c"
  shows "CurUsageTotal c' = CurUsageTotal c"
  using assms by (auto simp: EventCursor_Accept_def Let_def split: option.splits if_splits)

interpretation s_advance: closing_op E "advance_admits e" "Advance_step e" for E e
proof (rule advance.closing_opI)
  fix r so a r'
  assume adm: "advance_admits e r" and st: "Advance_step e r so = Inr (a, Some r')" and na: "not_active r"
  have stop: "State r = ''active''" "EvState e \<noteq> ''active''"
    using st na by (auto simp: Advance_step_def not_active_def split: if_splits)
  obtain c where c: "EventCursor_Accept (durableCursorV1 r) e = Inr c"
    using st by (cases "EventCursor_Accept (durableCursorV1 r) e") (auto simp: Advance_step_def split: if_splits)
  have "CurUsageTotal c = UsageTotal r"
    using accepted_total [OF c] adm by (simp add: durableCursorV1_def advance_admits_def)
  moreover have "EvState e = ''ended'' \<or> EvState e = ''failed''"
    using ValidateEventV1_terminal [of e] EventCursor_Accept_Inr(1) [OF c] stop(2) by blast
  ultimately show "stands_still r r'"
    using st c stop by (auto simp: Advance_step_def Let_def stands_still_def not_active_def appendEventV1_def split: if_splits)
qed

interpretation s_clear: closing_op E "\<lambda>_. True" ClearTerminalSecrets_step for E
  by (rule clear.closing_opI) (auto simp: ClearTerminalSecrets_step_def stands_still_delivery split: if_splits)

interpretation s_key_issue: closing_op E "\<lambda>_. issue_admits q p" "RecordKeyIssue_step E q p" for E q p
  by (rule key_issue.closing_opI) (auto simp: RecordKeyIssue_step_def split: if_splits option.splits)

lemma CreateOrReplay_still:
  assumes E: "crypto_ok E" and d: "disk_ok E d" and adm: "create_admits q p"
  shows "disk_still d (snd (CreateOrReplay E d q p))"
proof (rule CreateOrReplay_cases [of E d q p])
  fix e r s
  assume v: "ValidateCreateRequestV1 q = None" "ValidateCreateResponseV1 p = None"
    and l: "loadLocked E d (SessionID q) = Inl e" "errors_is e ErrNotExist"
    and s: "s = \<lparr>CreateRequest = q, CreateResponse = p, CurrentKeyID = [], KeyIssues = []\<rparr>"
    and seal: "sealLocked E (newSessionRecordV1 E q p (hd (Grants (Runtime p)))) s = Inr r"
    and c: "CreateOrReplay E d q p = (case saveLocked E d r of (Some e', d') \<Rightarrow> (Inl e', d') | (None, d') \<Rightarrow> (Inr (r, s, False), d'))"
  have "disk_still d (snd (saveLocked E d r))"
    by (rule disk_still_save) (use new_record_keeps(3) [OF E v adm s seal] load_missing [OF E d l] in auto)
  then show ?thesis by (simp add: c split: prod.splits option.splits) (metis snd_conv)
qed simp

lemma exec_still:
  assumes E: "crypto_ok E" and d: "disk_ok E d" and adm: "admissible E d c"
  shows "disk_still d (exec E c d)"
proof (cases c)
  case (CallCreate q p)
  then show ?thesis using CreateOrReplay_still [OF E d] adm by simp
next
  case (CallReconcile sid)
  then show ?thesis by (simp add: disk_still_def ReconcileCreate_files)
next
  case (CallKeyIssue sid q p)
  then show ?thesis using s_key_issue.update_still [OF E d, of sid q p] adm
    by (auto simp: RecordKeyIssue_def issue_admits_def split: option.splits)
next
  case (CallAdvance sid e)
  then have "\<forall>r so. loadLocked E d sid = Inr (r, so) \<longrightarrow> advance_admits e r" using adm by auto
  from s_advance.update_still [OF E d this] show ?thesis by (simp add: CallAdvance Advance_def)
qed (use s_segments.update_still [OF E d] s_heartbeat.update_still [OF E d] s_presence.update_still [OF E d]
    s_absent.update_still [OF E d] s_ladder.update_still [OF E d] s_health.update_still [OF E d]
    s_stalled.update_still [OF E d] s_begin_terminal.update_still [OF E d] s_activation.update_still [OF E d]
    s_ack.update_still [OF E d] s_reserve.update_still [OF E d] s_retry.update_still [OF E d]
    s_park.update_still [OF E d] s_clear.update_still [OF E d] in
    \<open>simp_all add: call_defs\<close>)

lemma runs_still:
  assumes "runs K a d" and "disk_ok K a"
  shows "disk_still a d"
  using assms
proof (induction rule: runs.induct)
  case (runs_call a d E c)
  then have "disk_ok E d" using runs_keeps same_keys_disk_ok by blast
  then show ?case using exec_still runs_call disk_still_trans by blast
qed simp

text \<open>
  What later accesses to a stopping session find: the session as it was, or its end with the pending
  close reason.
\<close>

lemma stopping_later:
  assumes K: "crypto_ok K" and d: "disk_ok K d" and run: "runs K d d'"
    and l: "Load K d sid = Inr (r, so)" and stop: "Stopping r"
  obtains r' so' where "Load K d' sid = Inr (r', so')" "record_ok r'" "UsageTotal r' = UsageTotal r" "RunnerSessionID r' = RunnerSessionID r"
    "if State r' = ''active''
     then Stopping r' \<and> stands_still r r' \<and> PendingCloseReason r' = PendingCloseReason r
     else terminalV1 r' \<and> CloseReason r' = PendingCloseReason r"
proof -
  have r: "map_of (Files d) sid = Some (FRecord r)" "opaqueIDPattern sid" "record_ok r"
    using load_Inr [OF K d] l by (auto simp: Load_def)
  have d': "disk_ok K d'" "disk_advances d d'" using runs_keeps [OF run d] by auto
  obtain r' where r': "map_of (Files d') sid = Some (FRecord r')" "stands_still r r'"
    using runs_still [OF run d] r(1) by (auto simp: disk_still_def)
  obtain so' where l': "loadLocked K d' sid = Inr (r', so')" "record_ok r'" using load_defined [OF K d'(1) r'(1)] by auto
  have adv: "advances r r'" using d'(2) r r' by (fastforce simp: disk_advances_def)
  have na: "not_active r" using stop by (simp add: not_active_def)
  show ?thesis
  proof (rule that [of r' so'])
    show "Load K d' sid = Inr (r', so')" "record_ok r'" using l' by (simp_all add: Load_def)
    show "UsageTotal r' = UsageTotal r" using r'(2) na by (simp add: stands_still_def)
    show "RunnerSessionID r' = RunnerSessionID r" using adv by (simp add: advances_def same_identity_def)
    have "State r' = ''active'' \<or> terminalV1 r'"
      using l'(2) by (auto simp: record_ok_iff lifecycle_ok_def validState_cases terminalV1_def)
    then show "if State r' = ''active'' then Stopping r' \<and> stands_still r r' \<and> PendingCloseReason r' = PendingCloseReason r
        else terminalV1 r' \<and> CloseReason r' = PendingCloseReason r"
      using adv stop r'(2) by (cases "State r' = ''active''") (simp_all add: advances_def)
  qed
qed

end
