(* ===== verification/Live_Recovery.thy ===== *)
theory Live_Recovery
  imports Session_Closing Store_Client
begin

section \<open>Termination and recovery (live-runner/recovery.go)\<close>

text \<open>
  The functions that bring a stopping session to its end, and the pass over the stored sessions when
  the runner starts.  They call the runtime of the sessions through the interface
  \<open>LiveSessionRuntimeV1\<close>, a parameter here: the \<open>runtime_setting\<close> says how the
  n-th call of the runtime answers, and the log of the calls is part of the state.
\<close>

datatype runtime_call =
    TerminateSession SessionRecordV1
  | ActivateStreamKey SessionRecordV1
  | EnsureSession SessionRecordV1 SessionSecretsV1

record runtime_setting = setting +
  runtime_answer :: "nat \<Rightarrow> runtime_call \<Rightarrow> error"

record runtime_client = client +
  runtime_calls :: "runtime_call list"

definition call_runtime ::
    "'a runtime_setting_scheme \<Rightarrow> 'b runtime_client_scheme \<Rightarrow> runtime_call \<Rightarrow> error \<times> 'b runtime_client_scheme" where
  "call_runtime W w c =
     (runtime_answer W (length (runtime_calls w)) c, w\<lparr>runtime_calls := runtime_calls w @ [c]\<rparr>)"

definition store_load ::
    "'a setting_scheme \<Rightarrow> 'b client_scheme \<Rightarrow> string \<Rightarrow> (SessionRecordV1 \<times> SessionSecretsV1 option) result \<times> 'b client_scheme" where
  "store_load W w sid = (let (E, w1) = reach_store W w in (Load E (store w1) sid, w1))"

subsection \<open>The end of a session\<close>

definition terminalEventV1 :: "SessionRecordV1 \<Rightarrow> time \<Rightarrow> RunnerEventV1" where
  "terminalEventV1 r now =
     (let closeReason = PendingCloseReason r;
          terminalState = (if PendingTerminalState r = [] then ''ended'' else PendingTerminalState r);
          eventType = (if terminalState = ''failed'' then ''session.failed'' else ''session.ended'')
      in \<lparr>EventID = eventIDFor r (LastSequence r + 1), Sequence = LastSequence r + 1, EventType = eventType,
          EventTime = format_nano now, EvState = terminalState,
          EvUsage = Some \<lparr>Unit = WorkUnitV1, Total = UsageTotal r\<rparr>, EvCloseReason = Some closeReason,
          Details = outputHealthDetailsV1 r\<rparr>)"

text \<open>The reload that the function ends with, after its event or after that of another.\<close>

definition reloadTerminalV1 :: "'a setting_scheme \<Rightarrow> string \<Rightarrow> 'b client_scheme \<Rightarrow> SessionRecordV1 result \<times> 'b client_scheme" where
  "reloadTerminalV1 W sid w =
     (case store_load W w sid of
        (Inr (completed, _), w1) \<Rightarrow> (Inr completed, w1)
      | (Inl e, w1) \<Rightarrow> (Inl e, w1))"

definition FinalizeLiveTerminationV1 ::
    "'a setting_scheme \<Rightarrow> string \<Rightarrow> time \<Rightarrow> 'b client_scheme \<Rightarrow> SessionRecordV1 result \<times> 'b client_scheme" where
  "FinalizeLiveTerminationV1 W brokerSessionID now w =
     (if brokerSessionID = [] \<or> now = zero_time then (fails ''live termination finalization is invalid'', w)
      else (case store_load W w brokerSessionID of
        (Inl e, w1) \<Rightarrow> (Inl (ErrJoin [ErrNew ''reload live termination state failed'', e]), w1)
      | (Inr (r, _), w1) \<Rightarrow>
          if State r = ''ended'' \<or> State r = ''failed'' then (Inr r, w1)
          else if State r \<noteq> ''active'' \<or> \<not> Stopping r then (fails ''reload live termination state failed'', w1)
          else (case store_call_of W w1 (\<lambda>E d. Advance E d (BrokerSessionID r) (terminalEventV1 r now)) of
                  (Inl e, w2) \<Rightarrow>
                    if errors_is e ErrSessionTerminalV1 then reloadTerminalV1 W (BrokerSessionID r) w2 else (Inl e, w2)
                | (Inr _, w2) \<Rightarrow> reloadTerminalV1 W (BrokerSessionID r) w2)))"

definition CompleteLiveTerminationV1 ::
    "'a runtime_setting_scheme \<Rightarrow> SessionRecordV1 \<Rightarrow> time \<Rightarrow> 'b runtime_client_scheme
      \<Rightarrow> SessionRecordV1 result \<times> 'b runtime_client_scheme" where
  "CompleteLiveTerminationV1 W r now w =
     (if State r \<noteq> ''active'' \<or> \<not> Stopping r \<or> \<not> validCloseReasonV1 (PendingCloseReason r)
      then (fails ''live termination state is invalid'', w)
      else (case call_runtime W w (TerminateSession r) of
              (Some e, w1) \<Rightarrow> (Inl e, w1)
            | (None, w1) \<Rightarrow> FinalizeLiveTerminationV1 W (BrokerSessionID r) now w1))"

subsection \<open>The pass over the stored sessions\<close>

text \<open>The completion of a key activation that a restart found pending.\<close>

definition recoverKeyActivationV1 ::
    "'a runtime_setting_scheme \<Rightarrow> SessionRecordV1 \<Rightarrow> 'b runtime_client_scheme \<Rightarrow> SessionRecordV1 result \<times> 'b runtime_client_scheme" where
  "recoverKeyActivationV1 W r w =
     (if PendingKeyActivationID r = [] then (Inr r, w)
      else (case call_runtime W w (ActivateStreamKey r) of
              (Some e, w1) \<Rightarrow> (Inl e, w1)
            | (None, w1) \<Rightarrow>
                (case store_call_of W w1 (\<lambda>E d. CompleteKeyActivation E d (BrokerSessionID r) (PendingKeyActivationID r)) of
                   (Inl e, w2) \<Rightarrow> (Inl e, w2)
                 | (Inr _, w2) \<Rightarrow> (Inr (r\<lparr>PendingKeyActivationID := []\<rparr>), w2))))"

definition recoverSessionV1 :: "'a runtime_setting_scheme \<Rightarrow> string \<Rightarrow> 'b runtime_client_scheme \<Rightarrow> error \<times> 'b runtime_client_scheme" where
  "recoverSessionV1 W sid w =
     (case store_load W w sid of
        (Inl e, w1) \<Rightarrow> (Some e, w1)
      | (Inr (r, secrets), w1) \<Rightarrow>
          if Stopping r
          then (case CompleteLiveTerminationV1 W r (time_now (env_of W (accesses w1))) w1 of
                  (Inl e, w2) \<Rightarrow> (Some e, w2) | (Inr _, w2) \<Rightarrow> (None, w2))
          else (case secrets of
                  None \<Rightarrow> (err ''active live session has no secrets'', w1)
                | Some s \<Rightarrow>
                    (case recoverKeyActivationV1 W r w1 of
                       (Inl e, w2) \<Rightarrow> (Some e, w2)
                     | (Inr r', w2) \<Rightarrow> call_runtime W w2 (EnsureSession r' s))))"

fun recoverSessionsV1 ::
    "'a runtime_setting_scheme \<Rightarrow> SessionRecordV1 list \<Rightarrow> 'b runtime_client_scheme \<Rightarrow> error \<times> 'b runtime_client_scheme" where
  "recoverSessionsV1 W [] w = (None, w)"
| "recoverSessionsV1 W (candidate # rest) w =
     (if State candidate \<noteq> ''active'' then recoverSessionsV1 W rest w
      else (case recoverSessionV1 W (BrokerSessionID candidate) w of
              (Some e, w1) \<Rightarrow> (Some e, w1)
            | (None, w1) \<Rightarrow> recoverSessionsV1 W rest w1))"

definition RecoverLiveSessionsV1 :: "'a runtime_setting_scheme \<Rightarrow> 'b runtime_client_scheme \<Rightarrow> error \<times> 'b runtime_client_scheme" where
  "RecoverLiveSessionsV1 W w =
     (let (E, w1) = reach_store W w in
      case Recoverable E (store w1) of
        Inl e \<Rightarrow> (Some e, w1)
      | Inr records \<Rightarrow> recoverSessionsV1 W records w1)"

end
