(* ===== verification/Live_Wire.thy ===== *)
theory Live_Wire
  imports Session_Ops Runner_HTTP
begin

section \<open>The documents of the runner's API\<close>

text \<open>
  The strict decoding of a request body (\<open>DecodeStrictV1\<close> of contract.go behind the limit of
  server.go) and the JSON documents of the responses, from the tags of the structures of contract.go.
\<close>

subsection \<open>Strict decoding of a request\<close>

definition maxRunnerRequestBodyV1 :: nat where "maxRunnerRequestBodyV1 = 256 * 1024"

definition DecodeStrictV1 :: "(json \<Rightarrow> 'a \<Rightarrow> 'a option) \<Rightarrow> 'a \<Rightarrow> string \<Rightarrow> 'a option" where
  "DecodeStrictV1 = decode_strict"

definition decodeRunnerRequestV1 :: "(json \<Rightarrow> 'a \<Rightarrow> 'a option) \<Rightarrow> 'a \<Rightarrow> string \<Rightarrow> 'a option" where
  "decodeRunnerRequestV1 dec zero body =
     (if length body > maxRunnerRequestBodyV1 then None else DecodeStrictV1 dec zero body)"

definition dec_s3 :: "json \<Rightarrow> S3SessionStorageV1 option \<Rightarrow> S3SessionStorageV1 option option" where
  "dec_s3 v acc =
     (if v = JNull then Some None
      else map_option Some (strict_object
        [text_member ''endpoint'' Endpoint (\<lambda>x r. r\<lparr>Endpoint := x\<rparr>),
         text_member ''region'' Region (\<lambda>x r. r\<lparr>Region := x\<rparr>),
         text_member ''bucket'' Bucket (\<lambda>x r. r\<lparr>Bucket := x\<rparr>),
         text_member ''prefix'' Prefix (\<lambda>x r. r\<lparr>Prefix := x\<rparr>),
         text_member ''access_key_id'' AccessKeyID (\<lambda>x r. r\<lparr>AccessKeyID := x\<rparr>),
         text_member ''secret_access_key'' SecretAccessKey (\<lambda>x r. r\<lparr>SecretAccessKey := x\<rparr>),
         text_member ''session_token'' SessionToken (\<lambda>x r. r\<lparr>SessionToken := x\<rparr>),
         (''force_path_style'', \<lambda>v r. map_option (\<lambda>x. r\<lparr>ForcePathStyle := x\<rparr>) (dec_bool v (ForcePathStyle r)))]
        v (case acc of Some s \<Rightarrow> s
           | None \<Rightarrow> \<lparr>Endpoint = [], Region = [], Bucket = [], Prefix = [], AccessKeyID = [], SecretAccessKey = [],
                     SessionToken = [], ForcePathStyle = False\<rparr>)))"

definition dec_storage :: "json \<Rightarrow> StorageV1 \<Rightarrow> StorageV1 option" where
  "dec_storage = strict_object
     [text_member ''kind'' Kind (\<lambda>x r. r\<lparr>Kind := x\<rparr>),
      (''s3'', \<lambda>v r. map_option (\<lambda>x. r\<lparr>S3 := x\<rparr>) (dec_s3 v (S3 r)))]"

definition dec_params :: "json \<Rightarrow> RTMPHLSSessionParamsV1 \<Rightarrow> RTMPHLSSessionParamsV1 option" where
  "dec_params = strict_object
     [text_member ''schema'' ParamsSchema (\<lambda>x r. r\<lparr>ParamsSchema := x\<rparr>),
      text_member ''publisher_mode'' PublisherMode (\<lambda>x r. r\<lparr>PublisherMode := x\<rparr>),
      text_member ''output_profile'' OutputProfile (\<lambda>x r. r\<lparr>OutputProfile := x\<rparr>),
      text_member ''metering_rendition'' MeteringRendition (\<lambda>x r. r\<lparr>MeteringRendition := x\<rparr>),
      (''storage'', \<lambda>v r. map_option (\<lambda>x. r\<lparr>Storage := x\<rparr>) (dec_storage v (Storage r)))]"

definition dec_create :: "json \<Rightarrow> RunnerCreateRequestV1 \<Rightarrow> RunnerCreateRequestV1 option" where
  "dec_create = strict_object
     [text_member ''session_id'' SessionID (\<lambda>x r. r\<lparr>SessionID := x\<rparr>),
      text_member ''work_id'' WorkID (\<lambda>x r. r\<lparr>WorkID := x\<rparr>),
      text_member ''capability'' Capability (\<lambda>x r. r\<lparr>Capability := x\<rparr>),
      text_member ''offering'' Offering (\<lambda>x r. r\<lparr>Offering := x\<rparr>),
      (''session_params'', \<lambda>v r. map_option (\<lambda>x. r\<lparr>SessionParams := x\<rparr>) (dec_params v (SessionParams r))),
      text_member ''callback_url'' CallbackURL (\<lambda>x r. r\<lparr>CallbackURL := x\<rparr>),
      text_member ''callback_token'' CallbackToken (\<lambda>x r. r\<lparr>CallbackToken := x\<rparr>)]"

definition zero_create :: RunnerCreateRequestV1 where
  "zero_create =
     \<lparr>SessionID = [], WorkID = [], Capability = [], Offering = [],
      SessionParams = \<lparr>ParamsSchema = [], PublisherMode = [], OutputProfile = [], MeteringRendition = [],
                       Storage = \<lparr>Kind = [], S3 = None\<rparr>\<rparr>,
      CallbackURL = [], CallbackToken = []\<rparr>"

definition dec_terminate :: "json \<Rightarrow> TerminateRequestV1 \<Rightarrow> TerminateRequestV1 option" where
  "dec_terminate = strict_object [text_member ''reason'' Reason (\<lambda>x r. r\<lparr>Reason := x\<rparr>)]"

definition dec_key_issue :: "json \<Rightarrow> StreamKeyIssueRequestV1 \<Rightarrow> StreamKeyIssueRequestV1 option" where
  "dec_key_issue = strict_object
     [text_member ''request_id'' RequestID (\<lambda>x r. r\<lparr>RequestID := x\<rparr>),
      text_member ''audience'' Audience (\<lambda>x r. r\<lparr>Audience := x\<rparr>)]"

text \<open>The structure of a reconcile request has one member.\<close>

definition dec_reconcile :: "json \<Rightarrow> string \<Rightarrow> string option" where
  "dec_reconcile = strict_object [(''session_id'', dec_string)]"

subsection \<open>The documents of the responses\<close>

definition unless_empty :: "string \<Rightarrow> string \<Rightarrow> (string \<times> json) list" where
  "unless_empty name v = (if v = [] then [] else [(name, JStr v)])"

definition json_u64 :: "u64 \<Rightarrow> json" where "json_u64 n = JNum (fmt_u64 n)"

definition json_create_response :: "RunnerCreateResponseV1 \<Rightarrow> json" where
  "json_create_response v =
     (let d = Runtime v; p = Public d in JObj
       [(''runner_session_id'', JStr (RespRunnerSessionID v)),
        (''runtime'', JObj
          [(''schema'', JStr (RtSchema d)),
           (''public'', JObj ([(''rtmp_url'', JStr (RTMPURL p)), (''hls_url'', JStr (HLSURL p)), (''key_issue_url'', JStr (KeyIssueURL p))]
                            @ unless_empty ''status_url'' (StatusURL p))),
           (''grants'', JArr (map (\<lambda>g. JObj
              [(''id'', JStr (GrantID g)), (''operations'', JArr (map JStr (Operations g))), (''secret'', JStr (Secret g)),
               (''expires_at'', JStr (stamp_text (ExpiresAt g)))]) (Grants d)))])])"

definition json_status :: "RunnerStatusV1 \<Rightarrow> json" where
  "json_status v = JObj
     ([(''runner_session_id'', JStr (StRunnerSessionID v)), (''state'', JStr (StState v)),
       (''usage'', JObj [(''unit'', JStr (Unit (StUsage v))), (''total'', json_u64 (Total (StUsage v)))]),
       (''last_sequence'', json_u64 (StLastSequence v))]
      @ unless_empty ''close_reason'' (StCloseReason v)
      @ [(''output_state'', JStr (StOutputState v))]
      @ unless_empty ''last_failure_code'' (StLastFailureCode v)
      @ (if StCallbackRejectedTotal v = 0 then [] else [(''callback_rejected_total'', json_u64 (StCallbackRejectedTotal v))])
      @ (case StLastCallbackRejection v of
           None \<Rightarrow> []
         | Some j \<Rightarrow> [(''last_callback_rejection'', JObj
             [(''event_type'', JStr (RejEventType j)), (''status_code'', JNum (fmt_int (RejStatusCode j))),
              (''error_code'', JStr (RejErrorCode j)), (''rejected_at'', JStr (stamp_text (RejRejectedAt j)))])]))"

definition json_terminate :: "TerminateResponseV1 \<Rightarrow> json" where
  "json_terminate v = JObj
     [(''runner_session_id'', JStr (TermRunnerSessionID v)), (''state'', JStr (TermState v)), (''close_reason'', JStr (TermCloseReason v))]"

definition json_key_issue_response :: "StreamKeyIssueResponseV1 \<Rightarrow> json" where
  "json_key_issue_response v = JObj
     [(''request_id'', JStr (RespRequestID v)), (''stream_key'', JStr (StreamKey v)), (''expires_at'', JStr (stamp_text (KeyExpiresAt v)))]"

definition json_resolution :: "CreateResolutionV1 \<Rightarrow> json" where
  "json_resolution v = JObj
     ([(''session_id'', JStr (ResSessionID v)), (''outcome'', JStr (Outcome v))]
      @ unless_empty ''runner_session_id'' (ResRunnerSessionID v))"

definition json_string_map :: "(string \<times> string) list \<Rightarrow> json" where
  "json_string_map m = JObj (map (\<lambda>(k, v). (k, JStr v)) (sort_key fst m))"

definition json_contract :: "LiveRunnerContractDocumentV1 \<Rightarrow> json" where
  "json_contract v = JObj
     [(''capability_id'', JStr (CapabilityID v)), (''protocol'', JStr (Protocol v)),
      (''descriptor_schemas'', JArr (map JStr (DescriptorSchemas v))),
      (''work_unit'', JObj [(''name'', JStr (WorkUnitName v))]), (''metering'', JStr (MeteringKind v)),
      (''heartbeat'', JObj [(''interval_seconds'', JNum (fmt_nat (unat (HeartbeatIntervalSeconds v))))]),
      (''readiness'', JObj [(''type'', JStr (ReadinessType v)), (''path'', JStr (ReadinessPath v))]),
      (''session_params_schema'', case SessionParamsSchema v of RawJSON j \<Rightarrow> j | RawBytes _ \<Rightarrow> JNull),
      (''paths'', JObj [(''reconcile'', JStr (PathReconcile (Paths v))), (''create'', JStr (PathCreate (Paths v))),
                      (''status'', JStr (PathStatus (Paths v))), (''terminate'', JStr (PathTerminate (Paths v)))]),
      (''identity'', json_string_map (Identity v)), (''schema_versions'', json_string_map (SchemaVersions v))]"

end
