(* ===== verification/Live_Server.thy ===== *)
theory Live_Server
  imports Live_Recovery Live_Media Live_Wire
begin

section \<open>The HTTP server of the live runner (live-runner/server.go)\<close>

text \<open>
  The handlers of the broker's and the gateway's requests.  A handler reads the body of its request,
  calls the store and the runtime of the sessions, and writes one response.  What surrounds it is a
  \<open>server_setting\<close>: that of the clients of the runtime, the check of a create request by the
  runtime, and the clock and the random source of the server.  Between its accesses to the store other
  handlers and goroutines come; the locks per session, which only rule some of these orders out, are
  left out.
\<close>

record server_setting = runtime_setting +
  validate_session :: "RunnerCreateRequestV1 \<Rightarrow> error"
  server_clock :: "nat \<Rightarrow> time"
  server_random :: "nat \<Rightarrow> nat \<Rightarrow> string option"
  media_ready :: bool

record server_state = runtime_client +
  clock_reads :: nat
  draws :: nat

definition nowV1 :: "server_setting \<Rightarrow> server_state \<Rightarrow> time \<times> server_state" where
  "nowV1 W w = (server_clock W (clock_reads w), w\<lparr>clock_reads := Suc (clock_reads w)\<rparr>)"

text \<open>A source that fails or yields another number of bytes is an error.\<close>

definition randomHexV1 :: "server_setting \<Rightarrow> string \<Rightarrow> nat \<Rightarrow> server_state \<Rightarrow> string result \<times> server_state" where
  "randomHexV1 W hex_prefix n w =
     (case server_random W (draws w) n of
        None \<Rightarrow> (fails ''random source failed'', w\<lparr>draws := Suc (draws w)\<rparr>)
      | Some body \<Rightarrow>
          (if length body \<noteq> n then fails ''random source failed'' else Inr (hex_prefix @ hex_encode body),
           w\<lparr>draws := Suc (draws w)\<rparr>))"

subsection \<open>The response to a create request\<close>

record RunnerResponseFactoryV1 =
  PublicRTMPBase :: string
  PublicHTTPBase :: string
  GrantTTL :: duration

definition joinPublicURLV1 :: "string \<Rightarrow> string \<Rightarrow> string" where
  "joinPublicURLV1 base suffix = trim_right_by (\<lambda>c. c = CHR ''/'') base @ ''/'' @ suffix"

definition validatePublicHTTPBaseV1 :: "string \<Rightarrow> error" where
  "validatePublicHTTPBaseV1 raw =
     (case validateHTTPURL raw of
        Some e \<Rightarrow> Some e
      | None \<Rightarrow>
          (case url_parse raw of
             Some u \<Rightarrow> if RawQuery u \<noteq> [] \<or> Fragment u \<noteq> [] then err ''public HTTP base cannot contain a query or fragment'' else None
           | None \<Rightarrow> None))"

definition validateFactory :: "RunnerResponseFactoryV1 \<Rightarrow> error" where
  "validateFactory f =
     (if validateURLScheme (PublicRTMPBase f) [''rtmp'', ''rtmps''] \<noteq> None then err ''public RTMP URL is invalid''
      else (case url_parse (PublicRTMPBase f) of
        None \<Rightarrow> err ''public RTMP URL is invalid''
      | Some u \<Rightarrow>
          if trim_right_by (\<lambda>c. c = CHR ''/'') (url_path u) \<noteq> [] \<or> RawQuery u \<noteq> [] \<or> Fragment u \<noteq> []
          then err ''public RTMP URL must be an origin without a path''
          else if validatePublicHTTPBaseV1 (PublicHTTPBase f) \<noteq> None \<or> GrantTTL f \<le> 0
          then err ''public HTTP base URL or grant TTL is invalid'' else None))"

definition createResponseV1 :: "RunnerResponseFactoryV1 \<Rightarrow> string \<Rightarrow> string \<Rightarrow> string \<Rightarrow> time \<Rightarrow> RunnerCreateResponseV1" where
  "createResponseV1 f runnerID grantID grantSecret now =
     (let link = (\<lambda>before after. joinPublicURLV1 (PublicHTTPBase f) (before @ path_escape runnerID @ after)) in
      \<lparr>RespRunnerSessionID = runnerID,
       Runtime = \<lparr>RtSchema = RuntimeSchemaV1,
         Public = \<lparr>RTMPURL = joinPublicURLV1 (PublicRTMPBase f) ''ingest'',
                   HLSURL = link ''v1/public/sessions/'' ''/master.m3u8'',
                   KeyIssueURL = link ''v1/sessions/'' ''/stream-keys'',
                   StatusURL = link ''v1/public/sessions/'' ''/status''\<rparr>,
         Grants = [\<lparr>GrantID = grantID, Operations = [GrantOperationV1], Secret = grantSecret,
                    ExpiresAt = format_seconds (now + GrantTTL f)\<rparr>]\<rparr>\<rparr>)"

definition CreateResponse_new :: "server_setting \<Rightarrow> RunnerResponseFactoryV1 \<Rightarrow> server_state \<Rightarrow> RunnerCreateResponseV1 result \<times> server_state" where
  "CreateResponse_new W f w =
     (case validateFactory f of
        Some e \<Rightarrow> (Inl e, w)
      | None \<Rightarrow>
          (case randomHexV1 W ''runner_'' 16 w of
             (Inl _, w1) \<Rightarrow> (fails ''runner session identity generation failed'', w1)
           | (Inr runnerID, w1) \<Rightarrow>
               (case randomHexV1 W ''grant_'' 16 w1 of
                  (Inl _, w2) \<Rightarrow> (fails ''runner grant identity generation failed'', w2)
                | (Inr grantID, w2) \<Rightarrow>
                    (case randomHexV1 W [] 32 w2 of
                       (Inl _, w3) \<Rightarrow> (fails ''runner grant generation failed'', w3)
                     | (Inr grantSecret, w3) \<Rightarrow>
                         (let (now, w4) = nowV1 W w3; response = createResponseV1 f runnerID grantID grantSecret now in
                          case ValidateCreateResponseV1 response of
                            Some e \<Rightarrow> (Inl e, w4)
                          | None \<Rightarrow> (Inr response, w4))))))"

subsection \<open>Creating and reconciling\<close>

definition store_find ::
    "'a setting_scheme \<Rightarrow> 'b client_scheme \<Rightarrow> string \<Rightarrow> (SessionRecordV1 \<times> SessionSecretsV1 option) result \<times> 'b client_scheme" where
  "store_find W w runnerID = (let (E, w1) = reach_store W w in (LoadByRunnerSessionID E (store w1) runnerID, w1))"

definition error_out :: "int \<Rightarrow> string \<Rightarrow> http_out" where
  "error_out status code = writeRunnerErrorV1 [] status code"

definition ErrGPUAdmissionCapacity :: go_error where
  "ErrGPUAdmissionCapacity = ErrSentinel ''GPU admission capacity reached''"

text \<open>A definitive refusal of the GPU ends the session, so that a delayed replay cannot start it.\<close>

definition refuseForCapacityV1 :: "server_setting \<Rightarrow> SessionRecordV1 \<Rightarrow> server_state \<Rightarrow> http_out \<times> server_state" where
  "refuseForCapacityV1 W r w =
     (case store_call_of W w (\<lambda>E d. BeginTermination E d (BrokerSessionID r) ''capacity_exhausted'') of
        (Inl _, w1) \<Rightarrow> (error_out 503 ''runtime_unavailable'', w1)
      | (Inr (stopping, _), w1) \<Rightarrow>
          (let (now, w2) = nowV1 W w1 in
           case CompleteLiveTerminationV1 W stopping now w2 of
             (Inl _, w3) \<Rightarrow> (error_out 503 ''runtime_unavailable'', w3)
           | (Inr _, w3) \<Rightarrow> (error_out 429 ''capacity_reached'', w3)))"

definition startCreatedV1 :: "server_setting \<Rightarrow> string \<Rightarrow> server_state \<Rightarrow> http_out \<times> server_state" where
  "startCreatedV1 W sid w =
     (case store_load W w sid of
        (Inl _, w1) \<Rightarrow> (error_out 503 ''state_unavailable'', w1)
      | (Inr (r, secrets), w1) \<Rightarrow>
          (case secrets of
             None \<Rightarrow> (error_out 410 ''session_terminal'', w1)
           | Some s \<Rightarrow>
               if State r \<noteq> ''active'' \<or> Stopping r then (error_out 410 ''session_terminal'', w1)
               else (case call_runtime W w1 (EnsureSession r s) of
                       (None, w2) \<Rightarrow> (writeRunnerJSONV1 [] 200 (json_create_response (CreateResponse s)), w2)
                     | (Some e, w2) \<Rightarrow>
                         if errors_is e ErrGPUAdmissionCapacity then refuseForCapacityV1 W r w2
                         else (error_out 503 ''runtime_unavailable'', w2))))"

definition createErrorV1 :: "go_error \<Rightarrow> http_out" where
  "createErrorV1 e =
     (if errors_is e ErrSessionIDReuseV1 then error_out 409 ''runner_session_id_reuse''
      else if errors_is e ErrSessionTerminalV1 then error_out 410 ''session_terminal''
      else if errors_is e ErrCreateFencedV1 then error_out 410 ''session_create_fenced''
      else error_out 503 ''state_unavailable'')"

definition handleCreateV1 :: "server_setting \<Rightarrow> RunnerResponseFactoryV1 \<Rightarrow> string \<Rightarrow> server_state \<Rightarrow> http_out \<times> server_state" where
  "handleCreateV1 W f body w =
     (case decodeRunnerRequestV1 dec_create zero_create body of
        None \<Rightarrow> (error_out 400 ''invalid_request'', w)
      | Some create \<Rightarrow>
          if ValidateCreateRequestV1 create \<noteq> None then (error_out 400 ''invalid_request'', w)
          else if validate_session W create \<noteq> None then (error_out 400 ''invalid_session_params'', w)
          else (case CreateResponse_new W f w of
                  (Inl _, w1) \<Rightarrow> (error_out 503 ''runtime_unavailable'', w1)
                | (Inr response, w1) \<Rightarrow>
                    (case store_call_of W w1 (\<lambda>E d. CreateOrReplay E d create response) of
                       (Inl e, w2) \<Rightarrow> (createErrorV1 e, w2)
                     | (Inr (r, _, _), w2) \<Rightarrow> startCreatedV1 W (BrokerSessionID r) w2)))"

definition handleReconcileCreateV1 :: "server_setting \<Rightarrow> string \<Rightarrow> server_state \<Rightarrow> http_out \<times> server_state" where
  "handleReconcileCreateV1 W body w =
     (case decodeRunnerRequestV1 dec_reconcile [] body of
        None \<Rightarrow> (error_out 400 ''invalid_request'', w)
      | Some sid \<Rightarrow>
          if \<not> opaqueIDPattern sid then (error_out 400 ''invalid_request'', w)
          else (case store_call_of W w (\<lambda>E d. ReconcileCreate E d sid) of
                  (Inl _, w1) \<Rightarrow> (error_out 503 ''state_unavailable'', w1)
                | (Inr result, w1) \<Rightarrow> (writeRunnerJSONV1 [] 200 (json_resolution result), w1)))"

subsection \<open>Status and termination\<close>

definition runnerStatusV1 :: "SessionRecordV1 \<Rightarrow> RunnerStatusV1" where
  "runnerStatusV1 r =
     \<lparr>StRunnerSessionID = RunnerSessionID r, StState = State r,
      StUsage = \<lparr>Unit = WorkUnitV1, Total = UsageTotal r\<rparr>, StLastSequence = LastSequence r,
      StCloseReason = CloseReason r, StOutputState = OutputState r, StLastFailureCode = LastLadderFailureCode r,
      StCallbackRejectedTotal = CallbackRejectedTotal r,
      StLastCallbackRejection =
        (if CallbackDeadLetters r = [] then None
         else (let letter = last (CallbackDeadLetters r) in
           Some \<lparr>RejEventType = EventType (LetterEvent letter), RejStatusCode = LetterStatusCode letter,
                 RejErrorCode = LetterErrorCode letter, RejRejectedAt = LetterRejectedAt letter\<rparr>))\<rparr>"

definition handleStatusV1 :: "server_setting \<Rightarrow> string \<Rightarrow> server_state \<Rightarrow> http_out \<times> server_state" where
  "handleStatusV1 W runnerID w =
     (case store_find W w runnerID of
        (Inl e, w1) \<Rightarrow>
          (if errors_is e ErrNotExist then error_out 404 ''session_not_found'' else error_out 503 ''state_unavailable'', w1)
      | (Inr (r, _), w1) \<Rightarrow> (writeRunnerJSONV1 [] 200 (json_status (runnerStatusV1 r)), w1))"

definition terminateOutV1 :: "SessionRecordV1 \<Rightarrow> http_out" where
  "terminateOutV1 r = writeRunnerJSONV1 [] 200 (json_terminate
     \<lparr>TermRunnerSessionID = RunnerSessionID r, TermState = State r, TermCloseReason = CloseReason r\<rparr>)"

definition handleTerminateV1 :: "server_setting \<Rightarrow> string \<Rightarrow> string \<Rightarrow> server_state \<Rightarrow> http_out \<times> server_state" where
  "handleTerminateV1 W runnerID body w =
     (case decodeRunnerRequestV1 dec_terminate \<lparr>Reason = []\<rparr> body of
        None \<Rightarrow> (error_out 400 ''invalid_request'', w)
      | Some terminate \<Rightarrow>
          if \<not> validCloseReasonV1 (Reason terminate) then (error_out 400 ''invalid_request'', w)
          else (case store_find W w runnerID of
            (Inl e, w1) \<Rightarrow> (if errors_is e ErrNotExist then http_status 204 else error_out 503 ''state_unavailable'', w1)
          | (Inr (r, _), w1) \<Rightarrow>
              if State r \<noteq> ''active'' then (terminateOutV1 r, w1)
              else (case store_call_of W w1 (\<lambda>E d. BeginTermination E d (BrokerSessionID r) (Reason terminate)) of
                      (Inl _, w2) \<Rightarrow> (error_out 503 ''state_unavailable'', w2)
                    | (Inr (stopping, _), w2) \<Rightarrow>
                        (let (now, w3) = nowV1 W w2 in
                         case CompleteLiveTerminationV1 W stopping now w3 of
                           (Inl _, w4) \<Rightarrow> (error_out 503 ''runtime_unavailable'', w4)
                         | (Inr ended, w4) \<Rightarrow> (terminateOutV1 ended, w4)))))"

subsection \<open>Stream keys\<close>

definition bearer_token :: "string option \<Rightarrow> string option" where
  "bearer_token authorization = cut_prefix (case authorization of None \<Rightarrow> [] | Some a \<Rightarrow> a) ''Bearer ''"

text \<open>
  The grant of a session: the token has the recorded digest and the grant has not expired.  The result is
  the expiry.
\<close>

definition grantExpiryV1 :: "server_setting \<Rightarrow> SessionRecordV1 \<Rightarrow> string option \<Rightarrow> server_state \<Rightarrow> time option \<times> server_state" where
  "grantExpiryV1 W r authorization w =
     (let E = env_of W (accesses w) in
      case bearer_token authorization of
        None \<Rightarrow> (None, w)
      | Some token \<Rightarrow>
          if \<not> secureEqualV1 E (secretSHA256V1 E token) (SecretSHA256 (GrantAudit r)) then (None, w)
          else (case parse_stamp (AuditExpiresAt (GrantAudit r)) of
                  None \<Rightarrow> (None, w)
                | Some grantExpiry \<Rightarrow>
                    (let (now, w1) = nowV1 W w in (if now < grantExpiry then Some grantExpiry else None, w1))))"

definition keyIssueErrorV1 :: "go_error \<Rightarrow> http_out" where
  "keyIssueErrorV1 e =
     (if errors_is e ErrRequestIDReuseV1 then error_out 409 ''request_id_reuse''
      else if errors_is e ErrRequestSupersededV1 then error_out 409 ''request_id_superseded''
      else if errors_is e ErrKeyActivationInFlightV1 then error_out 409 ''key_activation_in_flight''
      else error_out 503 ''state_unavailable'')"

text \<open>A key that replaces another is activated: the publisher of the old one is put out first.\<close>

definition activateIssuedV1 ::
    "server_setting \<Rightarrow> string \<Rightarrow> string \<Rightarrow> StreamKeyIssueResponseV1 \<Rightarrow> server_state \<Rightarrow> http_out \<times> server_state" where
  "activateIssuedV1 W sid requestID response w =
     (let issued = writeRunnerJSONV1 [] 200 (json_key_issue_response response) in
      case store_load W w sid of
        (Inl _, w1) \<Rightarrow> (error_out 503 ''state_unavailable'', w1)
      | (Inr (current, _), w1) \<Rightarrow>
          if PendingKeyActivationID current \<noteq> requestID then (issued, w1)
          else (case call_runtime W w1 (ActivateStreamKey current) of
                  (Some _, w2) \<Rightarrow> (error_out 503 ''runtime_unavailable'', w2)
                | (None, w2) \<Rightarrow>
                    (case store_call_of W w2 (\<lambda>E d. CompleteKeyActivation E d sid requestID) of
                       (Inl _, w3) \<Rightarrow> (error_out 503 ''state_unavailable'', w3)
                     | (Inr _, w3) \<Rightarrow> (issued, w3))))"

definition issueKeyV1 ::
    "server_setting \<Rightarrow> duration \<Rightarrow> SessionRecordV1 \<Rightarrow> time \<Rightarrow> StreamKeyIssueRequestV1 \<Rightarrow> server_state \<Rightarrow> http_out \<times> server_state" where
  "issueKeyV1 W keyTTL r grantExpiry issue w =
     (case randomHexV1 W [] 32 w of
        (Inl _, w1) \<Rightarrow> (error_out 503 ''credential_generation_failed'', w1)
      | (Inr secret, w1) \<Rightarrow>
          (case BuildPrivateIngestStreamKeyV1 (RunnerSessionID r) secret of
             Inl _ \<Rightarrow> (error_out 503 ''credential_generation_failed'', w1)
           | Inr streamKey \<Rightarrow>
               (let (now, w2) = nowV1 W w1;
                    expiresAt = (if now + keyTTL > grantExpiry then grantExpiry else now + keyTTL);
                    response = \<lparr>RespRequestID = RequestID issue, StreamKey = streamKey, KeyExpiresAt = format_seconds expiresAt\<rparr> in
                case store_call_of W w2 (\<lambda>E d. RecordKeyIssue E d (BrokerSessionID r) issue response) of
                  (Inl e, w3) \<Rightarrow> (keyIssueErrorV1 e, w3)
                | (Inr (recorded, _), w3) \<Rightarrow> activateIssuedV1 W (BrokerSessionID r) (RequestID issue) recorded w3)))"

definition handleStreamKeyV1 ::
    "server_setting \<Rightarrow> duration \<Rightarrow> string \<Rightarrow> string option \<Rightarrow> string \<Rightarrow> server_state \<Rightarrow> http_out \<times> server_state" where
  "handleStreamKeyV1 W keyTTL runnerID authorization body w =
     (let unauthorized = error_out 401 ''unauthorized'' in
      case store_find W w runnerID of
        (Inr (r, Some secrets), w1) \<Rightarrow>
          if State r \<noteq> ''active'' \<or> Stopping r then (unauthorized, w1)
          else (case grantExpiryV1 W r authorization w1 of
                  (None, w2) \<Rightarrow> (unauthorized, w2)
                | (Some grantExpiry, w2) \<Rightarrow>
                    (case decodeRunnerRequestV1 dec_key_issue \<lparr>RequestID = [], Audience = []\<rparr> body of
                       None \<Rightarrow> (error_out 400 ''invalid_request'', w2)
                     | Some issue \<Rightarrow>
                         if ValidateStreamKeyIssueRequestV1 issue \<noteq> None
                            \<or> Audience issue \<noteq> PublisherMode (SessionParams (CreateRequest secrets))
                         then (error_out 400 ''invalid_request'', w2)
                         else issueKeyV1 W keyTTL r grantExpiry issue w2))
      | (_, w1) \<Rightarrow> (unauthorized, w1))"

subsection \<open>The server\<close>

record LiveRunnerServerV1 =
  Factory :: RunnerResponseFactoryV1
  BrokerToken :: string
  KeyTTL :: duration

text \<open>The routes of \<open>Handler\<close> but those of the HLS proxy and the media authoriser, which are other components.\<close>

datatype route =
    ReconcileRoute | CreateRoute | StatusRoute string | PublicStatusRoute string | PublicStatusHead
  | TerminateRoute string | StreamKeyRoute string | ContractRoute | ReadyRoute

text \<open>
  The patterns of the multiplexer on the unescaped segments of a path; a pattern for GET takes HEAD too,
  unless another one names HEAD.
\<close>

definition routeV1 :: "string \<Rightarrow> string list \<Rightarrow> route option" where
  "routeV1 method segments =
     (let reads = (method = ''GET'' \<or> method = ''HEAD'') in
      case segments of
        [a, b] \<Rightarrow>
          if method = ''POST'' \<and> a = ''v1'' \<and> b = ''sessions'' then Some CreateRoute
          else if reads \<and> a = ''.well-known'' \<and> b = ''livepeer-runner'' then Some ContractRoute else None
      | [a] \<Rightarrow> if reads \<and> a = ''ready'' then Some ReadyRoute else None
      | [a, b, c] \<Rightarrow>
          if method = ''POST'' \<and> a = ''v1'' \<and> b = ''session-creates'' \<and> c = ''reconcile'' then Some ReconcileRoute
          else if a = ''v1'' \<and> b = ''sessions'' \<and> c \<noteq> [] then
            (if reads then Some (StatusRoute c) else if method = ''DELETE'' then Some (TerminateRoute c) else None)
          else None
      | [a, b, c, d] \<Rightarrow>
          if method = ''POST'' \<and> a = ''v1'' \<and> b = ''sessions'' \<and> c \<noteq> [] \<and> d = ''stream-keys'' then Some (StreamKeyRoute c) else None
      | [a, b, c, d, e] \<Rightarrow>
          if a = ''v1'' \<and> b = ''public'' \<and> c = ''sessions'' \<and> d \<noteq> [] \<and> e = ''status'' then
            (if method = ''HEAD'' then Some PublicStatusHead else if method = ''GET'' then Some (PublicStatusRoute d) else None)
          else None
      | _ \<Rightarrow> None)"

definition broker_route :: "route \<Rightarrow> bool" where
  "broker_route p \<longleftrightarrow> (case p of ReconcileRoute \<Rightarrow> True | CreateRoute \<Rightarrow> True | StatusRoute _ \<Rightarrow> True | TerminateRoute _ \<Rightarrow> True | _ \<Rightarrow> False)"

text \<open>A server without a token is reached by the broker's tunnel only and asks for none.\<close>

definition brokerAuthV1 :: "env \<Rightarrow> LiveRunnerServerV1 \<Rightarrow> string option \<Rightarrow> bool" where
  "brokerAuthV1 E s authorization \<longleftrightarrow>
     BrokerToken s = [] \<or>
     (case bearer_token authorization of None \<Rightarrow> False | Some token \<Rightarrow> secureEqualV1 E token (BrokerToken s))"

definition serveRoute ::
    "server_setting \<Rightarrow> LiveRunnerServerV1 \<Rightarrow> route \<Rightarrow> string option \<Rightarrow> string \<Rightarrow> server_state \<Rightarrow> http_out \<times> server_state" where
  "serveRoute W s p authorization body w =
     (if broker_route p \<and> \<not> brokerAuthV1 (env_of W (accesses w)) s authorization then (error_out 401 ''unauthorized'', w)
      else (case p of
        ReconcileRoute \<Rightarrow> handleReconcileCreateV1 W body w
      | CreateRoute \<Rightarrow> handleCreateV1 W (Factory s) body w
      | StatusRoute runnerID \<Rightarrow> handleStatusV1 W runnerID w
      | PublicStatusRoute runnerID \<Rightarrow> handleStatusV1 W runnerID w
      | PublicStatusHead \<Rightarrow> (writeRunnerErrorV1 [(''Allow'', ''GET'')] 405 ''method_not_allowed'', w)
      | TerminateRoute runnerID \<Rightarrow> handleTerminateV1 W runnerID body w
      | StreamKeyRoute runnerID \<Rightarrow> handleStreamKeyV1 W (KeyTTL s) runnerID authorization body w
      | ContractRoute \<Rightarrow> (writeRunnerJSONV1 [] 200 (json_contract LiveRunnerContractV1), w)
      | ReadyRoute \<Rightarrow> (if media_ready W then http_status 204 else error_out 503 ''media_router_unavailable'', w)))"

end
