(* ===== verification/Recovery_Properties.thy ===== *)
theory Recovery_Properties
  imports Live_Recovery
begin

section \<open>Sessions reach their end\<close>

subsection \<open>The terminal event is accepted\<close>

definition stamp_char :: "char \<Rightarrow> bool" where
  "stamp_char c \<longleftrightarrow> is_digit c \<or> c \<in> set ''-T:.Z''"

lemma stamp_chars_fmt: "list_all stamp_char (fmt_nat n)" "list_all stamp_char (fmt_int i)"
proof -
  show n: "list_all stamp_char (fmt_nat n)" for n
    using fmt_nat_digits [of n] by (auto simp: list_all_iff stamp_char_def)
  show "list_all stamp_char (fmt_int i)" using n by (auto simp: fmt_int_def stamp_char_def)
qed

lemma stamp_chars_pad: "list_all stamp_char s \<Longrightarrow> list_all stamp_char (pad_left n s)"
  by (auto simp: pad_left_def list_all_iff stamp_char_def is_digit_def)

lemma stamp_chars_fraction: "list_all stamp_char (fraction_text ns)"
proof -
  have "set (trim_right_by f s) \<subseteq> set s" for f s
    by (auto simp: trim_right_by_def dest: set_dropWhileD)
  then show ?thesis
    using stamp_chars_pad [OF stamp_chars_fmt(2), of 9 ns]
    by (auto simp: fraction_text_def list_all_iff stamp_char_def)
qed

lemma stamp_chars_text: "list_all stamp_char (rfc3339_nano_text t)"
proof -
  have c: "stamp_char CHR ''-''" "stamp_char CHR ''T''" "stamp_char CHR '':''" "stamp_char CHR ''Z''"
    by (simp_all add: stamp_char_def)
  show ?thesis
    unfolding rfc3339_nano_text_def Let_def
    by (simp add: c stamp_chars_pad stamp_chars_fmt stamp_chars_fraction split: prod.splits)
qed

text \<open>A time stamp holds none of the marks of a URL or a credential.\<close>

lemma stamp_text_safe: "list_all stamp_char s \<Longrightarrow> \<not> unsafeEventDetailV1 (JStr s)"
proof -
  assume s: "list_all stamp_char s"
  have "\<not> contains (to_lower s) p" if c: "c \<in> set p" "c = CHR ''/'' \<or> c = CHR ''='' \<or> c = CHR ''b''" for p c
  proof
    assume "contains (to_lower s) p"
    then obtain x where x: "x \<in> set s" "lower_char x = c"
      using contains_chars [of "to_lower s" p] c(1) by (auto simp: to_lower_def)
    then have "stamp_char x" using s by (auto simp: list_all_iff)
    moreover have "lower_char CHR ''T'' = CHR ''t''" "lower_char CHR ''Z'' = CHR ''z''" by code_simp+
    moreover have "\<not> is_digit c" using c(2) by (auto simp: is_digit_def)
    ultimately show False
      using x(2) c(2) by (auto simp: stamp_char_def lower_char_def is_upper_def is_digit_def)
  qed
  from this [of "CHR ''/''" "''://''"] this [of "CHR ''=''" "''sig=''"] this [of "CHR ''b''" "''bearer ''"]
  show ?thesis by (simp add: Let_def)
qed

lemma length_json_quote: "length (json_quote s) \<le> 6 * length s + 2"
proof -
  have "length (json_escape_char c) \<le> 6" for c by (simp add: json_escape_char_def Let_def)
  then have "length (concat (map json_escape_char s)) \<le> 6 * length s"
    by (induction s) (auto intro: add_mono)
  then show ?thesis by (simp add: json_quote_def)
qed

lemma health_details_safe:
  assumes h: "health_ok r" and len: "length (stamp_text (OutputStateSince r)) \<le> 64"
  shows "validateSafeEventDetailsV1 (outputHealthDetailsV1 r) = None"
proof -
  let ?kvs = "(if LastLadderFailureCode r \<noteq> [] then [(''last_failure_code'', JStr (LastLadderFailureCode r))] else [])
      @ [(''output_state'', JStr (OutputState r)), (''output_state_since'', JStr (stamp_text (OutputStateSince r)))]"
  obtain t where t: "OutputStateSince r = Stamp t"
    using h by (cases "OutputStateSince r") (simp_all add: health_ok_def stamp_ok_def parse_stamp_def [of "BadStamp _"])
  have code: "LastLadderFailureCode r = [] \<or> LastLadderFailureCode r \<in> set ladderFailureCodesV1"
    using h by (auto simp: health_ok_def validLadderFailureCodeV1_def split: if_splits)
  have out: "OutputState r \<in> {''waiting'', ''producing'', ''stalled''}"
    using h by (auto simp: health_ok_def validOutputStateV1_def OutputStateWaitingV1_def OutputStateProducingV1_def OutputStateStalledV1_def)
  have lens: "length (json_quote (LastLadderFailureCode r)) \<le> 200" "length (json_quote (OutputState r)) \<le> 200"
      "length (json_quote (stamp_text (OutputStateSince r))) \<le> 400"
    using code out len length_json_quote [of "LastLadderFailureCode r"] length_json_quote [of "OutputState r"]
      length_json_quote [of "stamp_text (OutputStateSince r)"]
    by (auto simp: ladderFailureCodesV1_def)
  have keys: "length (json_quote ''last_failure_code'') \<le> 200" "length (json_quote ''output_state'') \<le> 200"
      "length (json_quote ''output_state_since'') \<le> 200"
    using length_json_quote [of "''last_failure_code''"] length_json_quote [of "''output_state''"]
      length_json_quote [of "''output_state_since''"] by simp_all
  have "length (json_text (JObj ?kvs)) \<le> 2048" "json_text (JObj ?kvs) \<noteq> []"
    using lens keys by auto
  moreover have "\<not> unsafeEventDetailV1 (JStr (LastLadderFailureCode r))" "\<not> unsafeEventDetailV1 (JStr (OutputState r))"
    using code out by (auto simp: ladderFailureCodesV1_def Let_def to_lower_def lower_char_def is_upper_def)
  moreover have "\<not> unsafeEventDetailV1 (JStr (stamp_text (OutputStateSince r)))"
    using stamp_text_safe [OF stamp_chars_text] by (simp add: t stamp_text_def)
  moreover have "\<not> list_ex (contains (to_lower k)) forbiddenDetailKeys"
      if "k \<in> {''last_failure_code'', ''output_state'', ''output_state_since''}" for k
    using that by (auto simp: forbiddenDetailKeys_def to_lower_def lower_char_def is_upper_def)
  ultimately show ?thesis
    by (simp add: validateSafeEventDetailsV1_def outputHealthDetailsV1_def raw_len_def raw_valid_def del: json_text.simps unsafeEventDetailV1.simps(3))
qed

definition event_id_fits :: "SessionRecordV1 \<Rightarrow> bool" where
  "event_id_fits r \<longleftrightarrow> length (RunnerSessionID r) \<le> 107 \<and> length (stamp_text (OutputStateSince r)) \<le> 64"

lemma terminal_event_fits:
  assumes r: "record_ok r" and stop: "Stopping r" and len: "event_id_fits r" and seq: "LastSequence r \<noteq> max_u64"
  shows "ValidateEventV1 (terminalEventV1 r now) = None"
proof -
  have life: "validCloseReasonV1 (PendingCloseReason r)" "PendingTerminalState r = ''ended'' \<or> PendingTerminalState r = ''failed''"
    using r stop by (auto simp: record_ok_iff lifecycle_ok_def)
  obtain c cs where rid: "RunnerSessionID r = c # cs" "is_alnum c" "list_all is_opaque_char cs"
    using r by (auto simp: record_ok_iff identity_ok_def opaqueIDPattern_def split: list.splits)
  have "opaqueIDPattern (eventIDFor r (LastSequence r + 1))"
    using rid len fmt_nat_digits [of "unat (LastSequence r + 1)"] length_fmt_u64 [of "LastSequence r + 1"]
    by (auto simp: eventIDFor_def opaqueIDPattern_def event_id_fits_def fmt_u64_def list_all_iff is_opaque_char_def is_alnum_def)
  moreover have "LastSequence r + 1 \<noteq> 0" using Suc_u64 [OF seq] by auto
  moreover have "validateSafeEventDetailsV1 (outputHealthDetailsV1 r) = None"
    using health_details_safe r len by (simp add: event_id_fits_def record_ok_iff)
  ultimately show ?thesis
    using life by (auto simp: ValidateEventV1_def terminalEventV1_def Let_def validateEventTypeV1_def closeReasonOK_def validState_cases)
qed

lemma terminal_event_accepted:
  assumes r: "record_ok r" and act: "State r = ''active''" "Stopping r" and len: "event_id_fits r" and seq: "LastSequence r \<noteq> max_u64"
  shows "\<exists>r'. Advance_step (terminalEventV1 r now) r so = Inr ((), Some r') \<and> State r' = PendingTerminalState r \<and>
    CloseReason r' = PendingCloseReason r \<and> UsageTotal r' = UsageTotal r"
proof -
  let ?e = "terminalEventV1 r now"
  have m: "meter_ok r" and out: "outbox_ok r" using r by (auto simp: record_ok_iff)
  have ended: "PendingTerminalState r = ''ended'' \<or> PendingTerminalState r = ''failed''"
    using r act by (auto simp: record_ok_iff lifecycle_ok_def)
  have e: "EventID ?e = eventIDFor r (Sequence ?e)" "Sequence ?e = LastSequence r + 1" "EvState ?e = PendingTerminalState r"
      "EvUsage ?e = Some \<lparr>Unit = WorkUnitV1, Total = UsageTotal r\<rparr>" "EvCloseReason ?e = Some (PendingCloseReason r)"
    using ended by (auto simp: terminalEventV1_def Let_def)
  have new: "\<not> LastSequence r + 1 \<le> LastSequence r" using Suc_u64 [OF seq] by simp
  have "eventIDFor r (LastSequence r + 1) \<notin> EventID ` set (PendingEvents r)"
    using out new by (auto simp: outbox_ok_def event_fits_def eventIDFor_def)
  then have acc: "EventCursor_Accept (durableCursorV1 r) ?e = Inr ((durableCursorV1 r)
      \<lparr>CurSequence := LastSequence r + 1, CurSeenIDs := EventID ?e # map EventID (PendingEvents r), CurUsageTotal := UsageTotal r, CurHasUsage := True\<rparr>)"
    using terminal_event_fits [OF r act(2) len seq, of now] new e
    by (simp add: EventCursor_Accept_def durableCursorV1_def Let_def)
  have "hasMeteringCursor r \<longrightarrow> UsageTotal r = MeteredMicroseconds r div 1000000" using m by (auto simp: meter_ok_def)
  then show ?thesis
    using acc e act ended by (auto simp: Advance_step_def Let_def appendEventV1_def)
qed

subsection \<open>The names of the files\<close>

context session_op
begin

lemma update_keys:
  assumes E: "crypto_ok E" and d: "disk_ok E d" and adm: "\<forall>r so. loadLocked E d sid = Inr (r, so) \<longrightarrow> admits r"
  shows "map fst (Files (snd (update_session E d sid step))) = map fst (Files d)"
  using update_cases [OF E d adm]
proof (elim disjE exE conjE)
  fix r so r' so'
  assume l: "loadLocked E d sid = Inr (r, so)" and r': "BrokerSessionID r' = sid"
    and u: "snd (update_session E d sid step) = snd (saveLocked E d r')"
  have "sid \<in> fst ` set (Files d)" using load_Inr [OF E d l] by (force dest: map_of_SomeD)
  then show ?thesis using saveLocked_disk [of E d r'] put_keys [of sid "Files d"] unfolding u r' by auto
qed simp

end

subsection \<open>Finishing a session among other goroutines\<close>

lemma terminal_later:
  assumes K: "crypto_ok K" and d: "disk_ok K d" and run: "runs K d d'" and l: "Load K d sid = Inr (r, so)" and t: "terminalV1 r"
  obtains r' so' where "Load K d' sid = Inr (r', so')" "terminalV1 r'" "State r' = State r" "CloseReason r' = CloseReason r" "UsageTotal r' = UsageTotal r"
  by (rule runs_loads [OF run d K l]) (use t in \<open>auto simp: advances_def terminalV1_def\<close>)

lemma terminal_event_still:
  assumes "stands_still r r'" and "Stopping r" and "State r' = ''active''" and "PendingCloseReason r' = PendingCloseReason r"
    and "RunnerSessionID r' = RunnerSessionID r"
  shows "terminalEventV1 r' now = terminalEventV1 r now"
proof -
  have "not_active r" using assms(2) by (simp add: not_active_def)
  then have "LastSequence r' = LastSequence r" "PendingTerminalState r' = PendingTerminalState r" "OutputState r' = OutputState r"
      "OutputStateSince r' = OutputStateSince r" "LastLadderFailureCode r' = LastLadderFailureCode r" "UsageTotal r' = UsageTotal r"
    using assms(1,3) by (simp_all add: stands_still_def)
  then show ?thesis using assms(4,5) by (simp add: terminalEventV1_def eventIDFor_def outputHealthDetailsV1_def)
qed

lemma advance_terminal:
  assumes E: "crypto_ok E" and d: "disk_ok E d" and io: "save_io E = SaveOK" and l: "Load E d sid = Inr (r, so)"
    and act: "State r = ''active''" "Stopping r" and len: "event_id_fits r" and seq: "LastSequence r \<noteq> max_u64"
  shows "\<exists>d' r'. Advance E d sid (terminalEventV1 r now) = (Inr (), d') \<and> disk_ok E d' \<and> Load E d' sid = Inr (r', so) \<and>
    State r' = PendingTerminalState r \<and> CloseReason r' = PendingCloseReason r \<and> UsageTotal r' = UsageTotal r \<and>
    RunnerSessionID r' = RunnerSessionID r \<and> (\<forall>x. x \<noteq> sid \<longrightarrow> map_of (Files d') x = map_of (Files d) x)"
proof -
  let ?e = "terminalEventV1 r now"
  have r: "record_ok r" "opened E r so" using load_Inr [OF E d] l by (auto simp: Load_def)
  obtain r' where st: "Advance_step ?e r so = Inr ((), Some r')"
      and r': "State r' = PendingTerminalState r" "CloseReason r' = PendingCloseReason r" "UsageTotal r' = UsageTotal r"
    using terminal_event_accepted [OF r(1) act len seq] by blast
  have adm: "advance_admits ?e r" by (simp add: advance_admits_def terminalEventV1_def Let_def)
  note ok = advance.plain_opened [OF E r adm st]
  then have rid: "RunnerSessionID r' = RunnerSessionID r" by (simp add: advances_def same_identity_def)
  from load_after_update [where step = "Advance_step ?e", OF E d l st _ _ _ io] ok
  obtain d' where d': "Advance E d sid ?e = (Inr (), d')" "disk_ok E d'"
      "Load E d' sid = Inr (r'\<lparr>IntegritySHA256 := integrityV1 E r'\<rparr>, so)"
    unfolding Advance_def by blast
  have "map_of (Files d') x = map_of (Files d) x" if "x \<noteq> sid" for x
    using advance.update_frame(1) [OF E d _ that, of ?e] l adm d'(1) by (auto simp: Load_def Advance_def)
  with d' r' rid show ?thesis by auto
qed

lemma terminal_refused:
  assumes "Load E d sid = Inr (r, so)" and "terminalV1 r"
  shows "Advance E d sid e = (Inl ErrSessionTerminalV1, d)"
  using assms by (auto simp: Advance_def update_session_def Load_def Advance_step_def terminalV1_def)

lemma friendly_access:
  assumes F: "friendly K W" and d: "disk_ok K (store w)"
  shows "runs K (store w) (between W (accesses w) (store w))" "disk_ok K (between W (accesses w) (store w))"
  using friendlyD(3) [OF F] runs_keeps [OF _ d] by blast+

lemma reload_terminal:
  assumes K: "crypto_ok K" and F: "friendly K W" and d: "disk_ok K (store w)" and l: "Load K (store w) sid = Inr (r, so)" and t: "terminalV1 r"
  obtains r' so' w' where "reloadTerminalV1 W sid w = (Inr r', w')" "Load K (store w') sid = Inr (r', so')" "terminalV1 r'"
    "State r' = State r" "CloseReason r' = CloseReason r" "UsageTotal r' = UsageTotal r"
proof -
  note run = friendly_access [OF F d]
  obtain r' so' where r': "Load K (between W (accesses w) (store w)) sid = Inr (r', so')" "terminalV1 r'" "State r' = State r"
      "CloseReason r' = CloseReason r" "UsageTotal r' = UsageTotal r"
    by (rule terminal_later [OF K d run(1) l t])
  show ?thesis
    by (rule that [OF _ _ r'(2-5), of "w\<lparr>store := between W (accesses w) (store w), accesses := Suc (accesses w)\<rparr>" so'])
      (use r'(1) friendlyD(4) [OF F] in \<open>simp_all add: reloadTerminalV1_def store_load_def reach_store_def\<close>)
qed

text \<open>What a finalizer does once it has read the stopping session.\<close>

lemma finalize_active:
  assumes K: "crypto_ok K" and F: "friendly K W" and d: "disk_ok K (store w)" and l: "Load K (store w) sid = Inr (r, so)"
    and act: "State r = ''active''" "Stopping r" and len: "event_id_fits r" and seq: "LastSequence r \<noteq> max_u64"
    and io: "\<And>n. save_io (env_of W n) = SaveOK"
  obtains r' so' res w1 w' where
    "store_call_of W w (\<lambda>E d. Advance E d sid (terminalEventV1 r now)) = (res, w1)"
    "res = Inr () \<or> res = Inl ErrSessionTerminalV1" "reloadTerminalV1 W sid w1 = (Inr r', w')"
    "Load K (store w') sid = Inr (r', so')" "terminalV1 r'" "CloseReason r' = PendingCloseReason r" "UsageTotal r' = UsageTotal r"
proof -
  let ?E = "env_of W (accesses w)" and ?d = "between W (accesses w) (store w)" and ?e = "terminalEventV1 r now"
  note run = friendly_access [OF F d] and FD = friendlyD [OF F]
  obtain r2 so2 where r2: "Load K ?d sid = Inr (r2, so2)" "record_ok r2" "UsageTotal r2 = UsageTotal r" "RunnerSessionID r2 = RunnerSessionID r"
    "if State r2 = ''active'' then Stopping r2 \<and> stands_still r r2 \<and> PendingCloseReason r2 = PendingCloseReason r
     else terminalV1 r2 \<and> CloseReason r2 = PendingCloseReason r"
    by (rule stopping_later [OF K d run(1) l act(2)])
  have "\<exists>res d' r3 so3. Advance ?E ?d sid ?e = (res, d') \<and> (res = Inr () \<or> res = Inl ErrSessionTerminalV1) \<and> disk_ok K d' \<and>
      Load K d' sid = Inr (r3, so3) \<and> terminalV1 r3 \<and> CloseReason r3 = PendingCloseReason r \<and> UsageTotal r3 = UsageTotal r"
  proof (cases "State r2 = ''active''")
    case True
    then have s2: "Stopping r2" "stands_still r r2" "PendingCloseReason r2 = PendingCloseReason r" using r2(5) by simp_all
    have "not_active r" using act by (simp add: not_active_def)
    then have "LastSequence r2 = LastSequence r" "OutputStateSince r2 = OutputStateSince r"
      using s2(2) True by (simp_all add: stands_still_def)
    then have fit: "event_id_fits r2" "LastSequence r2 \<noteq> max_u64" using len seq r2(4) by (simp_all add: event_id_fits_def)
    have e: "terminalEventV1 r2 now = ?e" by (rule terminal_event_still [OF s2(2) act(2) True s2(3) r2(4)])
    have dd: "disk_ok ?E ?d" "Load ?E ?d sid = Inr (r2, so2)" using run(2) r2(1) FD by simp_all
    obtain d' r3 where "Advance ?E ?d sid ?e = (Inr (), d')" "disk_ok ?E d'" "Load ?E d' sid = Inr (r3, so2)"
        "State r3 = PendingTerminalState r2" "CloseReason r3 = PendingCloseReason r2" "UsageTotal r3 = UsageTotal r2"
      using advance_terminal [OF FD(2) dd(1) io dd(2) True s2(1) fit, of now] e by auto
    moreover have "PendingTerminalState r2 = ''ended'' \<or> PendingTerminalState r2 = ''failed''"
      using r2(2) s2(1) by (auto simp: record_ok_iff lifecycle_ok_def)
    ultimately show ?thesis using r2(3) s2(3) FD(4,5) by (auto simp: terminalV1_def)
  next
    case False
    then have "terminalV1 r2" "CloseReason r2 = PendingCloseReason r" using r2(5) by simp_all
    moreover have "Advance ?E ?d sid ?e = (Inl ErrSessionTerminalV1, ?d)"
      using terminal_refused [of ?E ?d sid r2 so2] r2(1) calculation(1) FD(4) by simp
    ultimately show ?thesis using r2 run(2) by blast
  qed
  then obtain res d' r3 so3 where adv: "Advance ?E ?d sid ?e = (res, d')" "res = Inr () \<or> res = Inl ErrSessionTerminalV1" "disk_ok K d'"
      "Load K d' sid = Inr (r3, so3)" "terminalV1 r3" "CloseReason r3 = PendingCloseReason r" "UsageTotal r3 = UsageTotal r" by blast
  let ?w1 = "w\<lparr>store := d', accesses := Suc (accesses w)\<rparr>"
  have call: "store_call_of W w (\<lambda>E d. Advance E d sid ?e) = (res, ?w1)"
    using adv(1) by (simp add: store_call_of_def reach_store_def Let_def)
  obtain r' so' w' where "reloadTerminalV1 W sid ?w1 = (Inr r', w')" "Load K (store w') sid = Inr (r', so')" "terminalV1 r'"
    "State r' = State r3" "CloseReason r' = CloseReason r3" "UsageTotal r' = UsageTotal r3"
    by (rule reload_terminal [OF K F, of ?w1 sid r3 so3]) (use adv in simp_all)
  then show ?thesis using that [OF call adv(2)] adv by auto
qed

text \<open>
  Finishing a session cannot lose a race: whatever the other goroutines do with the store before
  and between the three accesses of \<open>FinalizeLiveTerminationV1\<close> (deliver events, clear secrets,
  finish the same session first), the session that was stopping is terminal afterwards with the close
  reason and the usage that it had then, and the function returns its record.
\<close>

theorem finalize_wins_races:
  assumes K: "crypto_ok K" and F: "friendly K W" and io: "\<And>n. save_io (env_of W n) = SaveOK"
    and d: "reachable K (store w)" and l: "Load K (store w) sid = Inr (r, so)" and stop: "Stopping r"
    and len: "event_id_fits r" and seq: "LastSequence r \<noteq> max_u64" and now: "now \<noteq> zero_time"
  shows "\<exists>r' so' w'. FinalizeLiveTerminationV1 W sid now w = (Inr r', w') \<and> Load K (store w') sid = Inr (r', so') \<and>
    terminalV1 r' \<and> CloseReason r' = PendingCloseReason r \<and> UsageTotal r' = UsageTotal r"
proof -
  note ok = reachable_disk_ok [OF d]
  let ?w1 = "w\<lparr>store := between W (accesses w) (store w), accesses := Suc (accesses w)\<rparr>"
  note run = friendly_access [OF F ok]
  have "opaqueIDPattern sid" using load_Inr [OF K ok] l by (simp add: Load_def)
  then have sid: "sid \<noteq> []" by (auto simp: opaqueIDPattern_def)
  obtain r1 so1 where r1: "Load K (store ?w1) sid = Inr (r1, so1)" "record_ok r1" "UsageTotal r1 = UsageTotal r" "RunnerSessionID r1 = RunnerSessionID r"
    "if State r1 = ''active'' then Stopping r1 \<and> stands_still r r1 \<and> PendingCloseReason r1 = PendingCloseReason r
     else terminalV1 r1 \<and> CloseReason r1 = PendingCloseReason r"
    by (rule stopping_later [OF K ok run(1) l stop]) simp
  have load: "store_load W w sid = (Inr (r1, so1), ?w1)"
    using r1(1) friendlyD(4) [OF F] by (simp add: store_load_def reach_store_def)
  have b: "BrokerSessionID r1 = sid" using load_Inr [OF K, of "store ?w1" sid r1 so1] run(2) r1(1) by (simp add: Load_def)
  show ?thesis
  proof (cases "State r1 = ''active''")
    case True
    then have s1: "Stopping r1" "stands_still r r1" "PendingCloseReason r1 = PendingCloseReason r" using r1(5) by simp_all
    have "not_active r" using stop by (simp add: not_active_def)
    then have fit: "event_id_fits r1" "LastSequence r1 \<noteq> max_u64"
      using s1(2) True len seq r1(4) by (simp_all add: stands_still_def event_id_fits_def)
    have ok1: "disk_ok K (store ?w1)" using run(2) by simp
    obtain r' so' res w2 w' where fin:
        "store_call_of W ?w1 (\<lambda>E d. Advance E d sid (terminalEventV1 r1 now)) = (res, w2)"
        "res = Inr () \<or> res = Inl ErrSessionTerminalV1" "reloadTerminalV1 W sid w2 = (Inr r', w')"
        "Load K (store w') sid = Inr (r', so')" "terminalV1 r'" "CloseReason r' = PendingCloseReason r1" "UsageTotal r' = UsageTotal r1"
      by (rule finalize_active [OF K F ok1 r1(1) True s1(1) fit io])
    then have "FinalizeLiveTerminationV1 W sid now w = (Inr r', w')"
      using load sid now True s1(1) b by (auto simp: FinalizeLiveTerminationV1_def)
    with fin(4-7) show ?thesis using s1(3) r1(3) by auto
  next
    case False
    then have "terminalV1 r1" "CloseReason r1 = PendingCloseReason r" using r1(5) by simp_all
    moreover have "FinalizeLiveTerminationV1 W sid now w = (Inr r1, ?w1)"
      using load sid now calculation(1) by (auto simp: FinalizeLiveTerminationV1_def terminalV1_def)
    ultimately show ?thesis using r1 by blast
  qed
qed

subsection \<open>The pass over the stored sessions\<close>

text \<open>The list of session files names every session once.\<close>

lemma save_files: "distinct (map fst (Files d)) \<Longrightarrow> distinct (map fst (Files (snd (saveLocked E d r))))"
  using saveLocked_disk [of E d r] by (auto simp: distinct_put)

lemma update_files: "distinct (map fst (Files d)) \<Longrightarrow> distinct (map fst (Files (snd (update_session E d sid step))))"
  using save_files by (auto simp: update_session_def split: sum.splits option.splits prod.splits dest: save_files) (metis save_files snd_conv)+

lemma create_files: "distinct (map fst (Files d)) \<Longrightarrow> distinct (map fst (Files (snd (CreateOrReplay E d q p))))"
proof (rule CreateOrReplay_cases [of E d q p])
  fix e r s
  assume d: "distinct (map fst (Files d))"
    and c: "CreateOrReplay E d q p = (case saveLocked E d r of (Some e', d') \<Rightarrow> (Inl e', d') | (None, d') \<Rightarrow> (Inr (r, s, False), d'))"
  have "snd (CreateOrReplay E d q p) = snd (saveLocked E d r)" by (simp add: c split: prod.splits option.splits)
  then show ?thesis using save_files [OF d] by simp
qed simp

lemma exec_files: "distinct (map fst (Files d)) \<Longrightarrow> distinct (map fst (Files (exec E c d)))"
  by (cases c) (auto simp: create_files ReconcileCreate_files RecordKeyIssue_def Advance_def call_defs update_files split: option.splits)

lemma runs_files: "runs K a d \<Longrightarrow> distinct (map fst (Files a)) \<Longrightarrow> distinct (map fst (Files d))"
  by (induction rule: runs.induct) (simp_all add: exec_files)

lemma recoverable_distinct:
  assumes E: "crypto_ok E" and d: "disk_ok E d" and f: "distinct (map fst (Files d))" and rec: "Recoverable E d = Inr rs"
  shows "distinct (map BrokerSessionID rs)"
proof -
  have "\<forall>sid\<in>set (sessionFileIDs d). map_of (Files d) sid \<noteq> None"
    by (auto simp: sessionFileIDs_def map_of_eq_None_iff)
  then obtain xs where xs: "loadAllV1 E d (sessionFileIDs d) = Inr xs" "map (\<lambda>x. BrokerSessionID (fst x)) xs = sessionFileIDs d"
    using loadAll_ok [OF E d] by blast
  have "distinct (map BrokerSessionID (map fst xs))"
    using f xs(2) by (simp add: sessionFileIDs_def comp_def)
  moreover have "rs = sort_key BrokerSessionID (filter (\<lambda>r. State r = ''active'' \<or> PendingEvents r \<noteq> [] \<or> WrappedKeyCiphertext r \<noteq> []) (map fst xs))"
    using rec xs(1) by (auto simp: Recoverable_def split: if_splits)
  ultimately show ?thesis by (auto simp: distinct_map inj_on_def)
qed

text \<open>What the pass owes to a session that it found active.\<close>

definition settled :: "env \<Rightarrow> string \<Rightarrow> SessionRecordV1 \<Rightarrow> SessionSecretsV1 option \<Rightarrow> 'b runtime_client_scheme \<Rightarrow> bool" where
  "settled K sid r so w \<longleftrightarrow>
     (\<exists>r' so'. Load K (store w) sid = Inr (r', so') \<and>
        (if Stopping r
         then terminalV1 r' \<and> CloseReason r' = PendingCloseReason r \<and> UsageTotal r' = UsageTotal r \<and>
           TerminateSession r \<in> set (runtime_calls w)
         else State r' = ''active'' \<and> \<not> Stopping r' \<and> PendingKeyActivationID r' = [] \<and>
           (PendingKeyActivationID r \<noteq> [] \<longrightarrow> ActivateStreamKey r \<in> set (runtime_calls w)) \<and>
           (\<exists>s. so = Some s \<and> EnsureSession (r\<lparr>PendingKeyActivationID := []\<rparr>) s \<in> set (runtime_calls w))))"

lemma settled_later:
  assumes "settled K sid r so w" and "map_of (Files (store w')) sid = map_of (Files (store w)) sid"
    and "set (runtime_calls w) \<subseteq> set (runtime_calls w')"
  shows "settled K sid r so w'"
  using assms load_frame [OF assms(2), of K] unfolding settled_def by (auto split: if_splits)

definition obliging :: "'a runtime_setting_scheme \<Rightarrow> bool" where
  "obliging W \<longleftrightarrow> (\<forall>n c. runtime_answer W n c = None)"

lemma finalize_calm:
  assumes K: "crypto_ok K" and Q: "calm K W" and d: "disk_ok K (store w)"
    and l: "Load K (store w) sid = Inr (r, so)" and act: "State r = ''active''" "Stopping r" and len: "event_id_fits r"
    and seq: "LastSequence r \<noteq> max_u64" and now: "now \<noteq> zero_time"
  shows "\<exists>r' d'. FinalizeLiveTerminationV1 W sid now w = (Inr r', w\<lparr>accesses := accesses w + 3, store := d'\<rparr>) \<and> disk_ok K d' \<and>
    Load K d' sid = Inr (r', so) \<and> State r' = PendingTerminalState r \<and> CloseReason r' = PendingCloseReason r \<and>
    UsageTotal r' = UsageTotal r \<and> RunnerSessionID r' = RunnerSessionID r \<and> (\<forall>x. x \<noteq> sid \<longrightarrow> map_of (Files d') x = map_of (Files (store w)) x) \<and>
    map fst (Files d') = map fst (Files (store w))"
proof -
  note F = friendlyD [OF calm_friendly [OF Q]]
  have r: "record_ok r" "BrokerSessionID r = sid" "opaqueIDPattern sid"
    using load_Inr [OF K d] l by (auto simp: Load_def)
  have sid: "sid \<noteq> []" using r(3) by (auto simp: opaqueIDPattern_def)
  let ?E = "env_of W (Suc (accesses w))"
  have dd: "disk_ok ?E (store w)" "Load ?E (store w) sid = Inr (r, so)" using d l F by simp_all
  obtain d' r' where adv: "Advance ?E (store w) sid (terminalEventV1 r now) = (Inr (), d')" "disk_ok ?E d'" "Load ?E d' sid = Inr (r', so)"
      "State r' = PendingTerminalState r" "CloseReason r' = PendingCloseReason r" "UsageTotal r' = UsageTotal r"
      "RunnerSessionID r' = RunnerSessionID r" "\<forall>x. x \<noteq> sid \<longrightarrow> map_of (Files d') x = map_of (Files (store w)) x"
    using advance_terminal [OF F(2) dd(1) calmD(1) [OF Q] dd(2) act len seq, of now] by blast
  have "FinalizeLiveTerminationV1 W sid now w = (Inr r', w\<lparr>accesses := accesses w + 3, store := d'\<rparr>)"
    using sid now l act adv(1,3) r(2) F(4)
    by (simp add: FinalizeLiveTerminationV1_def reloadTerminalV1_def store_load_def store_call_of_def reach_store_calm [OF Q] Let_def numeral_3_eq_3)
  moreover have "map fst (Files d') = map fst (Files (store w))"
    using advance.update_keys [OF F(2) dd(1), of sid "terminalEventV1 r now"] dd(2) adv(1)
    by (simp add: Advance_def Load_def advance_admits_def terminalEventV1_def Let_def)
  ultimately show ?thesis using adv(2-8) F(4,5) by (intro exI [of _ r'] exI [of _ d']) simp
qed

lemma complete_calm:
  assumes K: "crypto_ok K" and Q: "calm K W" and ob: "obliging W" and d: "disk_ok K (store w)"
    and l: "Load K (store w) sid = Inr (r, so)" and act: "State r = ''active''" "Stopping r" and len: "event_id_fits r"
    and seq: "LastSequence r \<noteq> max_u64" and now: "now \<noteq> zero_time"
  shows "\<exists>r' w'. CompleteLiveTerminationV1 W r now w = (Inr r', w') \<and> disk_ok K (store w') \<and> only_session sid w w' \<and>
    settled K sid r so w' \<and> runtime_calls w' = runtime_calls w @ [TerminateSession r]"
proof -
  let ?w = "w\<lparr>runtime_calls := runtime_calls w @ [TerminateSession r]\<rparr>"
  have r: "record_ok r" "BrokerSessionID r = sid" using load_Inr [OF K d] l by (auto simp: Load_def)
  have life: "validCloseReasonV1 (PendingCloseReason r)" "PendingTerminalState r = ''ended'' \<or> PendingTerminalState r = ''failed''"
    using r(1) act by (auto simp: record_ok_iff lifecycle_ok_def)
  have w: "disk_ok K (store ?w)" "Load K (store ?w) sid = Inr (r, so)" using d l by simp_all
  obtain r' d' where fin: "FinalizeLiveTerminationV1 W sid now ?w = (Inr r', ?w\<lparr>accesses := accesses ?w + 3, store := d'\<rparr>)" "disk_ok K d'"
    "Load K d' sid = Inr (r', so)" "State r' = PendingTerminalState r" "CloseReason r' = PendingCloseReason r" "UsageTotal r' = UsageTotal r"
    "\<forall>x. x \<noteq> sid \<longrightarrow> map_of (Files d') x = map_of (Files (store ?w)) x"
    using finalize_calm [OF K Q w act len seq now] by blast
  have "CompleteLiveTerminationV1 W r now w = (Inr r', ?w\<lparr>accesses := accesses ?w + 3, store := d'\<rparr>)"
    using act life r(2) ob fin(1) by (simp add: CompleteLiveTerminationV1_def call_runtime_def obliging_def)
  moreover have "settled K sid r so (?w\<lparr>accesses := accesses ?w + 3, store := d'\<rparr>)"
    using fin(3-6) act life(2) by (auto simp: settled_def terminalV1_def)
  ultimately show ?thesis using fin(2,7) by (intro exI) (auto simp: only_session_def)
qed

lemma activate_calm:
  assumes K: "crypto_ok K" and Q: "calm K W" and ob: "obliging W" and d: "disk_ok K (store w)"
    and l: "Load K (store w) sid = Inr (r, Some s)" and act: "State r = ''active''" "\<not> Stopping r"
  shows "\<exists>w'. recoverKeyActivationV1 W r w = (Inr (r\<lparr>PendingKeyActivationID := []\<rparr>), w') \<and> disk_ok K (store w') \<and> only_session sid w w' \<and>
    (\<exists>r' so'. Load K (store w') sid = Inr (r', so') \<and> State r' = ''active'' \<and> \<not> Stopping r' \<and> PendingKeyActivationID r' = []) \<and>
    runtime_calls w' = runtime_calls w @ (if PendingKeyActivationID r = [] then [] else [ActivateStreamKey r])"
proof (cases "PendingKeyActivationID r = []")
  case True
  moreover from this have "r\<lparr>PendingKeyActivationID := []\<rparr> = r" by (simp flip: True)
  ultimately show ?thesis using d l act by (intro exI [of _ w]) (simp add: recoverKeyActivationV1_def)
next
  case False
  let ?q = "PendingKeyActivationID r" and ?E = "env_of W (accesses w)" and ?w = "w\<lparr>runtime_calls := runtime_calls w @ [ActivateStreamKey r]\<rparr>"
  have r: "record_ok r" "opened K r (Some s)" "BrokerSessionID r = sid" using load_Inr [OF K d] l by (auto simp: Load_def)
  have q: "opaqueIDPattern ?q" using r(1) False by (auto simp: record_ok_iff lifecycle_ok_def)
  have "CurrentKeyID s = ?q"
    using r(2) False openSecrets_Inr validateSessionSecrets_iff by (auto simp: opened_def)
  then have st: "CompleteKeyActivation_step ?q r (Some s) = Inr ((), Some (r\<lparr>PendingKeyActivationID := []\<rparr>))"
    using False act by (simp add: CompleteKeyActivation_step_def not_active_def)
  let ?f = "\<lambda>E d. CompleteKeyActivation E d sid ?q"
  have f: "?f (env_of W (accesses ?w)) d = update_session (env_of W (accesses ?w)) d sid (CompleteKeyActivation_step ?q)" for d
    using q by (simp add: CompleteKeyActivation_def)
  have w: "disk_ok K (store ?w)" "Load K (store ?w) sid = Inr (r, Some s)" using d l by simp_all
  obtain d' x where d': "store_call_of W ?w ?f = (Inr (), ?w\<lparr>accesses := Suc (accesses ?w), store := d'\<rparr>)" "disk_ok K d'"
      "only_session sid ?w (?w\<lparr>store := d'\<rparr>)" "Load K d' sid = Inr (r\<lparr>PendingKeyActivationID := []\<rparr>\<lparr>IntegritySHA256 := x\<rparr>, Some s)"
    using calm_call [where f = ?f, OF Q w activation.plain_op_axioms _ f st] by blast
  have "recoverKeyActivationV1 W r w = (Inr (r\<lparr>PendingKeyActivationID := []\<rparr>), ?w\<lparr>accesses := Suc (accesses ?w), store := d'\<rparr>)"
    using False ob d'(1) r(3) by (simp add: recoverKeyActivationV1_def call_runtime_def obliging_def)
  then show ?thesis using d'(2-4) act False by (intro exI [of _ "?w\<lparr>accesses := Suc (accesses ?w), store := d'\<rparr>"]) (auto simp: only_session_def)
qed

lemma recover_session:
  assumes K: "crypto_ok K" and Q: "calm K W" and ob: "obliging W" and d: "disk_ok K (store w)"
    and l: "Load K (store w) sid = Inr (r, so)" and act: "State r = ''active''"
    and fits: "Stopping r \<Longrightarrow> event_id_fits r \<and> LastSequence r \<noteq> max_u64"
  shows "\<exists>w'. recoverSessionV1 W sid w = (None, w') \<and> disk_ok K (store w') \<and> only_session sid w w' \<and> settled K sid r so w' \<and>
    set (runtime_calls w) \<subseteq> set (runtime_calls w')"
proof -
  note F = friendlyD [OF calm_friendly [OF Q]]
  let ?w1 = "w\<lparr>accesses := Suc (accesses w)\<rparr>"
  have load: "store_load W w sid = (Inr (r, so), ?w1)" using l F(4) by (simp add: store_load_def reach_store_calm [OF Q])
  have w1: "disk_ok K (store ?w1)" "Load K (store ?w1) sid = Inr (r, so)" using d l by simp_all
  show ?thesis
  proof (cases "Stopping r")
    case True
    obtain r' w' where w': "CompleteLiveTerminationV1 W r (time_now (env_of W (accesses ?w1))) ?w1 = (Inr r', w')" "disk_ok K (store w')"
        "only_session sid ?w1 w'" "settled K sid r so w'" "runtime_calls w' = runtime_calls ?w1 @ [TerminateSession r]"
      using complete_calm [OF K Q ob w1 act True _ _ calmD(3) [OF Q]] fits [OF True] by blast
    then show ?thesis using load True by (intro exI [of _ w']) (auto simp: recoverSessionV1_def only_session_def)
  next
    case False
    have "record_ok r" "opened K r so" using load_Inr [OF K d] l by (auto simp: Load_def)
    then obtain s where s: "so = Some s" using act active_has_secrets [of r] by (auto simp: opened_def split: option.splits)
    obtain w2 where w2: "recoverKeyActivationV1 W r ?w1 = (Inr (r\<lparr>PendingKeyActivationID := []\<rparr>), w2)" "disk_ok K (store w2)" "only_session sid ?w1 w2"
        "\<exists>r' so'. Load K (store w2) sid = Inr (r', so') \<and> State r' = ''active'' \<and> \<not> Stopping r' \<and> PendingKeyActivationID r' = []"
        "runtime_calls w2 = runtime_calls ?w1 @ (if PendingKeyActivationID r = [] then [] else [ActivateStreamKey r])"
      using activate_calm [OF K Q ob w1(1) _ act False] w1(2) s by blast
    let ?w' = "w2\<lparr>runtime_calls := runtime_calls w2 @ [EnsureSession (r\<lparr>PendingKeyActivationID := []\<rparr>) s]\<rparr>"
    have "recoverSessionV1 W sid w = (None, ?w')"
      using load False s w2(1) ob by (simp add: recoverSessionV1_def call_runtime_def obliging_def)
    moreover have "settled K sid r so ?w'" using w2(4,5) False s by (auto simp: settled_def)
    ultimately show ?thesis using w2(2,3,5) by (intro exI [of _ ?w']) (auto simp: only_session_def)
  qed
qed

lemma recover_sessions:
  assumes K: "crypto_ok K" and Q: "calm K W" and ob: "obliging W"
  shows "disk_ok K (store w) \<Longrightarrow> distinct (map BrokerSessionID rs) \<Longrightarrow>
    (\<forall>r\<in>set rs. \<exists>so. Load K (store w) (BrokerSessionID r) = Inr (r, so)) \<Longrightarrow>
    (\<forall>r\<in>set rs. State r = ''active'' \<longrightarrow> Stopping r \<longrightarrow> event_id_fits r \<and> LastSequence r \<noteq> max_u64) \<Longrightarrow>
    \<exists>w'. recoverSessionsV1 W rs w = (None, w') \<and> set (runtime_calls w) \<subseteq> set (runtime_calls w') \<and>
      (\<forall>x. x \<notin> BrokerSessionID ` set rs \<longrightarrow> map_of (Files (store w')) x = map_of (Files (store w)) x) \<and>
      (\<forall>r\<in>set rs. State r = ''active'' \<longrightarrow>
        (\<forall>so. Load K (store w) (BrokerSessionID r) = Inr (r, so) \<longrightarrow> settled K (BrokerSessionID r) r so w'))"
proof (induction rs arbitrary: w)
  case Nil
  then show ?case by simp
next
  case (Cons r rs)
  let ?sid = "BrokerSessionID r"
  obtain so where l: "Load K (store w) ?sid = Inr (r, so)" using Cons.prems(3) by auto
  have "\<exists>w1. (if State r \<noteq> ''active'' then (None, w) else recoverSessionV1 W ?sid w) = (None, w1) \<and> disk_ok K (store w1) \<and>
      only_session ?sid w w1 \<and> (State r = ''active'' \<longrightarrow> settled K ?sid r so w1) \<and> set (runtime_calls w) \<subseteq> set (runtime_calls w1)"
    using recover_session [OF K Q ob Cons.prems(1) l] Cons.prems(1,4) by (cases "State r = ''active''") auto
  then obtain w1 where w1: "(if State r \<noteq> ''active'' then (None, w) else recoverSessionV1 W ?sid w) = (None, w1)" "disk_ok K (store w1)"
      "only_session ?sid w w1" "State r = ''active'' \<Longrightarrow> settled K ?sid r so w1" "set (runtime_calls w) \<subseteq> set (runtime_calls w1)" by blast
  have same: "Load K (store w1) (BrokerSessionID x) = Load K (store w) (BrokerSessionID x)" if "x \<in> set rs" for x
  proof (rule load_frame)
    have "BrokerSessionID x \<noteq> ?sid" using Cons.prems(2) that by (auto simp: image_iff)
    then show "map_of (Files (store w1)) (BrokerSessionID x) = map_of (Files (store w)) (BrokerSessionID x)"
      using w1(3) by (simp add: only_session_def)
  qed
  have "\<exists>w'. recoverSessionsV1 W rs w1 = (None, w') \<and> set (runtime_calls w1) \<subseteq> set (runtime_calls w') \<and>
      (\<forall>x. x \<notin> BrokerSessionID ` set rs \<longrightarrow> map_of (Files (store w')) x = map_of (Files (store w1)) x) \<and>
      (\<forall>r\<in>set rs. State r = ''active'' \<longrightarrow>
        (\<forall>so. Load K (store w1) (BrokerSessionID r) = Inr (r, so) \<longrightarrow> settled K (BrokerSessionID r) r so w'))"
    by (rule Cons.IH) (use w1(2) Cons.prems same in auto)
  then obtain w' where w': "recoverSessionsV1 W rs w1 = (None, w')" "set (runtime_calls w1) \<subseteq> set (runtime_calls w')"
      "\<forall>x. x \<notin> BrokerSessionID ` set rs \<longrightarrow> map_of (Files (store w')) x = map_of (Files (store w1)) x"
      "\<forall>r\<in>set rs. State r = ''active'' \<longrightarrow>
        (\<forall>so. Load K (store w1) (BrokerSessionID r) = Inr (r, so) \<longrightarrow> settled K (BrokerSessionID r) r so w')" by blast
  have head: "settled K ?sid r so w'" if "State r = ''active''"
    by (rule settled_later [OF w1(4) [OF that] _ w'(2)]) (use w'(3) Cons.prems(2) in auto)
  have "recoverSessionsV1 W (r # rs) w = (None, w')" using w1(1) w'(1) by (auto split: if_splits)
  then show ?case
    using w' w1(3,5) head l same by (intro exI [of _ w']) (auto simp: only_session_def)
qed

text \<open>
  (C22) A restart leaves no session behind: the pass over a reachable store comes to its end, and then
  every session that was active is settled.  One that was stopping was terminated in the runtime and
  has ended with its pending reason and its usage; any other is active with its last stream key
  activated, and was handed to the runtime with its secrets.
\<close>

theorem recovery_settles_every_session:
  assumes K: "crypto_ok K" and Q: "calm K W" and ob: "obliging W" and d: "reachable K (store w)"
    and fits: "\<And>sid r so. Load K (store w) sid = Inr (r, so) \<Longrightarrow> Stopping r \<Longrightarrow> event_id_fits r \<and> LastSequence r \<noteq> max_u64"
  shows "\<exists>w'. RecoverLiveSessionsV1 W w = (None, w') \<and>
    (\<forall>sid r so. Load K (store w) sid = Inr (r, so) \<longrightarrow> State r = ''active'' \<longrightarrow> settled K sid r so w')"
proof -
  note F = friendlyD [OF calm_friendly [OF Q]] and ok = reachable_disk_ok [OF d]
  let ?E = "env_of W (accesses w)" and ?w1 = "w\<lparr>accesses := Suc (accesses w)\<rparr>"
  have E: "crypto_ok ?E" "disk_ok ?E (store w)" using F ok by simp_all
  obtain rs where rs: "Recoverable ?E (store w) = Inr rs" "set rs = {r. \<exists>sid so. Load K (store w) sid = Inr (r, so) \<and>
      (State r = ''active'' \<or> PendingEvents r \<noteq> [] \<or> WrappedKeyCiphertext r \<noteq> [])}"
    using recoverable_value [OF E calmD(2) [OF Q]] F(4) by auto
  have sid: "BrokerSessionID r = sid" if "Load K (store w) sid = Inr (r, so)" for sid r so
    using load_Inr [OF K ok] that by (simp add: Load_def)
  have "distinct (map fst (Files (store w)))"
    using runs_files [of K empty_disk "store w"] d by (simp add: reachable_def empty_disk_def)
  then have dist: "distinct (map BrokerSessionID rs)" by (rule recoverable_distinct [OF E _ rs(1)])
  have "\<exists>w'. recoverSessionsV1 W rs ?w1 = (None, w') \<and> set (runtime_calls ?w1) \<subseteq> set (runtime_calls w') \<and>
      (\<forall>x. x \<notin> BrokerSessionID ` set rs \<longrightarrow> map_of (Files (store w')) x = map_of (Files (store ?w1)) x) \<and>
      (\<forall>r\<in>set rs. State r = ''active'' \<longrightarrow>
        (\<forall>so. Load K (store ?w1) (BrokerSessionID r) = Inr (r, so) \<longrightarrow> settled K (BrokerSessionID r) r so w'))"
    by (rule recover_sessions [OF K Q ob]) (use ok dist rs(2) sid fits in auto)
  then show ?thesis
    using rs sid by (fastforce simp: RecoverLiveSessionsV1_def reach_store_calm [OF Q])
qed

end
