(* ===== verification/Server_Properties.thy ===== *)
theory Server_Properties
  imports Live_Server Recovery_Properties Media_Properties
begin

section \<open>What the server promises its clients\<close>

subsection \<open>The status of a session\<close>

lemma letter_valid:
  assumes "letter_ok r l"
  shows "EventType (LetterEvent l) \<noteq> []" "validCallbackFailureV1 (LetterStatusCode l) (LetterErrorCode l) False"
    "parse_stamp (LetterRejectedAt l) \<noteq> None"
proof -
  have "ValidateEventV1 (LetterEvent l) = None" using assms by (simp add: letter_ok_def event_fits_def)
  then show "EventType (LetterEvent l) \<noteq> []"
    by (auto simp: ValidateEventV1_def validateEventTypeV1_def split: if_splits option.splits)
qed (use assms in \<open>auto simp: letter_ok_def\<close>)

lemma status_valid:
  assumes r: "record_ok r" and c: "creds_ok r"
  shows "ValidateStatusV1 (runnerStatusV1 r) = None"
proof -
  have parts: "identity_ok r" "lifecycle_ok r" "health_ok r" "letters_ok r" using r by (simp_all add: record_ok_iff)
  have "CallbackRejectedTotal r = 0 \<longleftrightarrow> CallbackDeadLetters r = []"
    using parts(4) c by (auto simp: letters_ok_def creds_ok_def)
  moreover have "letter_ok r (last (CallbackDeadLetters r))" if "CallbackDeadLetters r \<noteq> []"
    using parts(4) that by (simp add: letters_ok_def)
  moreover have "opaqueIDPattern (RunnerSessionID r)" "validStateV1 (State r)" "validOutputStateV1 (OutputState r)"
      "validLadderFailureCodeV1 (LastLadderFailureCode r) True"
      "terminalV1 r \<longleftrightarrow> CloseReason r \<noteq> []" "CloseReason r \<noteq> [] \<longrightarrow> validCloseReasonV1 (CloseReason r)"
    using parts by (simp_all add: identity_ok_def lifecycle_ok_def health_ok_def)
  ultimately show ?thesis
    using letter_valid [of r "last (CallbackDeadLetters r)"]
    by (auto simp: ValidateStatusV1_def runnerStatusV1_def terminalV1_def Let_def split: if_splits option.splits)
qed

text \<open>
  (C24) The status that the server reports is one that the contract admits: whatever other goroutines do,
  an answer of 200 carries the status document of the session asked for, and it passes
  \<open>ValidateStatusV1\<close>, the check that the broker applies.
\<close>

theorem status_fits_contract:
  assumes K: "crypto_ok K" and F: "friendly K W" and d: "reachable K (store w)"
    and res: "handleStatusV1 W runnerID w = (out, w')" and ok: "OutStatus out = 200"
  shows "\<exists>s. out = writeRunnerJSONV1 [] 200 (json_status s) \<and> ValidateStatusV1 s = None \<and> StRunnerSessionID s = runnerID"
proof -
  let ?E = "env_of W (accesses w)" and ?d = "between W (accesses w) (store w)"
  note run = friendly_access [OF F reachable_disk_ok [OF d]] and FD = friendlyD [OF F]
  have "disk_creds ?d" using runs_creds [OF run(1) reachable_disk_ok [OF d] reachable_creds [OF d]] .
  obtain r so where find: "LoadByRunnerSessionID ?E ?d runnerID = Inr (r, so)" and out: "out = writeRunnerJSONV1 [] 200 (json_status (runnerStatusV1 r))"
    using res ok by (auto simp: handleStatusV1_def store_find_def reach_store_def error_out_def writeRunnerErrorV1_def writeRunnerJSONV1_def
        split: sum.splits if_splits)
  from lookup_loads [OF find] obtain sid where "RunnerSessionID r = runnerID" "Load K ?d sid = Inr (r, so)" using FD(4) by auto
  moreover from this have "map_of (Files ?d) sid = Some (FRecord r)" "record_ok r"
    using load_Inr [OF K run(2)] by (auto simp: Load_def)
  moreover from this \<open>disk_creds ?d\<close> have "creds_ok r" by (auto simp: disk_creds_def)
  ultimately have "ValidateStatusV1 (runnerStatusV1 r) = None" "StRunnerSessionID (runnerStatusV1 r) = runnerID"
    using status_valid by (blast, simp add: runnerStatusV1_def)
  with out show ?thesis by blast
qed

subsection \<open>The session behind a runner session ID\<close>

lemma find_after:
  assumes E: "crypto_ok E" and d: "disk_ok E d" and l: "Load E d sid = Inr (r, so)" and l': "Load E d' sid = Inr (r', so')"
    and others: "\<And>x. x \<noteq> sid \<Longrightarrow> map_of (Files d') x = map_of (Files d) x" and rid: "RunnerSessionID r' = RunnerSessionID r"
    and find: "findByRunnerV1 E d (RunnerSessionID r) ids = Inr (r, so)"
  shows "findByRunnerV1 E d' (RunnerSessionID r) ids = Inr (r', so')"
  using find
proof (induction ids)
  case (Cons x ids)
  have sid: "BrokerSessionID r = sid" using load_Inr [OF E d] l by (simp add: Load_def)
  show ?case
  proof (cases "x = sid")
    case True
    then show ?thesis using l' rid by (simp add: Load_def)
  next
    case False
    have same: "loadLocked E d' x = loadLocked E d x" using load_frame [OF others [OF False], of E] by (simp add: Load_def)
    obtain r1 so1 where h: "loadLocked E d x = Inr (r1, so1)" using Cons.prems by (cases "loadLocked E d x") auto
    have "RunnerSessionID r1 \<noteq> RunnerSessionID r"
    proof
      assume "RunnerSessionID r1 = RunnerSessionID r"
      then have "r1 = r" using Cons.prems h by simp
      then show False using load_Inr [OF E d h] sid False by simp
    qed
    then show ?thesis using Cons same h by simp
  qed
qed simp

lemma lookup_after:
  assumes E: "crypto_ok E" and d: "disk_ok E d" and l: "Load E d sid = Inr (r, so)" and l': "Load E d' sid = Inr (r', so')"
    and others: "\<And>x. x \<noteq> sid \<Longrightarrow> map_of (Files d') x = map_of (Files d) x" and rid: "RunnerSessionID r' = RunnerSessionID r"
    and keys: "map fst (Files d') = map fst (Files d)" and find: "LoadByRunnerSessionID E d (RunnerSessionID r) = Inr (r, so)"
  shows "LoadByRunnerSessionID E d' (RunnerSessionID r) = Inr (r', so')"
  using find find_after [OF E d l l' others rid] by (auto simp: LoadByRunnerSessionID_def sessionFileIDs_def keys split: if_splits)

subsection \<open>Issued keys\<close>

lemma valid_utf8_ascii: "(\<And>c. c \<in> set s \<Longrightarrow> (of_char c :: nat) < 128) \<Longrightarrow> valid_utf8 s"
  by (induction s) (auto simp: Let_def)

lemma opaque_ascii: "opaqueIDPattern s \<Longrightarrow> c \<in> set s \<Longrightarrow> (of_char c :: nat) < 128"
  by (auto simp: opaqueIDPattern_def is_alnum_def is_digit_def is_upper_def is_lower_def is_opaque_char_def list_all_iff split: list.splits)

lemma valid_utf8_opaque: "opaqueIDPattern s \<Longrightarrow> valid_utf8 s"
  by (rule valid_utf8_ascii) (rule opaque_ascii)

text \<open>Every current key was built by the server for its session.\<close>

definition keys_built :: "env \<Rightarrow> disk \<Rightarrow> bool" where
  "keys_built K d \<longleftrightarrow>
     (\<forall>sid r s i. Load K d sid = Inr (r, Some s) \<longrightarrow> map_of (KeyIssues s) (CurrentKeyID s) = Some i \<longrightarrow>
        (\<exists>secret. BuildPrivateIngestStreamKeyV1 (RunnerSessionID r) secret = Inr (StreamKey (IssueResponse i))))"

lemma issue_calm:
  assumes Q: "calm K W" and d: "disk_ok K (store w)" and l: "Load K (store w) sid = Inr (r, Some s)"
    and adm: "list_all valid_utf8 (issue_texts q p)"
    and call: "store_call_of W w (\<lambda>E d. RecordKeyIssue E d sid q p) = (Inr (recorded, replay), w1)"
  obtains r1 s1 i where "Load K (store w1) sid = Inr (r1, Some s1)" "disk_ok K (store w1)" "only_session sid w w1"
    "map fst (Files (store w1)) = map fst (Files (store w))" "RunnerSessionID r1 = RunnerSessionID r" "\<not> not_active r1"
    "CurrentKeyID s1 = RequestID q" "map_of (KeyIssues s1) (RequestID q) = Some i" "IssueResponse i = recorded"
    "if replay then s1 = s else recorded = p" "w1 = w\<lparr>accesses := Suc (accesses w), store := store w1\<rparr>"
    "read_dir_ok (env_of W (accesses w1))"
proof -
  let ?E = "env_of W (accesses w)"
  note F = friendlyD [OF calm_friendly [OF Q]]
  have dd: "disk_ok ?E (store w)" and ll: "Load ?E (store w) sid = Inr (r, Some s)" using d l by (simp_all add: F)
  have r: "record_ok r" "opened ?E r (Some s)" using load_Inr [OF F(2) dd] ll by (auto simp: Load_def)
  have w1: "w1 = w\<lparr>accesses := Suc (accesses w), store := store w1\<rparr>" and rec: "RecordKeyIssue ?E (store w) sid q p = (Inr (recorded, replay), store w1)"
    using call by (auto simp: store_call_of_def reach_store_def Let_def calmD(4) [OF Q] split: prod.splits)
  have iss: "issue_admits q p" and u: "update_session ?E (store w) sid (RecordKeyIssue_step ?E q p) = (Inr (recorded, replay), store w1)"
    using rec adm by (auto simp: RecordKeyIssue_def issue_admits_def split: option.splits)
  have keys: "map fst (Files (store w1)) = map fst (Files (store w))" "disk_ok K (store w1)"
      "\<And>x. x \<noteq> sid \<Longrightarrow> map_of (Files (store w1)) x = map_of (Files (store w)) x"
    using key_issue.update_keys [OF F(2) dd, of sid q p] key_issue.update_keeps [OF F(2) dd, of sid q p]
      key_issue.update_frame(1) [OF F(2) dd, of sid q p] iss F(5) by (simp_all add: u)
  then have only: "only_session sid w w1" by (simp add: only_session_def)
  have rd: "read_dir_ok (env_of W (accesses w1))" by (rule calmD(2) [OF Q])
  consider i where "RecordKeyIssue_step ?E q p r (Some s) = Inr ((IssueResponse i, True), None)" "recorded = IssueResponse i" "replay"
      "store w1 = store w" "map_of (KeyIssues s) (RequestID q) = Some i" "CurrentKeyID s = RequestID q" "\<not> not_active r"
    | r' where "RecordKeyIssue_step ?E q p r (Some s) = Inr ((recorded, replay), Some r')"
    using u ll unfolding update_session_def Load_def
    by (auto simp: RecordKeyIssue_step_def Let_def split: option.splits if_splits sum.splits prod.splits)
  then show ?thesis
  proof cases
    case 1
    then show ?thesis using that [of r s i] l keys only w1 rd by simp
  next
    case 2
    obtain r1 where n: "\<not> not_active r" "map_of (KeyIssues s) (RequestID q) = None" "(recorded, replay) = (p, False)"
        "r1 = (if CurrentKeyID s \<noteq> [] then r\<lparr>PendingKeyActivationID := RequestID q\<rparr> else r)"
        "sealLocked ?E r1 (issuedSecrets ?E q p s) = Inr r'" "PendingKeyActivationID r = []"
      using 2 by (rule RecordKeyIssue_new) auto
    have id1: "same_identity r r1" by (auto simp: n(4) same_identity_def)
    have v: "utf8_secrets (issuedSecrets ?E q p s)" "validateSessionSecretsV1 ?E r1 (issuedSecrets ?E q p s) = None"
      using r(2) issued_utf8 [OF iss _ n(2)] issued_validates [OF iss _ n(2) id1] openSecrets_Inr n(6)
      by (auto simp: opened_def n(4))
    have op: "opened ?E r' (Some (issuedSecrets ?E q p s))"
      using sealLocked_opens [OF F(2) v n(5)] v(1) sealLocked_same(8) [OF n(5)] by (simp add: opened_def)
    note keep = RecordKeyIssue_keeps [OF F(2) r(1,2) iss 2]
    from load_after_update [where step = "RecordKeyIssue_step ?E q p", OF F(2) dd ll 2 _ _ op calmD(1) [OF Q]] keep
    obtain d' where "update_session ?E (store w) sid (RecordKeyIssue_step ?E q p) = (Inr (recorded, replay), d')"
        "Load ?E d' sid = Inr (r'\<lparr>IntegritySHA256 := integrityV1 ?E r'\<rparr>, Some (issuedSecrets ?E q p s))" by blast
    then have l1: "Load K (store w1) sid = Inr (r'\<lparr>IntegritySHA256 := integrityV1 ?E r'\<rparr>, Some (issuedSecrets ?E q p s))"
      using u F(4) by simp
    have "\<not> not_active r'" "RunnerSessionID r' = RunnerSessionID r"
      using sealLocked_same [OF n(5)] n(1) id1 by (auto simp: n(4) not_active_def same_identity_def split: if_splits)
    then show ?thesis
      by (intro that [where i = "\<lparr>Fingerprint = KeyIssueFingerprintV1 ?E q, IssueRequest = q, IssueResponse = p\<rparr>", OF l1 keys(2) only keys(1)])
        (use n(3) rd in \<open>simp_all add: not_active_def\<close>, rule w1)
  qed
qed

lemma activate_issued:
  assumes Q: "calm K W" and d: "disk_ok K (store w)" and l: "Load K (store w) sid = Inr (r, Some s)" and act: "\<not> not_active r"
    and cur: "CurrentKeyID s = q" and res: "activateIssuedV1 W sid q response w = (out, w')" and ok: "OutStatus out = 200"
  shows "out = writeRunnerJSONV1 [] 200 (json_key_issue_response response) \<and> disk_ok K (store w') \<and> only_session sid w w' \<and>
    map fst (Files (store w')) = map fst (Files (store w)) \<and>
    (\<exists>r'. Load K (store w') sid = Inr (r', Some s) \<and> RunnerSessionID r' = RunnerSessionID r \<and> \<not> not_active r' \<and>
      PendingKeyActivationID r' = [])"
proof -
  note F = friendlyD [OF calm_friendly [OF Q]]
  let ?w1 = "w\<lparr>accesses := Suc (accesses w)\<rparr>"
  have load: "store_load W w sid = (Inr (r, Some s), ?w1)" using l F(4) by (simp add: store_load_def reach_store_calm [OF Q])
  have "\<not> OutStatus (error_out n c) = 200" if "n \<noteq> 200" for n c
    using that by (simp add: error_out_def writeRunnerErrorV1_def writeRunnerJSONV1_def)
  note bad = this [of 503]
  have K: "crypto_ok (env_of W 0)" "disk_ok (env_of W 0) (store w)" "Load (env_of W 0) (store w) sid = Inr (r, Some s)" using F d l by auto
  have r: "record_ok r" "opened (env_of W 0) r (Some s)" using load_Inr [OF K(1,2)] K(3) by (auto simp: Load_def)
  show ?thesis
  proof (cases "PendingKeyActivationID r = q")
    case False
    have "PendingKeyActivationID r \<noteq> [] \<longrightarrow> CurrentKeyID s = PendingKeyActivationID r"
      using r(2) openSecrets_Inr validateSessionSecrets_iff by (auto simp: opened_def)
    then have "PendingKeyActivationID r = []" using False cur by auto
    then show ?thesis using res load False d l act by (auto simp: activateIssuedV1_def only_session_def)
  next
    case True
    have q: "q = [] \<or> opaqueIDPattern q" using r(1) True by (auto simp: record_ok_iff lifecycle_ok_def)
    obtain w2 where c1: "call_runtime W ?w1 (ActivateStreamKey r) = (None, w2)" "w2 = ?w1\<lparr>runtime_calls := runtime_calls w @ [ActivateStreamKey r]\<rparr>"
      using res load True ok bad by (auto simp: activateIssuedV1_def call_runtime_def split: option.splits)
    let ?f = "\<lambda>E d. CompleteKeyActivation E d sid q" and ?E = "env_of W (accesses w2)"
    obtain u w3 where c2: "store_call_of W w2 ?f = (Inr u, w3)" and out: "out = writeRunnerJSONV1 [] 200 (json_key_issue_response response)" "w' = w3"
      using res load True ok bad c1(1) by (auto simp: activateIssuedV1_def split: sum.splits prod.splits)
    have qo: "opaqueIDPattern q" using c2 q by (auto simp: store_call_of_def CompleteKeyActivation_def fails_def Let_def split: if_splits prod.splits)
    then have qn: "q \<noteq> []" by (auto simp: opaqueIDPattern_def)
    have st: "CompleteKeyActivation_step q r (Some s) = Inr ((), Some (r\<lparr>PendingKeyActivationID := []\<rparr>))"
      using qn True cur act by (simp add: CompleteKeyActivation_step_def)
    have f: "?f ?E d = update_session ?E d sid (CompleteKeyActivation_step q)" for d using qo by (simp add: CompleteKeyActivation_def)
    have w2: "disk_ok K (store w2)" "Load K (store w2) sid = Inr (r, Some s)" "store w2 = store w" using d l c1(2) by simp_all
    obtain d' x where d': "store_call_of W w2 ?f = (Inr (), w2\<lparr>accesses := Suc (accesses w2), store := d'\<rparr>)" "disk_ok K d'"
        "only_session sid w2 (w2\<lparr>store := d'\<rparr>)" "Load K d' sid = Inr (r\<lparr>PendingKeyActivationID := []\<rparr>\<lparr>IntegritySHA256 := x\<rparr>, Some s)"
      using calm_call [where f = ?f, OF Q w2(1,2) activation.plain_op_axioms _ f st] by blast
    have w3: "w3 = w2\<lparr>accesses := Suc (accesses w2), store := d'\<rparr>" using c2 d'(1) by simp
    have "snd (update_session ?E (store w2) sid (CompleteKeyActivation_step q)) = d'"
      using d'(1) f by (auto simp: store_call_of_def reach_store_def Let_def calmD(4) [OF Q] split: prod.splits dest: arg_cong [of _ _ store])
    moreover have "disk_ok ?E (store w2)" using w2(1) F(5) by simp
    ultimately have "map fst (Files d') = map fst (Files (store w))"
      using activation.update_keys [OF F(2), of "accesses w2" "store w2" sid q] w2(3) by simp
    then show ?thesis using out w3 d' act w2(3) by (auto simp: only_session_def not_active_def)
  qed
qed

lemma out_statuses [simp]:
  "OutStatus (error_out n c) = n" "OutStatus (writeRunnerJSONV1 h n v) = n" "OutStatus (http_status n) = n"
  by (simp_all add: error_out_def writeRunnerErrorV1_def writeRunnerJSONV1_def http_status_def)

lemma key_errors: "OutStatus (keyIssueErrorV1 e) \<noteq> 200"
  by (simp add: keyIssueErrorV1_def)

lemma server_steps:
  "nowV1 W w = (t, w') \<Longrightarrow> store w' = store w \<and> accesses w' = accesses w \<and> runtime_calls w' = runtime_calls w"
  "randomHexV1 W pre n w = (res, w') \<Longrightarrow> store w' = store w \<and> accesses w' = accesses w \<and> runtime_calls w' = runtime_calls w"
  "grantExpiryV1 W r a w = (g, w') \<Longrightarrow> store w' = store w \<and> accesses w' = accesses w \<and> runtime_calls w' = runtime_calls w"
  by (auto simp: nowV1_def randomHexV1_def grantExpiryV1_def Let_def split: option.splits if_splits prod.splits)

text \<open>The way through the handler that ends with a key.\<close>

lemma stream_key_200:
  assumes "handleStreamKeyV1 W ttl runnerID a body w = (out, w')" and "OutStatus out = 200"
  obtains r s w1 g w2 issue secret w3 key now w4 recorded replay w5 p where
    "store_find W w runnerID = (Inr (r, Some s), w1)" "\<not> not_active r" "grantExpiryV1 W r a w1 = (Some g, w2)"
    "ValidateStreamKeyIssueRequestV1 issue = None" "randomHexV1 W [] 32 w2 = (Inr secret, w3)"
    "BuildPrivateIngestStreamKeyV1 (RunnerSessionID r) secret = Inr key" "nowV1 W w3 = (now, w4)"
    "p = \<lparr>RespRequestID = RequestID issue, StreamKey = key, KeyExpiresAt = format_seconds (if now + ttl > g then g else now + ttl)\<rparr>"
    "Audience issue = PublisherMode (SessionParams (CreateRequest s))"
    "store_call_of W w4 (\<lambda>E d. RecordKeyIssue E d (BrokerSessionID r) issue p) = (Inr (recorded, replay), w5)"
    "activateIssuedV1 W (BrokerSessionID r) (RequestID issue) recorded w5 = (out, w')"
proof -
  obtain r s w1 where 1: "store_find W w runnerID = (Inr (r, Some s), w1)" "\<not> not_active r"
    using assms by (auto simp: handleStreamKeyV1_def Let_def not_active_def split: prod.splits sum.splits option.splits if_splits)
  obtain g w2 where 2: "grantExpiryV1 W r a w1 = (Some g, w2)"
    using assms 1 by (auto simp: handleStreamKeyV1_def Let_def not_active_def split: prod.splits option.splits if_splits)
  obtain issue where 3: "ValidateStreamKeyIssueRequestV1 issue = None" "Audience issue = PublisherMode (SessionParams (CreateRequest s))"
      "issueKeyV1 W ttl r g issue w2 = (out, w')"
    using assms 1 2 by (auto simp: handleStreamKeyV1_def Let_def not_active_def split: option.splits if_splits)
  obtain secret w3 where 4: "randomHexV1 W [] 32 w2 = (Inr secret, w3)"
    using 3(3) assms(2) by (auto simp: issueKeyV1_def split: prod.splits sum.splits)
  obtain key where 5: "BuildPrivateIngestStreamKeyV1 (RunnerSessionID r) secret = Inr key"
    using 3(3) 4 assms(2) by (auto simp: issueKeyV1_def split: sum.splits)
  obtain now w4 where 6: "nowV1 W w3 = (now, w4)" by fastforce
  let ?p = "\<lparr>RespRequestID = RequestID issue, StreamKey = key, KeyExpiresAt = format_seconds (if now + ttl > g then g else now + ttl)\<rparr>"
  obtain res w5 where 7: "store_call_of W w4 (\<lambda>E d. RecordKeyIssue E d (BrokerSessionID r) issue ?p) = (res, w5)" by fastforce
  then obtain recorded replay where "res = Inr (recorded, replay)" "activateIssuedV1 W (BrokerSessionID r) (RequestID issue) recorded w5 = (out, w')"
    using 3(3) 4 5 6 assms(2) key_errors by (auto simp: issueKeyV1_def Let_def split: sum.splits)
  with that [OF 1 2 3(1) 4 5 6 _ 3(2)] 7 show ?thesis by blast
qed

text \<open>Text of a built key.\<close>

lemma built_key_ascii:
  assumes "BuildPrivateIngestStreamKeyV1 rid secret = Inr key"
  shows "valid_utf8 key"
proof -
  have rid: "opaqueIDPattern rid" and key: "key = rid @ ''?token='' @ query_escape secret"
    using assms by (auto simp: BuildPrivateIngestStreamKeyV1_def IngestMediaPathV1_def fails_def split: if_splits)
  have "(of_char c :: nat) < 128" if "c \<in> set (query_escape secret)" for c
    using that
  proof (induction secret)
    case (Cons x xs)
    have hex: "(of_char (upper_hex_char n) :: nat) < 128" if "n < 16" for n
      using that by (auto simp: upper_hex_char_def Let_def)
    show ?case
      using Cons hex [of "of_char x div 16"] hex [of "of_char x mod 16"] of_char_nibbles [of x]
      by (auto simp: query_safe_def is_alnum_def is_digit_def is_upper_def is_lower_def split: if_splits)
  qed simp
  then show ?thesis
    by (intro valid_utf8_ascii) (use opaque_ascii [OF rid] in \<open>auto simp: key\<close>)
qed

lemma find_calm:
  assumes Q: "calm K W" and K: "crypto_ok K" and d: "disk_ok K (store w)" and find: "store_find W w rid = (Inr (r, so), w1)"
  shows "w1 = w\<lparr>accesses := Suc (accesses w)\<rparr>" "RunnerSessionID r = rid" "Load K (store w) (BrokerSessionID r) = Inr (r, so)"
    "\<And>n. LoadByRunnerSessionID (env_of W n) (store w) rid = Inr (r, so)" "opaqueIDPattern rid"
proof -
  let ?E = "env_of W (accesses w)"
  note F = friendlyD [OF calm_friendly [OF Q]]
  show "w1 = w\<lparr>accesses := Suc (accesses w)\<rparr>" using find by (simp add: store_find_def reach_store_calm [OF Q])
  have l: "LoadByRunnerSessionID ?E (store w) rid = Inr (r, so)" using find by (simp add: store_find_def reach_store_calm [OF Q])
  from lookup_loads [OF this] obtain sid where s: "RunnerSessionID r = rid" "Load K (store w) sid = Inr (r, so)" using F(4) by auto
  then show "RunnerSessionID r = rid" "Load K (store w) (BrokerSessionID r) = Inr (r, so)"
    using load_Inr [OF K d] by (auto simp: Load_def)
  show "opaqueIDPattern rid" using l by (auto simp: LoadByRunnerSessionID_def split: if_splits)
  have same: "findByRunnerV1 (env_of W n) (store w) rid ids = findByRunnerV1 ?E (store w) rid ids" for n ids
    using F(4) [of n] F(4) [of "accesses w"] by (induction ids) (simp_all add: Load_def fun_eq_iff split: sum.splits)
  then show "LoadByRunnerSessionID (env_of W n) (store w) rid = Inr (r, so)" for n
    using l calmD(2) [OF Q, of n] unfolding LoadByRunnerSessionID_def same [of n] by (simp split: if_splits)
qed

text \<open>
  (C23) A key that the server hands out works, until it expires: an answer of 200 carries a private stream
  key, and from then on MediaMTX may let a publisher in on the path and with the token of that key exactly
  while it is not expired.  This holds for a key issued first, for one that replaces another and was
  activated, and for the answer to a repeated request; the keys of the store stay keys that the server
  built.
\<close>

theorem issued_key_publishes:
  assumes K: "crypto_ok K" and Q: "calm K W" and d: "reachable K (store w)" and built: "keys_built K (store w)"
    and res: "handleStreamKeyV1 W ttl runnerID authorization body w = (out, w')" and ok: "OutStatus out = 200"
  shows "\<exists>p path token expires. out = writeRunnerJSONV1 [] 200 (json_key_issue_response p) \<and>
    ParsePrivateIngestStreamKeyV1 (StreamKey p) = Some (path, token) \<and> KeyExpiresAt p = Stamp expires \<and>
    IngestMediaPathV1 runnerID = Inr path \<and> keys_built K (store w') \<and>
    (\<forall>n root t request. 32 \<le> length root \<longrightarrow> AuthProtocol request = ''rtmp'' \<longrightarrow> AuthAction request = ''publish'' \<longrightarrow>
       AuthPath request = path \<longrightarrow> AuthToken request = token \<longrightarrow>
       Authorize (env_of W n) (Some (LoadByRunnerSessionID (env_of W n) (store w'))) root t request = (t < expires))"
proof -
  note F = friendlyD [OF calm_friendly [OF Q]] and dok = reachable_disk_ok [OF d]
  obtain r s w1 g w2 issue secret w3 key now w4 recorded replay w5 p where h:
    "store_find W w runnerID = (Inr (r, Some s), w1)" "\<not> not_active r" "grantExpiryV1 W r authorization w1 = (Some g, w2)"
    "ValidateStreamKeyIssueRequestV1 issue = None" "randomHexV1 W [] 32 w2 = (Inr secret, w3)"
    "BuildPrivateIngestStreamKeyV1 (RunnerSessionID r) secret = Inr key" "nowV1 W w3 = (now, w4)"
    "p = \<lparr>RespRequestID = RequestID issue, StreamKey = key, KeyExpiresAt = format_seconds (if now + ttl > g then g else now + ttl)\<rparr>"
    "Audience issue = PublisherMode (SessionParams (CreateRequest s))"
    "store_call_of W w4 (\<lambda>E d. RecordKeyIssue E d (BrokerSessionID r) issue p) = (Inr (recorded, replay), w5)"
    "activateIssuedV1 W (BrokerSessionID r) (RequestID issue) recorded w5 = (out, w')"
    by (rule stream_key_200 [OF res ok])
  let ?sid = "BrokerSessionID r"
  note find = find_calm [OF Q K dok h(1)]
  have w4: "store w4 = store w" using server_steps h(3,5,7) find(1) by (metis client.select_convs(1) client.surjective client.update_convs(2))
  have l4: "disk_ok K (store w4)" "Load K (store w4) ?sid = Inr (r, Some s)" using w4 dok find(3) by simp_all
  have req: "opaqueIDPattern (RequestID issue)" "Audience issue = ''gateway-relay'' \<or> Audience issue = ''direct-publisher''"
    using h(4) by (auto simp: ValidateStreamKeyIssueRequestV1_def split: if_splits)
  have "valid_utf8 ''gateway-relay''" "valid_utf8 ''direct-publisher''" by (simp_all add: Let_def)
  then have adm: "list_all valid_utf8 (issue_texts issue p)"
    using req valid_utf8_opaque [OF req(1)] built_key_ascii [OF h(6)]
    by (auto simp: issue_texts_def h(8) format_seconds_def stamp_texts_def)
  obtain r1 s1 i where i: "Load K (store w5) ?sid = Inr (r1, Some s1)" "disk_ok K (store w5)" "only_session ?sid w4 w5"
    "map fst (Files (store w5)) = map fst (Files (store w4))" "RunnerSessionID r1 = RunnerSessionID r" "\<not> not_active r1"
    "CurrentKeyID s1 = RequestID issue" "map_of (KeyIssues s1) (RequestID issue) = Some i" "IssueResponse i = recorded"
    "if replay then s1 = s else recorded = p"
    by (rule issue_calm [OF Q l4 adm h(10)])
  obtain r2 where a: "out = writeRunnerJSONV1 [] 200 (json_key_issue_response recorded)" "only_session ?sid w5 w'"
    "map fst (Files (store w')) = map fst (Files (store w5))" "Load K (store w') ?sid = Inr (r2, Some s1)"
    "RunnerSessionID r2 = RunnerSessionID r1" "\<not> not_active r2" "PendingKeyActivationID r2 = []"
    using activate_issued [OF Q i(2,1,6,7) h(11) ok] by blast
  have "\<exists>secret. BuildPrivateIngestStreamKeyV1 runnerID secret = Inr (StreamKey recorded)"
  proof (cases replay)
    case True
    then have "map_of (KeyIssues s) (CurrentKeyID s) = Some i" using i(7,8,10) by simp
    then show ?thesis using built find(2,3) i(9) by (auto simp: keys_built_def)
  next
    case False
    then show ?thesis using i(10) h(6,8) find(2) by auto
  qed
  then obtain token where tok: "BuildPrivateIngestStreamKeyV1 runnerID token = Inr (StreamKey recorded)" by blast
  then have parse: "ParsePrivateIngestStreamKeyV1 (StreamKey recorded) = Some (''ingest/'' @ runnerID, token)"
    using stream_key_roundtrip by blast
  have K0: "crypto_ok (env_of W 0)" "disk_ok (env_of W 0) (store w5)" "Load (env_of W 0) (store w5) ?sid = Inr (r1, Some s1)" using F i(1,2) by auto
  have "opened (env_of W 0) r1 (Some s1)" using load_Inr [OF K0(1,2)] K0(3) by (auto simp: Load_def)
  then have "keyIssueOK (env_of W 0) (CurrentKeyID s1) (RequestID issue, i) = None"
    using openSecrets_Inr validateSessionSecrets_iff map_of_SomeD [OF i(8)] by (auto simp: opened_def)
  then have "ValidateStreamKeyIssueResponseV1 (IssueRequest i) recorded = None"
    using i(7,9) by (auto simp: keyIssueOK_def split: if_splits)
  then obtain expires where ex: "KeyExpiresAt recorded = Stamp expires"
    by (cases "KeyExpiresAt recorded") (auto simp: ValidateStreamKeyIssueResponseV1_def parse_stamp_def split: if_splits)
  have others: "map_of (Files (store w')) x = map_of (Files (store w)) x" if "x \<noteq> ?sid" for x
    using that i(3) a(2) w4 by (simp add: only_session_def)
  have found: "LoadByRunnerSessionID (env_of W n) (store w') runnerID = Inr (r2, Some s1)" for n
  proof -
    have E: "crypto_ok (env_of W n)" "disk_ok (env_of W n) (store w)" "Load (env_of W n) (store w) ?sid = Inr (r, Some s)"
        "Load (env_of W n) (store w') ?sid = Inr (r2, Some s1)" using F dok find(3) a(4) by simp_all
    show ?thesis
      using lookup_after [OF E others] find(2,4) a(3,5) i(4,5) w4 by simp
  qed
  have "keys_built K (store w')"
    unfolding keys_built_def
  proof (intro allI impI)
    fix x q t j assume x: "Load K (store w') x = Inr (q, Some t)" "map_of (KeyIssues t) (CurrentKeyID t) = Some j"
    show "\<exists>secret. BuildPrivateIngestStreamKeyV1 (RunnerSessionID q) secret = Inr (StreamKey (IssueResponse j))"
    proof (cases "x = ?sid")
      case True
      then show ?thesis using x a(4,5) i(5,7-9) tok find(2) by auto
    next
      case False
      then show ?thesis using x built load_frame [OF others [OF False], of K] unfolding keys_built_def by metis
    qed
  qed
  moreover have "Authorize (env_of W n) (Some (LoadByRunnerSessionID (env_of W n) (store w'))) root t request = (t < expires)"
    if "32 \<le> length root" "AuthProtocol request = ''rtmp''" "AuthAction request = ''publish''"
      "AuthPath request = ''ingest/'' @ runnerID" "AuthToken request = token" for n root t request
  proof -
    have "parseMediaPathV1 (AuthPath request) = Some (''ingest'', runnerID, [])"
      unfolding that(4) parseMediaPathV1_def using clean_ingest [OF find(5)] find(5) by simp
    moreover have "publishAllowedV1 (env_of W n) t request r2 s1 = (t < expires)"
      using a(7) i(7-9) parse ex that(4,5) by (simp add: publishAllowedV1_def parse_stamp_def secureEqualV1_def)
    ultimately show ?thesis
      using that found a(6) by (simp add: Authorize_def not_active_def)
  qed
  moreover have "IngestMediaPathV1 runnerID = Inr (''ingest/'' @ runnerID)" using find(5) by (simp add: IngestMediaPathV1_def)
  ultimately show ?thesis using a(1) parse ex by blast
qed

subsection \<open>Ending a session\<close>

lemma begin_calm:
  assumes K: "crypto_ok K" and Q: "calm K W" and d: "disk_ok K (store w)" and l: "Load K (store w) sid = Inr (r, so)" and act: "State r = ''active''"
    and reason: "validCloseReasonV1 reason" and call: "store_call_of W w (\<lambda>E d. BeginTermination E d sid reason) = (res, w1)"
  obtains r0 r1 b where "res = Inr (r0, b)" "w1 = w\<lparr>accesses := Suc (accesses w), store := store w1\<rparr>" "disk_ok K (store w1)"
    "Load K (store w1) sid = Inr (r1, so)" "only_session sid w w1" "map fst (Files (store w1)) = map fst (Files (store w))"
    "\<exists>x. r1 = r0\<lparr>IntegritySHA256 := x\<rparr>" "Stopping r1" "State r1 = ''active''"
    "PendingCloseReason r1 = (if Stopping r then PendingCloseReason r else reason)" "RunnerSessionID r1 = RunnerSessionID r"
    "OutputStateSince r1 = OutputStateSince r" "LastSequence r1 = LastSequence r" "UsageTotal r1 = UsageTotal r" "BrokerSessionID r1 = sid"
proof -
  let ?E = "env_of W (accesses w)" and ?f = "\<lambda>E d. BeginTermination E d sid reason" and ?step = "beginTerminalV1_step reason ''ended''"
  note F = friendlyD [OF calm_friendly [OF Q]]
  have dd: "disk_ok ?E (store w)" "Load ?E (store w) sid = Inr (r, so)" using d l F by simp_all
  have f: "?f ?E d = update_session ?E d sid ?step" for d using reason by (simp add: BeginTermination_def beginTerminalV1_def)
  have w1: "w1 = w\<lparr>accesses := Suc (accesses w), store := store w1\<rparr>" and u: "update_session ?E (store w) sid ?step = (res, store w1)"
    using call f by (auto simp: store_call_of_def reach_store_def Let_def calmD(4) [OF Q] split: prod.splits)
  have keys: "map fst (Files (store w1)) = map fst (Files (store w))" "disk_ok K (store w1)" "only_session sid w w1"
    using begin_terminal.update_keys [OF F(2) dd(1), of sid reason "''ended''"] begin_terminal.update_keeps [OF F(2) dd(1), of sid reason "''ended''"]
      begin_terminal.update_frame(1) [OF F(2) dd(1), of sid reason "''ended''"] reason F(5) by (simp_all add: u only_session_def)
  have sid: "BrokerSessionID r = sid" using load_Inr [OF K d] l by (simp add: Load_def)
  have pc: "Stopping r \<Longrightarrow> PendingCloseReason r \<noteq> []" using load_Inr [OF K d] l by (auto simp: Load_def record_ok_iff lifecycle_ok_def)
  show ?thesis
  proof (cases "Stopping r")
    case True
    then have "res = Inr (r, False)" "store w1 = store w"
      using u dd(2) act by (auto simp: update_session_def beginTerminalV1_step_def Load_def)
    then show ?thesis
      by (intro that [where ?r1.0 = r and ?r0.0 = r and b = False, OF _ w1 keys(2) _ keys(3,1)]) (use True act l sid in \<open>auto intro: exI [of _ "IntegritySHA256 r"]\<close>)
  next
    case False
    let ?r0 = "r\<lparr>Stopping := True, PendingCloseReason := reason, PendingTerminalState := ''ended'', PendingKeyActivationID := []\<rparr>"
    have st: "?step r so = Inr ((?r0, True), Some ?r0)" using False act by (simp add: beginTerminalV1_step_def Let_def)
    have adm: "\<forall>r::SessionRecordV1. validCloseReasonV1 reason \<and> (''ended'' = ''ended'' \<or> ''ended'' = ''failed'')" using reason by simp
    obtain d' x where c: "store_call_of W w ?f = (Inr (?r0, True), w\<lparr>accesses := Suc (accesses w), store := d'\<rparr>)"
        "Load K d' sid = Inr (?r0\<lparr>IntegritySHA256 := x\<rparr>, so)"
      using calm_call [where f = ?f, OF Q d l begin_terminal.plain_op_axioms adm f st] by blast
    have "res = Inr (?r0, True)" "w1 = w\<lparr>accesses := Suc (accesses w), store := d'\<rparr>" using call c(1) by simp_all
    moreover from this have "store w1 = d'" by simp
    ultimately have *: "res = Inr (?r0, True)" "Load K (store w1) sid = Inr (?r0\<lparr>IntegritySHA256 := x\<rparr>, so)" using c(2) by simp_all
    show ?thesis
    proof (rule that [OF *(1) w1 keys(2) *(2) keys(3,1)])
      show "\<exists>y. ?r0\<lparr>IntegritySHA256 := x\<rparr> = ?r0\<lparr>IntegritySHA256 := y\<rparr>" by blast
    qed (use False act sid in simp_all)
  qed
qed

definition clock_runs :: "server_setting \<Rightarrow> bool" where
  "clock_runs W \<longleftrightarrow> (\<forall>n. server_clock W n \<noteq> zero_time)"

lemma terminate_active:
  assumes K: "crypto_ok K" and Q: "calm K W" and ob: "obliging W" and clk: "clock_runs W" and d: "disk_ok K (store w)"
    and body: "decodeRunnerRequestV1 dec_terminate \<lparr>Reason = []\<rparr> body = Some \<lparr>Reason = reason\<rparr>" and reason: "validCloseReasonV1 reason"
    and find: "store_find W w rid = (Inr (r, so), w1)" and act: "State r = ''active''" and len: "event_id_fits r"
    and seq: "LastSequence r \<noteq> max_u64"
  shows "\<exists>r' w'. handleTerminateV1 W rid body w = (terminateOutV1 r', w') \<and> terminalV1 r' \<and> RunnerSessionID r' = rid \<and>
    CloseReason r' = (if Stopping r then PendingCloseReason r else reason) \<and> UsageTotal r' = UsageTotal r \<and>
    disk_ok K (store w') \<and> (\<forall>n. LoadByRunnerSessionID (env_of W n) (store w') rid = Inr (r', so))"
proof -
  note fnd = find_calm [OF Q K d find] and F = friendlyD [OF calm_friendly [OF Q]]
  let ?sid = "BrokerSessionID r"
  have d1: "disk_ok K (store w1)" "Load K (store w1) ?sid = Inr (r, so)" using d fnd(1,3) by simp_all
  obtain res w2 where c: "store_call_of W w1 (\<lambda>E d. BeginTermination E d ?sid reason) = (res, w2)" by fastforce
  obtain r0 r1 b where b: "res = Inr (r0, b)" "w2 = w1\<lparr>accesses := Suc (accesses w1), store := store w2\<rparr>" "disk_ok K (store w2)"
    "Load K (store w2) ?sid = Inr (r1, so)" "only_session ?sid w1 w2" "map fst (Files (store w2)) = map fst (Files (store w1))"
    "\<exists>x. r1 = r0\<lparr>IntegritySHA256 := x\<rparr>" "Stopping r1" "State r1 = ''active''"
    "PendingCloseReason r1 = (if Stopping r then PendingCloseReason r else reason)" "RunnerSessionID r1 = RunnerSessionID r"
    "OutputStateSince r1 = OutputStateSince r" "LastSequence r1 = LastSequence r" "UsageTotal r1 = UsageTotal r" "BrokerSessionID r1 = ?sid"
    by (rule begin_calm [OF K Q d1 act reason c])
  have ok1: "record_ok r1" using load_Inr [OF K b(3)] b(4) by (simp add: Load_def)
  then have life: "validCloseReasonV1 (PendingCloseReason r1)" "PendingTerminalState r1 = ''ended'' \<or> PendingTerminalState r1 = ''failed''"
    using b(8) by (auto simp: record_ok_iff lifecycle_ok_def)
  have r0: "State r0 = ''active''" "Stopping r0" "validCloseReasonV1 (PendingCloseReason r0)" "BrokerSessionID r0 = ?sid"
    using b(7-9,15) life(1) by auto
  obtain now w3 where n: "nowV1 W w2 = (now, w3)" "now \<noteq> zero_time" "store w3 = store w2"
    using clk by (auto simp: nowV1_def clock_runs_def)
  let ?w4 = "w3\<lparr>runtime_calls := runtime_calls w3 @ [TerminateSession r0]\<rparr>"
  have d4: "disk_ok K (store ?w4)" "Load K (store ?w4) ?sid = Inr (r1, so)" using b(3,4) n(3) by simp_all
  have fit: "event_id_fits r1" "LastSequence r1 \<noteq> max_u64" using len seq b(11-13) by (simp_all add: event_id_fits_def)
  obtain r' d' where fin: "FinalizeLiveTerminationV1 W ?sid now ?w4 = (Inr r', ?w4\<lparr>accesses := accesses ?w4 + 3, store := d'\<rparr>)"
    "disk_ok K d'" "Load K d' ?sid = Inr (r', so)" "State r' = PendingTerminalState r1" "CloseReason r' = PendingCloseReason r1"
    "UsageTotal r' = UsageTotal r1" "RunnerSessionID r' = RunnerSessionID r1"
    "\<forall>x. x \<noteq> ?sid \<longrightarrow> map_of (Files d') x = map_of (Files (store ?w4)) x" "map fst (Files d') = map fst (Files (store ?w4))"
    using finalize_calm [OF K Q d4 b(9,8) fit n(2)] by blast
  have "CompleteLiveTerminationV1 W r0 now w3 = (Inr r', ?w4\<lparr>accesses := accesses ?w4 + 3, store := d'\<rparr>)"
    using r0 ob fin(1) by (simp add: CompleteLiveTerminationV1_def call_runtime_def obliging_def)
  then have h: "handleTerminateV1 W rid body w = (terminateOutV1 r', ?w4\<lparr>accesses := accesses ?w4 + 3, store := d'\<rparr>)"
    using body reason find act c b(1) n(1) by (simp add: handleTerminateV1_def)
  have others: "map_of (Files d') x = map_of (Files (store w)) x" if "x \<noteq> ?sid" for x
    using fin(8) that b(5) n(3) fnd(1) by (simp add: only_session_def)
  have "LoadByRunnerSessionID (env_of W n) d' rid = Inr (r', so)" for n
  proof -
    have E: "crypto_ok (env_of W n)" "disk_ok (env_of W n) (store w)" "Load (env_of W n) (store w) ?sid = Inr (r, so)"
        "Load (env_of W n) d' ?sid = Inr (r', so)" using F d fnd(3) fin(3) by simp_all
    show ?thesis using lookup_after [OF E others] fnd(1,2,4) fin(7,9) b(6,11) n(3) by simp
  qed
  moreover have "terminalV1 r'" using fin(4) life(2) by (auto simp: terminalV1_def)
  ultimately show ?thesis
    using h fin(2,5-7) b(10,11,14) fnd(2)
    by (intro exI [of _ r'] exI [of _ "?w4\<lparr>accesses := accesses ?w4 + 3, store := d'\<rparr>"]) auto
qed

text \<open>
  Ending a session by request is final and repeatable: the request ends an active session with the
  reason that it names, or the earlier one if the session was stopping already, and answers with its terminal
  record; repeating the request, with whatever reason, gives the same answer and changes nothing.
\<close>

theorem terminate_is_repeatable:
  assumes K: "crypto_ok K" and Q: "calm K W" and ob: "obliging W" and clk: "clock_runs W" and d: "reachable K (store w)"
    and body: "decodeRunnerRequestV1 dec_terminate \<lparr>Reason = []\<rparr> body = Some \<lparr>Reason = reason\<rparr>" "validCloseReasonV1 reason"
    and again: "decodeRunnerRequestV1 dec_terminate \<lparr>Reason = []\<rparr> body' = Some \<lparr>Reason = reason'\<rparr>" "validCloseReasonV1 reason'"
    and find: "LoadByRunnerSessionID (env_of W (accesses w)) (store w) rid = Inr (r, so)" and act: "State r = ''active''"
    and len: "event_id_fits r" and seq: "LastSequence r \<noteq> max_u64"
  shows "\<exists>r' w' w''. handleTerminateV1 W rid body w = (terminateOutV1 r', w') \<and> terminalV1 r' \<and> RunnerSessionID r' = rid \<and>
    CloseReason r' = (if Stopping r then PendingCloseReason r else reason) \<and> UsageTotal r' = UsageTotal r \<and>
    handleTerminateV1 W rid body' w' = (terminateOutV1 r', w'') \<and> store w'' = store w' \<and> runtime_calls w'' = runtime_calls w'"
proof -
  have f: "store_find W w rid = (Inr (r, so), w\<lparr>accesses := Suc (accesses w)\<rparr>)"
    using find by (simp add: store_find_def reach_store_calm [OF Q])
  obtain r' w' where h: "handleTerminateV1 W rid body w = (terminateOutV1 r', w')" "terminalV1 r'" "RunnerSessionID r' = rid"
    "CloseReason r' = (if Stopping r then PendingCloseReason r else reason)" "UsageTotal r' = UsageTotal r"
    "\<forall>n. LoadByRunnerSessionID (env_of W n) (store w') rid = Inr (r', so)"
    using terminate_active [OF K Q ob clk reachable_disk_ok [OF d] body f act len seq] by blast
  have "handleTerminateV1 W rid body' w' = (terminateOutV1 r', w'\<lparr>accesses := Suc (accesses w')\<rparr>)"
    using again h(2,6) by (auto simp: handleTerminateV1_def store_find_def reach_store_calm [OF Q] terminalV1_def)
  with h show ?thesis by (intro exI [of _ r'] exI [of _ w'] exI [of _ "w'\<lparr>accesses := Suc (accesses w')\<rparr>"]) simp
qed

end
