(* ===== verification/Recovery_Witnesses.thy ===== *)
theory Recovery_Witnesses
  imports Recovery_Properties Session_Witnesses
begin

section \<open>The example session brought to its end\<close>

text \<open>
  A runtime that does what it is asked, with the store to itself, and the same one with another goroutine
  that clears the secrets of the session once it has ended.
\<close>

definition obliging_setting :: runtime_setting where
  "obliging_setting = \<lparr>env_of = (\<lambda>_. example_env), between = (\<lambda>_ d. d), runtime_answer = (\<lambda>_ _. None)\<rparr>"

definition busy_setting :: setting where
  "busy_setting = \<lparr>env_of = (\<lambda>_. example_env), between = (\<lambda>_ d. exec example_env (CallClear ''s1'') d)\<rparr>"

definition starting :: "disk \<Rightarrow> runtime_client" where
  "starting d = \<lparr>store = d, accesses = 0, runtime_calls = []\<rparr>"

lemma obliging_calm: "calm example_env obliging_setting" "obliging obliging_setting"
  by (simp add: calm_def obliging_setting_def same_keys_def, auto simp: crypto_ok_def example_env_def min_def zero_time_def)
    (simp add: obliging_def obliging_setting_def)

lemma busy_friendly: "friendly example_env busy_setting"
  using runs_one [of _ "CallClear ''s1''"] by (simp add: friendly_def busy_setting_def)

lemma stopping_fits:
  assumes "RunnerSessionID r = ''r1''" and "OutputStateSince r = format_nano 5"
  shows "event_id_fits r"
proof -
  have "length (rfc3339_nano_text 5) \<le> 64" by code_simp
  with assms show ?thesis by (simp add: event_id_fits_def format_nano_def stamp_text_def)
qed

lemma small_sequence: "max_u64 \<noteq> 0"
  by (simp add: max_u64_def)

theorem finalize_wins_races_witness:
  "\<exists>r' w'. FinalizeLiveTerminationV1 busy_setting ''s1'' 9 (starting stopping_disk) = (Inr r', w') \<and>
     CloseReason r' = ''customer_end''"
proof -
  obtain r so where l: "Load example_env stopping_disk ''s1'' = Inr (r, so)" "Stopping r" "PendingCloseReason r = ''customer_end''"
      "RunnerSessionID r = ''r1''" "LastSequence r = 0" "OutputStateSince r = format_nano 5"
    using stopping_load(2) by blast
  have "\<exists>r' so' w'. FinalizeLiveTerminationV1 busy_setting ''s1'' 9 (starting stopping_disk) = (Inr r', w') \<and>
      Load example_env (store w') ''s1'' = Inr (r', so') \<and> terminalV1 r' \<and> CloseReason r' = PendingCloseReason r \<and> UsageTotal r' = UsageTotal r"
    by (rule finalize_wins_races [OF example_env_ok busy_friendly, where w = "starting stopping_disk" and so = so])
      (use l stopping_load(1) stopping_fits small_sequence in \<open>simp_all add: starting_def busy_setting_def zero_time_def\<close>)
  then show ?thesis using l(3) by auto
qed

theorem recovery_settles_every_session_witness:
  "\<exists>w'. RecoverLiveSessionsV1 obliging_setting (starting stopping_disk) = (None, w') \<and>
     (\<exists>r' so'. Load example_env (store w') ''s1'' = Inr (r', so') \<and> CloseReason r' = ''customer_end'') \<and> runtime_calls w' \<noteq> []"
proof -
  obtain r so where l: "Load example_env stopping_disk ''s1'' = Inr (r, so)" "State r = ''active''"
      "Stopping r" "PendingCloseReason r = ''customer_end''" "RunnerSessionID r = ''r1''" "LastSequence r = 0"
      "OutputStateSince r = format_nano 5"
    using stopping_load(2) by blast
  have one: "map_of (Files stopping_disk) x = None" if "x \<noteq> ''s1''" for x
    using begin_terminal.update_frame(1) [of example_env example_disk "''s1''" "''customer_end''" "''ended''" x]
      that reachable_disk_ok [OF example_reachable]
    by (simp add: stopping_disk_def BeginTermination_def beginTerminalV1_def example_create validCloseReasonV1_def closeReasonsV1_def)
  have fits: "event_id_fits r' \<and> LastSequence r' \<noteq> max_u64" if "Load example_env (store (starting stopping_disk)) sid = Inr (r', so')" for sid r' so'
  proof -
    have l': "Load example_env stopping_disk sid = Inr (r', so')" using that by (simp add: starting_def)
    then have "loadLocked example_env stopping_disk sid = Inr (r', so')" by (simp only: Load_def)
    from load_Inr [OF example_env_ok reachable_disk_ok [OF stopping_load(1)] this]
    have "map_of (Files stopping_disk) sid \<noteq> None" by simp
    then have sid: "sid = ''s1''" using one [of sid] by argo
    have "r' = r" using l' l(1) unfolding sid by simp
    then show ?thesis using l stopping_fits small_sequence by simp
  qed
  have d: "reachable example_env (store (starting stopping_disk))" using stopping_load(1) by (simp add: starting_def)
  have all: "\<exists>w'. RecoverLiveSessionsV1 obliging_setting (starting stopping_disk) = (None, w') \<and>
      (\<forall>sid r so. Load example_env (store (starting stopping_disk)) sid = Inr (r, so) \<longrightarrow> State r = ''active'' \<longrightarrow> settled example_env sid r so w')"
    by (rule recovery_settles_every_session [OF example_env_ok obliging_calm d]) (rule fits)
  have "Load example_env (store (starting stopping_disk)) ''s1'' = Inr (r, so)" using l(1) by (simp add: starting_def)
  then obtain w' where "RecoverLiveSessionsV1 obliging_setting (starting stopping_disk) = (None, w')" "settled example_env ''s1'' r so w'"
    using all l(2) by blast
  then show ?thesis using l(3,4) by (auto simp: settled_def)
qed

end
