(* ===== verification/Server_Witnesses.thy ===== *)
theory Server_Witnesses
  imports Server_Properties Recovery_Witnesses Media_Witnesses
begin

section \<open>The server in front of the example session\<close>

definition serving_setting :: server_setting where
  "serving_setting =
     \<lparr>env_of = (\<lambda>_. example_env), between = (\<lambda>_ d. d), runtime_answer = (\<lambda>_ _. None), validate_session = (\<lambda>_. None),
      server_clock = (\<lambda>_. 6), server_random = (\<lambda>_ n. Some (replicate n CHR ''r'')), media_ready = True\<rparr>"

definition serving :: "disk \<Rightarrow> server_state" where
  "serving d = \<lparr>store = d, accesses = 0, runtime_calls = [], clock_reads = 0, draws = 0\<rparr>"

lemma serving_simps [simp]:
  "env_of serving_setting n = example_env" "store (serving d) = d" "accesses (serving d) = 0" "server_clock serving_setting n = 6"
  "server_random serving_setting k n = Some (replicate n CHR ''r'')" "between serving_setting n d = d"
  by (simp_all add: serving_setting_def serving_def)

lemma serving_calm: "calm example_env serving_setting" "obliging serving_setting" "clock_runs serving_setting"
  by (simp add: calm_def serving_setting_def same_keys_def, auto simp: crypto_ok_def example_env_def min_def zero_time_def)
    (simp_all add: obliging_def clock_runs_def serving_setting_def zero_time_def)

lemma decode_small:
  "length body \<le> 1024 \<Longrightarrow> decodeRunnerRequestV1 dec zero body = DecodeStrictV1 dec zero body"
  by (simp add: decodeRunnerRequestV1_def maxRunnerRequestBodyV1_def)

lemma example_lookup:
  "LoadByRunnerSessionID example_env example_disk ''r1'' =
     Inr (example_record\<lparr>IntegritySHA256 := integrityV1 example_env example_record\<rparr>, Some example_secrets)"
proof -
  have "opaqueIDPattern ''s1''" "opaqueIDPattern ''r1''" by code_simp+
  then show ?thesis using example_load
    by (simp add: LoadByRunnerSessionID_def sessionFileIDs_def example_create Load_def split: if_splits)
qed

theorem status_fits_contract_witness:
  "\<exists>s. fst (handleStatusV1 serving_setting ''r1'' (serving example_disk)) = writeRunnerJSONV1 [] 200 (json_status s) \<and>
     ValidateStatusV1 s = None \<and> StRunnerSessionID s = ''r1''"
proof -
  have d: "reachable example_env (store (serving example_disk))" by simp
  have "OutStatus (fst (handleStatusV1 serving_setting ''r1'' (serving example_disk))) = 200"
    using example_lookup by (simp add: handleStatusV1_def store_find_def reach_store_def Let_def)
  with status_fits_contract [OF example_env_ok calm_friendly [OF serving_calm(1)] d, of "''r1''"] show ?thesis
    by (metis prod.collapse)
qed

theorem terminate_is_repeatable_witness:
  "\<exists>r w' w''. handleTerminateV1 serving_setting ''r1'' ''{\"reason\":\"customer_end\"}'' (serving example_disk) = (terminateOutV1 r, w') \<and>
     CloseReason r = ''customer_end'' \<and>
     handleTerminateV1 serving_setting ''r1'' ''{\"reason\":\"runner_failed\"}'' w' = (terminateOutV1 r, w'') \<and> store w'' = store w'"
proof -
  let ?r = "example_record\<lparr>IntegritySHA256 := integrityV1 example_env example_record\<rparr>"
  have "DecodeStrictV1 dec_terminate \<lparr>Reason = []\<rparr> ''{\"reason\":\"customer_end\"}'' = Some \<lparr>Reason = ''customer_end''\<rparr>"
    "DecodeStrictV1 dec_terminate \<lparr>Reason = []\<rparr> ''{\"reason\":\"runner_failed\"}'' = Some \<lparr>Reason = ''runner_failed''\<rparr>"
    by code_simp+
  then have "decodeRunnerRequestV1 dec_terminate \<lparr>Reason = []\<rparr> ''{\"reason\":\"customer_end\"}'' = Some \<lparr>Reason = ''customer_end''\<rparr>"
    "decodeRunnerRequestV1 dec_terminate \<lparr>Reason = []\<rparr> ''{\"reason\":\"runner_failed\"}'' = Some \<lparr>Reason = ''runner_failed''\<rparr>"
    by (simp_all add: decode_small)
  moreover have "validCloseReasonV1 ''customer_end''" "validCloseReasonV1 ''runner_failed''"
    by code_simp+
  moreover have "reachable example_env (store (serving example_disk))" by simp
  moreover have "OutputStateSince example_record = format_nano 5"
    by (simp add: example_record_def newSessionRecordV1_def example_env_def)
  then have "event_id_fits ?r" "LastSequence ?r \<noteq> max_u64" using stopping_fits [of ?r] small_sequence by simp_all
  moreover have "LoadByRunnerSessionID (env_of serving_setting (accesses (serving example_disk))) (store (serving example_disk)) ''r1'' =
      Inr (?r, Some example_secrets)" using example_lookup by simp
  ultimately have "\<exists>r' w' w''. handleTerminateV1 serving_setting ''r1'' ''{\"reason\":\"customer_end\"}'' (serving example_disk) = (terminateOutV1 r', w') \<and>
      terminalV1 r' \<and> RunnerSessionID r' = ''r1'' \<and> CloseReason r' = (if Stopping ?r then PendingCloseReason ?r else ''customer_end'') \<and>
      UsageTotal r' = UsageTotal ?r \<and> handleTerminateV1 serving_setting ''r1'' ''{\"reason\":\"runner_failed\"}'' w' = (terminateOutV1 r', w'') \<and>
      store w'' = store w' \<and> runtime_calls w'' = runtime_calls w'"
    by (intro terminate_is_repeatable [OF example_env_ok serving_calm, where so = "Some example_secrets" and reason' = "''runner_failed''"])
      (assumption, assumption, assumption, assumption, assumption, assumption, simp_all)
  then show ?thesis by auto
qed

text \<open>The gateway asks for the first key of the example session.\<close>

definition served_key :: StreamKeyIssueResponseV1 where
  "served_key = \<lparr>RespRequestID = ''k1'', StreamKey = ''r1?token='' @ hex_encode (replicate 32 CHR ''r''), KeyExpiresAt = format_seconds 8\<rparr>"

lemma served_key_ok:
  "BuildPrivateIngestStreamKeyV1 ''r1'' (hex_encode (replicate 32 CHR ''r'')) = Inr (StreamKey served_key)"
  "issue_admits key_request served_key"
  "DecodeStrictV1 dec_key_issue \<lparr>RequestID = [], Audience = []\<rparr> ''{\"request_id\":\"k1\",\"audience\":\"gateway-relay\"}'' = Some key_request"
  "bearer_token (Some ''Bearer z'') = Some ''z''" "parse_stamp (Stamp 9) = Some 9"
  by code_simp+

lemma example_keys_built: "keys_built example_env example_disk"
proof -
  have "s = example_secrets" if "Load example_env example_disk sid = Inr (r, Some s)" for sid r s
  proof -
    have "map_of (Files example_disk) sid \<noteq> None"
      using load_Inr [OF example_env_ok reachable_disk_ok [OF example_reachable]] that by (simp add: Load_def)
    then have "sid = ''s1''" by (simp add: example_create split: if_splits)
    then show ?thesis using that example_load by simp
  qed
  moreover have "KeyIssues example_secrets = []" by (simp add: example_secrets_def)
  ultimately show ?thesis by (fastforce simp: keys_built_def)
qed

theorem issued_key_publishes_witness:
  "\<exists>p path token expires. fst (handleStreamKeyV1 serving_setting 2 ''r1'' (Some ''Bearer z'') ''{\"request_id\":\"k1\",\"audience\":\"gateway-relay\"}''
       (serving example_disk)) = writeRunnerJSONV1 [] 200 (json_key_issue_response p) \<and>
     ParsePrivateIngestStreamKeyV1 (StreamKey p) = Some (path, token) \<and> KeyExpiresAt p = Stamp expires"
proof -
  let ?r = "example_record\<lparr>IntegritySHA256 := integrityV1 example_env example_record\<rparr>"
  let ?body = "''{\"request_id\":\"k1\",\"audience\":\"gateway-relay\"}''"
  let ?out = "handleStreamKeyV1 serving_setting 2 ''r1'' (Some ''Bearer z'') ?body (serving example_disk)"
  have f: "store_find serving_setting (serving example_disk) ''r1'' = (Inr (?r, Some example_secrets), (serving example_disk)\<lparr>accesses := 1\<rparr>)"
    using example_lookup by (simp add: store_find_def reach_store_def Let_def)
  have grant: "SecretSHA256 (GrantAudit ?r) = secretSHA256V1 example_env ''z''" "AuditExpiresAt (GrantAudit ?r) = Stamp 9"
    by (simp_all add: example_record_def newSessionRecordV1_def example_response_def)
  have body: "decodeRunnerRequestV1 dec_key_issue \<lparr>RequestID = [], Audience = []\<rparr> ?body = Some key_request"
    using served_key_ok(3) by (simp add: decode_small)
  have ok: "ValidateStreamKeyIssueRequestV1 key_request = None" "Audience key_request = PublisherMode (SessionParams (CreateRequest example_secrets))"
    using served_key_ok(2) by (simp_all add: issue_admits_def) (simp add: key_request_def example_secrets_def example_request_def)
  obtain d r where rec: "RecordKeyIssue example_env example_disk ''s1'' key_request served_key = (Inr (served_key, False), d)"
      "Load example_env d ''s1'' = Inr (r, Some (issuedSecrets example_env key_request served_key example_secrets))" "PendingKeyActivationID r = []"
    by (rule key_issued_with [OF served_key_ok(2)]) (metis exec.simps(3) prod.collapse)
  have k: "RequestID key_request = ''k1''" by (simp add: key_request_def)
  have "bearer_token (Some ''Bearer z'') = Some ''z''" "parse_stamp (Stamp 9) = Some 9" by (rule served_key_ok)+
  then have g: "grantExpiryV1 serving_setting ?r (Some ''Bearer z'') w = (Some 9, w\<lparr>clock_reads := Suc (clock_reads w)\<rparr>)" for w
    using grant by (simp add: grantExpiryV1_def nowV1_def secureEqualV1_def)
  have "OutStatus (fst ?out) = 200"
    using f g body ok rec k served_key_ok(1)
    by (simp add: handleStreamKeyV1_def Let_def issueKeyV1_def randomHexV1_def nowV1_def store_call_of_def reach_store_def
        activateIssuedV1_def store_load_def served_key_def)
  moreover have "reachable example_env (store (serving example_disk))" "keys_built example_env (store (serving example_disk))"
    using example_keys_built by simp_all
  ultimately show ?thesis
    using issued_key_publishes [OF example_env_ok serving_calm(1), of "serving example_disk" 2 "''r1''" "Some ''Bearer z''" ?body]
    by (metis prod.collapse)
qed

end
