(* ===== verification/FFmpeg_Args.thy ===== *)
theory FFmpeg_Args
  imports GPU_Presets Go_Float
begin

section \<open>FFmpeg command lines (transcode-core/ffmpeg.go, filters.go, hls.go, live.go, thumbnail.go, progress.go)\<close>

text \<open>
  The argument vectors the runners start \<open>ffmpeg\<close> and \<open>ffprobe\<close> with, and the text they
  derive from its output.  An \<open>exec.Cmd\<close> is its argument list, program name first.  A Go
  \<open>int\<close> is an \<open>int\<close>: the sources only compare and print it.  The JSON text of
  \<open>ffprobe\<close> is decoded by the standard library; \<open>ParseProbeOutput\<close> takes the decoded
  value.
\<close>

subsection \<open>Probing\<close>

record ProbeResult =
  ProbeDuration :: rat
  ProbeWidth :: int
  ProbeHeight :: int
  ProbeVideoCodec :: string
  ProbeAudioCodec :: string
  ProbeFPS :: rat
  ProbeBitrate :: int
  ProbePixFmt :: string
  ColorTransfer :: string
  ColorPrimaries :: string
  ColorSpace :: string

definition IsHDR :: "ProbeResult \<Rightarrow> bool" where
  "IsHDR p \<longleftrightarrow> ColorTransfer p = ''smpte2084'' \<or> ColorTransfer p = ''arib-std-b67''"

record ffprobeStream =
  CodecType :: string
  CodecName :: string
  StreamWidth :: int
  StreamHeight :: int
  StreamPixFmt :: string
  RFrameRate :: string
  AvgFrameRate :: string
  StreamColorTransfer :: string
  StreamColorSpace :: string
  StreamColorPrimaries :: string

record ffprobeOutput =
  Streams :: "ffprobeStream list"
  FormatDuration :: string
  FormatBitRate :: string

definition ProbeCmd :: "string \<Rightarrow> string list" where
  "ProbeCmd inputPath =
     [''ffprobe'', ''-v'', ''quiet'', ''-print_format'', ''json'', ''-show_format'', ''-show_streams'', inputPath]"

text \<open>One iteration of the loop over the two rates: a value, or go on.\<close>

definition parseOneRate :: "string \<Rightarrow> rat option" where
  "parseOneRate fr =
     (if fr = [] \<or> fr = ''0/0'' then None
      else (let whole = parse_float fr in
            case split_at CHR ''/'' fr of
              [n, d] \<Rightarrow>
                (case (parse_float n, parse_float d) of
                   (Some num, Some den) \<Rightarrow> if 0 < den then Some (fl_div num den) else whole
                 | _ \<Rightarrow> whole)
            | _ \<Rightarrow> whole))"

definition parseFrameRate :: "string \<Rightarrow> string \<Rightarrow> rat" where
  "parseFrameRate rFrameRate avgFrameRate =
     (case parseOneRate rFrameRate of
        Some f \<Rightarrow> f
      | None \<Rightarrow> (case parseOneRate avgFrameRate of Some f \<Rightarrow> f | None \<Rightarrow> 0))"

definition emptyProbe :: ProbeResult where
  "emptyProbe = \<lparr>ProbeDuration = 0, ProbeWidth = 0, ProbeHeight = 0, ProbeVideoCodec = [], ProbeAudioCodec = [],
     ProbeFPS = 0, ProbeBitrate = 0, ProbePixFmt = [], ColorTransfer = [], ColorPrimaries = [], ColorSpace = []\<rparr>"

definition probeStream :: "ProbeResult \<Rightarrow> ffprobeStream \<Rightarrow> ProbeResult" where
  "probeStream r s =
     (if CodecType s = ''video'' then
        (if ProbeVideoCodec r = [] then
           r\<lparr>ProbeVideoCodec := CodecName s, ProbeWidth := StreamWidth s, ProbeHeight := StreamHeight s,
             ProbePixFmt := StreamPixFmt s, ProbeFPS := parseFrameRate (RFrameRate s) (AvgFrameRate s),
             ColorTransfer := StreamColorTransfer s, ColorPrimaries := StreamColorPrimaries s,
             ColorSpace := StreamColorSpace s\<rparr>
         else r)
      else if CodecType s = ''audio'' then
        (if ProbeAudioCodec r = [] then r\<lparr>ProbeAudioCodec := CodecName s\<rparr> else r)
      else r)"

definition ParseProbeOutput :: "ffprobeOutput result \<Rightarrow> ProbeResult result" where
  "ParseProbeOutput decoded =
     (case decoded of
        Inl e \<Rightarrow> Inl (ErrWrap ''parse ffprobe output'' e)
      | Inr out \<Rightarrow>
          (let r0 = emptyProbe\<lparr>ProbeDuration := (case parse_float (FormatDuration out) of None \<Rightarrow> 0 | Some d \<Rightarrow> d),
                               ProbeBitrate := (case atoi (FormatBitRate out) of None \<Rightarrow> 0 | Some b \<Rightarrow> b)\<rparr>
           in Inr (foldl probeStream r0 (Streams out))))"

subsection \<open>Filters\<close>

record TranscodeOptions =
  SubtitlePath :: string
  WatermarkPath :: string
  WatermarkPos :: string
  WatermarkScale :: rat
  ToneMap :: bool

definition NeedsAdvancedFilters :: "TranscodeOptions \<Rightarrow> bool" where
  "NeedsAdvancedFilters o' \<longleftrightarrow> SubtitlePath o' \<noteq> [] \<or> WatermarkPath o' \<noteq> [] \<or> ToneMap o'"

definition NeedsSoftwareDecode :: "TranscodeOptions \<Rightarrow> bool" where
  "NeedsSoftwareDecode o' \<longleftrightarrow> SubtitlePath o' \<noteq> [] \<or> WatermarkPath o' \<noteq> []"

definition needsScale :: "int \<Rightarrow> int \<Rightarrow> ProbeResult \<Rightarrow> bool" where
  "needsScale targetW targetH probe \<longleftrightarrow>
     (if targetW \<le> 0 \<and> targetH \<le> 0 then False
      else if targetW = ProbeWidth probe \<and> targetH = ProbeHeight probe then False else True)"

definition evenOrAuto :: "int \<Rightarrow> int" where
  "evenOrAuto w = (if w \<le> 0 then -2 else w)"

definition buildSWScaleFilter :: "int \<Rightarrow> int \<Rightarrow> string" where
  "buildSWScaleFilter w h = ''scale='' @ fmt_int (evenOrAuto w) @ '':'' @ fmt_int (evenOrAuto h)"

definition watermarkScaleFilter :: "rat \<Rightarrow> string" where
  "watermarkScaleFilter scale = ''scale=iw*'' @ fmt_fixed 2 scale @ '':-1''"

definition watermarkPosition :: "string \<Rightarrow> string \<times> string" where
  "watermarkPosition pos =
     (let padding = ''10''; p = to_lower pos in
      if p = ''top-left'' then (padding, padding)
      else if p = ''top-right'' then (''W-w-'' @ padding, padding)
      else if p = ''bottom-left'' then (padding, ''H-h-'' @ padding)
      else if p = ''center'' then (''(W-w)/2'', ''(H-h)/2'')
      else (''W-w-'' @ padding, ''H-h-'' @ padding))"

definition buildWatermarkOverlay :: "string \<Rightarrow> string" where
  "buildWatermarkOverlay pos = (let (x, y) = watermarkPosition pos in ''overlay='' @ x @ '':'' @ y)"

definition buildSubtitleFilter :: "string \<Rightarrow> string" where
  "buildSubtitleFilter subtitlePath =
     (let escaped = replace_char CHR 0x27 [CHR 0x27, CHR 0x5C, CHR 0x27, CHR 0x27] subtitlePath;
          escaped2 = replace_char CHR '':'' [CHR 0x5C, CHR '':''] escaped
      in ''subtitles='' @ [CHR 0x27] @ escaped2 @ [CHR 0x27])"

definition buildTonemapFilter :: "HWProfile \<Rightarrow> string list" where
  "buildTonemapFilter hw =
     [''zscale=t=linear:npl=100'', ''format=gbrpf32le'', ''zscale=p=bt709'', ''tonemap=tonemap=hable:desat=0'',
      ''zscale=t=bt709:m=bt709:r=tv'', ''format=yuv420p'']"

definition buildGPUTonemapFilter :: "HWProfile \<Rightarrow> string" where
  "buildGPUTonemapFilter hw = (if Vendor hw = VendorAMD then ''tonemap_vaapi=format=nv12'' else [])"

definition buildSimpleVF :: "TranscodeOptions \<Rightarrow> HWProfile \<Rightarrow> ProbeResult \<Rightarrow> int \<Rightarrow> int \<Rightarrow> string \<times> string" where
  "buildSimpleVF opts hw probe targetW targetH =
     (let filters = (if ToneMap opts \<and> IsHDR probe then buildTonemapFilter hw else [])
                    @ (if needsScale targetW targetH probe then [buildSWScaleFilter targetW targetH] else [])
                    @ (if SubtitlePath opts \<noteq> [] then [buildSubtitleFilter (SubtitlePath opts)] else [])
      in if filters = [] then ([], []) else (''vf'', join_with '','' filters))"

definition buildFilterComplex :: "TranscodeOptions \<Rightarrow> HWProfile \<Rightarrow> ProbeResult \<Rightarrow> int \<Rightarrow> int \<Rightarrow> string \<times> string" where
  "buildFilterComplex opts hw probe targetW targetH =
     (let (fs1, cur1, i1) =
            (if ToneMap opts \<and> IsHDR probe
             then ([''[0:v]'' @ join_with '','' (buildTonemapFilter hw) @ ''[tm]''], ''[tm]'', 1 :: nat)
             else ([], ''[0:v]'', 0));
          (fs2, cur2, i2) =
            (if needsScale targetW targetH probe
             then (let tag = ''[s'' @ fmt_nat i1 @ '']''
                   in (fs1 @ [cur1 @ buildSWScaleFilter targetW targetH @ tag], tag, i1 + 1))
             else (fs1, cur1, i1));
          (fs3, cur3) =
            (if SubtitlePath opts \<noteq> []
             then (let tag = ''[sub'' @ fmt_nat i2 @ '']''
                   in (fs2 @ [cur2 @ buildSubtitleFilter (SubtitlePath opts) @ tag], tag))
             else (fs2, cur2));
          scale = (if WatermarkScale opts \<le> 0 then fl (15 / 100) else WatermarkScale opts)
      in (''filter_complex'',
          join_with '';'' (fs3 @ [''[1:v]'' @ watermarkScaleFilter scale @ ''[wm]'',
                                 cur3 @ ''[wm]'' @ buildWatermarkOverlay (WatermarkPos opts) @ ''[out]''])))"

definition BuildAdvancedFilterGraph :: "TranscodeOptions \<Rightarrow> HWProfile \<Rightarrow> ProbeResult \<Rightarrow> int \<Rightarrow> int \<Rightarrow> string \<times> string" where
  "BuildAdvancedFilterGraph opts hw probe targetW targetH =
     (if WatermarkPath opts \<noteq> [] then buildFilterComplex opts hw probe targetW targetH
      else buildSimpleVF opts hw probe targetW targetH)"

subsection \<open>Encoder arguments\<close>

definition opt :: "bool \<Rightarrow> string list \<Rightarrow> string list" where
  "opt b args = (if b then args else [])"

definition buildHWAccelInputArgs :: "HWProfile \<Rightarrow> string list" where
  "buildHWAccelInputArgs hw =
     (if Vendor hw = VendorNVIDIA then
        opt (HasHWAccel hw ''cuda'') [''-hwaccel'', ''cuda'', ''-hwaccel_output_format'', ''cuda'']
      else if Vendor hw = VendorIntel then
        opt (HasHWAccel hw ''qsv'') [''-hwaccel'', ''qsv'', ''-hwaccel_output_format'', ''qsv'']
      else if Vendor hw = VendorAMD then
        opt (HasHWAccel hw ''vaapi'')
          ([''-hwaccel'', ''vaapi'', ''-hwaccel_output_format'', ''vaapi''] @
           opt (DevicePath hw \<noteq> []) [''-hwaccel_device'', DevicePath hw])
      else [])"

definition buildEncoderTuningArgs :: "string \<Rightarrow> string list" where
  "buildEncoderTuningArgs encoder =
     (if contains encoder ''nvenc'' then
        [''-preset'', ''p4'', ''-tune'', ''hq''] @
        opt (contains encoder ''h264'' \<or> contains encoder ''hevc'') [''-rc'', ''vbr'']
      else if contains encoder ''_qsv'' then [''-preset'', ''medium'', ''-look_ahead'', ''1'']
      else if contains encoder ''_vaapi'' then [''-rc_mode'', ''VBR'']
      else [])"

definition buildQualityArgs :: "string \<Rightarrow> int \<Rightarrow> string list" where
  "buildQualityArgs encoder crf =
     (if crf \<le> 0 then []
      else if contains encoder ''nvenc'' \<or> contains encoder ''_vaapi'' then []
      else if contains encoder ''_qsv'' then [''-global_quality'', fmt_int crf]
      else [''-crf'', fmt_int crf])"

definition isHWManagedPixFmt :: "HWProfile \<Rightarrow> bool" where
  "isHWManagedPixFmt hw \<longleftrightarrow> Vendor hw = VendorNVIDIA \<or> Vendor hw = VendorIntel \<or> Vendor hw = VendorAMD"

text \<open>The arguments both \<open>buildVideoArgs\<close> functions share; they differ in the pixel format.\<close>

definition videoArgs :: "Preset \<Rightarrow> HWProfile \<Rightarrow> bool \<Rightarrow> string list" where
  "videoArgs preset hw setPixFmt =
     (let encoder = EncoderForCodec (PresetVideoCodec preset) hw in
      [''-c:v'', encoder] @ buildEncoderTuningArgs encoder @
      opt (PresetBitrate preset \<noteq> []) [''-b:v'', PresetBitrate preset] @
      opt (PresetMaxRate preset \<noteq> []) [''-maxrate'', PresetMaxRate preset] @
      opt (PresetBufSize preset \<noteq> []) [''-bufsize'', PresetBufSize preset] @
      buildQualityArgs encoder (PresetCRF preset) @
      opt (PresetPixFmt preset \<noteq> [] \<and> setPixFmt) [''-pix_fmt'', PresetPixFmt preset] @
      opt (PresetProfile preset \<noteq> []) [''-profile:v'', PresetProfile preset] @
      opt (PresetTier preset \<noteq> []) [''-tier'', PresetTier preset] @
      opt (0 < PresetFPS preset) [''-r'', fmt_int (PresetFPS preset)])"

definition buildVideoArgsSWDecode :: "Preset \<Rightarrow> HWProfile \<Rightarrow> ProbeResult \<Rightarrow> string list" where
  "buildVideoArgsSWDecode preset hw probe = videoArgs preset hw True"

definition buildVideoArgs :: "Preset \<Rightarrow> HWProfile \<Rightarrow> ProbeResult \<Rightarrow> string list" where
  "buildVideoArgs preset hw probe = videoArgs preset hw (\<not> isHWManagedPixFmt hw)"

definition buildAudioArgs :: "Preset \<Rightarrow> string list" where
  "buildAudioArgs preset =
     (if PresetAudioCodec preset \<noteq> [] then [''-c:a'', PresetAudioCodec preset] else [''-c:a'', ''aac'']) @
     opt (PresetAudioBitrate preset \<noteq> []) [''-b:a'', PresetAudioBitrate preset] @
     opt (0 < PresetAudioChannels preset) [''-ac'', fmt_int (PresetAudioChannels preset)] @
     opt (0 < PresetAudioSampleRate preset) [''-ar'', fmt_int (PresetAudioSampleRate preset)]"

definition buildScaleFilter :: "int \<Rightarrow> int \<Rightarrow> HWProfile \<Rightarrow> string" where
  "buildScaleFilter w h hw =
     (let ws = fmt_int (evenOrAuto w); hs = fmt_int (evenOrAuto h) in
      if Vendor hw = VendorNVIDIA \<and> HasHWAccel hw ''cuda'' then ''scale_cuda='' @ ws @ '':'' @ hs
      else if Vendor hw = VendorIntel \<and> HasHWAccel hw ''qsv'' then ''scale_qsv=w='' @ ws @ '':h='' @ hs
      else if Vendor hw = VendorAMD \<and> HasHWAccel hw ''vaapi'' then ''scale_vaapi=w='' @ ws @ '':h='' @ hs
      else ''scale='' @ ws @ '':'' @ hs)"

definition buildFilterGraph :: "Preset \<Rightarrow> HWProfile \<Rightarrow> ProbeResult \<Rightarrow> string" where
  "buildFilterGraph preset hw probe =
     (if PresetWidth preset \<le> 0 \<and> PresetHeight preset \<le> 0 then []
      else if PresetWidth preset = ProbeWidth probe \<and> PresetHeight preset = ProbeHeight probe then []
      else join_with '',''
             (opt (Vendor hw = VendorAMD \<and> HasHWAccel hw ''vaapi'') [''format=nv12'', ''hwupload''] @
              [buildScaleFilter (PresetWidth preset) (PresetHeight preset) hw]))"

definition softwareDecode :: "HWProfile \<Rightarrow> ProbeResult \<Rightarrow> TranscodeOptions \<Rightarrow> bool" where
  "softwareDecode hw probe opts \<longleftrightarrow>
     NeedsSoftwareDecode opts \<or> (ToneMap opts \<and> IsHDR probe \<and> buildGPUTonemapFilter hw = [])"

definition transcodeFilterArgs :: "Preset \<Rightarrow> HWProfile \<Rightarrow> ProbeResult \<Rightarrow> TranscodeOptions \<Rightarrow> string list" where
  "transcodeFilterArgs preset hw probe opts =
     (if softwareDecode hw probe opts then
        (let (filterType, filterStr) = BuildAdvancedFilterGraph opts hw probe (PresetWidth preset) (PresetHeight preset) in
         if filterStr = [] then []
         else if filterType = ''filter_complex''
         then [''-filter_complex'', filterStr, ''-map'', ''[out]'', ''-map'', ''0:a?'']
         else [''-vf'', filterStr])
      else if ToneMap opts \<and> IsHDR probe then
        (let gpuTM = buildGPUTonemapFilter hw; existing = buildFilterGraph preset hw probe in
         if gpuTM = [] then []
         else if existing \<noteq> [] then [''-vf'', gpuTM @ '','' @ existing] else [''-vf'', gpuTM])
      else (let filters = buildFilterGraph preset hw probe in opt (filters \<noteq> []) [''-vf'', filters]))"

definition TranscodeCmd ::
    "string \<Rightarrow> string \<Rightarrow> Preset \<Rightarrow> HWProfile \<Rightarrow> ProbeResult \<Rightarrow> TranscodeOptions \<Rightarrow> string list" where
  "TranscodeCmd inputPath outputPath preset hw probe opts =
     [''ffmpeg'', ''-y''] @
     opt (\<not> softwareDecode hw probe opts) (buildHWAccelInputArgs hw) @ [''-i'', inputPath] @
     opt (WatermarkPath opts \<noteq> []) [''-i'', WatermarkPath opts] @
     (if softwareDecode hw probe opts then buildVideoArgsSWDecode preset hw probe else buildVideoArgs preset hw probe) @
     transcodeFilterArgs preset hw probe opts @ buildAudioArgs preset @ [''-movflags'', ''+faststart'', outputPath]"

subsection \<open>HLS renditions and the live ladder\<close>

definition buildHLSVideoArgs :: "ABRRendition \<Rightarrow> HWProfile \<Rightarrow> string list" where
  "buildHLSVideoArgs rendition hw =
     (case Video rendition of
        None \<Rightarrow> []
      | Some v \<Rightarrow>
          (let encoder = EncoderForCodec (VideoCodecName v) hw in
           [''-c:v'', encoder] @ buildEncoderTuningArgs encoder @
           opt (VideoBitrate v \<noteq> []) [''-b:v'', VideoBitrate v] @
           opt (VideoMaxBitrate v \<noteq> []) [''-maxrate'', VideoMaxBitrate v] @
           opt (VideoBufSize v \<noteq> []) [''-bufsize'', VideoBufSize v] @
           opt (VideoPixFmt v \<noteq> [] \<and> \<not> isHWManagedPixFmt hw) [''-pix_fmt'', VideoPixFmt v] @
           opt (VideoProfile v \<noteq> []) [''-profile:v'', VideoProfile v] @
           opt (VideoLevel v \<noteq> []) [''-level'', VideoLevel v]))"

definition buildHLSAudioArgs :: "ABRRendition \<Rightarrow> string list" where
  "buildHLSAudioArgs rendition =
     (let a = Audio rendition in
      (if AudioCodecName a \<noteq> [] then [''-c:a'', AudioCodecName a] else [''-c:a'', ''aac'']) @
      opt (AudioBitrate a \<noteq> []) [''-b:a'', AudioBitrate a] @
      opt (0 < AudioChannels a) [''-ac'', fmt_int (AudioChannels a)] @
      opt (0 < AudioSampleRate a) [''-ar'', fmt_int (AudioSampleRate a)])"

definition buildHLSFilterGraph :: "ABRRendition \<Rightarrow> HWProfile \<Rightarrow> ProbeResult \<Rightarrow> string" where
  "buildHLSFilterGraph rendition hw probe =
     (case Video rendition of
        None \<Rightarrow> []
      | Some v \<Rightarrow>
          if VideoWidth v \<le> 0 \<or> VideoHeight v \<le> 0 then []
          else if VideoWidth v = ProbeWidth probe \<and> VideoHeight v = ProbeHeight probe then []
          else join_with '',''
                 ((if Vendor hw = VendorNVIDIA then opt (HasHWAccel hw ''cuda'') [''hwupload'']
                   else if Vendor hw = VendorAMD then opt (HasHWAccel hw ''vaapi'') [''format=nv12'', ''hwupload'']
                   else []) @
                  [buildScaleFilter (VideoWidth v) (VideoHeight v) hw]))"

definition HLSRenditionCmdContext ::
    "string \<Rightarrow> string \<Rightarrow> ABRRendition \<Rightarrow> int \<Rightarrow> HWProfile \<Rightarrow> ProbeResult \<Rightarrow> string list" where
  "HLSRenditionCmdContext inputPath outputDir rendition segmentDuration hw probe =
     [''ffmpeg'', ''-y''] @ buildHWAccelInputArgs hw @ [''-i'', inputPath] @
     (if Video rendition \<noteq> None then
        buildHLSVideoArgs rendition hw @
        (let filters = buildHLSFilterGraph rendition hw probe in opt (filters \<noteq> []) [''-vf'', filters])
      else [''-vn'']) @
     buildHLSAudioArgs rendition @
     [''-f'', ''hls'', ''-hls_segment_type'', ''fmp4'', ''-hls_flags'', ''single_file'', ''-hls_time'', fmt_int segmentDuration,
      ''-hls_playlist_type'', ''vod'', ''-hls_segment_filename'', path_join2 outputDir ''stream.mp4'',
      path_join2 outputDir ''playlist.m3u8'']"

definition HLSRenditionCmd ::
    "string \<Rightarrow> string \<Rightarrow> ABRRendition \<Rightarrow> int \<Rightarrow> HWProfile \<Rightarrow> ProbeResult \<Rightarrow> string list" where
  "HLSRenditionCmd = HLSRenditionCmdContext"

definition parseBandwidth :: "string \<Rightarrow> int" where
  "parseBandwidth bitrate =
     (if bitrate = [] then 0
      else (let b = trim_space bitrate;
                scaled = (\<lambda>multiplier. case parse_float (butlast b) of
                            None \<Rightarrow> 0 | Some v \<Rightarrow> trunc (fl_mul v multiplier))
            in if has_suffix b ''M'' \<or> has_suffix b ''m'' then scaled 1000000
               else if has_suffix b ''K'' \<or> has_suffix b ''k'' then scaled 1000
               else (case atoi b of None \<Rightarrow> 0 | Some v \<Rightarrow> v)))"

definition h264LevelToHex :: "string \<Rightarrow> string" where
  "h264LevelToHex level =
     (if level = ''3.0'' then ''1E'' else if level = ''3.1'' then ''1F'' else if level = ''4.0'' then ''28''
      else if level = ''4.1'' then ''29'' else if level = ''4.2'' then ''2A'' else if level = ''5.0'' then ''32''
      else if level = ''5.1'' then ''33'' else if level = ''5.2'' then ''34'' else ''1F'')"

definition hlsCodecString :: "string \<Rightarrow> string \<Rightarrow> string \<Rightarrow> string \<Rightarrow> string" where
  "hlsCodecString videoCodec profile level audioCodec =
     (let v = to_lower videoCodec; p = to_lower profile; a = to_lower audioCodec;
          profileHex = (if p = ''baseline'' then ''4200'' else if p = ''main'' then ''4D00'' else ''6400'')
      in join_with '',''
           ((if v = ''h264'' \<or> v = ''avc'' then [''avc1.'' @ profileHex @ h264LevelToHex level]
             else if v = ''h265'' \<or> v = ''hevc'' then [''hvc1.1.6.L120.B0'']
             else if v = ''av1'' then [''av01.0.08M.08''] else []) @
            (if a = ''aac'' then [''mp4a.40.2''] else if a = ''opus'' then [''Opus''] else [])))"

definition masterEntry :: "(string \<Rightarrow> string option) \<Rightarrow> ABRRendition \<Rightarrow> string" where
  "masterEntry playlistPaths r =
     (case playlistPaths (RenditionName r) of
        None \<Rightarrow> []
      | Some path \<Rightarrow>
          (case Video r of
             Some v \<Rightarrow>
               (let bandwidth = parseBandwidth (VideoBitrate v) + parseBandwidth (AudioBitrate (Audio r));
                    codecs = hlsCodecString (VideoCodecName v) (VideoProfile v) (VideoLevel v) (AudioCodecName (Audio r))
                in ''#EXT-X-STREAM-INF:BANDWIDTH='' @ fmt_int bandwidth @ '',RESOLUTION='' @ fmt_int (VideoWidth v) @ ''x''
                   @ fmt_int (VideoHeight v)
                   @ (if codecs \<noteq> [] then '',CODECS='' @ [CHR 0x22] @ codecs @ [CHR 0x22] else []) @ [newline])
           | None \<Rightarrow>
               ''#EXT-X-STREAM-INF:BANDWIDTH='' @ fmt_int (parseBandwidth (AudioBitrate (Audio r))) @ [newline])
          @ path @ [newline])"

definition GenerateMasterPlaylist :: "ABRRendition list \<Rightarrow> (string \<Rightarrow> string option) \<Rightarrow> string" where
  "GenerateMasterPlaylist renditions playlistPaths =
     ''#EXTM3U'' @ [newline] @ ''#EXT-X-VERSION:7'' @ [newline] @ [newline] @
     concat (map (masterEntry playlistPaths) renditions)"

record LiveRTMPOutput =
  OutRendition :: ABRRendition
  OutURL :: string
  KeyframeInterval :: duration

text \<open>\<open>Duration.Seconds\<close>: whole seconds plus the rest over a billion.\<close>

definition durationSeconds :: "duration \<Rightarrow> rat" where
  "durationSeconds d = fl_add (of_int (d div second)) (fl_div (of_int (d mod second)) 1000000000)"

definition buildLiveFilterGraph :: "ABRRendition \<Rightarrow> HWProfile \<Rightarrow> ProbeResult \<Rightarrow> string" where
  "buildLiveFilterGraph rendition hw probe =
     (case Video rendition of
        None \<Rightarrow> []
      | Some v \<Rightarrow>
          if VideoWidth v \<le> 0 \<or> VideoHeight v \<le> 0
             \<or> (VideoWidth v = ProbeWidth probe \<and> VideoHeight v = ProbeHeight probe) then []
          else buildScaleFilter (VideoWidth v) (VideoHeight v) hw)"

fun liveOutputArgs :: "HWProfile \<Rightarrow> ProbeResult \<Rightarrow> string list \<Rightarrow> LiveRTMPOutput list \<Rightarrow> string list result" where
  "liveOutputArgs hw probe seen [] = Inr []"
| "liveOutputArgs hw probe seen (output # rest) =
     (let r = OutRendition output;
          continue = (\<lambda>videoArgs. case liveOutputArgs hw probe (RenditionName r # seen) rest of
             Inl e \<Rightarrow> Inl e
           | Inr others \<Rightarrow> Inr (videoArgs @ buildHLSAudioArgs r @ [''-f'', ''flv'', OutURL output] @ others))
      in if trim_space (RenditionName r) = [] \<or> trim_space (OutURL output) = []
         then fails ''live output identity and URL are required''
         else if RenditionName r \<in> set seen then fails ''live output rendition names must be unique''
         else (case Video r of
           None \<Rightarrow> continue [''-map'', ''0:a:0?'', ''-vn'']
         | Some v \<Rightarrow>
             if KeyframeInterval output \<le> 0 \<or> KeyframeInterval output > 10 * second
             then fails ''live keyframe interval must be between zero and ten seconds''
             else if \<not> equal_fold (VideoCodecName v) ''h264'' \<and> \<not> equal_fold (VideoCodecName v) ''avc''
             then fails ''RTMP live outputs require H.264 video''
             else continue ([''-map'', ''0:v:0'', ''-map'', ''0:a:0?''] @ buildHLSVideoArgs r hw @
               [''-force_key_frames'',
                ''expr:gte(t,n_forced*'' @ fmt_fixed 3 (durationSeconds (KeyframeInterval output)) @ '')''] @
               (let filters = buildLiveFilterGraph r hw probe in opt (filters \<noteq> []) [''-vf'', filters]))))"

definition LiveLadderCmdContext :: "string \<Rightarrow> LiveRTMPOutput list \<Rightarrow> HWProfile \<Rightarrow> ProbeResult \<Rightarrow> string list result" where
  "LiveLadderCmdContext inputURL outputs hw probe =
     (if trim_space inputURL = [] \<or> outputs = [] then fails ''live input and at least one output are required''
      else (case liveOutputArgs hw probe [] outputs of
              Inl e \<Rightarrow> Inl e
            | Inr args \<Rightarrow>
                Inr ([''ffmpeg'', ''-hide_banner'', ''-loglevel'', ''error'', ''-nostats'', ''-progress'', ''pipe:2'',
                      ''-fflags'', ''+nobuffer'', ''-flags'', ''+low_delay''] @
                     buildHWAccelInputArgs hw @ [''-i'', inputURL] @ args)))"

subsection \<open>Thumbnails and progress\<close>

definition ThumbnailCmd :: "string \<Rightarrow> string \<Rightarrow> rat \<Rightarrow> int \<Rightarrow> int \<Rightarrow> HWProfile \<Rightarrow> string list" where
  "ThumbnailCmd inputPath outputPath seekSeconds width height hw =
     [''ffmpeg'', ''-y''] @ opt (0 < seekSeconds) [''-ss'', fmt_fixed 3 seekSeconds] @ [''-i'', inputPath] @
     [''-vframes'', ''1'', ''-q:v'', ''2''] @
     opt (0 < width \<or> 0 < height) [''-vf'', buildSWScaleFilter width height] @ [outputPath]"

definition ResolveSeekTime :: "rat \<Rightarrow> rat \<Rightarrow> rat" where
  "ResolveSeekTime seekSeconds dur =
     (if 0 < seekSeconds then
        (if 0 < dur \<and> dur \<le> seekSeconds then fl_mul dur (fl (9 / 10)) else seekSeconds)
      else if 0 < dur then fl_mul dur (fl (1 / 10)) else 0)"

definition CalcPercent :: "duration \<Rightarrow> duration \<Rightarrow> rat" where
  "CalcPercent current tot =
     (if tot \<le> 0 then 0
      else (let pct = fl_mul (fl_div (fl (of_int current)) (fl (of_int tot))) 100
            in if 100 < pct then 100 else if pct < 0 then 0 else pct))"

text \<open>Arithmetic on \<open>time.Duration\<close> wraps at 64 bits.\<close>

definition wrap64 :: "int \<Rightarrow> int" where
  "wrap64 i = (i + 2 ^ 63) mod 2 ^ 64 - 2 ^ 63"

definition ParseDuration :: "string \<Rightarrow> duration result" where
  "ParseDuration raw =
     (let s = trim_space raw in
      if s = [] \<or> s = ''N/A'' then fails ''empty or N/A duration''
      else (case split_at CHR '':'' s of
        [h, mi, se] \<Rightarrow>
          (case atoi h of
             None \<Rightarrow> fails ''invalid hours''
           | Some hours \<Rightarrow>
          (case atoi mi of
             None \<Rightarrow> fails ''invalid minutes''
           | Some minutes \<Rightarrow>
          (case parse_float se of
             None \<Rightarrow> fails ''invalid seconds''
           | Some seconds \<Rightarrow>
               Inr (wrap64 (hours * 3600 * second + minutes * 60 * second + trunc (fl_mul seconds 1000000000))))))
      | _ \<Rightarrow> fails ''invalid duration format''))"

end
