(* ===== verification/FFmpeg_Properties.thy ===== *)
theory FFmpeg_Properties
  imports FFmpeg_Args
begin

section \<open>Properties of the command lines\<close>

text \<open>
  Where decoded frames live decides which scale filter works; the theorems below relate the two.
  The master playlist is read back, and the conditions under which a live ladder is built are
  characterised exactly.
\<close>

text \<open>
  Frames and filters agree: the scale filter is a hardware filter exactly when the input
  arguments ask the decoder for hardware frames, so a software frame never meets a hardware
  scaler nor the reverse.
\<close>

theorem scaler_matches_decoder:
  "(\<exists>rest. buildScaleFilter w h hw = ''scale_'' @ rest) \<longleftrightarrow> buildHWAccelInputArgs hw \<noteq> []"
  by (auto simp: buildScaleFilter_def buildHWAccelInputArgs_def opt_def Let_def VendorNVIDIA_def VendorIntel_def VendorAMD_def)

text \<open>
  Burned-in subtitles and watermarks always work on software frames: such a command asks
  for no hardware decoding and scales, if at all, with the software filter, whatever the GPU.
\<close>

lemma set_join: "set (join_with sep xs) \<subseteq> \<Union> (set ` set xs) \<union> set sep"
  by (induction sep xs rule: join_with.induct) auto

theorem overlays_use_software_frames:
  assumes "SubtitlePath opts \<noteq> [] \<or> WatermarkPath opts \<noteq> []"
  shows "take 4 (TranscodeCmd inputPath outputPath preset hw probe opts) = [''ffmpeg'', ''-y'', ''-i'', inputPath] \<and>
     transcodeFilterArgs preset hw probe opts = transcodeFilterArgs preset emptyHWProfile probe opts"
proof -
  have "softwareDecode g probe opts" for g using assms by (auto simp: softwareDecode_def NeedsSoftwareDecode_def)
  then show ?thesis
    by (simp add: TranscodeCmd_def opt_def transcodeFilterArgs_def BuildAdvancedFilterGraph_def buildSimpleVF_def
        buildFilterComplex_def buildTonemapFilter_def)
qed

subsection \<open>The master playlist\<close>

lemma fmt_nat_plain: "c \<in> set (fmt_nat n) \<Longrightarrow> is_digit c"
  using fmt_nat_digits [of n] by (auto simp: list_all_iff)

lemma fmt_int_plain [simp]: "newline \<notin> set (fmt_int i)"
  using fmt_nat_plain [of newline] by (auto simp: fmt_int_def newline_def is_digit_def)

lemma codec_plain: "newline \<notin> set (hlsCodecString v p l a)"
proof -
  have "newline \<notin> set (h264LevelToHex l)" by (auto simp: h264LevelToHex_def newline_def)
  then show ?thesis
    by (auto simp: hlsCodecString_def Let_def newline_def)
qed

text \<open>The URIs of a playlist: its lines that are neither empty nor tags.\<close>

definition playlist_uris :: "string \<Rightarrow> string list" where
  "playlist_uris text = filter (\<lambda>l. l \<noteq> [] \<and> hd l \<noteq> CHR ''#'') (split_at newline text)"

definition plain_path :: "string \<Rightarrow> bool" where
  "plain_path p \<longleftrightarrow> p \<noteq> [] \<and> newline \<notin> set p \<and> hd p \<noteq> CHR ''#''"

lemma playlist_uris_tag: "newline \<notin> set t \<Longrightarrow> playlist_uris (''#'' @ t @ newline # b) = playlist_uris b"
  using split_at_append [of newline "''#'' @ t" b] by (auto simp: playlist_uris_def newline_def)

lemma playlist_uris_path: "plain_path p \<Longrightarrow> playlist_uris (p @ newline # b) = p # playlist_uris b"
  using split_at_append [of newline p b] by (auto simp: playlist_uris_def plain_path_def)

lemma playlist_uris_entry:
  assumes "\<forall>p. paths (RenditionName r) = Some p \<longrightarrow> plain_path p"
  shows "playlist_uris (masterEntry paths r @ b) = (case paths (RenditionName r) of None \<Rightarrow> [] | Some p \<Rightarrow> [p]) @ playlist_uris b"
proof (cases "paths (RenditionName r)")
  case (Some p)
  have p: "plain_path p" using assms Some by simp
  obtain t where t: "masterEntry paths r = ''#'' @ t @ newline # p @ [newline]" "newline \<notin> set t"
  proof (cases "Video r")
    case None
    let ?t = "''EXT-X-STREAM-INF:BANDWIDTH='' @ fmt_int (parseBandwidth (AudioBitrate (Audio r)))"
    have "newline \<notin> set ?t" by auto (auto simp: newline_def)
    then show ?thesis by (intro that [of ?t]) (auto simp: masterEntry_def Some None)
  next
    case (Some v)
    let ?c = "hlsCodecString (VideoCodecName v) (VideoProfile v) (VideoLevel v) (AudioCodecName (Audio r))"
    let ?t = "''EXT-X-STREAM-INF:BANDWIDTH='' @ fmt_int (parseBandwidth (VideoBitrate v) + parseBandwidth (AudioBitrate (Audio r)))
        @ '',RESOLUTION='' @ fmt_int (VideoWidth v) @ ''x'' @ fmt_int (VideoHeight v)
        @ (if ?c \<noteq> [] then '',CODECS='' @ [CHR 0x22] @ ?c @ [CHR 0x22] else [])"
    have "newline \<notin> set ?t" using codec_plain by auto (auto simp: newline_def)
    then show ?thesis by (intro that [of ?t]) (auto simp: masterEntry_def \<open>paths (RenditionName r) = Some p\<close> Some Let_def)
  qed
  show ?thesis using playlist_uris_tag [OF t(2)] playlist_uris_path [OF p] by (simp add: t(1) Some)
qed (simp add: masterEntry_def)

text \<open>
  Reading the generated master playlist back gives exactly the playlist paths of the
  renditions that have one, in the order of the ladder.
\<close>

theorem master_playlist_lists_renditions:
  assumes "\<forall>r\<in>set renditions. \<forall>p. paths (RenditionName r) = Some p \<longrightarrow> plain_path p"
  shows "playlist_uris (GenerateMasterPlaylist renditions paths) =
     List.map_filter (\<lambda>r. paths (RenditionName r)) renditions"
proof -
  have entries: "playlist_uris (concat (map (masterEntry paths) rs)) = List.map_filter (\<lambda>r. paths (RenditionName r)) rs"
    if "set rs \<subseteq> set renditions" for rs
    using that
  proof (induction rs)
    case Nil
    then show ?case by (simp add: playlist_uris_def List.map_filter_def)
  next
    case (Cons r rs)
    then show ?case using playlist_uris_entry [of paths r "concat (map (masterEntry paths) rs)"] assms
      by (auto simp: List.map_filter_def split: option.splits)
  qed
  have "playlist_uris (''#EXTM3U'' @ [newline] @ ''#EXT-X-VERSION:7'' @ [newline] @ [newline] @ b) = playlist_uris b" for b
    using playlist_uris_tag [of "''EXTM3U''" "''#EXT-X-VERSION:7'' @ [newline] @ [newline] @ b"]
      playlist_uris_tag [of "''EXT-X-VERSION:7''" "newline # b"] split_at_append [of newline "[]" b]
    by (simp add: newline_def playlist_uris_def)
  then show ?thesis using entries [of renditions] by (simp add: GenerateMasterPlaylist_def)
qed

subsection \<open>The live ladder\<close>

definition live_output_ok :: "LiveRTMPOutput \<Rightarrow> bool" where
  "live_output_ok out \<longleftrightarrow>
     trim_space (RenditionName (OutRendition out)) \<noteq> [] \<and> trim_space (OutURL out) \<noteq> [] \<and>
     (case Video (OutRendition out) of
        None \<Rightarrow> True
      | Some v \<Rightarrow> 0 < KeyframeInterval out \<and> KeyframeInterval out \<le> 10 * second \<and>
                  (equal_fold (VideoCodecName v) ''h264'' \<or> equal_fold (VideoCodecName v) ''avc''))"

lemma liveOutputArgs_iff:
  "(\<exists>args. liveOutputArgs hw probe seen outs = Inr args) \<longleftrightarrow>
     (\<forall>out\<in>set outs. live_output_ok out) \<and> distinct (map (\<lambda>out. RenditionName (OutRendition out)) outs) \<and>
     set (map (\<lambda>out. RenditionName (OutRendition out)) outs) \<inter> set seen = {}"
proof (induction outs arbitrary: seen)
  case (Cons out outs)
  let ?n = "RenditionName (OutRendition out)"
  have "(\<exists>args. liveOutputArgs hw probe seen (out # outs) = Inr args) \<longleftrightarrow>
      live_output_ok out \<and> ?n \<notin> set seen \<and> (\<exists>args. liveOutputArgs hw probe (?n # seen) outs = Inr args)"
    by (cases "Video (OutRendition out)"; cases "liveOutputArgs hw probe (?n # seen) outs")
      (auto simp: live_output_ok_def Let_def not_le not_less)
  then show ?case using Cons.IH [of "?n # seen"] by auto
qed simp

lemma liveOutputArgs_urls:
  "liveOutputArgs hw probe seen outs = Inr args \<Longrightarrow> set (map OutURL outs) \<subseteq> set args \<and> (outs \<noteq> [] \<longrightarrow> last args = OutURL (last outs) \<and> args \<noteq> [])"
proof (induction outs arbitrary: seen args)
  case (Cons out outs)
  obtain v others where a: "args = v @ buildHLSAudioArgs (OutRendition out) @ [''-f'', ''flv'', OutURL out] @ others"
    and o: "liveOutputArgs hw probe (RenditionName (OutRendition out) # seen) outs = Inr others"
    using Cons.prems by (auto simp: Let_def split: if_splits option.splits sum.splits)
  show ?case using Cons.IH [OF o] o by (cases outs) (auto simp: a)
qed simp

text \<open>
  A live ladder is built exactly when the input and at least one output are given, every
  output has a name and a URL, the names are distinct, and every video output is H.264 with a
  keyframe interval of at most ten seconds; then every output URL is on the command line, the
  last one at its end.
\<close>

theorem live_ladder_built_iff:
  "((\<exists>args. LiveLadderCmdContext inputURL outputs hw probe = Inr args) \<longleftrightarrow>
      trim_space inputURL \<noteq> [] \<and> outputs \<noteq> [] \<and> (\<forall>out\<in>set outputs. live_output_ok out) \<and>
      distinct (map (\<lambda>out. RenditionName (OutRendition out)) outputs)) \<and>
   (\<forall>args. LiveLadderCmdContext inputURL outputs hw probe = Inr args \<longrightarrow>
      set (map OutURL outputs) \<subseteq> set args \<and> last args = OutURL (last outputs))"
proof -
  have "(\<exists>args. LiveLadderCmdContext inputURL outputs hw probe = Inr args) \<longleftrightarrow>
      trim_space inputURL \<noteq> [] \<and> outputs \<noteq> [] \<and> (\<exists>args. liveOutputArgs hw probe [] outputs = Inr args)"
    by (auto simp: LiveLadderCmdContext_def split: sum.splits)
  moreover have "set (map OutURL outputs) \<subseteq> set args \<and> last args = OutURL (last outputs)"
    if "LiveLadderCmdContext inputURL outputs hw probe = Inr args" for args
    using that liveOutputArgs_urls [of hw probe "[]" outputs]
    by (auto simp: LiveLadderCmdContext_def split: sum.splits if_splits)
  ultimately show ?thesis using liveOutputArgs_iff [of hw probe "[]" outputs] by simp
qed

subsection \<open>Observations\<close>

text \<open>
  A bit rate with a fraction can lose one unit: the product is truncated, not rounded, and
  \<open>2.01\<close> is slightly below its decimal value as a \<open>float64\<close>.
\<close>

lemma bandwidth_truncated:
  "parseBandwidth ''2.01M'' = 2009999" "parseBandwidth ''2.5M'' = 2500000" "parseBandwidth ''600k'' = 600000"
  by code_simp+

text \<open>
  On AMD with VAAPI a scaled transcode decodes to hardware frames and still asks for
  \<open>format=nv12,hwupload\<close> before the hardware scaler, which the live ladder avoids on purpose.
\<close>

definition vaapi_profile :: HWProfile where
  "vaapi_profile = emptyHWProfile\<lparr>GPUName := ''Radeon'', Vendor := VendorAMD, Encoders := [''h264_vaapi''], HWAccels := [''vaapi'']\<rparr>"

definition no_options :: TranscodeOptions where
  "no_options = \<lparr>SubtitlePath = [], WatermarkPath = [], WatermarkPos = [], WatermarkScale = 0, ToneMap = False\<rparr>"

lemma amd_uploads_decoded_frames:
  "take 6 (TranscodeCmd ''in'' ''out'' h264_preset vaapi_profile emptyProbe no_options) =
     [''ffmpeg'', ''-y'', ''-hwaccel'', ''vaapi'', ''-hwaccel_output_format'', ''vaapi''] \<and>
   transcodeFilterArgs h264_preset vaapi_profile emptyProbe no_options = [''-vf'', ''format=nv12,hwupload,scale_vaapi=w=1280:h=720'']"
  by code_simp

subsection \<open>Witnesses\<close>

theorem overlays_use_software_frames_witness:
  "take 4 (TranscodeCmd ''in'' ''out'' h264_preset nvenc_profile emptyProbe (no_options\<lparr>SubtitlePath := ''s.srt''\<rparr>)) =
     [''ffmpeg'', ''-y'', ''-i'', ''in'']"
  using overlays_use_software_frames [of "no_options\<lparr>SubtitlePath := ''s.srt''\<rparr>" "''in''" "''out''" h264_preset nvenc_profile emptyProbe]
  by (simp add: no_options_def)

definition example_rendition :: ABRRendition where
  "example_rendition = \<lparr>RenditionName = ''720p'', Video = Some \<lparr>VideoCodecName = ''h264'', VideoWidth = 1280, VideoHeight = 720,
     VideoBitrate = ''3M'', VideoMaxBitrate = [], VideoBufSize = [], VideoProfile = ''high'', VideoLevel = ''4.1'', VideoPixFmt = []\<rparr>,
     Audio = \<lparr>AudioCodecName = ''aac'', AudioBitrate = ''128k'', AudioChannels = 2, AudioSampleRate = 0\<rparr>\<rparr>"

theorem master_playlist_lists_renditions_witness:
  "playlist_uris (GenerateMasterPlaylist [example_rendition] [''720p'' \<mapsto> ''720p/playlist.m3u8'']) = [''720p/playlist.m3u8'']"
  using master_playlist_lists_renditions [of "[example_rendition]" "[''720p'' \<mapsto> ''720p/playlist.m3u8'']"]
  by (simp add: example_rendition_def plain_path_def newline_def List.map_filter_def)

definition example_output :: LiveRTMPOutput where
  "example_output = \<lparr>OutRendition = example_rendition, OutURL = ''rtmp://h/k'', KeyframeInterval = 2 * second\<rparr>"

theorem live_ladder_built_iff_witness:
  "\<exists>args. LiveLadderCmdContext ''rtmp://in'' [example_output] nvenc_profile emptyProbe = Inr args \<and> last args = ''rtmp://h/k''"
proof -
  have ok: "live_output_ok example_output" "trim_space ''rtmp://in'' \<noteq> []" by code_simp+
  then show ?thesis
    using live_ladder_built_iff [of "''rtmp://in''" "[example_output]" nvenc_profile emptyProbe]
    by (auto simp: example_output_def)
qed

end
