(* ===== verification/GPU_Admission.thy ===== *)
theory GPU_Admission
  imports Go_Library
begin

section \<open>Cross-process GPU admission (transcode-core/gpu_admission.go)\<close>

text \<open>
  Runners that share a GPU coordinate through three lock files.  \<open>Acquire\<close> takes the mutex,
  probes the file of the opposing cohort with an exclusive lock that it gives up at once, takes a
  shared lock on the file of its own cohort and releases the mutex; the lease keeps the shared
  lock until \<open>Close\<close> or until the process dies.

  Many processes run \<open>Acquire\<close> at the same time, so it is a program: the state of a call is
  the point it has reached, a step is one system call, and the interleaving of the calls is the
  step relation \<open>gate_step\<close>.  The kernel's lock table follows \<open>flock(2)\<close>: an exclusive
  lock is granted when no other open file holds the file, a shared one when no other holds it
  exclusively.  A process can die at any point; then its locks are gone.
\<close>

subsection \<open>Cohorts, lock files and the lock table\<close>

datatype GPUAdmissionCohort = GPUAdmissionBatch | GPUAdmissionLive

fun opposing :: "GPUAdmissionCohort \<Rightarrow> GPUAdmissionCohort" where
  "opposing GPUAdmissionBatch = GPUAdmissionLive"
| "opposing GPUAdmissionLive = GPUAdmissionBatch"

datatype lock_file = MutexFile | CohortFile GPUAdmissionCohort

definition gpuAdmissionPath :: "string \<Rightarrow> lock_file \<Rightarrow> string" where
  "gpuAdmissionPath basePath f =
     basePath @ (case f of MutexFile \<Rightarrow> ''.mutex'' | CohortFile GPUAdmissionBatch \<Rightarrow> ''.batch''
                         | CohortFile GPUAdmissionLive \<Rightarrow> ''.live'')"

definition gpuAdmissionPaths :: "string \<Rightarrow> string list" where
  "gpuAdmissionPaths basePath =
     map (gpuAdmissionPath basePath) [MutexFile, CohortFile GPUAdmissionBatch, CohortFile GPUAdmissionLive]"

text \<open>
  \<open>NewGPUAdmissionGate\<close>: the result is the base path, empty when admission is disabled.  The
  file system answers whether the parent exists, is a directory, and each file opens and closes.
\<close>

definition path_dir :: "string \<Rightarrow> string" where
  "path_dir p = (case cut_last CHR ''/'' p of None \<Rightarrow> ''.'' | Some (d, _) \<Rightarrow> path_clean (if d = [] then ''/'' else d))"

definition NewGPUAdmissionGate :: "(string \<Rightarrow> bool option) \<Rightarrow> (string \<Rightarrow> bool) \<Rightarrow> string \<Rightarrow> string result" where
  "NewGPUAdmissionGate stat_dir open_close path =
     (if path = [] then Inr []
      else if \<not> has_prefix path ''/'' \<or> path_clean path \<noteq> path \<or> path_base path = ''/''
      then fails ''GPU admission lock must be a clean absolute file path''
      else (case stat_dir (path_dir path) of
              None \<Rightarrow> fails ''GPU admission directory is unavailable''
            | Some False \<Rightarrow> fails ''GPU admission parent is not a directory''
            | Some True \<Rightarrow>
                if list_all open_close (gpuAdmissionPaths path) then Inr path
                else fails ''GPU admission lock is unavailable''))"

definition gateConfigured :: "string \<Rightarrow> bool" where
  "gateConfigured basePath \<longleftrightarrow> basePath \<noteq> []"

datatype lock_mode = LOCK_SH | LOCK_EX

text \<open>A lock is held by an open file of the call \<open>n\<close>; the table is the set of held locks.\<close>

type_synonym lock_table = "(lock_file \<times> nat \<times> lock_mode) set"

definition grants :: "lock_table \<Rightarrow> lock_file \<Rightarrow> nat \<Rightarrow> lock_mode \<Rightarrow> bool" where
  "grants locks f n mode \<longleftrightarrow>
     (\<forall>m mode'. (f, m, mode') \<in> locks \<and> m \<noteq> n \<longrightarrow> mode = LOCK_SH \<and> mode' = LOCK_SH)"

subsection \<open>One call of Acquire\<close>

datatype acquire_error = CapacityReached | SystemError

datatype call_state =
    AtMutex
  | AtProbe
  | Probed
  | AtOwn
  | Leasing
  | Failing acquire_error
  | Leased
  | Refused acquire_error
  | Closed

record gate =
  locks :: lock_table
  calls :: "nat \<Rightarrow> (GPUAdmissionCohort \<times> call_state) option"

definition at :: "gate \<Rightarrow> nat \<Rightarrow> GPUAdmissionCohort \<Rightarrow> call_state \<Rightarrow> bool" where
  "at g n c s \<longleftrightarrow> calls g n = Some (c, s)"

definition goto :: "nat \<Rightarrow> GPUAdmissionCohort \<Rightarrow> call_state \<Rightarrow> gate \<Rightarrow> gate" where
  "goto n c s g = g\<lparr>calls := (calls g)(n \<mapsto> (c, s))\<rparr>"

definition take_lock :: "lock_file \<Rightarrow> nat \<Rightarrow> lock_mode \<Rightarrow> gate \<Rightarrow> gate" where
  "take_lock f n mode g = g\<lparr>locks := insert (f, n, mode) (locks g)\<rparr>"

definition drop_lock :: "lock_file \<Rightarrow> nat \<Rightarrow> gate \<Rightarrow> gate" where
  "drop_lock f n g = g\<lparr>locks := {l \<in> locks g. \<not> (fst l = f \<and> fst (snd l) = n)}\<rparr>"

text \<open>
  The steps of \<open>Acquire\<close> in the order of the source.  The blocking lock on the mutex waits:
  there is no step until it is granted.  Every system call can also fail.
\<close>

inductive gate_step :: "gate \<Rightarrow> gate \<Rightarrow> bool" where
  enter: "calls g n = None \<Longrightarrow> gate_step g (goto n c AtMutex g)"
| open_mutex_fails: "at g n c AtMutex \<Longrightarrow> gate_step g (goto n c (Refused SystemError) g)"
| lock_mutex: "at g n c AtMutex \<Longrightarrow> grants (locks g) MutexFile n LOCK_EX \<Longrightarrow>
    gate_step g (goto n c AtProbe (take_lock MutexFile n LOCK_EX g))"
| probe_free: "at g n c AtProbe \<Longrightarrow> grants (locks g) (CohortFile (opposing c)) n LOCK_EX \<Longrightarrow>
    gate_step g (goto n c Probed (take_lock (CohortFile (opposing c)) n LOCK_EX g))"
| probe_busy: "at g n c AtProbe \<Longrightarrow> \<not> grants (locks g) (CohortFile (opposing c)) n LOCK_EX \<Longrightarrow>
    gate_step g (goto n c (Failing CapacityReached) g)"
| probe_fails: "at g n c AtProbe \<Longrightarrow> gate_step g (goto n c (Failing SystemError) g)"
| unprobe: "at g n c Probed \<Longrightarrow> gate_step g (goto n c AtOwn (drop_lock (CohortFile (opposing c)) n g))"
| own_granted: "at g n c AtOwn \<Longrightarrow> grants (locks g) (CohortFile c) n LOCK_SH \<Longrightarrow>
    gate_step g (goto n c Leasing (take_lock (CohortFile c) n LOCK_SH g))"
| own_busy: "at g n c AtOwn \<Longrightarrow> \<not> grants (locks g) (CohortFile c) n LOCK_SH \<Longrightarrow>
    gate_step g (goto n c (Failing CapacityReached) g)"
| own_fails: "at g n c AtOwn \<Longrightarrow> gate_step g (goto n c (Failing SystemError) g)"
| leave: "at g n c Leasing \<Longrightarrow> gate_step g (goto n c Leased (drop_lock MutexFile n g))"
| leave_failing: "at g n c (Failing e) \<Longrightarrow> gate_step g (goto n c (Refused e) (drop_lock MutexFile n g))"
| close_lease: "at g n c Leased \<Longrightarrow> gate_step g (goto n c Closed (drop_lock (CohortFile c) n g))"
| crash: "at g n c s \<Longrightarrow>
    gate_step g (goto n c Closed (g\<lparr>locks := {l \<in> locks g. fst (snd l) \<noteq> n}\<rparr>))"

inductive_cases gate_stepE: "gate_step g g'"

definition initial_gate :: gate where
  "initial_gate = \<lparr>locks = {}, calls = (\<lambda>_. None)\<rparr>"

inductive gate_reachable :: "gate \<Rightarrow> bool" where
  gate_start: "gate_reachable initial_gate"
| gate_next: "gate_reachable g \<Longrightarrow> gate_step g g' \<Longrightarrow> gate_reachable g'"

subsection \<open>The invariant\<close>

text \<open>The locks a call holds at each point; the table holds exactly these.\<close>

fun held :: "GPUAdmissionCohort \<Rightarrow> call_state \<Rightarrow> (lock_file \<times> lock_mode) set" where
  "held c AtMutex = {}"
| "held c AtProbe = {(MutexFile, LOCK_EX)}"
| "held c Probed = {(MutexFile, LOCK_EX), (CohortFile (opposing c), LOCK_EX)}"
| "held c AtOwn = {(MutexFile, LOCK_EX)}"
| "held c Leasing = {(MutexFile, LOCK_EX), (CohortFile c, LOCK_SH)}"
| "held c (Failing e) = {(MutexFile, LOCK_EX)}"
| "held c Leased = {(CohortFile c, LOCK_SH)}"
| "held c (Refused e) = {}"
| "held c Closed = {}"

definition table_ok :: "gate \<Rightarrow> bool" where
  "table_ok g \<longleftrightarrow> (\<forall>f n m. (f, n, m) \<in> locks g \<longleftrightarrow> (\<exists>c s. calls g n = Some (c, s) \<and> (f, m) \<in> held c s))"

text \<open>Once the opposing cohort was found free, it stays free as long as the mutex is held.\<close>

definition opposing_free :: "gate \<Rightarrow> bool" where
  "opposing_free g \<longleftrightarrow>
     (\<forall>n c m. (at g n c AtOwn \<or> at g n c Probed) \<longrightarrow> (CohortFile (opposing c), m, LOCK_SH) \<notin> locks g)"

definition mutex_held_once :: "gate \<Rightarrow> bool" where
  "mutex_held_once g \<longleftrightarrow> (\<forall>n n' m m'. (MutexFile, n, m) \<in> locks g \<and> (MutexFile, n', m') \<in> locks g \<longrightarrow> n = n')"

definition cohorts_apart :: "gate \<Rightarrow> bool" where
  "cohorts_apart g \<longleftrightarrow>
     \<not> (\<exists>n n'. (CohortFile GPUAdmissionBatch, n, LOCK_SH) \<in> locks g \<and> (CohortFile GPUAdmissionLive, n', LOCK_SH) \<in> locks g)"

definition gate_ok :: "gate \<Rightarrow> bool" where
  "gate_ok g \<longleftrightarrow> table_ok g \<and> mutex_held_once g \<and> opposing_free g \<and> cohorts_apart g"

lemmas gate_moves = at_def goto_def take_lock_def drop_lock_def

lemma opposing_neq [simp]: "opposing c \<noteq> c" "c \<noteq> opposing c"
  by (cases c; simp)+

lemma opposing_opposing [simp]: "opposing (opposing c) = c"
  by (cases c) simp_all

lemma in_locks: "table_ok g \<Longrightarrow> (f, n, m) \<in> locks g \<longleftrightarrow> (\<exists>c s. calls g n = Some (c, s) \<and> (f, m) \<in> held c s)"
  by (simp add: table_ok_def)

lemma no_call_no_lock: "table_ok g \<Longrightarrow> calls g n = None \<Longrightarrow> (f, n, m) \<notin> locks g"
  by (simp add: table_ok_def)

text \<open>A move that changes the point of one call and its locks accordingly keeps the table.\<close>

lemma table_move:
  assumes "table_ok g" and "\<And>f k m. k \<noteq> n \<Longrightarrow> (f, k, m) \<in> l' \<longleftrightarrow> (f, k, m) \<in> locks g"
    and "\<And>f m. (f, n, m) \<in> l' \<longleftrightarrow> (f, m) \<in> held c s"
  shows "table_ok (goto n c s (g\<lparr>locks := l'\<rparr>))"
  unfolding table_ok_def
proof (intro allI)
  fix f k m
  show "(f, k, m) \<in> locks (goto n c s (g\<lparr>locks := l'\<rparr>)) \<longleftrightarrow>
      (\<exists>c' s'. calls (goto n c s (g\<lparr>locks := l'\<rparr>)) k = Some (c', s') \<and> (f, m) \<in> held c' s')"
    using assms by (cases "k = n") (auto simp: goto_def table_ok_def)
qed

lemma step_table:
  assumes "gate_step g g'" and t: "table_ok g"
  shows "table_ok g'"
  using assms(1)
proof cases
  case (enter n c)
  show ?thesis unfolding enter using table_move [of g n "locks g" c AtMutex] t no_call_no_lock [OF t enter(2)] by simp
next
  case (lock_mutex n c)
  show ?thesis unfolding lock_mutex(1) take_lock_def
    by (rule table_move [OF t]) (use lock_mutex t in \<open>auto simp: at_def in_locks\<close>)
next
  case (probe_free n c)
  show ?thesis unfolding probe_free(1) take_lock_def
    by (rule table_move [OF t]) (use probe_free t in \<open>auto simp: at_def in_locks\<close>)
next
  case (own_granted n c)
  show ?thesis unfolding own_granted(1) take_lock_def
    by (rule table_move [OF t]) (use own_granted t in \<open>auto simp: at_def in_locks\<close>)
next
  case (unprobe n c)
  show ?thesis unfolding unprobe(1) drop_lock_def
    by (rule table_move [OF t]) (use unprobe t in \<open>auto simp: at_def in_locks\<close>)
next
  case (leave n c)
  show ?thesis unfolding leave(1) drop_lock_def
    by (rule table_move [OF t]) (use leave t in \<open>auto simp: at_def in_locks\<close>)
next
  case (leave_failing n c e)
  show ?thesis unfolding leave_failing(1) drop_lock_def
    by (rule table_move [OF t]) (use leave_failing t in \<open>auto simp: at_def in_locks\<close>)
next
  case (close_lease n c)
  show ?thesis unfolding close_lease(1) drop_lock_def
    by (rule table_move [OF t]) (use close_lease t in \<open>auto simp: at_def in_locks\<close>)
next
  case (crash n c s)
  show ?thesis unfolding crash(1)
    by (rule table_move [OF t]) (use crash t in \<open>auto simp: at_def in_locks\<close>)
qed (use t table_move [of g _ "locks g"] in \<open>auto simp: at_def in_locks\<close>)

lemma lock_changes:
  assumes "gate_step g g'" and "(f, n, m) \<in> locks g'"
  shows "(f, n, m) \<in> locks g \<or>
    (f = MutexFile \<and> m = LOCK_EX \<and> grants (locks g) MutexFile n LOCK_EX) \<or>
    (\<exists>c. f = CohortFile (opposing c) \<and> m = LOCK_EX) \<or>
    (\<exists>c. f = CohortFile c \<and> m = LOCK_SH \<and> at g n c AtOwn)"
  using assms by (cases rule: gate_stepE) (auto simp: gate_moves)

lemma step_mutex:
  assumes "gate_step g g'" and "mutex_held_once g"
  shows "mutex_held_once g'"
proof -
  have new: "n = k" if "(MutexFile, n, m) \<in> locks g'" "(MutexFile, k, m') \<in> locks g" for n k m m'
    using lock_changes [OF assms(1) that(1)] that(2) assms(2) by (auto simp: mutex_held_once_def grants_def)
  have "grants (locks g) MutexFile n LOCK_EX \<Longrightarrow> (MutexFile, k, m') \<in> locks g \<Longrightarrow> k = n" for n k m'
    by (auto simp: grants_def)
  moreover have one: "n = k" if "(MutexFile, n, m) \<in> locks g'" "(MutexFile, n, m) \<notin> locks g"
      "(MutexFile, k, m') \<in> locks g'" "(MutexFile, k, m') \<notin> locks g" for n k m m'
    using assms(1) that by (cases rule: gate_stepE) (auto simp: gate_moves)
  ultimately show ?thesis unfolding mutex_held_once_def using new by blast
qed

lemma holds_mutex:
  "table_ok g \<Longrightarrow> at g n c s \<Longrightarrow> s \<in> {AtProbe, Probed, AtOwn, Leasing} \<Longrightarrow> (MutexFile, n, LOCK_EX) \<in> locks g"
  by (auto simp: at_def in_locks)

lemma step_opposing:
  assumes st: "gate_step g g'" and t: "table_ok g" and m: "mutex_held_once g" and o': "opposing_free g"
  shows "opposing_free g'"
  unfolding opposing_free_def
proof (intro allI impI notI)
  fix n c k
  assume a: "at g' n c AtOwn \<or> at g' n c Probed" and k: "(CohortFile (opposing c), k, LOCK_SH) \<in> locks g'"
  have old: "(CohortFile (opposing c), k, LOCK_SH) \<in> locks g \<or> at g k (opposing c) AtOwn"
    using lock_changes [OF st k] by auto
  have before: "at g n c AtOwn \<or> at g n c Probed \<or> (at g n c AtProbe \<and> grants (locks g) (CohortFile (opposing c)) n LOCK_EX)"
    using st a by (cases rule: gate_stepE) (auto simp: gate_moves split: if_splits)
  have mine: "(MutexFile, n, LOCK_EX) \<in> locks g" using holds_mutex [OF t] before by blast
  have same: "k = n" if "at g k (opposing c) AtOwn"
    using holds_mutex [OF t that] mine m by (auto simp: mutex_held_once_def)
  have "\<not> at g k (opposing c) AtOwn" using same before by (auto simp: at_def)
  with old have l: "(CohortFile (opposing c), k, LOCK_SH) \<in> locks g" by blast
  then have "at g n c AtProbe" "grants (locks g) (CohortFile (opposing c)) n LOCK_EX"
    using before o' by (auto simp: opposing_free_def)
  then have "k = n" using l by (auto simp: grants_def)
  then show False using l \<open>at g n c AtProbe\<close> t by (auto simp: at_def in_locks)
qed

lemma step_apart:
  assumes st: "gate_step g g'" and o': "opposing_free g" and c: "cohorts_apart g"
    and t: "table_ok g" and m: "mutex_held_once g"
  shows "cohorts_apart g'"
proof -
  have "False" if n: "(CohortFile c', n, LOCK_SH) \<in> locks g'" and k: "(CohortFile (opposing c'), k, LOCK_SH) \<in> locks g'"
    for c' n k
  proof -
    have free: "(CohortFile (opposing x), j, LOCK_SH) \<notin> locks g" if "at g i x AtOwn" for i x j
      using that o' by (auto simp: opposing_free_def)
    have "(CohortFile c', n, LOCK_SH) \<in> locks g \<or> at g n c' AtOwn"
      "(CohortFile (opposing c'), k, LOCK_SH) \<in> locks g \<or> at g k (opposing c') AtOwn"
      using lock_changes [OF st n] lock_changes [OF st k] by auto
    moreover have "\<not> ((CohortFile c', n, LOCK_SH) \<in> locks g \<and> (CohortFile (opposing c'), k, LOCK_SH) \<in> locks g)"
      using c by (cases c') (auto simp: cohorts_apart_def)
    moreover have "\<not> (at g n c' AtOwn \<and> at g k (opposing c') AtOwn)"
      using holds_mutex [OF t] m by (auto simp: mutex_held_once_def at_def) (metis at_def insertCI opposing_neq(1) option.inject prod.inject)
    ultimately show False using free [of n c'] free [of k "opposing c'"] by auto
  qed
  then show ?thesis unfolding cohorts_apart_def by (metis opposing.simps(1))
qed

lemma reachable_gate_ok: "gate_reachable g \<Longrightarrow> gate_ok g"
proof (induction rule: gate_reachable.induct)
  case gate_start
  then show ?case
    by (simp add: gate_ok_def table_ok_def mutex_held_once_def opposing_free_def cohorts_apart_def initial_gate_def)
next
  case (gate_next g g')
  then show ?case
    using step_table step_mutex step_opposing step_apart unfolding gate_ok_def by blast
qed

subsection \<open>Properties\<close>

text \<open>
  (C39) Live and batch work never overlap on a GPU: in every reachable state of any number of
  runners, through every interleaving of their system calls, failures and crashes, two leases
  that are held at the same time are of the same cohort.
\<close>

theorem leases_never_mix:
  assumes "gate_reachable g" and "at g n c Leased" and "at g n' c' Leased"
  shows "c = c'"
proof -
  have ok: "table_ok g" "cohorts_apart g" using reachable_gate_ok [OF assms(1)] by (auto simp: gate_ok_def)
  have "(CohortFile c, n, LOCK_SH) \<in> locks g" "(CohortFile c', n', LOCK_SH) \<in> locks g"
    using assms(2,3) ok(1) by (auto simp: at_def in_locks)
  then show ?thesis using ok(2) by (cases c; cases c') (auto simp: cohorts_apart_def)
qed

text \<open>
  Capacity is refused only for a reason: a call that has passed the probe is never refused by
  the lock of its own cohort, so \<open>ErrGPUAdmissionCapacity\<close> always comes from an opposing lease
  that was held when the call probed.
\<close>

theorem own_cohort_always_granted:
  assumes "gate_reachable g" and "at g n c AtOwn"
  shows "grants (locks g) (CohortFile c) n LOCK_SH"
proof (rule ccontr)
  have ok: "table_ok g" "mutex_held_once g" using reachable_gate_ok [OF assms(1)] by (auto simp: gate_ok_def)
  assume "\<not> grants (locks g) (CohortFile c) n LOCK_SH"
  then obtain k m where k: "(CohortFile c, k, m) \<in> locks g" "k \<noteq> n" "m = LOCK_EX"
    by (auto simp: grants_def) (metis lock_mode.exhaust)
  then obtain c' s where "calls g k = Some (c', s)" "(CohortFile c, LOCK_EX) \<in> held c' s"
    using in_locks [OF ok(1)] by blast
  then have "at g k c' Probed" by (cases s) (auto simp: at_def)
  then have "(MutexFile, k, LOCK_EX) \<in> locks g" using holds_mutex [OF ok(1)] by blast
  moreover have "(MutexFile, n, LOCK_EX) \<in> locks g" using holds_mutex [OF ok(1) assms(2)] by blast
  ultimately show False using ok(2) k(2) by (auto simp: mutex_held_once_def)
qed

definition idle :: "gate \<Rightarrow> bool" where
  "idle g \<longleftrightarrow> (\<forall>n c s. at g n c s \<longrightarrow> s = Closed \<or> (\<exists>e. s = Refused e))"

text \<open>With at most leases of its own cohort about, a new call can run to its lease.\<close>

lemma acquire_runs:
  assumes l: "\<forall>x\<in>locks g. \<exists>j. x = (CohortFile c, j, LOCK_SH)" and k: "calls g k = None" and t: "table_ok g"
  shows "\<exists>h. gate_step\<^sup>*\<^sup>* g h \<and> calls h = (calls g)(k \<mapsto> (c, Leased)) \<and> locks h = insert (CohortFile c, k, LOCK_SH) (locks g)"
proof -
  have mine: "(f, k, m) \<notin> locks g" for f m using no_call_no_lock [OF t k] .
  define g0 where "g0 = goto k c AtMutex g"
  define g1 where "g1 = goto k c AtProbe (take_lock MutexFile k LOCK_EX g0)"
  define g2 where "g2 = goto k c Probed (take_lock (CohortFile (opposing c)) k LOCK_EX g1)"
  define g3 where "g3 = goto k c AtOwn (drop_lock (CohortFile (opposing c)) k g2)"
  define g4 where "g4 = goto k c Leasing (take_lock (CohortFile c) k LOCK_SH g3)"
  define g5 where "g5 = goto k c Leased (drop_lock MutexFile k g4)"
  have ls: "locks g0 = locks g" "locks g1 = insert (MutexFile, k, LOCK_EX) (locks g)"
      "locks g3 = insert (MutexFile, k, LOCK_EX) (locks g)" "locks g5 = insert (CohortFile c, k, LOCK_SH) (locks g)"
    using mine l by (auto simp: g0_def g1_def g2_def g3_def g4_def g5_def gate_moves)
  have "gate_step g g0" unfolding g0_def by (rule enter [OF k])
  moreover have "gate_step g0 g1" unfolding g1_def
    by (rule lock_mutex) (use ls l in \<open>auto simp: g0_def at_def goto_def grants_def\<close>)
  moreover have "gate_step g1 g2" unfolding g2_def
    by (rule probe_free) (use ls l in \<open>auto simp: g1_def at_def goto_def grants_def\<close>)
  moreover have "gate_step g2 g3" unfolding g3_def by (rule unprobe) (auto simp: g2_def at_def goto_def)
  moreover have "gate_step g3 g4" unfolding g4_def
    by (rule own_granted) (use ls l in \<open>auto simp: g3_def at_def goto_def grants_def\<close>)
  moreover have "gate_step g4 g5" unfolding g5_def by (rule leave) (auto simp: g4_def at_def goto_def)
  moreover have "calls g5 = (calls g)(k \<mapsto> (c, Leased))"
    by (simp add: g0_def g1_def g2_def g3_def g4_def g5_def gate_moves)
  ultimately show ?thesis using ls(4) by (meson converse_rtranclp_into_rtranclp rtranclp.rtrancl_refl)
qed

text \<open>
  (C40) A crash strands nothing: after a process dies at any point it holds no lock, and when no
  call is in progress and no lease is held, a call of either cohort can run to its lease.
\<close>

theorem crash_strands_nothing:
  assumes r: "gate_reachable g" and n: "at g n c s"
  shows "\<exists>g'. gate_step g g' \<and> at g' n c Closed \<and> (\<forall>f m. (f, n, m) \<notin> locks g') \<and>
     (idle g' \<longrightarrow> (\<forall>k c'. calls g' k = None \<longrightarrow> (\<exists>h. gate_step\<^sup>*\<^sup>* g' h \<and> at h k c' Leased)))"
proof -
  define g' where "g' = goto n c Closed (g\<lparr>locks := {l \<in> locks g. fst (snd l) \<noteq> n}\<rparr>)"
  have st: "gate_step g g'" unfolding g'_def using crash [OF n] .
  have t: "table_ok g'" using reachable_gate_ok [OF gate_next [OF r st]] by (simp add: gate_ok_def)
  have run: "\<exists>h. gate_step\<^sup>*\<^sup>* g' h \<and> at h k c' Leased" if i: "idle g'" and k: "calls g' k = None" for k c'
  proof -
    have "(f, j, m) \<notin> locks g'" for f j m
    proof
      assume "(f, j, m) \<in> locks g'"
      then obtain x s where "calls g' j = Some (x, s)" "(f, m) \<in> held x s" using in_locks [OF t] by blast
      moreover have "s = Closed \<or> (\<exists>e. s = Refused e)" using i \<open>calls g' j = _\<close> by (auto simp: idle_def at_def)
      ultimately show False by auto
    qed
    then have "\<forall>x\<in>locks g'. \<exists>j. x = (CohortFile c', j, LOCK_SH)" by auto
    from acquire_runs [OF this k t] show ?thesis by (auto simp: at_def)
  qed
  have "at g' n c Closed" "\<forall>f m. (f, n, m) \<notin> locks g'" by (auto simp: g'_def at_def goto_def)
  with st run show ?thesis by blast
qed

subsection \<open>Witnesses\<close>

lemma steps_reachable: "gate_step\<^sup>*\<^sup>* g h \<Longrightarrow> gate_reachable g \<Longrightarrow> gate_reachable h"
  by (induction rule: rtranclp_induct) (auto intro: gate_next)

lemma two_live_leases:
  obtains g where "gate_reachable g" "at g 1 GPUAdmissionLive Leased" "at g 2 GPUAdmissionLive Leased"
proof -
  have i: "gate_reachable initial_gate" "table_ok initial_gate" "locks initial_gate = {}" "calls initial_gate 1 = None"
    using gate_start reachable_gate_ok [OF gate_start] by (auto simp: gate_ok_def initial_gate_def)
  obtain g where g: "gate_step\<^sup>*\<^sup>* initial_gate g" "calls g = (calls initial_gate)(1 \<mapsto> (GPUAdmissionLive, Leased))"
      "locks g = {(CohortFile GPUAdmissionLive, 1, LOCK_SH)}"
    using acquire_runs [of initial_gate GPUAdmissionLive 1] i by auto
  have r: "gate_reachable g" using steps_reachable [OF g(1) i(1)] .
  have "table_ok g" using reachable_gate_ok [OF r] by (simp add: gate_ok_def)
  then obtain h where h: "gate_step\<^sup>*\<^sup>* g h" "calls h = (calls g)(2 \<mapsto> (GPUAdmissionLive, Leased))"
    using acquire_runs [of g GPUAdmissionLive 2] g by (auto simp: initial_gate_def)
  show ?thesis
    by (rule that [OF steps_reachable [OF h(1) r]]) (simp_all add: at_def g h)
qed

theorem leases_never_mix_witness:
  "\<exists>g. gate_reachable g \<and> at g 1 GPUAdmissionLive Leased \<and> at g 2 GPUAdmissionLive Leased \<and> \<not> at g 2 GPUAdmissionBatch Leased"
proof -
  obtain g where g: "gate_reachable g" "at g 1 GPUAdmissionLive Leased" "at g 2 GPUAdmissionLive Leased"
    by (rule two_live_leases)
  have "\<not> at g 2 GPUAdmissionBatch Leased" using leases_never_mix [OF g(1,2)] by blast
  with g show ?thesis by blast
qed

definition own_point :: gate where
  "own_point = goto 1 GPUAdmissionBatch AtOwn (initial_gate\<lparr>locks := {(MutexFile, 1, LOCK_EX)}\<rparr>)"

theorem own_cohort_always_granted_witness:
  "grants (locks own_point) (CohortFile GPUAdmissionBatch) 1 LOCK_SH"
proof -
  define g0 where "g0 = goto 1 GPUAdmissionBatch AtMutex initial_gate"
  define g1 where "g1 = goto 1 GPUAdmissionBatch AtProbe (take_lock MutexFile 1 LOCK_EX g0)"
  define g2 where "g2 = goto 1 GPUAdmissionBatch Probed (take_lock (CohortFile GPUAdmissionLive) 1 LOCK_EX g1)"
  have "gate_step initial_gate g0" unfolding g0_def by (rule enter) (simp add: initial_gate_def)
  moreover have "gate_step g0 g1" unfolding g1_def
    by (rule lock_mutex) (auto simp: g0_def at_def goto_def grants_def initial_gate_def)
  moreover have "gate_step g1 g2" unfolding g2_def
    using probe_free [of g1 1 GPUAdmissionBatch] by (auto simp: g0_def g1_def gate_moves grants_def initial_gate_def)
  moreover have "goto 1 GPUAdmissionBatch AtOwn (drop_lock (CohortFile (opposing GPUAdmissionBatch)) 1 g2) = own_point"
    by (auto simp: g0_def g1_def g2_def gate_moves own_point_def initial_gate_def)
  then have "gate_step g2 own_point"
    using unprobe [of g2 1 GPUAdmissionBatch] by (simp add: g2_def at_def goto_def)
  ultimately have "gate_reachable own_point" using gate_start gate_next by blast
  then show ?thesis by (rule own_cohort_always_granted) (simp add: own_point_def at_def goto_def)
qed

theorem crash_strands_nothing_witness:
  "\<exists>g g'. gate_step g g' \<and> at g 1 GPUAdmissionLive Leased \<and> at g' 1 GPUAdmissionLive Closed"
proof -
  obtain g where g: "gate_reachable g" "at g 1 GPUAdmissionLive Leased" by (rule two_live_leases)
  from crash_strands_nothing [OF g] g show ?thesis by blast
qed

end
