(* ===== verification/Job_Library.thy ===== *)
theory Job_Library
  imports Go_Float Runner_HTTP
begin

section \<open>What the file jobs share\<close>

text \<open>
  The ABR runner and the VOD runner take jobs of the same kind, with code of the same shape: a request
  whose compact JSON text is its identity, URLs with credentials, work units that count the pixels of
  the delivered frames, progress in percent.  Here are the pieces of the standard library that only
  they use, and the arithmetic that both bill with.
\<close>

subsection \<open>JSON text without HTML escapes\<close>

text \<open>
  An encoder after \<open>SetEscapeHTML(false)\<close>.  The line separators U+2028 and U+2029 are escaped
  in any case.  The texts are valid UTF-8, as they come out of a JSON decoder.
\<close>

definition plain_escape_char :: "char \<Rightarrow> string" where
  "plain_escape_char c = (if c \<in> set ''<>&'' then [c] else json_escape_char c)"

fun plain_escape :: "string \<Rightarrow> string" where
  "plain_escape [] = []"
| "plain_escape (c # cs) =
     (if of_char c = (226::nat) \<and> take 2 cs = [char_of (128::nat), char_of (168::nat)] then char_of (92::nat) # ''u2028'' @ plain_escape (drop 2 cs)
      else if of_char c = (226::nat) \<and> take 2 cs = [char_of (128::nat), char_of (169::nat)] then char_of (92::nat) # ''u2029'' @ plain_escape (drop 2 cs)
      else plain_escape_char c @ plain_escape cs)"

definition plain_quote :: "string \<Rightarrow> string" where
  "plain_quote s = quote_char # plain_escape s @ [quote_char]"

fun plain_text :: "json \<Rightarrow> string" where
  "plain_text JNull = ''null''"
| "plain_text (JBool b) = (if b then ''true'' else ''false'')"
| "plain_text (JNum n) = n"
| "plain_text (JStr s) = plain_quote s"
| "plain_text (JArr xs) = ''['' @ join_with '','' (map plain_text xs) @ '']''"
| "plain_text (JObj kvs) =
     ''{'' @ join_with '','' (map (\<lambda>(k, v). plain_quote k @ '':'' @ plain_text v) kvs) @ ''}''"

text \<open>A member that is left out when it is empty (\<open>omitempty\<close>), and a map, whose keys are sorted.\<close>

definition unless_blank :: "string \<Rightarrow> string \<Rightarrow> (string \<times> json) list" where
  "unless_blank name v = (if v = [] then [] else [(name, JStr v)])"

definition unless_zero :: "string \<Rightarrow> u64 \<Rightarrow> (string \<times> json) list" where
  "unless_zero name v = (if v = 0 then [] else [(name, JNum (fmt_u64 v))])"

definition sorted_members :: "(string \<times> 'a) list \<Rightarrow> (string \<times> 'a) list" where
  "sorted_members m = sort_key fst m"

subsection \<open>A percentage as a JSON number\<close>

datatype float64 = Finite rat | NotANumber | Infinite bool

text \<open>The number of digits before the decimal point, at least by the value (zero or less for a small fraction).\<close>

function decimal_point :: "nat \<Rightarrow> rat \<Rightarrow> int" where
  "decimal_point 0 x = 0"
| "decimal_point (Suc n) x = (if 1 \<le> x then 1 + decimal_point n (x / 10) else if x < 1 / 10 then decimal_point n (x * 10) - 1 else 0)"
  by pat_completeness auto
termination by (relation "measure fst") auto

definition power10 :: "int \<Rightarrow> rat" where
  "power10 e = (if 0 \<le> e then 10 ^ nat e else 1 / 10 ^ nat (- e))"

text \<open>The shortest decimal of at most 17 digits that reads back as the number, without trailing zeros.\<close>

definition decimal_digits :: "rat \<Rightarrow> string \<times> int" where
  "decimal_digits x =
     (let p = decimal_point 330 x;
          digits = (\<lambda>n. round_even (x * power10 (int n - p)));
          n = (case find (\<lambda>n. fl (of_int (digits n) * power10 (p - int n)) = x) [1..<17] of None \<Rightarrow> 17 | Some n \<Rightarrow> n);
          s = fmt_int (digits n)
      in (trim_right_by (\<lambda>c. c = CHR ''0'') s, p + int (length s) - int n))"

text \<open>\<open>encoding/json\<close> for a \<open>float64\<close>: an exponent below a millionth and from a sextillion on.\<close>

definition json_float :: "rat \<Rightarrow> string" where
  "json_float x =
     (if x = 0 then ''0''
      else (let (d, p) = decimal_digits \<bar>x\<bar>; sign = (if x < 0 then ''-'' else []) in
        if \<bar>x\<bar> < 1 / 1000000 \<or> 10 ^ 21 \<le> \<bar>x\<bar> then
          sign @ hd d # (if tl d = [] then [] else CHR ''.'' # tl d) @ ''e'' @ (if p - 1 < 0 then ''-'' else ''+'') @ fmt_int \<bar>p - 1\<bar>
        else if p \<le> 0 then sign @ ''0.'' @ replicate (nat (- p)) (CHR ''0'') @ d
        else if int (length d) \<le> p then sign @ d @ replicate (nat p - length d) (CHR ''0'')
        else sign @ take (nat p) d @ CHR ''.'' # drop (nat p) d))"

subsection \<open>URLs with credentials\<close>

definition http_url_without_user :: "string \<Rightarrow> bool" where
  "http_url_without_user raw \<longleftrightarrow>
     (case url_parse raw of None \<Rightarrow> False
      | Some u \<Rightarrow> (Scheme u = ''https'' \<or> Scheme u = ''http'') \<and> Host u \<noteq> [] \<and> UserInfo u = None)"

subsection \<open>Frame megapixels\<close>

text \<open>Frames times width times height with \<open>bits.Mul64\<close>; \<open>None\<close> when a product leaves 64 bits.\<close>

definition frame_pixels :: "u64 \<Rightarrow> u32 \<Rightarrow> u32 \<Rightarrow> u64 option" where
  "frame_pixels frames width height =
     (let (hi, frameWidth) = mul64 frames (ucast width) in
      if hi \<noteq> 0 then None
      else (let (hi', pixels) = mul64 frameWidth (ucast height) in if hi' \<noteq> 0 then None else Some pixels))"

definition megapixels :: "u64 \<Rightarrow> u64" where
  "megapixels pixels = (let units = pixels div 1000000 in if pixels mod 1000000 \<noteq> 0 then units + 1 else units)"

lemma unat_ucast_u32 [simp]: "unat (ucast (w :: u32) :: u64) = unat w"
proof -
  have "unat w < 2 ^ 64" using unsigned_less [of w, where 'a = nat] by simp
  then show ?thesis by (simp add: unsigned_ucast_eq take_bit_nat_eq_self)
qed

lemma frame_pixels_iff:
  "frame_pixels f w h = Some p \<longleftrightarrow>
     unat f * unat w < 2 ^ 64 \<and> unat f * unat w * unat h < 2 ^ 64 \<and> unat p = unat f * unat w * unat h"
proof -
  have "frame_pixels f w h = Some p \<longleftrightarrow>
      fst (mul64 f (ucast w)) = 0 \<and> fst (mul64 (snd (mul64 f (ucast w))) (ucast h)) = 0 \<and>
      p = snd (mul64 (snd (mul64 f (ucast w))) (ucast h))"
    by (auto simp: frame_pixels_def Let_def split: prod.splits)
  also have "\<dots> \<longleftrightarrow> unat f * unat w < 2 ^ 64 \<and> fst (mul64 (snd (mul64 f (ucast w))) (ucast h)) = 0 \<and>
      p = snd (mul64 (snd (mul64 f (ucast w))) (ucast h))"
    by (simp add: mul64_hi_zero_iff)
  also have "\<dots> \<longleftrightarrow> unat f * unat w < 2 ^ 64 \<and> unat f * unat w * unat h < 2 ^ 64 \<and> unat p = unat f * unat w * unat h"
  proof (rule conj_cong [OF refl])
    assume "unat f * unat w < 2 ^ 64"
    then have m: "unat (snd (mul64 f (ucast w))) = unat f * unat w" using mul64_snd [of f "ucast w"] by (simp add: mul64_hi_zero_iff)
    show "(fst (mul64 (snd (mul64 f (ucast w))) (ucast h)) = 0 \<and> p = snd (mul64 (snd (mul64 f (ucast w))) (ucast h))) \<longleftrightarrow>
        (unat f * unat w * unat h < 2 ^ 64 \<and> unat p = unat f * unat w * unat h)"
      using mul64_hi_zero_iff [of "snd (mul64 f (ucast w))" "ucast h"] mul64_snd [of "snd (mul64 f (ucast w))" "ucast h"]
      unfolding m unat_ucast_u32 word_unat_eq_iff [of p] by argo
  qed
  finally show ?thesis .
qed

lemma unat_megapixels: "unat (megapixels p) = (unat p + 999999) div 1000000"
proof -
  have u: "unat (p div 1000000) = unat p div 1000000" "unat (p mod 1000000) = unat p mod 1000000"
    by (simp_all add: unat_div unat_mod)
  have "unat max_u64 = 2 ^ 64 - 1" by (simp add: max_u64_def unsigned_minus_1_eq_mask mask_eq_exp_minus_1)
  then have "p div 1000000 \<noteq> max_u64" using u(1) unat_u64_less [of p] by (auto simp: word_unat_eq_iff)
  then have s: "unat (p div 1000000 + 1) = Suc (unat p div 1000000)" using u(1) by (simp add: unat_Suc_u64)
  have z: "p mod 1000000 = 0 \<longleftrightarrow> unat p mod 1000000 = 0" using u(2) by (simp add: word_unat_eq_iff)
  have m: "unat p = 1000000 * (unat p div 1000000) + unat p mod 1000000" by simp
  have "unat p mod 1000000 < 1000000" by simp
  then show ?thesis
  proof (cases "unat p mod 1000000 = 0")
    case False
    then have "Suc (1000000 * (unat p div 1000000)) \<le> unat p" using m by linarith
    then show ?thesis using s z False by (auto simp: megapixels_def Let_def intro!: div_nat_eqI [symmetric])
  qed (use u(1) z m in \<open>auto simp: megapixels_def Let_def intro!: div_nat_eqI [symmetric]\<close>)
qed

end
