(* ===== verification/ABR_Contract.thy ===== *)
theory ABR_Contract
  imports Job_Library
begin

section \<open>The contract of the ABR runner (abr-runner/contract_v2.go)\<close>

text \<open>
  Requests, progress, results and errors of an ABR job, their validators and JSON documents, and the
  work units of a job.  A Go map is an association list with distinct keys.  Records share no field
  names, so the fields \<open>Schema\<close>, \<open>WorkloadID\<close>, \<open>RequestSHA256\<close> and the like carry
  the name of their structure.
\<close>

definition ABRRequestSchemaV2 :: string where "ABRRequestSchemaV2 = ''video-transcode-abr/v2''"
definition ABRProgressSchemaV2 :: string where "ABRProgressSchemaV2 = ''video-transcode-abr-progress/v2''"
definition ABRResultSchemaV2 :: string where "ABRResultSchemaV2 = ''video-transcode-abr-result/v2''"
definition ABRWorkUnitV2 :: string where "ABRWorkUnitV2 = ''video-frame-megapixel''"
definition ABRWorkUnitsTrailerV2 :: string where "ABRWorkUnitsTrailerV2 = ''X-Livepeer-Work-Units''"

text \<open>\<open>workloadIDPattern\<close> and \<open>sha256Pattern\<close> are the expressions of the live runner.\<close>

definition workloadIDPattern :: "string \<Rightarrow> bool" where "workloadIDPattern = opaqueIDPattern"
definition sha256Pattern :: "string \<Rightarrow> bool" where "sha256Pattern = workIDPattern"

definition progressPhasesV2 :: "string list" where
  "progressPhasesV2 = [''accepted'', ''downloading'', ''probing'', ''encoding'', ''packaging'', ''uploading'']"

record ABRInputV2 =
  DownloadURL :: string
  ContentSHA256 :: string

record ABRLadderV2 =
  LadderPreset :: string

record ArtifactDestinationV2 =
  ArtifactURI :: string
  UploadURL :: string

record RenditionDestinationsV2 =
  Playlist :: ArtifactDestinationV2
  Stream :: ArtifactDestinationV2

record ABROutputDestinationsV2 =
  Manifest :: ArtifactDestinationV2
  Renditions :: "(string \<times> RenditionDestinationsV2) list"

record ABRWorkloadRequestV2 =
  ReqSchema :: string
  ReqWorkloadID :: string
  Input :: ABRInputV2
  Ladder :: ABRLadderV2
  Output :: ABROutputDestinationsV2

record ABRProgressV2 =
  ProgSchema :: string
  ProgWorkloadID :: string
  ProgRequestSHA256 :: string
  ProgSequence :: u64
  ProgPhase :: string
  OverallProgress :: float64
  ProgRendition :: string
  ProgFrames :: u64

record DeliveredVideoV2 =
  ActualFrames :: u64
  FrameWidth :: u32
  FrameHeight :: u32

record RenditionResultV2 =
  ResultName :: string
  PlaylistURI :: string
  StreamURI :: string
  ResultVideo :: "DeliveredVideoV2 option"
  ResultSize :: u64

record UsageClaimV2 =
  ClaimUnit :: string
  Units :: u64

record ABRTerminalResultV2 =
  ResSchema :: string
  ResWorkloadID :: string
  ResRequestSHA256 :: string
  ResOutcome :: string
  ManifestURI :: string
  ResRenditions :: "RenditionResultV2 list"
  ResUsage :: UsageClaimV2

record ABRErrorV2 =
  ErrorCode :: string
  ErrorMessage :: string
  Retryable :: bool

record ABRTerminalErrorV2 =
  ErrSchema :: string
  ErrWorkloadID :: string
  ErrRequestSHA256 :: string
  ErrOutcome :: string
  ErrBody :: ABRErrorV2
  ErrUsage :: UsageClaimV2

subsection \<open>Replay of a workload\<close>

datatype WorkloadReplayDispositionV2 = ResumeExistingV2 | ReplayTerminalV2 | RejectIDReuseV2

definition ClassifyWorkloadReplayV2 :: "string \<Rightarrow> string \<Rightarrow> bool \<Rightarrow> WorkloadReplayDispositionV2" where
  "ClassifyWorkloadReplayV2 existing incoming terminal =
     (if existing \<noteq> incoming then RejectIDReuseV2 else if terminal then ReplayTerminalV2 else ResumeExistingV2)"

subsection \<open>Validators\<close>

definition validateArtifactURI :: "string \<Rightarrow> error" where
  "validateArtifactURI raw =
     (if trim_space raw = [] \<or> length raw > 1024 \<or> contains_any raw [CHR ''?'', CHR 0x0D, CHR 0x0A]
      then err ''must be a non-secret stable artifact reference'' else None)"

definition validateCredentialURL :: "string \<Rightarrow> error" where
  "validateCredentialURL raw =
     (if http_url_without_user raw then None else err ''must be an http(s) URL without userinfo'')"

definition validateDestination :: "ArtifactDestinationV2 \<Rightarrow> error" where
  "validateDestination d =
     (case validateArtifactURI (ArtifactURI d) of Some e \<Rightarrow> Some e | None \<Rightarrow> validateCredentialURL (UploadURL d))"

text \<open>The loop over the renditions of the preset; \<open>required\<close> holds the names met so far.\<close>

fun requiredOutputsV2 :: "(string \<times> RenditionDestinationsV2) list \<Rightarrow> string list \<Rightarrow> string list \<Rightarrow> error" where
  "requiredOutputsV2 outputs required [] = None"
| "requiredOutputsV2 outputs required (name # names) =
     (if name \<in> set required \<or> trim_space name = []
      then err ''selected preset contains an invalid or duplicate rendition name''
      else (case map_of outputs name of
        None \<Rightarrow> err ''output.renditions is missing a rendition''
      | Some out \<Rightarrow>
          (case validateDestination (Playlist out) of
             Some e \<Rightarrow> Some e
           | None \<Rightarrow>
               (case validateDestination (Stream out) of
                  Some e \<Rightarrow> Some e
                | None \<Rightarrow> requiredOutputsV2 outputs (name # required) names))))"

definition ValidateABRRequestV2 :: "ABRWorkloadRequestV2 \<Rightarrow> string list \<Rightarrow> error" where
  "ValidateABRRequestV2 req requiredRenditions =
     (if ReqSchema req \<noteq> ABRRequestSchemaV2 then err ''schema is not the request schema''
      else if \<not> workloadIDPattern (ReqWorkloadID req) then err ''workload_id must be 1-128 safe opaque characters''
      else if validateCredentialURL (DownloadURL (Input req)) \<noteq> None then validateCredentialURL (DownloadURL (Input req))
      else if ContentSHA256 (Input req) \<noteq> [] \<and> \<not> sha256Pattern (ContentSHA256 (Input req))
      then err ''input.content_sha256 must be lowercase SHA-256 hex''
      else if trim_space (LadderPreset (Ladder req)) = [] then err ''ladder.preset is required''
      else if validateDestination (Manifest (Output req)) \<noteq> None then validateDestination (Manifest (Output req))
      else if requiredRenditions = [] then err ''selected preset must contain at least one rendition''
      else (case requiredOutputsV2 (Renditions (Output req)) [] requiredRenditions of
        Some e \<Rightarrow> Some e
      | None \<Rightarrow>
          if list_all (\<lambda>o'. fst o' \<in> set requiredRenditions) (Renditions (Output req)) then None
          else err ''output.renditions contains an unexpected rendition''))"

definition ValidateABRProgressV2 :: "ABRProgressV2 \<Rightarrow> error" where
  "ValidateABRProgressV2 p =
     (if ProgSchema p \<noteq> ABRProgressSchemaV2 then err ''schema is not the progress schema''
      else if \<not> workloadIDPattern (ProgWorkloadID p) \<or> \<not> sha256Pattern (ProgRequestSHA256 p) then err ''progress identity is invalid''
      else if ProgSequence p = 0 then err ''progress sequence starts at 1''
      else if ProgPhase p \<notin> set progressPhasesV2 then err ''progress phase is invalid''
      else (case OverallProgress p of
              Finite x \<Rightarrow> if x < 0 \<or> 100 < x then err ''progress phase or percentage is invalid'' else None
            | _ \<Rightarrow> err ''progress phase or percentage is invalid''))"

subsection \<open>Work units\<close>

text \<open>
  \<open>ceil(sum(frames * width * height) / 1_000_000)\<close> over the renditions with video, in 64 bits with
  every overflow an error.
\<close>

fun sumPixelsV2 :: "u64 \<Rightarrow> RenditionResultV2 list \<Rightarrow> u64 result" where
  "sumPixelsV2 pixels [] = Inr pixels"
| "sumPixelsV2 pixels (rendition # rest) =
     (case ResultVideo rendition of
        None \<Rightarrow> sumPixelsV2 pixels rest
      | Some v \<Rightarrow>
          (case frame_pixels (ActualFrames v) (FrameWidth v) (FrameHeight v) of
             None \<Rightarrow> fails ''pixel count overflow''
           | Some p \<Rightarrow>
               (let (s, carry) = add64 pixels p in
                if carry \<noteq> 0 then fails ''aggregate pixel count overflow'' else sumPixelsV2 s rest)))"

definition CalculateFrameMegapixelUnitsV2 :: "RenditionResultV2 list \<Rightarrow> u64 result" where
  "CalculateFrameMegapixelUnitsV2 renditions = map_sum id megapixels (sumPixelsV2 0 renditions)"

definition video_ok :: "DeliveredVideoV2 option \<Rightarrow> bool" where
  "video_ok v \<longleftrightarrow> (case v of None \<Rightarrow> True | Some x \<Rightarrow> ActualFrames x \<noteq> 0 \<and> FrameWidth x \<noteq> 0 \<and> FrameHeight x \<noteq> 0)"

text \<open>The loop over the renditions of a result; \<open>seen\<close> holds the names met so far.\<close>

fun resultRenditionsV2 :: "string list \<Rightarrow> RenditionResultV2 list \<Rightarrow> error" where
  "resultRenditionsV2 seen [] = None"
| "resultRenditionsV2 seen (r # rs) =
     (if ResultName r = [] then err ''rendition result is missing artifact identity''
      else if validateArtifactURI (PlaylistURI r) \<noteq> None then validateArtifactURI (PlaylistURI r)
      else if validateArtifactURI (StreamURI r) \<noteq> None then validateArtifactURI (StreamURI r)
      else if ResultName r \<in> set seen then err ''duplicate rendition result''
      else if \<not> video_ok (ResultVideo r) then err ''video rendition has invalid delivered dimensions or frames''
      else resultRenditionsV2 (ResultName r # seen) rs)"

definition ValidateABRTerminalResultV2 :: "ABRTerminalResultV2 \<Rightarrow> error" where
  "ValidateABRTerminalResultV2 result =
     (if ResSchema result \<noteq> ABRResultSchemaV2 \<or> ResOutcome result \<noteq> ''succeeded'' then err ''terminal result schema or outcome is invalid''
      else if \<not> workloadIDPattern (ResWorkloadID result) \<or> \<not> sha256Pattern (ResRequestSHA256 result)
      then err ''terminal result identity is invalid''
      else if validateArtifactURI (ManifestURI result) \<noteq> None then validateArtifactURI (ManifestURI result)
      else if ResRenditions result = [] then err ''terminal result requires manifest and renditions''
      else if resultRenditionsV2 [] (ResRenditions result) \<noteq> None then resultRenditionsV2 [] (ResRenditions result)
      else (case CalculateFrameMegapixelUnitsV2 (ResRenditions result) of
              Inl e \<Rightarrow> Some e
            | Inr units \<Rightarrow>
                if ClaimUnit (ResUsage result) \<noteq> ABRWorkUnitV2 \<or> Units (ResUsage result) \<noteq> units
                then err ''usage claim mismatch'' else None))"

definition ValidateABRTerminalErrorV2 :: "ABRTerminalErrorV2 \<Rightarrow> error" where
  "ValidateABRTerminalErrorV2 result =
     (let body = ErrBody result; message = to_lower (ErrorMessage body) in
      if ErrSchema result \<noteq> ABRResultSchemaV2 \<or> ErrOutcome result \<noteq> ''failed'' then err ''terminal error schema or outcome is invalid''
      else if \<not> workloadIDPattern (ErrWorkloadID result) \<or> \<not> sha256Pattern (ErrRequestSHA256 result)
      then err ''terminal error identity is invalid''
      else if ErrorCode body = [] \<or> ErrorMessage body = [] then err ''terminal error code and redacted message are required''
      else if length (ErrorMessage body) > 512 \<or> contains message ''http://'' \<or> contains message ''https://'' \<or> contains message ''sig=''
      then err ''terminal error message is not safely redacted''
      else if ClaimUnit (ErrUsage result) \<noteq> ABRWorkUnitV2 then err ''failed terminal work unit is invalid'' else None)"

definition CanonicalRenditionNamesV2 :: "string list \<Rightarrow> string list" where
  "CanonicalRenditionNamesV2 names = sort names"

subsection \<open>Documents\<close>

definition json_destination :: "ArtifactDestinationV2 \<Rightarrow> json" where
  "json_destination d = JObj [(''artifact_uri'', JStr (ArtifactURI d)), (''upload_url'', JStr (UploadURL d))]"

definition json_request :: "ABRWorkloadRequestV2 \<Rightarrow> json" where
  "json_request req = JObj
     [(''schema'', JStr (ReqSchema req)), (''workload_id'', JStr (ReqWorkloadID req)),
      (''input'', JObj ((''download_url'', JStr (DownloadURL (Input req))) # unless_blank ''content_sha256'' (ContentSHA256 (Input req)))),
      (''ladder'', JObj [(''preset'', JStr (LadderPreset (Ladder req)))]),
      (''output'', JObj
        [(''manifest'', json_destination (Manifest (Output req))),
         (''renditions'', JObj (map (\<lambda>(name, d). (name, JObj
            [(''playlist'', json_destination (Playlist d)), (''stream'', json_destination (Stream d))]))
            (sorted_members (Renditions (Output req)))))])]"

text \<open>The identity of a request: the digest of its compact text.\<close>

definition RequestContentSHA256V2 :: "(string \<Rightarrow> string) \<Rightarrow> ABRWorkloadRequestV2 \<Rightarrow> string" where
  "RequestContentSHA256V2 sha req = hex_encode (sha (plain_text (json_request req)))"

definition json_progress :: "ABRProgressV2 \<Rightarrow> rat \<Rightarrow> json" where
  "json_progress p x = JObj
     ([(''schema'', JStr (ProgSchema p)), (''workload_id'', JStr (ProgWorkloadID p)),
       (''request_sha256'', JStr (ProgRequestSHA256 p)), (''sequence'', JNum (fmt_u64 (ProgSequence p))),
       (''phase'', JStr (ProgPhase p)), (''overall_progress'', JNum (json_float x))]
      @ unless_blank ''rendition'' (ProgRendition p) @ unless_zero ''frames'' (ProgFrames p))"

definition json_video :: "DeliveredVideoV2 \<Rightarrow> json" where
  "json_video v = JObj
     [(''actual_frames'', JNum (fmt_u64 (ActualFrames v))), (''width'', JNum (fmt_nat (unat (FrameWidth v)))),
      (''height'', JNum (fmt_nat (unat (FrameHeight v))))]"

definition json_rendition :: "RenditionResultV2 \<Rightarrow> json" where
  "json_rendition r = JObj
     ([(''name'', JStr (ResultName r)), (''playlist_uri'', JStr (PlaylistURI r)), (''stream_uri'', JStr (StreamURI r))]
      @ (case ResultVideo r of None \<Rightarrow> [] | Some v \<Rightarrow> [(''video'', json_video v)])
      @ [(''file_size_bytes'', JNum (fmt_u64 (ResultSize r)))])"

definition json_usage :: "UsageClaimV2 \<Rightarrow> json" where
  "json_usage u = JObj [(''unit'', JStr (ClaimUnit u)), (''units'', JNum (fmt_u64 (Units u)))]"

definition json_result :: "ABRTerminalResultV2 \<Rightarrow> json" where
  "json_result v = JObj
     [(''schema'', JStr (ResSchema v)), (''workload_id'', JStr (ResWorkloadID v)),
      (''request_sha256'', JStr (ResRequestSHA256 v)), (''outcome'', JStr (ResOutcome v)),
      (''manifest_uri'', JStr (ManifestURI v)), (''renditions'', JArr (map json_rendition (ResRenditions v))),
      (''usage'', json_usage (ResUsage v))]"

definition json_terminal_error :: "ABRTerminalErrorV2 \<Rightarrow> json" where
  "json_terminal_error v = JObj
     [(''schema'', JStr (ErrSchema v)), (''workload_id'', JStr (ErrWorkloadID v)),
      (''request_sha256'', JStr (ErrRequestSHA256 v)), (''outcome'', JStr (ErrOutcome v)),
      (''error'', JObj [(''code'', JStr (ErrorCode (ErrBody v))), (''message'', JStr (ErrorMessage (ErrBody v))),
                       (''retryable'', JBool (Retryable (ErrBody v)))]),
      (''usage'', json_usage (ErrUsage v))]"

subsection \<open>What the units count\<close>

definition video_pixels :: "DeliveredVideoV2 option \<Rightarrow> nat" where
  "video_pixels v = (case v of None \<Rightarrow> 0 | Some x \<Rightarrow> unat (ActualFrames x) * unat (FrameWidth x) * unat (FrameHeight x))"

definition row_fits :: "DeliveredVideoV2 option \<Rightarrow> bool" where
  "row_fits v \<longleftrightarrow> (case v of None \<Rightarrow> True | Some x \<Rightarrow> unat (ActualFrames x) * unat (FrameWidth x) < 2 ^ 64)"

definition total_pixels :: "RenditionResultV2 list \<Rightarrow> nat" where
  "total_pixels rs = sum_list (map (\<lambda>r. video_pixels (ResultVideo r)) rs)"

lemma total_pixels_simps [simp]:
  "total_pixels [] = 0" "total_pixels (r # rs) = video_pixels (ResultVideo r) + total_pixels rs"
  by (simp_all add: total_pixels_def)

lemma unat_of_small: "n < 2 ^ 64 \<Longrightarrow> unat (of_nat n :: u64) = n"
  by (simp add: unsigned_of_nat take_bit_nat_eq_self)

lemma frame_pixels_video:
  "frame_pixels (ActualFrames v) (FrameWidth v) (FrameHeight v) = Some p \<longleftrightarrow>
     row_fits (Some v) \<and> video_pixels (Some v) < 2 ^ 64 \<and> unat p = video_pixels (Some v)"
  by (simp add: frame_pixels_iff row_fits_def video_pixels_def)

lemma sumPixels_iff:
  "sumPixelsV2 s rs = Inr p \<longleftrightarrow>
     (\<forall>r\<in>set rs. row_fits (ResultVideo r)) \<and> unat s + total_pixels rs < 2 ^ 64 \<and> unat p = unat s + total_pixels rs"
proof (induction rs arbitrary: s)
  case Nil
  show ?case using unat_u64_less [of s] by (auto simp: word_unat_eq_iff)
next
  case (Cons r rs)
  show ?case
  proof (cases "ResultVideo r")
    case None
    then show ?thesis using Cons.IH by (simp add: row_fits_def video_pixels_def)
  next
    case (Some v)
    show ?thesis
    proof (cases "frame_pixels (ActualFrames v) (FrameWidth v) (FrameHeight v)")
      case None
      then have "\<not> (row_fits (Some v) \<and> video_pixels (Some v) < 2 ^ 64)"
        using frame_pixels_video [of v "of_nat (video_pixels (Some v))"] by (auto simp: unat_of_small)
      then show ?thesis using None Some by (auto simp: fails_def)
    next
      case (Some q)
      then have q: "row_fits (ResultVideo r)" "unat q = video_pixels (ResultVideo r)"
        using frame_pixels_video \<open>ResultVideo r = Some v\<close> by simp_all
      show ?thesis
      proof (cases "snd (add64 s q) = 0")
        case True
        then have "unat (fst (add64 s q)) = unat s + video_pixels (ResultVideo r)" using add64_fst q(2) by simp
        then show ?thesis
          using Cons.IH [of "fst (add64 s q)"] True Some q(1) \<open>ResultVideo r = Some v\<close> by (simp add: case_prod_beta Let_def add.assoc)
      next
        case False
        then have "2 ^ 64 \<le> unat s + video_pixels (ResultVideo r)" using q(2) by (simp add: add64_carry_iff)
        then show ?thesis using False Some \<open>ResultVideo r = Some v\<close> by (simp add: case_prod_beta Let_def fails_def)
      qed
    qed
  qed
qed

lemma units_iff:
  "CalculateFrameMegapixelUnitsV2 rs = Inr u \<longleftrightarrow>
     (\<forall>r\<in>set rs. row_fits (ResultVideo r)) \<and> total_pixels rs < 2 ^ 64 \<and> unat u = (total_pixels rs + 999999) div 1000000"
proof -
  have "CalculateFrameMegapixelUnitsV2 rs = Inr u \<longleftrightarrow> (\<exists>p. sumPixelsV2 0 rs = Inr p \<and> u = megapixels p)"
    by (cases "sumPixelsV2 0 rs") (auto simp: CalculateFrameMegapixelUnitsV2_def)
  also have "\<dots> \<longleftrightarrow> (\<forall>r\<in>set rs. row_fits (ResultVideo r)) \<and> total_pixels rs < 2 ^ 64 \<and>
      (\<exists>p. unat p = total_pixels rs \<and> u = megapixels p)"
    by (auto simp: sumPixels_iff)
  also have "\<dots> \<longleftrightarrow> (\<forall>r\<in>set rs. row_fits (ResultVideo r)) \<and> total_pixels rs < 2 ^ 64 \<and>
      unat u = (total_pixels rs + 999999) div 1000000"
  proof -
    have "(\<exists>p. unat p = total_pixels rs \<and> u = megapixels p) \<longleftrightarrow> unat u = (total_pixels rs + 999999) div 1000000"
      if "total_pixels rs < 2 ^ 64"
    proof
      assume "unat u = (total_pixels rs + 999999) div 1000000"
      moreover have "unat (of_nat (total_pixels rs) :: u64) = total_pixels rs" using that by (simp add: unat_of_small)
      ultimately have "u = megapixels (of_nat (total_pixels rs))" by (simp add: word_unat_eq_iff unat_megapixels)
      then show "\<exists>p. unat p = total_pixels rs \<and> u = megapixels p"
        using \<open>unat (of_nat (total_pixels rs) :: u64) = total_pixels rs\<close> by blast
    qed (auto simp: unat_megapixels)
    then show ?thesis by blast
  qed
  finally show ?thesis .
qed

lemma row_fits_pixels: "video_ok v \<Longrightarrow> video_pixels v < 2 ^ 64 \<Longrightarrow> row_fits v"
proof (cases v)
  case (Some x)
  assume ok: "video_ok v" and less: "video_pixels v < 2 ^ 64"
  then have "0 < unat (FrameHeight x)" using Some by (simp add: video_ok_def unat_gt_0)
  then have "unat (ActualFrames x) * unat (FrameWidth x) \<le> video_pixels v" using Some by (simp add: video_pixels_def)
  then show ?thesis using less Some by (simp add: row_fits_def)
qed (simp add: row_fits_def)

lemma total_pixels_member: "r \<in> set rs \<Longrightarrow> video_pixels (ResultVideo r) \<le> total_pixels rs"
  by (induction rs) auto

text \<open>
  (C25) The work units of a job are exact: for renditions whose videos have frames and dimensions, the
  calculation succeeds exactly when all their pixels together number less than 2^64, and then it is the
  pixels divided by a million, rounded up; so it does not depend on the order of the renditions.
\<close>

theorem work_units_exact:
  assumes "\<forall>r\<in>set rs. video_ok (ResultVideo r)"
  shows "(CalculateFrameMegapixelUnitsV2 rs = Inr u) =
     (total_pixels rs < 2 ^ 64 \<and> unat u = (total_pixels rs + 999999) div 1000000)"
proof -
  have "\<forall>r\<in>set rs. row_fits (ResultVideo r)" if "total_pixels rs < 2 ^ 64"
    using assms that row_fits_pixels total_pixels_member by (meson order_le_less_trans)
  then show ?thesis by (auto simp: units_iff)
qed

definition two_renditions :: "RenditionResultV2 list" where
  "two_renditions =
     [\<lparr>ResultName = ''a'', PlaylistURI = ''p'', StreamURI = ''s'', ResultVideo = Some \<lparr>ActualFrames = 3, FrameWidth = 1000, FrameHeight = 500\<rparr>, ResultSize = 1\<rparr>,
      \<lparr>ResultName = ''b'', PlaylistURI = ''p'', StreamURI = ''s'', ResultVideo = None, ResultSize = 1\<rparr>]"

theorem work_units_exact_witness: "CalculateFrameMegapixelUnitsV2 two_renditions = Inr 2"
  by (subst work_units_exact) (simp_all add: two_renditions_def video_ok_def video_pixels_def)

end
