(* ===== verification/ABR_Store.thy ===== *)
theory ABR_Store
  imports ABR_Contract
begin

section \<open>The workload journals of the ABR runner (abr-runner/workload_store_v2.go)\<close>

text \<open>
  One file per workload, replaced by a rename after every change.  A journal holds the checkpoints from
  which a restarted runner goes on: what is prepared, what is delivered, the events sent so far and the
  terminal event.

  \<^item> The directory maps workload IDs to files; a file that cannot be read or decoded is a value of its
    own.  The JSON of a journal is read back as it was written (its texts come out of JSON, so they are
    UTF-8): a file is the record, and \<open>cloneJournalV2\<close> is a copy.
  \<^item> Every method loads and checks a journal, decides and saves; the decision is its \<open>_step\<close>
    function, and \<open>update_journal\<close> is the frame.  Each save has an outcome of its own.
  \<^item> An event holds its document; on the wire it is the compact text of that.
\<close>

definition workloadJournalVersionV2 :: int where "workloadJournalVersionV2 = 1"
definition maxStoredProgressEventsV2 :: nat where "maxStoredProgressEventsV2 = 256"
definition WorkloadInProgressV2 :: string where "WorkloadInProgressV2 = ''in_progress''"
definition WorkloadSucceededV2 :: string where "WorkloadSucceededV2 = ''succeeded''"
definition WorkloadFailedV2 :: string where "WorkloadFailedV2 = ''failed''"

record PreparedRenditionV2 =
  PrepName :: string
  PlaylistPath :: string
  StreamPath :: string
  PlaylistSHA256 :: string
  StreamSHA256 :: string
  PrepVideo :: "DeliveredVideoV2 option"
  PrepSize :: u64

record PreparedArtifactV2 =
  ArtifactPath :: string
  ArtifactSHA256 :: string

record StoredSSEEventV2 =
  EventSequence :: u64
  EventName :: string
  EventData :: json

record WorkloadJournalV2 =
  JournalVersion :: int
  WorkloadID :: string
  RequestSHA256 :: string
  JournalState :: string
  Phase :: string
  NextSequence :: u64
  Prepared :: "(string \<times> PreparedRenditionV2) list"
  Delivered :: "(string \<times> RenditionResultV2) list"
  ManifestPrepared :: "PreparedArtifactV2 option"
  ManifestDeliveredURI :: string
  ProgressEvents :: "StoredSSEEventV2 list"
  TerminalEvent :: "StoredSSEEventV2 option"

datatype journal_file = JournalUnreadable | JournalGarbage | JournalFile WorkloadJournalV2

type_synonym journals = "(string \<times> journal_file) list"

subsection \<open>Checks\<close>

text \<open>A relative path in clean form that does not leave the directory (\<open>safeJournalPathV2\<close>).\<close>

definition safeJournalPathV2 :: "string \<Rightarrow> bool" where
  "safeJournalPathV2 path \<longleftrightarrow>
     (let clean = path_clean path in
      path \<noteq> [] \<and> path = clean \<and> \<not> has_prefix path ''/'' \<and> clean \<noteq> ''..'' \<and> \<not> has_prefix clean ''../'')"

definition preparedMatchesResultV2 :: "PreparedRenditionV2 \<Rightarrow> RenditionResultV2 \<Rightarrow> bool" where
  "preparedMatchesResultV2 p r \<longleftrightarrow> PrepName p = ResultName r \<and> PrepSize p = ResultSize r \<and> PrepVideo p = ResultVideo r"

definition renditionResultsEqualV2 :: "RenditionResultV2 \<Rightarrow> RenditionResultV2 \<Rightarrow> bool" where
  "renditionResultsEqualV2 left right \<longleftrightarrow>
     PlaylistURI left = PlaylistURI right \<and> StreamURI left = StreamURI right \<and>
     preparedMatchesResultV2 \<lparr>PrepName = ResultName left, PlaylistPath = [], StreamPath = [], PlaylistSHA256 = [],
       StreamSHA256 = [], PrepVideo = ResultVideo left, PrepSize = ResultSize left\<rparr> right"

definition terminal_state :: "WorkloadJournalV2 \<Rightarrow> bool" where
  "terminal_state r \<longleftrightarrow> JournalState r = WorkloadSucceededV2 \<or> JournalState r = WorkloadFailedV2"

definition prepared_stored :: "PreparedRenditionV2 \<Rightarrow> bool" where
  "prepared_stored p \<longleftrightarrow> safeJournalPathV2 (PlaylistPath p) \<and> safeJournalPathV2 (StreamPath p) \<and>
     sha256Pattern (PlaylistSHA256 p) \<and> sha256Pattern (StreamSHA256 p)"

definition validateJournalLocked :: "WorkloadJournalV2 \<Rightarrow> error" where
  "validateJournalLocked r =
     (if NextSequence r = 0 then err ''next event sequence must be positive''
      else if JournalState r \<noteq> WorkloadInProgressV2 \<and> \<not> terminal_state r then err ''unknown workload state''
      else if terminal_state r \<noteq> (TerminalEvent r \<noteq> None) then err ''terminal state and event disagree''
      else if (case TerminalEvent r of None \<Rightarrow> False
               | Some e \<Rightarrow> NextSequence r \<le> EventSequence e \<or> (EventName e \<noteq> ''result'' \<and> EventName e \<noteq> ''error''))
      then err ''terminal event identity is invalid''
      else if \<not> list_all (\<lambda>(name, p). name = PrepName p \<and> prepared_stored p) (Prepared r)
      then err ''prepared checkpoint is invalid''
      else if \<not> list_all (\<lambda>(name, d). name = ResultName d \<and>
                  (case map_of (Prepared r) name of None \<Rightarrow> False | Some p \<Rightarrow> preparedMatchesResultV2 p d)) (Delivered r)
      then err ''delivered checkpoint is invalid''
      else if (case ManifestPrepared r of None \<Rightarrow> False
               | Some a \<Rightarrow> \<not> safeJournalPathV2 (ArtifactPath a) \<or> \<not> sha256Pattern (ArtifactSHA256 a))
      then err ''prepared manifest checkpoint is invalid''
      else if ManifestDeliveredURI r \<noteq> [] then
        (if ManifestPrepared r = None then err ''delivered manifest has no prepared checkpoint''
         else validateArtifactURI (ManifestDeliveredURI r))
      else None)"

subsection \<open>Loading and saving\<close>

definition loadJournalV2 :: "journals \<Rightarrow> string \<Rightarrow> WorkloadJournalV2 result" where
  "loadJournalV2 d workloadID =
     (if \<not> workloadIDPattern workloadID then fails ''invalid workload ID''
      else (case map_of d workloadID of
        None \<Rightarrow> Inl ErrNotExist
      | Some JournalUnreadable \<Rightarrow> fails ''workload journal cannot be read''
      | Some JournalGarbage \<Rightarrow> fails ''decode workload journal''
      | Some (JournalFile r) \<Rightarrow>
          if JournalVersion r \<noteq> workloadJournalVersionV2 \<or> WorkloadID r \<noteq> workloadID \<or> \<not> sha256Pattern (RequestSHA256 r)
          then fails ''workload journal failed identity validation''
          else (case validateJournalLocked r of
                  Some e \<Rightarrow> Inl (ErrWrap ''workload journal is invalid'' e)
                | None \<Rightarrow> Inr r)))"

definition saveJournalV2 :: "save_outcome \<Rightarrow> journals \<Rightarrow> WorkloadJournalV2 \<Rightarrow> error \<times> journals" where
  "saveJournalV2 io d r =
     (let written = put (WorkloadID r) (JournalFile r) d in
      case io of
        SaveOK \<Rightarrow> (None, written)
      | SaveFailsBeforeRename \<Rightarrow> (err ''workload journal was not replaced'', d)
      | SaveFailsAfterRename \<Rightarrow> (err ''workload directory was not synced'', written))"

definition cloneJournalV2 :: "WorkloadJournalV2 \<Rightarrow> WorkloadJournalV2" where
  "cloneJournalV2 r = r"

definition LoadWorkload :: "journals \<Rightarrow> string \<Rightarrow> WorkloadJournalV2 result" where
  "LoadWorkload d workloadID = map_sum id cloneJournalV2 (loadJournalV2 d workloadID)"

definition update_journal ::
    "save_outcome \<Rightarrow> journals \<Rightarrow> string \<Rightarrow> (WorkloadJournalV2 \<Rightarrow> ('a \<times> WorkloadJournalV2) result) \<Rightarrow> 'a result \<times> journals" where
  "update_journal io d workloadID step =
     (case loadJournalV2 d workloadID of
        Inl e \<Rightarrow> (Inl e, d)
      | Inr r \<Rightarrow>
          (case step r of
             Inl e \<Rightarrow> (Inl e, d)
           | Inr (a, r') \<Rightarrow>
               (case saveJournalV2 io d r' of
                  (Some e, d') \<Rightarrow> (Inl e, d')
                | (None, d') \<Rightarrow> (Inr a, d'))))"

subsection \<open>Creating\<close>

definition newJournalV2 :: "string \<Rightarrow> string \<Rightarrow> WorkloadJournalV2" where
  "newJournalV2 workloadID requestSHA256 =
     \<lparr>JournalVersion = workloadJournalVersionV2, WorkloadID = workloadID, RequestSHA256 = requestSHA256,
      JournalState = WorkloadInProgressV2, Phase = ''accepted'', NextSequence = 1, Prepared = [], Delivered = [],
      ManifestPrepared = None, ManifestDeliveredURI = [], ProgressEvents = [], TerminalEvent = None\<rparr>"

definition LoadOrCreate ::
    "save_outcome \<Rightarrow> journals \<Rightarrow> string \<Rightarrow> string \<Rightarrow> (WorkloadJournalV2 \<times> WorkloadReplayDispositionV2) result \<times> journals" where
  "LoadOrCreate io d workloadID requestSHA256 =
     (if \<not> workloadIDPattern workloadID \<or> \<not> sha256Pattern requestSHA256 then (fails ''invalid workload journal identity'', d)
      else (case loadJournalV2 d workloadID of
        Inl e \<Rightarrow>
          if errors_is e ErrNotExist then
            (let r = newJournalV2 workloadID requestSHA256 in
             case saveJournalV2 io d r of
               (Some e', d') \<Rightarrow> (Inl e', d')
             | (None, d') \<Rightarrow> (Inr (cloneJournalV2 r, ResumeExistingV2), d'))
          else (Inl e, d)
      | Inr r \<Rightarrow> (Inr (cloneJournalV2 r, ClassifyWorkloadReplayV2 (RequestSHA256 r) requestSHA256 (terminal_state r)), d)))"

subsection \<open>Checkpoints\<close>

definition in_progress :: "WorkloadJournalV2 \<Rightarrow> bool" where
  "in_progress r \<longleftrightarrow> JournalState r = WorkloadInProgressV2"

definition AppendProgress_step ::
    "string \<Rightarrow> float64 \<Rightarrow> string \<Rightarrow> u64 \<Rightarrow> WorkloadJournalV2 \<Rightarrow> (StoredSSEEventV2 \<times> WorkloadJournalV2) result" where
  "AppendProgress_step phase progress rendition frames r =
     (if \<not> in_progress r then fails ''cannot append progress to terminal workload''
      else (let value = \<lparr>ProgSchema = ABRProgressSchemaV2, ProgWorkloadID = WorkloadID r, ProgRequestSHA256 = RequestSHA256 r,
                    ProgSequence = NextSequence r, ProgPhase = phase, OverallProgress = progress,
                    ProgRendition = rendition, ProgFrames = frames\<rparr> in
        case ValidateABRProgressV2 value of
          Some e \<Rightarrow> Inl e
        | None \<Rightarrow>
            (case progress of
               Finite x \<Rightarrow>
                 (let event = \<lparr>EventSequence = NextSequence r, EventName = ''progress'', EventData = json_progress value x\<rparr>;
                      events = ProgressEvents r @ [event];
                      kept = (if length events > maxStoredProgressEventsV2
                              then drop (length events - maxStoredProgressEventsV2) events else events)
                  in Inr (event, r\<lparr>NextSequence := NextSequence r + 1, Phase := phase, ProgressEvents := kept\<rparr>))
             | _ \<Rightarrow> fails ''progress cannot be encoded'')))"

definition AppendProgress ::
    "save_outcome \<Rightarrow> journals \<Rightarrow> string \<Rightarrow> string \<Rightarrow> float64 \<Rightarrow> string \<Rightarrow> u64 \<Rightarrow> StoredSSEEventV2 result \<times> journals" where
  "AppendProgress io d workloadID phase progress rendition frames =
     update_journal io d workloadID (AppendProgress_step phase progress rendition frames)"

definition SavePrepared_step :: "PreparedRenditionV2 \<Rightarrow> WorkloadJournalV2 \<Rightarrow> (unit \<times> WorkloadJournalV2) result" where
  "SavePrepared_step p r =
     (if \<not> in_progress r \<or> PrepName p = [] \<or> PlaylistPath p = [] \<or> StreamPath p = [] \<or> \<not> prepared_stored p \<or> \<not> video_ok (PrepVideo p)
      then fails ''invalid prepared rendition checkpoint''
      else if map_of (Delivered r) (PrepName p) \<noteq> None then fails ''cannot replace a delivered rendition checkpoint''
      else Inr ((), r\<lparr>Prepared := put (PrepName p) p (Prepared r)\<rparr>))"

definition SavePrepared :: "save_outcome \<Rightarrow> journals \<Rightarrow> string \<Rightarrow> PreparedRenditionV2 \<Rightarrow> unit result \<times> journals" where
  "SavePrepared io d workloadID p = update_journal io d workloadID (SavePrepared_step p)"

definition SaveDelivered_step :: "RenditionResultV2 \<Rightarrow> WorkloadJournalV2 \<Rightarrow> (unit \<times> WorkloadJournalV2) result" where
  "SaveDelivered_step result r =
     (if \<not> in_progress r then fails ''cannot deliver a rendition for terminal workload''
      else if \<not> (case map_of (Prepared r) (ResultName result) of None \<Rightarrow> False | Some p \<Rightarrow> preparedMatchesResultV2 p result)
      then fails ''delivered rendition has no matching prepared checkpoint''
      else (case validateArtifactURI (PlaylistURI result) of
        Some e \<Rightarrow> Inl e
      | None \<Rightarrow>
          (case validateArtifactURI (StreamURI result) of
             Some e \<Rightarrow> Inl e
           | None \<Rightarrow> Inr ((), r\<lparr>Delivered := put (ResultName result) result (Delivered r)\<rparr>))))"

definition SaveDelivered :: "save_outcome \<Rightarrow> journals \<Rightarrow> string \<Rightarrow> RenditionResultV2 \<Rightarrow> unit result \<times> journals" where
  "SaveDelivered io d workloadID result = update_journal io d workloadID (SaveDelivered_step result)"

definition SavePreparedManifest_step :: "PreparedArtifactV2 \<Rightarrow> WorkloadJournalV2 \<Rightarrow> (unit \<times> WorkloadJournalV2) result" where
  "SavePreparedManifest_step p r =
     (if \<not> in_progress r \<or> ManifestDeliveredURI r \<noteq> [] \<or> \<not> safeJournalPathV2 (ArtifactPath p) \<or> \<not> sha256Pattern (ArtifactSHA256 p)
      then fails ''invalid prepared manifest checkpoint''
      else Inr ((), r\<lparr>ManifestPrepared := Some p\<rparr>))"

definition SavePreparedManifest :: "save_outcome \<Rightarrow> journals \<Rightarrow> string \<Rightarrow> PreparedArtifactV2 \<Rightarrow> unit result \<times> journals" where
  "SavePreparedManifest io d workloadID p = update_journal io d workloadID (SavePreparedManifest_step p)"

definition SaveDeliveredManifest_step :: "string \<Rightarrow> WorkloadJournalV2 \<Rightarrow> (unit \<times> WorkloadJournalV2) result" where
  "SaveDeliveredManifest_step artifactURI r =
     (if \<not> in_progress r \<or> ManifestPrepared r = None then fails ''manifest has no prepared checkpoint''
      else (case validateArtifactURI artifactURI of
              Some e \<Rightarrow> Inl e
            | None \<Rightarrow> Inr ((), r\<lparr>ManifestDeliveredURI := artifactURI\<rparr>)))"

definition SaveDeliveredManifest :: "save_outcome \<Rightarrow> journals \<Rightarrow> string \<Rightarrow> string \<Rightarrow> unit result \<times> journals" where
  "SaveDeliveredManifest io d workloadID artifactURI = update_journal io d workloadID (SaveDeliveredManifest_step artifactURI)"

subsection \<open>The terminal event\<close>

datatype terminal_value = TerminalResult ABRTerminalResultV2 | TerminalError ABRTerminalErrorV2

definition storedTerminalV2 :: "u64 \<Rightarrow> terminal_value \<Rightarrow> StoredSSEEventV2" where
  "storedTerminalV2 sequence value =
     (case value of
        TerminalResult v \<Rightarrow> \<lparr>EventSequence = sequence, EventName = ''result'', EventData = json_result v\<rparr>
      | TerminalError v \<Rightarrow> \<lparr>EventSequence = sequence, EventName = ''error'', EventData = json_terminal_error v\<rparr>)"

definition deliveredUnitsV2 :: "WorkloadJournalV2 \<Rightarrow> u64 result" where
  "deliveredUnitsV2 r = CalculateFrameMegapixelUnitsV2 (map snd (Delivered r))"

text \<open>What the journal demands of the value: its identity, and that it claims what is delivered.\<close>

definition terminalClaimV2 :: "terminal_value \<Rightarrow> WorkloadJournalV2 \<Rightarrow> error" where
  "terminalClaimV2 value r =
     (case value of
        TerminalResult v \<Rightarrow>
          if ResWorkloadID v \<noteq> WorkloadID r \<or> ResRequestSHA256 v \<noteq> RequestSHA256 r
          then err ''terminal result identity differs from workload journal''
          else if ManifestURI v \<noteq> ManifestDeliveredURI r then err ''terminal result differs from delivered manifest checkpoint''
          else if length (ResRenditions v) \<noteq> length (Delivered r) then err ''terminal result does not match delivered checkpoints''
          else if \<not> list_all (\<lambda>x. case map_of (Delivered r) (ResultName x) of None \<Rightarrow> False
                                  | Some c \<Rightarrow> renditionResultsEqualV2 c x) (ResRenditions v)
          then err ''terminal result differs from delivered checkpoint'' else None
      | TerminalError v \<Rightarrow>
          if ErrWorkloadID v \<noteq> WorkloadID r \<or> ErrRequestSHA256 v \<noteq> RequestSHA256 r
          then err ''terminal error identity differs from workload journal''
          else (case deliveredUnitsV2 r of
                  Inl e \<Rightarrow> Some e
                | Inr units \<Rightarrow>
                    if Units (ErrUsage v) \<noteq> units then err ''terminal error usage differs from delivered checkpoints'' else None))"

definition recordTerminal_step :: "string \<Rightarrow> terminal_value \<Rightarrow> WorkloadJournalV2 \<Rightarrow> (StoredSSEEventV2 \<times> WorkloadJournalV2) result" where
  "recordTerminal_step state value r =
     (if \<not> in_progress r then fails ''workload is already terminal''
      else (case terminalClaimV2 value r of
              Some e \<Rightarrow> Inl e
            | None \<Rightarrow>
                (let event = storedTerminalV2 (NextSequence r) value in
                 Inr (event, r\<lparr>NextSequence := NextSequence r + 1, JournalState := state, Phase := state, TerminalEvent := Some event\<rparr>))))"

definition RecordTerminalResult :: "save_outcome \<Rightarrow> journals \<Rightarrow> string \<Rightarrow> ABRTerminalResultV2 \<Rightarrow> StoredSSEEventV2 result \<times> journals" where
  "RecordTerminalResult io d workloadID result =
     (case ValidateABRTerminalResultV2 result of
        Some e \<Rightarrow> (Inl e, d)
      | None \<Rightarrow> update_journal io d workloadID (recordTerminal_step WorkloadSucceededV2 (TerminalResult result)))"

definition RecordTerminalError :: "save_outcome \<Rightarrow> journals \<Rightarrow> string \<Rightarrow> ABRTerminalErrorV2 \<Rightarrow> StoredSSEEventV2 result \<times> journals" where
  "RecordTerminalError io d workloadID result =
     (case ValidateABRTerminalErrorV2 result of
        Some e \<Rightarrow> (Inl e, d)
      | None \<Rightarrow> update_journal io d workloadID (recordTerminal_step WorkloadFailedV2 (TerminalError result)))"

subsection \<open>The scan of the directory\<close>

fun load_journals :: "journals \<Rightarrow> string list \<Rightarrow> WorkloadJournalV2 list result" where
  "load_journals d [] = Inr []"
| "load_journals d (x # xs) =
     (case loadJournalV2 d x of
        Inl e \<Rightarrow> Inl e
      | Inr r \<Rightarrow> (case load_journals d xs of Inl e \<Rightarrow> Inl e | Inr rs \<Rightarrow> Inr (r # rs)))"

definition RecoverableWorkloads :: "bool \<Rightarrow> journals \<Rightarrow> WorkloadJournalV2 list result" where
  "RecoverableWorkloads readable d =
     (if \<not> readable then fails ''workload directory cannot be read''
      else map_sum id (\<lambda>rs. sort_key WorkloadID (map cloneJournalV2 (filter in_progress rs)))
             (load_journals d (sort_key (\<lambda>x. x @ ''.json'') (map fst d))))"

end
