(* ===== verification/ABR_Journal.thy ===== *)
theory ABR_Journal
  imports ABR_Store
begin

section \<open>Journals through any run of the store\<close>

text \<open>
  The invariant of a journal, what no operation takes back, and the runs of the store: any calls, for
  any workloads, each with any outcome of its save.  The number bounds how often the store was called;
  it bounds the sequence numbers, which are 64-bit words.
\<close>

subsection \<open>The invariant of a journal\<close>

text \<open>The sequence number of the next progress event, as long as there is one to come.\<close>

definition progress_end :: "WorkloadJournalV2 \<Rightarrow> nat" where
  "progress_end r = unat (NextSequence r) - (if TerminalEvent r = None then 0 else 1)"

definition progress_event :: "WorkloadJournalV2 \<Rightarrow> StoredSSEEventV2 \<Rightarrow> bool" where
  "progress_event r e \<longleftrightarrow> EventName e = ''progress'' \<and>
     (\<exists>p x. EventData e = json_progress p x \<and> OverallProgress p = Finite x \<and> ValidateABRProgressV2 p = None \<and>
        ProgWorkloadID p = WorkloadID r \<and> ProgRequestSHA256 p = RequestSHA256 r \<and> ProgSequence p = EventSequence e)"

definition events_ok :: "WorkloadJournalV2 \<Rightarrow> bool" where
  "events_ok r \<longleftrightarrow> list_all (progress_event r) (ProgressEvents r) \<and>
     length (ProgressEvents r) \<le> maxStoredProgressEventsV2 \<and>
     (\<exists>k\<ge>1. map (\<lambda>e. unat (EventSequence e)) (ProgressEvents r) = [k..<progress_end r] \<and>
        (k = 1 \<or> length (ProgressEvents r) = maxStoredProgressEventsV2))"

definition prepared_ok :: "WorkloadJournalV2 \<Rightarrow> bool" where
  "prepared_ok r \<longleftrightarrow> distinct (map fst (Prepared r)) \<and>
     (\<forall>name p. map_of (Prepared r) name = Some p \<longrightarrow> name = PrepName p \<and> name \<noteq> [] \<and> prepared_stored p \<and> video_ok (PrepVideo p))"

definition delivered_ok :: "WorkloadJournalV2 \<Rightarrow> bool" where
  "delivered_ok r \<longleftrightarrow> distinct (map fst (Delivered r)) \<and>
     (\<forall>name x. map_of (Delivered r) name = Some x \<longrightarrow> name = ResultName x \<and>
        validateArtifactURI (PlaylistURI x) = None \<and> validateArtifactURI (StreamURI x) = None \<and>
        (\<exists>p. map_of (Prepared r) name = Some p \<and> preparedMatchesResultV2 p x))"

definition manifest_ok :: "WorkloadJournalV2 \<Rightarrow> bool" where
  "manifest_ok r \<longleftrightarrow>
     (\<forall>a. ManifestPrepared r = Some a \<longrightarrow> safeJournalPathV2 (ArtifactPath a) \<and> sha256Pattern (ArtifactSHA256 a)) \<and>
     (ManifestDeliveredURI r \<noteq> [] \<longrightarrow> ManifestPrepared r \<noteq> None \<and> validateArtifactURI (ManifestDeliveredURI r) = None)"

definition terminal_value_ok :: "terminal_value \<Rightarrow> string \<Rightarrow> bool" where
  "terminal_value_ok value state \<longleftrightarrow>
     (case value of
        TerminalResult v \<Rightarrow> state = WorkloadSucceededV2 \<and> ValidateABRTerminalResultV2 v = None
      | TerminalError v \<Rightarrow> state = WorkloadFailedV2 \<and> ValidateABRTerminalErrorV2 v = None)"

definition terminal_ok :: "WorkloadJournalV2 \<Rightarrow> bool" where
  "terminal_ok r \<longleftrightarrow>
     (case TerminalEvent r of
        None \<Rightarrow> in_progress r
      | Some e \<Rightarrow> 1 \<le> unat (EventSequence e) \<and> unat (EventSequence e) = unat (NextSequence r) - 1 \<and>
          (\<exists>value. e = storedTerminalV2 (EventSequence e) value \<and> terminal_value_ok value (JournalState r) \<and>
             terminalClaimV2 value r = None))"

definition journal_ok :: "nat \<Rightarrow> WorkloadJournalV2 \<Rightarrow> bool" where
  "journal_ok n r \<longleftrightarrow>
     JournalVersion r = workloadJournalVersionV2 \<and> workloadIDPattern (WorkloadID r) \<and> sha256Pattern (RequestSHA256 r) \<and>
     1 \<le> unat (NextSequence r) \<and> unat (NextSequence r) \<le> n \<and>
     events_ok r \<and> prepared_ok r \<and> delivered_ok r \<and> manifest_ok r \<and> terminal_ok r"

lemma states [simp]:
  "WorkloadInProgressV2 \<noteq> WorkloadSucceededV2" "WorkloadInProgressV2 \<noteq> WorkloadFailedV2" "WorkloadSucceededV2 \<noteq> WorkloadFailedV2"
  "WorkloadSucceededV2 \<noteq> WorkloadInProgressV2" "WorkloadFailedV2 \<noteq> WorkloadInProgressV2" "WorkloadFailedV2 \<noteq> WorkloadSucceededV2"
  by (simp_all add: WorkloadInProgressV2_def WorkloadSucceededV2_def WorkloadFailedV2_def)

lemma storedTerminal_simps [simp]:
  "EventSequence (storedTerminalV2 n v) = n" "EventName (storedTerminalV2 n v) = ''result'' \<or> EventName (storedTerminalV2 n v) = ''error''"
  by (simp_all add: storedTerminalV2_def split: terminal_value.splits)

lemma terminal_value_state: "terminal_value_ok v s \<Longrightarrow> s = WorkloadSucceededV2 \<or> s = WorkloadFailedV2"
  by (cases v) (simp_all add: terminal_value_ok_def)

lemma terminal_ok_state:
  assumes "terminal_ok r" shows "terminal_state r = (TerminalEvent r \<noteq> None)" "in_progress r = (TerminalEvent r = None)"
proof -
  have "JournalState r = WorkloadSucceededV2 \<or> JournalState r = WorkloadFailedV2" if "TerminalEvent r = Some e" for e
    using assms that terminal_value_state by (auto simp: terminal_ok_def)
  moreover have "JournalState r = WorkloadInProgressV2" if "TerminalEvent r = None"
    using assms that by (simp add: terminal_ok_def in_progress_def)
  ultimately show "terminal_state r = (TerminalEvent r \<noteq> None)" "in_progress r = (TerminalEvent r = None)"
    by (cases "TerminalEvent r"; force simp: terminal_state_def in_progress_def)+
qed

lemma list_all_map_of:
  assumes "distinct (map fst m)" and "\<And>k v. map_of m k = Some v \<Longrightarrow> P k v"
  shows "list_all (\<lambda>(k, v). P k v) m"
  using assms by (auto simp: list_all_iff)

lemma journal_ok_valid: "journal_ok n r \<Longrightarrow> validateJournalLocked r = None"
proof -
  assume ok: "journal_ok n r"
  have t: "terminal_ok r" "1 \<le> unat (NextSequence r)" and p: "prepared_ok r" "delivered_ok r" "manifest_ok r"
    using ok by (simp_all add: journal_ok_def)
  have 1: "NextSequence r \<noteq> 0" using t(2) by auto
  have 2: "\<not> (case TerminalEvent r of None \<Rightarrow> False
      | Some e \<Rightarrow> NextSequence r \<le> EventSequence e \<or> (EventName e \<noteq> ''result'' \<and> EventName e \<noteq> ''error''))"
  proof (cases "TerminalEvent r")
    case (Some e)
    then obtain v where e: "unat (EventSequence e) = unat (NextSequence r) - 1" "e = storedTerminalV2 (EventSequence e) v"
      using t(1) by (auto simp: terminal_ok_def)
    have "EventName e = ''result'' \<or> EventName e = ''error''" using storedTerminal_simps(2) [of "EventSequence e" v] e(2) by simp
    moreover have "EventSequence e < NextSequence r" using e(1) t(2) by (simp add: word_less_nat_alt)
    ultimately show ?thesis using Some by auto
  qed simp
  have 3: "list_all (\<lambda>(name, p). name = PrepName p \<and> prepared_stored p) (Prepared r)"
    by (rule list_all_map_of) (use p(1) in \<open>auto simp: prepared_ok_def\<close>)
  have 4: "list_all (\<lambda>(name, d). name = ResultName d \<and>
      (case map_of (Prepared r) name of None \<Rightarrow> False | Some p \<Rightarrow> preparedMatchesResultV2 p d)) (Delivered r)"
    by (rule list_all_map_of) (use p(2) in \<open>force simp: delivered_ok_def\<close>)+
  have 5: "\<not> (case ManifestPrepared r of None \<Rightarrow> False
      | Some a \<Rightarrow> \<not> safeJournalPathV2 (ArtifactPath a) \<or> \<not> sha256Pattern (ArtifactSHA256 a))"
    using p(3) by (auto simp: manifest_ok_def split: option.splits)
  show ?thesis
    using 1 2 3 4 5 terminal_ok_state [OF t(1)] p(3)
    by (auto simp: validateJournalLocked_def in_progress_def manifest_ok_def)
qed

subsection \<open>What no operation takes back\<close>

definition journal_advances :: "WorkloadJournalV2 \<Rightarrow> WorkloadJournalV2 \<Rightarrow> bool" where
  "journal_advances r r' \<longleftrightarrow>
     WorkloadID r' = WorkloadID r \<and> RequestSHA256 r' = RequestSHA256 r \<and> NextSequence r \<le> NextSequence r' \<and>
     (\<forall>name x. map_of (Delivered r) name = Some x \<longrightarrow>
        (\<exists>x'. map_of (Delivered r') name = Some x' \<and> ResultVideo x' = ResultVideo x \<and> ResultSize x' = ResultSize x)) \<and>
     (ManifestDeliveredURI r \<noteq> [] \<longrightarrow> ManifestDeliveredURI r' \<noteq> []) \<and>
     (\<forall>e\<in>set (ProgressEvents r'). e \<in> set (ProgressEvents r) \<or> NextSequence r \<le> EventSequence e) \<and>
     (\<forall>t. TerminalEvent r' = Some t \<longrightarrow> TerminalEvent r = None \<longrightarrow> NextSequence r \<le> EventSequence t) \<and>
     (TerminalEvent r \<noteq> None \<or> terminal_state r \<longrightarrow> r' = r)"

lemma journal_advances_refl [simp]: "journal_advances r r"
  by (auto simp: journal_advances_def)

lemma journal_advances_trans: "journal_advances a b \<Longrightarrow> journal_advances b c \<Longrightarrow> journal_advances a c"
  unfolding journal_advances_def by (intro conjI) (metis order_trans)+

text \<open>The promise of an operation to the store: it keeps the invariant and only advances.\<close>

locale journal_op =
  fixes admits :: bool and step :: "WorkloadJournalV2 \<Rightarrow> ('a \<times> WorkloadJournalV2) result"
  assumes keeps: "admits \<Longrightarrow> journal_ok n r \<Longrightarrow> Suc n < 2 ^ 64 \<Longrightarrow> step r = Inr (a, r') \<Longrightarrow>
    journal_ok (Suc n) r' \<and> journal_advances r r'"

lemma next_sequence:
  assumes "journal_ok n r" and "Suc n < 2 ^ 64"
  shows "unat (NextSequence r + 1) = Suc (unat (NextSequence r))" "NextSequence r < NextSequence r + 1"
proof -
  have "NextSequence r \<noteq> max_u64"
    using assms unat_u64_less [of "NextSequence r"] by (auto simp: journal_ok_def max_u64_def unsigned_minus_1_eq_mask mask_eq_exp_minus_1)
  then show "unat (NextSequence r + 1) = Suc (unat (NextSequence r))" "NextSequence r < NextSequence r + 1"
    by (simp_all add: unat_Suc_u64 u64_less_Suc)
qed

text \<open>Fields that an operation leaves alone keep their part of the invariant.\<close>

lemma progress_event_same:
  "WorkloadID r' = WorkloadID r \<Longrightarrow> RequestSHA256 r' = RequestSHA256 r \<Longrightarrow> progress_event r' = progress_event r"
  by (simp add: progress_event_def fun_eq_iff)

lemma events_same:
  "events_ok r \<Longrightarrow> ProgressEvents r' = ProgressEvents r \<Longrightarrow> NextSequence r' = NextSequence r \<Longrightarrow> TerminalEvent r' = TerminalEvent r \<Longrightarrow>
     WorkloadID r' = WorkloadID r \<Longrightarrow> RequestSHA256 r' = RequestSHA256 r \<Longrightarrow> events_ok r'"
  by (simp add: events_ok_def progress_end_def progress_event_same [of r' r])

lemma events_okI:
  assumes "WorkloadID r' = WorkloadID r" "RequestSHA256 r' = RequestSHA256 r" "list_all (progress_event r) (ProgressEvents r')"
    and "length (ProgressEvents r') \<le> maxStoredProgressEventsV2" "1 \<le> k"
    and "map (\<lambda>e. unat (EventSequence e)) (ProgressEvents r') = [k..<progress_end r']"
    and "k = 1 \<or> length (ProgressEvents r') = maxStoredProgressEventsV2"
  shows "events_ok r'"
  using assms progress_event_same [of r' r] by (auto simp: events_ok_def)

lemma checkpoints_same:
  "Prepared r' = Prepared r \<Longrightarrow> prepared_ok r' = prepared_ok r"
  "Prepared r' = Prepared r \<Longrightarrow> Delivered r' = Delivered r \<Longrightarrow> delivered_ok r' = delivered_ok r"
  "ManifestPrepared r' = ManifestPrepared r \<Longrightarrow> ManifestDeliveredURI r' = ManifestDeliveredURI r \<Longrightarrow> manifest_ok r' = manifest_ok r"
  by (simp_all add: prepared_ok_def delivered_ok_def manifest_ok_def)

lemma terminal_claim_same:
  "WorkloadID r' = WorkloadID r \<Longrightarrow> RequestSHA256 r' = RequestSHA256 r \<Longrightarrow> ManifestDeliveredURI r' = ManifestDeliveredURI r \<Longrightarrow>
     Delivered r' = Delivered r \<Longrightarrow> terminalClaimV2 v r' = terminalClaimV2 v r"
  by (cases v) (simp_all add: terminalClaimV2_def deliveredUnitsV2_def)

lemma terminal_same: "terminal_ok r \<Longrightarrow> TerminalEvent r = None \<Longrightarrow> TerminalEvent r' = None \<Longrightarrow> JournalState r' = JournalState r \<Longrightarrow> terminal_ok r'"
  by (simp add: terminal_ok_def in_progress_def)

lemma checkpoint_keeps:
  assumes ok: "journal_ok n r" and prog: "in_progress r"
    and same: "JournalVersion r' = JournalVersion r" "WorkloadID r' = WorkloadID r" "RequestSHA256 r' = RequestSHA256 r"
      "JournalState r' = JournalState r" "NextSequence r' = NextSequence r" "ProgressEvents r' = ProgressEvents r" "TerminalEvent r' = TerminalEvent r"
    and parts: "prepared_ok r'" "delivered_ok r'" "manifest_ok r'"
    and adv: "\<And>name x. map_of (Delivered r) name = Some x \<Longrightarrow>
        \<exists>x'. map_of (Delivered r') name = Some x' \<and> ResultVideo x' = ResultVideo x \<and> ResultSize x' = ResultSize x"
      "ManifestDeliveredURI r \<noteq> [] \<Longrightarrow> ManifestDeliveredURI r' \<noteq> []"
  shows "journal_ok (Suc n) r' \<and> journal_advances r r'"
proof -
  have t: "TerminalEvent r = None" "\<not> terminal_state r" using terminal_ok_state [of r] ok prog by (simp_all add: journal_ok_def)
  have "events_ok r'" by (rule events_same [of r]) (use ok same in \<open>simp_all add: journal_ok_def\<close>)
  moreover have "terminal_ok r'" by (rule terminal_same [of r]) (use ok same t in \<open>simp_all add: journal_ok_def\<close>)
  ultimately show ?thesis using ok same parts adv t by (simp add: journal_ok_def journal_advances_def)
qed

interpretation prepared_op: journal_op True "SavePrepared_step p" for p
proof
  fix n r a r' assume ok: "journal_ok n r" and st: "SavePrepared_step p r = Inr (a, r')"
  have h: "in_progress r" "PrepName p \<noteq> []" "prepared_stored p" "video_ok (PrepVideo p)" "map_of (Delivered r) (PrepName p) = None"
      "r' = r\<lparr>Prepared := put (PrepName p) p (Prepared r)\<rparr>"
    using st by (auto simp: SavePrepared_step_def split: if_splits)
  have p: "prepared_ok r" "delivered_ok r" "manifest_ok r" using ok by (simp_all add: journal_ok_def)
  have "prepared_ok r'" using p(1) h by (auto simp: prepared_ok_def distinct_put)
  moreover have "delivered_ok r'"
    using p(2) h(5) by (auto simp: delivered_ok_def h(6))
  moreover have "manifest_ok r'" using p(3) by (simp add: manifest_ok_def h(6))
  ultimately show "journal_ok (Suc n) r' \<and> journal_advances r r'"
    by (intro checkpoint_keeps [OF ok h(1)]) (simp_all add: h(6))
qed

interpretation delivered_op: journal_op True "SaveDelivered_step x" for x
proof
  fix n r a r' assume ok: "journal_ok n r" and st: "SaveDelivered_step x r = Inr (a, r')"
  obtain p where h: "in_progress r" "map_of (Prepared r) (ResultName x) = Some p" "preparedMatchesResultV2 p x"
      "validateArtifactURI (PlaylistURI x) = None" "validateArtifactURI (StreamURI x) = None"
      "r' = r\<lparr>Delivered := put (ResultName x) x (Delivered r)\<rparr>"
    using st by (auto simp: SaveDelivered_step_def split: if_splits option.splits)
  have p: "prepared_ok r" "delivered_ok r" "manifest_ok r" using ok by (simp_all add: journal_ok_def)
  have "delivered_ok r'" using p(2) h by (auto simp: delivered_ok_def distinct_put)
  moreover have "prepared_ok r'" "manifest_ok r'" using p checkpoints_same [of r' r] by (simp_all add: h(6))
  moreover have "\<exists>x'. map_of (Delivered r') name = Some x' \<and> ResultVideo x' = ResultVideo y \<and> ResultSize x' = ResultSize y"
    if "map_of (Delivered r) name = Some y" for name y
  proof (cases "name = ResultName x")
    case True
    then have "preparedMatchesResultV2 p y" using p(2) that h(2) unfolding delivered_ok_def by (metis option.inject)
    then show ?thesis using True h(3) by (simp add: h(6) preparedMatchesResultV2_def)
  qed (use that in \<open>simp add: h(6)\<close>)
  ultimately show "journal_ok (Suc n) r' \<and> journal_advances r r'"
    by (intro checkpoint_keeps [OF ok h(1)]) (simp_all add: h(6))
qed

interpretation manifest_op: journal_op True "SavePreparedManifest_step p" for p
proof
  fix n r a r' assume ok: "journal_ok n r" and st: "SavePreparedManifest_step p r = Inr (a, r')"
  have h: "in_progress r" "ManifestDeliveredURI r = []" "safeJournalPathV2 (ArtifactPath p)" "sha256Pattern (ArtifactSHA256 p)"
      "r' = r\<lparr>ManifestPrepared := Some p\<rparr>"
    using st by (auto simp: SavePreparedManifest_step_def split: if_splits)
  have "prepared_ok r'" "delivered_ok r'" "manifest_ok r'"
    using ok h checkpoints_same [of r' r] by (simp_all add: journal_ok_def) (simp add: manifest_ok_def)
  then show "journal_ok (Suc n) r' \<and> journal_advances r r'"
    by (intro checkpoint_keeps [OF ok h(1)]) (simp_all add: h(5))
qed

interpretation manifest_out_op: journal_op True "SaveDeliveredManifest_step uri" for uri
proof
  fix n r a r' assume ok: "journal_ok n r" and st: "SaveDeliveredManifest_step uri r = Inr (a, r')"
  have h: "in_progress r" "ManifestPrepared r \<noteq> None" "validateArtifactURI uri = None" "r' = r\<lparr>ManifestDeliveredURI := uri\<rparr>"
    using st by (auto simp: SaveDeliveredManifest_step_def split: if_splits option.splits)
  have "prepared_ok r'" "delivered_ok r'" "manifest_ok r'"
    using ok h checkpoints_same [of r' r] by (simp_all add: journal_ok_def) (simp add: manifest_ok_def)
  moreover have "uri \<noteq> []" using h(3) by (auto simp: validateArtifactURI_def trim_space_def trim_right_by_def trim_left_by_def split: if_splits)
  ultimately show "journal_ok (Suc n) r' \<and> journal_advances r r'"
    by (intro checkpoint_keeps [OF ok h(1)]) (simp_all add: h(4))
qed

text \<open>The newest 256 of consecutive numbers are consecutive.\<close>

lemma drop_upt_last: "map f xs = [k..<m] \<Longrightarrow> map f (drop i xs) = [k + i..<m]"
  by (simp flip: drop_map)

interpretation progress_op: journal_op True "AppendProgress_step phase progress rendition frames" for phase progress rendition frames
proof
  fix n r a r' assume ok: "journal_ok n r" and small: "Suc n < 2 ^ 64" and st: "AppendProgress_step phase progress rendition frames r = Inr (a, r')"
  let ?v = "\<lparr>ProgSchema = ABRProgressSchemaV2, ProgWorkloadID = WorkloadID r, ProgRequestSHA256 = RequestSHA256 r,
      ProgSequence = NextSequence r, ProgPhase = phase, OverallProgress = progress, ProgRendition = rendition, ProgFrames = frames\<rparr>"
  obtain x where h: "in_progress r" "ValidateABRProgressV2 ?v = None" "progress = Finite x"
      "a = \<lparr>EventSequence = NextSequence r, EventName = ''progress'', EventData = json_progress ?v x\<rparr>"
    and r': "r' = r\<lparr>NextSequence := NextSequence r + 1, Phase := phase, ProgressEvents :=
        (let events = ProgressEvents r @ [a] in if length events > maxStoredProgressEventsV2
         then drop (length events - maxStoredProgressEventsV2) events else events)\<rparr>"
    using st by (auto simp: AppendProgress_step_def Let_def split: if_splits option.splits float64.splits)
  have ok': "events_ok r" "prepared_ok r" "delivered_ok r" "manifest_ok r" "terminal_ok r" using ok by (simp_all add: journal_ok_def)
  have t: "TerminalEvent r = None" "\<not> terminal_state r" using terminal_ok_state [OF ok'(5)] h(1) by simp_all
  note s = next_sequence [OF ok small]
  let ?events = "ProgressEvents r @ [a]"
  have a: "progress_event r a" using h by (auto simp: progress_event_def intro!: exI [of _ ?v] exI [of _ x])
  obtain k where k: "1 \<le> k" "map (\<lambda>e. unat (EventSequence e)) (ProgressEvents r) = [k..<unat (NextSequence r)]"
      "k = 1 \<or> length (ProgressEvents r) = maxStoredProgressEventsV2" "length (ProgressEvents r) \<le> maxStoredProgressEventsV2"
    using ok'(1) t(1) by (auto simp: events_ok_def progress_end_def)
  have kn: "k \<le> unat (NextSequence r)"
  proof (rule ccontr)
    assume "\<not> k \<le> unat (NextSequence r)"
    then have "ProgressEvents r = []" using k(2) by simp
    then show False using k(3) \<open>\<not> k \<le> unat (NextSequence r)\<close> ok by (auto simp: maxStoredProgressEventsV2_def journal_ok_def)
  qed
  then have seqs: "map (\<lambda>e. unat (EventSequence e)) ?events = [k..<unat (NextSequence r + 1)]"
    using k(2) s(1) h(4) by simp
  have all: "list_all (progress_event r) ?events" using ok'(1) a by (simp add: events_ok_def)
  have "events_ok r'"
  proof (cases "length ?events > maxStoredProgressEventsV2")
    case True
    let ?i = "length ?events - maxStoredProgressEventsV2"
    define kept where "kept = drop ?i ?events"
    have "r' = r\<lparr>NextSequence := NextSequence r + 1, Phase := phase, ProgressEvents := kept\<rparr>"
      using True by (simp add: r' Let_def kept_def)
    moreover have "map (\<lambda>e. unat (EventSequence e)) kept = [k + ?i..<unat (NextSequence r + 1)]"
      unfolding kept_def by (rule drop_upt_last [OF seqs])
    moreover have "list_all (progress_event r) kept" using all by (auto simp: list_all_iff kept_def dest: in_set_dropD)
    moreover have "length kept = maxStoredProgressEventsV2" using True by (simp add: kept_def)
    ultimately show ?thesis using k(1) t(1) by (intro events_okI [of r' r "k + ?i"]) (simp_all add: progress_end_def)
  next
    case False
    then have "r' = r\<lparr>NextSequence := NextSequence r + 1, Phase := phase, ProgressEvents := ?events\<rparr>" by (simp add: r' Let_def)
    moreover have "k = 1" using False k(3) by auto
    ultimately show ?thesis using False seqs all t(1) by (intro events_okI [of r' r 1]) (simp_all add: progress_end_def)
  qed
  moreover have "prepared_ok r'" "delivered_ok r'" "manifest_ok r'" "terminal_ok r'"
    using ok' t checkpoints_same [of r' r] by (simp_all add: terminal_ok_def in_progress_def r')
  moreover have "e \<in> set (ProgressEvents r) \<or> NextSequence r \<le> EventSequence e" if "e \<in> set (ProgressEvents r')" for e
    using that h(4) by (auto simp: r' Let_def split: if_splits dest: in_set_dropD)
  ultimately show "journal_ok (Suc n) r' \<and> journal_advances r r'"
    using ok s t by (simp add: journal_ok_def journal_advances_def) (simp add: r')
qed

interpretation terminal_op: journal_op "terminal_value_ok v state" "recordTerminal_step state v" for v state
proof
  fix n r a r' assume adm: "terminal_value_ok v state" and ok: "journal_ok n r" and small: "Suc n < 2 ^ 64" and st: "recordTerminal_step state v r = Inr (a, r')"
  have h: "in_progress r" "terminalClaimV2 v r = None" "a = storedTerminalV2 (NextSequence r) v"
      "r' = r\<lparr>NextSequence := NextSequence r + 1, JournalState := state, Phase := state, TerminalEvent := Some a\<rparr>"
    using st by (auto simp: recordTerminal_step_def Let_def split: if_splits option.splits)
  have ok': "events_ok r" "prepared_ok r" "delivered_ok r" "manifest_ok r" "terminal_ok r" using ok by (simp_all add: journal_ok_def)
  have t: "TerminalEvent r = None" "\<not> terminal_state r" using terminal_ok_state [OF ok'(5)] h(1) by simp_all
  note s = next_sequence [OF ok small]
  have "terminalClaimV2 v r' = None"
    using h(2) terminal_claim_same [of r' r v] by (simp add: h(4))
  then have "terminal_ok r'" using adm s(1) ok by (auto simp: terminal_ok_def h(3,4) journal_ok_def)
  moreover obtain k where "1 \<le> k" "map (\<lambda>e. unat (EventSequence e)) (ProgressEvents r) = [k..<unat (NextSequence r)]"
      "k = 1 \<or> length (ProgressEvents r) = maxStoredProgressEventsV2"
    using ok'(1) t(1) by (auto simp: events_ok_def progress_end_def)
  then have "events_ok r'"
    using ok'(1) s(1) by (intro events_okI [of r' r k]) (simp_all add: progress_end_def h(4) events_ok_def)
  moreover have "prepared_ok r'" "delivered_ok r'" "manifest_ok r'"
    using ok' checkpoints_same [of r' r] by (simp_all add: h(4))
  ultimately show "journal_ok (Suc n) r' \<and> journal_advances r r'"
    using ok s t by (simp add: journal_ok_def journal_advances_def) (simp add: h(3,4))
qed

subsection \<open>The directory\<close>

definition journals_ok :: "nat \<Rightarrow> journals \<Rightarrow> bool" where
  "journals_ok n d \<longleftrightarrow> (\<forall>sid f. map_of d sid = Some f \<longrightarrow> (\<exists>r. f = JournalFile r \<and> WorkloadID r = sid \<and> journal_ok n r))"

lemma journal_ok_mono: "journal_ok n r \<Longrightarrow> n \<le> m \<Longrightarrow> journal_ok m r"
  by (simp add: journal_ok_def)

lemma journals_ok_mono: "journals_ok n d \<Longrightarrow> n \<le> m \<Longrightarrow> journals_ok m d"
  unfolding journals_ok_def using journal_ok_mono by metis

lemma journals_ok_Nil [simp]: "journals_ok n []"
  by (simp add: journals_ok_def)

lemma journals_ok_put:
  "journals_ok n d \<Longrightarrow> journal_ok n r \<Longrightarrow> journals_ok n (put (WorkloadID r) (JournalFile r) d)"
  by (simp add: journals_ok_def)

lemma load_journal_file:
  "journals_ok n d \<Longrightarrow> map_of d sid = Some f \<Longrightarrow> \<exists>r. f = JournalFile r \<and> loadJournalV2 d sid = Inr r \<and> journal_ok n r \<and> WorkloadID r = sid"
proof -
  assume d: "journals_ok n d" and f: "map_of d sid = Some f"
  then obtain r where r: "f = JournalFile r" "WorkloadID r = sid" "journal_ok n r" by (auto simp: journals_ok_def)
  then have "loadJournalV2 d sid = Inr r"
    using f journal_ok_valid [OF r(3)] by (simp add: loadJournalV2_def journal_ok_def)
  with r show ?thesis by blast
qed

lemma load_journal_Inr:
  "loadJournalV2 d sid = Inr r \<Longrightarrow> map_of d sid = Some (JournalFile r) \<and> WorkloadID r = sid \<and> workloadIDPattern sid"
  by (auto simp: loadJournalV2_def fails_def split: if_splits option.splits journal_file.splits)

lemma load_journal_frame: "map_of d' x = map_of d x \<Longrightarrow> loadJournalV2 d' x = loadJournalV2 d x"
  by (simp add: loadJournalV2_def)

lemma load_journal_ok: "journals_ok n d \<Longrightarrow> loadJournalV2 d sid = Inr r \<Longrightarrow> journal_ok n r"
  using load_journal_Inr load_journal_file by fastforce

lemma save_journal:
  "snd (saveJournalV2 io d r) = d \<or> snd (saveJournalV2 io d r) = put (WorkloadID r) (JournalFile r) d"
  by (cases io) (simp_all add: saveJournalV2_def)

lemma LoadWorkload_eq [simp]: "LoadWorkload d sid = loadJournalV2 d sid"
  by (cases "loadJournalV2 d sid") (simp_all add: LoadWorkload_def cloneJournalV2_def)

text \<open>One journal moved on, the others as they were.\<close>

definition directory_advances :: "journals \<Rightarrow> journals \<Rightarrow> bool" where
  "directory_advances d d' \<longleftrightarrow>
     (\<forall>sid r. loadJournalV2 d sid = Inr r \<longrightarrow> (\<exists>r'. loadJournalV2 d' sid = Inr r' \<and> journal_advances r r'))"

lemma directory_refl [simp]: "directory_advances d d"
  by (auto simp: directory_advances_def)

lemma directory_trans: "directory_advances a b \<Longrightarrow> directory_advances b c \<Longrightarrow> directory_advances a c"
  unfolding directory_advances_def using journal_advances_trans by blast

lemma directory_put:
  assumes d: "journals_ok n d" and r: "journal_ok n r" and adv: "\<And>q. map_of d (WorkloadID r) = Some (JournalFile q) \<Longrightarrow> journal_advances q r"
  shows "directory_advances d (put (WorkloadID r) (JournalFile r) d)"
  unfolding directory_advances_def
proof (intro allI impI)
  fix sid q assume l: "loadJournalV2 d sid = Inr q"
  let ?d = "put (WorkloadID r) (JournalFile r) d"
  note m = load_journal_Inr [OF l]
  obtain q' where q': "loadJournalV2 ?d sid = Inr q'" "map_of ?d sid = Some (JournalFile q')"
    using load_journal_file [OF journals_ok_put [OF d r], of sid] m by (cases "sid = WorkloadID r") auto
  have "journal_advances q q'" using q'(2) m adv by (cases "sid = WorkloadID r") auto
  with q'(1) show "\<exists>q'. loadJournalV2 ?d sid = Inr q' \<and> journal_advances q q'" by blast
qed

context journal_op
begin

text \<open>The journal after a call is the old one, or the one that the decision made.\<close>

lemma update_cases:
  fixes io
  assumes adm: admits and d: "journals_ok n d" and small: "Suc n < 2 ^ 64" and l: "loadJournalV2 d sid = Inr r"
  defines "d' \<equiv> snd (update_journal io d sid step)"
  obtains "d' = d"
    | a r' where "step r = Inr (a, r')" "journal_ok (Suc n) r'" "journal_advances r r'" "d' = put sid (JournalFile r') d"
      "loadJournalV2 d' sid = Inr r'"
proof (cases "step r")
  case (Inl e)
  then show ?thesis using that(1) l by (simp add: d'_def update_journal_def)
next
  case h: (Inr p)
  obtain a r' where p: "step r = Inr (a, r')" using h by (cases p) auto
  have k: "journal_ok (Suc n) r'" "journal_advances r r'"
    using keeps [OF adm load_journal_ok [OF d l] small p] by simp_all
  have w: "WorkloadID r' = sid" using k(2) load_journal_Inr [OF l] by (simp add: journal_advances_def)
  have "d' = snd (saveJournalV2 io d r')"
    using l p by (simp add: d'_def update_journal_def split: prod.splits option.splits)
  then consider "d' = d" | "d' = put sid (JournalFile r') d" using save_journal [of io d r'] w by argo
  then show ?thesis
  proof cases
    case 2
    have "journals_ok (Suc n) (put (WorkloadID r') (JournalFile r') d)"
      by (rule journals_ok_put [OF journals_ok_mono [OF d] k(1)]) simp
    then have "loadJournalV2 d' sid = Inr r'" using load_journal_file [of "Suc n" d' sid "JournalFile r'"] 2 w by simp
    then show ?thesis using that(2) p k 2 by blast
  qed (rule that(1))
qed

lemma update_keeps:
  assumes adm: admits and d: "journals_ok n d" and small: "Suc n < 2 ^ 64"
  shows "journals_ok (Suc n) (snd (update_journal io d sid step)) \<and> directory_advances d (snd (update_journal io d sid step))"
proof -
  have d': "journals_ok (Suc n) d" by (rule journals_ok_mono [OF d]) simp
  show ?thesis
  proof (cases "loadJournalV2 d sid")
    case (Inr r)
    from adm d small Inr show ?thesis
    proof (cases rule: update_cases [where io = io])
      case (2 a r')
      have w: "WorkloadID r' = sid" using 2(3) load_journal_Inr [OF Inr] by (simp add: journal_advances_def)
      have "journal_advances q r'" if "map_of d (WorkloadID r') = Some (JournalFile q)" for q
        using that load_journal_Inr [OF Inr] 2(3) w by simp
      then show ?thesis using 2(4) journals_ok_put [OF d' 2(2)] directory_put [OF d' 2(2)] w by simp
    qed (use d' in simp)
  qed (use d' in \<open>simp add: update_journal_def\<close>)
qed

lemma update_other:
  assumes adm: admits and d: "journals_ok n d" and small: "Suc n < 2 ^ 64" and x: "x \<noteq> sid"
  shows "loadJournalV2 (snd (update_journal io d sid step)) x = loadJournalV2 d x"
proof (cases "loadJournalV2 d sid")
  case (Inr r)
  from adm d small Inr show ?thesis
    by (cases rule: update_cases [where io = io]) (use x in \<open>simp_all add: loadJournalV2_def\<close>)
qed (simp add: update_journal_def)

end

lemma new_journal_ok:
  "workloadIDPattern sid \<Longrightarrow> sha256Pattern sha \<Longrightarrow> 1 \<le> n \<Longrightarrow> journal_ok n (newJournalV2 sid sha)"
  by (auto simp: journal_ok_def newJournalV2_def events_ok_def progress_end_def prepared_ok_def delivered_ok_def manifest_ok_def
      terminal_ok_def in_progress_def maxStoredProgressEventsV2_def)

lemma open_keeps:
  assumes d: "journals_ok n d" and n: "1 \<le> n"
  shows "journals_ok n (snd (LoadOrCreate io d sid sha)) \<and> directory_advances d (snd (LoadOrCreate io d sid sha))"
proof (cases "workloadIDPattern sid \<and> sha256Pattern sha \<and> loadJournalV2 d sid = Inl ErrNotExist")
  case True
  let ?r = "newJournalV2 sid sha"
  have r: "journal_ok n ?r" "WorkloadID ?r = sid" using new_journal_ok n True by (simp, simp add: newJournalV2_def)
  have missing: "map_of d sid = None"
  proof (rule ccontr)
    assume "map_of d sid \<noteq> None"
    then show False using load_journal_file [OF d, of sid] True by auto
  qed
  have "snd (LoadOrCreate io d sid sha) = snd (saveJournalV2 io d ?r)"
    using True by (simp add: LoadOrCreate_def Let_def split: prod.splits option.splits)
  then consider "snd (LoadOrCreate io d sid sha) = d" | "snd (LoadOrCreate io d sid sha) = put (WorkloadID ?r) (JournalFile ?r) d"
    using save_journal [of io d ?r] by argo
  then show ?thesis using d directory_put [OF d r(1)] journals_ok_put [OF d r(1)] missing r(2) by cases simp_all
next
  case False
  have "e = ErrNotExist" if "loadJournalV2 d sid = Inl e" "errors_is e ErrNotExist" "workloadIDPattern sid" for e
    using that load_journal_file [OF d, of sid] by (cases "map_of d sid") (auto simp: loadJournalV2_def)
  then have "snd (LoadOrCreate io d sid sha) = d"
    using False by (auto simp: LoadOrCreate_def split: sum.splits)
  then show ?thesis using d by simp
qed

text \<open>Opening leaves every workload that is there alone.\<close>

lemma open_same:
  assumes d: "journals_ok n d" and l: "loadJournalV2 d x = Inr r"
  shows "loadJournalV2 (snd (LoadOrCreate io d sid sha)) x = Inr r"
proof (cases "x = sid")
  case True
  then have "snd (LoadOrCreate io d sid sha) = d" using l by (simp add: LoadOrCreate_def)
  then show ?thesis using l by simp
next
  case False
  have "map_of (snd (LoadOrCreate io d sid sha)) x = map_of d x"
    using False save_journal [of io d "newJournalV2 sid sha"]
    by (auto simp: LoadOrCreate_def Let_def newJournalV2_def split: sum.splits prod.splits option.splits)
  then show ?thesis using l load_journal_frame by metis
qed

lemma open_loads:
  assumes d: "journals_ok n d" and n: "1 \<le> n" and o: "LoadOrCreate io d sid sha = (Inr (r, disposition), d')"
  shows "loadJournalV2 d' sid = Inr r" "disposition = ClassifyWorkloadReplayV2 (RequestSHA256 r) sha (terminal_state r)"
proof -
  have "loadJournalV2 d' sid = Inr r \<and> disposition = ClassifyWorkloadReplayV2 (RequestSHA256 r) sha (terminal_state r)"
  proof (cases "loadJournalV2 d sid")
    case (Inl e)
    then have s: "saveJournalV2 io d (newJournalV2 sid sha) = (None, d')" "r = newJournalV2 sid sha" "disposition = ResumeExistingV2"
        "workloadIDPattern sid" "sha256Pattern sha"
      using o by (auto simp: LoadOrCreate_def Let_def fails_def cloneJournalV2_def split: if_splits prod.splits option.splits)
    have r: "journal_ok n r" "WorkloadID r = sid" "RequestSHA256 r = sha" "\<not> terminal_state r"
      using new_journal_ok [OF s(4,5) n] s(2) by (simp_all add: newJournalV2_def terminal_state_def)
    have "d' = put (WorkloadID r) (JournalFile r) d" using s(1,2) by (cases io) (simp_all add: saveJournalV2_def)
    then show ?thesis using load_journal_file [OF journals_ok_put [OF d r(1)], of sid] r s(3) by (simp add: ClassifyWorkloadReplayV2_def)
  next
    case (Inr q)
    then show ?thesis using o by (auto simp: LoadOrCreate_def fails_def cloneJournalV2_def split: if_splits)
  qed
  then show "loadJournalV2 d' sid = Inr r" "disposition = ClassifyWorkloadReplayV2 (RequestSHA256 r) sha (terminal_state r)" by blast+
qed

subsection \<open>Runs of the store\<close>

datatype journal_call =
    CallOpen string string
  | CallProgress string string float64 string u64
  | CallPrepared string PreparedRenditionV2
  | CallDelivered string RenditionResultV2
  | CallManifest string PreparedArtifactV2
  | CallManifestOut string string
  | CallResult string ABRTerminalResultV2
  | CallFailure string ABRTerminalErrorV2

fun run_call :: "save_outcome \<Rightarrow> journal_call \<Rightarrow> journals \<Rightarrow> journals" where
  "run_call io (CallOpen sid sha) d = snd (LoadOrCreate io d sid sha)"
| "run_call io (CallProgress sid phase x rendition frames) d = snd (AppendProgress io d sid phase x rendition frames)"
| "run_call io (CallPrepared sid p) d = snd (SavePrepared io d sid p)"
| "run_call io (CallDelivered sid x) d = snd (SaveDelivered io d sid x)"
| "run_call io (CallManifest sid p) d = snd (SavePreparedManifest io d sid p)"
| "run_call io (CallManifestOut sid uri) d = snd (SaveDeliveredManifest io d sid uri)"
| "run_call io (CallResult sid v) d = snd (RecordTerminalResult io d sid v)"
| "run_call io (CallFailure sid v) d = snd (RecordTerminalError io d sid v)"

inductive journal_runs :: "nat \<Rightarrow> journals \<Rightarrow> journals \<Rightarrow> bool" where
  no_calls: "journal_runs 0 d d"
| one_more: "journal_runs n d d' \<Longrightarrow> journal_runs (Suc n) d (run_call io c d')"

lemma run_call_keeps:
  assumes d: "journals_ok n d" and small: "Suc n < 2 ^ 64"
  shows "journals_ok (Suc n) (run_call io c d) \<and> directory_advances d (run_call io c d)"
proof (cases c)
  case (CallOpen sid sha)
  then show ?thesis using open_keeps [OF journals_ok_mono [OF d, of "Suc n"]] by simp
next
  case (CallProgress sid phase x rendition frames)
  then show ?thesis using progress_op.update_keeps [OF TrueI d small] by (simp add: AppendProgress_def)
next
  case (CallPrepared sid p)
  then show ?thesis using prepared_op.update_keeps [OF TrueI d small] by (simp add: SavePrepared_def)
next
  case (CallDelivered sid x)
  then show ?thesis using delivered_op.update_keeps [OF TrueI d small] by (simp add: SaveDelivered_def)
next
  case (CallManifest sid p)
  then show ?thesis using manifest_op.update_keeps [OF TrueI d small] by (simp add: SavePreparedManifest_def)
next
  case (CallManifestOut sid uri)
  then show ?thesis using manifest_out_op.update_keeps [OF TrueI d small] by (simp add: SaveDeliveredManifest_def)
next
  case (CallResult sid v)
  then show ?thesis
    using terminal_op.update_keeps [of "TerminalResult v" WorkloadSucceededV2, OF _ d small] journals_ok_mono [OF d, of "Suc n"]
    by (auto simp: RecordTerminalResult_def terminal_value_ok_def split: option.splits)
next
  case (CallFailure sid v)
  then show ?thesis
    using terminal_op.update_keeps [of "TerminalError v" WorkloadFailedV2, OF _ d small] journals_ok_mono [OF d, of "Suc n"]
    by (auto simp: RecordTerminalError_def terminal_value_ok_def split: option.splits)
qed

lemma journal_runs_keep: "journal_runs n d d' \<Longrightarrow> journals_ok m d \<Longrightarrow> m + n < 2 ^ 64 \<Longrightarrow> journals_ok (m + n) d' \<and> directory_advances d d'"
proof (induction rule: journal_runs.induct)
  case (one_more n d d' io c)
  then show ?case using run_call_keeps [of "m + n" d' io c] directory_trans by auto
qed simp

lemma journal_runs_trans: "journal_runs m d' d'' \<Longrightarrow> journal_runs n d d' \<Longrightarrow> journal_runs (n + m) d d''"
  by (induction rule: journal_runs.induct) (auto intro: journal_runs.intros)

text \<open>
  (C26) Every journal that the ABR runner writes can be read again: after any run of fewer than 2^64 calls
  from an empty directory, whatever saves failed before or after their rename, every file is a journal that
  loads; its events are its newest ones, at most 256, valid progress of this workload numbered without
  gaps up to the next number.
\<close>

theorem journals_stay_sound:
  assumes "journal_runs n [] d" and "n < 2 ^ 64" and "map_of d sid = Some f"
  shows "\<exists>r. f = JournalFile r \<and> loadJournalV2 d sid = Inr r \<and> length (ProgressEvents r) \<le> 256 \<and>
    (\<forall>e\<in>set (ProgressEvents r). progress_event r e) \<and>
    (\<exists>k\<ge>1. map (\<lambda>e. unat (EventSequence e)) (ProgressEvents r) = [k..<progress_end r])"
proof -
  have "journals_ok n d" using journal_runs_keep [OF assms(1), of 0] assms(2) by simp
  then show ?thesis
    using load_journal_file [OF _ assms(3), of n]
    by (fastforce simp: journal_ok_def events_ok_def maxStoredProgressEventsV2_def list_all_iff)
qed

text \<open>
  (C27) A workload never moves back: along any further run its identity stays, its next event number does not
  fall, what was delivered stays delivered with the same frames and size, and a terminal workload does not
  change at all.
\<close>

theorem workload_never_moves_back:
  assumes "journal_runs n [] d" and "journal_runs m d d'" and "n + m < 2 ^ 64" and "loadJournalV2 d sid = Inr r"
  shows "\<exists>r'. loadJournalV2 d' sid = Inr r' \<and> RequestSHA256 r' = RequestSHA256 r \<and> NextSequence r \<le> NextSequence r' \<and>
    (\<forall>name x. map_of (Delivered r) name = Some x \<longrightarrow>
       (\<exists>x'. map_of (Delivered r') name = Some x' \<and> ResultVideo x' = ResultVideo x \<and> ResultSize x' = ResultSize x)) \<and>
    (terminal_state r \<longrightarrow> r' = r)"
proof -
  have "journals_ok n d" using journal_runs_keep [OF assms(1), of 0] assms(3) by simp
  then have "directory_advances d d'" using journal_runs_keep [OF assms(2), of n] assms(3) by simp
  then show ?thesis using assms(4) unfolding directory_advances_def journal_advances_def by blast
qed

end
