(* ===== verification/ABR_Service.thy ===== *)
theory ABR_Service
  imports ABR_Journal GPU_Presets
begin

section \<open>Coordinator and handler of ABR jobs (abr-runner/abr_handler_v2.go)\<close>

text \<open>
  A request either is refused, or its journal is opened and the handler subscribes to the one execution
  of the workload, which it starts if there is none.  Then it streams the events of the journal: after
  every notification it loads the journal and writes what is new.  The coordinator keeps the executions and
  their subscribers under one lock; the journal is the store of \<open>ABR_Store\<close>.

  Left out: the keepalive comments of the stream, the text of the \<open>message\<close> member beside an error code,
  and the GPU gate, which is a component of its own and here an answer to \<open>Acquire\<close>.
\<close>

definition maxABRRequestBodyV2 :: nat where "maxABRRequestBodyV2 = 5 * 1024 * 1024"

definition errABRExecutionCapacityV2 :: go_error where
  "errABRExecutionCapacityV2 = ErrSentinel ''ABR execution capacity reached''"

definition ErrGPUCapacity :: go_error where
  "ErrGPUCapacity = ErrSentinel ''GPU admission capacity reached''"

text \<open>What an executor returns when it fails: an error that is safe to show, or another one.\<close>

datatype execute_error = ExecutionErrorV2 ABRErrorV2 | OtherError go_error

subsection \<open>The coordinator\<close>

text \<open>
  The goroutine of an execution: the executor runs and reports; after a report or the terminal event it
  notifies the subscribers (\<open>Announcing\<close>, with whether the terminal event is written); then it
  removes the execution.
\<close>

datatype run_pc = Executing | Announcing bool | Finishing

record abrExecutionV2 =
  ExecSHA256 :: string
  Cancelled :: bool
  Subscribers :: "nat list"
  ExecPC :: run_pc

text \<open>A channel with room for one notification; it may be closed.\<close>

record notify_channel =
  Pending :: bool
  Closed :: bool

record ABRCoordinatorV2 =
  Limit :: nat
  Active :: "(string \<times> abrExecutionV2) list"
  NextSubscriber :: nat
  ActiveCount :: int
  AdmissionRejected :: nat
  Leases :: nat
  Channels :: "nat \<Rightarrow> notify_channel"

definition NewABRExecutionCoordinatorV2 :: "nat \<Rightarrow> ABRCoordinatorV2 result" where
  "NewABRExecutionCoordinatorV2 limit =
     (if limit = 0 then fails ''store, executor, and positive execution limit are required''
      else Inr \<lparr>Limit = limit, Active = [], NextSubscriber = 0, ActiveCount = 0, AdmissionRejected = 0, Leases = 0,
                Channels = (\<lambda>_. \<lparr>Pending = False, Closed = False\<rparr>)\<rparr>)"

definition startExecutionV2 :: "string \<Rightarrow> string \<Rightarrow> ABRCoordinatorV2 \<Rightarrow> ABRCoordinatorV2" where
  "startExecutionV2 workloadID sha c =
     c\<lparr>Active := put workloadID \<lparr>ExecSHA256 = sha, Cancelled = False, Subscribers = [], ExecPC = Executing\<rparr> (Active c),
       ActiveCount := ActiveCount c + 1, Leases := Suc (Leases c)\<rparr>"

definition joinExecutionV2 :: "string \<Rightarrow> abrExecutionV2 \<Rightarrow> ABRCoordinatorV2 \<Rightarrow> nat \<times> ABRCoordinatorV2" where
  "joinExecutionV2 workloadID execution c =
     (let i = Suc (NextSubscriber c) in
      (i, c\<lparr>NextSubscriber := i,
            Active := put workloadID (execution\<lparr>Subscribers := Subscribers execution @ [i]\<rparr>) (Active c),
            Channels := (Channels c)(i := \<lparr>Pending = False, Closed = False\<rparr>)\<rparr>))"

text \<open>
  \<open>Subscribe\<close>: a subscription, or that the workload has become terminal meanwhile (\<open>None\<close>).
  \<open>acquire\<close> is the answer of the GPU gate, asked only when an execution is to start.
\<close>

definition Subscribe ::
    "journals \<Rightarrow> error \<Rightarrow> string \<Rightarrow> string \<Rightarrow> ABRCoordinatorV2 \<Rightarrow> nat option result \<times> ABRCoordinatorV2" where
  "Subscribe d acquire workloadID sha c =
     (case LoadWorkload d workloadID of
        Inl e \<Rightarrow> (Inl e, c)
      | Inr record \<Rightarrow>
          if RequestSHA256 record \<noteq> sha then (fails ''request identity changed while subscribing'', c)
          else if \<not> in_progress record then (Inr None, c)
          else (case map_of (Active c) workloadID of
            None \<Rightarrow>
              if length (Active c) \<ge> Limit c then (Inl errABRExecutionCapacityV2, c)
              else (case acquire of
                Some e \<Rightarrow>
                  if errors_is e ErrGPUCapacity
                  then (Inl errABRExecutionCapacityV2, c\<lparr>AdmissionRejected := Suc (AdmissionRejected c)\<rparr>)
                  else (Inl e, c)
              | None \<Rightarrow>
                  (let c' = startExecutionV2 workloadID sha c;
                       (i, c'') = joinExecutionV2 workloadID (the (map_of (Active c') workloadID)) c'
                   in (Inr (Some i), c'')))
          | Some execution \<Rightarrow>
              if ExecSHA256 execution \<noteq> sha then (fails ''active execution identity mismatch'', c)
              else (let (i, c') = joinExecutionV2 workloadID execution c in (Inr (Some i), c'))))"

text \<open>Without its last subscriber an execution is cancelled.\<close>

definition detach :: "string \<Rightarrow> nat \<Rightarrow> ABRCoordinatorV2 \<Rightarrow> ABRCoordinatorV2" where
  "detach workloadID i c =
     (case map_of (Active c) workloadID of
        None \<Rightarrow> c
      | Some execution \<Rightarrow>
          (let left = filter (\<lambda>j. j \<noteq> i) (Subscribers execution) in
           c\<lparr>Active := put workloadID (execution\<lparr>Subscribers := left, Cancelled := (Cancelled execution \<or> left = [])\<rparr>) (Active c)\<rparr>))"

definition signal :: "nat list \<Rightarrow> (nat \<Rightarrow> notify_channel) \<Rightarrow> nat \<Rightarrow> notify_channel" where
  "signal ids ch = (\<lambda>i. if i \<in> set ids then (ch i)\<lparr>Pending := True\<rparr> else ch i)"

text \<open>\<open>notify\<close> follows the pointer of the execution; \<open>None\<close> is the panic when there is none.\<close>

definition notifyV2 :: "string \<Rightarrow> ABRCoordinatorV2 \<Rightarrow> ABRCoordinatorV2 option" where
  "notifyV2 workloadID c =
     (case map_of (Active c) workloadID of
        None \<Rightarrow> None
      | Some execution \<Rightarrow> Some (c\<lparr>Channels := signal (Subscribers execution) (Channels c)\<rparr>))"

definition finishV2 :: "string \<Rightarrow> ABRCoordinatorV2 \<Rightarrow> ABRCoordinatorV2" where
  "finishV2 workloadID c =
     (case map_of (Active c) workloadID of
        None \<Rightarrow> c
      | Some execution \<Rightarrow>
          c\<lparr>Active := filter (\<lambda>e. fst e \<noteq> workloadID) (Active c), ActiveCount := ActiveCount c - 1, Leases := Leases c - 1,
            Channels := (\<lambda>i. if i \<in> set (Subscribers execution) then (Channels c i)\<lparr>Closed := True\<rparr> else Channels c i)\<rparr>)"

subsection \<open>The end of an execution\<close>

definition deliveredWorkUnits :: "journals \<Rightarrow> string \<Rightarrow> u64 result" where
  "deliveredWorkUnits d workloadID =
     (case LoadWorkload d workloadID of
        Inl e \<Rightarrow> Inl e
      | Inr record \<Rightarrow> CalculateFrameMegapixelUnitsV2 (map snd (sorted_members (Delivered record))))"

definition safeABRExecutionFailureV2 :: "execute_error \<Rightarrow> ABRErrorV2" where
  "safeABRExecutionFailureV2 e =
     (let fallback = \<lparr>ErrorCode = ''execution_failed'', ErrorMessage = ''ABR execution failed'', Retryable = True\<rparr> in
      case e of
        OtherError _ \<Rightarrow> fallback
      | ExecutionErrorV2 candidate \<Rightarrow>
          if ValidateABRTerminalErrorV2
               \<lparr>ErrSchema = ABRResultSchemaV2, ErrWorkloadID = ''validation'', ErrRequestSHA256 = replicate 64 (CHR ''0''),
                ErrOutcome = ''failed'', ErrBody = candidate, ErrUsage = \<lparr>ClaimUnit = ABRWorkUnitV2, Units = 0\<rparr>\<rparr> = None
          then candidate else fallback)"

definition terminalErrorV2 :: "journals \<Rightarrow> string \<Rightarrow> string \<Rightarrow> execute_error \<Rightarrow> ABRTerminalErrorV2" where
  "terminalErrorV2 d workloadID sha e =
     (let (failure, units) =
            (case deliveredWorkUnits d workloadID of
               Inr units \<Rightarrow> (safeABRExecutionFailureV2 e, units)
             | Inl _ \<Rightarrow> (\<lparr>ErrorCode = ''usage_failed'', ErrorMessage = ''usage measurement failed'', Retryable = False\<rparr>, 0))
      in \<lparr>ErrSchema = ABRResultSchemaV2, ErrWorkloadID = workloadID, ErrRequestSHA256 = sha, ErrOutcome = ''failed'',
          ErrBody = failure, ErrUsage = \<lparr>ClaimUnit = ABRWorkUnitV2, Units = units\<rparr>\<rparr>)"

text \<open>\<open>run\<close> after the executor returned, up to the notification: the terminal event is recorded.\<close>

definition recordOutcomeV2 ::
    "save_outcome \<Rightarrow> journals \<Rightarrow> string \<Rightarrow> string \<Rightarrow> execute_error + ABRTerminalResultV2 \<Rightarrow> StoredSSEEventV2 result \<times> journals" where
  "recordOutcomeV2 io d workloadID sha outcome =
     (case outcome of
        Inr result \<Rightarrow> RecordTerminalResult io d workloadID result
      | Inl e \<Rightarrow> RecordTerminalError io d workloadID (terminalErrorV2 d workloadID sha e))"

subsection \<open>The stream of events\<close>

text \<open>\<open>writeJournalEventsV2\<close>: the events after a number, the number of the last one, and whether all are out.\<close>

definition writeJournalEventsV2 :: "WorkloadJournalV2 \<Rightarrow> u64 \<Rightarrow> StoredSSEEventV2 list \<times> u64 \<times> bool" where
  "writeJournalEventsV2 record after =
     (let fresh = filter (\<lambda>e. \<not> EventSequence e \<le> after) (ProgressEvents record);
          last_sequence = (if fresh = [] then after else EventSequence (last fresh)) in
      case TerminalEvent record of
        Some t \<Rightarrow> if EventSequence t > after then (fresh @ [t], EventSequence t, True) else (fresh, last_sequence, True)
      | None \<Rightarrow> (fresh, last_sequence, False))"

definition writeSSEEventV2 :: "StoredSSEEventV2 \<Rightarrow> string" where
  "writeSSEEventV2 e =
     ''id: '' @ fmt_u64 (EventSequence e) @ [CHR 0x0A] @ ''event: '' @ EventName e @ [CHR 0x0A] @
     ''data: '' @ json_text (EventData e) @ [CHR 0x0A, CHR 0x0A]"

text \<open>
  The trailer: the units of the terminal event, decoded from its document.  Of the two structures only the
  members that are read are decoded here; the documents are those that the journal wrote.
\<close>

definition dec_usage :: "json \<Rightarrow> u64 \<Rightarrow> u64 option" where
  "dec_usage v acc = (case v of JObj fs \<Rightarrow> fill_field dec_u64 ''units'' acc fs | JNull \<Rightarrow> Some acc | _ \<Rightarrow> None)"

definition terminalWorkUnitsV2 :: "WorkloadJournalV2 \<Rightarrow> u64 result" where
  "terminalWorkUnitsV2 record =
     (case TerminalEvent record of
        None \<Rightarrow> fails ''terminal event is absent''
      | Some t \<Rightarrow>
          if EventName t = ''result'' \<or> EventName t = ''error'' then
            (case EventData t of
               JObj fs \<Rightarrow> (case fill_field dec_usage ''usage'' 0 fs of None \<Rightarrow> fails ''terminal event does not decode'' | Some u \<Rightarrow> Inr u)
             | _ \<Rightarrow> fails ''terminal event does not decode'')
          else fails ''unsupported terminal event'')"

definition writeWorkUnitsTrailerV2 :: "WorkloadJournalV2 \<Rightarrow> (string \<times> string) list" where
  "writeWorkUnitsTrailerV2 record =
     (case terminalWorkUnitsV2 record of Inl _ \<Rightarrow> [] | Inr units \<Rightarrow> [(ABRWorkUnitsTrailerV2, fmt_u64 units)])"

subsection \<open>The request\<close>

definition job_error :: "(string \<times> string) list \<Rightarrow> int \<Rightarrow> string \<Rightarrow> http_out" where
  "job_error headers status code = writeRunnerJSONV1 headers status (JObj [(''error'', JStr code)])"

definition dec_artifact :: "json \<Rightarrow> ArtifactDestinationV2 \<Rightarrow> ArtifactDestinationV2 option" where
  "dec_artifact = strict_object
     [text_member ''artifact_uri'' ArtifactURI (\<lambda>x r. r\<lparr>ArtifactURI := x\<rparr>),
      text_member ''upload_url'' UploadURL (\<lambda>x r. r\<lparr>UploadURL := x\<rparr>)]"

definition zero_artifact :: ArtifactDestinationV2 where
  "zero_artifact = \<lparr>ArtifactURI = [], UploadURL = []\<rparr>"

definition dec_outputs :: "json \<Rightarrow> RenditionDestinationsV2 \<Rightarrow> RenditionDestinationsV2 option" where
  "dec_outputs = strict_object
     [(''playlist'', \<lambda>v r. map_option (\<lambda>x. r\<lparr>Playlist := x\<rparr>) (dec_artifact v (Playlist r))),
      (''stream'', \<lambda>v r. map_option (\<lambda>x. r\<lparr>Stream := x\<rparr>) (dec_artifact v (Stream r)))]"

definition dec_output :: "json \<Rightarrow> ABROutputDestinationsV2 \<Rightarrow> ABROutputDestinationsV2 option" where
  "dec_output = strict_object
     [(''manifest'', \<lambda>v r. map_option (\<lambda>x. r\<lparr>Manifest := x\<rparr>) (dec_artifact v (Manifest r))),
      (''renditions'', \<lambda>v r. map_option (\<lambda>x. r\<lparr>Renditions := x\<rparr>)
         (dec_map dec_outputs \<lparr>Playlist = zero_artifact, Stream = zero_artifact\<rparr> v (Renditions r)))]"

definition dec_input :: "json \<Rightarrow> ABRInputV2 \<Rightarrow> ABRInputV2 option" where
  "dec_input = strict_object
     [text_member ''download_url'' DownloadURL (\<lambda>x r. r\<lparr>DownloadURL := x\<rparr>),
      text_member ''content_sha256'' ContentSHA256 (\<lambda>x r. r\<lparr>ContentSHA256 := x\<rparr>)]"

definition dec_ladder :: "json \<Rightarrow> ABRLadderV2 \<Rightarrow> ABRLadderV2 option" where
  "dec_ladder = strict_object [text_member ''preset'' LadderPreset (\<lambda>x r. r\<lparr>LadderPreset := x\<rparr>)]"

definition dec_abr_request :: "json \<Rightarrow> ABRWorkloadRequestV2 \<Rightarrow> ABRWorkloadRequestV2 option" where
  "dec_abr_request = strict_object
     [text_member ''schema'' ReqSchema (\<lambda>x r. r\<lparr>ReqSchema := x\<rparr>),
      text_member ''workload_id'' ReqWorkloadID (\<lambda>x r. r\<lparr>ReqWorkloadID := x\<rparr>),
      (''input'', \<lambda>v r. map_option (\<lambda>x. r\<lparr>Input := x\<rparr>) (dec_input v (Input r))),
      (''ladder'', \<lambda>v r. map_option (\<lambda>x. r\<lparr>Ladder := x\<rparr>) (dec_ladder v (Ladder r))),
      (''output'', \<lambda>v r. map_option (\<lambda>x. r\<lparr>Output := x\<rparr>) (dec_output v (Output r)))]"

definition zero_request :: ABRWorkloadRequestV2 where
  "zero_request =
     \<lparr>ReqSchema = [], ReqWorkloadID = [], Input = \<lparr>DownloadURL = [], ContentSHA256 = []\<rparr>, Ladder = \<lparr>LadderPreset = []\<rparr>,
      Output = \<lparr>Manifest = zero_artifact, Renditions = []\<rparr>\<rparr>"

definition decodeABRRequestV2 :: "string \<Rightarrow> ABRWorkloadRequestV2 option" where
  "decodeABRRequestV2 body =
     (if length body > maxABRRequestBodyV2 then None else decode_strict dec_abr_request zero_request body)"

text \<open>Up to the journal: method, transport, body, preset and contents.\<close>

definition acceptRequestV2 ::
    "(string \<Rightarrow> string) \<Rightarrow> ABRPreset list \<Rightarrow> string \<Rightarrow> string \<Rightarrow> string \<Rightarrow>
       http_out + ABRWorkloadRequestV2 \<times> ABRPreset \<times> string" where
  "acceptRequestV2 sha presets method accept body =
     (if method \<noteq> ''POST'' then Inl (job_error [(''Allow'', ''POST'')] 405 ''method_not_allowed'')
      else if \<not> contains accept ''text/event-stream'' then Inl (job_error [] 406 ''sse_transport_required'')
      else (case decodeABRRequestV2 body of
        None \<Rightarrow> Inl (job_error [] 400 ''invalid_request'')
      | Some req \<Rightarrow>
          (case FindABRPreset presets (LadderPreset (Ladder req)) of
             None \<Rightarrow> Inl (job_error [] 400 ''unknown_preset'')
           | Some preset \<Rightarrow>
               if ValidateABRRequestV2 req (RenditionNames preset) \<noteq> None then Inl (job_error [] 400 ''invalid_request'')
               else Inr (req, preset, RequestContentSHA256V2 sha req))))"

definition subscribeErrorV2 :: "go_error \<Rightarrow> http_out" where
  "subscribeErrorV2 e =
     (if errors_is e errABRExecutionCapacityV2 then job_error [] 429 ''capacity_reached'' else job_error [] 500 ''execution_unavailable'')"

end
