(* ===== verification/ABR_System.thy ===== *)
theory ABR_System
  imports ABR_Service
begin

section \<open>Executions and listeners together\<close>

text \<open>
  The goroutines of the ABR runner as a transition system: one per execution (\<open>run\<close>), one per
  request (\<open>ServeHTTP\<close>, a listener), and the coordinator and the journals that they share.  Every
  method of the coordinator and of the store runs under its lock, so it is one step; between two such calls
  any other goroutine may move.  An executor reports in any order and returns anything.
\<close>

datatype listener_pc =
    Opened            \<comment> \<open>journal opened, not yet subscribed\<close>
  | Reloading         \<comment> \<open>became terminal before the subscription\<close>
  | Replaying         \<comment> \<open>the record is terminal and is to be written\<close>
  | Attached          \<comment> \<open>subscribed, the first events are to be written\<close>
  | Waiting
  | Woken bool        \<comment> \<open>notified, with whether the channel was open\<close>
  | Leaving           \<comment> \<open>the deferred \<open>Close\<close> is to come\<close>
  | Gone

record listener =
  LWorkload :: string
  LSHA256 :: string
  LRecord :: WorkloadJournalV2
  LSubscription :: "nat option"
  LLast :: u64
  LSent :: "StoredSSEEventV2 list"
  LTrailer :: "(string \<times> string) list"
  LPC :: listener_pc

record job_system =
  Disk :: journals
  Coordinator :: ABRCoordinatorV2
  Runs :: "(string \<times> string \<times> run_pc) list"
  Listeners :: "listener list"
  Panicked :: bool

definition new_listener :: "string \<Rightarrow> string \<Rightarrow> WorkloadJournalV2 \<Rightarrow> listener_pc \<Rightarrow> listener" where
  "new_listener sid sha r pc =
     \<lparr>LWorkload = sid, LSHA256 = sha, LRecord = r, LSubscription = None, LLast = 0, LSent = [], LTrailer = [], LPC = pc\<rparr>"

definition set_listener :: "nat \<Rightarrow> listener \<Rightarrow> job_system \<Rightarrow> job_system" where
  "set_listener k l s = s\<lparr>Listeners := (Listeners s)[k := l]\<rparr>"

definition set_run :: "string \<Rightarrow> run_pc \<Rightarrow> job_system \<Rightarrow> job_system" where
  "set_run sid pc s = s\<lparr>Runs := map (\<lambda>(x, sha, old). (x, sha, if x = sid then pc else old)) (Runs s)\<rparr>"

definition run_at :: "job_system \<Rightarrow> string \<Rightarrow> string \<Rightarrow> run_pc \<Rightarrow> bool" where
  "run_at s sid sha pc \<longleftrightarrow> map_of (Runs s) sid = Some (sha, pc)"

definition listens :: "job_system \<Rightarrow> nat \<Rightarrow> listener \<Rightarrow> bool" where
  "listens s k l \<longleftrightarrow> k < length (Listeners s) \<and> Listeners s ! k = l"

text \<open>
  \<open>ServeHTTP\<close> once the journal is open: the events of the record, and at the end the trailer.
\<close>

definition write_events :: "WorkloadJournalV2 \<Rightarrow> listener_pc \<Rightarrow> listener \<Rightarrow> listener" where
  "write_events r next_pc l =
     (let (events, last_sequence, terminal) = writeJournalEventsV2 r (LLast l) in
      l\<lparr>LSent := LSent l @ events, LLast := last_sequence, LTrailer := (if terminal then writeWorkUnitsTrailerV2 r else []),
        LPC := (if terminal then Leaving else next_pc)\<rparr>)"

text \<open>A call of the store that checkpoints the work of an executor.\<close>

definition checkpoint_call :: "journal_call \<Rightarrow> string \<Rightarrow> bool" where
  "checkpoint_call c sid \<longleftrightarrow>
     (case c of CallPrepared x _ \<Rightarrow> x = sid | CallDelivered x _ \<Rightarrow> x = sid | CallManifest x _ \<Rightarrow> x = sid
      | CallManifestOut x _ \<Rightarrow> x = sid | _ \<Rightarrow> False)"

inductive job_step :: "job_system \<Rightarrow> job_system \<Rightarrow> bool" where
  open_resume:
    "LoadOrCreate io (Disk s) sid sha = (Inr (r, ResumeExistingV2), d) \<Longrightarrow>
     job_step s (s\<lparr>Disk := d, Listeners := Listeners s @ [new_listener sid sha r Opened]\<rparr>)"
| open_replay:
    "LoadOrCreate io (Disk s) sid sha = (Inr (r, ReplayTerminalV2), d) \<Longrightarrow>
     job_step s (s\<lparr>Disk := d, Listeners := Listeners s @ [new_listener sid sha r Replaying]\<rparr>)"
| open_refused:
    "LoadOrCreate io (Disk s) sid sha = (res, d) \<Longrightarrow> (\<exists>e. res = Inl e) \<or> (\<exists>r. res = Inr (r, RejectIDReuseV2)) \<Longrightarrow>
     job_step s (s\<lparr>Disk := d\<rparr>)"
| subscribe_starts:
    "listens s k l \<Longrightarrow> LPC l = Opened \<Longrightarrow> map_of (Active (Coordinator s)) (LWorkload l) = None \<Longrightarrow>
     Subscribe (Disk s) acquire (LWorkload l) (LSHA256 l) (Coordinator s) = (Inr (Some i), c) \<Longrightarrow>
     job_step s (set_listener k (l\<lparr>LSubscription := Some i, LPC := Attached\<rparr>)
       (s\<lparr>Coordinator := c, Runs := put (LWorkload l) (LSHA256 l, Executing) (Runs s)\<rparr>))"
| subscribe_joins:
    "listens s k l \<Longrightarrow> LPC l = Opened \<Longrightarrow> map_of (Active (Coordinator s)) (LWorkload l) \<noteq> None \<Longrightarrow>
     Subscribe (Disk s) acquire (LWorkload l) (LSHA256 l) (Coordinator s) = (Inr (Some i), c) \<Longrightarrow>
     job_step s (set_listener k (l\<lparr>LSubscription := Some i, LPC := Attached\<rparr>) (s\<lparr>Coordinator := c\<rparr>))"
| subscribe_terminal:
    "listens s k l \<Longrightarrow> LPC l = Opened \<Longrightarrow>
     Subscribe (Disk s) acquire (LWorkload l) (LSHA256 l) (Coordinator s) = (Inr None, c) \<Longrightarrow>
     job_step s (set_listener k (l\<lparr>LPC := Reloading\<rparr>) (s\<lparr>Coordinator := c\<rparr>))"
| subscribe_refused:
    "listens s k l \<Longrightarrow> LPC l = Opened \<Longrightarrow>
     Subscribe (Disk s) acquire (LWorkload l) (LSHA256 l) (Coordinator s) = (Inl e, c) \<Longrightarrow>
     job_step s (set_listener k (l\<lparr>LPC := Gone\<rparr>) (s\<lparr>Coordinator := c\<rparr>))"
| reload_terminal:
    "listens s k l \<Longrightarrow> LPC l = Reloading \<Longrightarrow> LoadWorkload (Disk s) (LWorkload l) = Inr r \<Longrightarrow>
     job_step s (set_listener k (l\<lparr>LRecord := r, LPC := Replaying\<rparr>) s)"
| write_replay:
    "listens s k l \<Longrightarrow> LPC l = Replaying \<Longrightarrow> job_step s (set_listener k (write_events (LRecord l) Leaving l) s)"
| write_first:
    "listens s k l \<Longrightarrow> LPC l = Attached \<Longrightarrow> job_step s (set_listener k (write_events (LRecord l) Waiting l) s)"
| wake_notified:
    "listens s k l \<Longrightarrow> LPC l = Waiting \<Longrightarrow> LSubscription l = Some i \<Longrightarrow> Pending (Channels (Coordinator s) i) \<Longrightarrow>
     job_step s (set_listener k (l\<lparr>LPC := Woken True\<rparr>)
       (s\<lparr>Coordinator := (Coordinator s)\<lparr>Channels := (Channels (Coordinator s))(i := (Channels (Coordinator s) i)\<lparr>Pending := False\<rparr>)\<rparr>\<rparr>))"
| wake_closed:
    "listens s k l \<Longrightarrow> LPC l = Waiting \<Longrightarrow> LSubscription l = Some i \<Longrightarrow> \<not> Pending (Channels (Coordinator s) i) \<Longrightarrow>
     Closed (Channels (Coordinator s) i) \<Longrightarrow> job_step s (set_listener k (l\<lparr>LPC := Woken False\<rparr>) s)"
| write_more:
    "listens s k l \<Longrightarrow> LPC l = Woken channel_open \<Longrightarrow> LoadWorkload (Disk s) (LWorkload l) = Inr r \<Longrightarrow>
     job_step s (set_listener k (write_events r (if channel_open then Waiting else Leaving) l) s)"
| leave:
    "listens s k l \<Longrightarrow> LPC l \<in> {Reloading, Replaying, Attached, Waiting, Woken True, Woken False} \<Longrightarrow>
     job_step s (set_listener k (l\<lparr>LPC := Leaving\<rparr>) s)"
| close_subscription:
    "listens s k l \<Longrightarrow> LPC l = Leaving \<Longrightarrow>
     job_step s (set_listener k (l\<lparr>LPC := Gone\<rparr>)
       (s\<lparr>Coordinator := (case LSubscription l of None \<Rightarrow> Coordinator s | Some i \<Rightarrow> detach (LWorkload l) i (Coordinator s))\<rparr>))"
| report_progress:
    "run_at s sid sha Executing \<Longrightarrow> AppendProgress io (Disk s) sid phase x rendition frames = (res, d) \<Longrightarrow>
     job_step s (set_run sid (case res of Inr _ \<Rightarrow> Announcing False | Inl _ \<Rightarrow> Executing) (s\<lparr>Disk := d\<rparr>))"
| checkpoint:
    "run_at s sid sha Executing \<Longrightarrow> checkpoint_call c sid \<Longrightarrow> job_step s (s\<lparr>Disk := run_call io c (Disk s)\<rparr>)"
| announce:
    "run_at s sid sha (Announcing final) \<Longrightarrow> notifyV2 sid (Coordinator s) = Some c \<Longrightarrow>
     job_step s (set_run sid (if final then Finishing else Executing) (s\<lparr>Coordinator := c\<rparr>))"
| announce_panics:
    "run_at s sid sha (Announcing final) \<Longrightarrow> notifyV2 sid (Coordinator s) = None \<Longrightarrow> job_step s (s\<lparr>Panicked := True\<rparr>)"
| return_cancelled:
    "run_at s sid sha Executing \<Longrightarrow> map_of (Active (Coordinator s)) sid = Some x \<Longrightarrow> Cancelled x \<Longrightarrow>
     job_step s (set_run sid Finishing s)"
| return_recorded:
    "run_at s sid sha Executing \<Longrightarrow> map_of (Active (Coordinator s)) sid = Some x \<Longrightarrow> \<not> Cancelled x \<Longrightarrow>
     recordOutcomeV2 io (Disk s) sid sha outcome = (res, d) \<Longrightarrow>
     job_step s (set_run sid (case res of Inr _ \<Rightarrow> Announcing True | Inl _ \<Rightarrow> Finishing) (s\<lparr>Disk := d\<rparr>))"
| finish:
    "run_at s sid sha Finishing \<Longrightarrow>
     job_step s (s\<lparr>Coordinator := finishV2 sid (Coordinator s), Runs := filter (\<lambda>e. fst e \<noteq> sid) (Runs s)\<rparr>)"

definition start_system :: "ABRCoordinatorV2 \<Rightarrow> job_system" where
  "start_system c = \<lparr>Disk = [], Coordinator = c, Runs = [], Listeners = [], Panicked = False\<rparr>"

inductive job_reach :: "nat \<Rightarrow> nat \<Rightarrow> job_system \<Rightarrow> bool" where
  start: "NewABRExecutionCoordinatorV2 limit = Inr c \<Longrightarrow> job_reach limit 0 (start_system c)"
| step: "job_reach limit n s \<Longrightarrow> job_step s s' \<Longrightarrow> job_reach limit (Suc n) s'"

end
