(* ===== verification/ABR_System_Invariant.thy ===== *)
theory ABR_System_Invariant
  imports ABR_System
begin

section \<open>The invariant of the ABR runner\<close>

subsection \<open>What the operations of the coordinator do\<close>

definition attached :: "ABRCoordinatorV2 \<Rightarrow> string \<Rightarrow> nat \<Rightarrow> bool" where
  "attached c sid i \<longleftrightarrow> (\<exists>x. map_of (Active c) sid = Some x \<and> i \<in> set (Subscribers x))"

definition exec_sha :: "ABRCoordinatorV2 \<Rightarrow> string \<Rightarrow> string option" where
  "exec_sha c sid = map_option ExecSHA256 (map_of (Active c) sid)"

definition coord_ok :: "ABRCoordinatorV2 \<Rightarrow> bool" where
  "coord_ok c \<longleftrightarrow> distinct (map fst (Active c)) \<and> length (Active c) \<le> Limit c \<and>
     ActiveCount c = int (length (Active c)) \<and> Leases c = length (Active c) \<and>
     (\<forall>sid i. attached c sid i \<longrightarrow> i \<le> NextSubscriber c \<and> \<not> Closed (Channels c i)) \<and>
     (\<forall>sid sid' i. attached c sid i \<longrightarrow> attached c sid' i \<longrightarrow> sid = sid')"

lemma length_put: "length (put k v m) = (if map_of m k = None then Suc (length m) else length m)"
  by (induction k v m rule: put.induct) auto

lemma attached_put: "attached (c\<lparr>Active := put sid x (Active c)\<rparr>) s j = (if s = sid then j \<in> set (Subscribers x) else attached c s j)"
  by (simp add: attached_def)

lemma join_effect:
  assumes c: "coord_ok c" and x: "map_of (Active c) sid = Some x" and j: "joinExecutionV2 sid x c = (i, c')"
  shows "coord_ok c'" "i = Suc (NextSubscriber c)" "NextSubscriber c' = i" "exec_sha c' = exec_sha c"
    "attached c' s k = (attached c s k \<or> (s = sid \<and> k = i))"
    "Channels c' k = (if k = i then \<lparr>Pending = False, Closed = False\<rparr> else Channels c k)"
proof -
  have d: "i = Suc (NextSubscriber c)" "c' = c\<lparr>NextSubscriber := i, Active := put sid (x\<lparr>Subscribers := Subscribers x @ [i]\<rparr>) (Active c),
      Channels := (Channels c)(i := \<lparr>Pending = False, Closed = False\<rparr>)\<rparr>"
    using j by (auto simp: joinExecutionV2_def Let_def)
  show i: "i = Suc (NextSubscriber c)" "NextSubscriber c' = i" using d by simp_all
  have act: "Active c' = put sid (x\<lparr>Subscribers := Subscribers x @ [i]\<rparr>) (Active c)" using d by simp
  show att: "attached c' s k = (attached c s k \<or> (s = sid \<and> k = i))" for s k
    using x by (auto simp: attached_def act)
  show ch: "Channels c' k = (if k = i then \<lparr>Pending = False, Closed = False\<rparr> else Channels c k)" for k using d by simp
  show "exec_sha c' = exec_sha c" using x by (auto simp: exec_sha_def act fun_eq_iff)
  have old: "attached c s k \<Longrightarrow> k \<noteq> i" for s k using c i(1) by (force simp: coord_ok_def)
  have rest: "Limit c' = Limit c" "ActiveCount c' = ActiveCount c" "Leases c' = Leases c" using d by simp_all
  have len: "length (Active c') = length (Active c)" using x by (simp add: act length_put)
  have own: "attached c s k \<Longrightarrow> k \<le> NextSubscriber c \<and> \<not> Closed (Channels c k)" "attached c s k \<Longrightarrow> attached c s' k \<Longrightarrow> s = s'" for s s' k
    using c unfolding coord_ok_def by blast+
  show "coord_ok c'"
    unfolding coord_ok_def len rest
  proof (intro conjI allI impI)
    show "distinct (map fst (Active c'))" using c by (simp add: act coord_ok_def distinct_put)
    fix s s' k assume a: "attached c' s k"
    show "k \<le> NextSubscriber c'" "\<not> Closed (Channels c' k)" using a own(1) [of s k] i by (auto simp: att ch)
    assume "attached c' s' k"
    then show "s = s'" using a old own(2) by (auto simp: att)
  qed (use c in \<open>simp_all add: coord_ok_def\<close>)
qed

lemma start_effect:
  fixes sha
  assumes c: "coord_ok c" and x: "map_of (Active c) sid = None" and room: "length (Active c) < Limit c"
  defines "c' \<equiv> startExecutionV2 sid sha c"
  shows "coord_ok c'" "NextSubscriber c' = NextSubscriber c" "exec_sha c' = (exec_sha c)(sid \<mapsto> sha)" "attached c' s k = attached c s k"
    "Channels c' = Channels c" "map_of (Active c') sid = Some \<lparr>ExecSHA256 = sha, Cancelled = False, Subscribers = [], ExecPC = Executing\<rparr>"
proof -
  have act: "Active c' = put sid \<lparr>ExecSHA256 = sha, Cancelled = False, Subscribers = [], ExecPC = Executing\<rparr> (Active c)"
    by (simp add: c'_def startExecutionV2_def)
  show att: "attached c' s k = attached c s k" for s k using x by (auto simp: attached_def act)
  show same: "NextSubscriber c' = NextSubscriber c" "Channels c' = Channels c" by (simp_all add: c'_def startExecutionV2_def)
  show "exec_sha c' = (exec_sha c)(sid \<mapsto> sha)" by (auto simp: exec_sha_def act fun_eq_iff)
  show "map_of (Active c') sid = Some \<lparr>ExecSHA256 = sha, Cancelled = False, Subscribers = [], ExecPC = Executing\<rparr>" by (simp add: act)
  have "length (Active c') = Suc (length (Active c))" using x by (simp add: act length_put)
  then show "coord_ok c'"
    using c room unfolding coord_ok_def att same by (simp add: act distinct_put) (simp add: c'_def startExecutionV2_def)
qed

lemma detach_effect:
  assumes c: "coord_ok c"
  shows "coord_ok (detach sid i c)" "NextSubscriber (detach sid i c) = NextSubscriber c" "exec_sha (detach sid i c) = exec_sha c"
    "attached (detach sid i c) s k = (attached c s k \<and> \<not> (s = sid \<and> k = i))" "Channels (detach sid i c) = Channels c"
proof -
  have "coord_ok (detach sid i c) \<and> NextSubscriber (detach sid i c) = NextSubscriber c \<and> exec_sha (detach sid i c) = exec_sha c \<and>
      (\<forall>s k. attached (detach sid i c) s k = (attached c s k \<and> \<not> (s = sid \<and> k = i))) \<and> Channels (detach sid i c) = Channels c"
  proof (cases "map_of (Active c) sid")
    case None
    then show ?thesis using c by (auto simp: detach_def attached_def)
  next
    case (Some x)
    let ?x = "x\<lparr>Subscribers := filter (\<lambda>j. j \<noteq> i) (Subscribers x), Cancelled := (Cancelled x \<or> filter (\<lambda>j. j \<noteq> i) (Subscribers x) = [])\<rparr>"
    define c' where "c' = detach sid i c"
    have d: "c' = c\<lparr>Active := put sid ?x (Active c)\<rparr>" using Some by (simp add: c'_def detach_def Let_def)
    have att: "attached c' s k = (attached c s k \<and> \<not> (s = sid \<and> k = i))" for s k
      using Some by (auto simp: attached_def d)
    have len: "length (Active c') = length (Active c)" using Some by (simp add: d length_put)
    have same: "NextSubscriber c' = NextSubscriber c" "Channels c' = Channels c" "Limit c' = Limit c" "ActiveCount c' = ActiveCount c" "Leases c' = Leases c"
      by (simp_all add: d)
    have "distinct (map fst (Active c'))" using c by (simp add: d coord_ok_def distinct_put)
    then have "coord_ok c'" using c unfolding coord_ok_def len att same by blast
    moreover have "exec_sha c' = exec_sha c" using Some by (auto simp: exec_sha_def d fun_eq_iff)
    ultimately show ?thesis using att same unfolding c'_def by blast
  qed
  then show "coord_ok (detach sid i c)" "NextSubscriber (detach sid i c) = NextSubscriber c" "exec_sha (detach sid i c) = exec_sha c"
    "attached (detach sid i c) s k = (attached c s k \<and> \<not> (s = sid \<and> k = i))" "Channels (detach sid i c) = Channels c"
    by blast+
qed

lemma notify_effect:
  assumes c: "coord_ok c" and n: "notifyV2 sid c = Some c'"
  shows "coord_ok c'" "NextSubscriber c' = NextSubscriber c" "exec_sha c' = exec_sha c" "attached c' s k = attached c s k"
    "Closed (Channels c' k) = Closed (Channels c k)" "Pending (Channels c' k) = (Pending (Channels c k) \<or> attached c sid k)"
proof -
  obtain x where x: "map_of (Active c) sid = Some x" "c' = c\<lparr>Channels := signal (Subscribers x) (Channels c)\<rparr>"
    using n by (auto simp: notifyV2_def split: option.splits)
  show att: "attached c' s k = attached c s k" for s k by (simp add: attached_def x(2))
  show cl: "Closed (Channels c' k) = Closed (Channels c k)" for k by (simp add: x(2) signal_def)
  show "Pending (Channels c' k) = (Pending (Channels c k) \<or> attached c sid k)" using x(1) by (simp add: x(2) signal_def attached_def)
  show "NextSubscriber c' = NextSubscriber c" "exec_sha c' = exec_sha c" by (simp_all add: x(2) exec_sha_def fun_eq_iff)
  show "coord_ok c'" using c unfolding coord_ok_def att cl by (simp add: x(2))
qed

lemma finish_effect:
  assumes c: "coord_ok c" and x: "map_of (Active c) sid = Some x"
  defines "c' \<equiv> finishV2 sid c"
  shows "coord_ok c'" "NextSubscriber c' = NextSubscriber c" "exec_sha c' = (exec_sha c)(sid := None)"
    "attached c' s k = (attached c s k \<and> s \<noteq> sid)" "Closed (Channels c' k) = (Closed (Channels c k) \<or> attached c sid k)"
    "Pending (Channels c' k) = Pending (Channels c k)"
proof -
  have d: "Active c' = filter (\<lambda>e. fst e \<noteq> sid) (Active c)" "ActiveCount c' = ActiveCount c - 1" "Leases c' = Leases c - 1"
      "NextSubscriber c' = NextSubscriber c" "Limit c' = Limit c"
      "Channels c' = (\<lambda>i. if i \<in> set (Subscribers x) then (Channels c i)\<lparr>Closed := True\<rparr> else Channels c i)"
    using x by (simp_all add: c'_def finishV2_def)
  have m: "map_of (filter (\<lambda>e. fst e \<noteq> sid) m) s = (if s = sid then None else map_of m s)" for m :: "(string \<times> abrExecutionV2) list" and s
    by (induction m) auto
  show att: "attached c' s k = (attached c s k \<and> s \<noteq> sid)" for s k by (simp add: attached_def d(1) m)
  show cl: "Closed (Channels c' k) = (Closed (Channels c k) \<or> attached c sid k)" for k using x by (simp add: d(6) attached_def)
  show "Pending (Channels c' k) = Pending (Channels c k)" by (simp add: d(6))
  show "NextSubscriber c' = NextSubscriber c" by (rule d(4))
  show "exec_sha c' = (exec_sha c)(sid := None)" by (auto simp: exec_sha_def d(1) m fun_eq_iff)
  have len: "Suc (length (filter (\<lambda>e. fst e \<noteq> sid) (Active c))) = length (Active c)"
  proof -
    have "length (filter (\<lambda>e. fst e \<noteq> sid) m) + length (filter (\<lambda>e. fst e = sid) m) = length m" for m :: "(string \<times> abrExecutionV2) list"
      using sum_length_filter_compl [of "\<lambda>e. fst e \<noteq> sid" m] by simp
    moreover have "distinct (map fst m) \<Longrightarrow> map_of m sid = Some x \<Longrightarrow> length (filter (\<lambda>e. fst e = sid) m) = 1" for m
    proof (induction m)
      case (Cons e m)
      have "filter (\<lambda>e. fst e = sid) m = []" if "sid \<notin> fst ` set m" using that by (force simp: filter_empty_conv)
      then show ?case using Cons by (cases e) auto
    qed simp
    ultimately show ?thesis using c x unfolding coord_ok_def by (metis Suc_eq_plus1)
  qed
  have own: "attached c s k \<Longrightarrow> k \<le> NextSubscriber c \<and> \<not> Closed (Channels c k)" "attached c s k \<Longrightarrow> attached c s' k \<Longrightarrow> s = s'" for s s' k
    using c unfolding coord_ok_def by blast+
  show "coord_ok c'"
    unfolding coord_ok_def d(2-5)
  proof (intro conjI allI impI)
    show "distinct (map fst (Active c'))" using c by (simp add: d(1) coord_ok_def distinct_map_filter)
    fix s s' k assume a: "attached c' s k"
    show "k \<le> NextSubscriber c" "\<not> Closed (Channels c' k)" using a own(1) [of s k] own(2) [of s k sid] by (auto simp: att cl)
    assume "attached c' s' k"
    then show "s = s'" using a own(2) unfolding att by blast
  qed (use c len in \<open>auto simp: coord_ok_def d(1)\<close>)
qed

lemma subscribe_new:
  assumes c: "coord_ok c" and none: "map_of (Active c) sid = None" and sub: "Subscribe d acquire sid sha c = (Inr (Some i), c')"
  shows "\<exists>r. loadJournalV2 d sid = Inr r \<and> RequestSHA256 r = sha \<and> in_progress r" "coord_ok c'" "i = Suc (NextSubscriber c)" "NextSubscriber c' = i"
    "exec_sha c' = (exec_sha c)(sid \<mapsto> sha)" "attached c' s k = (attached c s k \<or> (s = sid \<and> k = i))"
    "Channels c' k = (if k = i then \<lparr>Pending = False, Closed = False\<rparr> else Channels c k)"
proof -
  obtain r where r: "loadJournalV2 d sid = Inr r" "RequestSHA256 r = sha" "in_progress r" "length (Active c) < Limit c"
      "joinExecutionV2 sid (the (map_of (Active (startExecutionV2 sid sha c)) sid)) (startExecutionV2 sid sha c) = (i, c')"
    using sub none by (auto simp: Subscribe_def fails_def Let_def split: sum.splits if_splits option.splits prod.splits)
  then show "\<exists>r. loadJournalV2 d sid = Inr r \<and> RequestSHA256 r = sha \<and> in_progress r" by blast
  note st = start_effect [OF c none r(4), of sha]
  have j: "joinExecutionV2 sid \<lparr>ExecSHA256 = sha, Cancelled = False, Subscribers = [], ExecPC = Executing\<rparr> (startExecutionV2 sid sha c) = (i, c')"
    using r(5) st(6) by simp
  note e = join_effect [OF st(1) st(6) j]
  show "coord_ok c'" "i = Suc (NextSubscriber c)" "NextSubscriber c' = i" "exec_sha c' = (exec_sha c)(sid \<mapsto> sha)"
    "attached c' s k = (attached c s k \<or> (s = sid \<and> k = i))"
    "Channels c' k = (if k = i then \<lparr>Pending = False, Closed = False\<rparr> else Channels c k)"
    using e st by simp_all
qed

lemma subscribe_old:
  assumes c: "coord_ok c" and some: "map_of (Active c) sid \<noteq> None" and sub: "Subscribe d acquire sid sha c = (Inr (Some i), c')"
  shows "\<exists>r. loadJournalV2 d sid = Inr r \<and> RequestSHA256 r = sha \<and> in_progress r" "coord_ok c'" "i = Suc (NextSubscriber c)" "NextSubscriber c' = i"
    "exec_sha c' = exec_sha c" "attached c' s k = (attached c s k \<or> (s = sid \<and> k = i))"
    "Channels c' k = (if k = i then \<lparr>Pending = False, Closed = False\<rparr> else Channels c k)"
proof -
  obtain r x where r: "loadJournalV2 d sid = Inr r" "RequestSHA256 r = sha" "in_progress r" "map_of (Active c) sid = Some x"
      "joinExecutionV2 sid x c = (i, c')"
    using sub some by (auto simp: Subscribe_def fails_def Let_def split: sum.splits if_splits option.splits prod.splits)
  then show "\<exists>r. loadJournalV2 d sid = Inr r \<and> RequestSHA256 r = sha \<and> in_progress r" by blast
  note e = join_effect [OF c r(4,5)]
  show "coord_ok c'" "i = Suc (NextSubscriber c)" "NextSubscriber c' = i" "exec_sha c' = exec_sha c"
    "attached c' s k = (attached c s k \<or> (s = sid \<and> k = i))"
    "Channels c' k = (if k = i then \<lparr>Pending = False, Closed = False\<rparr> else Channels c k)"
    using e by simp_all
qed

text \<open>A subscription that is not made changes at most the count of refusals.\<close>

lemma subscribe_none:
  assumes c: "coord_ok c" and sub: "Subscribe d acquire sid sha c = (res, c')" and res: "\<And>i. res \<noteq> Inr (Some i)"
  shows "coord_ok c'" "NextSubscriber c' = NextSubscriber c" "exec_sha c' = exec_sha c" "attached c' = attached c" "Channels c' = Channels c"
proof -
  have "c' = c \<or> c' = c\<lparr>AdmissionRejected := Suc (AdmissionRejected c)\<rparr>"
    using sub res by (auto simp: Subscribe_def Let_def split: sum.splits if_splits option.splits prod.splits)
  then have d: "Active c' = Active c" "Channels c' = Channels c" "NextSubscriber c' = NextSubscriber c" "Limit c' = Limit c"
      "ActiveCount c' = ActiveCount c" "Leases c' = Leases c" by auto
  have att: "attached c' = attached c" by (simp add: attached_def d fun_eq_iff)
  show "coord_ok c'" using c unfolding coord_ok_def att by (simp add: d)
  show "NextSubscriber c' = NextSubscriber c" "exec_sha c' = exec_sha c" "attached c' = attached c" "Channels c' = Channels c"
    using d att by (simp_all add: exec_sha_def fun_eq_iff)
qed

lemma subscribe_terminal_state:
  "Subscribe d acquire sid sha c = (Inr None, c') \<Longrightarrow> \<exists>r. loadJournalV2 d sid = Inr r \<and> \<not> in_progress r"
  by (auto simp: Subscribe_def fails_def Let_def split: sum.splits if_splits option.splits prod.splits)

subsection \<open>The parts of the invariant\<close>

definition finished :: "journals \<Rightarrow> string \<Rightarrow> bool" where
  "finished d sid \<longleftrightarrow> (\<exists>r. loadJournalV2 d sid = Inr r \<and> TerminalEvent r \<noteq> None)"

definition runs_ok :: "job_system \<Rightarrow> bool" where
  "runs_ok s \<longleftrightarrow> distinct (map fst (Runs s)) \<and>
     (\<forall>sid. exec_sha (Coordinator s) sid = map_option fst (map_of (Runs s) sid)) \<and>
     (\<forall>sid sha pc. map_of (Runs s) sid = Some (sha, pc) \<longrightarrow>
        (\<exists>r. loadJournalV2 (Disk s) sid = Inr r \<and> RequestSHA256 r = sha) \<and>
        (pc = Executing \<or> pc = Announcing False \<longrightarrow> \<not> finished (Disk s) sid))"

text \<open>The execution has come to its end, and its listeners will be told.\<close>

definition ending :: "job_system \<Rightarrow> string \<Rightarrow> bool" where
  "ending s sid \<longleftrightarrow> (\<exists>sha pc. map_of (Runs s) sid = Some (sha, pc) \<and> (pc = Announcing True \<or> pc = Finishing))"

definition told :: "job_system \<Rightarrow> string \<Rightarrow> nat \<Rightarrow> bool" where
  "told s sid i \<longleftrightarrow> Pending (Channels (Coordinator s) i) \<or> Closed (Channels (Coordinator s) i) \<or> ending s sid"

definition connected :: "ABRCoordinatorV2 \<Rightarrow> string \<Rightarrow> nat \<Rightarrow> bool" where
  "connected c sid i \<longleftrightarrow> attached c sid i \<or> Closed (Channels c i)"

definition subscription_ok :: "job_system \<Rightarrow> listener \<Rightarrow> bool" where
  "subscription_ok s l \<longleftrightarrow>
     (\<forall>i. LSubscription l = Some i \<longrightarrow> i \<le> NextSubscriber (Coordinator s)) \<and>
     (LPC l \<in> {Opened, Reloading, Replaying} \<longrightarrow> LSubscription l = None) \<and>
     (LPC l \<in> {Attached, Waiting, Woken True, Woken False} \<longrightarrow> (\<exists>i. LSubscription l = Some i \<and> connected (Coordinator s) (LWorkload l) i)) \<and>
     (\<forall>i. LPC l \<in> {Attached, Waiting} \<longrightarrow> LSubscription l = Some i \<longrightarrow> finished (Disk s) (LWorkload l) \<longrightarrow> told s (LWorkload l) i)"

text \<open>What was sent is in order, and there is still something to come until the terminal event is sent.\<close>

definition more_to_come :: "u64 \<Rightarrow> WorkloadJournalV2 \<Rightarrow> bool" where
  "more_to_come last_sequence r \<longleftrightarrow>
     (case TerminalEvent r of None \<Rightarrow> last_sequence < NextSequence r | Some t \<Rightarrow> last_sequence < EventSequence t)"

definition stream_ok :: "nat \<Rightarrow> journals \<Rightarrow> listener \<Rightarrow> bool" where
  "stream_ok n d l \<longleftrightarrow> journal_ok n (LRecord l) \<and>
     (\<exists>r. loadJournalV2 d (LWorkload l) = Inr r \<and>
        (LPC l \<in> {Reloading, Replaying} \<longrightarrow> TerminalEvent r \<noteq> None) \<and>
        (LPC l = Replaying \<longrightarrow> r = LRecord l) \<and>
        (LPC l \<in> {Opened, Attached} \<longrightarrow> TerminalEvent (LRecord l) = None \<and> journal_advances (LRecord l) r) \<and>
        (LPC l \<in> {Opened, Reloading, Replaying, Attached} \<longrightarrow> LSent l = [] \<and> LLast l = 0) \<and>
        (LPC l \<notin> {Leaving, Gone} \<longrightarrow> LTrailer l = [] \<and> more_to_come (LLast l) r) \<and>
        (LTrailer l \<noteq> [] \<longrightarrow> LTrailer l = writeWorkUnitsTrailerV2 r \<and> LSent l \<noteq> [] \<and> TerminalEvent r = Some (last (LSent l)))) \<and>
     sorted_wrt (<) (map EventSequence (LSent l)) \<and> (\<forall>e\<in>set (LSent l). EventSequence e \<le> LLast l)"

definition listeners_distinct :: "job_system \<Rightarrow> bool" where
  "listeners_distinct s \<longleftrightarrow>
     (\<forall>j k l m i. listens s j l \<longrightarrow> listens s k m \<longrightarrow> LSubscription l = Some i \<longrightarrow> LSubscription m = Some i \<longrightarrow> j = k)"

definition system_ok :: "nat \<Rightarrow> job_system \<Rightarrow> bool" where
  "system_ok n s \<longleftrightarrow> \<not> Panicked s \<and> journals_ok n (Disk s) \<and> coord_ok (Coordinator s) \<and> runs_ok s \<and> listeners_distinct s \<and>
     (\<forall>l\<in>set (Listeners s). subscription_ok s l \<and> stream_ok n (Disk s) l)"

subsection \<open>What a change of one part keeps\<close>

lemma more_to_come_advances:
  assumes "more_to_come a r" and "journal_advances r r'" shows "more_to_come a r'"
proof (cases "TerminalEvent r")
  case None
  then have "a < NextSequence r" using assms(1) by (simp add: more_to_come_def)
  then show ?thesis using assms(2) None by (auto simp: more_to_come_def journal_advances_def split: option.splits)
next
  case (Some t)
  then show ?thesis using assms by (simp add: journal_advances_def)
qed

lemma sent_advances:
  assumes l: "stream_ok n d l" and adv: "directory_advances d d'" and m: "n \<le> m"
  shows "stream_ok m d' l"
proof -
  obtain r where r: "loadJournalV2 d (LWorkload l) = Inr r" "LPC l \<in> {Reloading, Replaying} \<Longrightarrow> TerminalEvent r \<noteq> None"
      "LPC l = Replaying \<Longrightarrow> r = LRecord l"
      "LPC l \<in> {Opened, Attached} \<Longrightarrow> TerminalEvent (LRecord l) = None \<and> journal_advances (LRecord l) r"
      "LPC l \<in> {Opened, Reloading, Replaying, Attached} \<Longrightarrow> LSent l = [] \<and> LLast l = 0"
      "LPC l \<notin> {Leaving, Gone} \<Longrightarrow> LTrailer l = [] \<and> more_to_come (LLast l) r"
      "LTrailer l \<noteq> [] \<Longrightarrow> LTrailer l = writeWorkUnitsTrailerV2 r \<and> LSent l \<noteq> [] \<and> TerminalEvent r = Some (last (LSent l))"
    using l unfolding stream_ok_def by blast
  obtain r' where r': "loadJournalV2 d' (LWorkload l) = Inr r'" "journal_advances r r'"
    using adv r(1) unfolding directory_advances_def by blast
  have same: "r' = r" if "TerminalEvent r \<noteq> None" using r'(2) that by (simp add: journal_advances_def)
  have "TerminalEvent r' \<noteq> None" if "LPC l \<in> {Reloading, Replaying}" using r(2) [OF that] same by simp
  moreover have "r' = LRecord l" if "LPC l = Replaying" using r(2,3) that same by simp
  moreover have "LPC l \<in> {Opened, Attached} \<Longrightarrow> TerminalEvent (LRecord l) = None \<and> journal_advances (LRecord l) r'"
    using r(4) journal_advances_trans [OF _ r'(2)] by blast
  moreover have "LPC l \<notin> {Leaving, Gone} \<Longrightarrow> LTrailer l = [] \<and> more_to_come (LLast l) r'"
    using r(6) more_to_come_advances [OF _ r'(2)] by blast
  moreover have "LTrailer l \<noteq> [] \<Longrightarrow> LTrailer l = writeWorkUnitsTrailerV2 r' \<and> LSent l \<noteq> [] \<and> TerminalEvent r' = Some (last (LSent l))"
    using r(7) same by (metis option.distinct(1))
  moreover have "journal_ok m (LRecord l)" using l journal_ok_mono m unfolding stream_ok_def by blast
  moreover have "sorted_wrt (<) (map EventSequence (LSent l))" "\<forall>e\<in>set (LSent l). EventSequence e \<le> LLast l"
    using l unfolding stream_ok_def by blast+
  ultimately show ?thesis unfolding stream_ok_def using r(5) r'(1) by (intro conjI exI [of _ r']) simp_all
qed

lemma system_ok_mono: "system_ok n s \<Longrightarrow> n \<le> m \<Longrightarrow> system_ok m s"
  unfolding system_ok_def using journals_ok_mono sent_advances directory_refl by blast

text \<open>The directory moves on; a workload gets its terminal event only when its execution is at its end.\<close>

lemma disk_frame:
  assumes s: "system_ok n s" and d: "journals_ok m d" and adv: "directory_advances (Disk s) d" and m: "n \<le> m"
    and fin: "\<And>x. finished d x \<Longrightarrow> finished (Disk s) x \<or> ending s x"
  shows "system_ok m (s\<lparr>Disk := d\<rparr>)"
proof -
  let ?s = "s\<lparr>Disk := d\<rparr>"
  have told: "told ?s = told s" by (simp add: told_def ending_def fun_eq_iff)
  have "subscription_ok ?s l" if "subscription_ok s l" for l
  proof -
    have "told s (LWorkload l) i" if "LPC l \<in> {Attached, Waiting}" "LSubscription l = Some i" "finished d (LWorkload l)" for i
      using fin [OF that(3)] \<open>subscription_ok s l\<close> that(1,2) by (auto simp: subscription_ok_def told_def)
    then show ?thesis using that by (auto simp: subscription_ok_def told)
  qed
  moreover have "runs_ok ?s"
    unfolding runs_ok_def
  proof (intro conjI allI impI)
    fix sid sha pc assume r: "map_of (Runs ?s) sid = Some (sha, pc)"
    then have "\<exists>r. loadJournalV2 (Disk s) sid = Inr r \<and> RequestSHA256 r = sha"
      using s by (simp add: system_ok_def runs_ok_def)
    then show "\<exists>r. loadJournalV2 (Disk ?s) sid = Inr r \<and> RequestSHA256 r = sha"
      using adv by (fastforce simp: directory_advances_def journal_advances_def)
    assume pc: "pc = Executing \<or> pc = Announcing False"
    then have "\<not> ending s sid" "\<not> finished (Disk s) sid"
      using r s by (auto simp: ending_def system_ok_def runs_ok_def)
    then show "\<not> finished (Disk ?s) sid" using fin by auto
  qed (use s in \<open>simp_all add: system_ok_def runs_ok_def\<close>)
  moreover have "listeners_distinct ?s" using s by (simp add: system_ok_def listeners_distinct_def listens_def)
  ultimately show ?thesis using s d sent_advances [OF _ adv m] by (simp add: system_ok_def)
qed

lemma run_frame:
  assumes s: "system_ok n s" and r: "run_at s sid sha old"
    and pc: "pc = Executing \<or> pc = Announcing False \<Longrightarrow> old = Executing \<or> old = Announcing False"
      "old = Announcing True \<or> old = Finishing \<Longrightarrow> pc = Announcing True \<or> pc = Finishing"
  shows "system_ok n (set_run sid pc s)"
proof -
  let ?s = "set_run sid pc s"
  have m: "map_of (map (\<lambda>(x, sha, old). (x, sha, if x = sid then pc else old)) m) x =
      map_option (\<lambda>(sha, old). (sha, if x = sid then pc else old)) (map_of m x)" for x and m :: "(string \<times> string \<times> run_pc) list"
    by (induction m) auto
  have runs: "map_of (Runs ?s) x = map_option (\<lambda>(sha, old). (sha, if x = sid then pc else old)) (map_of (Runs s) x)" for x
    by (simp add: set_run_def m)
  have fst: "map fst (Runs ?s) = map fst (Runs s)" by (simp add: set_run_def case_prod_unfold comp_def)
  have rest: "Coordinator ?s = Coordinator s" "Disk ?s = Disk s" "Listeners ?s = Listeners s" "Panicked ?s = Panicked s"
    by (simp_all add: set_run_def)
  have old: "map_of (Runs s) sid = Some (sha, old)" using r by (simp add: run_at_def)
  have "ending s x \<Longrightarrow> ending ?s x" for x
    using pc(2) old by (cases "x = sid") (auto simp: ending_def runs)
  then have "subscription_ok s l \<Longrightarrow> subscription_ok ?s l" for l by (auto simp: subscription_ok_def told_def rest)
  moreover have "runs_ok ?s"
    using s pc(1) old unfolding system_ok_def runs_ok_def fst rest by (auto simp: runs map_option_case split: option.splits if_splits prod.splits)
  moreover have "listeners_distinct ?s" using s by (simp add: system_ok_def listeners_distinct_def listens_def rest)
  ultimately show ?thesis using s by (simp add: system_ok_def rest)
qed

end
