(* ===== verification/ABR_System_Steps.thy ===== *)
theory ABR_System_Steps
  imports ABR_System_Invariant
begin

section \<open>Every step of the ABR runner keeps the invariant\<close>

text \<open>
  One lemma per rule of \<open>job_step\<close>, from the frames of \<open>ABR_System_Invariant\<close> for the directory,
  an execution and, here, a listener and the coordinator.
\<close>

subsection \<open>Listeners\<close>

lemma listener_frame:
  assumes s: "system_ok n s" and l: "listens s k l"
    and ok: "subscription_ok s l'" "stream_ok n (Disk s) l'"
    and fresh: "LSubscription l' = LSubscription l \<or> (\<exists>i. LSubscription l' = Some i \<and> (\<forall>m\<in>set (Listeners s). LSubscription m \<noteq> Some i))"
  shows "system_ok n (set_listener k l' s)"
proof -
  let ?s = "set_listener k l' s"
  have k: "k < length (Listeners s)" "Listeners s ! k = l" using l by (simp_all add: listens_def)
  have ls: "listens ?s j m \<longleftrightarrow> (if j = k then m = l' else listens s j m)" for j m
    using k(1) by (auto simp: listens_def set_listener_def nth_list_update)
  have "listeners_distinct ?s"
    unfolding listeners_distinct_def
  proof (intro allI impI)
    fix i j a b x assume a: "listens ?s i a" "listens ?s j b" "LSubscription a = Some x" "LSubscription b = Some x"
    have old: "i = j" if "listens s i a'" "listens s j b'" "LSubscription a' = Some x" "LSubscription b' = Some x" for a' b'
      using s that unfolding system_ok_def listeners_distinct_def by blast
    have "m \<in> set (Listeners s)" if "listens s z m" for z m using that by (auto simp: listens_def)
    then show "i = j" using a fresh old l unfolding ls by (metis (full_types))
  qed
  moreover have same: "Coordinator ?s = Coordinator s" "Disk ?s = Disk s" "Runs ?s = Runs s" "Panicked ?s = Panicked s"
    by (simp_all add: set_listener_def)
  moreover have "subscription_ok ?s = subscription_ok s" by (simp add: subscription_ok_def told_def ending_def same fun_eq_iff)
  moreover have "runs_ok ?s = runs_ok s" by (simp add: runs_ok_def same)
  moreover have "m = l' \<or> m \<in> set (Listeners s)" if "m \<in> set (Listeners ?s)" for m
    using that set_update_subset_insert [of "Listeners s" k l'] by (auto simp: set_listener_def)
  ultimately show ?thesis using s ok unfolding system_ok_def by metis
qed

lemma listener_ok: "system_ok n s \<Longrightarrow> listens s k l \<Longrightarrow> subscription_ok s l \<and> stream_ok n (Disk s) l"
  by (auto simp: system_ok_def listens_def)

lemma add_listener:
  assumes s: "system_ok n s" and load: "loadJournalV2 (Disk s) sid = Inr r"
    and pc: "(pc = Opened \<and> TerminalEvent r = None) \<or> (pc = Replaying \<and> TerminalEvent r \<noteq> None)"
  shows "system_ok n (s\<lparr>Listeners := Listeners s @ [new_listener sid sha r pc]\<rparr>)"
proof -
  let ?l = "new_listener sid sha r pc"
  let ?s = "s\<lparr>Listeners := Listeners s @ [?l]\<rparr>"
  have d: "journals_ok n (Disk s)" using s by (simp add: system_ok_def)
  have r: "journal_ok n r" by (rule load_journal_ok [OF d load])
  then have more: "more_to_come 0 r"
    by (auto simp: more_to_come_def journal_ok_def terminal_ok_def word_less_nat_alt split: option.splits)
  have "stream_ok n (Disk s) ?l" using r load pc more by (auto simp: stream_ok_def new_listener_def)
  moreover have "subscription_ok s ?l" using pc by (auto simp: subscription_ok_def new_listener_def)
  moreover have "subscription_ok ?s = subscription_ok s" by (simp add: subscription_ok_def told_def ending_def fun_eq_iff)
  moreover have "runs_ok ?s = runs_ok s" by (simp add: runs_ok_def)
  moreover have "listeners_distinct ?s"
    using s by (auto simp: system_ok_def listeners_distinct_def listens_def nth_append new_listener_def less_Suc_eq)
  ultimately show ?thesis using s by (auto simp: system_ok_def)
qed

lemma sorted_snoc: "sorted_wrt R (map f (xs @ [t])) \<longleftrightarrow> sorted_wrt R (map f xs) \<and> (\<forall>x\<in>set xs. R (f x) (f t))"
  by (auto simp: sorted_wrt_append)

lemma sorted_last: "sorted_wrt (<) (map f xs) \<Longrightarrow> x \<in> set xs \<Longrightarrow> f x \<le> (f (last xs) :: 'a :: linorder)"
  by (induction xs rule: rev_induct) (auto simp: sorted_wrt_append)

text \<open>Writing the events of a journal sends what is new, in order.\<close>

lemma write_events_sent:
  assumes load: "loadJournalV2 d (LWorkload l) = Inr r" and d: "journals_ok n d" and l: "stream_ok n d l"
    and live: "LPC l \<notin> {Leaving, Gone}" and q: "journal_ok n q" "journal_advances q r" "more_to_come (LLast l) q"
    and pc: "pc \<in> {Waiting, Leaving}"
  shows "stream_ok n d (write_events q pc l)"
proof -
  let ?fresh = "filter (\<lambda>e. \<not> EventSequence e \<le> LLast l) (ProgressEvents q)"
  have ev: "events_ok q" "terminal_ok q" using q(1) by (simp_all add: journal_ok_def)
  obtain i where "map (\<lambda>e. unat (EventSequence e)) (ProgressEvents q) = [i..<progress_end q]" using ev(1) by (auto simp: events_ok_def)
  then have "sorted_wrt (<) (map (\<lambda>e. unat (EventSequence e)) (ProgressEvents q))" "\<forall>e\<in>set (ProgressEvents q). unat (EventSequence e) < progress_end q"
    by (simp, metis atLeastLessThan_iff image_eqI list.set_map set_upt)
  then have sorted: "sorted_wrt (<) (map EventSequence (ProgressEvents q))" "\<forall>e\<in>set (ProgressEvents q). unat (EventSequence e) < progress_end q"
    by (simp_all add: sorted_wrt_map word_less_nat_alt)
  have fresh: "sorted_wrt (<) (map EventSequence ?fresh)" using sorted(1) by (simp add: sorted_wrt_map sorted_wrt_filter)
  have old: "sorted_wrt (<) (map EventSequence (LSent l))" "\<forall>e\<in>set (LSent l). EventSequence e \<le> LLast l" "LTrailer l = []"
    using l live unfolding stream_ok_def by blast+
  have joint: "sorted_wrt (<) (map EventSequence (LSent l @ ?fresh))"
    using old fresh by (fastforce simp: sorted_wrt_append)
  define last_sequence where "last_sequence = (if ?fresh = [] then LLast l else EventSequence (last ?fresh))"
  have bound: "\<forall>e\<in>set (LSent l @ ?fresh). EventSequence e \<le> last_sequence"
  proof (cases "?fresh = []")
    case False
    have "EventSequence e \<le> EventSequence (last ?fresh)" if "e \<in> set ?fresh" for e
      by (rule sorted_last [OF fresh that])
    moreover have "LLast l \<le> EventSequence (last ?fresh)" using last_in_set [OF False] by auto
    ultimately show ?thesis using old(2) False unfolding last_sequence_def by fastforce
  qed (use old(2) in \<open>simp add: last_sequence_def\<close>)
  have below: "unat last_sequence < progress_end q" if "TerminalEvent q = None"
  proof (cases "?fresh = []")
    case True
    then show ?thesis using that q(3) by (simp add: last_sequence_def more_to_come_def progress_end_def word_less_nat_alt)
  next
    case False
    then show ?thesis using last_in_set [OF False] sorted(2) by (simp add: last_sequence_def)
  qed
  show ?thesis
  proof (cases "TerminalEvent q")
    case None
    have "more_to_come last_sequence q" using below None by (simp add: more_to_come_def progress_end_def word_less_nat_alt)
    then have more: "more_to_come last_sequence r" by (rule more_to_come_advances [OF _ q(2)])
    have "write_events q pc l = l\<lparr>LSent := LSent l @ ?fresh, LLast := last_sequence, LTrailer := [], LPC := pc\<rparr>"
      using None by (simp add: write_events_def writeJournalEventsV2_def Let_def last_sequence_def)
    then show ?thesis using load joint bound more pc l by (auto simp: stream_ok_def)
  next
    case (Some t)
    have same: "r = q" using q(2) Some by (simp add: journal_advances_def)
    have t: "LLast l < EventSequence t" using q(3) Some by (simp add: more_to_come_def)
    have "unat (EventSequence t) = progress_end q" using ev(2) Some by (simp add: terminal_ok_def progress_end_def)
    then have "\<forall>e\<in>set (LSent l @ ?fresh). EventSequence e < EventSequence t"
      using sorted(2) old(2) t by (auto simp: word_less_nat_alt word_le_nat_alt intro: order.strict_trans1)
    then have "sorted_wrt (<) (map EventSequence ((LSent l @ ?fresh) @ [t]))" "\<forall>e\<in>set ((LSent l @ ?fresh) @ [t]). EventSequence e \<le> EventSequence t"
      using joint sorted_snoc [of "(<)" EventSequence "LSent l @ ?fresh" t] by (blast, auto simp: less_imp_le)
    moreover have "write_events q pc l = l\<lparr>LSent := (LSent l @ ?fresh) @ [t], LLast := EventSequence t,
        LTrailer := writeWorkUnitsTrailerV2 q, LPC := Leaving\<rparr>"
      using Some t by (simp add: write_events_def writeJournalEventsV2_def Let_def)
    moreover have "journal_ok n (LRecord l)" using l by (simp add: stream_ok_def)
    ultimately show ?thesis using load same Some unfolding stream_ok_def by (simp del: map_append set_append)
  qed
qed

subsection \<open>The steps\<close>

lemma finished_load: "loadJournalV2 d sid = Inr r \<Longrightarrow> finished d sid = (TerminalEvent r \<noteq> None)"
  by (simp add: finished_def)

lemma open_finished:
  assumes "journals_ok n d" "1 \<le> n" "finished (snd (LoadOrCreate io d sid sha)) x" shows "finished d x"
proof -
  obtain r where r: "loadJournalV2 (snd (LoadOrCreate io d sid sha)) x = Inr r" "TerminalEvent r \<noteq> None"
    using assms(3) by (auto simp: finished_def)
  show ?thesis
  proof (cases "loadJournalV2 d x")
    case (Inr q)
    then show ?thesis using open_same [OF assms(1) Inr] r by (auto simp: finished_def)
  next
    case (Inl e)
    have "x = sid \<and> r = newJournalV2 sid sha"
      using r(1) Inl save_journal [of io d "newJournalV2 sid sha"] assms(1,2)
      by (auto simp: LoadOrCreate_def Let_def newJournalV2_def loadJournalV2_def split: sum.splits prod.splits option.splits if_splits)
    then show ?thesis using r(2) by (simp add: newJournalV2_def)
  qed
qed

lemma open_keeps_system:
  assumes s: "system_ok n s"
  shows "system_ok (Suc n) (s\<lparr>Disk := snd (LoadOrCreate io (Disk s) sid sha)\<rparr>)"
proof -
  have d: "journals_ok (Suc n) (Disk s)" using s journals_ok_mono by (auto simp: system_ok_def)
  show ?thesis using open_keeps [OF d, of io sid sha] open_finished [OF d, of io sid sha]
    by (intro disk_frame [OF s]) auto
qed

lemma open_listens:
  assumes s: "system_ok n s" and o: "LoadOrCreate io (Disk s) sid sha = (Inr (r, disposition), d)"
    and pc: "(pc = Opened \<and> disposition = ResumeExistingV2) \<or> (pc = Replaying \<and> disposition = ReplayTerminalV2)"
  shows "system_ok (Suc n) (s\<lparr>Disk := d, Listeners := Listeners s @ [new_listener sid sha r pc]\<rparr>)"
proof -
  have d: "journals_ok (Suc n) (Disk s)" using s journals_ok_mono by (auto simp: system_ok_def)
  have s': "system_ok (Suc n) (s\<lparr>Disk := d\<rparr>)" using open_keeps_system [OF s, of io sid sha] o by simp
  note l = open_loads [OF d _ o]
  have "terminal_ok r"
    using load_journal_ok [OF _ l(1), of "Suc n"] s' by (simp add: system_ok_def journal_ok_def)
  then have "(pc = Opened \<and> TerminalEvent r = None) \<or> (pc = Replaying \<and> TerminalEvent r \<noteq> None)"
    using pc l(2) terminal_ok_state [of r] by (auto simp: ClassifyWorkloadReplayV2_def split: if_splits)
  then show ?thesis using add_listener [OF s', of sid r pc sha] l(1) by simp
qed

end
