(* ===== verification/ABR_System_Runs.thy ===== *)
theory ABR_System_Runs
  imports ABR_System_Steps
begin

section \<open>Executions, subscriptions and the invariant of the ABR runner\<close>

text \<open>
  The steps of executions and of subscriptions, and \<open>step_keeps\<close>: every step of the ABR runner keeps
  the invariant, so it holds in every reachable state.
\<close>

subsection \<open>Executions\<close>

context journal_op
begin

lemma update_unfinished:
  assumes adm: admits and d: "journals_ok n d" and small: "Suc n < 2 ^ 64"
    and quiet: "\<And>r a r'. step r = Inr (a, r') \<Longrightarrow> TerminalEvent r' = TerminalEvent r"
    and fin: "finished (snd (update_journal io d sid step)) x"
  shows "finished d x"
proof (cases "x = sid")
  case False
  then show ?thesis using fin update_other [OF adm d small False] by (simp add: finished_def)
next
  case True
  show ?thesis
  proof (cases "loadJournalV2 d sid")
    case (Inl e)
    then show ?thesis using fin by (simp add: update_journal_def)
  next
    case (Inr r)
    from adm d small Inr show ?thesis
    proof (cases rule: update_cases [where io = io])
      case (2 a r')
      then show ?thesis using fin True Inr quiet [OF 2(1)] by (simp add: finished_def)
    qed (use fin in simp)
  qed
qed

end

lemma quiet_steps:
  "SavePrepared_step p r = Inr (u, r') \<Longrightarrow> TerminalEvent r' = TerminalEvent r"
  "SaveDelivered_step x r = Inr (u, r') \<Longrightarrow> TerminalEvent r' = TerminalEvent r"
  "SavePreparedManifest_step m r = Inr (u, r') \<Longrightarrow> TerminalEvent r' = TerminalEvent r"
  "SaveDeliveredManifest_step uri r = Inr (u, r') \<Longrightarrow> TerminalEvent r' = TerminalEvent r"
  "AppendProgress_step phase pr name frames r = Inr (e, r') \<Longrightarrow> TerminalEvent r' = TerminalEvent r"
  by (auto simp: SavePrepared_step_def SaveDelivered_step_def SavePreparedManifest_step_def SaveDeliveredManifest_step_def
      AppendProgress_step_def fails_def Let_def split: if_splits option.splits float64.splits)

lemma checkpoint_unfinished:
  assumes d: "journals_ok n d" and small: "Suc n < 2 ^ 64"
    and c: "checkpoint_call c sid \<or> (\<exists>phase x name frames. c = CallProgress sid phase x name frames)"
    and fin: "finished (run_call io c d) x"
  shows "finished d x"
proof -
  have q: "finished (snd (update_journal io d sid (SavePrepared_step p))) x \<Longrightarrow> finished d x"
    "finished (snd (update_journal io d sid (SaveDelivered_step y))) x \<Longrightarrow> finished d x"
    "finished (snd (update_journal io d sid (SavePreparedManifest_step m))) x \<Longrightarrow> finished d x"
    "finished (snd (update_journal io d sid (SaveDeliveredManifest_step uri))) x \<Longrightarrow> finished d x"
    "finished (snd (update_journal io d sid (AppendProgress_step phase pr name frames))) x \<Longrightarrow> finished d x" for p y m uri phase pr name frames
    by (erule prepared_op.update_unfinished [OF TrueI d small, rotated] delivered_op.update_unfinished [OF TrueI d small, rotated]
        manifest_op.update_unfinished [OF TrueI d small, rotated] manifest_out_op.update_unfinished [OF TrueI d small, rotated]
        progress_op.update_unfinished [OF TrueI d small, rotated], erule quiet_steps)+
  then show ?thesis
    using c fin by (auto simp: checkpoint_call_def SavePrepared_def SaveDelivered_def SavePreparedManifest_def SaveDeliveredManifest_def
        AppendProgress_def split: journal_call.splits)
qed

lemma checkpoint_keeps_system:
  assumes s: "system_ok n s" and small: "Suc n < 2 ^ 64"
    and c: "checkpoint_call c sid \<or> (\<exists>phase x name frames. c = CallProgress sid phase x name frames)"
  shows "system_ok (Suc n) (s\<lparr>Disk := run_call io c (Disk s)\<rparr>)"
proof -
  have d: "journals_ok n (Disk s)" using s by (simp add: system_ok_def)
  show ?thesis
    using run_call_keeps [OF d small, of io c] checkpoint_unfinished [OF d small c, of io] by (intro disk_frame [OF s]) auto
qed

lemma set_run_at: "run_at s sid sha old \<Longrightarrow> run_at (set_run sid pc s) sid sha pc"
proof -
  have "map_of m sid = Some (sha, old) \<Longrightarrow> map_of (map (\<lambda>(x, sha, old). (x, sha, if x = sid then pc else old)) m) sid = Some (sha, pc)"
    for m :: "(string \<times> string \<times> run_pc) list" by (induction m) (auto split: if_splits)
  then show "run_at s sid sha old \<Longrightarrow> run_at (set_run sid pc s) sid sha pc" by (simp add: run_at_def set_run_def)
qed

lemma set_run_disk: "set_run sid pc (s\<lparr>Disk := d\<rparr>) = (set_run sid pc s)\<lparr>Disk := d\<rparr>"
  by (simp add: set_run_def)

lemma record_unfinished:
  assumes d: "journals_ok n d" and small: "Suc n < 2 ^ 64" and x: "x \<noteq> sid"
  shows "loadJournalV2 (run_call io (CallResult sid v) d) x = loadJournalV2 d x"
    "loadJournalV2 (run_call io (CallFailure sid e) d) x = loadJournalV2 d x"
  using terminal_op.update_other [of "TerminalResult v" WorkloadSucceededV2, OF _ d small x]
    terminal_op.update_other [of "TerminalError e" WorkloadFailedV2, OF _ d small x]
  by (auto simp: RecordTerminalResult_def RecordTerminalError_def terminal_value_ok_def split: option.splits)

lemma record_keeps_system:
  assumes s: "system_ok n s" and small: "Suc n < 2 ^ 64" and r: "run_at s sid sha Executing"
    and rec: "recordOutcomeV2 io (Disk s) sid sha outcome = (res, d)"
  shows "system_ok (Suc n) (set_run sid (case res of Inr _ \<Rightarrow> Announcing True | Inl _ \<Rightarrow> Finishing) (s\<lparr>Disk := d\<rparr>))"
proof -
  let ?pc = "case res of Inr _ \<Rightarrow> Announcing True | Inl _ \<Rightarrow> Finishing"
  let ?s = "set_run sid ?pc s"
  have d: "journals_ok n (Disk s)" using s by (simp add: system_ok_def)
  have pc: "?pc = Announcing True \<or> ?pc = Finishing" by (simp split: sum.splits)
  have s': "system_ok n ?s" using pc by (intro run_frame [OF s r]) (auto split: sum.splits)
  have "\<exists>c. d = run_call io c (Disk s) \<and> ((\<exists>v. c = CallResult sid v) \<or> (\<exists>e. c = CallFailure sid e))"
  proof (cases outcome)
    case (Inl e)
    then show ?thesis using rec
      by (intro exI [of _ "CallFailure sid (terminalErrorV2 (Disk s) sid sha e)"]) (simp add: recordOutcomeV2_def)
  next
    case (Inr v)
    then show ?thesis using rec by (intro exI [of _ "CallResult sid v"]) (simp add: recordOutcomeV2_def)
  qed
  then obtain c where c: "d = run_call io c (Disk s)" "(\<exists>v. c = CallResult sid v) \<or> (\<exists>e. c = CallFailure sid e)" by blast
  have "ending ?s sid" using set_run_at [OF r] pc by (auto simp: ending_def run_at_def)
  then have "finished d x \<Longrightarrow> finished (Disk ?s) x \<or> ending ?s x" for x
    using c record_unfinished [OF d small, of x sid] by (cases "x = sid") (auto simp: finished_def set_run_def)
  moreover have "Disk ?s = Disk s" by (simp add: set_run_def)
  ultimately show ?thesis
    unfolding set_run_disk using run_call_keeps [OF d small, of io c] c(1) by (intro disk_frame [OF s']) auto
qed

subsection \<open>The coordinator\<close>

lemma subscription_transfer:
  assumes l: "subscription_ok s l" and d: "Disk s' = Disk s" and n: "NextSubscriber (Coordinator s) \<le> NextSubscriber (Coordinator s')"
    and con: "\<And>i. LSubscription l = Some i \<Longrightarrow> i \<le> NextSubscriber (Coordinator s) \<Longrightarrow>
        connected (Coordinator s) (LWorkload l) i \<Longrightarrow> connected (Coordinator s') (LWorkload l) i"
    and told: "\<And>i. LSubscription l = Some i \<Longrightarrow> i \<le> NextSubscriber (Coordinator s) \<Longrightarrow> LPC l \<in> {Attached, Waiting} \<Longrightarrow>
        connected (Coordinator s) (LWorkload l) i \<Longrightarrow> told s (LWorkload l) i \<Longrightarrow> told s' (LWorkload l) i"
  shows "subscription_ok s' l"
  using assms unfolding subscription_ok_def by (auto intro: order_trans)

lemma coordinator_frame:
  assumes s: "system_ok n s" and c: "coord_ok (Coordinator s')" and runs: "runs_ok s'"
    and same: "Disk s' = Disk s" "Listeners s' = Listeners s" "Panicked s' = Panicked s"
    and subs: "\<And>l. l \<in> set (Listeners s) \<Longrightarrow> subscription_ok s l \<Longrightarrow> subscription_ok s' l"
  shows "system_ok n s'"
proof -
  have "listeners_distinct s'" using s by (simp add: system_ok_def listeners_distinct_def listens_def same)
  then show ?thesis using s c runs subs by (simp add: system_ok_def same)
qed

lemma attach_listener:
  assumes s: "system_ok n s" and l: "listens s k l" "LPC l = Opened"
    and c: "coord_ok c" and runs: "runs_ok (s\<lparr>Coordinator := c, Runs := rs\<rparr>)" and fin: "\<not> finished (Disk s) (LWorkload l)"
    and i: "i = Suc (NextSubscriber (Coordinator s))" "NextSubscriber c = i"
    and att: "\<And>x j. attached c x j = (attached (Coordinator s) x j \<or> (x = LWorkload l \<and> j = i))"
    and ch: "\<And>j. Channels c j = (if j = i then \<lparr>Pending = False, Closed = False\<rparr> else Channels (Coordinator s) j)"
    and ending: "\<And>x. ending s x \<Longrightarrow> ending (s\<lparr>Coordinator := c, Runs := rs\<rparr>) x"
  shows "system_ok n (set_listener k (l\<lparr>LSubscription := Some i, LPC := Attached\<rparr>) (s\<lparr>Coordinator := c, Runs := rs\<rparr>))"
proof -
  let ?s = "s\<lparr>Coordinator := c, Runs := rs\<rparr>"
  let ?l = "l\<lparr>LSubscription := Some i, LPC := Attached\<rparr>"
  have subs: "subscription_ok ?s m" if "subscription_ok s m" for m
    by (rule subscription_transfer [OF that]) (use i ending in \<open>auto simp: connected_def told_def att ch\<close>)
  have s': "system_ok n ?s" by (rule coordinator_frame [OF s]) (use c runs subs in simp_all)
  have l': "listens ?s k l" using l(1) by (simp add: listens_def)
  have "subscription_ok ?s ?l" using fin i by (auto simp: subscription_ok_def connected_def att)
  moreover have "stream_ok n (Disk ?s) ?l"
  proof -
    have old: "stream_ok n (Disk s) l" using listener_ok [OF s l(1)] by simp
    then show ?thesis unfolding stream_ok_def using l(2) by auto
  qed
  moreover have "LSubscription m \<noteq> Some i" if "m \<in> set (Listeners s)" for m
    using s that i(1) by (auto simp: system_ok_def subscription_ok_def)
  ultimately show ?thesis by (intro listener_frame [OF s' l']) auto
qed

lemma loaded_unfinished:
  "system_ok n s \<Longrightarrow> loadJournalV2 (Disk s) sid = Inr r \<Longrightarrow> finished (Disk s) sid = (\<not> in_progress r)"
  using load_journal_ok [of n "Disk s" sid r] terminal_ok_state [of r] finished_load by (simp add: system_ok_def journal_ok_def)

lemma subscribe_starts_keeps:
  assumes s: "system_ok n s" and l: "listens s k l" "LPC l = Opened" and none: "map_of (Active (Coordinator s)) (LWorkload l) = None"
    and sub: "Subscribe (Disk s) acquire (LWorkload l) (LSHA256 l) (Coordinator s) = (Inr (Some i), c)"
  shows "system_ok n (set_listener k (l\<lparr>LSubscription := Some i, LPC := Attached\<rparr>)
      (s\<lparr>Coordinator := c, Runs := put (LWorkload l) (LSHA256 l, Executing) (Runs s)\<rparr>))"
proof -
  have co: "coord_ok (Coordinator s)" and ru: "runs_ok s" using s by (simp_all add: system_ok_def)
  note new = subscribe_new [OF co none sub]
  obtain r where r: "loadJournalV2 (Disk s) (LWorkload l) = Inr r" "RequestSHA256 r = LSHA256 l" "in_progress r" using new(1) by blast
  have fin: "\<not> finished (Disk s) (LWorkload l)" using loaded_unfinished [OF s r(1)] r(3) by simp
  have idle: "map_of (Runs s) (LWorkload l) = None"
  proof -
    have "exec_sha (Coordinator s) (LWorkload l) = map_option fst (map_of (Runs s) (LWorkload l))" using ru by (simp add: runs_ok_def)
    then show ?thesis using none by (simp add: exec_sha_def)
  qed
  let ?s = "s\<lparr>Coordinator := c, Runs := put (LWorkload l) (LSHA256 l, Executing) (Runs s)\<rparr>"
  have "runs_ok ?s" using ru r fin new(5) by (auto simp: runs_ok_def distinct_put)
  moreover have "ending s x \<Longrightarrow> ending ?s x" for x using idle by (cases "x = LWorkload l") (auto simp: ending_def)
  ultimately show ?thesis
    using new fin by (intro attach_listener [OF s l]) auto
qed

lemma subscribe_joins_keeps:
  assumes s: "system_ok n s" and l: "listens s k l" "LPC l = Opened" and some: "map_of (Active (Coordinator s)) (LWorkload l) \<noteq> None"
    and sub: "Subscribe (Disk s) acquire (LWorkload l) (LSHA256 l) (Coordinator s) = (Inr (Some i), c)"
  shows "system_ok n (set_listener k (l\<lparr>LSubscription := Some i, LPC := Attached\<rparr>) (s\<lparr>Coordinator := c\<rparr>))"
proof -
  have co: "coord_ok (Coordinator s)" and ru: "runs_ok s" using s by (simp_all add: system_ok_def)
  note old = subscribe_old [OF co some sub]
  obtain r where r: "loadJournalV2 (Disk s) (LWorkload l) = Inr r" "in_progress r" using old(1) by blast
  have fin: "\<not> finished (Disk s) (LWorkload l)" using loaded_unfinished [OF s r(1)] r(2) by simp
  let ?s = "s\<lparr>Coordinator := c, Runs := Runs s\<rparr>"
  have "runs_ok ?s" using ru old(5) by (simp add: runs_ok_def)
  moreover have "ending s x \<Longrightarrow> ending ?s x" for x by (simp add: ending_def)
  ultimately have "system_ok n (set_listener k (l\<lparr>LSubscription := Some i, LPC := Attached\<rparr>) ?s)"
    using old fin by (intro attach_listener [OF s l]) auto
  then show ?thesis by simp
qed

lemma unsubscribed_keeps:
  assumes s: "system_ok n s" and sub: "Subscribe (Disk s) acquire sid sha (Coordinator s) = (res, c)" and res: "\<And>i. res \<noteq> Inr (Some i)"
  shows "system_ok n (s\<lparr>Coordinator := c\<rparr>)"
proof -
  have co: "coord_ok (Coordinator s)" and ru: "runs_ok s" using s by (simp_all add: system_ok_def)
  note none = subscribe_none [OF co sub res]
  let ?s = "s\<lparr>Coordinator := c\<rparr>"
  have "runs_ok ?s" using ru none(3) by (simp add: runs_ok_def)
  moreover have "subscription_ok ?s m" if "subscription_ok s m" for m
    by (rule subscription_transfer [OF that]) (use none in \<open>auto simp: connected_def told_def ending_def\<close>)
  ultimately show ?thesis using none by (intro coordinator_frame [OF s]) auto
qed

lemma notify_keeps:
  assumes s: "system_ok n s" and no: "notifyV2 sid (Coordinator s) = Some c"
  shows "system_ok n (s\<lparr>Coordinator := c\<rparr>)"
proof -
  have co: "coord_ok (Coordinator s)" and ru: "runs_ok s" using s by (simp_all add: system_ok_def)
  note ne = notify_effect [OF co no]
  let ?s = "s\<lparr>Coordinator := c\<rparr>"
  have "runs_ok ?s" using ru ne(3) by (simp add: runs_ok_def)
  moreover have "subscription_ok ?s m" if "subscription_ok s m" for m
    by (rule subscription_transfer [OF that]) (use ne in \<open>auto simp: connected_def told_def ending_def\<close>)
  ultimately show ?thesis using ne by (intro coordinator_frame [OF s]) auto
qed

lemma notified:
  assumes s: "system_ok n s" and r: "run_at s sid sha pc" shows "notifyV2 sid (Coordinator s) \<noteq> None"
proof -
  have "exec_sha (Coordinator s) sid = map_option fst (map_of (Runs s) sid)" using s by (simp add: system_ok_def runs_ok_def)
  then show ?thesis using r by (auto simp: exec_sha_def run_at_def notifyV2_def)
qed

lemma announce_keeps:
  assumes s: "system_ok n s" and r: "run_at s sid sha (Announcing final)" and no: "notifyV2 sid (Coordinator s) = Some c"
  shows "system_ok n (set_run sid (if final then Finishing else Executing) (s\<lparr>Coordinator := c\<rparr>))"
proof -
  have "run_at (s\<lparr>Coordinator := c\<rparr>) sid sha (Announcing final)" using r by (simp add: run_at_def)
  then show ?thesis by (rule run_frame [OF notify_keeps [OF s no]]) (auto split: if_splits)
qed

lemma map_of_without: "map_of (filter (\<lambda>e. fst e \<noteq> x) m) y = (if y = x then None else map_of m y)"
  by (induction m) auto

lemma finish_keeps:
  assumes s: "system_ok n s" and r: "run_at s sid sha Finishing"
  shows "system_ok n (s\<lparr>Coordinator := finishV2 sid (Coordinator s), Runs := filter (\<lambda>e. fst e \<noteq> sid) (Runs s)\<rparr>)"
proof -
  have co: "coord_ok (Coordinator s)" and ru: "runs_ok s" using s by (simp_all add: system_ok_def)
  have "exec_sha (Coordinator s) sid = map_option fst (map_of (Runs s) sid)" using ru by (simp add: runs_ok_def)
  then obtain x where x: "map_of (Active (Coordinator s)) sid = Some x" using r by (auto simp: exec_sha_def run_at_def)
  note fi = finish_effect [OF co x]
  let ?s = "s\<lparr>Coordinator := finishV2 sid (Coordinator s), Runs := filter (\<lambda>e. fst e \<noteq> sid) (Runs s)\<rparr>"
  have "runs_ok ?s" using ru fi(3) by (auto simp: runs_ok_def map_of_without distinct_map_filter)
  moreover have "subscription_ok ?s m" if "subscription_ok s m" for m
    by (rule subscription_transfer [OF that]) (use fi in \<open>auto simp: connected_def told_def ending_def map_of_without\<close>)
  ultimately show ?thesis using fi(1) by (intro coordinator_frame [OF s]) auto
qed

subsection \<open>Listeners among themselves\<close>

lemma set_listener_at: "listens s k l \<Longrightarrow> listens (set_listener k m s) k m"
  by (simp add: listens_def set_listener_def)

lemma set_listener_coordinator: "set_listener k l (s\<lparr>Coordinator := c\<rparr>) = (set_listener k l s)\<lparr>Coordinator := c\<rparr>"
  by (simp add: set_listener_def)

lemma other_listener:
  assumes s: "system_ok n s" and l: "listens s k l" "LSubscription l = Some i" and m: "listens s j m" "LSubscription m = Some i"
  shows "j = k"
  using assms unfolding system_ok_def listeners_distinct_def by blast

text \<open>A step of a listener that leaves the others and their channels alone.\<close>

lemma local_keeps:
  assumes s: "system_ok n s" and l: "listens s k l" and same: "LSubscription l' = LSubscription l"
    and ok: "subscription_ok s l'" "stream_ok n (Disk s) l'"
  shows "system_ok n (set_listener k l' s)"
  using listener_frame [OF s l ok] same by simp

lemma leave_sent:
  assumes "stream_ok n d l" and "pc \<in> {Leaving, Gone} \<or> (LPC l = Waiting \<and> pc \<in> {Woken True, Woken False})"
  shows "stream_ok n d (l\<lparr>LPC := pc\<rparr>)"
proof -
  obtain r where r: "loadJournalV2 d (LWorkload l) = Inr r"
      "LPC l \<notin> {Leaving, Gone} \<Longrightarrow> LTrailer l = [] \<and> more_to_come (LLast l) r"
      "LTrailer l \<noteq> [] \<Longrightarrow> LTrailer l = writeWorkUnitsTrailerV2 r \<and> LSent l \<noteq> [] \<and> TerminalEvent r = Some (last (LSent l))"
    using assms(1) unfolding stream_ok_def by blast
  have "journal_ok n (LRecord l)" "sorted_wrt (<) (map EventSequence (LSent l))" "\<forall>e\<in>set (LSent l). EventSequence e \<le> LLast l"
    using assms(1) unfolding stream_ok_def by blast+
  then show ?thesis using assms(2) r unfolding stream_ok_def by (elim disjE) (auto intro!: exI [of _ r])
qed

lemma leave_keeps:
  assumes s: "system_ok n s" and l: "listens s k l" and pc: "pc \<in> {Leaving, Gone}"
  shows "system_ok n (set_listener k (l\<lparr>LPC := pc\<rparr>) s)"
proof (rule local_keeps [OF s l])
  show "subscription_ok s (l\<lparr>LPC := pc\<rparr>)" using listener_ok [OF s l] pc by (auto simp: subscription_ok_def)
  show "stream_ok n (Disk s) (l\<lparr>LPC := pc\<rparr>)" using leave_sent listener_ok [OF s l] pc by blast
qed simp

lemma wake_closed_keeps:
  assumes s: "system_ok n s" and l: "listens s k l" "LPC l = Waiting"
  shows "system_ok n (set_listener k (l\<lparr>LPC := Woken b\<rparr>) s)"
proof (rule local_keeps [OF s l(1)])
  show "subscription_ok s (l\<lparr>LPC := Woken b\<rparr>)" using listener_ok [OF s l(1)] l(2) by (cases b) (auto simp: subscription_ok_def)
  show "stream_ok n (Disk s) (l\<lparr>LPC := Woken b\<rparr>)" using leave_sent [of n "Disk s" l "Woken b"] listener_ok [OF s l(1)] l(2) by (cases b) auto
qed simp

text \<open>
  A change of the coordinator that spares every subscription but one: the listener of that one is first put
  out of the way.
\<close>

lemma own_channel_frame:
  assumes s: "system_ok n s" and l: "listens s k l" "LSubscription l = Some i" and pc: "LPC l \<notin> {Attached, Waiting}"
    and con: "LPC l \<notin> {Leaving, Gone} \<Longrightarrow> connected (Coordinator s) (LWorkload l) i \<Longrightarrow> connected c (LWorkload l) i"
    and c: "coord_ok c" "exec_sha c = exec_sha (Coordinator s)" "NextSubscriber c = NextSubscriber (Coordinator s)"
    and att: "\<And>x j. j \<noteq> i \<Longrightarrow> attached c x j = attached (Coordinator s) x j"
    and ch: "\<And>j. j \<noteq> i \<Longrightarrow> Channels c j = Channels (Coordinator s) j"
  shows "system_ok n (s\<lparr>Coordinator := c\<rparr>)"
proof (rule coordinator_frame [OF s])
  let ?s = "s\<lparr>Coordinator := c\<rparr>"
  show "runs_ok ?s" using s c(2) by (simp add: system_ok_def runs_ok_def)
  fix m assume m: "m \<in> set (Listeners s)" "subscription_ok s m"
  show "subscription_ok ?s m"
  proof (cases "m = l")
    case True
    then show ?thesis using m(2) l(2) pc con c(3) by (auto simp: subscription_ok_def)
  next
    case False
    obtain j where j: "listens s j m" using m(1) by (auto simp: in_set_conv_nth listens_def)
    have other: "a \<noteq> i" if "LSubscription m = Some a" for a
      using other_listener [OF s l j] that False j l(1) by (auto simp: listens_def)
    show ?thesis
      by (rule subscription_transfer [OF m(2)]) (use c(3) other att ch in \<open>auto simp: connected_def told_def ending_def\<close>)
  qed
qed (use c in simp_all)

lemma wake_notified_keeps:
  assumes s: "system_ok n s" and l: "listens s k l" "LPC l = Waiting" "LSubscription l = Some i"
  shows "system_ok n (set_listener k (l\<lparr>LPC := Woken True\<rparr>)
       (s\<lparr>Coordinator := (Coordinator s)\<lparr>Channels := (Channels (Coordinator s))(i := (Channels (Coordinator s) i)\<lparr>Pending := False\<rparr>)\<rparr>\<rparr>))"
proof -
  let ?l = "l\<lparr>LPC := Woken True\<rparr>"
  let ?s = "set_listener k ?l s"
  let ?c = "(Coordinator s)\<lparr>Channels := (Channels (Coordinator s))(i := (Channels (Coordinator s) i)\<lparr>Pending := False\<rparr>)\<rparr>"
  have s': "system_ok n ?s" by (rule wake_closed_keeps [OF s l(1,2)])
  have same: "Coordinator ?s = Coordinator s" by (simp add: set_listener_def)
  have att: "attached ?c = attached (Coordinator s)" by (simp add: attached_def fun_eq_iff)
  have ch: "Closed (Channels ?c j) = Closed (Channels (Coordinator s) j)" for j by simp
  have "coord_ok ?c" using s unfolding system_ok_def coord_ok_def att ch by simp
  then have "system_ok n (?s\<lparr>Coordinator := ?c\<rparr>)"
    by (intro own_channel_frame [OF s' set_listener_at [OF l(1)]])
      (use l(3) in \<open>auto simp: same att connected_def exec_sha_def fun_eq_iff\<close>)
  then show ?thesis by (simp only: set_listener_coordinator)
qed

lemma close_keeps:
  assumes s: "system_ok n s" and l: "listens s k l" "LPC l = Leaving"
  shows "system_ok n (set_listener k (l\<lparr>LPC := Gone\<rparr>)
       (s\<lparr>Coordinator := (case LSubscription l of None \<Rightarrow> Coordinator s | Some i \<Rightarrow> detach (LWorkload l) i (Coordinator s))\<rparr>))"
proof -
  let ?l = "l\<lparr>LPC := Gone\<rparr>"
  let ?s = "set_listener k ?l s"
  have s': "system_ok n ?s" by (rule leave_keeps [OF s l(1)]) simp
  have same: "Coordinator ?s = Coordinator s" by (simp add: set_listener_def)
  show ?thesis
  proof (cases "LSubscription l")
    case (Some i)
    have co: "coord_ok (Coordinator s)" using s by (simp add: system_ok_def)
    have "system_ok n (?s\<lparr>Coordinator := detach (LWorkload l) i (Coordinator s)\<rparr>)"
      by (rule own_channel_frame [OF s' set_listener_at [OF l(1)], of i]) (use Some detach_effect [OF co] in \<open>auto simp: same\<close>)
    then show ?thesis using Some by (simp add: set_listener_coordinator)
  qed (use s' in simp)
qed

subsection \<open>Every step\<close>

lemma write_keeps:
  assumes s: "system_ok n s" and l: "listens s k l" and live: "LPC l \<notin> {Leaving, Gone}" and load: "loadJournalV2 (Disk s) (LWorkload l) = Inr r"
    and q: "journal_ok n q" "journal_advances q r" "more_to_come (LLast l) q" and pc: "pc \<in> {Waiting, Leaving}"
    and wait: "pc = Waiting \<Longrightarrow> (\<exists>i. LSubscription l = Some i \<and> connected (Coordinator s) (LWorkload l) i \<and>
        (finished (Disk s) (LWorkload l) \<longrightarrow> TerminalEvent q = None \<longrightarrow> told s (LWorkload l) i))"
  shows "system_ok n (set_listener k (write_events q pc l) s)"
proof (rule local_keeps [OF s l])
  have j: "journals_ok n (Disk s)" using s by (simp add: system_ok_def)
  note old = listener_ok [OF s l]
  show "stream_ok n (Disk s) (write_events q pc l)" by (rule write_events_sent [OF load j _ live q pc]) (use old in simp)
  have w: "LPC (write_events q pc l) = (if TerminalEvent q \<noteq> None then Leaving else pc)"
      "LSubscription (write_events q pc l) = LSubscription l" "LWorkload (write_events q pc l) = LWorkload l"
    by (simp_all add: write_events_def writeJournalEventsV2_def Let_def split: option.splits)
  show "LSubscription (write_events q pc l) = LSubscription l" by (rule w(2))
  have "\<forall>i. LSubscription l = Some i \<longrightarrow> i \<le> NextSubscriber (Coordinator s)" using old by (simp add: subscription_ok_def)
  then show "subscription_ok s (write_events q pc l)"
    using pc wait unfolding subscription_ok_def w by (auto split: if_splits)
qed

lemma sent_loads:
  assumes "stream_ok n d l"
  obtains r where "loadJournalV2 d (LWorkload l) = Inr r" "LPC l \<in> {Reloading, Replaying} \<Longrightarrow> TerminalEvent r \<noteq> None"
    "LPC l = Replaying \<Longrightarrow> r = LRecord l" "LPC l \<in> {Opened, Attached} \<Longrightarrow> TerminalEvent (LRecord l) = None \<and> journal_advances (LRecord l) r"
    "LPC l \<in> {Opened, Reloading, Replaying, Attached} \<Longrightarrow> LSent l = [] \<and> LLast l = 0"
    "LPC l \<notin> {Leaving, Gone} \<Longrightarrow> LTrailer l = [] \<and> more_to_come (LLast l) r"
  using assms unfolding stream_ok_def by blast

lemma more_to_come_0: "journal_ok n r \<Longrightarrow> more_to_come 0 r"
  by (auto simp: more_to_come_def journal_ok_def terminal_ok_def word_less_nat_alt split: option.splits)

lemma terminal_subscriber:
  assumes s: "system_ok n s" and l: "listens s k l" "LPC l = Opened" and load: "loadJournalV2 (Disk s) (LWorkload l) = Inr r" "\<not> in_progress r"
  shows "system_ok n (set_listener k (l\<lparr>LPC := Reloading\<rparr>) s)"
proof (rule local_keeps [OF s l(1)])
  note old = listener_ok [OF s l(1)]
  have t: "TerminalEvent r \<noteq> None" using loaded_unfinished [OF s load(1)] load finished_load [OF load(1)] by simp
  show "subscription_ok s (l\<lparr>LPC := Reloading\<rparr>)" using old l(2) by (simp add: subscription_ok_def)
  show "stream_ok n (Disk s) (l\<lparr>LPC := Reloading\<rparr>)" using old l(2) load t unfolding stream_ok_def by auto
qed simp

lemma reload_keeps:
  assumes s: "system_ok n s" and l: "listens s k l" "LPC l = Reloading" and load: "loadJournalV2 (Disk s) (LWorkload l) = Inr r"
  shows "system_ok n (set_listener k (l\<lparr>LRecord := r, LPC := Replaying\<rparr>) s)"
proof (rule local_keeps [OF s l(1)])
  note old = listener_ok [OF s l(1)]
  have "journal_ok n r" using load_journal_ok [OF _ load] s by (simp add: system_ok_def)
  then show "stream_ok n (Disk s) (l\<lparr>LRecord := r, LPC := Replaying\<rparr>)" using old l(2) load unfolding stream_ok_def by auto
  show "subscription_ok s (l\<lparr>LRecord := r, LPC := Replaying\<rparr>)" using old l(2) by (simp add: subscription_ok_def)
qed simp

lemma write_replay_keeps:
  assumes s: "system_ok n s" and l: "listens s k l" "LPC l = Replaying"
  shows "system_ok n (set_listener k (write_events (LRecord l) Leaving l) s)"
proof -
  have old: "stream_ok n (Disk s) l" using listener_ok [OF s l(1)] by simp
  obtain r where r: "loadJournalV2 (Disk s) (LWorkload l) = Inr r" "r = LRecord l" "more_to_come (LLast l) r"
    by (rule sent_loads [OF old]) (use l(2) in auto)
  have "journal_ok n r" using old r(2) unfolding stream_ok_def by simp
  then show ?thesis using write_keeps [OF s l(1) _ r(1), of r Leaving] l(2) r(2,3) by simp
qed

lemma write_first_keeps:
  assumes s: "system_ok n s" and l: "listens s k l" "LPC l = Attached"
  shows "system_ok n (set_listener k (write_events (LRecord l) Waiting l) s)"
proof -
  note old = listener_ok [OF s l(1)]
  obtain r where r: "loadJournalV2 (Disk s) (LWorkload l) = Inr r" "journal_advances (LRecord l) r" "LLast l = 0"
    using old l(2) by (auto elim!: sent_loads)
  have q: "journal_ok n (LRecord l)" using old unfolding stream_ok_def by simp
  have "more_to_come (LLast l) (LRecord l)" using more_to_come_0 [OF q] r(3) by simp
  moreover have "\<exists>i. LSubscription l = Some i \<and> connected (Coordinator s) (LWorkload l) i \<and>
      (finished (Disk s) (LWorkload l) \<longrightarrow> told s (LWorkload l) i)"
    using old l(2) by (auto simp: subscription_ok_def)
  ultimately show ?thesis using write_keeps [OF s l(1) _ r(1) q r(2), of Waiting] l(2) by auto
qed

lemma write_more_keeps:
  assumes s: "system_ok n s" and l: "listens s k l" "LPC l = Woken b" and load: "loadJournalV2 (Disk s) (LWorkload l) = Inr r"
  shows "system_ok n (set_listener k (write_events r (if b then Waiting else Leaving) l) s)"
proof -
  note old = listener_ok [OF s l(1)]
  have r: "journal_ok n r" using load_journal_ok [OF _ load] s by (simp add: system_ok_def)
  have more: "more_to_come (LLast l) r" using old l(2) load by (auto elim!: sent_loads)
  have "\<exists>i. LSubscription l = Some i \<and> connected (Coordinator s) (LWorkload l) i"
    using old l(2) by (cases b) (auto simp: subscription_ok_def)
  then show ?thesis
    using write_keeps [OF s l(1) _ load r journal_advances_refl more, of "if b then Waiting else Leaving"] l(2) finished_load [OF load] by auto
qed

theorem step_keeps:
  assumes st: "job_step s s'" and s: "system_ok n s" and small: "Suc n < 2 ^ 64"
  shows "system_ok (Suc n) s'"
proof -
  have later: "system_ok n t \<Longrightarrow> system_ok (Suc n) t" for t using system_ok_mono by simp
  from st show ?thesis
  proof cases
    case (open_resume io sid sha r d)
    then show ?thesis using open_listens [OF s] by simp
  next
    case (open_replay io sid sha r d)
    then show ?thesis using open_listens [OF s] by simp
  next
    case (open_refused io sid sha res d)
    then show ?thesis using open_keeps_system [OF s, of io sid sha] by simp
  next
    case (subscribe_starts k l acquire i c)
    then show ?thesis using later subscribe_starts_keeps [OF s] by blast
  next
    case (subscribe_joins k l acquire i c)
    then show ?thesis using later subscribe_joins_keeps [OF s] by blast
  next
    case (subscribe_terminal k l acquire c)
    have s1: "system_ok n (s\<lparr>Coordinator := c\<rparr>)" by (rule unsubscribed_keeps [OF s subscribe_terminal(4)]) simp
    obtain r where "loadJournalV2 (Disk s) (LWorkload l) = Inr r" "\<not> in_progress r"
      using subscribe_terminal_state [OF subscribe_terminal(4)] by blast
    then show ?thesis using later terminal_subscriber [OF s1, of k l r] subscribe_terminal by (simp add: listens_def)
  next
    case (subscribe_refused k l acquire e c)
    have s1: "system_ok n (s\<lparr>Coordinator := c\<rparr>)" by (rule unsubscribed_keeps [OF s subscribe_refused(4)]) simp
    then show ?thesis using later leave_keeps [OF s1, of k l Gone] subscribe_refused by (simp add: listens_def)
  next
    case (reload_terminal k l r)
    then show ?thesis using later reload_keeps [OF s] by simp
  next
    case (write_replay k l)
    then show ?thesis using later write_replay_keeps [OF s] by simp
  next
    case (write_first k l)
    then show ?thesis using later write_first_keeps [OF s] by simp
  next
    case (wake_notified k l i)
    then show ?thesis using later wake_notified_keeps [OF s] by simp
  next
    case (wake_closed k l i)
    then show ?thesis using later wake_closed_keeps [OF s] by simp
  next
    case (write_more k l b r)
    then show ?thesis using later write_more_keeps [OF s, of k l b r] by (simp del: if_split)
  next
    case (leave k l)
    then show ?thesis using later leave_keeps [OF s, of k l Leaving] by simp
  next
    case (close_subscription k l)
    then show ?thesis using later close_keeps [OF s] by blast
  next
    case (report_progress sid sha io phase x rendition frames res d)
    let ?s = "s\<lparr>Disk := d\<rparr>"
    have s1: "system_ok (Suc n) ?s"
      using checkpoint_keeps_system [OF s small, of "CallProgress sid phase x rendition frames" sid io] report_progress by simp
    have "run_at ?s sid sha Executing" using report_progress by (simp add: run_at_def)
    then have "system_ok (Suc n) (set_run sid pc ?s)" if "pc = Announcing False \<or> pc = Executing" for pc
      by (rule run_frame [OF s1]) (use that in auto)
    then show ?thesis using report_progress by (cases res) auto
  next
    case (checkpoint sid sha c io)
    then show ?thesis using checkpoint_keeps_system [OF s small] by blast
  next
    case (announce sid sha final c)
    then show ?thesis using later announce_keeps [OF s] by blast
  next
    case (announce_panics sid sha final)
    then show ?thesis using notified [OF s] by blast
  next
    case (return_cancelled sid sha x)
    have "system_ok n (set_run sid Finishing s)" by (rule run_frame [OF s return_cancelled(2)]) simp_all
    then show ?thesis using later return_cancelled(1) by simp
  next
    case (return_recorded sid sha x io outcome res d)
    then show ?thesis using record_keeps_system [OF s small] by blast
  next
    case (finish sid sha)
    then show ?thesis using later finish_keeps [OF s] by blast
  qed
qed

lemma subscribe_limit: "Subscribe d acquire sid sha c = (res, c') \<Longrightarrow> Limit c' = Limit c"
  by (auto simp: Subscribe_def startExecutionV2_def joinExecutionV2_def Let_def split: sum.splits if_splits option.splits prod.splits)

lemma coordinator_limits:
  "notifyV2 sid c = Some c' \<Longrightarrow> Limit c' = Limit c" "Limit (detach sid i c) = Limit c" "Limit (finishV2 sid c) = Limit c"
  by (auto simp: notifyV2_def detach_def finishV2_def Let_def split: option.splits)

lemma limit_kept: "job_step s s' \<Longrightarrow> Limit (Coordinator s') = Limit (Coordinator s)"
  by (induction rule: job_step.induct)
    (auto simp: set_listener_def set_run_def coordinator_limits subscribe_limit split: option.splits)

lemma reach_ok: "job_reach limit n s \<Longrightarrow> n < 2 ^ 64 \<Longrightarrow> system_ok n s \<and> Limit (Coordinator s) = limit"
proof (induction rule: job_reach.induct)
  case (start limit c)
  then show ?case
    by (auto simp: NewABRExecutionCoordinatorV2_def fails_def start_system_def system_ok_def coord_ok_def runs_ok_def exec_sha_def attached_def
        listeners_distinct_def listens_def split: if_splits)
next
  case (step limit n s s')
  have "Limit (Coordinator s') = Limit (Coordinator s)" by (rule limit_kept [OF step(2)])
  then show ?case using step step_keeps [of s s' n] by simp
qed

end
