(* ===== verification/ABR_Properties.thy ===== *)
theory ABR_Properties
  imports ABR_System_Runs "HOL-Library.Multiset"
begin

section \<open>What a client of the ABR runner may rely on\<close>

text \<open>
  The properties of the whole runner, in every state that its goroutines can reach in fewer than 2^64
  steps: one execution per workload and never more than the limit, streams in order, a trailer that claims
  what was delivered, and no client that waits for an end that never comes.
\<close>

subsection \<open>The claim of the terminal event\<close>

lemma total_pixels_by_name:
  assumes d: "distinct (map fst m)" and names: "mset (map f rs) = mset (map fst m)"
    and same: "\<And>r. r \<in> set rs \<Longrightarrow> \<exists>x. map_of m (f r) = Some x \<and> ResultVideo x = ResultVideo r"
  shows "total_pixels rs = total_pixels (map snd m)"
proof -
  let ?g = "\<lambda>name. video_pixels (ResultVideo (the (map_of m name)))"
  have "total_pixels rs = sum_list (map (?g \<circ> f) rs)"
    unfolding total_pixels_def by (intro arg_cong [of _ _ sum_list] map_cong) (use same in force)+
  also have "\<dots> = sum_mset (image_mset ?g (mset (map f rs)))" by (simp add: sum_mset_sum_list [symmetric] multiset.map_comp comp_def)
  also have "\<dots> = sum_list (map (?g \<circ> fst) m)" unfolding names by (simp add: sum_mset_sum_list [symmetric] multiset.map_comp comp_def)
  also have "\<dots> = total_pixels (map snd m)"
    unfolding total_pixels_def map_map by (intro arg_cong [of _ _ sum_list] map_cong) (use d in auto)
  finally show ?thesis .
qed

lemma result_names_distinct: "resultRenditionsV2 seen rs = None \<Longrightarrow> distinct (map ResultName rs) \<and> (\<forall>r\<in>set rs. ResultName r \<notin> set seen \<and> video_ok (ResultVideo r))"
  by (induction seen rs rule: resultRenditionsV2.induct) (auto split: if_splits)

lemma result_claims_delivered:
  assumes ok: "delivered_ok r" and valid: "ValidateABRTerminalResultV2 v = None" and claim: "terminalClaimV2 (TerminalResult v) r = None"
  shows "deliveredUnitsV2 r = Inr (Units (ResUsage v))"
proof -
  let ?m = "Delivered r" and ?rs = "ResRenditions v"
  have d: "distinct (map fst ?m)" using ok by (simp add: delivered_ok_def)
  have dn: "distinct (map ResultName ?rs)" "\<forall>x\<in>set ?rs. video_ok (ResultVideo x)"
    using valid result_names_distinct [of "[]" ?rs] by (auto simp: ValidateABRTerminalResultV2_def split: if_splits)
  have units: "CalculateFrameMegapixelUnitsV2 ?rs = Inr (Units (ResUsage v))"
    using valid by (auto simp: ValidateABRTerminalResultV2_def split: if_splits sum.splits)
  have len: "length ?rs = length ?m" and same: "\<And>x. x \<in> set ?rs \<Longrightarrow> \<exists>c. map_of ?m (ResultName x) = Some c \<and> renditionResultsEqualV2 c x"
    using claim by (auto simp: terminalClaimV2_def list_all_iff split: if_splits option.splits)
  have video: "\<exists>c. map_of ?m (ResultName x) = Some c \<and> ResultVideo c = ResultVideo x" if "x \<in> set ?rs" for x
    using same [OF that] by (auto simp: renditionResultsEqualV2_def preparedMatchesResultV2_def)
  have sub: "set (map ResultName ?rs) \<subseteq> set (map fst ?m)" using same by (force dest: map_of_SomeD)
  have "card (set (map ResultName ?rs)) = card (set (map fst ?m))"
    unfolding distinct_card [OF d] distinct_card [OF dn(1)] length_map by (rule len)
  then have eq: "set (map ResultName ?rs) = set (map fst ?m)" using sub by (intro card_subset_eq) simp_all
  then have names: "mset (map ResultName ?rs) = mset (map fst ?m)" using d dn(1) set_eq_iff_mset_eq_distinct by blast
  have tot: "total_pixels ?rs = total_pixels (map snd ?m)" by (rule total_pixels_by_name [OF d names video])
  have "video_ok (ResultVideo c)" if "(name, c) \<in> set ?m" for name c
  proof -
    have "name \<in> set (map ResultName ?rs)" using that eq by force
    then obtain x where x: "x \<in> set ?rs" "ResultName x = name" by auto
    have "map_of ?m name = Some c" using that d by simp
    then have "ResultVideo c = ResultVideo x" using video [OF x(1)] x(2) by simp
    then show ?thesis using dn(2) x(1) by simp
  qed
  then have "\<forall>c\<in>set (map snd ?m). video_ok (ResultVideo c)" by auto
  then show ?thesis
    using units dn(2) tot row_fits_pixels total_pixels_member
    unfolding deliveredUnitsV2_def units_iff by (metis order.strict_trans1)
qed

lemma dec_u64_fmt: "dec_u64 (JNum (fmt_u64 u)) acc = Some u"
  by (simp add: dec_u64_def parse_uint_fmt_u64)

lemma usage_keys:
  "fold_key ''unit'' \<noteq> fold_key ''units''" "fold_key ''schema'' \<noteq> fold_key ''usage''" "fold_key ''workload_id'' \<noteq> fold_key ''usage''"
  "fold_key ''request_sha256'' \<noteq> fold_key ''usage''" "fold_key ''outcome'' \<noteq> fold_key ''usage''" "fold_key ''manifest_uri'' \<noteq> fold_key ''usage''"
  "fold_key ''renditions'' \<noteq> fold_key ''usage''" "fold_key ''error'' \<noteq> fold_key ''usage''"
  by code_simp+

lemma dec_usage_json: "dec_usage (json_usage u) acc = Some (Units u)"
  by (simp add: dec_usage_def json_usage_def dec_u64_fmt usage_keys del: fold_key.simps)

lemma terminal_units:
  assumes ok: "journal_ok n r" and t: "TerminalEvent r = Some t"
  obtains u where "deliveredUnitsV2 r = Inr u" "terminalWorkUnitsV2 r = Inr u"
proof -
  obtain v where v: "t = storedTerminalV2 (EventSequence t) v" "terminal_value_ok v (JournalState r)" "terminalClaimV2 v r = None"
    using ok t by (auto simp: journal_ok_def terminal_ok_def)
  have del: "delivered_ok r" using ok by (simp add: journal_ok_def)
  show ?thesis
  proof (cases v)
    case (TerminalResult w)
    have "EventName t = ''result''" "EventData t = json_result w" by (subst v(1), simp add: TerminalResult storedTerminalV2_def)+
    then have "terminalWorkUnitsV2 r = Inr (Units (ResUsage w))"
      using t by (simp add: terminalWorkUnitsV2_def json_result_def dec_usage_json usage_keys del: fold_key.simps)
    moreover have "deliveredUnitsV2 r = Inr (Units (ResUsage w))"
      using result_claims_delivered [OF del] v(2,3) TerminalResult by (simp add: terminal_value_ok_def)
    ultimately show ?thesis using that by blast
  next
    case (TerminalError w)
    have "EventName t = ''error''" "EventData t = json_terminal_error w" by (subst v(1), simp add: TerminalError storedTerminalV2_def)+
    then have "terminalWorkUnitsV2 r = Inr (Units (ErrUsage w))"
      using t by (simp add: terminalWorkUnitsV2_def json_terminal_error_def dec_usage_json usage_keys del: fold_key.simps)
    moreover have "deliveredUnitsV2 r = Inr (Units (ErrUsage w))"
      using v(3) TerminalError by (auto simp: terminalClaimV2_def split: if_splits sum.splits)
    ultimately show ?thesis using that by blast
  qed
qed

subsection \<open>The properties\<close>

lemma runs_keys: "runs_ok s \<Longrightarrow> fst ` set (Runs s) = fst ` set (Active (Coordinator s))"
proof -
  assume r: "runs_ok s"
  have "map_of (Active (Coordinator s)) x \<noteq> None \<longleftrightarrow> map_of (Runs s) x \<noteq> None" for x
  proof -
    have "exec_sha (Coordinator s) x = map_option fst (map_of (Runs s) x)" using r by (simp add: runs_ok_def)
    then show ?thesis by (cases "map_of (Runs s) x") (auto simp: exec_sha_def)
  qed
  then show ?thesis by (auto simp: map_of_eq_None_iff)
qed

text \<open>
  (C28) One execution per workload: in every state of the runner that is reached in fewer than 2^64 steps, the
  registered executions are for different workloads, each has its one goroutine and nothing else runs, there
  are at most as many as the limit, the count and the GPU leases agree with them, and no goroutine panicked.
\<close>

theorem one_execution_per_workload:
  assumes "job_reach limit n s" and "n < 2 ^ 64"
  shows "\<not> Panicked s \<and> distinct (map fst (Active (Coordinator s))) \<and> distinct (map fst (Runs s)) \<and>
    fst ` set (Runs s) = fst ` set (Active (Coordinator s)) \<and> length (Active (Coordinator s)) \<le> limit \<and>
    ActiveCount (Coordinator s) = int (length (Active (Coordinator s))) \<and> Leases (Coordinator s) = length (Active (Coordinator s))"
proof -
  have ok: "system_ok n s" "Limit (Coordinator s) = limit" using reach_ok [OF assms] by simp_all
  then have "runs_ok s" "coord_ok (Coordinator s)" "\<not> Panicked s" by (simp_all add: system_ok_def)
  then show ?thesis using runs_keys ok(2) by (auto simp: coord_ok_def runs_ok_def)
qed

lemma trailer_units:
  assumes d: "journals_ok n d" and l: "stream_ok n d l" and t: "LTrailer l \<noteq> []"
  obtains r t u where "loadJournalV2 d (LWorkload l) = Inr r" "TerminalEvent r = Some t" "LSent l \<noteq> []" "last (LSent l) = t"
    "deliveredUnitsV2 r = Inr u" "LTrailer l = [(ABRWorkUnitsTrailerV2, fmt_u64 u)]"
proof -
  obtain r where r: "loadJournalV2 d (LWorkload l) = Inr r" "LTrailer l = writeWorkUnitsTrailerV2 r" "LSent l \<noteq> []"
      "TerminalEvent r = Some (last (LSent l))"
    using l t unfolding stream_ok_def by blast
  have "journal_ok n r" by (rule load_journal_ok [OF d r(1)])
  then obtain u where u: "deliveredUnitsV2 r = Inr u" "terminalWorkUnitsV2 r = Inr u" using r(4) by (rule terminal_units)
  have "LTrailer l = [(ABRWorkUnitsTrailerV2, fmt_u64 u)]" using r(2) u(2) by (simp add: writeWorkUnitsTrailerV2_def)
  then show ?thesis using that r(1,3,4) u(1) by blast
qed

text \<open>
  (C29) A client is billed for what was delivered: every stream sends its events in strictly increasing order, and
  a stream that ends with a trailer has sent the terminal event of its workload last, and the work units in the
  trailer are the units of exactly the renditions that the journal holds as delivered.
\<close>

theorem trailer_bills_delivered:
  assumes "job_reach limit n s" and "n < 2 ^ 64" and "l \<in> set (Listeners s)"
  shows "sorted_wrt (<) (map EventSequence (LSent l)) \<and>
    (LTrailer l \<noteq> [] \<longrightarrow> (\<exists>r t u. LoadWorkload (Disk s) (LWorkload l) = Inr r \<and> TerminalEvent r = Some t \<and> last (LSent l) = t \<and>
       CalculateFrameMegapixelUnitsV2 (map snd (Delivered r)) = Inr u \<and> LTrailer l = [(ABRWorkUnitsTrailerV2, fmt_u64 u)]))"
proof -
  have ok: "journals_ok n (Disk s)" "stream_ok n (Disk s) l"
    using reach_ok [OF assms(1,2)] assms(3) by (simp_all add: system_ok_def)
  have "sorted_wrt (<) (map EventSequence (LSent l))" using ok(2) unfolding stream_ok_def by blast
  moreover have "\<exists>r t u. LoadWorkload (Disk s) (LWorkload l) = Inr r \<and> TerminalEvent r = Some t \<and> last (LSent l) = t \<and>
       CalculateFrameMegapixelUnitsV2 (map snd (Delivered r)) = Inr u \<and> LTrailer l = [(ABRWorkUnitsTrailerV2, fmt_u64 u)]" if "LTrailer l \<noteq> []"
    by (rule trailer_units [OF ok that]) (simp add: deliveredUnitsV2_def)
  ultimately show ?thesis by blast
qed

subsection \<open>Nobody misses the end\<close>

text \<open>A listener that can be woken writes the end of a finished workload.\<close>

lemma woken_writes_end:
  assumes s: "system_ok n s" "Suc (Suc n) < 2 ^ 64" and l: "listens s k l" "LPC l = Waiting" "LSubscription l = Some i"
    and up: "Pending (Channels (Coordinator s) i) \<or> Closed (Channels (Coordinator s) i)" and fin: "finished (Disk s) (LWorkload l)"
  shows "\<exists>s1 s2 l'. job_step s s1 \<and> job_step s1 s2 \<and> listens s2 k l' \<and> LWorkload l' = LWorkload l \<and> LPC l' = Leaving \<and> LTrailer l' \<noteq> []"
proof -
  obtain b s1 where s1: "job_step s s1" "listens s1 k (l\<lparr>LPC := Woken b\<rparr>)" "Disk s1 = Disk s"
  proof (cases "Pending (Channels (Coordinator s) i)")
    case True
    from that [OF job_step.wake_notified [OF l True]] show ?thesis
      using set_listener_at l(1) by (simp add: set_listener_def listens_def)
  next
    case False
    then have "Closed (Channels (Coordinator s) i)" using up by simp
    from that [OF job_step.wake_closed [OF l False this]] show ?thesis
      using l(1) by (simp add: set_listener_def listens_def)
  qed
  obtain r t where r: "loadJournalV2 (Disk s) (LWorkload l) = Inr r" "TerminalEvent r = Some t" using fin by (auto simp: finished_def)
  let ?m = "l\<lparr>LPC := Woken b\<rparr>"
  let ?l = "write_events r (if b then Waiting else Leaving) ?m"
  have s2: "job_step s1 (set_listener k ?l s1)" by (rule job_step.write_more [OF s1(2)]) (use r s1(3) in simp_all)
  have "journal_ok n r" using load_journal_ok [OF _ r(1)] s(1) by (simp add: system_ok_def)
  then obtain u where u: "terminalWorkUnitsV2 r = Inr u" using r(2) by (rule terminal_units)
  have "LPC ?l = Leaving" "LTrailer ?l \<noteq> []" "LWorkload ?l = LWorkload l"
    using r(2) u by (simp_all add: write_events_def writeJournalEventsV2_def writeWorkUnitsTrailerV2_def Let_def)
  then show ?thesis using s1(1) s2 set_listener_at [OF s1(2)] by blast
qed

text \<open>An execution at its end tells its listeners with its next step.\<close>

lemma ending_tells:
  assumes s: "system_ok n s" and e: "ending s sid" and con: "connected (Coordinator s) sid i"
  shows "\<exists>s1. job_step s s1 \<and> Listeners s1 = Listeners s \<and> Disk s1 = Disk s \<and>
    (Pending (Channels (Coordinator s1) i) \<or> Closed (Channels (Coordinator s1) i))"
proof -
  obtain sha pc where r: "run_at s sid sha pc" "pc = Announcing True \<or> pc = Finishing" using e by (auto simp: ending_def run_at_def)
  have co: "coord_ok (Coordinator s)" using s by (simp add: system_ok_def)
  obtain c where c: "notifyV2 sid (Coordinator s) = Some c" using notified [OF s r(1)] by blast
  obtain x where x: "map_of (Active (Coordinator s)) sid = Some x" using c by (auto simp: notifyV2_def split: option.splits)
  show ?thesis
  proof (cases "pc = Finishing")
    case True
    then have "job_step s (s\<lparr>Coordinator := finishV2 sid (Coordinator s), Runs := filter (\<lambda>e. fst e \<noteq> sid) (Runs s)\<rparr>)"
      using r(1) job_step.finish by blast
    moreover have "Closed (Channels (finishV2 sid (Coordinator s)) i)" using con finish_effect(5) [OF co x] by (auto simp: connected_def)
    ultimately show ?thesis by fastforce
  next
    case False
    then have "job_step s (set_run sid Finishing (s\<lparr>Coordinator := c\<rparr>))"
      using job_step.announce [of s sid sha True c] r c by simp
    moreover have "Pending (Channels c i) \<or> Closed (Channels c i)" using con notify_effect [OF co c] by (auto simp: connected_def)
    ultimately show ?thesis by (fastforce simp: set_run_def)
  qed
qed

lemma relpowp_start: "R a b \<Longrightarrow> (R ^^ m) b c \<Longrightarrow> (R ^^ Suc m) a c"
  by (metis relpowp_Suc_I2)

text \<open>
  (C30) Nobody misses the end: whenever a workload is finished on disk, each client that still waits for its
  events gets the terminal event and the trailer by at most three steps that are enabled: a pending
  notification or a closed channel wakes it, or the execution, which then has not ended, sends one first.
\<close>

theorem nobody_misses_the_end:
  assumes "job_reach limit n s" and "Suc (Suc (Suc n)) < 2 ^ 64" and "listens s k l" and "LPC l = Waiting"
    and "LoadWorkload (Disk s) (LWorkload l) = Inr r" and "TerminalEvent r \<noteq> None"
  shows "\<exists>m s' l'. m \<le> 3 \<and> (job_step ^^ m) s s' \<and> listens s' k l' \<and> LWorkload l' = LWorkload l \<and> LPC l' = Leaving \<and> LTrailer l' \<noteq> []"
proof -
  have s: "system_ok n s" using reach_ok [OF assms(1)] assms(2) by simp
  have fin: "finished (Disk s) (LWorkload l)" using assms(5,6) finished_load by simp
  obtain i where i: "LSubscription l = Some i" "connected (Coordinator s) (LWorkload l) i" "told s (LWorkload l) i"
    using listener_ok [OF s assms(3)] assms(4) fin by (auto simp: subscription_ok_def)
  have two: "\<exists>s2 l'. (job_step ^^ 2) t s2 \<and> listens s2 k l' \<and> LWorkload l' = LWorkload l \<and> LPC l' = Leaving \<and> LTrailer l' \<noteq> []"
    if t: "system_ok n' t" "Suc (Suc n') < 2 ^ 64" "listens t k l" "finished (Disk t) (LWorkload l)"
      "Pending (Channels (Coordinator t) i) \<or> Closed (Channels (Coordinator t) i)" for t n'
  proof -
    obtain s1 s2 l' where "job_step t s1" "job_step s1 s2" "listens s2 k l'" "LWorkload l' = LWorkload l" "LPC l' = Leaving" "LTrailer l' \<noteq> []"
      using woken_writes_end [OF t(1,2,3) assms(4) i(1) t(5,4)] by blast
    moreover have "(job_step ^^ 2) t s2" unfolding numeral_2_eq_2 using calculation(1,2) by (auto intro!: relpowp_start)
    ultimately show ?thesis by blast
  qed
  show ?thesis
  proof (cases "Pending (Channels (Coordinator s) i) \<or> Closed (Channels (Coordinator s) i)")
    case True
    then show ?thesis using two [OF s _ assms(3) fin True] assms(2) by (intro exI [of _ 2]) auto
  next
    case False
    then have "ending s (LWorkload l)" using i(3) by (simp add: told_def)
    then obtain s1 where s1: "job_step s s1" "Listeners s1 = Listeners s" "Disk s1 = Disk s"
        "Pending (Channels (Coordinator s1) i) \<or> Closed (Channels (Coordinator s1) i)"
      using ending_tells [OF s _ i(2)] by blast
    have "system_ok (Suc n) s1" using step_keeps [OF s1(1) s] assms(2) by simp
    moreover have "listens s1 k l" using assms(3) s1(2) by (simp add: listens_def)
    ultimately obtain s2 l' where "(job_step ^^ 2) s1 s2" "listens s2 k l'" "LWorkload l' = LWorkload l" "LPC l' = Leaving" "LTrailer l' \<noteq> []"
      using two [of "Suc n" s1] assms(2) fin s1(3,4) by auto
    then show ?thesis using relpowp_start [of job_step s s1 2 s2, OF s1(1)] by (intro exI [of _ 3]) auto
  qed
qed

text \<open>
  A defect that the journal shows: when the pixels of the delivered renditions overflow, the execution fails with
  \<open>usage_failed\<close> and no units, but the store computes the units again to check the claim and refuses; the
  workload never becomes terminal.
\<close>

lemma usage_failure_never_recorded:
  assumes "loadJournalV2 d sid = Inr r" and "deliveredUnitsV2 r = Inl e"
  shows "snd (RecordTerminalError io d sid v) = d" "\<exists>e'. fst (RecordTerminalError io d sid v) = Inl e'"
proof -
  have "terminalClaimV2 (TerminalError v) r \<noteq> None" using assms(2) by (simp add: terminalClaimV2_def)
  then have "\<exists>e'. recordTerminal_step WorkloadFailedV2 (TerminalError v) r = Inl e'"
    by (auto simp: recordTerminal_step_def fails_def)
  then have "\<exists>e'. RecordTerminalError io d sid v = (Inl e', d)"
    using assms(1) by (auto simp: RecordTerminalError_def update_journal_def split: option.splits)
  then show "snd (RecordTerminalError io d sid v) = d" "\<exists>e'. fst (RecordTerminalError io d sid v) = Inl e'" by auto
qed

end
