(* ===== verification/ABR_Witnesses.thy ===== *)
theory ABR_Witnesses
  imports ABR_Properties
begin

section \<open>A concrete ABR workload\<close>

text \<open>
  A workload of one rendition: its journal is created, progress is appended, the rendition is prepared and
  delivered.  The properties of the ABR runner are applied to it.
\<close>

definition w_sha :: string where "w_sha = replicate 64 (CHR ''a'')"

definition w_prepared :: PreparedRenditionV2 where
  "w_prepared = \<lparr>PrepName = ''720p'', PlaylistPath = ''720p.m3u8'', StreamPath = ''720p.mp4'', PlaylistSHA256 = w_sha,
     StreamSHA256 = w_sha, PrepVideo = Some \<lparr>ActualFrames = 300, FrameWidth = 1280, FrameHeight = 720\<rparr>, PrepSize = 1000\<rparr>"

definition w_result :: RenditionResultV2 where
  "w_result = \<lparr>ResultName = ''720p'', PlaylistURI = ''s3://b/p'', StreamURI = ''s3://b/s'',
     ResultVideo = Some \<lparr>ActualFrames = 300, FrameWidth = 1280, FrameHeight = 720\<rparr>, ResultSize = 1000\<rparr>"

definition w_failure :: ABRTerminalErrorV2 where
  "w_failure = \<lparr>ErrSchema = ABRResultSchemaV2, ErrWorkloadID = ''w1'', ErrRequestSHA256 = w_sha, ErrOutcome = ''failed'',
     ErrBody = \<lparr>ErrorCode = ''execution_failed'', ErrorMessage = ''ABR execution failed'', Retryable = True\<rparr>,
     ErrUsage = \<lparr>ClaimUnit = ABRWorkUnitV2, Units = 277\<rparr>\<rparr>"

definition w_calls :: "journal_call list" where
  "w_calls = [CallOpen ''w1'' w_sha, CallPrepared ''w1'' w_prepared, CallDelivered ''w1'' w_result, CallFailure ''w1'' w_failure]"

definition w_disk :: "nat \<Rightarrow> journals" where
  "w_disk n = fold (run_call SaveOK) (take n w_calls) []"

definition w_journal :: WorkloadJournalV2 where
  "w_journal = (newJournalV2 ''w1'' w_sha)\<lparr>Prepared := [(''720p'', w_prepared)], Delivered := [(''720p'', w_result)]\<rparr>"

definition w_failed :: WorkloadJournalV2 where
  "w_failed = w_journal\<lparr>NextSequence := 2, JournalState := WorkloadFailedV2, Phase := WorkloadFailedV2,
     TerminalEvent := Some (storedTerminalV2 1 (TerminalError w_failure))\<rparr>"

lemma w_texts:
  "workloadIDPattern ''w1''" "sha256Pattern w_sha" "safeJournalPathV2 ''720p.m3u8''" "safeJournalPathV2 ''720p.mp4''"
  "validateArtifactURI ''s3://b/p'' = None" "validateArtifactURI ''s3://b/s'' = None" "ValidateABRTerminalErrorV2 w_failure = None"
  by code_simp+

abbreviation w_at :: "WorkloadJournalV2 \<Rightarrow> journals" where
  "w_at r \<equiv> [(''w1'', JournalFile r)]"

lemma w_update:
  assumes "journals_ok n (w_at r)" and "step r = Inr (a, r')" and "WorkloadID r' = ''w1''"
  shows "snd (update_journal SaveOK (w_at r) ''w1'' step) = w_at r'"
  using load_journal_file [OF assms(1), of "''w1''"] assms(2,3) by (simp add: update_journal_def saveJournalV2_def)

lemma w_units: "deliveredUnitsV2 w_journal = Inr 277"
  by (simp add: deliveredUnitsV2_def units_iff w_journal_def w_result_def row_fits_def video_pixels_def)

lemma w_run:
  "run_call SaveOK (CallOpen ''w1'' w_sha) [] = w_at (newJournalV2 ''w1'' w_sha)"
  "run_call SaveOK (CallPrepared ''w1'' w_prepared) (w_at (newJournalV2 ''w1'' w_sha)) =
     w_at ((newJournalV2 ''w1'' w_sha)\<lparr>Prepared := [(''720p'', w_prepared)]\<rparr>)"
  "run_call SaveOK (CallDelivered ''w1'' w_result) (w_at ((newJournalV2 ''w1'' w_sha)\<lparr>Prepared := [(''720p'', w_prepared)]\<rparr>)) = w_at w_journal"
  "run_call SaveOK (CallFailure ''w1'' w_failure) (w_at w_journal) = w_at w_failed"
proof -
  note keep = run_call_keeps [THEN conjunct1]
  have k0: "journals_ok 1 []" by simp
  show 1: "run_call SaveOK (CallOpen ''w1'' w_sha) [] = w_at (newJournalV2 ''w1'' w_sha)"
    using w_texts(1,2) by (simp add: LoadOrCreate_def loadJournalV2_def saveJournalV2_def Let_def newJournalV2_def)
  have k1: "journals_ok (Suc 1) (w_at (newJournalV2 ''w1'' w_sha))" using keep [OF k0, of SaveOK "CallOpen ''w1'' w_sha"] 1 by simp
  show 2: "run_call SaveOK (CallPrepared ''w1'' w_prepared) (w_at (newJournalV2 ''w1'' w_sha)) =
      w_at ((newJournalV2 ''w1'' w_sha)\<lparr>Prepared := [(''720p'', w_prepared)]\<rparr>)"
    using w_update [OF k1, of "SavePrepared_step w_prepared"] w_texts
    by (simp add: SavePrepared_def SavePrepared_step_def w_prepared_def prepared_stored_def video_ok_def newJournalV2_def in_progress_def)
  have k2: "journals_ok (Suc (Suc 1)) (w_at ((newJournalV2 ''w1'' w_sha)\<lparr>Prepared := [(''720p'', w_prepared)]\<rparr>))"
    using keep [OF k1, of SaveOK "CallPrepared ''w1'' w_prepared"] 2 by simp
  show 3: "run_call SaveOK (CallDelivered ''w1'' w_result) (w_at ((newJournalV2 ''w1'' w_sha)\<lparr>Prepared := [(''720p'', w_prepared)]\<rparr>)) = w_at w_journal"
    using w_update [OF k2, of "SaveDelivered_step w_result"] w_texts
    by (simp add: SaveDelivered_def SaveDelivered_step_def w_prepared_def w_result_def preparedMatchesResultV2_def w_journal_def
        newJournalV2_def in_progress_def)
  have k3: "journals_ok (Suc (Suc (Suc 1))) (w_at w_journal)" using keep [OF k2, of SaveOK "CallDelivered ''w1'' w_result"] 3 by simp
  have "recordTerminal_step WorkloadFailedV2 (TerminalError w_failure) w_journal =
      Inr (storedTerminalV2 1 (TerminalError w_failure), w_failed)"
    using w_units
    by (simp add: recordTerminal_step_def terminalClaimV2_def w_failed_def in_progress_def)
      (simp add: w_failure_def w_journal_def newJournalV2_def Let_def)
  moreover have "WorkloadID w_failed = ''w1''" by (simp add: w_failed_def w_journal_def newJournalV2_def)
  ultimately show "run_call SaveOK (CallFailure ''w1'' w_failure) (w_at w_journal) = w_at w_failed"
    using w_update [OF k3] w_texts by (simp add: RecordTerminalError_def)
qed

lemma w_disks: "w_disk 3 = [(''w1'', JournalFile w_journal)]" "w_disk 4 = [(''w1'', JournalFile w_failed)]"
  by (simp_all add: w_disk_def w_calls_def w_run del: run_call.simps)

lemma w_runs: "n \<le> 4 \<Longrightarrow> journal_runs n [] (w_disk n)"
proof (induction n)
  case (Suc n)
  then have "take (Suc n) w_calls = take n w_calls @ [w_calls ! n]" using take_Suc_conv_app_nth [of n w_calls] by (simp add: w_calls_def)
  then have "w_disk (Suc n) = run_call SaveOK (w_calls ! n) (w_disk n)" by (simp add: w_disk_def)
  then show ?case using Suc journal_runs.one_more by simp
qed (simp add: w_disk_def journal_runs.no_calls)

lemma w_loads: "loadJournalV2 (w_disk 3) ''w1'' = Inr w_journal"
proof -
  have "journals_ok 3 (w_disk 3)" using journal_runs_keep [OF w_runs [of 3], of 0] by simp
  then show ?thesis using load_journal_file [of 3 "w_disk 3" "''w1''"] by (simp add: w_disks)
qed

theorem journals_stay_sound_witness: "\<exists>k\<ge>1. map (\<lambda>e. unat (EventSequence e)) (ProgressEvents w_failed) = [k..<progress_end w_failed]"
  using journals_stay_sound [OF w_runs [of 4], of "''w1''" "JournalFile w_failed"] by (simp add: w_disks)

lemma w_later: "journal_runs 1 (w_disk 3) (w_disk 4)"
  using journal_runs.one_more [OF journal_runs.no_calls, of "w_disk 3" SaveOK "CallFailure ''w1'' w_failure"]
  by (simp add: w_disk_def w_calls_def)

theorem workload_never_moves_back_witness: "\<exists>r. loadJournalV2 (w_disk 4) ''w1'' = Inr r \<and> map_of (Delivered r) ''720p'' \<noteq> None"
proof -
  have "map_of (Delivered w_journal) ''720p'' = Some w_result" by (simp add: w_journal_def)
  then show ?thesis using workload_never_moves_back [OF w_runs [of 3] w_later _ w_loads] by fastforce
qed

subsection \<open>A run of the whole runner\<close>

text \<open>A client opens a workload, subscribes and waits; the executor fails and the failure is recorded.\<close>

definition w_new :: WorkloadJournalV2 where "w_new = newJournalV2 ''w1'' w_sha"

definition w_error :: ABRTerminalErrorV2 where
  "w_error = \<lparr>ErrSchema = ABRResultSchemaV2, ErrWorkloadID = ''w1'', ErrRequestSHA256 = w_sha, ErrOutcome = ''failed'',
     ErrBody = \<lparr>ErrorCode = ''execution_failed'', ErrorMessage = ''ABR execution failed'', Retryable = True\<rparr>,
     ErrUsage = \<lparr>ClaimUnit = ABRWorkUnitV2, Units = 0\<rparr>\<rparr>"

definition w_over :: WorkloadJournalV2 where
  "w_over = w_new\<lparr>NextSequence := 2, JournalState := WorkloadFailedV2, Phase := WorkloadFailedV2,
     TerminalEvent := Some (storedTerminalV2 1 (TerminalError w_error))\<rparr>"

definition w_coordinator :: ABRCoordinatorV2 where
  "w_coordinator = \<lparr>Limit = 1, Active = [(''w1'', \<lparr>ExecSHA256 = w_sha, Cancelled = False, Subscribers = [1], ExecPC = Executing\<rparr>)],
     NextSubscriber = 1, ActiveCount = 1, AdmissionRejected = 0, Leases = 1, Channels = (\<lambda>_. \<lparr>Pending = False, Closed = False\<rparr>)\<rparr>"

definition w_waiting :: listener where
  "w_waiting = (new_listener ''w1'' w_sha w_new Waiting)\<lparr>LSubscription := Some 1\<rparr>"

definition w_system :: job_system where
  "w_system = \<lparr>Disk = w_at w_over, Coordinator = w_coordinator, Runs = [(''w1'', w_sha, Announcing True)], Listeners = [w_waiting], Panicked = False\<rparr>"

lemma w_new_loads: "loadJournalV2 (w_at w_new) ''w1'' = Inr w_new"
proof -
  have "journals_ok 1 (w_at w_new)" using run_call_keeps [of 0 "[]" SaveOK "CallOpen ''w1'' w_sha"] w_run(1) by (simp add: w_new_def)
  then show ?thesis using load_journal_file [of 1 "w_at w_new" "''w1''" "JournalFile w_new"] by auto
qed

lemma w_recorded: "recordOutcomeV2 SaveOK (w_at w_new) ''w1'' w_sha (Inl (OtherError ErrNotExist)) = (Inr (storedTerminalV2 1 (TerminalError w_error)), w_at w_over)"
proof -
  have "deliveredWorkUnits (w_at w_new) ''w1'' = Inr 0"
    by (simp add: deliveredWorkUnits_def w_new_loads) (simp add: w_new_def newJournalV2_def sorted_members_def units_iff)
  then have e: "terminalErrorV2 (w_at w_new) ''w1'' w_sha (OtherError ErrNotExist) = w_error"
    by (simp add: terminalErrorV2_def safeABRExecutionFailureV2_def w_error_def)
  have v: "ValidateABRTerminalErrorV2 w_error = None" by code_simp
  have "deliveredUnitsV2 w_new = Inr 0" by (simp add: deliveredUnitsV2_def units_iff w_new_def newJournalV2_def)
  then have "recordTerminal_step WorkloadFailedV2 (TerminalError w_error) w_new = Inr (storedTerminalV2 1 (TerminalError w_error), w_over)"
    by (simp add: recordTerminal_step_def terminalClaimV2_def w_over_def in_progress_def)
      (simp add: w_error_def w_new_def newJournalV2_def Let_def)
  moreover have "WorkloadID w_over = ''w1''" by (simp add: w_over_def w_new_def newJournalV2_def)
  ultimately show ?thesis
    using v e w_new_loads by (simp add: recordOutcomeV2_def RecordTerminalError_def update_journal_def saveJournalV2_def)
qed

lemma w_reached: "job_reach 1 4 w_system"
proof -
  let ?ch = "\<lambda>_ :: nat. \<lparr>Pending = False, Closed = False\<rparr>"
  let ?c = "\<lparr>Limit = 1, Active = [], NextSubscriber = 0, ActiveCount = 0, AdmissionRejected = 0, Leases = 0, Channels = ?ch\<rparr>"
  let ?l = "new_listener ''w1'' w_sha w_new Opened"
  let ?s1 = "(start_system ?c)\<lparr>Disk := w_at w_new, Listeners := [?l]\<rparr>"
  let ?m = "?l\<lparr>LSubscription := Some 1, LPC := Attached\<rparr>"
  let ?s2 = "set_listener 0 ?m (?s1\<lparr>Coordinator := w_coordinator, Runs := put ''w1'' (w_sha, Executing) []\<rparr>)"
  let ?s3 = "set_listener 0 (write_events w_new Waiting ?m) ?s2"
  have r0: "job_reach 1 0 (start_system ?c)" by (rule job_reach.start) (simp add: NewABRExecutionCoordinatorV2_def)
  have o: "LoadOrCreate SaveOK [] ''w1'' w_sha = (Inr (w_new, ResumeExistingV2), w_at w_new)"
    using w_texts(1,2) by (simp add: LoadOrCreate_def loadJournalV2_def saveJournalV2_def newJournalV2_def cloneJournalV2_def w_new_def Let_def)
  have "job_step (start_system ?c) ?s1"
    using job_step.open_resume [of SaveOK "start_system ?c" "''w1''" w_sha w_new "w_at w_new"] o by (simp add: start_system_def)
  with r0 have r1: "job_reach 1 (Suc 0) ?s1" by (rule job_reach.step)
  have w: "RequestSHA256 w_new = w_sha" "in_progress w_new" by (simp_all add: w_new_def newJournalV2_def in_progress_def)
  have sub: "Subscribe (w_at w_new) None ''w1'' w_sha ?c = (Inr (Some 1), w_coordinator)"
    using w by (simp add: Subscribe_def w_new_loads startExecutionV2_def joinExecutionV2_def w_coordinator_def Let_def fun_eq_iff)
  have "job_step ?s1 ?s2"
    using job_step.subscribe_starts [of ?s1 0 ?l None 1 w_coordinator] sub by (simp add: listens_def new_listener_def start_system_def)
  with r1 have r2: "job_reach 1 (Suc (Suc 0)) ?s2" by (rule job_reach.step)
  have "job_step ?s2 ?s3"
    using job_step.write_first [of ?s2 0 ?m] by (simp add: listens_def new_listener_def start_system_def set_listener_def)
  with r2 have r3: "job_reach 1 (Suc (Suc (Suc 0))) ?s3" by (rule job_reach.step)
  have wait: "write_events w_new Waiting ?m = w_waiting"
    by (simp add: write_events_def writeJournalEventsV2_def w_new_def newJournalV2_def w_waiting_def new_listener_def)
  have "job_step ?s3 w_system"
    using job_step.return_recorded [of ?s3 "''w1''" w_sha "\<lparr>ExecSHA256 = w_sha, Cancelled = False, Subscribers = [1], ExecPC = Executing\<rparr>"
        SaveOK "Inl (OtherError ErrNotExist)"] w_recorded wait
    by (simp add: set_listener_def run_at_def start_system_def w_coordinator_def set_run_def w_system_def)
  with r3 have "job_reach 1 (Suc (Suc (Suc (Suc 0)))) w_system" by (rule job_reach.step)
  then show ?thesis by (simp add: numeral_eq_Suc)
qed

theorem one_execution_per_workload_witness: "fst ` set (Runs w_system) = fst ` set (Active (Coordinator w_system)) \<and> \<not> Panicked w_system"
  using one_execution_per_workload [OF w_reached] by simp

theorem trailer_bills_delivered_witness: "sorted_wrt (<) (map EventSequence (LSent w_waiting))"
  using trailer_bills_delivered [OF w_reached, of w_waiting] by (simp add: w_system_def)

theorem nobody_misses_the_end_witness: "\<exists>m s' l'. (job_step ^^ m) w_system s' \<and> listens s' 0 l' \<and> LTrailer l' \<noteq> []"
proof -
  have "WorkloadID w_over = ''w1'' \<and> journals_ok 4 (w_at w_over)"
    using reach_ok [OF w_reached] by (simp add: system_ok_def w_system_def w_over_def w_new_def newJournalV2_def)
  then have load: "loadJournalV2 (w_at w_over) ''w1'' = Inr w_over" using load_journal_file [of 4 "w_at w_over" "''w1''"] by simp
  have "listens w_system 0 w_waiting" "LPC w_waiting = Waiting" "LWorkload w_waiting = ''w1''"
    by (simp_all add: listens_def w_system_def w_waiting_def new_listener_def)
  then show ?thesis
    using nobody_misses_the_end [OF w_reached, of 0 w_waiting w_over] load by (fastforce simp: w_system_def w_over_def)
qed

end
