(* ===== verification/FFmpeg_Progress.thy ===== *)
theory FFmpeg_Progress
  imports FFmpeg_Args
begin

section \<open>The progress lines of ffmpeg (transcode-core/progress.go, scanFFmpegLines)\<close>

text \<open>
  The runners read the standard error of ffmpeg line by line and take the frame count and the time out of
  its progress lines with one regular expression.  The expression is a sequence of literals and of
  repeated character classes, matched as Go does: leftmost, and each repetition as long as it can be.
\<close>

subsection \<open>The expression\<close>

datatype re_item = ReLit string | ReMany "char \<Rightarrow> bool" nat bool   \<comment> \<open>class, least number, whether it is a group\<close>

fun re_match :: "re_item list \<Rightarrow> string \<Rightarrow> string list option" where
  "re_match [] s = Some []"
| "re_match (ReLit l # items) s = (if has_prefix s l then re_match items (drop (length l) s) else None)"
| "re_match (ReMany p least keep # items) s =
     (let longest = length (takeWhile p s) in
      case find (\<lambda>n. least \<le> n \<and> re_match items (drop n s) \<noteq> None) (rev [0..<Suc longest]) of
        None \<Rightarrow> None
      | Some n \<Rightarrow> map_option (\<lambda>groups. if keep then take n s # groups else groups) (re_match items (drop n s)))"

fun re_find :: "re_item list \<Rightarrow> string \<Rightarrow> string list option" where
  "re_find items [] = re_match items []"
| "re_find items (c # cs) = (case re_match items (c # cs) of None \<Rightarrow> re_find items cs | Some g \<Rightarrow> Some g)"

definition re_space :: "char \<Rightarrow> bool" where
  "re_space c \<longleftrightarrow> c \<in> {CHR '' '', CHR 0x09, CHR 0x0A, CHR 0x0C, CHR 0x0D}"

definition progressRe :: "re_item list" where
  "progressRe =
     (let blanks = (\<lambda>n. ReMany re_space n False); number = (\<lambda>c. is_digit c \<or> c = CHR ''.'') in
      [ReLit ''frame='', blanks 0, ReMany is_digit 1 True, blanks 1,
       ReLit ''fps='', blanks 0, ReMany number 1 True, blanks 1,
       ReMany (\<lambda>c. c \<noteq> CHR 0x0A) 0 False,
       ReLit ''size='', blanks 0, ReMany (\<lambda>c. \<not> re_space c) 1 True, blanks 1,
       ReLit ''time='', blanks 0, ReMany (\<lambda>c. number c \<or> c = CHR '':'') 1 True, blanks 1,
       ReLit ''bitrate='', blanks 0, ReMany (\<lambda>c. \<not> re_space c) 1 True, blanks 1,
       ReLit ''speed='', blanks 0, ReMany number 1 True, ReLit ''x''])"

record ProgressInfo =
  InfoFrame :: int
  InfoFPS :: rat
  InfoSize :: string
  InfoTime :: duration
  InfoBitrate :: string
  InfoSpeed :: rat

text \<open>\<open>strconv.Atoi\<close> of digits: out of range it returns the greatest number beside its error, which is ignored.\<close>

definition atoi_clipped :: "string \<Rightarrow> int" where
  "atoi_clipped s = min (int (nat_of_digits s)) (2 ^ 63 - 1)"

definition or_zero :: "rat option \<Rightarrow> rat" where
  "or_zero v = (case v of None \<Rightarrow> 0 | Some x \<Rightarrow> x)"

definition ParseProgressLine :: "string \<Rightarrow> ProgressInfo option" where
  "ParseProgressLine line =
     (case re_find progressRe line of
        Some [m1, m2, m3, m4, m5, m6] \<Rightarrow>
          Some \<lparr>InfoFrame = atoi_clipped m1, InfoFPS = or_zero (parse_float m2), InfoSize = m3,
                InfoTime = (case ParseDuration m4 of Inl _ \<Rightarrow> 0 | Inr d \<Rightarrow> d), InfoBitrate = m5,
                InfoSpeed = or_zero (parse_float m6)\<rparr>
      | _ \<Rightarrow> None)"

subsection \<open>Lines that end with a newline or a carriage return\<close>

text \<open>
  A token is what precedes the next newline or carriage return; the rest at the end is one too unless it is
  empty.  The scanner stops with an error when a token with its end does not fit its buffer of 64 KiB.
\<close>

fun split_lines :: "string \<Rightarrow> string \<Rightarrow> string list" where
  "split_lines current [] = (if current = [] then [] else [current])"
| "split_lines current (c # cs) =
     (if c = CHR 0x0A \<or> c = CHR 0x0D then current # split_lines [] cs else split_lines (current @ [c]) cs)"

definition max_token :: nat where "max_token = 64 * 1024"

definition scanFFmpegLines :: "string \<Rightarrow> string list \<times> bool" where
  "scanFFmpegLines text =
     (let tokens = split_lines [] text; fits = takeWhile (\<lambda>t. length t < max_token) tokens in (fits, fits = tokens))"


end
