(* ===== verification/Job_Files.thy ===== *)
theory Job_Files
  imports Job_Library FFmpeg_Progress Go_Json
begin

section \<open>Jobs on files: the disk, the network and the programs that an executor uses\<close>

text \<open>
  Both file runners execute a job in a directory of its own: they download the input, run ffprobe and
  ffmpeg on files and upload files.  The world of an executor is the files below the state directory
  (a path relative to it is a key) and the uploads that were acknowledged so far.  What the disk, the
  network, the programs and the clock answer is a parameter (\<open>job_tools\<close>) that may answer anything anew at
  each step, which \<open>Tick\<close> counts; a cancelled context is one reason for a failing answer.

  An operation takes the world to a result and the next world; \<open>andThen\<close> is the early return on an
  error that Go writes as \<open>if err != nil\<close>.
\<close>

record job_world =
  Tick :: nat
  Files :: "(string \<times> string) list"
  Uploads :: "(string \<times> string) list"   \<comment> \<open>URL and contents\<close>

record ffmpeg_run =
  Starts :: bool
  Writes :: "(string \<times> string) list"
  Stderr :: string
  ExitOK :: bool
  KilledExitOK :: bool

record job_tools =
  StateDir :: string
  Digest :: "string \<Rightarrow> string"   \<comment> \<open>SHA-256\<close>
  DiskOK :: "nat \<Rightarrow> bool"
  Live :: "nat \<Rightarrow> bool"   \<comment> \<open>the context is not cancelled\<close>
  Fetch :: "nat \<Rightarrow> string \<Rightarrow> (int \<times> string \<times> bool) option"   \<comment> \<open>status, body, whether it was complete\<close>
  Send :: "nat \<Rightarrow> string \<Rightarrow> string \<Rightarrow> int option"
  FFprobe :: "nat \<Rightarrow> string list \<Rightarrow> string \<Rightarrow> string option"
  FFmpeg :: "nat \<Rightarrow> string list \<Rightarrow> string \<Rightarrow> ffmpeg_run"
  Clock :: "nat \<Rightarrow> int"
  Saves :: "nat \<Rightarrow> save_outcome"
  DecodeProbe :: "string \<Rightarrow> ffprobeOutput result"

type_synonym ('w, 'e, 'a) job = "'w \<Rightarrow> ('e + 'a) \<times> 'w"

definition give :: "'a \<Rightarrow> ('w, 'e, 'a) job" where "give a = (\<lambda>w. (Inr a, w))"
definition stop :: "'e \<Rightarrow> ('w, 'e, 'a) job" where "stop e = (\<lambda>w. (Inl e, w))"

definition andThen :: "('w, 'e, 'a) job \<Rightarrow> ('a \<Rightarrow> ('w, 'e, 'b) job) \<Rightarrow> ('w, 'e, 'b) job" where
  "andThen m f = (\<lambda>w. case m w of (Inl e, w') \<Rightarrow> (Inl e, w') | (Inr a, w') \<Rightarrow> f a w')"

text \<open>Another error in place of the one that came, and the error as a value.\<close>

definition orFail :: "('w, 'd, 'a) job \<Rightarrow> 'e \<Rightarrow> ('w, 'e, 'a) job" where
  "orFail m e = (\<lambda>w. case m w of (Inl _, w') \<Rightarrow> (Inl e, w') | (Inr a, w') \<Rightarrow> (Inr a, w'))"

definition attempt :: "('w, 'd, 'a) job \<Rightarrow> ('w, 'e, 'd + 'a) job" where
  "attempt m = (\<lambda>w. case m w of (r, w') \<Rightarrow> (Inr r, w'))"

definition ignoring :: "('w, 'd, 'a) job \<Rightarrow> ('w, 'e, unit) job" where
  "ignoring m = (\<lambda>w. case m w of (r, w') \<Rightarrow> (Inr (), w'))"

definition demand :: "bool \<Rightarrow> 'e \<Rightarrow> ('w, 'e, unit) job" where
  "demand c e = (if c then give () else stop e)"

subsection \<open>Files\<close>

definition ask :: "(nat \<Rightarrow> 'a) \<Rightarrow> ('w job_world_scheme, 'e, 'a) job" where
  "ask f = (\<lambda>w. (Inr (f (Tick w)), w\<lparr>Tick := Suc (Tick w)\<rparr>))"

definition get_files :: "('w job_world_scheme, 'e, (string \<times> string) list) job" where
  "get_files = (\<lambda>w. (Inr (Files w), w))"

definition set_files :: "(string \<times> string) list \<Rightarrow> ('w job_world_scheme, 'e, unit) job" where
  "set_files fs = (\<lambda>w. (Inr (), w\<lparr>Files := fs\<rparr>))"

definition without :: "string \<Rightarrow> (string \<times> 'a) list \<Rightarrow> (string \<times> 'a) list" where
  "without p fs = filter (\<lambda>e. fst e \<noteq> p) fs"

definition disk :: "job_tools \<Rightarrow> ('w job_world_scheme, unit, unit) job" where
  "disk t = andThen (ask (DiskOK t)) (\<lambda>ok. demand ok ())"

definition read_file :: "job_tools \<Rightarrow> string \<Rightarrow> ('w job_world_scheme, unit, string) job" where
  "read_file t path = andThen (disk t) (\<lambda>_. andThen get_files (\<lambda>fs.
     case map_of fs path of None \<Rightarrow> stop () | Some c \<Rightarrow> give c))"

definition write_file :: "job_tools \<Rightarrow> string \<Rightarrow> string \<Rightarrow> ('w job_world_scheme, unit, unit) job" where
  "write_file t path c = andThen (disk t) (\<lambda>_. andThen get_files (\<lambda>fs. set_files (put path c fs)))"

text \<open>\<open>os.Remove\<close> with its error ignored.\<close>

definition remove_file :: "job_tools \<Rightarrow> string \<Rightarrow> ('w job_world_scheme, 'e, unit) job" where
  "remove_file t path = ignoring (andThen (disk t) (\<lambda>_. andThen get_files (\<lambda>fs. set_files (without path fs))))"

definition rename_file :: "job_tools \<Rightarrow> string \<Rightarrow> string \<Rightarrow> ('w job_world_scheme, unit, unit) job" where
  "rename_file t old new = andThen (disk t) (\<lambda>_. andThen get_files (\<lambda>fs.
     case map_of fs old of None \<Rightarrow> stop () | Some c \<Rightarrow> set_files (put new c (without old fs))))"

definition content_sha256 :: "job_tools \<Rightarrow> string \<Rightarrow> string" where
  "content_sha256 t c = hex_encode (Digest t c)"

definition file_digest :: "job_tools \<Rightarrow> string \<Rightarrow> ('w job_world_scheme, unit, string) job" where
  "file_digest t path = andThen (read_file t path) (\<lambda>c. give (content_sha256 t c))"

subsection \<open>Transfers (transcode-core/io.go)\<close>

text \<open>
  \<open>DownloadFile\<close>: a body that breaks off leaves the part that came.  \<open>UploadFile\<close>: an answer of the 200
  range acknowledges the upload.  The URLs were validated with the request.
\<close>

definition DownloadFile :: "job_tools \<Rightarrow> string \<Rightarrow> string \<Rightarrow> ('w job_world_scheme, unit, unit) job" where
  "DownloadFile t url path =
     andThen (ask (\<lambda>n. Fetch t n url)) (\<lambda>answer.
       case answer of
         None \<Rightarrow> stop ()
       | Some (status, body, whole) \<Rightarrow>
           if status \<noteq> 200 then stop ()
           else andThen (write_file t path body) (\<lambda>_. demand whole ()))"

definition log_upload :: "string \<Rightarrow> string \<Rightarrow> ('w job_world_scheme, 'e, unit) job" where
  "log_upload url c = (\<lambda>w. (Inr (), w\<lparr>Uploads := Uploads w @ [(url, c)]\<rparr>))"

definition UploadFile :: "job_tools \<Rightarrow> string \<Rightarrow> string \<Rightarrow> ('w job_world_scheme, unit, unit) job" where
  "UploadFile t path url =
     andThen (read_file t path) (\<lambda>c. andThen (ask (\<lambda>n. Send t n url c)) (\<lambda>answer.
       case answer of
         None \<Rightarrow> stop ()
       | Some status \<Rightarrow> if status < 200 \<or> 300 \<le> status then stop () else log_upload url c))"

subsection \<open>Probes\<close>

definition run_ffprobe :: "job_tools \<Rightarrow> string list \<Rightarrow> string \<Rightarrow> ('w job_world_scheme, unit, string) job" where
  "run_ffprobe t args path =
     andThen (read_file t path) (\<lambda>c. andThen (ask (\<lambda>n. FFprobe t n args c)) (\<lambda>out.
       case out of None \<Rightarrow> stop () | Some text \<Rightarrow> give text))"

definition in_state_dir :: "job_tools \<Rightarrow> string \<Rightarrow> string" where
  "in_state_dir t path = path_join2 (StateDir t) path"

definition probeMediaV2 :: "job_tools \<Rightarrow> string \<Rightarrow> ('w job_world_scheme, unit, ProbeResult) job" where
  "probeMediaV2 t path =
     andThen (run_ffprobe t (ProbeCmd (in_state_dir t path)) path) (\<lambda>text.
       case ParseProbeOutput (DecodeProbe t text) of Inl _ \<Rightarrow> stop () | Inr probe \<Rightarrow> give probe)"

definition frame_probe_args :: "string \<Rightarrow> string list" where
  "frame_probe_args path =
     [''ffprobe'', ''-v'', ''error'', ''-count_frames'', ''-select_streams'', ''v:0'',
      ''-show_entries'', ''stream=nb_read_frames,width,height'', ''-of'', ''json'', path]"

record frameProbeStreamV2 =
  NbReadFrames :: string
  ProbedWidth :: u32
  ProbedHeight :: u32

definition dec_u32 :: "json \<Rightarrow> u32 \<Rightarrow> u32 option" where
  "dec_u32 v acc = (case v of JNum x \<Rightarrow> map_option of_nat (parse_uint x 32) | JNull \<Rightarrow> Some acc | _ \<Rightarrow> None)"

definition dec_frame_stream :: "json \<Rightarrow> frameProbeStreamV2 option" where
  "dec_frame_stream v =
     (case v of
        JNull \<Rightarrow> Some \<lparr>NbReadFrames = [], ProbedWidth = 0, ProbedHeight = 0\<rparr>
      | JObj fs \<Rightarrow>
          (case (fill_field dec_string ''nb_read_frames'' [] fs, fill_field dec_u32 ''width'' 0 fs, fill_field dec_u32 ''height'' 0 fs) of
             (Some f, Some x, Some y) \<Rightarrow> Some \<lparr>NbReadFrames = f, ProbedWidth = x, ProbedHeight = y\<rparr>
           | _ \<Rightarrow> None)
      | _ \<Rightarrow> None)"

definition dec_frame_streams :: "json \<Rightarrow> frameProbeStreamV2 list \<Rightarrow> frameProbeStreamV2 list option" where
  "dec_frame_streams v acc = (case v of JArr xs \<Rightarrow> those (map dec_frame_stream xs) | JNull \<Rightarrow> Some [] | _ \<Rightarrow> None)"

definition decode_frame_probe :: "string \<Rightarrow> frameProbeStreamV2 list option" where
  "decode_frame_probe text =
     (case json_parse text of
        Some (JObj fs) \<Rightarrow> fill_field dec_frame_streams ''streams'' [] fs
      | Some JNull \<Rightarrow> Some []
      | _ \<Rightarrow> None)"

subsection \<open>Running ffmpeg\<close>

text \<open>
  The command runs to its end or until it is killed; meanwhile its lines are read.  An input that cannot be
  read counts as a command that does not start.  \<open>report\<close> is what the
  runner does with a progress line; between two reports there is at least a second.  The result is the
  error of a report (after which the command is killed), whether the command ended well and whether the
  scanner read all lines.
\<close>

fun report_lines ::
    "job_tools \<Rightarrow> (ProgressInfo \<Rightarrow> ('w job_world_scheme, 'e, unit) job) \<Rightarrow> int option \<Rightarrow> string list \<Rightarrow>
       ('w job_world_scheme, 'e, unit) job" where
  "report_lines t report last_report [] = give ()"
| "report_lines t report last_report (line # rest) =
     (case ParseProgressLine line of
        None \<Rightarrow> report_lines t report last_report rest
      | Some info \<Rightarrow> andThen (ask (Clock t)) (\<lambda>now.
          if (case last_report of None \<Rightarrow> False | Some l \<Rightarrow> now - l < second) then report_lines t report last_report rest
          else andThen (report info) (\<lambda>_. report_lines t report (Some now) rest)))"

definition write_all :: "(string \<times> string) list \<Rightarrow> ('w job_world_scheme, 'e, unit) job" where
  "write_all outputs = andThen get_files (\<lambda>fs. set_files (fold (\<lambda>(p, c). put p c) outputs fs))"

definition run_ffmpeg ::
    "job_tools \<Rightarrow> string list \<Rightarrow> string \<Rightarrow> (ProgressInfo \<Rightarrow> ('w job_world_scheme, 'e, unit) job) \<Rightarrow>
       ('w job_world_scheme, unit, 'e option \<times> bool \<times> bool) job" where
  "run_ffmpeg t args input report =
     andThen (read_file t input) (\<lambda>c. andThen (ask (\<lambda>n. FFmpeg t n args c)) (\<lambda>run.
       if \<not> Starts run then stop ()
       else (let (tokens, whole) = scanFFmpegLines (Stderr run) in
         andThen (attempt (report_lines t report None tokens)) (\<lambda>reported. andThen (write_all (Writes run)) (\<lambda>_.
           give (case reported of Inl e \<Rightarrow> (Some e, KilledExitOK run, True) | Inr _ \<Rightarrow> (None, ExitOK run, whole)))))))"

text \<open>\<open>guessExtension\<close>: of the URL without its query.\<close>

definition guessExtension :: "string \<Rightarrow> string" where
  "guessExtension raw =
     (let path = (case cut_at (CHR ''?'') raw of None \<Rightarrow> raw | Some (p, _) \<Rightarrow> p); extension = path_ext path in
      if extension \<noteq> [] then extension else ''.mp4'')"

end
