(* ===== verification/ABR_Executor.thy ===== *)
theory ABR_Executor
  imports ABR_Service Job_Files
begin

section \<open>The executor of ABR jobs (abr-runner/abr_executor_v2.go)\<close>

text \<open>
  \<open>Execute\<close> brings a workload to its result from whatever its journal says is done: it downloads the
  input unless it is there, encodes each rendition unless a prepared one is intact, uploads it unless it is
  delivered, and then does the same with the master playlist.  Each finished piece is checkpointed by a
  call of the store before the next one starts.

  Paths are relative to the state directory, so \<open>filepath.Rel\<close> is what the model already has; the
  temporary file of an atomic write is not seen.  The notification of listeners after a progress event is a
  step of \<open>ABR_System\<close>.
\<close>

record abr_world = job_world +
  Journals :: journals

type_synonym 'a abr_job = "(abr_world, execute_error, 'a) job"

definition executionFailureV2 :: "string \<Rightarrow> string \<Rightarrow> bool \<Rightarrow> execute_error" where
  "executionFailureV2 code message retryable =
     ExecutionErrorV2 \<lparr>ErrorCode = code, ErrorMessage = message, Retryable = retryable\<rparr>"

definition storage_failed :: execute_error where
  "storage_failed = executionFailureV2 ''storage_failed'' ''local workload storage failed'' True"

definition output_invalid :: execute_error where
  "output_invalid = executionFailureV2 ''storage_failed'' ''encoded output validation failed'' True"

definition encode_failed :: execute_error where
  "encode_failed = executionFailureV2 ''encode_failed'' ''rendition encoding failed'' True"

definition upload_failed :: execute_error where
  "upload_failed = executionFailureV2 ''upload_failed'' ''rendition upload failed'' True"

definition packaging_failed :: execute_error where
  "packaging_failed = executionFailureV2 ''storage_failed'' ''manifest packaging failed'' True"

subsection \<open>The reporter\<close>

definition store_call :: "job_tools \<Rightarrow> (save_outcome \<Rightarrow> journals \<Rightarrow> 'a result \<times> journals) \<Rightarrow> 'a abr_job" where
  "store_call t f = (\<lambda>w. case f (Saves t (Tick w)) (Journals w) of
     (res, d) \<Rightarrow> (map_sum OtherError id res, w\<lparr>Tick := Suc (Tick w), Journals := d\<rparr>))"

definition reportProgress :: "job_tools \<Rightarrow> string \<Rightarrow> string \<Rightarrow> rat \<Rightarrow> string \<Rightarrow> u64 \<Rightarrow> unit abr_job" where
  "reportProgress t sid phase percent rendition frames =
     andThen (store_call t (\<lambda>io d. AppendProgress io d sid phase (Finite percent) rendition frames)) (\<lambda>_. give ())"

definition load_workload :: "string \<Rightarrow> WorkloadJournalV2 abr_job" where
  "load_workload sid = (\<lambda>w. (map_sum OtherError id (LoadWorkload (Journals w) sid), w))"

subsection \<open>Progress\<close>

definition renditionProgressV2 :: "nat \<Rightarrow> nat \<Rightarrow> rat \<Rightarrow> rat" where
  "renditionProgressV2 index count percent =
     (if count = 0 then 5
      else fl_add 5 (fl_mul (fl_div (fl_add (fl (of_nat index)) (fl_div percent 100)) (fl (of_nat count))) 90))"

definition frameCountV2 :: "DeliveredVideoV2 option \<Rightarrow> u64" where
  "frameCountV2 v = (case v of None \<Rightarrow> 0 | Some x \<Rightarrow> ActualFrames x)"

text \<open>\<open>time.Duration(probe.Duration * float64(time.Second))\<close>.\<close>

definition probed_duration :: "ProbeResult \<Rightarrow> duration" where
  "probed_duration probe = trunc (fl_mul (ProbeDuration probe) 1000000000)"

definition frames_so_far :: "ProgressInfo \<Rightarrow> u64" where
  "frames_so_far info = of_int (max (InfoFrame info) 0)"

subsection \<open>The input\<close>

definition input_failed :: "job_tools \<Rightarrow> string \<Rightarrow> execute_error \<Rightarrow> 'a abr_job" where
  "input_failed t partial e = andThen (remove_file t partial) (\<lambda>_. stop e)"

definition hash_agrees :: "job_tools \<Rightarrow> string \<Rightarrow> string \<Rightarrow> bool abr_job" where
  "hash_agrees t path hash = andThen (attempt (file_digest t path)) (\<lambda>r. give (r = (Inr hash :: unit + string)))"

definition input_present :: "job_tools \<Rightarrow> string \<Rightarrow> string \<Rightarrow> bool abr_job" where
  "input_present t path hash =
     andThen (attempt (read_file t path)) (\<lambda>found.
       case found of
         Inl (_ :: unit) \<Rightarrow> give False
       | Inr _ \<Rightarrow> if hash = [] then give True else hash_agrees t path hash)"

definition ensureInput :: "job_tools \<Rightarrow> ABRWorkloadRequestV2 \<Rightarrow> string \<Rightarrow> unit abr_job" where
  "ensureInput t req inputPath =
     (let hash = ContentSHA256 (Input req); partial = inputPath @ ''.partial'' in
      andThen (input_present t inputPath hash) (\<lambda>present.
        if present then give ()
        else andThen (reportProgress t (ReqWorkloadID req) ''downloading'' 0 [] 0) (\<lambda>_.
          andThen (remove_file t partial) (\<lambda>_.
          andThen (attempt (DownloadFile t (DownloadURL (Input req)) partial)) (\<lambda>downloaded.
            case downloaded of
              Inl (_ :: unit) \<Rightarrow> input_failed t partial (executionFailureV2 ''download_failed'' ''input download failed'' True)
            | Inr _ \<Rightarrow>
                andThen (if hash = [] then give True else hash_agrees t partial hash) (\<lambda>intact.
                  if \<not> intact
                  then input_failed t partial (executionFailureV2 ''input_hash_mismatch'' ''input content hash did not match'' False)
                  else orFail (rename_file t partial inputPath) storage_failed))))))"

subsection \<open>Renditions\<close>

definition exactDeliveredVideoV2 :: "job_tools \<Rightarrow> string \<Rightarrow> bool \<Rightarrow> (abr_world, unit, DeliveredVideoV2 option) job" where
  "exactDeliveredVideoV2 t path hasVideo =
     (if \<not> hasVideo then give None
      else andThen (run_ffprobe t (frame_probe_args (in_state_dir t path)) path) (\<lambda>text.
        case decode_frame_probe text of
          Some [s] \<Rightarrow>
            (case parse_uint (NbReadFrames s) 64 of
               None \<Rightarrow> stop ()
             | Some frames \<Rightarrow>
                 if frames = 0 \<or> ProbedWidth s = 0 \<or> ProbedHeight s = 0 then stop ()
                 else give (Some \<lparr>ActualFrames = of_nat frames, FrameWidth = ProbedWidth s, FrameHeight = ProbedHeight s\<rparr>))
        | _ \<Rightarrow> stop ()))"

text \<open>\<open>encodeRendition\<close>: ffmpeg with its progress, then the measurement of what it wrote.\<close>

definition encodeFilesV2 ::
    "job_tools \<Rightarrow> HWProfile \<Rightarrow> string \<Rightarrow> string \<Rightarrow> string \<Rightarrow> ABRPreset \<Rightarrow> ABRRendition \<Rightarrow> ProbeResult \<Rightarrow> nat \<Rightarrow> unit abr_job" where
  "encodeFilesV2 t hw workloadID renditionDir inputPath preset rendition probe index =
     (let count = length (ABRRenditions preset);
          progress = (\<lambda>percent frames.
            reportProgress t workloadID ''encoding'' (renditionProgressV2 index count percent) (RenditionName rendition) frames);
          args = HLSRenditionCmdContext (in_state_dir t inputPath) (in_state_dir t renditionDir) rendition (ABRSegmentDuration preset) hw probe in
      andThen (orFail (disk t) storage_failed) (\<lambda>_.
      andThen (remove_file t (path_join2 renditionDir ''playlist.m3u8'')) (\<lambda>_.
      andThen (remove_file t (path_join2 renditionDir ''stream.mp4'')) (\<lambda>_.
      andThen (progress 5 0) (\<lambda>_.
      andThen (orFail (run_ffmpeg t args inputPath
          (\<lambda>info. progress (CalcPercent (InfoTime info) (probed_duration probe)) (frames_so_far info))) encode_failed)
        (\<lambda>(reportError, exitOK, scanOK).
      andThen (if exitOK then give ()
               else case reportError of
                 Some e \<Rightarrow> stop e
               | None \<Rightarrow> andThen (ask (Live t)) (\<lambda>live. stop (if live then encode_failed else OtherError (ErrSentinel ''context canceled''))))
        (\<lambda>_. demand scanOK (executionFailureV2 ''encode_failed'' ''rendition progress failed'' True))))))))"

definition measureRenditionV2 :: "job_tools \<Rightarrow> string \<Rightarrow> ABRRendition \<Rightarrow> PreparedRenditionV2 abr_job" where
  "measureRenditionV2 t renditionDir rendition =
     (let playlistPath = path_join2 renditionDir ''playlist.m3u8''; streamPath = path_join2 renditionDir ''stream.mp4'' in
      andThen (orFail (exactDeliveredVideoV2 t streamPath (Video rendition \<noteq> None))
                 (executionFailureV2 ''usage_failed'' ''output frame measurement failed'' False)) (\<lambda>video.
      andThen (orFail (file_digest t playlistPath) output_invalid) (\<lambda>playlistHash.
      andThen (orFail (file_digest t streamPath) output_invalid) (\<lambda>streamHash.
      andThen (orFail (read_file t streamPath) output_invalid) (\<lambda>stream.
        give \<lparr>PrepName = RenditionName rendition, PlaylistPath = playlistPath, StreamPath = streamPath, PlaylistSHA256 = playlistHash,
              StreamSHA256 = streamHash, PrepVideo = video, PrepSize = of_nat (length stream)\<rparr>)))))"

definition encodeRendition ::
    "job_tools \<Rightarrow> HWProfile \<Rightarrow> string \<Rightarrow> string \<Rightarrow> string \<Rightarrow> ABRPreset \<Rightarrow> ABRRendition \<Rightarrow> ProbeResult \<Rightarrow> nat \<Rightarrow>
       PreparedRenditionV2 abr_job" where
  "encodeRendition t hw workloadID workDir inputPath preset rendition probe index =
     (let renditionDir = path_join2 workDir (RenditionName rendition) in
      andThen (encodeFilesV2 t hw workloadID renditionDir inputPath preset rendition probe index) (\<lambda>_.
        measureRenditionV2 t renditionDir rendition))"

definition preparedFilesValid :: "job_tools \<Rightarrow> PreparedRenditionV2 \<Rightarrow> bool abr_job" where
  "preparedFilesValid t prepared =
     andThen (hash_agrees t (path_clean (PlaylistPath prepared)) (PlaylistSHA256 prepared)) (\<lambda>ok.
       if \<not> ok then give False else hash_agrees t (path_clean (StreamPath prepared)) (StreamSHA256 prepared))"

definition preparedArtifactValid :: "job_tools \<Rightarrow> PreparedArtifactV2 \<Rightarrow> bool abr_job" where
  "preparedArtifactValid t prepared = hash_agrees t (path_clean (ArtifactPath prepared)) (ArtifactSHA256 prepared)"

text \<open>A rendition as its checkpoint has it if its files are intact, else encoded and checkpointed anew.\<close>

definition prepareRendition ::
    "job_tools \<Rightarrow> HWProfile \<Rightarrow> string \<Rightarrow> string \<Rightarrow> string \<Rightarrow> ABRPreset \<Rightarrow> ABRRendition \<Rightarrow> ProbeResult \<Rightarrow> nat \<Rightarrow> WorkloadJournalV2 \<Rightarrow>
       PreparedRenditionV2 abr_job" where
  "prepareRendition t hw workloadID workDir inputPath preset rendition probe index record =
     andThen (case map_of (Prepared record) (RenditionName rendition) of
                None \<Rightarrow> give None
              | Some p \<Rightarrow> andThen (preparedFilesValid t p) (\<lambda>ok. give (if ok then Some p else None))) (\<lambda>checkpoint.
       case checkpoint of
         Some p \<Rightarrow> give p
       | None \<Rightarrow>
           andThen (encodeRendition t hw workloadID workDir inputPath preset rendition probe index) (\<lambda>p.
           andThen (store_call t (\<lambda>io d. SavePrepared io d workloadID p)) (\<lambda>_. give p)))"

definition zero_destinations :: RenditionDestinationsV2 where
  "zero_destinations = \<lparr>Playlist = zero_artifact, Stream = zero_artifact\<rparr>"

definition deliverRendition ::
    "job_tools \<Rightarrow> ABRWorkloadRequestV2 \<Rightarrow> ABRPreset \<Rightarrow> ABRRendition \<Rightarrow> nat \<Rightarrow> PreparedRenditionV2 \<Rightarrow> RenditionResultV2 abr_job" where
  "deliverRendition t req preset rendition index prepared =
     (let name = RenditionName rendition;
          destination = (case map_of (Renditions (Output req)) name of None \<Rightarrow> zero_destinations | Some x \<Rightarrow> x);
          result = \<lparr>ResultName = name, PlaylistURI = ArtifactURI (Playlist destination), StreamURI = ArtifactURI (Stream destination),
                    ResultVideo = PrepVideo prepared, ResultSize = PrepSize prepared\<rparr> in
      andThen (reportProgress t (ReqWorkloadID req) ''uploading'' (renditionProgressV2 index (length (ABRRenditions preset)) 90) name
                 (frameCountV2 (PrepVideo prepared))) (\<lambda>_.
      andThen (orFail (UploadFile t (path_clean (PlaylistPath prepared)) (UploadURL (Playlist destination))) upload_failed) (\<lambda>_.
      andThen (orFail (UploadFile t (path_clean (StreamPath prepared)) (UploadURL (Stream destination))) upload_failed) (\<lambda>_.
      andThen (store_call t (\<lambda>io d. SaveDelivered io d (ReqWorkloadID req) result)) (\<lambda>_. give result)))))"

text \<open>The loop over the renditions, from the one with number \<open>index\<close> on; the result is what is delivered.\<close>

fun renditionLoop ::
    "job_tools \<Rightarrow> HWProfile \<Rightarrow> ABRWorkloadRequestV2 \<Rightarrow> string \<Rightarrow> string \<Rightarrow> ABRPreset \<Rightarrow> ProbeResult \<Rightarrow> WorkloadJournalV2 \<Rightarrow> nat \<Rightarrow>
       ABRRendition list \<Rightarrow> RenditionResultV2 list abr_job" where
  "renditionLoop t hw req workDir inputPath preset probe record index [] = give []"
| "renditionLoop t hw req workDir inputPath preset probe record index (rendition # rest) =
     andThen (demand (safeJournalPathV2 (RenditionName rendition) \<and> path_dir (RenditionName rendition) = ''.'')
       (executionFailureV2 ''preset_invalid'' ''selected preset is invalid'' False)) (\<lambda>_.
     andThen (case map_of (Delivered record) (RenditionName rendition) of
         Some checkpoint \<Rightarrow> give checkpoint
       | None \<Rightarrow>
           andThen (prepareRendition t hw (ReqWorkloadID req) workDir inputPath preset rendition probe index record) (\<lambda>prepared.
             deliverRendition t req preset rendition index prepared)) (\<lambda>result.
     andThen (renditionLoop t hw req workDir inputPath preset probe record (Suc index) rest) (\<lambda>results. give (result # results))))"

subsection \<open>The manifest and the whole execution\<close>

definition prepareManifest :: "job_tools \<Rightarrow> string \<Rightarrow> string \<Rightarrow> string \<Rightarrow> WorkloadJournalV2 \<Rightarrow> string abr_job" where
  "prepareManifest t workloadID workDir manifest record =
     (let manifestPath = path_join2 workDir ''master.m3u8'' in
      andThen (case ManifestPrepared record of
                 None \<Rightarrow> give None
               | Some p \<Rightarrow> andThen (preparedArtifactValid t p) (\<lambda>ok. give (if ok then Some p else None))) (\<lambda>checkpoint.
        case checkpoint of
          Some p \<Rightarrow> give (path_clean (ArtifactPath p))
        | None \<Rightarrow>
            andThen (orFail (write_file t manifestPath manifest) packaging_failed) (\<lambda>_.
            andThen (orFail (file_digest t manifestPath) packaging_failed) (\<lambda>hash.
            andThen (store_call t (\<lambda>io d. SavePreparedManifest io d workloadID \<lparr>ArtifactPath = manifestPath, ArtifactSHA256 = hash\<rparr>))
              (\<lambda>_. give manifestPath)))))"

definition deliverManifest :: "job_tools \<Rightarrow> ABRWorkloadRequestV2 \<Rightarrow> string \<Rightarrow> string \<Rightarrow> WorkloadJournalV2 \<Rightarrow> unit abr_job" where
  "deliverManifest t req workDir manifest record =
     (if ManifestDeliveredURI record \<noteq> [] then give ()
      else andThen (prepareManifest t (ReqWorkloadID req) workDir manifest record) (\<lambda>manifestPath.
        andThen (orFail (UploadFile t manifestPath (UploadURL (Manifest (Output req))))
                   (executionFailureV2 ''upload_failed'' ''manifest upload failed'' True)) (\<lambda>_.
          store_call t (\<lambda>io d. SaveDeliveredManifest io d (ReqWorkloadID req) (ArtifactURI (Manifest (Output req)))))))"

definition manifest_paths :: "ABRPreset \<Rightarrow> string \<Rightarrow> string option" where
  "manifest_paths preset name = (if name \<in> set (RenditionNames preset) then Some (name @ ''/playlist.m3u8'') else None)"

definition Execute :: "job_tools \<Rightarrow> HWProfile \<Rightarrow> ABRWorkloadRequestV2 \<Rightarrow> ABRPreset \<Rightarrow> ABRTerminalResultV2 abr_job" where
  "Execute t hw req preset =
     (let workDir = path_join2 ''work'' (ReqWorkloadID req);
          inputPath = path_join2 workDir (''input'' @ guessExtension (DownloadURL (Input req))) in
      andThen (orFail (disk t) storage_failed) (\<lambda>_.
      andThen (ensureInput t req inputPath) (\<lambda>_.
      andThen (reportProgress t (ReqWorkloadID req) ''probing'' 5 [] 0) (\<lambda>_.
      andThen (orFail (probeMediaV2 t inputPath) (executionFailureV2 ''probe_failed'' ''input probe failed'' False)) (\<lambda>probe.
      andThen (load_workload (ReqWorkloadID req)) (\<lambda>record.
      andThen (renditionLoop t hw req workDir inputPath preset probe record 0 (ABRRenditions preset)) (\<lambda>delivered.
      andThen (reportProgress t (ReqWorkloadID req) ''packaging'' 98 [] 0) (\<lambda>_.
      andThen (deliverManifest t req workDir (GenerateMasterPlaylist (ABRRenditions preset) (manifest_paths preset)) record) (\<lambda>_.
        case CalculateFrameMegapixelUnitsV2 delivered of
          Inl _ \<Rightarrow> stop (executionFailureV2 ''usage_failed'' ''usage measurement failed'' False)
        | Inr units \<Rightarrow>
            give \<lparr>ResSchema = ABRResultSchemaV2, ResWorkloadID = ReqWorkloadID req,
                  ResRequestSHA256 = RequestContentSHA256V2 (Digest t) req, ResOutcome = ''succeeded'',
                  ManifestURI = ArtifactURI (Manifest (Output req)), ResRenditions = delivered,
                  ResUsage = \<lparr>ClaimUnit = ABRWorkUnitV2, Units = units\<rparr>\<rparr>)))))))))"

end
