(* ===== verification/Job_Logic.thy ===== *)
theory Job_Logic
  imports Job_Files
begin

section \<open>Reasoning about jobs\<close>

text \<open>
  A triple: from a world that satisfies the precondition, a job ends in a world that satisfies its
  postcondition for the result, or the other one for the error.  One rule per building block, so that a
  property of an executor is proved along its definition.
\<close>

named_theorems job_rules \<open>triples of jobs\<close>

definition holds :: "('w \<Rightarrow> bool) \<Rightarrow> ('w, 'e, 'a) job \<Rightarrow> ('a \<Rightarrow> 'w \<Rightarrow> bool) \<Rightarrow> ('e \<Rightarrow> 'w \<Rightarrow> bool) \<Rightarrow> bool" where
  "holds P m Q E \<longleftrightarrow> (\<forall>w. P w \<longrightarrow> (case m w of (Inl e, w') \<Rightarrow> E e w' | (Inr a, w') \<Rightarrow> Q a w'))"

abbreviation keeps :: "('w \<Rightarrow> bool) \<Rightarrow> ('w, 'e, 'a) job \<Rightarrow> bool" where
  "keeps I m \<equiv> holds I m (\<lambda>_. I) (\<lambda>_. I)"

lemma holds_result: "holds P m Q E \<Longrightarrow> P w \<Longrightarrow> m w = (Inr a, w') \<Longrightarrow> Q a w'"
  by (auto simp: holds_def dest!: spec [of _ w])

lemma holds_error: "holds P m Q E \<Longrightarrow> P w \<Longrightarrow> m w = (Inl e, w') \<Longrightarrow> E e w'"
  by (auto simp: holds_def dest!: spec [of _ w])

lemma keeps_world: "keeps I m \<Longrightarrow> I w \<Longrightarrow> I (snd (m w))"
  by (cases "m w"; cases "fst (m w)") (auto simp: holds_def dest!: spec [of _ w])

lemma holds_weaken:
  "holds P m Q E \<Longrightarrow> (\<And>w. P' w \<Longrightarrow> P w) \<Longrightarrow> (\<And>a w. Q a w \<Longrightarrow> Q' a w) \<Longrightarrow> (\<And>e w. E e w \<Longrightarrow> E' e w) \<Longrightarrow> holds P' m Q' E'"
  unfolding holds_def by (fastforce split: sum.splits prod.splits)

lemma holds_give: "(\<And>w. P w \<Longrightarrow> Q a w) \<Longrightarrow> holds P (give a) Q E"
  by (simp add: holds_def give_def)

lemma holds_stop: "(\<And>w. P w \<Longrightarrow> E e w) \<Longrightarrow> holds P (stop e) Q E"
  by (simp add: holds_def stop_def)

lemma holds_andThen:
  assumes "holds P m R E" and "\<And>a. holds (R a) (f a) Q E"
  shows "holds P (andThen m f) Q E"
  unfolding holds_def
proof (intro allI impI)
  fix w assume p: "P w"
  show "case andThen m f w of (Inl e, w') \<Rightarrow> E e w' | (Inr a, w') \<Rightarrow> Q a w'"
  proof (cases "m w")
    case (Pair r w')
    show ?thesis
    proof (cases r)
      case (Inl e)
      then show ?thesis using holds_error [OF assms(1) p] Pair by (simp add: andThen_def)
    next
      case (Inr b)
      then have "R b w'" using holds_result [OF assms(1) p] Pair by simp
      then show ?thesis using assms(2) [of b] Pair Inr by (simp add: andThen_def holds_def)
    qed
  qed
qed

lemma holds_orFail: "holds P m Q (\<lambda>_. E e) \<Longrightarrow> holds P (orFail m e) Q E"
  unfolding holds_def orFail_def by (fastforce split: sum.splits prod.splits)

lemma holds_attempt: "holds P m (\<lambda>a. Q (Inr a)) (\<lambda>e. Q (Inl e)) \<Longrightarrow> holds P (attempt m) Q E"
  unfolding holds_def attempt_def by (fastforce split: sum.splits prod.splits)

lemma holds_ignoring: "holds P m (\<lambda>_. Q ()) (\<lambda>_. Q ()) \<Longrightarrow> holds P (ignoring m) Q E"
  unfolding holds_def ignoring_def by (fastforce split: sum.splits prod.splits)

lemma holds_demand: "(\<And>w. c \<Longrightarrow> P w \<Longrightarrow> Q () w) \<Longrightarrow> (\<And>w. \<not> c \<Longrightarrow> P w \<Longrightarrow> E e w) \<Longrightarrow> holds P (demand c e) Q E"
  by (simp add: holds_def demand_def give_def stop_def)

lemma holds_ask: "(\<And>w. P w \<Longrightarrow> Q (f (Tick w)) (w\<lparr>Tick := Suc (Tick w)\<rparr>)) \<Longrightarrow> holds P (ask f) Q E"
  by (simp add: holds_def ask_def)

lemma holds_get: "(\<And>w. P w \<Longrightarrow> Q (Files w) w) \<Longrightarrow> holds P get_files Q E"
  by (simp add: holds_def get_files_def)

lemma holds_set: "(\<And>w. P w \<Longrightarrow> Q () (w\<lparr>Files := fs\<rparr>)) \<Longrightarrow> holds P (set_files fs) Q E"
  by (simp add: holds_def set_files_def)

lemma holds_if: "(c \<Longrightarrow> holds P m Q E) \<Longrightarrow> (\<not> c \<Longrightarrow> holds P m' Q E) \<Longrightarrow> holds P (if c then m else m') Q E"
  by simp

lemma holds_option: "(v = None \<Longrightarrow> holds P m Q E) \<Longrightarrow> (\<And>x. v = Some x \<Longrightarrow> holds P (f x) Q E) \<Longrightarrow>
    holds P (case v of None \<Rightarrow> m | Some x \<Rightarrow> f x) Q E"
  by (cases v) simp_all

lemma holds_sum: "(\<And>x. v = Inl x \<Longrightarrow> holds P (g x) Q E) \<Longrightarrow> (\<And>x. v = Inr x \<Longrightarrow> holds P (f x) Q E) \<Longrightarrow>
    holds P (case v of Inl x \<Rightarrow> g x | Inr x \<Rightarrow> f x) Q E"
  by (cases v) simp_all

lemma holds_pair: "(\<And>x y. v = (x, y) \<Longrightarrow> holds P (f x y) Q E) \<Longrightarrow> holds P (case v of (x, y) \<Rightarrow> f x y) Q E"
  by (cases v) simp

text \<open>Invariants pass through every block.\<close>

lemmas holds_blocks = holds_andThen holds_orFail holds_attempt holds_ignoring holds_if holds_option holds_sum holds_pair

lemma keeps_basic [job_rules]:
  "keeps I (give a)" "keeps I (stop e)" "keeps I (demand c e)" "keeps I get_files"
  by (auto intro: holds_give holds_stop holds_demand holds_get)

lemma keeps_orFail [job_rules]: "keeps I m \<Longrightarrow> keeps I (orFail m e)"
  by (rule holds_orFail)

lemma keeps_attempt [job_rules]: "keeps I m \<Longrightarrow> keeps I (attempt m)"
  by (rule holds_attempt)

lemma keeps_ignoring [job_rules]: "keeps I m \<Longrightarrow> keeps I (ignoring m)"
  by (rule holds_ignoring)

lemma keeps_andThen [job_rules]: "keeps I m \<Longrightarrow> (\<And>a. keeps I (f a)) \<Longrightarrow> keeps I (andThen m f)"
  by (rule holds_andThen)

lemmas keeps_cases [job_rules] = holds_if [where Q = "\<lambda>_. I" and E = "\<lambda>_. I" and P = I for I]
  holds_option [where Q = "\<lambda>_. I" and E = "\<lambda>_. I" and P = I for I]
  holds_sum [where Q = "\<lambda>_. I" and E = "\<lambda>_. I" and P = I for I]
  holds_pair [where Q = "\<lambda>_. I" and E = "\<lambda>_. I" and P = I for I]

subsection \<open>What the file operations leave alone\<close>

text \<open>
  The promise of an invariant that talks neither of files nor, with a later time, of less: the clock may
  advance and files may change.
\<close>

locale file_blind =
  fixes I :: "'w job_world_scheme \<Rightarrow> bool"
  assumes later: "I w \<Longrightarrow> I (w\<lparr>Tick := Suc (Tick w)\<rparr>)"
    and any_files: "I w \<Longrightarrow> I (w\<lparr>Files := fs\<rparr>)"
begin

lemma asks: "keeps I (ask f)" by (rule holds_ask) (rule later)

lemma sets: "keeps I (set_files fs)" by (rule holds_set) (rule any_files)

lemmas basic = keeps_andThen keeps_basic keeps_cases keeps_attempt keeps_ignoring keeps_orFail asks sets

lemma disks: "keeps I (disk t)" unfolding disk_def by (intro basic)

lemma reads: "keeps I (read_file t p)" unfolding read_file_def by (intro basic disks)

lemma writes: "keeps I (write_file t p c)" unfolding write_file_def by (intro basic disks)

lemma removes: "keeps I (remove_file t p)" unfolding remove_file_def by (intro basic disks)

lemma renames: "keeps I (rename_file t p q)" unfolding rename_file_def by (intro basic disks)

lemma digests: "keeps I (file_digest t p)" unfolding file_digest_def by (intro basic reads)

lemma downloads: "keeps I (DownloadFile t url p)" unfolding DownloadFile_def by (intro basic writes)

lemma probes: "keeps I (run_ffprobe t args p)" unfolding run_ffprobe_def by (intro basic reads)

lemma media: "keeps I (probeMediaV2 t p)" unfolding probeMediaV2_def by (intro basic probes)

lemma all_writes: "keeps I (write_all fs)" unfolding write_all_def by (intro basic)

lemmas files = disks reads writes removes renames digests downloads probes media all_writes

lemma reports: "(\<And>info. keeps I (report info)) \<Longrightarrow> keeps I (report_lines t report l lines)"
  by (induction t report l lines rule: report_lines.induct) (auto intro!: basic split: option.splits)

lemma encodes: "(\<And>info. keeps I (report info)) \<Longrightarrow> keeps I (run_ffmpeg t args p report)"
  unfolding run_ffmpeg_def Let_def by (intro basic files reports)

end

subsection \<open>What a job knows of its files and uploads\<close>

text \<open>
  A view of the world: what is known of a value \<open>r\<close> of the runner (its journal), of the uploads and of the
  files.  Each runner has one; the file operations refine it in the same way.
\<close>

type_synonym contents = "(string \<times> string) list"

locale job_view =
  fixes V :: "('r \<Rightarrow> contents \<Rightarrow> contents \<Rightarrow> bool) \<Rightarrow> 'w job_world_scheme \<Rightarrow> bool"
  assumes mono: "V R w \<Longrightarrow> (\<And>r u f. R r u f \<Longrightarrow> R' r u f) \<Longrightarrow> V R' w"
    and later: "V R w \<Longrightarrow> V R (w\<lparr>Tick := Suc (Tick w)\<rparr>)"
    and known: "V R w \<Longrightarrow> V (\<lambda>r u f. R r u f \<and> f = Files w) w"
    and files: "V (\<lambda>r u f. P r u) w \<Longrightarrow> V (\<lambda>r u f. P r u) (w\<lparr>Files := fs\<rparr>)"
    and uploads: "V R w \<Longrightarrow> (\<And>r u f. R r u f \<Longrightarrow> R' r (u @ [x]) f) \<Longrightarrow> V R' (w\<lparr>Uploads := Uploads w @ [x]\<rparr>)"
begin

lemma asks: "holds (V R) (ask f) (\<lambda>_. V R) E"
  by (rule holds_ask) (rule later)

lemma disks: "holds (V R) (disk t) (\<lambda>_. V R) (\<lambda>_. V R)"
  unfolding disk_def by (rule holds_andThen [OF asks]) (auto intro: holds_demand)

lemma reads: "holds (V R) (read_file t p) (\<lambda>c. V (\<lambda>r u f. R r u f \<and> map_of f p = Some c)) (\<lambda>_. V R)"
proof -
  have "holds (V R) get_files (\<lambda>fs. V (\<lambda>r u f. R r u f \<and> f = fs)) (\<lambda>_. V R)" by (rule holds_get) (rule known)
  moreover have "holds (V (\<lambda>r u f. R r u f \<and> f = fs)) (case map_of fs p of None \<Rightarrow> stop () | Some c \<Rightarrow> give c)
      (\<lambda>c. V (\<lambda>r u f. R r u f \<and> map_of f p = Some c)) (\<lambda>_. V R)" for fs
    by (rule holds_option; rule holds_stop holds_give; erule mono) simp_all
  ultimately show ?thesis unfolding read_file_def by (intro holds_andThen [OF disks] holds_andThen)
qed

lemma digests:
  "holds (V R) (file_digest t p) (\<lambda>h. V (\<lambda>r u f. R r u f \<and> (\<exists>c. map_of f p = Some c \<and> content_sha256 t c = h))) (\<lambda>_. V R)"
  unfolding file_digest_def by (rule holds_andThen [OF reads]) (rule holds_give, erule mono, blast)

lemma sends:
  assumes "\<And>r u f c. R r u f \<Longrightarrow> map_of f p = Some c \<Longrightarrow> Q r (u @ [(url, c)]) f"
  shows "holds (V R) (UploadFile t p url) (\<lambda>_. V Q) (\<lambda>_. V R)"
proof -
  let ?P = "\<lambda>c. V (\<lambda>r u f. R r u f \<and> map_of f p = Some c)"
  have log: "holds (?P c) (log_upload url c) (\<lambda>_. V Q) (\<lambda>_. V R)" for c
  proof -
    have "V Q (w\<lparr>Uploads := Uploads w @ [(url, c)]\<rparr>)" if "?P c w" for w
      by (rule uploads [OF that]) (use assms in blast)
    then show ?thesis by (simp add: holds_def log_upload_def)
  qed
  have stop: "holds (?P c) (stop ()) (\<lambda>_. V Q) (\<lambda>_. V R)" for c
    by (rule holds_stop) (erule mono, simp)
  show ?thesis
    unfolding UploadFile_def by (intro holds_andThen [OF reads] holds_andThen [OF asks] holds_option holds_if log stop)
qed

end

sublocale job_view \<subseteq> blind: file_blind "V (\<lambda>r u f. R r u)" for R
  by unfold_locales (rule later files, assumption)+

end
