(* ===== verification/ABR_Execution.thy ===== *)
theory ABR_Execution
  imports ABR_Executor Job_Logic ABR_System
begin

section \<open>What an ABR execution does\<close>

text \<open>
  The executor is a refinement of the one that \<open>ABR_System\<close> runs: whatever it does to the journals
  is a sequence of progress events and checkpoints of its own workload.
\<close>

subsection \<open>Only checkpoints of its own workload\<close>

inductive executor_calls :: "string \<Rightarrow> journals \<Rightarrow> journals \<Rightarrow> bool" for sid where
  no_call: "executor_calls sid d d"
| a_call: "executor_calls sid d d' \<Longrightarrow> checkpoint_call c sid \<or> (\<exists>phase x name frames. c = CallProgress sid phase x name frames) \<Longrightarrow>
    executor_calls sid d (run_call io c d')"

lemma holds_single: "(\<And>s. holds P (f s) Q E) \<Longrightarrow> holds P m Q E \<Longrightarrow> holds P (case x of Some [s] \<Rightarrow> f s | _ \<Rightarrow> m) Q E"
  by (auto split: option.splits list.splits)

text \<open>An invariant that allows what an execution does: files, uploads and its calls of the store.\<close>

definition own_call :: "string \<Rightarrow> journal_call \<Rightarrow> bool" where
  "own_call sid c \<longleftrightarrow> checkpoint_call c sid \<or> (\<exists>phase x name frames. c = CallProgress sid phase x name frames)"

locale executor_blind = file_blind I for I :: "abr_world \<Rightarrow> bool" and sid :: string +
  assumes any_uploads: "I w \<Longrightarrow> I (w\<lparr>Uploads := us\<rparr>)"
    and any_call: "I w \<Longrightarrow> own_call sid c \<Longrightarrow> I (w\<lparr>Tick := Suc (Tick w), Journals := run_call io c (Journals w)\<rparr>)"
begin

lemma store_call:
  assumes "\<And>io d. snd (f io d) = run_call io c d" and "own_call sid c"
  shows "keeps I (store_call t f)"
proof -
  have "I (snd (store_call t f w))" if "I w" for w
    using any_call [OF that assms(2), of "Saves t (Tick w)"] assms(1) [of "Saves t (Tick w)" "Journals w"]
    by (cases "f (Saves t (Tick w)) (Journals w)") (simp add: store_call_def)
  then show ?thesis unfolding holds_def by (auto split: prod.splits sum.splits) (metis snd_conv)+
qed

lemma stores:
  "keeps I (store_call t (\<lambda>io d. AppendProgress io d sid phase x name frames))"
  "keeps I (store_call t (\<lambda>io d. SavePrepared io d sid p))"
  "keeps I (store_call t (\<lambda>io d. SaveDelivered io d sid r))"
  "keeps I (store_call t (\<lambda>io d. SavePreparedManifest io d sid a))"
  "keeps I (store_call t (\<lambda>io d. SaveDeliveredManifest io d sid uri))"
  by (rule store_call [of _ "CallProgress sid phase x name frames"] store_call [of _ "CallPrepared sid p"] store_call [of _ "CallDelivered sid r"]
      store_call [of _ "CallManifest sid a"] store_call [of _ "CallManifestOut sid uri"]; simp add: own_call_def checkpoint_call_def; fail)+

lemma uploads: "keeps I (UploadFile t p url)"
proof -
  have "keeps I (log_upload url c)" for c by (simp add: holds_def log_upload_def any_uploads)
  then show ?thesis unfolding UploadFile_def by (intro basic reads)
qed

lemma loads: "keeps I (load_workload x)" by (simp add: holds_def load_workload_def split: sum.splits)

lemma progress: "keeps I (reportProgress t sid phase x name frames)"
  unfolding reportProgress_def by (intro basic stores)

lemma hashes: "keeps I (hash_agrees t p h)"
  unfolding hash_agrees_def by (intro basic files)

lemmas calls = basic files encodes stores uploads loads progress hashes

lemma inputs: "ReqWorkloadID req = sid \<Longrightarrow> keeps I (ensureInput t req p)"
  unfolding ensureInput_def input_present_def input_failed_def Let_def by (simp only:, intro calls)

lemma videos: "keeps I (exactDeliveredVideoV2 t p v)"
  unfolding exactDeliveredVideoV2_def by (intro calls holds_single)

lemma encodings: "keeps I (encodeRendition t hw sid workDir inputPath preset rendition probe index)"
  unfolding encodeRendition_def encodeFilesV2_def measureRenditionV2_def Let_def by (intro calls videos)

lemma renditions: "ReqWorkloadID req = sid \<Longrightarrow> keeps I (renditionLoop t hw req workDir inputPath preset probe rec index rs)"
proof (induction t hw req workDir inputPath preset probe rec index rs rule: renditionLoop.induct)
  case (2 t hw req workDir inputPath preset probe rec index rendition rest)
  show ?case
    unfolding renditionLoop.simps prepareRendition_def deliverRendition_def preparedFilesValid_def Let_def 2
    by (intro calls encodings 2)
qed (simp add: calls)

lemma manifests: "ReqWorkloadID req = sid \<Longrightarrow> keeps I (deliverManifest t req workDir manifest rec)"
  unfolding deliverManifest_def prepareManifest_def preparedArtifactValid_def Let_def by (simp only:, intro calls)

lemma executes: "ReqWorkloadID req = sid \<Longrightarrow> keeps I (Execute t hw req preset)"
  unfolding Execute_def Let_def by (simp only:, intro calls inputs renditions manifests; assumption)

end

interpretation reached: executor_blind "\<lambda>w. executor_calls sid d (Journals w)" sid for sid d
  by unfold_locales (auto simp: own_call_def intro: a_call)

interpretation late: executor_blind "\<lambda>w. k \<le> Tick w" sid for k sid
  by unfold_locales simp_all

text \<open>
  (C31) The executor is one that the runner expects: whatever the disk, the network and the programs answer, all
  that an execution does to the journals is a sequence of progress events and checkpoints of its own
  workload, so its runs are runs of the executor of the transition system.
\<close>

theorem executor_only_checkpoints:
  "executor_calls (ReqWorkloadID req) (Journals w) (Journals (snd (Execute t hw req preset w)))"
  by (rule keeps_world [OF reached.executes]) (simp_all add: no_call)

end
