(* ===== verification/ABR_Tracking.thy ===== *)
theory ABR_Tracking
  imports ABR_Execution
begin

section \<open>The journal of a workload while it is executed\<close>

text \<open>
  What an execution knows of the journal, of its uploads and of its files between its steps: the predicates
  that the triples of its parts are about, up to the checkpoint of a rendition.
\<close>

subsection \<open>A world and the journal of its workload\<close>

text \<open>
  What is known of the journal \<open>r\<close> of the workload, of the uploads and of the files, as long as the
  number of steps stays below 2^64.
\<close>

definition tracked :: "nat \<Rightarrow> string \<Rightarrow> (WorkloadJournalV2 \<Rightarrow> (string \<times> string) list \<Rightarrow> (string \<times> string) list \<Rightarrow> bool) \<Rightarrow> abr_world \<Rightarrow> bool" where
  "tracked n sid R w \<longleftrightarrow> (n + Tick w < 2 ^ 64 \<longrightarrow> journals_ok (n + Tick w) (Journals w) \<and>
     (\<exists>r. loadJournalV2 (Journals w) sid = Inr r \<and> R r (Uploads w) (Files w)))"

lemma tracked_mono: "tracked n sid R w \<Longrightarrow> (\<And>r u f. R r u f \<Longrightarrow> R' r u f) \<Longrightarrow> tracked n sid R' w"
  by (auto simp: tracked_def)

interpretation view: job_view "tracked n sid" for n sid
proof
  show "tracked n sid R (w\<lparr>Tick := Suc (Tick w)\<rparr>)" if "tracked n sid R w" for R w
    using that journals_ok_mono [of "n + Tick w" "Journals w" "Suc (n + Tick w)"] by (auto simp: tracked_def)
qed (auto simp: tracked_def)

lemma tracked_hash:
  "holds (tracked n sid R) (hash_agrees t p h)
     (\<lambda>ok. tracked n sid (\<lambda>r u f. R r u f \<and> (ok \<longrightarrow> (\<exists>c. map_of f p = Some c \<and> content_sha256 t c = h)))) E"
proof -
  have "holds (tracked n sid R) (attempt (file_digest t p))
      (\<lambda>x. tracked n sid (\<lambda>r u f. R r u f \<and> (x = Inr h \<longrightarrow> (\<exists>c. map_of f p = Some c \<and> content_sha256 t c = h)))) E"
    by (intro holds_attempt holds_weaken [OF view.digests]) (auto elim: tracked_mono)
  then show ?thesis unfolding hash_agrees_def by (rule holds_andThen) (auto intro!: holds_give elim: tracked_mono)
qed

context journal_op
begin

lemma update_result:
  assumes adm: admits and d: "journals_ok n d" and small: "Suc n < 2 ^ 64" and l: "loadJournalV2 d sid = Inr r"
    and u: "update_journal io d sid step = (res, d')"
  shows "journals_ok (Suc n) d' \<and>
    ((\<exists>e. res = Inl e \<and> d' = d) \<or>
     (\<exists>a r'. (res = Inr a \<or> (\<exists>e. res = Inl e)) \<and> step r = Inr (a, r') \<and> loadJournalV2 d' sid = Inr r' \<and> journal_advances r r'))"
proof -
  have k: "journals_ok (Suc n) d'" using update_keeps [OF adm d small, of io sid] u by simp
  show ?thesis
  proof (cases "step r")
    case (Inl e)
    then have "res = Inl e \<and> d' = d" using u l by (simp add: update_journal_def)
    then show ?thesis using k by blast
  next
    case (Inr p)
    obtain a r' where p: "step r = Inr (a, r')" using Inr by (cases p) auto
    have r': "journal_ok (Suc n) r'" "journal_advances r r'" using keeps [OF adm load_journal_ok [OF d l] small p] by simp_all
    have w: "WorkloadID r' = sid" using r'(2) load_journal_Inr [OF l] by (simp add: journal_advances_def)
    have "(\<exists>e. res = Inl e \<and> d' = d) \<or> ((res = Inr a \<or> (\<exists>e. res = Inl e)) \<and> d' = put sid (JournalFile r') d)"
      using u l p w by (cases io) (auto simp: update_journal_def saveJournalV2_def err_def)
    moreover have "loadJournalV2 d' sid = Inr r'" if "d' = put sid (JournalFile r') d"
      using load_journal_file [OF k, of sid "JournalFile r'"] that by auto
    ultimately show ?thesis using k p r'(2) by blast
  qed
qed

lemma tracked_store:
  assumes adm: admits
    and ok: "\<And>r a r' u f. step r = Inr (a, r') \<Longrightarrow> journal_advances r r' \<Longrightarrow> R r u f \<Longrightarrow> Q a r' u f"
    and err: "\<And>r u f. R r u f \<Longrightarrow> E r u f" "\<And>a r u f. Q a r u f \<Longrightarrow> E r u f"
  shows "holds (tracked n sid R) (store_call t (\<lambda>io d. update_journal io d sid step)) (\<lambda>a. tracked n sid (Q a)) (\<lambda>_. tracked n sid E)"
  unfolding holds_def
proof (intro allI impI)
  fix w assume w: "tracked n sid R w"
  obtain res d' where u: "update_journal (Saves t (Tick w)) (Journals w) sid step = (res, d')" by (cases "update_journal (Saves t (Tick w)) (Journals w) sid step")
  let ?w = "w\<lparr>Tick := Suc (Tick w), Journals := d'\<rparr>"
  have c: "store_call t (\<lambda>io d. update_journal io d sid step) w = (map_sum OtherError id res, ?w)" using u by (simp add: store_call_def)
  show "case store_call t (\<lambda>io d. update_journal io d sid step) w of (Inl e, w') \<Rightarrow> tracked n sid E w' | (Inr a, w') \<Rightarrow> tracked n sid (Q a) w'"
  proof (cases "Suc (n + Tick w) < 2 ^ 64")
    case False
    then have "tracked n sid X ?w" for X by (simp add: tracked_def)
    then show ?thesis unfolding c by (cases res) auto
  next
    case True
    then obtain r where r: "loadJournalV2 (Journals w) sid = Inr r" "R r (Uploads w) (Files w)" "journals_ok (n + Tick w) (Journals w)"
      using w by (auto simp: tracked_def)
    note res = update_result [OF adm r(3) True r(1) u]
    then consider e where "res = Inl e" "d' = Journals w"
      | a r' where "res = Inr a \<or> (\<exists>e. res = Inl e)" "step r = Inr (a, r')" "loadJournalV2 d' sid = Inr r'" "journal_advances r r'" by blast
    then show ?thesis
    proof cases
      case 1
      then have "tracked n sid E ?w" using res err(1) [OF r(2)] r(1) by (simp add: tracked_def)
      then show ?thesis unfolding c using 1 by simp
    next
      case (2 a r')
      have "Q a r' (Uploads w) (Files w)" by (rule ok [OF 2(2,4) r(2)])
      then have "tracked n sid (Q a) ?w" "tracked n sid E ?w" using res 2(3) err(2) by (auto simp: tracked_def)
      then show ?thesis unfolding c using 2(1) by auto
    qed
  qed
qed

end

subsection \<open>What is known during an execution\<close>

text \<open>
  A delivered rendition has its prepared checkpoint, and both its files were uploaded with the contents that
  the checkpoint names.
\<close>

definition evidence :: "job_tools \<Rightarrow> ABRWorkloadRequestV2 \<Rightarrow> WorkloadJournalV2 \<Rightarrow> (string \<times> string) list \<Rightarrow> string \<Rightarrow> bool" where
  "evidence t req r uploads name \<longleftrightarrow>
     (\<exists>p dest c1 c2. map_of (Prepared r) name = Some p \<and> map_of (Renditions (Output req)) name = Some dest \<and>
        (UploadURL (Playlist dest), c1) \<in> set uploads \<and> content_sha256 t c1 = PlaylistSHA256 p \<and>
        (UploadURL (Stream dest), c2) \<in> set uploads \<and> content_sha256 t c2 = StreamSHA256 p)"

definition may_upload :: "ABRWorkloadRequestV2 \<Rightarrow> WorkloadJournalV2 \<Rightarrow> string \<Rightarrow> bool" where
  "may_upload req r0 url \<longleftrightarrow>
     (\<exists>name dest. map_of (Delivered r0) name = None \<and> map_of (Renditions (Output req)) name = Some dest \<and>
        (url = UploadURL (Playlist dest) \<or> url = UploadURL (Stream dest))) \<or>
     (ManifestDeliveredURI r0 = [] \<and> url = UploadURL (Manifest (Output req)))"

definition manifest_evidence :: "job_tools \<Rightarrow> ABRWorkloadRequestV2 \<Rightarrow> WorkloadJournalV2 \<Rightarrow> (string \<times> string) list \<Rightarrow> bool" where
  "manifest_evidence t req r uploads \<longleftrightarrow>
     (\<exists>a c. ManifestPrepared r = Some a \<and> (UploadURL (Manifest (Output req)), c) \<in> set uploads \<and> content_sha256 t c = ArtifactSHA256 a)"

definition base ::
    "job_tools \<Rightarrow> ABRWorkloadRequestV2 \<Rightarrow> WorkloadJournalV2 \<Rightarrow> (string \<times> string) list \<Rightarrow> WorkloadJournalV2 \<Rightarrow> (string \<times> string) list \<Rightarrow> bool" where
  "base t req r0 u0 r u \<longleftrightarrow> journal_advances r0 r \<and> TerminalEvent r = None \<and>
     (\<exists>new. u = u0 @ new \<and> (\<forall>(url, c)\<in>set new. may_upload req r0 url) \<and>
        (\<forall>name. map_of (Delivered r) name \<noteq> None \<longrightarrow> map_of (Delivered r0) name = None \<longrightarrow> evidence t req r new name) \<and>
        (ManifestDeliveredURI r \<noteq> [] \<longrightarrow> ManifestDeliveredURI r0 = [] \<longrightarrow> manifest_evidence t req r new))"

text \<open>Outside of the names that were dealt with, the checkpoints are those of the start.\<close>

definition kept :: "WorkloadJournalV2 \<Rightarrow> string set \<Rightarrow> RenditionResultV2 list \<Rightarrow> WorkloadJournalV2 \<Rightarrow> bool" where
  "kept r0 names results r \<longleftrightarrow>
     (\<forall>name. name \<notin> names \<longrightarrow> map_of (Delivered r) name = map_of (Delivered r0) name \<and> map_of (Prepared r) name = map_of (Prepared r0) name) \<and>
     (\<forall>x\<in>set results. ResultName x \<in> names \<and> map_of (Delivered r) (ResultName x) = Some x)"

definition track :: "WorkloadJournalV2 \<Rightarrow> string set \<Rightarrow> RenditionResultV2 list \<Rightarrow> WorkloadJournalV2 \<Rightarrow> bool" where
  "track r0 names results r \<longleftrightarrow> ManifestDeliveredURI r = ManifestDeliveredURI r0 \<and> ManifestPrepared r = ManifestPrepared r0 \<and> kept r0 names results r"

lemma evidence_same:
  "map_of (Prepared r') name = map_of (Prepared r) name \<Longrightarrow> evidence t req r u name \<Longrightarrow> evidence t req r' u name"
  by (simp add: evidence_def)

lemma evidence_more: "evidence t req r u name \<Longrightarrow> set u \<subseteq> set u' \<Longrightarrow> evidence t req r u' name"
  unfolding evidence_def by blast

lemma base_same:
  assumes b: "base t req r0 u0 r u" and adv: "journal_advances r r'" and te: "TerminalEvent r' = TerminalEvent r"
    and same: "\<And>name. map_of (Delivered r') name \<noteq> None \<Longrightarrow> map_of (Delivered r) name \<noteq> None"
      "\<And>name. map_of (Delivered r') name \<noteq> None \<Longrightarrow> map_of (Prepared r') name = map_of (Prepared r) name"
    and manifest: "ManifestDeliveredURI r' \<noteq> [] \<Longrightarrow> ManifestDeliveredURI r \<noteq> [] \<and> ManifestPrepared r' = ManifestPrepared r"
  shows "base t req r0 u0 r' u"
proof -
  obtain new where new: "u = u0 @ new" "\<forall>(url, c)\<in>set new. may_upload req r0 url"
    and ev: "\<And>name. map_of (Delivered r) name \<noteq> None \<Longrightarrow> map_of (Delivered r0) name = None \<Longrightarrow> evidence t req r new name"
    and mf: "ManifestDeliveredURI r \<noteq> [] \<Longrightarrow> ManifestDeliveredURI r0 = [] \<Longrightarrow> manifest_evidence t req r new"
    using b by (auto simp: base_def)
  have "evidence t req r' new name" if "map_of (Delivered r') name \<noteq> None" "map_of (Delivered r0) name = None" for name
    by (rule evidence_same [of _ _ r]) (use same [of name] ev [of name] that in auto)
  moreover have "manifest_evidence t req r' new" if "ManifestDeliveredURI r' \<noteq> []" "ManifestDeliveredURI r0 = []"
    using mf manifest that by (simp add: manifest_evidence_def)
  moreover have "journal_advances r0 r'" by (rule journal_advances_trans [OF _ adv]) (use b in \<open>simp add: base_def\<close>)
  moreover have "TerminalEvent r' = None" using b te by (simp add: base_def)
  ultimately show ?thesis unfolding base_def using new by (intro conjI exI [of _ new]) simp_all
qed

lemma base_upload: "base t req r0 u0 r u \<Longrightarrow> may_upload req r0 url \<Longrightarrow> base t req r0 u0 r (u @ [(url, c)])"
proof -
  assume b: "base t req r0 u0 r u" and url: "may_upload req r0 url"
  obtain new where new: "u = u0 @ new" "\<forall>(url, c)\<in>set new. may_upload req r0 url"
    and ev: "\<And>name. map_of (Delivered r) name \<noteq> None \<Longrightarrow> map_of (Delivered r0) name = None \<Longrightarrow> evidence t req r new name"
    and mf: "ManifestDeliveredURI r \<noteq> [] \<Longrightarrow> ManifestDeliveredURI r0 = [] \<Longrightarrow> manifest_evidence t req r new"
    using b by (auto simp: base_def)
  let ?new = "new @ [(url, c)]"
  have "u @ [(url, c)] = u0 @ ?new" "\<forall>(url, c)\<in>set ?new. may_upload req r0 url" using new url by auto
  moreover have "evidence t req r new name \<Longrightarrow> evidence t req r ?new name" for name by (erule evidence_more) auto
  moreover have "manifest_evidence t req r new \<Longrightarrow> manifest_evidence t req r ?new" by (auto simp: manifest_evidence_def)
  ultimately show ?thesis using b ev mf unfolding base_def by (intro conjI exI [of _ ?new]) simp_all
qed

lemma progress_result:
  assumes "AppendProgress_step phase x name frames r = Inr (a, r')"
  shows "Delivered r' = Delivered r" "Prepared r' = Prepared r" "ManifestDeliveredURI r' = ManifestDeliveredURI r"
    "ManifestPrepared r' = ManifestPrepared r" "TerminalEvent r' = TerminalEvent r"
  using assms by (auto simp: AppendProgress_step_def fails_def Let_def split: if_splits option.splits float64.splits)

lemma spec_progress:
  fixes R :: "WorkloadJournalV2 \<Rightarrow> (string \<times> string) list \<Rightarrow> (string \<times> string) list \<Rightarrow> bool"
  assumes "\<And>r r' u f. R r u f \<Longrightarrow> journal_advances r r' \<Longrightarrow> Delivered r' = Delivered r \<Longrightarrow> Prepared r' = Prepared r \<Longrightarrow>
      ManifestDeliveredURI r' = ManifestDeliveredURI r \<Longrightarrow> ManifestPrepared r' = ManifestPrepared r \<Longrightarrow> TerminalEvent r' = TerminalEvent r \<Longrightarrow> R r' u f"
  shows "keeps (tracked n sid R) (reportProgress t sid phase x name frames)"
  unfolding reportProgress_def AppendProgress_def
  by (rule holds_andThen [OF progress_op.tracked_store [of _ _ _ _ R "\<lambda>_. R" R, OF TrueI]]) (auto intro: holds_give assms dest: progress_result)

text \<open>What an invariant must allow for the work on a rendition: progress and new files.\<close>

definition plain :: "(WorkloadJournalV2 \<Rightarrow> (string \<times> string) list \<Rightarrow> bool) \<Rightarrow> bool" where
  "plain R \<longleftrightarrow> (\<forall>r r' u. R r u \<longrightarrow> journal_advances r r' \<longrightarrow> Delivered r' = Delivered r \<longrightarrow> Prepared r' = Prepared r \<longrightarrow>
     ManifestDeliveredURI r' = ManifestDeliveredURI r \<longrightarrow> ManifestPrepared r' = ManifestPrepared r \<longrightarrow> TerminalEvent r' = TerminalEvent r \<longrightarrow> R r' u)"

lemma plain_progress: "plain R \<Longrightarrow> keeps (tracked n sid (\<lambda>r u f. R r u)) (reportProgress t sid phase x name frames)"
  by (rule spec_progress) (auto simp: plain_def)

lemma plain_base: "plain (base t req r0 u0)"
  unfolding plain_def by (intro allI impI, rule base_same) simp_all

lemma plain_track: "plain (\<lambda>r u. base t req r0 u0 r u \<and> track r0 names results r)"
  unfolding plain_def
proof (intro allI impI)
  fix r r' u assume r: "base t req r0 u0 r u \<and> track r0 names results r" "journal_advances r r'"
    and same: "Delivered r' = Delivered r" "Prepared r' = Prepared r" "ManifestDeliveredURI r' = ManifestDeliveredURI r"
      "ManifestPrepared r' = ManifestPrepared r" "TerminalEvent r' = TerminalEvent r"
  have "base t req r0 u0 r' u" by (rule base_same [of _ _ _ _ r]) (use r same in simp_all)
  then show "base t req r0 u0 r' u \<and> track r0 names results r'" using r(1) same by (simp add: track_def kept_def)
qed

lemma plain_input: "plain R \<Longrightarrow> keeps (tracked n (ReqWorkloadID req) (\<lambda>r u f. R r u)) (ensureInput t req p)"
  unfolding ensureInput_def input_present_def input_failed_def hash_agrees_def Let_def
  by (intro view.blind.basic view.blind.files plain_progress)

lemma plain_video: "keeps (tracked n sid (\<lambda>r u f. R r u)) (exactDeliveredVideoV2 t p v)"
  unfolding exactDeliveredVideoV2_def by (intro view.blind.basic view.blind.files holds_single)

definition files_intact :: "job_tools \<Rightarrow> PreparedRenditionV2 \<Rightarrow> (string \<times> string) list \<Rightarrow> bool" where
  "files_intact t p f \<longleftrightarrow>
     (\<exists>c. map_of f (path_clean (PlaylistPath p)) = Some c \<and> content_sha256 t c = PlaylistSHA256 p) \<and>
     (\<exists>c. map_of f (path_clean (StreamPath p)) = Some c \<and> content_sha256 t c = StreamSHA256 p)"

lemma spec_valid:
  "holds (tracked n sid R) (preparedFilesValid t p) (\<lambda>ok. tracked n sid (\<lambda>r u f. R r u f \<and> (ok \<longrightarrow> files_intact t p f))) (\<lambda>_. tracked n sid R)"
  unfolding preparedFilesValid_def
proof (rule holds_andThen [OF tracked_hash], rule holds_if)
  fix a
  let ?R = "\<lambda>r u f. R r u f \<and> (a \<longrightarrow> (\<exists>c. map_of f (path_clean (PlaylistPath p)) = Some c \<and> content_sha256 t c = PlaylistSHA256 p))"
  show "holds (tracked n sid ?R) (give False) (\<lambda>ok. tracked n sid (\<lambda>r u f. R r u f \<and> (ok \<longrightarrow> files_intact t p f))) (\<lambda>_. tracked n sid R)"
    by (rule holds_give) (auto elim: tracked_mono)
  assume "\<not> \<not> a"
  then show "holds (tracked n sid ?R) (hash_agrees t (path_clean (StreamPath p)) (StreamSHA256 p))
      (\<lambda>ok. tracked n sid (\<lambda>r u f. R r u f \<and> (ok \<longrightarrow> files_intact t p f))) (\<lambda>_. tracked n sid R)"
    by (intro holds_weaken [OF tracked_hash [where E = "\<lambda>_. tracked n sid R"]]) (auto simp: files_intact_def elim!: tracked_mono)
qed

lemma spec_encode:
  assumes R: "plain R"
  shows "holds (tracked n sid (\<lambda>r u f. R r u)) (encodeRendition t hw sid workDir inputPath preset rendition probe index)
    (\<lambda>p w. PrepName p = RenditionName rendition \<and> tracked n sid (\<lambda>r u f. R r u \<and>
       (\<exists>c. map_of f (PlaylistPath p) = Some c \<and> content_sha256 t c = PlaylistSHA256 p) \<and>
       (\<exists>c. map_of f (StreamPath p) = Some c \<and> content_sha256 t c = StreamSHA256 p)) w)
    (\<lambda>_. tracked n sid (\<lambda>r u f. R r u))"
proof -
  let ?T = "tracked n sid (\<lambda>r u f. R r u)"
  have files: "keeps ?T (encodeFilesV2 t hw sid dir inputPath preset rendition probe index)" for dir
    unfolding encodeFilesV2_def Let_def by (intro view.blind.basic view.blind.files view.blind.encodes plain_progress R)
  have weak: "tracked n sid (\<lambda>r u f. R r u \<and> X r u f) w \<Longrightarrow> ?T w" for X w by (erule tracked_mono) simp
  have digest: "holds (tracked n sid (\<lambda>r u f. R r u \<and> X r u f)) (orFail (file_digest t p) e)
      (\<lambda>h. tracked n sid (\<lambda>r u f. R r u \<and> (X r u f \<and> (\<exists>c. map_of f p = Some c \<and> content_sha256 t c = h)))) (\<lambda>_. ?T)" for X p and e :: execute_error
    by (rule holds_orFail, rule holds_weaken [OF view.digests]) (assumption | erule weak | erule tracked_mono, blast)+
  have reads: "holds (tracked n sid (\<lambda>r u f. R r u \<and> X r u f)) (orFail (read_file t p) e)
      (\<lambda>_. tracked n sid (\<lambda>r u f. R r u \<and> X r u f)) (\<lambda>_. ?T)" for X p and e :: execute_error
    by (rule holds_orFail, rule holds_weaken [OF view.reads]) (assumption | erule weak | erule tracked_mono, blast)+
  have video: "holds (tracked n sid (\<lambda>r u f. R r u \<and> True)) (orFail (exactDeliveredVideoV2 t p v) e)
      (\<lambda>_. tracked n sid (\<lambda>r u f. R r u \<and> True)) (\<lambda>_. ?T)" for p v and e :: execute_error
    using keeps_orFail [OF plain_video, of n sid R t p v e] by simp
  have measure: "holds (tracked n sid (\<lambda>r u f. R r u \<and> True)) (measureRenditionV2 t dir rendition)
      (\<lambda>p w. PrepName p = RenditionName rendition \<and> tracked n sid (\<lambda>r u f. R r u \<and>
         (\<exists>c. map_of f (PlaylistPath p) = Some c \<and> content_sha256 t c = PlaylistSHA256 p) \<and>
         (\<exists>c. map_of f (StreamPath p) = Some c \<and> content_sha256 t c = StreamSHA256 p)) w) (\<lambda>_. ?T)" for dir
    unfolding measureRenditionV2_def Let_def
    by (rule holds_andThen [OF video])
      (rule holds_andThen [OF digest [of "\<lambda>_ _ _. True"]], rule holds_andThen [OF digest], rule holds_andThen [OF reads], rule holds_give, auto elim: tracked_mono)
  show ?thesis
    unfolding encodeRendition_def Let_def
    by (rule holds_andThen [OF files]) (use measure in simp)
qed

text \<open>The checkpoint of the rendition that is worked on.\<close>

definition ready ::
    "job_tools \<Rightarrow> ABRWorkloadRequestV2 \<Rightarrow> WorkloadJournalV2 \<Rightarrow> (string \<times> string) list \<Rightarrow> string set \<Rightarrow> RenditionResultV2 list \<Rightarrow> string \<Rightarrow>
       PreparedRenditionV2 \<Rightarrow> WorkloadJournalV2 \<Rightarrow> (string \<times> string) list \<Rightarrow> (string \<times> string) list \<Rightarrow> bool" where
  "ready t req r0 u0 names results name p r u f \<longleftrightarrow> base t req r0 u0 r u \<and> track r0 (insert name names) results r \<and>
     map_of (Delivered r) name = None \<and> map_of (Prepared r) name = Some p \<and> files_intact t p f"

lemma SavePrepared_result:
  assumes "SavePrepared_step p r = Inr (a, r')"
  shows "r' = r\<lparr>Prepared := put (PrepName p) p (Prepared r)\<rparr>" "prepared_stored p" "map_of (Delivered r) (PrepName p) = None"
  using assms by (auto simp: SavePrepared_step_def fails_def split: if_splits)

lemma stored_paths: "prepared_stored p \<Longrightarrow> path_clean (PlaylistPath p) = PlaylistPath p \<and> path_clean (StreamPath p) = StreamPath p"
  by (simp add: prepared_stored_def safeJournalPathV2_def Let_def)

lemma spec_prepare:
  assumes new: "RenditionName rendition \<notin> names" "map_of (Delivered r0) (RenditionName rendition) = None"
    and snap: "map_of (Prepared rec) (RenditionName rendition) = map_of (Prepared r0) (RenditionName rendition)"
  shows "holds (tracked n sid (\<lambda>r u f. base t req r0 u0 r u \<and> track r0 names results r))
    (prepareRendition t hw sid workDir inputPath preset rendition probe index rec)
    (\<lambda>p. tracked n sid (ready t req r0 u0 names results (RenditionName rendition) p)) (\<lambda>_. tracked n sid (\<lambda>r u f. base t req r0 u0 r u))"
proof -
  let ?n = "RenditionName rendition"
  let ?R = "\<lambda>r u. base t req r0 u0 r u \<and> track r0 names results r"
  let ?T = "tracked n sid (\<lambda>r u f. ?R r u)" and ?E = "tracked n sid (\<lambda>r u f. base t req r0 u0 r u)"
  have start: "?T w \<Longrightarrow> ?E w" for w by (erule tracked_mono) simp
  have known: "ready t req r0 u0 names results ?n p r u f" if "?R r u" "files_intact t p f" "map_of (Prepared r0) ?n = Some p" for p r u f
    using that new by (auto simp: ready_def track_def kept_def)
  have found: "holds ?T (case map_of (Prepared rec) ?n of None \<Rightarrow> give None
        | Some p \<Rightarrow> andThen (preparedFilesValid t p) (\<lambda>ok. give (if ok then Some p else None)))
      (\<lambda>x w. ?T w \<and> (\<forall>p. x = Some p \<longrightarrow> tracked n sid (ready t req r0 u0 names results ?n p) w)) (\<lambda>_. ?E)"
  proof (rule holds_option)
    fix p assume "map_of (Prepared rec) ?n = Some p"
    then have p: "map_of (Prepared r0) ?n = Some p" using snap by simp
    have "holds ?T (preparedFilesValid t p) (\<lambda>ok. tracked n sid (\<lambda>r u f. ?R r u \<and> (ok \<longrightarrow> files_intact t p f))) (\<lambda>_. ?E)"
      by (rule holds_weaken [OF spec_valid]) (assumption | erule start)+
    then show "holds ?T (andThen (preparedFilesValid t p) (\<lambda>ok. give (if ok then Some p else None)))
        (\<lambda>x w. ?T w \<and> (\<forall>p. x = Some p \<longrightarrow> tracked n sid (ready t req r0 u0 names results ?n p) w)) (\<lambda>_. ?E)"
      by (rule holds_andThen) (rule holds_give, use known p in \<open>auto elim!: tracked_mono\<close>)
  qed (rule holds_give, simp)
  let ?D = "\<lambda>p r u f. ?R r u \<and> (\<exists>c. map_of f (PlaylistPath p) = Some c \<and> content_sha256 t c = PlaylistSHA256 p) \<and>
      (\<exists>c. map_of f (StreamPath p) = Some c \<and> content_sha256 t c = StreamSHA256 p)"
  have enc: "holds ?T (encodeRendition t hw sid workDir inputPath preset rendition probe index)
      (\<lambda>p w. PrepName p = ?n \<and> tracked n sid (?D p) w) (\<lambda>_. ?E)"
    by (rule holds_weaken [OF spec_encode [OF plain_track]]) (assumption | erule start)+
  have save: "holds (tracked n sid (?D p)) (store_call t (\<lambda>io d. SavePrepared io d sid p))
      (\<lambda>_. tracked n sid (ready t req r0 u0 names results ?n p)) (\<lambda>_. ?E)" if p: "PrepName p = ?n" for p
    unfolding SavePrepared_def
  proof (rule prepared_op.tracked_store [OF TrueI])
    fix r a r' u f assume st: "SavePrepared_step p r = Inr (a, r')" "journal_advances r r'" "?D p r u f"
    note s = SavePrepared_result [OF st(1)]
    have "base t req r0 u0 r' u" by (rule base_same [OF _ st(2)]) (use st(3) s in auto)
    then show "ready t req r0 u0 names results ?n p r' u f"
      using st(3) s p stored_paths [OF s(2)] by (auto simp: ready_def track_def kept_def files_intact_def)
  qed (auto simp: ready_def)
  have work: "holds ?T (andThen (encodeRendition t hw sid workDir inputPath preset rendition probe index)
      (\<lambda>p. andThen (store_call t (\<lambda>io d. SavePrepared io d sid p)) (\<lambda>_. give p)))
      (\<lambda>p. tracked n sid (ready t req r0 u0 names results ?n p)) (\<lambda>_. ?E)"
  proof (rule holds_andThen [OF enc])
    fix p
    show "holds (\<lambda>w. PrepName p = ?n \<and> tracked n sid (?D p) w) (andThen (store_call t (\<lambda>io d. SavePrepared io d sid p)) (\<lambda>_. give p))
        (\<lambda>p. tracked n sid (ready t req r0 u0 names results ?n p)) (\<lambda>_. ?E)"
    proof (cases "PrepName p = ?n")
      case True
      show ?thesis by (rule holds_weaken [OF holds_andThen [OF save [OF True] holds_give]]) auto
    qed (simp add: holds_def)
  qed
  show ?thesis
    unfolding prepareRendition_def
  proof (rule holds_andThen [OF found], rule holds_option)
    show "holds (\<lambda>w. ?T w \<and> (\<forall>p. x = Some p \<longrightarrow> tracked n sid (ready t req r0 u0 names results ?n p) w))
        (andThen (encodeRendition t hw sid workDir inputPath preset rendition probe index)
          (\<lambda>p. andThen (store_call t (\<lambda>io d. SavePrepared io d sid p)) (\<lambda>_. give p)))
        (\<lambda>p. tracked n sid (ready t req r0 u0 names results ?n p)) (\<lambda>_. ?E)" for x
      by (rule holds_weaken [OF work]) auto
    show "holds (\<lambda>w. ?T w \<and> (\<forall>p. x = Some p \<longrightarrow> tracked n sid (ready t req r0 u0 names results ?n p) w)) (give p)
        (\<lambda>p. tracked n sid (ready t req r0 u0 names results ?n p)) (\<lambda>_. ?E)" if "x = Some p" for x p
      by (rule holds_give) (use that in simp)
  qed
qed

end
