(* ===== verification/ABR_Delivery.thy ===== *)
theory ABR_Delivery
  imports ABR_Tracking ABR_Properties
begin

section \<open>What an ABR execution delivers\<close>

text \<open>
  The rest of an execution, from the upload of a rendition to its result, and what it leaves behind: what is
  delivered was uploaded with the contents of its checkpoint, nothing that was delivered before is uploaded
  again, and the result is one that the journal takes.
\<close>

subsection \<open>One rendition\<close>

definition uploaded :: "job_tools \<Rightarrow> (string \<times> string) list \<Rightarrow> (string \<times> string) list \<Rightarrow> string \<Rightarrow> string \<Rightarrow> bool" where
  "uploaded t u0 u url h \<longleftrightarrow> (\<exists>new c. u = u0 @ new \<and> (url, c) \<in> set new \<and> content_sha256 t c = h)"

lemma ready_upload:
  "ready t req r0 u0 names results name p r u f \<Longrightarrow> may_upload req r0 url \<Longrightarrow> ready t req r0 u0 names results name p r (u @ [(url, c)]) f"
  using base_upload by (simp add: ready_def)

lemma ready_prefix: "ready t req r0 u0 names results name p r u f \<Longrightarrow> \<exists>new. u = u0 @ new"
  by (auto simp: ready_def base_def)

lemma uploaded_last: "\<exists>new. u = u0 @ new \<Longrightarrow> content_sha256 t c = h \<Longrightarrow> uploaded t u0 (u @ [(url, c)]) url h"
  unfolding uploaded_def by force

lemma uploaded_more: "uploaded t u0 u url h \<Longrightarrow> uploaded t u0 (u @ x) url h"
  unfolding uploaded_def by force

lemma SaveDelivered_result:
  assumes "SaveDelivered_step x r = Inr (a, r')"
  shows "r' = r\<lparr>Delivered := put (ResultName x) x (Delivered r)\<rparr>"
  using assms by (auto simp: SaveDelivered_step_def fails_def split: if_splits option.splits)

lemma delivered_base:
  assumes ready: "ready t req r0 u0 names results name p r u f" and x: "ResultName x = name"
    and dest: "map_of (Renditions (Output req)) name = Some dest"
    and up: "uploaded t u0 u (UploadURL (Playlist dest)) (PlaylistSHA256 p)" "uploaded t u0 u (UploadURL (Stream dest)) (StreamSHA256 p)"
    and r': "r' = r\<lparr>Delivered := put name x (Delivered r)\<rparr>" and adv: "journal_advances r r'"
  shows "base t req r0 u0 r' u \<and> track r0 (insert name names) (results @ [x]) r'"
proof
  have b: "base t req r0 u0 r u" and tr: "track r0 (insert name names) results r"
    and p: "map_of (Delivered r) name = None" "map_of (Prepared r) name = Some p"
    using ready by (simp_all add: ready_def)
  obtain new where new: "u = u0 @ new" "\<forall>(url, c)\<in>set new. may_upload req r0 url"
    and ev: "\<And>n. map_of (Delivered r) n \<noteq> None \<Longrightarrow> map_of (Delivered r0) n = None \<Longrightarrow> evidence t req r new n"
    and mf: "ManifestDeliveredURI r \<noteq> [] \<Longrightarrow> ManifestDeliveredURI r0 = [] \<Longrightarrow> manifest_evidence t req r new"
    using b by (auto simp: base_def)
  have "evidence t req r' new name" using up new(1) dest p(2) r' by (auto simp: uploaded_def evidence_def)
  moreover have "evidence t req r' new n" if "map_of (Delivered r) n \<noteq> None" "map_of (Delivered r0) n = None" for n
    by (rule evidence_same [OF _ ev [OF that]]) (simp add: r')
  ultimately have "evidence t req r' new n" if "map_of (Delivered r') n \<noteq> None" "map_of (Delivered r0) n = None" for n
    using that r' by (cases "n = name") auto
  moreover have "manifest_evidence t req r' new" if "ManifestDeliveredURI r' \<noteq> []" "ManifestDeliveredURI r0 = []"
    using mf that r' by (simp add: manifest_evidence_def)
  moreover have "journal_advances r0 r'" "TerminalEvent r' = None"
    using b r' journal_advances_trans [OF _ adv, of r0] by (simp_all add: base_def)
  ultimately show "base t req r0 u0 r' u" unfolding base_def using new by (intro conjI exI [of _ new]) simp_all
  show "track r0 (insert name names) (results @ [x]) r'"
    using tr p(1) x r' by (auto simp: track_def kept_def)
qed

lemma spec_deliver:
  assumes dest: "map_of (Renditions (Output req)) (RenditionName rendition) = Some dest"
    and new: "map_of (Delivered r0) (RenditionName rendition) = None"
  shows "holds (tracked n (ReqWorkloadID req) (ready t req r0 u0 names results (RenditionName rendition) p))
    (deliverRendition t req preset rendition index p)
    (\<lambda>x w. ResultName x = RenditionName rendition \<and> tracked n (ReqWorkloadID req)
       (\<lambda>r u f. base t req r0 u0 r u \<and> track r0 (insert (RenditionName rendition) names) (results @ [x]) r) w)
    (\<lambda>_. tracked n (ReqWorkloadID req) (\<lambda>r u f. base t req r0 u0 r u))"
proof -
  let ?n = "RenditionName rendition"
  let ?R = "ready t req r0 u0 names results ?n p"
  let ?R1 = "\<lambda>r u f. ?R r u f \<and> uploaded t u0 u (UploadURL (Playlist dest)) (PlaylistSHA256 p)"
  let ?R2 = "\<lambda>r u f. ?R1 r u f \<and> uploaded t u0 u (UploadURL (Stream dest)) (StreamSHA256 p)"
  let ?T = "\<lambda>R. tracked n (ReqWorkloadID req) R" and ?E = "tracked n (ReqWorkloadID req) (\<lambda>r u f. base t req r0 u0 r u)"
  let ?x = "\<lparr>ResultName = ?n, PlaylistURI = ArtifactURI (Playlist dest), StreamURI = ArtifactURI (Stream dest),
     ResultVideo = PrepVideo p, ResultSize = PrepSize p\<rparr>"
  have may: "may_upload req r0 (UploadURL (Playlist dest))" "may_upload req r0 (UploadURL (Stream dest))"
    using dest new by (auto simp: may_upload_def)
  have err: "?T (\<lambda>r u f. ?R r u f \<and> X r u f) w \<Longrightarrow> ?E w" for X w by (erule tracked_mono) (simp add: ready_def)
  have err': "?T ?R w \<Longrightarrow> ?E w" for w by (erule tracked_mono) (simp add: ready_def)
  have report: "holds (?T ?R) (reportProgress t (ReqWorkloadID req) phase x name frames) (\<lambda>_. ?T ?R) (\<lambda>_. ?E)" for phase x name frames
  proof (rule holds_weaken [OF spec_progress])
    fix r r' u f assume "?R r u f" "journal_advances r r'" "Delivered r' = Delivered r" "Prepared r' = Prepared r"
      "ManifestDeliveredURI r' = ManifestDeliveredURI r" "ManifestPrepared r' = ManifestPrepared r" "TerminalEvent r' = TerminalEvent r"
    then show "?R r' u f" using base_same [of t req r0 u0 r u r'] by (simp add: ready_def track_def kept_def)
  qed (assumption | erule err')+
  have up1: "holds (?T ?R) (orFail (UploadFile t (path_clean (PlaylistPath p)) (UploadURL (Playlist dest))) upload_failed)
      (\<lambda>_. ?T ?R1) (\<lambda>_. ?E)"
  proof (rule holds_orFail, rule holds_weaken [OF view.sends])
    fix r u f c assume r: "?R r u f" and c: "map_of f (path_clean (PlaylistPath p)) = Some c"
    have "content_sha256 t c = PlaylistSHA256 p" using r c by (auto simp: ready_def files_intact_def)
    then show "?R1 r (u @ [(UploadURL (Playlist dest), c)]) f"
      using ready_upload [OF r may(1)] uploaded_last [OF ready_prefix [OF r]] by blast
  qed (assumption | erule err')+
  have up2: "holds (?T ?R1) (orFail (UploadFile t (path_clean (StreamPath p)) (UploadURL (Stream dest))) upload_failed)
      (\<lambda>_. ?T ?R2) (\<lambda>_. ?E)"
  proof (rule holds_orFail, rule holds_weaken [OF view.sends])
    fix r u f c assume r: "?R1 r u f" and c: "map_of f (path_clean (StreamPath p)) = Some c"
    have "content_sha256 t c = StreamSHA256 p" using r c by (auto simp: ready_def files_intact_def)
    then show "?R2 r (u @ [(UploadURL (Stream dest), c)]) f"
      by (intro conjI ready_upload may uploaded_last uploaded_more ready_prefix [of t req r0 u0 names results ?n p r u f])
        (use r in simp_all)
  qed (assumption | erule err)+
  have save: "holds (?T ?R2) (store_call t (\<lambda>io d. SaveDelivered io d (ReqWorkloadID req) ?x))
      (\<lambda>_. ?T (\<lambda>r u f. base t req r0 u0 r u \<and> track r0 (insert ?n names) (results @ [?x]) r)) (\<lambda>_. ?E)"
    unfolding SaveDelivered_def
  proof (rule delivered_op.tracked_store [OF TrueI])
    fix r a r' u f assume st: "SaveDelivered_step ?x r = Inr (a, r')" "journal_advances r r'" "?R2 r u f"
    show "base t req r0 u0 r' u \<and> track r0 (insert ?n names) (results @ [?x]) r'"
      by (rule delivered_base [of t req r0 u0 names results ?n p r u f _ dest]) (use st dest SaveDelivered_result [OF st(1)] in simp_all)
  qed (auto simp: ready_def)
  show ?thesis
    unfolding deliverRendition_def Let_def dest option.case
    by (rule holds_andThen [OF report], rule holds_andThen [OF up1], rule holds_andThen [OF up2], rule holds_andThen [OF save],
        rule holds_give) simp
qed

subsection \<open>All renditions\<close>

text \<open>The journal that was loaded has the checkpoints of the one at the start.\<close>

definition same_checkpoints :: "WorkloadJournalV2 \<Rightarrow> WorkloadJournalV2 \<Rightarrow> bool" where
  "same_checkpoints r0 rec \<longleftrightarrow> ManifestDeliveredURI rec = ManifestDeliveredURI r0 \<and> ManifestPrepared rec = ManifestPrepared r0 \<and>
     (\<forall>name. map_of (Delivered rec) name = map_of (Delivered r0) name \<and> map_of (Prepared rec) name = map_of (Prepared r0) name)"

lemma spec_renditions:
  assumes snap: "same_checkpoints r0 rec" and known: "delivered_ok r0"
  shows "distinct (map RenditionName rs) \<Longrightarrow> \<forall>x\<in>set rs. RenditionName x \<notin> names \<and> map_of (Renditions (Output req)) (RenditionName x) \<noteq> None \<Longrightarrow>
    holds (tracked n (ReqWorkloadID req) (\<lambda>r u f. base t req r0 u0 r u \<and> track r0 names results r))
      (renditionLoop t hw req workDir inputPath preset probe rec index rs)
      (\<lambda>xs w. map ResultName xs = map RenditionName rs \<and>
         tracked n (ReqWorkloadID req) (\<lambda>r u f. base t req r0 u0 r u \<and> track r0 (names \<union> RenditionName ` set rs) (results @ xs) r) w)
      (\<lambda>_. tracked n (ReqWorkloadID req) (\<lambda>r u f. base t req r0 u0 r u))"
proof (induction rs arbitrary: names results index)
  case Nil
  show ?case by (simp add: holds_give)
next
  case (Cons x rs)
  let ?n = "RenditionName x" and ?T = "\<lambda>R. tracked n (ReqWorkloadID req) (\<lambda>r u f. base t req r0 u0 r u \<and> R r)"
  let ?E = "tracked n (ReqWorkloadID req) (\<lambda>r u f. base t req r0 u0 r u)"
  obtain dest where dest: "map_of (Renditions (Output req)) ?n = Some dest" and new: "?n \<notin> names" using Cons.prems(2) by auto
  have others: "\<forall>z\<in>set rs. RenditionName z \<noteq> ?n" using Cons.prems(1) by (auto simp: image_iff)
  have weak: "?T R w \<Longrightarrow> ?E w" for R w by (erule tracked_mono) simp
  have check: "holds (?T R) (demand c e) (\<lambda>_. ?T R) (\<lambda>_. ?E)" for R c and e :: execute_error by (rule holds_demand) (assumption | erule weak)+
  have one: "holds (?T (track r0 names results))
      (case map_of (Delivered rec) ?n of Some checkpoint \<Rightarrow> give checkpoint
       | None \<Rightarrow> andThen (prepareRendition t hw (ReqWorkloadID req) workDir inputPath preset x probe index rec)
           (\<lambda>prepared. deliverRendition t req preset x index prepared))
      (\<lambda>y w. ResultName y = ?n \<and> ?T (track r0 (insert ?n names) (results @ [y])) w) (\<lambda>_. ?E)"
  proof (rule holds_option)
    assume "map_of (Delivered rec) ?n = None"
    then have "map_of (Delivered r0) ?n = None" "map_of (Prepared rec) ?n = map_of (Prepared r0) ?n" using snap by (simp_all add: same_checkpoints_def)
    then show "holds (?T (track r0 names results))
      (andThen (prepareRendition t hw (ReqWorkloadID req) workDir inputPath preset x probe index rec)
         (\<lambda>prepared. deliverRendition t req preset x index prepared))
      (\<lambda>y w. ResultName y = ?n \<and> ?T (track r0 (insert ?n names) (results @ [y])) w) (\<lambda>_. ?E)"
      using new by (intro holds_andThen [OF spec_prepare] spec_deliver [OF dest])
  next
    fix c assume "map_of (Delivered rec) ?n = Some c"
    then have c: "map_of (Delivered r0) ?n = Some c" using snap by (simp add: same_checkpoints_def)
    then have "ResultName c = ?n" using known by (simp add: delivered_ok_def)
    moreover have "track r0 (insert ?n names) (results @ [c]) r" if "track r0 names results r" for r
      using that c new calculation by (auto simp: track_def kept_def)
    ultimately show "holds (?T (track r0 names results)) (give c)
        (\<lambda>y w. ResultName y = ?n \<and> ?T (track r0 (insert ?n names) (results @ [y])) w) (\<lambda>_. ?E)"
      by (intro holds_give) (auto elim!: tracked_mono)
  qed
  have rest: "holds (\<lambda>w. ResultName y = ?n \<and> ?T (track r0 (insert ?n names) (results @ [y])) w)
      (andThen (renditionLoop t hw req workDir inputPath preset probe rec (Suc index) rs) (\<lambda>xs. give (y # xs)))
      (\<lambda>xs w. map ResultName xs = map RenditionName (x # rs) \<and>
         ?T (track r0 (names \<union> RenditionName ` set (x # rs)) (results @ xs)) w) (\<lambda>_. ?E)" for y
  proof (cases "ResultName y = ?n")
    case True
    have ih: "holds (?T (track r0 (insert ?n names) (results @ [y])))
        (renditionLoop t hw req workDir inputPath preset probe rec (Suc index) rs)
        (\<lambda>xs w. map ResultName xs = map RenditionName rs \<and>
          ?T (track r0 (insert ?n names \<union> RenditionName ` set rs) ((results @ [y]) @ xs)) w) (\<lambda>_. ?E)"
      by (rule Cons.IH) (use Cons.prems others in simp_all)
    have "holds (?T (track r0 (insert ?n names) (results @ [y])))
        (andThen (renditionLoop t hw req workDir inputPath preset probe rec (Suc index) rs) (\<lambda>xs. give (y # xs)))
        (\<lambda>xs w. map ResultName xs = map RenditionName (x # rs) \<and>
          ?T (track r0 (names \<union> RenditionName ` set (x # rs)) (results @ xs)) w) (\<lambda>_. ?E)"
      by (rule holds_andThen [OF ih], rule holds_give) (use True in simp)
    then show ?thesis by (rule holds_weaken) auto
  qed (simp add: holds_def)
  show ?case unfolding renditionLoop.simps by (intro holds_andThen [OF check] holds_andThen [OF one] rest)
qed

subsection \<open>The manifest\<close>

definition manifest_ready :: "job_tools \<Rightarrow> string \<Rightarrow> WorkloadJournalV2 \<Rightarrow> (string \<times> string) list \<Rightarrow> bool" where
  "manifest_ready t path r f \<longleftrightarrow>
     (\<exists>a c. ManifestPrepared r = Some a \<and> map_of f path = Some c \<and> content_sha256 t c = ArtifactSHA256 a)"

text \<open>What holds of the journal until the manifest is delivered.\<close>

definition undelivered ::
    "job_tools \<Rightarrow> ABRWorkloadRequestV2 \<Rightarrow> WorkloadJournalV2 \<Rightarrow> (string \<times> string) list \<Rightarrow> string set \<Rightarrow> RenditionResultV2 list \<Rightarrow>
       WorkloadJournalV2 \<Rightarrow> (string \<times> string) list \<Rightarrow> bool" where
  "undelivered t req r0 u0 names results r u \<longleftrightarrow> base t req r0 u0 r u \<and> kept r0 names results r \<and>
     ManifestDeliveredURI r = ManifestDeliveredURI r0"

lemma track_undelivered: "base t req r0 u0 r u \<and> track r0 names results r \<Longrightarrow> undelivered t req r0 u0 names results r u"
  by (simp add: undelivered_def track_def)

lemma SavePreparedManifest_result:
  assumes "SavePreparedManifest_step p r = Inr (a, r')"
  shows "r' = r\<lparr>ManifestPrepared := Some p\<rparr>" "ManifestDeliveredURI r = []"
  using assms by (auto simp: SavePreparedManifest_step_def fails_def split: if_splits)

lemma spec_prepareManifest:
  assumes snap: "same_checkpoints r0 rec"
  shows "holds (tracked n sid (\<lambda>r u f. base t req r0 u0 r u \<and> track r0 names results r))
    (prepareManifest t sid workDir manifest rec)
    (\<lambda>path. tracked n sid (\<lambda>r u f. undelivered t req r0 u0 names results r u \<and> manifest_ready t path r f))
    (\<lambda>_. tracked n sid (\<lambda>r u f. base t req r0 u0 r u))"
proof -
  let ?T = "\<lambda>R. tracked n sid (\<lambda>r u f. base t req r0 u0 r u \<and> track r0 names results r \<and> R r f)"
  let ?S = "tracked n sid (\<lambda>r u f. base t req r0 u0 r u \<and> track r0 names results r)"
  let ?E = "tracked n sid (\<lambda>r u f. base t req r0 u0 r u)"
  let ?path = "path_join2 workDir ''master.m3u8''"
  let ?Q = "\<lambda>path. tracked n sid (\<lambda>r u f. undelivered t req r0 u0 names results r u \<and> manifest_ready t path r f)"
  have weak: "?T R w \<Longrightarrow> ?E w" "?S w \<Longrightarrow> ?E w" for R w by (erule tracked_mono, simp)+
  have found: "holds ?S (case ManifestPrepared rec of None \<Rightarrow> give None
        | Some p \<Rightarrow> andThen (preparedArtifactValid t p) (\<lambda>ok. give (if ok then Some p else None)))
      (\<lambda>x w. ?S w \<and> (\<forall>p. x = Some p \<longrightarrow> ?Q (path_clean (ArtifactPath p)) w)) (\<lambda>_. ?E)"
  proof (rule holds_option)
    fix p assume "ManifestPrepared rec = Some p"
    then have p: "ManifestPrepared r0 = Some p" using snap by (simp add: same_checkpoints_def)
    let ?ok = "\<lambda>ok. tracked n sid (\<lambda>r u f. (base t req r0 u0 r u \<and> track r0 names results r) \<and>
        (ok \<longrightarrow> (\<exists>c. map_of f (path_clean (ArtifactPath p)) = Some c \<and> content_sha256 t c = ArtifactSHA256 p)))"
    have "?Q (path_clean (ArtifactPath p)) w" if "?ok True w" for w
      using that by (rule tracked_mono) (use p in \<open>auto simp: undelivered_def manifest_ready_def track_def\<close>)
    moreover have "?S w" if "?ok ok w" for ok w using that by (rule tracked_mono) simp
    ultimately have "holds ?S (andThen (preparedArtifactValid t p) (\<lambda>ok. give (if ok then Some p else None)))
        (\<lambda>x w. ?S w \<and> (\<forall>q. x = Some q \<longrightarrow> ?Q (path_clean (ArtifactPath q)) w)) (\<lambda>_. ?E)"
      unfolding preparedArtifactValid_def
      by (intro holds_andThen [OF tracked_hash] holds_give) (auto split: if_splits)
    then show "holds ?S (andThen (preparedArtifactValid t p) (\<lambda>ok. give (if ok then Some p else None)))
        (\<lambda>x w. ?S w \<and> (\<forall>q. x = Some q \<longrightarrow> ?Q (path_clean (ArtifactPath q)) w)) (\<lambda>_. ?E)" .
  qed (rule holds_give, simp)
  have stored: "holds ?S (orFail (write_file t ?path manifest) packaging_failed) (\<lambda>_. ?S) (\<lambda>_. ?E)"
    by (rule holds_orFail, rule holds_weaken [OF view.blind.writes]) (assumption | erule weak)+
  have digest: "holds ?S (orFail (file_digest t ?path) packaging_failed)
      (\<lambda>h. ?T (\<lambda>r f. \<exists>c. map_of f ?path = Some c \<and> content_sha256 t c = h)) (\<lambda>_. ?E)"
    by (rule holds_orFail, rule holds_weaken [OF view.digests]) (assumption | erule weak | erule tracked_mono, blast)+
  have save: "holds (?T (\<lambda>r f. \<exists>c. map_of f ?path = Some c \<and> content_sha256 t c = h))
      (store_call t (\<lambda>io d. SavePreparedManifest io d sid \<lparr>ArtifactPath = ?path, ArtifactSHA256 = h\<rparr>)) (\<lambda>_. ?Q ?path) (\<lambda>_. ?E)" for h
    unfolding SavePreparedManifest_def
  proof (rule manifest_op.tracked_store [OF TrueI])
    fix r a r' u f
    assume st: "SavePreparedManifest_step \<lparr>ArtifactPath = ?path, ArtifactSHA256 = h\<rparr> r = Inr (a, r')" "journal_advances r r'"
      and r: "base t req r0 u0 r u \<and> track r0 names results r \<and> (\<exists>c. map_of f ?path = Some c \<and> content_sha256 t c = h)"
    note s = SavePreparedManifest_result [OF st(1)]
    have "base t req r0 u0 r' u" by (rule base_same [OF _ st(2)]) (use r s in auto)
    then show "undelivered t req r0 u0 names results r' u \<and> manifest_ready t ?path r' f"
      using r s by (auto simp: undelivered_def track_def kept_def manifest_ready_def)
  qed (auto simp: undelivered_def)
  show ?thesis
    unfolding prepareManifest_def Let_def
  proof (rule holds_andThen [OF found], rule holds_option)
    fix x
    show "holds (\<lambda>w. ?S w \<and> (\<forall>p. x = Some p \<longrightarrow> ?Q (path_clean (ArtifactPath p)) w))
        (andThen (orFail (write_file t ?path manifest) packaging_failed) (\<lambda>_.
          andThen (orFail (file_digest t ?path) packaging_failed) (\<lambda>h.
          andThen (store_call t (\<lambda>io d. SavePreparedManifest io d sid \<lparr>ArtifactPath = ?path, ArtifactSHA256 = h\<rparr>)) (\<lambda>_. give ?path))))
        ?Q (\<lambda>_. ?E)"
      by (rule holds_weaken [OF holds_andThen [OF stored holds_andThen [OF digest holds_andThen [OF save holds_give]]]]) auto
    show "holds (\<lambda>w. ?S w \<and> (\<forall>p. x = Some p \<longrightarrow> ?Q (path_clean (ArtifactPath p)) w)) (give (path_clean (ArtifactPath p))) ?Q (\<lambda>_. ?E)"
      if "x = Some p" for p by (rule holds_give) (use that in simp)
  qed
qed

definition manifest_out :: "ABRWorkloadRequestV2 \<Rightarrow> WorkloadJournalV2 \<Rightarrow> string" where
  "manifest_out req r0 = (if ManifestDeliveredURI r0 = [] then ArtifactURI (Manifest (Output req)) else ManifestDeliveredURI r0)"

lemma SaveDeliveredManifest_result:
  assumes "SaveDeliveredManifest_step uri r = Inr (a, r')"
  shows "r' = r\<lparr>ManifestDeliveredURI := uri\<rparr>"
  using assms by (auto simp: SaveDeliveredManifest_step_def fails_def split: if_splits option.splits)

lemma manifest_base:
  assumes r: "undelivered t req r0 u0 names results r u" and a: "ManifestPrepared r = Some a"
    and up: "uploaded t u0 u (UploadURL (Manifest (Output req))) (ArtifactSHA256 a)"
    and r': "r' = r\<lparr>ManifestDeliveredURI := uri\<rparr>" and adv: "journal_advances r r'"
  shows "base t req r0 u0 r' u \<and> kept r0 names results r' \<and> ManifestDeliveredURI r' = uri"
proof -
  have b: "base t req r0 u0 r u" and k: "kept r0 names results r" using r by (simp_all add: undelivered_def)
  obtain new where new: "u = u0 @ new" "\<forall>(url, c)\<in>set new. may_upload req r0 url"
    and ev: "\<And>n. map_of (Delivered r) n \<noteq> None \<Longrightarrow> map_of (Delivered r0) n = None \<Longrightarrow> evidence t req r new n"
    using b by (auto simp: base_def)
  have "manifest_evidence t req r' new" using up new(1) a r' by (auto simp: uploaded_def manifest_evidence_def)
  moreover have "evidence t req r' new n" if "map_of (Delivered r') n \<noteq> None" "map_of (Delivered r0) n = None" for n
    by (rule evidence_same [of _ _ r]) (use that r' ev [of n] in simp_all)
  moreover have "journal_advances r0 r'" "TerminalEvent r' = None"
    using b r' journal_advances_trans [OF _ adv, of r0] by (simp_all add: base_def)
  ultimately have "base t req r0 u0 r' u" unfolding base_def using new by (intro conjI exI [of _ new]) simp_all
  then show ?thesis using k r' by (simp add: kept_def)
qed

lemma spec_manifest:
  assumes snap: "same_checkpoints r0 rec"
  shows "holds (tracked n (ReqWorkloadID req) (\<lambda>r u f. base t req r0 u0 r u \<and> track r0 names results r))
    (deliverManifest t req workDir manifest rec)
    (\<lambda>_. tracked n (ReqWorkloadID req) (\<lambda>r u f. base t req r0 u0 r u \<and> kept r0 names results r \<and> ManifestDeliveredURI r = manifest_out req r0))
    (\<lambda>_. tracked n (ReqWorkloadID req) (\<lambda>r u f. base t req r0 u0 r u))"
  unfolding deliverManifest_def
proof (rule holds_if)
  let ?T = "tracked n (ReqWorkloadID req)" and ?E = "tracked n (ReqWorkloadID req) (\<lambda>r u f. base t req r0 u0 r u)"
  let ?S = "\<lambda>r u f. base t req r0 u0 r u \<and> track r0 names results r"
  let ?Q = "\<lambda>r u f. base t req r0 u0 r u \<and> kept r0 names results r \<and> ManifestDeliveredURI r = manifest_out req r0"
  assume "ManifestDeliveredURI rec \<noteq> []"
  then have "manifest_out req r0 = ManifestDeliveredURI r0" using snap by (simp add: manifest_out_def same_checkpoints_def)
  then show "holds (?T ?S) (give ()) (\<lambda>_. ?T ?Q) (\<lambda>_. ?E)"
    by (intro holds_give) (erule tracked_mono, simp add: track_def)
next
  let ?T = "tracked n (ReqWorkloadID req)" and ?E = "tracked n (ReqWorkloadID req) (\<lambda>r u f. base t req r0 u0 r u)"
  let ?S = "\<lambda>r u f. base t req r0 u0 r u \<and> track r0 names results r"
  let ?Q = "\<lambda>r u f. base t req r0 u0 r u \<and> kept r0 names results r \<and> ManifestDeliveredURI r = manifest_out req r0"
  let ?U = "\<lambda>r u f. undelivered t req r0 u0 names results r u \<and>
      (\<exists>a. ManifestPrepared r = Some a \<and> uploaded t u0 u (UploadURL (Manifest (Output req))) (ArtifactSHA256 a))"
  assume "\<not> ManifestDeliveredURI rec \<noteq> []"
  then have none: "ManifestDeliveredURI r0 = []" using snap by (simp add: same_checkpoints_def)
  have up: "holds (?T (\<lambda>r u f. undelivered t req r0 u0 names results r u \<and> manifest_ready t path r f))
      (orFail (UploadFile t path (UploadURL (Manifest (Output req)))) e) (\<lambda>_. ?T ?U) (\<lambda>_. ?E)" for path and e :: execute_error
  proof (rule holds_orFail, rule holds_weaken [OF view.sends])
    fix r u f c assume r: "undelivered t req r0 u0 names results r u \<and> manifest_ready t path r f" and c: "map_of f path = Some c"
    then obtain a where a: "ManifestPrepared r = Some a" "content_sha256 t c = ArtifactSHA256 a" by (auto simp: manifest_ready_def)
    have "may_upload req r0 (UploadURL (Manifest (Output req)))" using none by (simp add: may_upload_def)
    then have "undelivered t req r0 u0 names results r (u @ [(UploadURL (Manifest (Output req)), c)])"
      using r base_upload by (simp add: undelivered_def)
    moreover have "\<exists>new. u = u0 @ new" using r by (auto simp: undelivered_def base_def)
    ultimately show "?U r (u @ [(UploadURL (Manifest (Output req)), c)]) f" using a uploaded_last by blast
  qed (assumption | erule tracked_mono, simp add: undelivered_def)+
  have save: "holds (?T ?U) (store_call t (\<lambda>io d. SaveDeliveredManifest io d (ReqWorkloadID req) (ArtifactURI (Manifest (Output req)))))
      (\<lambda>_. ?T ?Q) (\<lambda>_. ?E)"
    unfolding SaveDeliveredManifest_def
  proof (rule manifest_out_op.tracked_store [OF TrueI])
    fix r a r' u f assume st: "SaveDeliveredManifest_step (ArtifactURI (Manifest (Output req))) r = Inr (a, r')" "journal_advances r r'" "?U r u f"
    then obtain p where "ManifestPrepared r = Some p" "uploaded t u0 u (UploadURL (Manifest (Output req))) (ArtifactSHA256 p)" by blast
    then have "base t req r0 u0 r' u \<and> kept r0 names results r' \<and> ManifestDeliveredURI r' = ArtifactURI (Manifest (Output req))"
      using manifest_base [of t req r0 u0 names results r u p r'] st(2,3) SaveDeliveredManifest_result [OF st(1)] by blast
    then show "?Q r' u f" using none by (simp add: manifest_out_def)
  qed (auto simp: undelivered_def)
  show "holds (?T ?S) (andThen (prepareManifest t (ReqWorkloadID req) workDir manifest rec) (\<lambda>manifestPath.
        andThen (orFail (UploadFile t manifestPath (UploadURL (Manifest (Output req))))
                   (executionFailureV2 ''upload_failed'' ''manifest upload failed'' True)) (\<lambda>_.
          store_call t (\<lambda>io d. SaveDeliveredManifest io d (ReqWorkloadID req) (ArtifactURI (Manifest (Output req)))))))
      (\<lambda>_. ?T ?Q) (\<lambda>_. ?E)"
    by (rule holds_andThen [OF spec_prepareManifest [OF snap]], rule holds_andThen [OF up save])
qed

subsection \<open>The whole execution\<close>

lemma spec_load:
  "holds (tracked n sid (\<lambda>r u f. base t req r0 u0 r u \<and> track r0 {} [] r)) (load_workload sid)
     (\<lambda>rec w. tracked n sid (\<lambda>r u f. base t req r0 u0 r u \<and> track r0 {} [] r) w \<and> (same_checkpoints r0 rec \<or> 2 ^ 64 - n \<le> Tick w))
     (\<lambda>_. tracked n sid (\<lambda>r u f. base t req r0 u0 r u))"
proof -
  have snap: "same_checkpoints r0 rec \<or> 2 ^ 64 - n \<le> Tick w"
    if "tracked n sid (\<lambda>r u f. base t req r0 u0 r u \<and> track r0 {} [] r) w" "loadJournalV2 (Journals w) sid = Inr rec" for rec w
    using that by (auto simp: tracked_def track_def kept_def same_checkpoints_def)
  have weak: "tracked n sid (\<lambda>r u f. base t req r0 u0 r u \<and> track r0 {} [] r) w \<Longrightarrow> tracked n sid (\<lambda>r u f. base t req r0 u0 r u) w" for w
    by (erule tracked_mono) simp
  show ?thesis
    unfolding holds_def
  proof (intro allI impI)
    fix w assume w: "tracked n sid (\<lambda>r u f. base t req r0 u0 r u \<and> track r0 {} [] r) w"
    show "case load_workload sid w of (Inl e, w') \<Rightarrow> tracked n sid (\<lambda>r u f. base t req r0 u0 r u) w'
      | (Inr rec, w') \<Rightarrow> tracked n sid (\<lambda>r u f. base t req r0 u0 r u \<and> track r0 {} [] r) w' \<and> (same_checkpoints r0 rec \<or> 2 ^ 64 - n \<le> Tick w')"
      using w weak [OF w] snap [OF w]
      by (cases "loadJournalV2 (Journals w) sid") (simp_all add: load_workload_def LoadWorkload_def cloneJournalV2_def)
  qed
qed

lemma late_tracked: "2 ^ 64 - n \<le> Tick w \<Longrightarrow> tracked n sid R w"
  by (auto simp: tracked_def)

definition outcome ::
    "job_tools \<Rightarrow> ABRWorkloadRequestV2 \<Rightarrow> ABRPreset \<Rightarrow> WorkloadJournalV2 \<Rightarrow> (string \<times> string) list \<Rightarrow> ABRTerminalResultV2 \<Rightarrow>
       WorkloadJournalV2 \<Rightarrow> (string \<times> string) list \<Rightarrow> bool" where
  "outcome t req preset r0 u0 v r u \<longleftrightarrow> base t req r0 u0 r u \<and>
     map ResultName (ResRenditions v) = RenditionNames preset \<and> kept r0 (set (RenditionNames preset)) (ResRenditions v) r \<and>
     ManifestDeliveredURI r = manifest_out req r0 \<and> CalculateFrameMegapixelUnitsV2 (ResRenditions v) = Inr (Units (ResUsage v)) \<and>
     ResSchema v = ABRResultSchemaV2 \<and> ResWorkloadID v = ReqWorkloadID req \<and> ResRequestSHA256 v = RequestContentSHA256V2 (Digest t) req \<and>
     ResOutcome v = ''succeeded'' \<and> ManifestURI v = ArtifactURI (Manifest (Output req)) \<and> ClaimUnit (ResUsage v) = ABRWorkUnitV2"

lemma spec_execute:
  assumes names: "distinct (RenditionNames preset)"
    and dests: "\<forall>name\<in>set (RenditionNames preset). map_of (Renditions (Output req)) name \<noteq> None" and known: "delivered_ok r0"
  shows "holds (tracked n (ReqWorkloadID req) (\<lambda>r u f. base t req r0 u0 r u \<and> track r0 {} [] r)) (Execute t hw req preset)
    (\<lambda>v. tracked n (ReqWorkloadID req) (\<lambda>r u f. outcome t req preset r0 u0 v r u))
    (\<lambda>_. tracked n (ReqWorkloadID req) (\<lambda>r u f. base t req r0 u0 r u))"
proof -
  let ?R = "\<lambda>r u. base t req r0 u0 r u \<and> track r0 {} [] r"
  let ?T = "tracked n (ReqWorkloadID req)" and ?E = "tracked n (ReqWorkloadID req) (\<lambda>r u f. base t req r0 u0 r u)"
  let ?S = "?T (\<lambda>r u f. ?R r u)" and ?L = "\<lambda>w :: abr_world. 2 ^ 64 - n \<le> Tick w"
  have weak: "?S w \<Longrightarrow> ?E w" for w by (erule tracked_mono) simp
  have pre: "holds ?S m (\<lambda>_. ?S) (\<lambda>_. ?E)" if "keeps ?S m" for m :: "'a abr_job"
    by (rule holds_weaken [OF that]) (assumption | erule weak)+
  have report: "holds ?S (reportProgress t (ReqWorkloadID req) phase x name frames) (\<lambda>_. ?S) (\<lambda>_. ?E)" for phase x name frames
    by (rule pre [OF plain_progress [OF plain_track]])
  let ?d = "path_join2 ''work'' (ReqWorkloadID req)"
  let ?rest = "\<lambda>input probe rec. andThen (renditionLoop t hw req ?d input preset probe rec 0 (ABRRenditions preset)) (\<lambda>delivered.
      andThen (reportProgress t (ReqWorkloadID req) ''packaging'' 98 [] 0) (\<lambda>_.
      andThen (deliverManifest t req ?d (GenerateMasterPlaylist (ABRRenditions preset) (manifest_paths preset)) rec) (\<lambda>_.
        case CalculateFrameMegapixelUnitsV2 delivered of
          Inl _ \<Rightarrow> stop (executionFailureV2 ''usage_failed'' ''usage measurement failed'' False)
        | Inr units \<Rightarrow>
            give \<lparr>ResSchema = ABRResultSchemaV2, ResWorkloadID = ReqWorkloadID req,
                  ResRequestSHA256 = RequestContentSHA256V2 (Digest t) req, ResOutcome = ''succeeded'',
                  ManifestURI = ArtifactURI (Manifest (Output req)), ResRenditions = delivered,
                  ResUsage = \<lparr>ClaimUnit = ABRWorkUnitV2, Units = units\<rparr>\<rparr>)))"
  let ?Q = "\<lambda>v. ?T (\<lambda>r u f. outcome t req preset r0 u0 v r u)"
  have names': "RenditionNames preset = map RenditionName (ABRRenditions preset)" by (simp add: RenditionNames_def)
  have same: "holds ?S (?rest input probe rec) ?Q (\<lambda>_. ?E)" if snap: "same_checkpoints r0 rec" for input probe rec
  proof (rule holds_andThen)
    let ?M = "\<lambda>xs w. map ResultName xs = RenditionNames preset \<and> ?T (\<lambda>r u f. base t req r0 u0 r u \<and> track r0 (set (RenditionNames preset)) xs r) w"
    show "holds ?S (renditionLoop t hw req ?d input preset probe rec 0 (ABRRenditions preset)) ?M (\<lambda>_. ?E)"
      using spec_renditions [OF snap known, of "ABRRenditions preset" "{}" req n t u0 "[]" hw ?d input preset probe 0] names dests
      by (simp add: names')
    fix xs
    let ?after = "andThen (reportProgress t (ReqWorkloadID req) ''packaging'' 98 [] 0) (\<lambda>_.
      andThen (deliverManifest t req ?d (GenerateMasterPlaylist (ABRRenditions preset) (manifest_paths preset)) rec) (\<lambda>_.
        case CalculateFrameMegapixelUnitsV2 xs of
          Inl _ \<Rightarrow> stop (executionFailureV2 ''usage_failed'' ''usage measurement failed'' False)
        | Inr units \<Rightarrow>
            give \<lparr>ResSchema = ABRResultSchemaV2, ResWorkloadID = ReqWorkloadID req,
                  ResRequestSHA256 = RequestContentSHA256V2 (Digest t) req, ResOutcome = ''succeeded'',
                  ManifestURI = ArtifactURI (Manifest (Output req)), ResRenditions = xs,
                  ResUsage = \<lparr>ClaimUnit = ABRWorkUnitV2, Units = units\<rparr>\<rparr>))"
    show "holds (?M xs) ?after ?Q (\<lambda>_. ?E)"
    proof (cases "map ResultName xs = RenditionNames preset")
      case True
      let ?N = "?T (\<lambda>r u f. base t req r0 u0 r u \<and> track r0 (set (RenditionNames preset)) xs r)"
      let ?O = "\<lambda>r u f. base t req r0 u0 r u \<and> kept r0 (set (RenditionNames preset)) xs r \<and> ManifestDeliveredURI r = manifest_out req r0"
      have "?N w \<Longrightarrow> ?E w" for w by (erule tracked_mono) simp
      then have report: "holds ?N (reportProgress t (ReqWorkloadID req) phase x name frames) (\<lambda>_. ?N) (\<lambda>_. ?E)" for phase x name frames
        by (intro holds_weaken [OF plain_progress [OF plain_track]])
      have "holds ?N ?after ?Q (\<lambda>_. ?E)"
      proof (rule holds_andThen [OF report], rule holds_andThen [OF spec_manifest [OF snap]], rule holds_sum)
        show "holds (?T ?O) (stop e) ?Q (\<lambda>_. ?E)" for e :: execute_error by (rule holds_stop) (erule tracked_mono, simp)
        fix units assume "CalculateFrameMegapixelUnitsV2 xs = Inr units"
        then show "holds (?T ?O) (give \<lparr>ResSchema = ABRResultSchemaV2, ResWorkloadID = ReqWorkloadID req,
              ResRequestSHA256 = RequestContentSHA256V2 (Digest t) req, ResOutcome = ''succeeded'',
              ManifestURI = ArtifactURI (Manifest (Output req)), ResRenditions = xs,
              ResUsage = \<lparr>ClaimUnit = ABRWorkUnitV2, Units = units\<rparr>\<rparr>) ?Q (\<lambda>_. ?E)"
          using True by (intro holds_give) (erule tracked_mono, simp add: outcome_def)
      qed
      then show ?thesis by (rule holds_weaken) auto
    qed (simp add: holds_def)
  qed
  have late: "holds ?L (?rest input probe rec) ?Q (\<lambda>_. ?E)" for input probe rec
  proof (rule holds_weaken)
    show "keeps ?L (?rest input probe rec)" by (intro late.calls late.renditions late.manifests) (rule refl)+
  qed (assumption | rule late_tracked)+
  have rest: "holds (\<lambda>w. ?S w \<and> (same_checkpoints r0 rec \<or> ?L w)) (?rest input probe rec) ?Q (\<lambda>_. ?E)" for input probe rec
    by (cases "same_checkpoints r0 rec"; rule holds_weaken, (rule same late; assumption?)) auto
  show ?thesis
    unfolding Execute_def Let_def
    by (rule holds_andThen [OF pre], rule keeps_orFail, rule view.blind.disks, rule holds_andThen [OF pre], rule plain_input [OF plain_track],
        rule holds_andThen [OF report], rule holds_andThen [OF pre], rule keeps_orFail, rule view.blind.media,
        rule holds_andThen [OF spec_load], rule rest)
qed

subsection \<open>What a request demands\<close>

lemma required_outputs:
  "requiredOutputsV2 outputs seen names = None \<Longrightarrow>
     distinct names \<and> set names \<inter> set seen = {} \<and> (\<forall>name\<in>set names. map_of outputs name \<noteq> None)"
  by (induction outputs seen names rule: requiredOutputsV2.induct) (auto split: if_splits option.splits)

lemma valid_request:
  assumes "ValidateABRRequestV2 req names = None"
  shows "distinct names" "\<forall>name\<in>set names. map_of (Renditions (Output req)) name \<noteq> None" "names \<noteq> []"
    "workloadIDPattern (ReqWorkloadID req)" "validateArtifactURI (ArtifactURI (Manifest (Output req))) = None"
proof -
  have r: "requiredOutputsV2 (Renditions (Output req)) [] names = None" and d: "validateDestination (Manifest (Output req)) = None"
    using assms by (auto simp: ValidateABRRequestV2_def split: if_splits option.splits)
  show "distinct names" "\<forall>name\<in>set names. map_of (Renditions (Output req)) name \<noteq> None" using required_outputs [OF r] by simp_all
  show "names \<noteq> []" "workloadIDPattern (ReqWorkloadID req)" using assms by (auto simp: ValidateABRRequestV2_def split: if_splits)
  show "validateArtifactURI (ArtifactURI (Manifest (Output req))) = None" using d by (simp add: validateDestination_def split: option.splits)
qed

lemma execution_tracked:
  assumes disk: "journals_ok n (Journals w)" and start: "loadJournalV2 (Journals w) (ReqWorkloadID req) = Inr r0" and "TerminalEvent r0 = None"
  shows "tracked n (ReqWorkloadID req) (\<lambda>r u f. base t req r0 (Uploads w) r u \<and> track r0 {} [] r) w"
proof -
  have "base t req r0 (Uploads w) r0 (Uploads w)" using assms(3) unfolding base_def by auto
  moreover have "journals_ok (n + Tick w) (Journals w)" by (rule journals_ok_mono [OF disk]) simp
  ultimately show ?thesis using start by (auto simp: tracked_def track_def kept_def)
qed

text \<open>
  (C32) Nothing is claimed that was not uploaded: after an execution, however it ends and whatever the disk,
  the network, ffprobe and ffmpeg answered on the way, each rendition that the journal newly holds as
  delivered has a prepared checkpoint, and during this execution both of its files were accepted at the
  URLs of the request with contents whose digests are those of the checkpoint; the same holds of the
  manifest.  And nothing that an earlier execution delivered is uploaded again.
\<close>

theorem uploads_match_checkpoints:
  assumes "ValidateABRRequestV2 req (RenditionNames preset) = None"
    and "journals_ok n (Journals w)" and "loadJournalV2 (Journals w) (ReqWorkloadID req) = Inr r0" and "TerminalEvent r0 = None"
    and "Execute t hw req preset w = (res, w')" and "n + Tick w' < 2 ^ 64"
  shows "\<exists>r new. loadJournalV2 (Journals w') (ReqWorkloadID req) = Inr r \<and> Uploads w' = Uploads w @ new \<and>
    (\<forall>name. map_of (Delivered r) name \<noteq> None \<longrightarrow> map_of (Delivered r0) name = None \<longrightarrow> evidence t req r new name) \<and>
    (ManifestDeliveredURI r \<noteq> [] \<longrightarrow> ManifestDeliveredURI r0 = [] \<longrightarrow> manifest_evidence t req r new) \<and>
    (\<forall>(url, c)\<in>set new. may_upload req r0 url)"
proof -
  note v = valid_request [OF assms(1)]
  have d: "delivered_ok r0" using load_journal_ok [OF assms(2,3)] by (simp add: journal_ok_def)
  have "tracked n (ReqWorkloadID req) (\<lambda>r u f. base t req r0 (Uploads w) r u) w'"
  proof (cases res)
    case (Inl e)
    then show ?thesis using holds_error [OF spec_execute [OF v(1,2) d] execution_tracked [OF assms(2-4)]] assms(5) by blast
  next
    case (Inr x)
    then have "tracked n (ReqWorkloadID req) (\<lambda>r u f. outcome t req preset r0 (Uploads w) x r u) w'"
      using holds_result [OF spec_execute [OF v(1,2) d] execution_tracked [OF assms(2-4)]] assms(5) by blast
    then show ?thesis by (rule tracked_mono) (simp add: outcome_def)
  qed
  then obtain r where r: "loadJournalV2 (Journals w') (ReqWorkloadID req) = Inr r" "base t req r0 (Uploads w) r (Uploads w')"
    using assms(6) by (auto simp: tracked_def)
  then obtain new where "Uploads w' = Uploads w @ new" "\<forall>(url, c)\<in>set new. may_upload req r0 url"
    "\<forall>name. map_of (Delivered r) name \<noteq> None \<longrightarrow> map_of (Delivered r0) name = None \<longrightarrow> evidence t req r new name"
    "ManifestDeliveredURI r \<noteq> [] \<longrightarrow> ManifestDeliveredURI r0 = [] \<longrightarrow> manifest_evidence t req r new" by (auto simp only: base_def)
  then show ?thesis using r(1) by (intro exI [of _ r] exI [of _ new]) simp
qed

lemma resultRenditions_ok:
  assumes "\<forall>x\<in>set xs. ResultName x \<noteq> [] \<and> validateArtifactURI (PlaylistURI x) = None \<and> validateArtifactURI (StreamURI x) = None \<and> video_ok (ResultVideo x)"
  shows "distinct (map ResultName xs) \<Longrightarrow> ResultName ` set xs \<inter> set seen = {} \<Longrightarrow> resultRenditionsV2 seen xs = None"
  using assms by (induction xs arbitrary: seen) auto

lemma same_members_length:
  assumes "distinct (map fst m)" "distinct names" "\<And>k. map_of m k \<noteq> None \<longleftrightarrow> k \<in> set names"
  shows "length names = length m"
proof -
  have "set (map fst m) = set names" using assms(3) by (auto simp: map_of_eq_None_iff)
  then show ?thesis using assms(1,2) distinct_card by (metis length_map)
qed

lemma delivered_results:
  assumes ok: "journal_ok n r" and x: "map_of (Delivered r) name = Some x"
  shows "ResultName x = name" "name \<noteq> []" "validateArtifactURI (PlaylistURI x) = None" "validateArtifactURI (StreamURI x) = None"
    "video_ok (ResultVideo x)"
proof -
  obtain p where p: "map_of (Prepared r) name = Some p" "preparedMatchesResultV2 p x" and d: "name = ResultName x"
      "validateArtifactURI (PlaylistURI x) = None" "validateArtifactURI (StreamURI x) = None"
    using ok x unfolding journal_ok_def delivered_ok_def by blast
  have "name \<noteq> []" "video_ok (PrepVideo p)" using ok p(1) unfolding journal_ok_def prepared_ok_def by blast+
  then show "ResultName x = name" "name \<noteq> []" "validateArtifactURI (PlaylistURI x) = None" "validateArtifactURI (StreamURI x) = None"
    "video_ok (ResultVideo x)" using d p(2) by (simp_all add: preparedMatchesResultV2_def)
qed

lemma outcome_valid:
  assumes ok: "journal_ok n r" and out: "outcome t req preset r0 u0 v r u" and valid: "ValidateABRRequestV2 req (RenditionNames preset) = None"
    and sha: "sha256Pattern (RequestContentSHA256V2 (Digest t) req)"
  shows "ValidateABRTerminalResultV2 v = None"
proof -
  note q = valid_request [OF valid]
  have names: "map ResultName (ResRenditions v) = RenditionNames preset"
    and d: "\<forall>x\<in>set (ResRenditions v). map_of (Delivered r) (ResultName x) = Some x"
    and units: "CalculateFrameMegapixelUnitsV2 (ResRenditions v) = Inr (Units (ResUsage v))"
    using out by (auto simp: outcome_def kept_def)
  have v: "ResSchema v = ABRResultSchemaV2" "ResOutcome v = ''succeeded''" "ResWorkloadID v = ReqWorkloadID req"
      "ResRequestSHA256 v = RequestContentSHA256V2 (Digest t) req" "ManifestURI v = ArtifactURI (Manifest (Output req))"
      "ClaimUnit (ResUsage v) = ABRWorkUnitV2"
    using out by (simp_all add: outcome_def)
  have "resultRenditionsV2 [] (ResRenditions v) = None"
    by (rule resultRenditions_ok) (use delivered_results [OF ok] d names q(1) in \<open>auto\<close>)
  then show ?thesis using v q units names sha by (auto simp: ValidateABRTerminalResultV2_def)
qed

text \<open>
  (C33) A result is accepted: when an execution succeeds in a workload that was opened with its request and whose
  earlier deliveries belong to it, its result passes the check of terminal results and agrees with the
  journal in identity, manifest, renditions and units, so that recording it succeeds and the workload
  becomes terminal.
\<close>

theorem successful_result_is_recorded:
  assumes "ValidateABRRequestV2 req (RenditionNames preset) = None"
    and "journals_ok n (Journals w)" and "loadJournalV2 (Journals w) (ReqWorkloadID req) = Inr r0" and "TerminalEvent r0 = None"
    and "RequestSHA256 r0 = RequestContentSHA256V2 (Digest t) req" and "fst ` set (Delivered r0) \<subseteq> set (RenditionNames preset)"
    and "ManifestDeliveredURI r0 \<in> {[], ArtifactURI (Manifest (Output req))}"
    and "Execute t hw req preset w = (Inr v, w')" and "n + Tick w' < 2 ^ 64"
  shows "\<exists>event d. RecordTerminalResult SaveOK (Journals w') (ReqWorkloadID req) v = (Inr event, d) \<and> EventName event = ''result''"
proof -
  note q = valid_request [OF assms(1)]
  have ok0: "journal_ok n r0" by (rule load_journal_ok [OF assms(2,3)])
  then have "delivered_ok r0" by (simp add: journal_ok_def)
  then have "tracked n (ReqWorkloadID req) (\<lambda>r u f. outcome t req preset r0 (Uploads w) v r u) w'"
    using holds_result [OF spec_execute [OF q(1,2)] execution_tracked [OF assms(2-4)] assms(8)] by blast
  then obtain r where j: "journals_ok (n + Tick w') (Journals w')" and l: "loadJournalV2 (Journals w') (ReqWorkloadID req) = Inr r"
    and out: "outcome t req preset r0 (Uploads w) v r (Uploads w')" using assms(9) by (auto simp: tracked_def)
  have ok: "journal_ok (n + Tick w') r" by (rule load_journal_ok [OF j l])
  have id: "WorkloadID r = ReqWorkloadID req" "RequestSHA256 r = RequestSHA256 r0" "TerminalEvent r = None"
    using load_journal_Inr [OF l] out by (auto simp: outcome_def base_def journal_advances_def)
  have "sha256Pattern (RequestContentSHA256V2 (Digest t) req)" using ok0 assms(5) by (simp add: journal_ok_def)
  then have valid: "ValidateABRTerminalResultV2 v = None" by (rule outcome_valid [OF ok out assms(1)])
  have names: "map ResultName (ResRenditions v) = RenditionNames preset" and keep: "kept r0 (set (RenditionNames preset)) (ResRenditions v) r"
    using out by (simp_all add: outcome_def)
  have "map_of (Delivered r) k \<noteq> None \<longleftrightarrow> k \<in> set (RenditionNames preset)" for k
  proof (cases "k \<in> set (RenditionNames preset)")
    case True
    then obtain x where "x \<in> set (ResRenditions v)" "ResultName x = k" using names by (metis in_set_conv_nth length_map nth_map)
    then show ?thesis using keep True by (auto simp: kept_def)
  next
    case False
    then have "k \<notin> fst ` set (Delivered r0)" using assms(6) by blast
    then show ?thesis using keep False map_of_eq_None_iff [of "Delivered r0" k] by (simp add: kept_def)
  qed
  then have "length (RenditionNames preset) = length (Delivered r)"
    by (intro same_members_length) (use ok q(1) in \<open>simp_all add: journal_ok_def delivered_ok_def\<close>)
  then have len: "length (ResRenditions v) = length (Delivered r)" using names by (metis length_map)
  have "terminalClaimV2 (TerminalResult v) r = None"
    using out keep len id assms(5,7)
    by (auto simp: terminalClaimV2_def outcome_def kept_def manifest_out_def list_all_iff renditionResultsEqualV2_def preparedMatchesResultV2_def)
  moreover have "in_progress r" using terminal_ok_state(2) [of r] ok id(3) by (simp add: journal_ok_def)
  ultimately show ?thesis
    using l valid by (simp add: RecordTerminalResult_def update_journal_def recordTerminal_step_def Let_def saveJournalV2_def storedTerminalV2_def)
qed

end
