(* ===== verification/ABR_Delivery_Witnesses.thy ===== *)
theory ABR_Delivery_Witnesses
  imports ABR_Delivery
begin

section \<open>A concrete ABR execution\<close>

text \<open>
  A workload whose one rendition and manifest were prepared before the runner went down: the execution finds
  the files intact, uploads them and is done.
\<close>

definition x_digest :: string where "x_digest = replicate 32 (CHR ''d'')"

definition x_sha :: string where "x_sha = hex_encode x_digest"

definition x_tools :: job_tools where
  "x_tools = \<lparr>StateDir = ''/state'', Digest = (\<lambda>_. x_digest), DiskOK = (\<lambda>_. True), Live = (\<lambda>_. True), Fetch = (\<lambda>_ _. None),
     Send = (\<lambda>_ _ _. Some 200), FFprobe = (\<lambda>_ _ _. Some ''probe''),
     FFmpeg = (\<lambda>_ _ _. \<lparr>Starts = False, Writes = [], Stderr = [], ExitOK = False, KilledExitOK = False\<rparr>), Clock = (\<lambda>_. 0),
     Saves = (\<lambda>_. SaveOK), DecodeProbe = (\<lambda>_. Inr \<lparr>Streams = [], FormatDuration = [], FormatBitRate = []\<rparr>)\<rparr>"

definition x_place :: "string \<Rightarrow> ArtifactDestinationV2" where
  "x_place name = \<lparr>ArtifactURI = ''s3://b/'' @ name, UploadURL = ''https://u/'' @ name\<rparr>"

definition x_request :: ABRWorkloadRequestV2 where
  "x_request = \<lparr>ReqSchema = ABRRequestSchemaV2, ReqWorkloadID = ''w1'', Input = \<lparr>DownloadURL = ''https://d/in'', ContentSHA256 = []\<rparr>,
     Ladder = \<lparr>LadderPreset = ''small''\<rparr>, Output = \<lparr>Manifest = x_place ''m'', Renditions = [(''720p'', \<lparr>Playlist = x_place ''p'', Stream = x_place ''s''\<rparr>)]\<rparr>\<rparr>"

definition x_preset :: ABRPreset where
  "x_preset = \<lparr>ABRName = ''small'', ABRDescription = [], ABRType = ''vod'', ABRFormat = ''hls'', ABRHLSMode = [], ABRSegmentDuration = 6,
     ABRRenditions = [\<lparr>RenditionName = ''720p'', Video = None, Audio = \<lparr>AudioCodecName = ''aac'', AudioBitrate = ''128k'', AudioChannels = 2, AudioSampleRate = 48000\<rparr>\<rparr>]\<rparr>"

definition x_prepared :: PreparedRenditionV2 where
  "x_prepared = \<lparr>PrepName = ''720p'', PlaylistPath = ''work/p.m3u8'', StreamPath = ''work/s.mp4'', PlaylistSHA256 = x_sha,
     StreamSHA256 = x_sha, PrepVideo = Some \<lparr>ActualFrames = 300, FrameWidth = 1280, FrameHeight = 720\<rparr>, PrepSize = 1\<rparr>"

definition x_manifest :: PreparedArtifactV2 where "x_manifest = \<lparr>ArtifactPath = ''work/m.m3u8'', ArtifactSHA256 = x_sha\<rparr>"

definition x_journal :: WorkloadJournalV2 where
  "x_journal = (newJournalV2 ''w1'' x_sha)\<lparr>Prepared := [(''720p'', x_prepared)], ManifestPrepared := Some x_manifest\<rparr>"

definition x_world :: abr_world where
  "x_world = \<lparr>Tick = 0, Files = [(''work/w1/input.mp4'', ''v''), (''work/p.m3u8'', ''p''), (''work/s.mp4'', ''s''), (''work/m.m3u8'', ''m'')], Uploads = [],
     Journals = [(''w1'', JournalFile x_journal)]\<rparr>"

lemma x_texts:
  "workloadIDPattern ''w1''" "sha256Pattern x_sha" "safeJournalPathV2 ''work/p.m3u8''" "safeJournalPathV2 ''work/s.mp4''" "safeJournalPathV2 ''work/m.m3u8''"
  "path_clean ''work/p.m3u8'' = ''work/p.m3u8''" "path_clean ''work/s.mp4'' = ''work/s.mp4''" "path_clean ''work/m.m3u8'' = ''work/m.m3u8''"
  "path_join2 ''work'' ''w1'' = ''work/w1''" "guessExtension ''https://d/in'' = ''.mp4''" "path_join2 ''work/w1'' ''input.mp4'' = ''work/w1/input.mp4''"
  "safeJournalPathV2 ''720p''" "path_dir ''720p'' = ''.''"
  by code_simp+

lemma x_places: "validateArtifactURI (ArtifactURI (x_place ''p'')) = None" "validateArtifactURI (ArtifactURI (x_place ''s'')) = None"
  "validateArtifactURI (ArtifactURI (x_place ''m'')) = None"
  by code_simp+

lemma x_valid: "ValidateABRRequestV2 x_request (RenditionNames x_preset) = None"
  by code_simp

subsection \<open>The steps of the store\<close>

context journal_op
begin

lemma update_succeeds:
  assumes adm: admits and d: "journals_ok n d" and small: "Suc n < 2 ^ 64" and l: "loadJournalV2 d sid = Inr r" and st: "step r = Inr (a, r')"
  shows "\<exists>d'. update_journal SaveOK d sid step = (Inr a, d') \<and> journals_ok (Suc n) d' \<and> loadJournalV2 d' sid = Inr r' \<and>
    d' = put (WorkloadID r') (JournalFile r') d"
proof -
  have u: "update_journal SaveOK d sid step = (Inr a, put (WorkloadID r') (JournalFile r') d)"
    using l st by (simp add: update_journal_def saveJournalV2_def)
  show ?thesis using update_result [OF adm d small l u] u st by auto
qed

end

lemma progress_succeeds:
  assumes d: "journals_ok n d" and small: "Suc n < 2 ^ 64" and l: "loadJournalV2 d sid = Inr r" and open_: "TerminalEvent r = None"
    and valid: "phase \<in> set progressPhasesV2" "0 \<le> x" "x \<le> 100"
  shows "\<exists>e d' r'. AppendProgress SaveOK d sid phase (Finite x) name frames = (Inr e, d') \<and> journals_ok (Suc n) d' \<and>
    loadJournalV2 d' sid = Inr r' \<and> Delivered r' = Delivered r \<and> Prepared r' = Prepared r \<and> ManifestPrepared r' = ManifestPrepared r \<and>
    ManifestDeliveredURI r' = ManifestDeliveredURI r \<and> TerminalEvent r' = None \<and> in_progress r'"
proof -
  have ok: "journal_ok n r" by (rule load_journal_ok [OF d l])
  then have i: "in_progress r" "workloadIDPattern (WorkloadID r)" "sha256Pattern (RequestSHA256 r)" "NextSequence r \<noteq> 0"
    using terminal_ok_state(2) [of r] open_ by (auto simp: journal_ok_def)
  obtain e r' where st: "AppendProgress_step phase (Finite x) name frames r = Inr (e, r')"
    using i valid by (auto simp: AppendProgress_step_def ValidateABRProgressV2_def Let_def)
  have same: "in_progress r'" using st i(1) by (auto simp: AppendProgress_step_def in_progress_def Let_def fails_def split: option.splits if_splits)
  obtain d' where "update_journal SaveOK d sid (AppendProgress_step phase (Finite x) name frames) = (Inr e, d')" "journals_ok (Suc n) d'"
      "loadJournalV2 d' sid = Inr r'"
    using progress_op.update_succeeds [OF TrueI d small l st] by blast
  then show ?thesis using progress_result [OF st] open_ same unfolding AppendProgress_def by auto
qed

lemma x_start: "journals_ok 3 (Journals x_world)" "loadJournalV2 (Journals x_world) ''w1'' = Inr x_journal"
proof -
  let ?d = "\<lambda>r. [(''w1'', JournalFile r)]" and ?r = "newJournalV2 ''w1'' x_sha"
  have r1: "run_call SaveOK (CallOpen ''w1'' x_sha) [] = ?d ?r"
    using x_texts(1,2) by (simp add: LoadOrCreate_def loadJournalV2_def saveJournalV2_def Let_def newJournalV2_def)
  have k1: "journals_ok (Suc 0) (?d ?r)" using run_call_keeps [of 0 "[]" SaveOK "CallOpen ''w1'' x_sha"] r1 by simp
  then have l1: "loadJournalV2 (?d ?r) ''w1'' = Inr ?r" using load_journal_file [of "Suc 0" "?d ?r" "''w1''"] by simp
  let ?r2 = "?r\<lparr>Prepared := [(''720p'', x_prepared)]\<rparr>"
  have id: "WorkloadID ?r2 = ''w1''" "WorkloadID x_journal = ''w1''" by (simp_all add: newJournalV2_def x_journal_def)
  have "SavePrepared_step x_prepared ?r = Inr ((), ?r2)"
    using x_texts by (simp add: SavePrepared_step_def x_prepared_def prepared_stored_def video_ok_def newJournalV2_def in_progress_def)
  then have "\<exists>d'. journals_ok (Suc (Suc 0)) d' \<and> loadJournalV2 d' ''w1'' = Inr ?r2 \<and> d' = put (WorkloadID ?r2) (JournalFile ?r2) (?d ?r)"
    using prepared_op.update_succeeds [OF TrueI k1 _ l1] by fastforce
  then have d2: "journals_ok (Suc (Suc 0)) (?d ?r2)" "loadJournalV2 (?d ?r2) ''w1'' = Inr ?r2" unfolding id by simp_all
  have "SavePreparedManifest_step x_manifest ?r2 = Inr ((), x_journal)"
    using x_texts by (simp add: SavePreparedManifest_step_def x_journal_def x_manifest_def newJournalV2_def in_progress_def)
  then have "\<exists>d'. journals_ok (Suc (Suc (Suc 0))) d' \<and> loadJournalV2 d' ''w1'' = Inr x_journal \<and>
      d' = put (WorkloadID x_journal) (JournalFile x_journal) (?d ?r2)"
    using manifest_op.update_succeeds [OF TrueI d2(1) _ d2(2)] by fastforce
  then have "journals_ok 3 (?d x_journal)" "loadJournalV2 (?d x_journal) ''w1'' = Inr x_journal" unfolding id by (simp_all add: numeral_3_eq_3)
  then show "journals_ok 3 (Journals x_world)" "loadJournalV2 (Journals x_world) ''w1'' = Inr x_journal" by (simp_all add: x_world_def)
qed

lemma x_percent: "0 \<le> renditionProgressV2 0 1 90" "renditionProgressV2 0 1 90 \<le> 100"
  by code_simp+

definition x_result :: RenditionResultV2 where
  "x_result = \<lparr>ResultName = ''720p'', PlaylistURI = ArtifactURI (x_place ''p''), StreamURI = ArtifactURI (x_place ''s''),
     ResultVideo = PrepVideo x_prepared, ResultSize = 1\<rparr>"

lemma x_units: "CalculateFrameMegapixelUnitsV2 [x_result] = Inr 277"
  by (simp add: units_iff x_result_def x_prepared_def row_fits_def video_pixels_def)

text \<open>What the tools answer, in any world with the files.\<close>

abbreviation x_at :: "nat \<Rightarrow> (string \<times> string) list \<Rightarrow> journals \<Rightarrow> abr_world" where
  "x_at k u d \<equiv> \<lparr>Tick = k, Files = Files x_world, Uploads = u, Journals = d\<rparr>"

lemma x_request_simps [simp]:
  "ReqWorkloadID x_request = ''w1''" "Input x_request = \<lparr>DownloadURL = ''https://d/in'', ContentSHA256 = []\<rparr>"
  "Manifest (Output x_request) = x_place ''m''" "Renditions (Output x_request) = [(''720p'', \<lparr>Playlist = x_place ''p'', Stream = x_place ''s''\<rparr>)]"
  by (simp_all add: x_request_def)

lemma x_tools_simps [simp]:
  "DiskOK x_tools k" "Send x_tools k url c = Some 200" "FFprobe x_tools k args c = Some ''probe''" "Saves x_tools k = SaveOK" "Digest x_tools c = x_digest"
  "DecodeProbe x_tools c = Inr \<lparr>Streams = [], FormatDuration = [], FormatBitRate = []\<rparr>"
  by (simp_all add: x_tools_def)

lemma x_files [simp]: "map_of (Files x_world) ''work/w1/input.mp4'' = Some ''v''" "map_of (Files x_world) ''work/p.m3u8'' = Some ''p''"
  "map_of (Files x_world) ''work/s.mp4'' = Some ''s''" "map_of (Files x_world) ''work/m.m3u8'' = Some ''m''"
  by (simp_all add: x_world_def)

lemma x_renditions: "\<exists>v a. ABRRenditions x_preset = [\<lparr>RenditionName = ''720p'', Video = v, Audio = a\<rparr>]"
  by (simp add: x_preset_def)

lemma x_disk: "disk x_tools (x_at k u d) = (Inr (), x_at (Suc k) u d)"
  by (simp add: disk_def andThen_def ask_def demand_def give_def)

lemma x_read: "map_of (Files x_world) p = Some c \<Longrightarrow> read_file x_tools p (x_at k u d) = (Inr c, x_at (Suc k) u d)"
  by (simp add: read_file_def andThen_def x_disk get_files_def give_def)

lemma x_hash: "map_of (Files x_world) p = Some c \<Longrightarrow> hash_agrees x_tools p x_sha (x_at k u d) = (Inr True, x_at (Suc k) u d)"
  using x_read [of p c k u d] by (simp add: hash_agrees_def file_digest_def attempt_def andThen_def give_def content_sha256_def x_sha_def)

lemma x_upload: "map_of (Files x_world) p = Some c \<Longrightarrow>
    orFail (UploadFile x_tools p url) e (x_at k u d) = (Inr (), x_at (Suc (Suc k)) (u @ [(url, c)]) d)"
  by (simp add: orFail_def UploadFile_def andThen_def x_read ask_def log_upload_def)

lemma x_probe: "\<exists>probe. orFail (probeMediaV2 x_tools ''work/w1/input.mp4'') e (x_at k u d) = (Inr probe, x_at (Suc (Suc k)) u d)"
  by (simp add: orFail_def probeMediaV2_def run_ffprobe_def andThen_def x_read ask_def give_def ParseProbeOutput_def Let_def)

lemma x_progress: "AppendProgress SaveOK d ''w1'' phase (Finite x) name frames = (Inr e, d') \<Longrightarrow>
    reportProgress x_tools ''w1'' phase x name frames (x_at k u d) = (Inr (), x_at (Suc k) u d')"
  by (simp add: reportProgress_def store_call_def andThen_def give_def)

lemma x_store: "f SaveOK d = (Inr a, d') \<Longrightarrow> store_call x_tools f (x_at k u d) = (Inr a, x_at (Suc k) u d')"
  by (simp add: store_call_def)

lemma x_load: "loadJournalV2 d ''w1'' = Inr r \<Longrightarrow> load_workload ''w1'' (x_at k u d) = (Inr r, x_at k u d)"
  by (simp add: load_workload_def LoadWorkload_def cloneJournalV2_def)

lemma x_input: "ensureInput x_tools x_request ''work/w1/input.mp4'' (x_at k u d) = (Inr (), x_at (Suc k) u d)"
  by (simp add: ensureInput_def input_present_def Let_def andThen_def attempt_def x_read give_def)

lemma x_execution: "\<exists>v w'. Execute x_tools emptyHWProfile x_request x_preset x_world = (Inr v, w') \<and> 3 + Tick w' < 2 ^ 64"
proof -
  note phases = progressPhasesV2_def
  have j: "TerminalEvent x_journal = None" "Delivered x_journal = []" "Prepared x_journal = [(''720p'', x_prepared)]"
    "ManifestPrepared x_journal = Some x_manifest" "ManifestDeliveredURI x_journal = []" by (simp_all add: x_journal_def newJournalV2_def)
  obtain e1 d1 r1 where 1: "AppendProgress SaveOK (Journals x_world) ''w1'' ''probing'' (Finite 5) [] 0 = (Inr e1, d1)" "journals_ok 4 d1"
      "loadJournalV2 d1 ''w1'' = Inr r1" "Delivered r1 = []" "Prepared r1 = [(''720p'', x_prepared)]" "ManifestPrepared r1 = Some x_manifest"
      "ManifestDeliveredURI r1 = []" "TerminalEvent r1 = None"
    using progress_succeeds [OF x_start(1) _ x_start(2) j(1), of "''probing''" 5 "[]" 0] j by (auto simp: phases)
  obtain e2 d2 r2 where 2: "AppendProgress SaveOK d1 ''w1'' ''uploading'' (Finite (renditionProgressV2 0 1 90)) ''720p'' 300 = (Inr e2, d2)"
      "journals_ok 5 d2" "loadJournalV2 d2 ''w1'' = Inr r2" "Delivered r2 = []" "Prepared r2 = [(''720p'', x_prepared)]"
      "ManifestPrepared r2 = Some x_manifest" "ManifestDeliveredURI r2 = []" "TerminalEvent r2 = None" "in_progress r2"
    using progress_succeeds [OF 1(2) _ 1(3,8), of "''uploading''" "renditionProgressV2 0 1 90" "''720p''" 300] 1 x_percent by (auto simp: phases)
  let ?r3 = "r2\<lparr>Delivered := [(''720p'', x_result)]\<rparr>"
  have "SaveDelivered_step x_result r2 = Inr ((), ?r3)"
    using 2 x_places by (simp add: SaveDelivered_step_def preparedMatchesResultV2_def x_result_def x_prepared_def)
  then obtain d3 where 3: "SaveDelivered SaveOK d2 ''w1'' x_result = (Inr (), d3)" "journals_ok 6 d3" "loadJournalV2 d3 ''w1'' = Inr ?r3"
    using delivered_op.update_succeeds [OF TrueI 2(2) _ 2(3), of x_result "()" ?r3] by (auto simp: SaveDelivered_def)
  obtain e4 d4 r4 where 4: "AppendProgress SaveOK d3 ''w1'' ''packaging'' (Finite 98) [] 0 = (Inr e4, d4)" "journals_ok 7 d4"
      "loadJournalV2 d4 ''w1'' = Inr r4" "ManifestPrepared r4 = Some x_manifest" "in_progress r4"
    using progress_succeeds [OF 3(2) _ 3(3), of "''packaging''" 98 "[]" 0] 2 by (auto simp: phases)
  have "SaveDeliveredManifest_step (ArtifactURI (x_place ''m'')) r4 = Inr ((), r4\<lparr>ManifestDeliveredURI := ArtifactURI (x_place ''m'')\<rparr>)"
    using 4 x_places by (simp add: SaveDeliveredManifest_step_def)
  then obtain d5 where 5: "SaveDeliveredManifest SaveOK d4 ''w1'' (ArtifactURI (x_place ''m'')) = (Inr (), d5)"
    using manifest_out_op.update_succeeds [OF TrueI 4(2) _ 4(3)] by (fastforce simp: SaveDeliveredManifest_def)
  have rendition: "renditionLoop x_tools emptyHWProfile x_request ''work/w1'' input x_preset probe r1 0 (ABRRenditions x_preset) (x_at k u d1) =
      (Inr [x_result], x_at (k + 8) (u @ [(UploadURL (x_place ''p''), ''p''), (UploadURL (x_place ''s''), ''s'')]) d3)" for input probe k u
  proof -
    have valid: "preparedFilesValid x_tools x_prepared (x_at k u d) = (Inr True, x_at (Suc (Suc k)) u d)" for k u d
      by (simp add: preparedFilesValid_def x_prepared_def x_texts andThen_def x_hash)
    have deliver: "deliverRendition x_tools x_request x_preset \<lparr>RenditionName = ''720p'', Video = v, Audio = a\<rparr> 0 x_prepared (x_at k u d1) =
        (Inr x_result, x_at (k + 6) (u @ [(UploadURL (x_place ''p''), ''p''), (UploadURL (x_place ''s''), ''s'')]) d3)" for v a k u
    proof -
      have p: "frameCountV2 (PrepVideo x_prepared) = 300" "path_clean (PlaylistPath x_prepared) = ''work/p.m3u8''"
        "path_clean (StreamPath x_prepared) = ''work/s.mp4''" "PrepSize x_prepared = 1" "length (ABRRenditions x_preset) = 1"
        by (simp_all add: x_prepared_def frameCountV2_def x_texts x_preset_def)
      show ?thesis
        using 3(1) unfolding deliverRendition_def Let_def
        by (simp add: p andThen_def x_progress [OF 2(1) [unfolded One_nat_def]] x_upload x_store [of "\<lambda>io d. SaveDelivered io d ''w1'' x_result"] give_def
            flip: x_result_def)
    qed
    show ?thesis
      using 1(4,5) x_renditions by (auto simp: andThen_def demand_def x_texts prepareRendition_def valid give_def deliver)
  qed
  have manifest: "deliverManifest x_tools x_request ''work/w1'' body r1 (x_at k u d4) = (Inr (), x_at (k + 4) (u @ [(UploadURL (x_place ''m''), ''m'')]) d5)" for body k u
  proof -
    have "preparedArtifactValid x_tools x_manifest (x_at k u d4) = (Inr True, x_at (Suc k) u d4)" for k u
      by (simp add: preparedArtifactValid_def x_manifest_def x_texts x_hash)
    then have "prepareManifest x_tools ''w1'' ''work/w1'' body r1 (x_at k u d4) = (Inr ''work/m.m3u8'', x_at (Suc k) u d4)" for k u
      using 1(6) by (simp add: prepareManifest_def Let_def andThen_def give_def) (simp add: x_manifest_def x_texts)
    then show ?thesis using 1(7)
      by (simp add: deliverManifest_def andThen_def x_upload x_store [of "\<lambda>io d. SaveDeliveredManifest io d ''w1'' (ArtifactURI (x_place ''m''))", OF 5])
  qed
  obtain probe where probe: "orFail (probeMediaV2 x_tools ''work/w1/input.mp4'') (executionFailureV2 ''probe_failed'' ''input probe failed'' False) (x_at (Suc (Suc (Suc 0))) [] d1) =
      (Inr probe, x_at (Suc (Suc (Suc (Suc (Suc 0))))) [] d1)"
    using x_probe [of "executionFailureV2 ''probe_failed'' ''input probe failed'' False" "Suc (Suc (Suc 0))" "[]" d1] by auto
  have "x_world = x_at 0 [] (Journals x_world)" by (simp add: x_world_def)
  then have "Execute x_tools emptyHWProfile x_request x_preset x_world = Execute x_tools emptyHWProfile x_request x_preset (x_at 0 [] (Journals x_world))"
    by simp
  moreover have "\<exists>v w'. Execute x_tools emptyHWProfile x_request x_preset (x_at 0 [] (Journals x_world)) = (Inr v, w') \<and> 3 + Tick w' < 2 ^ 64"
    using x_units probe
    by (simp add: Execute_def Let_def andThen_def orFail_def [of "disk _"] x_disk x_texts x_input x_progress [OF 1(1)]
        x_load [OF 1(3)] rendition x_progress [OF 4(1)] manifest give_def)
  ultimately show ?thesis by simp
qed

theorem uploads_match_checkpoints_witness:
  "\<exists>r new. loadJournalV2 (Journals (snd (Execute x_tools emptyHWProfile x_request x_preset x_world))) ''w1'' = Inr r \<and>
    Uploads (snd (Execute x_tools emptyHWProfile x_request x_preset x_world)) = new \<and>
    (\<forall>name. map_of (Delivered r) name \<noteq> None \<longrightarrow> evidence x_tools x_request r new name)"
proof -
  obtain v w' where run: "Execute x_tools emptyHWProfile x_request x_preset x_world = (Inr v, w')" "3 + Tick w' < 2 ^ 64"
    using x_execution by blast
  have j: "TerminalEvent x_journal = None" "Delivered x_journal = []" "Uploads x_world = []" by (simp_all add: x_journal_def newJournalV2_def x_world_def)
  have l: "loadJournalV2 (Journals x_world) (ReqWorkloadID x_request) = Inr x_journal" using x_start(2) by simp
  show ?thesis using uploads_match_checkpoints [OF x_valid x_start(1) l j(1) run] run(1) j(2,3) by auto
qed

theorem successful_result_is_recorded_witness:
  "\<exists>v w' event d. Execute x_tools emptyHWProfile x_request x_preset x_world = (Inr v, w') \<and>
    RecordTerminalResult SaveOK (Journals w') ''w1'' v = (Inr event, d)"
proof -
  obtain v w' where run: "Execute x_tools emptyHWProfile x_request x_preset x_world = (Inr v, w')" "3 + Tick w' < 2 ^ 64"
    using x_execution by blast
  have j: "TerminalEvent x_journal = None" "RequestSHA256 x_journal = RequestContentSHA256V2 (Digest x_tools) x_request"
      "fst ` set (Delivered x_journal) \<subseteq> set (RenditionNames x_preset)" "ManifestDeliveredURI x_journal \<in> {[], ArtifactURI (Manifest (Output x_request))}"
    by (simp_all add: x_journal_def newJournalV2_def RequestContentSHA256V2_def x_sha_def)
  have l: "loadJournalV2 (Journals x_world) (ReqWorkloadID x_request) = Inr x_journal" using x_start(2) by simp
  show ?thesis using successful_result_is_recorded [OF x_valid x_start(1) l j run] run(1) by auto
qed

end
