(* ===== verification/VOD_Contract.thy ===== *)
theory VOD_Contract
  imports Job_Files GPU_Presets
begin

section \<open>The contract of VOD jobs (transcode-runner/vod_v2.go)\<close>

text \<open>
  The documents of a VOD job, the check of a request against the presets of the runner, its identity and its
  work units.  A VOD job has one rendition; its units are those of one video, with the arithmetic that
  both file runners share.
\<close>

definition VODRequestSchemaV2 :: string where "VODRequestSchemaV2 = ''video-transcode-vod/v2''"
definition VODProgressSchemaV2 :: string where "VODProgressSchemaV2 = ''video-transcode-vod-progress/v2''"
definition VODResultSchemaV2 :: string where "VODResultSchemaV2 = ''video-transcode-vod-result/v2''"
definition VODWorkUnitV2 :: string where "VODWorkUnitV2 = ''video-frame-megapixel''"
definition VODWorkUnitsTrailerV2 :: string where "VODWorkUnitsTrailerV2 = ''X-Livepeer-Work-Units''"
definition maxVODBodyV2 :: nat where "maxVODBodyV2 = 5 * 2 ^ 20"

definition vodWorkloadIDPattern :: "string \<Rightarrow> bool" where "vodWorkloadIDPattern = opaqueIDPattern"

record VODInputV2 =
  VodDownloadURL :: string
  VodContentSHA256 :: string

record VODRenditionV2 =
  VodName :: string
  VodWidth :: int
  VodHeight :: int
  VodFPS :: int
  VodCodec :: string

record VODDestinationV2 =
  VodArtifactURI :: string
  VodUploadURL :: string

record VODRequestV2 =
  VodReqSchema :: string
  VodReqID :: string
  VodInput :: VODInputV2
  VodRendition :: VODRenditionV2
  VodStream :: VODDestinationV2   \<comment> \<open>\<open>Output.Stream\<close>\<close>

record VODUsageV2 =
  VodUnit :: string
  VodUnits :: u64

record VODVideoV2 =
  VodFrames :: u64
  VodVideoWidth :: u32
  VodVideoHeight :: u32

record VODProgressV2 =
  VodProgSchema :: string
  VodProgID :: string
  VodProgSHA256 :: string
  VodProgSequence :: u64
  VodProgPhase :: string
  VodProgOverall :: rat
  VodProgFrames :: u64

record VODResultV2 =
  VodResSchema :: string
  VodResID :: string
  VodResSHA256 :: string
  VodResOutcome :: string
  VodResName :: string
  VodStreamURI :: string
  VodResVideo :: "VODVideoV2 option"
  VodResSize :: u64
  VodResUsage :: VODUsageV2

record VODErrorBodyV2 =
  VodErrCode :: string
  VodErrMessage :: string
  VodErrRetryable :: bool

record VODErrorV2 =
  VodErrSchema :: string
  VodErrID :: string
  VodErrSHA256 :: string
  VodErrOutcome :: string
  VodErrBody :: VODErrorBodyV2
  VodErrUsage :: VODUsageV2

subsection \<open>Documents\<close>

definition json_vod_request :: "VODRequestV2 \<Rightarrow> json" where
  "json_vod_request req =
     JObj [(''schema'', JStr (VodReqSchema req)), (''workload_id'', JStr (VodReqID req)),
           (''input'', JObj ([(''download_url'', JStr (VodDownloadURL (VodInput req)))]
                             @ unless_blank ''content_sha256'' (VodContentSHA256 (VodInput req)))),
           (''rendition'', JObj ([(''name'', JStr (VodName (VodRendition req))), (''width'', JNum (fmt_int (VodWidth (VodRendition req)))),
                                  (''height'', JNum (fmt_int (VodHeight (VodRendition req)))), (''fps'', JNum (fmt_int (VodFPS (VodRendition req))))]
                                 @ unless_blank ''codec'' (VodCodec (VodRendition req)))),
           (''output'', JObj [(''stream'', JObj [(''artifact_uri'', JStr (VodArtifactURI (VodStream req))),
                                                 (''upload_url'', JStr (VodUploadURL (VodStream req)))])])]"

definition json_vod_progress :: "VODProgressV2 \<Rightarrow> json" where
  "json_vod_progress p =
     JObj ([(''schema'', JStr (VodProgSchema p)), (''workload_id'', JStr (VodProgID p)), (''request_sha256'', JStr (VodProgSHA256 p)),
            (''sequence'', JNum (fmt_u64 (VodProgSequence p))), (''phase'', JStr (VodProgPhase p)),
            (''overall_progress'', JNum (json_float (VodProgOverall p)))] @ unless_zero ''frames'' (VodProgFrames p))"

definition json_vod_usage :: "VODUsageV2 \<Rightarrow> json" where
  "json_vod_usage u = JObj [(''unit'', JStr (VodUnit u)), (''units'', JNum (fmt_u64 (VodUnits u)))]"

definition json_vod_video :: "VODVideoV2 \<Rightarrow> json" where
  "json_vod_video v = JObj [(''actual_frames'', JNum (fmt_u64 (VodFrames v))), (''width'', JNum (fmt_nat (unat (VodVideoWidth v)))),
     (''height'', JNum (fmt_nat (unat (VodVideoHeight v))))]"

definition json_vod_result :: "VODResultV2 \<Rightarrow> json" where
  "json_vod_result v =
     JObj ([(''schema'', JStr (VodResSchema v)), (''workload_id'', JStr (VodResID v)), (''request_sha256'', JStr (VodResSHA256 v)),
            (''outcome'', JStr (VodResOutcome v)), (''name'', JStr (VodResName v)), (''stream_uri'', JStr (VodStreamURI v))]
           @ (case VodResVideo v of None \<Rightarrow> [] | Some x \<Rightarrow> [(''video'', json_vod_video x)])
           @ [(''file_size_bytes'', JNum (fmt_u64 (VodResSize v))), (''usage'', json_vod_usage (VodResUsage v))])"

definition json_vod_error :: "VODErrorV2 \<Rightarrow> json" where
  "json_vod_error v =
     JObj [(''schema'', JStr (VodErrSchema v)), (''workload_id'', JStr (VodErrID v)), (''request_sha256'', JStr (VodErrSHA256 v)),
           (''outcome'', JStr (VodErrOutcome v)),
           (''error'', JObj [(''code'', JStr (VodErrCode (VodErrBody v))), (''message'', JStr (VodErrMessage (VodErrBody v))),
                             (''retryable'', JBool (VodErrRetryable (VodErrBody v)))]),
           (''usage'', json_vod_usage (VodErrUsage v))]"

definition vodRequestHashV2 :: "(string \<Rightarrow> string) \<Rightarrow> VODRequestV2 \<Rightarrow> string" where
  "vodRequestHashV2 sha req = hex_encode (sha (plain_text (json_vod_request req)))"

subsection \<open>Decoding a request\<close>

definition dec_int :: "json \<Rightarrow> int \<Rightarrow> int option" where
  "dec_int v acc = (case v of JNum x \<Rightarrow> atoi x | JNull \<Rightarrow> Some acc | _ \<Rightarrow> None)"

definition int_member :: "string \<Rightarrow> ('a \<Rightarrow> int) \<Rightarrow> (int \<Rightarrow> 'a \<Rightarrow> 'a) \<Rightarrow> string \<times> (json \<Rightarrow> 'a \<Rightarrow> 'a option)" where
  "int_member name get upd = (name, \<lambda>v r. map_option (\<lambda>x. upd x r) (dec_int v (get r)))"

definition dec_vod_destination :: "json \<Rightarrow> VODDestinationV2 \<Rightarrow> VODDestinationV2 option" where
  "dec_vod_destination = strict_object
     [text_member ''artifact_uri'' VodArtifactURI (\<lambda>x r. r\<lparr>VodArtifactURI := x\<rparr>),
      text_member ''upload_url'' VodUploadURL (\<lambda>x r. r\<lparr>VodUploadURL := x\<rparr>)]"

definition dec_vod_output :: "json \<Rightarrow> VODDestinationV2 \<Rightarrow> VODDestinationV2 option" where
  "dec_vod_output = strict_object [(''stream'', dec_vod_destination)]"

definition dec_vod_input :: "json \<Rightarrow> VODInputV2 \<Rightarrow> VODInputV2 option" where
  "dec_vod_input = strict_object
     [text_member ''download_url'' VodDownloadURL (\<lambda>x r. r\<lparr>VodDownloadURL := x\<rparr>),
      text_member ''content_sha256'' VodContentSHA256 (\<lambda>x r. r\<lparr>VodContentSHA256 := x\<rparr>)]"

definition dec_vod_rendition :: "json \<Rightarrow> VODRenditionV2 \<Rightarrow> VODRenditionV2 option" where
  "dec_vod_rendition = strict_object
     [text_member ''name'' VodName (\<lambda>x r. r\<lparr>VodName := x\<rparr>),
      int_member ''width'' VodWidth (\<lambda>x r. r\<lparr>VodWidth := x\<rparr>),
      int_member ''height'' VodHeight (\<lambda>x r. r\<lparr>VodHeight := x\<rparr>),
      int_member ''fps'' VodFPS (\<lambda>x r. r\<lparr>VodFPS := x\<rparr>),
      text_member ''codec'' VodCodec (\<lambda>x r. r\<lparr>VodCodec := x\<rparr>)]"

definition dec_vod_request :: "json \<Rightarrow> VODRequestV2 \<Rightarrow> VODRequestV2 option" where
  "dec_vod_request = strict_object
     [text_member ''schema'' VodReqSchema (\<lambda>x r. r\<lparr>VodReqSchema := x\<rparr>),
      text_member ''workload_id'' VodReqID (\<lambda>x r. r\<lparr>VodReqID := x\<rparr>),
      (''input'', \<lambda>v r. map_option (\<lambda>x. r\<lparr>VodInput := x\<rparr>) (dec_vod_input v (VodInput r))),
      (''rendition'', \<lambda>v r. map_option (\<lambda>x. r\<lparr>VodRendition := x\<rparr>) (dec_vod_rendition v (VodRendition r))),
      (''output'', \<lambda>v r. map_option (\<lambda>x. r\<lparr>VodStream := x\<rparr>) (dec_vod_output v (VodStream r)))]"

definition zero_vod_request :: VODRequestV2 where
  "zero_vod_request =
     \<lparr>VodReqSchema = [], VodReqID = [], VodInput = \<lparr>VodDownloadURL = [], VodContentSHA256 = []\<rparr>,
      VodRendition = \<lparr>VodName = [], VodWidth = 0, VodHeight = 0, VodFPS = 0, VodCodec = []\<rparr>,
      VodStream = \<lparr>VodArtifactURI = [], VodUploadURL = []\<rparr>\<rparr>"

definition decodeVODRequestV2 :: "string \<Rightarrow> VODRequestV2 option" where
  "decodeVODRequestV2 body =
     (if length body > maxVODBodyV2 then None else decode_strict dec_vod_request zero_vod_request body)"

subsection \<open>The check of a request\<close>

definition vodHTTPURLV2 :: "string \<Rightarrow> error" where
  "vodHTTPURLV2 raw = (if http_url_without_user raw then None else err ''invalid URL'')"

text \<open>The two spellings of HEVC; a request without a codec means H.264.\<close>

definition canonical_codec :: "string \<Rightarrow> string" where
  "canonical_codec c = (if to_lower c = ''h265'' then ''hevc'' else to_lower c)"

definition requested_codec :: "string \<Rightarrow> string" where
  "requested_codec c = (if to_lower c = [] then ''h264'' else canonical_codec c)"

definition validateAndResolve :: "Preset list \<Rightarrow> VODRequestV2 \<Rightarrow> Preset result" where
  "validateAndResolve presets req =
     (let sha = VodContentSHA256 (VodInput req); r = VodRendition req; codec = requested_codec (VodCodec r); uri = VodArtifactURI (VodStream req) in
      if VodReqSchema req \<noteq> VODRequestSchemaV2 then fails ''schema is not the request schema''
      else if \<not> vodWorkloadIDPattern (VodReqID req) then fails ''invalid workload_id''
      else if vodHTTPURLV2 (VodDownloadURL (VodInput req)) \<noteq> None then fails ''input.download_url must be http(s)''
      else if sha \<noteq> [] \<and> (length sha \<noteq> 64 \<or> hex_decode sha = None) then fails ''invalid content_sha256''
      else if VodName r = [] \<or> VodWidth r < 1 \<or> VodHeight r < 1 \<or> VodFPS r < 1
      then fails ''rendition name, width, height, and fps are required''
      else if codec \<notin> {''h264'', ''hevc'', ''av1'', ''vp9''} then fails ''unsupported rendition codec''
      else if trim_space uri = [] \<or> contains_any uri [CHR ''?'', CHR 0x0D, CHR 0x0A]
      then fails ''output.stream.artifact_uri must be a stable non-secret reference''
      else if vodHTTPURLV2 (VodUploadURL (VodStream req)) \<noteq> None then fails ''output.stream.upload_url must be http(s)''
      else (case filter (\<lambda>p. canonical_codec (PresetVideoCodec p) = codec \<and> PresetWidth p = VodWidth r \<and> PresetHeight p = VodHeight r) presets of
              [] \<Rightarrow> fails ''no runner preset supports requested codec and dimensions''
            | p # _ \<Rightarrow> Inr (p\<lparr>PresetFPS := VodFPS r\<rparr>)))"

subsection \<open>Work units\<close>

definition vodUnitsV2 :: "VODVideoV2 option \<Rightarrow> u64 result" where
  "vodUnitsV2 v =
     (case v of
        None \<Rightarrow> Inr 0
      | Some x \<Rightarrow> (case frame_pixels (VodFrames x) (VodVideoWidth x) (VodVideoHeight x) of
                      None \<Rightarrow> fails ''usage overflow'' | Some p \<Rightarrow> Inr (megapixels p)))"

lemma vodUnits_iff:
  "vodUnitsV2 (Some v) = Inr u \<longleftrightarrow>
     unat (VodFrames v) * unat (VodVideoWidth v) < 2 ^ 64 \<and> unat (VodFrames v) * unat (VodVideoWidth v) * unat (VodVideoHeight v) < 2 ^ 64 \<and>
     unat u = (unat (VodFrames v) * unat (VodVideoWidth v) * unat (VodVideoHeight v) + 999999) div 1000000"
proof -
  let ?n = "unat (VodFrames v) * unat (VodVideoWidth v) * unat (VodVideoHeight v)"
  have "vodUnitsV2 (Some v) = Inr u \<longleftrightarrow>
      (\<exists>p. frame_pixels (VodFrames v) (VodVideoWidth v) (VodVideoHeight v) = Some p \<and> u = megapixels p)"
    by (auto simp: vodUnitsV2_def fails_def split: option.splits)
  also have "\<dots> \<longleftrightarrow> unat (VodFrames v) * unat (VodVideoWidth v) < 2 ^ 64 \<and> ?n < 2 ^ 64 \<and> unat u = (?n + 999999) div 1000000"
  proof -
    have "(\<exists>p :: u64. unat p = ?n \<and> u = megapixels p) \<longleftrightarrow> unat u = (?n + 999999) div 1000000" if "?n < 2 ^ 64"
    proof -
      have "unat (of_nat ?n :: u64) = ?n" using that by (simp add: unsigned_of_nat take_bit_nat_eq_self del: of_nat_mult)
      then show ?thesis by (metis unat_megapixels word_unat_eq_iff)
    qed
    then show ?thesis unfolding frame_pixels_iff by blast
  qed
  finally show ?thesis .
qed

end
