(* ===== verification/VOD_Store.thy ===== *)
theory VOD_Store
  imports VOD_Contract
begin

section \<open>The journal of VOD jobs (transcode-runner/vod_v2.go, VODStoreV2)\<close>

text \<open>
  One JSON file per workload; every method reads the file, changes the journal and replaces the file, under
  one lock.  The file of a journal is the record itself here.  A save replaces the file or leaves it; unlike
  in the ABR runner nothing is checked on loading but the version and the name.
\<close>

record vodEventV2 =
  VodSequence :: u64
  VodEvent :: string
  VodData :: json

record vodJournalV2 =
  VodVersion :: int
  VodWorkloadID :: string
  VodRequestSHA256 :: string
  VodState :: string
  VodNextSequence :: u64
  VodEvents :: "vodEventV2 list"
  VodPreparedPath :: string
  VodPreparedHash :: string
  VodVideo :: "VODVideoV2 option"
  VodFileSize :: u64
  VodDelivered :: bool

datatype vod_file = VodJournal vodJournalV2 | VodGarbage | VodUnreadable

type_synonym vod_journals = "(string \<times> vod_file) list"

datatype vod_disposition = NewV2 | ReuseV2 | TerminalV2 | ResumeV2

definition vodLoad :: "vod_journals \<Rightarrow> string \<Rightarrow> vodJournalV2 result" where
  "vodLoad d sid =
     (case map_of d sid of
        None \<Rightarrow> Inl ErrNotExist
      | Some VodUnreadable \<Rightarrow> fails ''workload journal cannot be read''
      | Some VodGarbage \<Rightarrow> fails ''workload journal does not decode''
      | Some (VodJournal j) \<Rightarrow>
          if VodWorkloadID j \<noteq> sid \<or> VodVersion j \<noteq> 1 then fails ''invalid workload journal'' else Inr j)"

definition vodSave :: "save_outcome \<Rightarrow> vod_journals \<Rightarrow> vodJournalV2 \<Rightarrow> error \<times> vod_journals" where
  "vodSave io d j =
     (if io = SaveOK then (None, put (VodWorkloadID j) (VodJournal j) d) else (err ''workload journal was not replaced'', d))"

definition newVodJournalV2 :: "string \<Rightarrow> string \<Rightarrow> vodJournalV2" where
  "newVodJournalV2 sid hash =
     \<lparr>VodVersion = 1, VodWorkloadID = sid, VodRequestSHA256 = hash, VodState = ''in_progress'', VodNextSequence = 1, VodEvents = [],
      VodPreparedPath = [], VodPreparedHash = [], VodVideo = None, VodFileSize = 0, VodDelivered = False\<rparr>"

definition vodLoadOrCreate :: "save_outcome \<Rightarrow> vod_journals \<Rightarrow> string \<Rightarrow> string \<Rightarrow> (vodJournalV2 \<times> vod_disposition) result \<times> vod_journals" where
  "vodLoadOrCreate io d sid hash =
     (case vodLoad d sid of
        Inl e \<Rightarrow>
          if errors_is e ErrNotExist
          then (let j = newVodJournalV2 sid hash in
                case vodSave io d j of (Some e', d') \<Rightarrow> (Inl e', d') | (None, d') \<Rightarrow> (Inr (j, NewV2), d'))
          else (Inl e, d)
      | Inr j \<Rightarrow>
          (Inr (j, if VodRequestSHA256 j \<noteq> hash then ReuseV2 else if VodState j \<noteq> ''in_progress'' then TerminalV2 else ResumeV2), d))"

subsection \<open>Changing a journal\<close>

definition vod_update :: "save_outcome \<Rightarrow> vod_journals \<Rightarrow> string \<Rightarrow> (vodJournalV2 \<Rightarrow> vodJournalV2 result) \<Rightarrow> error \<times> vod_journals" where
  "vod_update io d sid step =
     (case vodLoad d sid of
        Inl e \<Rightarrow> (Some e, d)
      | Inr j \<Rightarrow> (case step j of Inl e \<Rightarrow> (Some e, d) | Inr j' \<Rightarrow> vodSave io d j'))"

definition vodProgress_step :: "string \<Rightarrow> string \<Rightarrow> rat \<Rightarrow> u64 \<Rightarrow> vodJournalV2 \<Rightarrow> vodJournalV2 result" where
  "vodProgress_step sid phase percent frames j =
     (if VodState j \<noteq> ''in_progress'' then fails ''terminal workload''
      else (let e = \<lparr>VodSequence = VodNextSequence j, VodEvent = ''progress'',
                     VodData = json_vod_progress \<lparr>VodProgSchema = VODProgressSchemaV2, VodProgID = sid, VodProgSHA256 = VodRequestSHA256 j,
                       VodProgSequence = VodNextSequence j, VodProgPhase = phase, VodProgOverall = percent, VodProgFrames = frames\<rparr>\<rparr>;
                events = VodEvents j @ [e] in
            Inr (j\<lparr>VodNextSequence := VodNextSequence j + 1,
                   VodEvents := (if length events > 256 then drop (length events - 256) events else events)\<rparr>)))"

definition vodProgress :: "save_outcome \<Rightarrow> vod_journals \<Rightarrow> string \<Rightarrow> string \<Rightarrow> rat \<Rightarrow> u64 \<Rightarrow> error \<times> vod_journals" where
  "vodProgress io d sid phase percent frames = vod_update io d sid (vodProgress_step sid phase percent frames)"

definition vodPrepared_step :: "string \<Rightarrow> string \<Rightarrow> VODVideoV2 option \<Rightarrow> u64 \<Rightarrow> vodJournalV2 \<Rightarrow> vodJournalV2 result" where
  "vodPrepared_step path hash video file_bytes j =
     (if VodState j \<noteq> ''in_progress'' then fails ''terminal workload''
      else Inr (j\<lparr>VodPreparedPath := path, VodPreparedHash := hash, VodVideo := video, VodFileSize := file_bytes\<rparr>))"

definition vodPrepared :: "save_outcome \<Rightarrow> vod_journals \<Rightarrow> string \<Rightarrow> string \<Rightarrow> string \<Rightarrow> VODVideoV2 option \<Rightarrow> u64 \<Rightarrow> error \<times> vod_journals" where
  "vodPrepared io d sid path hash video file_bytes = vod_update io d sid (vodPrepared_step path hash video file_bytes)"

definition vodDelivered :: "save_outcome \<Rightarrow> vod_journals \<Rightarrow> string \<Rightarrow> error \<times> vod_journals" where
  "vodDelivered io d sid = vod_update io d sid (\<lambda>j. Inr (j\<lparr>VodDelivered := True\<rparr>))"

datatype vod_terminal = VodResult VODResultV2 | VodFailure VODErrorV2

text \<open>The event of a terminal value; \<open>execute\<close> pairs each with its state.\<close>

definition vodTerminalEvent :: "u64 \<Rightarrow> vod_terminal \<Rightarrow> vodEventV2" where
  "vodTerminalEvent n value =
     (case value of
        VodResult v \<Rightarrow> \<lparr>VodSequence = n, VodEvent = ''result'', VodData = json_vod_result v\<rparr>
      | VodFailure v \<Rightarrow> \<lparr>VodSequence = n, VodEvent = ''error'', VodData = json_vod_error v\<rparr>)"

definition vodTerminal_step :: "vod_terminal \<Rightarrow> vodJournalV2 \<Rightarrow> vodJournalV2 result" where
  "vodTerminal_step value j =
     (if VodState j \<noteq> ''in_progress'' then fails ''terminal workload''
      else Inr (j\<lparr>VodNextSequence := VodNextSequence j + 1, VodEvents := VodEvents j @ [vodTerminalEvent (VodNextSequence j) value],
                  VodState := (case value of VodResult _ \<Rightarrow> ''succeeded'' | VodFailure _ \<Rightarrow> ''failed'')\<rparr>))"

definition vodTerminal :: "save_outcome \<Rightarrow> vod_journals \<Rightarrow> string \<Rightarrow> vod_terminal \<Rightarrow> error \<times> vod_journals" where
  "vodTerminal io d sid value = vod_update io d sid (vodTerminal_step value)"

subsection \<open>What is billed\<close>

definition dec_vod_usage :: "json \<Rightarrow> u64 \<Rightarrow> u64 option" where
  "dec_vod_usage v acc = (case v of JObj fs \<Rightarrow> fill_field dec_u64 ''units'' acc fs | JNull \<Rightarrow> Some acc | _ \<Rightarrow> None)"

text \<open>Of the documents only the members that are read are decoded; they are those that the journal wrote.\<close>

definition vodTerminalUnitsV2 :: "vodJournalV2 \<Rightarrow> u64" where
  "vodTerminalUnitsV2 j =
     (if VodEvents j = [] then 0
      else (let e = last (VodEvents j) in
        if VodEvent e = ''result'' \<or> VodEvent e = ''error'' then
          (case VodData e of JObj fs \<Rightarrow> (case fill_field dec_vod_usage ''usage'' 0 fs of None \<Rightarrow> 0 | Some u \<Rightarrow> u) | _ \<Rightarrow> 0)
        else 0))"

subsection \<open>The invariant of a journal\<close>

text \<open>
  The numbers of the events are consecutive and end before the next one; a journal in progress has progress
  events only, and a terminal one ends with the event that made it terminal.  \<open>n\<close> bounds the calls of the store.
\<close>

definition vod_open :: "vodJournalV2 \<Rightarrow> bool" where
  "vod_open j \<longleftrightarrow> VodState j = ''in_progress''"

definition vod_events_ok :: "vodJournalV2 \<Rightarrow> bool" where
  "vod_events_ok j \<longleftrightarrow> (\<exists>k\<ge>1. map (\<lambda>e. unat (VodSequence e)) (VodEvents j) = [k..<unat (VodNextSequence j)])"

definition vod_state_ok :: "vodJournalV2 \<Rightarrow> bool" where
  "vod_state_ok j \<longleftrightarrow>
     (if vod_open j then (\<forall>e\<in>set (VodEvents j). VodEvent e = ''progress'')
      else \<exists>es value. VodEvents j = es @ [vodTerminalEvent (VodNextSequence j - 1) value] \<and>
        VodState j = (case value of VodResult _ \<Rightarrow> ''succeeded'' | VodFailure _ \<Rightarrow> ''failed'') \<and> (\<forall>e\<in>set es. VodEvent e = ''progress''))"

definition vod_ok :: "nat \<Rightarrow> vodJournalV2 \<Rightarrow> bool" where
  "vod_ok n j \<longleftrightarrow> VodVersion j = 1 \<and> 1 \<le> unat (VodNextSequence j) \<and> unat (VodNextSequence j) \<le> n \<and> vod_events_ok j \<and> vod_state_ok j"

definition vods_ok :: "nat \<Rightarrow> vod_journals \<Rightarrow> bool" where
  "vods_ok n d \<longleftrightarrow> (\<forall>sid f. map_of d sid = Some f \<longrightarrow> (\<exists>j. f = VodJournal j \<and> VodWorkloadID j = sid \<and> vod_ok n j))"

text \<open>What no method takes back.  A terminal journal keeps everything but the mark of its delivery.\<close>

definition vod_advances :: "vodJournalV2 \<Rightarrow> vodJournalV2 \<Rightarrow> bool" where
  "vod_advances j j' \<longleftrightarrow>
     VodWorkloadID j' = VodWorkloadID j \<and> VodRequestSHA256 j' = VodRequestSHA256 j \<and> VodNextSequence j \<le> VodNextSequence j' \<and>
     (VodDelivered j \<longrightarrow> VodDelivered j') \<and>
     (\<forall>e\<in>set (VodEvents j'). e \<in> set (VodEvents j) \<or> VodNextSequence j \<le> VodSequence e) \<and>
     (\<not> vod_open j \<longrightarrow> (\<exists>x. j' = j\<lparr>VodDelivered := x\<rparr>))"

lemma vod_advances_refl [simp]: "vod_advances j j"
proof -
  have "j = j\<lparr>VodDelivered := VodDelivered j\<rparr>" by simp
  then show ?thesis unfolding vod_advances_def by blast
qed

lemma vod_advancesD:
  assumes "vod_advances j j'"
  shows "VodWorkloadID j' = VodWorkloadID j" "VodRequestSHA256 j' = VodRequestSHA256 j" "VodNextSequence j \<le> VodNextSequence j'"
    "VodDelivered j \<Longrightarrow> VodDelivered j'" "e \<in> set (VodEvents j') \<Longrightarrow> e \<in> set (VodEvents j) \<or> VodNextSequence j \<le> VodSequence e"
    "\<not> vod_open j \<Longrightarrow> \<exists>x. j' = j\<lparr>VodDelivered := x\<rparr>"
  using assms unfolding vod_advances_def by blast+

lemma vod_advances_trans:
  assumes ab: "vod_advances a b" and bc: "vod_advances b c"
  shows "vod_advances a c"
proof -
  note x = vod_advancesD [OF ab] and y = vod_advancesD [OF bc]
  have "e \<in> set (VodEvents a) \<or> VodNextSequence a \<le> VodSequence e" if "e \<in> set (VodEvents c)" for e
    using y(5) [OF that] x(5) [of e] x(3) order_trans by blast
  moreover have "\<exists>z. c = a\<lparr>VodDelivered := z\<rparr>" if closed: "\<not> vod_open a"
  proof -
    obtain z where b: "b = a\<lparr>VodDelivered := z\<rparr>" using x(6) closed by blast
    then have "\<not> vod_open b" using closed by (simp add: vod_open_def)
    then show ?thesis using y(6) b by auto
  qed
  moreover have "VodWorkloadID c = VodWorkloadID a" "VodRequestSHA256 c = VodRequestSHA256 a" using x(1,2) y(1,2) by simp_all
  moreover have "VodNextSequence a \<le> VodNextSequence c" using x(3) y(3) by (rule order_trans)
  ultimately show ?thesis using x(4) y(4) unfolding vod_advances_def by blast
qed

lemma vod_ok_mono: "vod_ok n j \<Longrightarrow> n \<le> m \<Longrightarrow> vod_ok m j"
  by (simp add: vod_ok_def)

lemma vods_ok_mono: "vods_ok n d \<Longrightarrow> n \<le> m \<Longrightarrow> vods_ok m d"
  unfolding vods_ok_def using vod_ok_mono by blast

lemma vod_loads:
  assumes "vods_ok n d"
  shows "vodLoad d sid = (case map_of d sid of Some (VodJournal j) \<Rightarrow> Inr j | _ \<Rightarrow> Inl ErrNotExist)"
proof (cases "map_of d sid")
  case (Some f)
  then obtain j where "f = VodJournal j" "VodWorkloadID j = sid" "vod_ok n j" using assms by (auto simp: vods_ok_def)
  then show ?thesis using Some by (simp add: vodLoad_def vod_ok_def)
qed (simp add: vodLoad_def)

lemma vod_loaded:
  assumes "vods_ok n d" and "vodLoad d sid = Inr j"
  shows "vod_ok n j" "VodWorkloadID j = sid" "map_of d sid = Some (VodJournal j)"
proof -
  have "map_of d sid = Some (VodJournal j)" using assms by (auto simp: vod_loads [OF assms(1)] split: option.splits vod_file.splits)
  then show "vod_ok n j" "VodWorkloadID j = sid" "map_of d sid = Some (VodJournal j)" using assms(1) unfolding vods_ok_def by blast+
qed

text \<open>The promise of a method: it keeps the invariant and only advances.\<close>

locale vod_op =
  fixes step :: "vodJournalV2 \<Rightarrow> vodJournalV2 result"
  assumes keeps: "vod_ok n j \<Longrightarrow> Suc n < 2 ^ 64 \<Longrightarrow> step j = Inr j' \<Longrightarrow> vod_ok (Suc n) j' \<and> vod_advances j j'"
begin

lemma update_cases:
  assumes d: "vods_ok n d" and small: "Suc n < 2 ^ 64" and u: "vod_update io d sid step = (e, d')"
  obtains (left) x where "e = Some x" "d' = d" | (done_) j j' where "e = None" "vodLoad d sid = Inr j" "step j = Inr j'"
    "vod_ok (Suc n) j'" "vod_advances j j'" "d' = put sid (VodJournal j') d"
proof (cases "vodLoad d sid")
  case (Inl x)
  then show ?thesis using u left [of x] by (simp add: vod_update_def)
next
  case (Inr j)
  show ?thesis
  proof (cases "step j")
    case (Inl x)
    then show ?thesis using u left [of x] \<open>vodLoad d sid = Inr j\<close> by (simp add: vod_update_def)
  next
    case (Inr j')
    have k: "vod_ok (Suc n) j'" "vod_advances j j'" using keeps [OF vod_loaded(1) [OF d \<open>vodLoad d sid = Inr j\<close>] small Inr] by simp_all
    have "VodWorkloadID j' = sid" using vod_advancesD(1) [OF k(2)] vod_loaded(2) [OF d \<open>vodLoad d sid = Inr j\<close>] by simp
    then have "vod_update io d sid step = (if io = SaveOK then (None, put sid (VodJournal j') d) else (err ''workload journal was not replaced'', d))"
      using \<open>vodLoad d sid = Inr j\<close> Inr by (simp add: vod_update_def vodSave_def)
    then show ?thesis using u k left done_ [OF _ \<open>vodLoad d sid = Inr j\<close> Inr k] by (auto simp: err_def split: if_splits)
  qed
qed

lemma update_keeps:
  assumes d: "vods_ok n d" and small: "Suc n < 2 ^ 64"
  shows "vods_ok (Suc n) (snd (vod_update io d sid step))"
proof -
  obtain e d' where u: "vod_update io d sid step = (e, d')" by (cases "vod_update io d sid step")
  show ?thesis
    using d small u
  proof (cases rule: update_cases)
    case left
    then show ?thesis using u vods_ok_mono [OF d, of "Suc n"] by simp
  next
    case (done_ j j')
    have "VodWorkloadID j' = sid" using vod_advancesD(1) [OF done_(5)] vod_loaded(2) [OF d done_(2)] by simp
    then show ?thesis using u done_ vods_ok_mono [OF d, of "Suc n"] by (auto simp: vods_ok_def)
  qed
qed

lemma update_advances:
  assumes d: "vods_ok n d" and small: "Suc n < 2 ^ 64" and l: "vodLoad d x = Inr j"
  shows "\<exists>j'. vodLoad (snd (vod_update io d sid step)) x = Inr j' \<and> vod_advances j j'"
proof -
  obtain e d' where u: "vod_update io d sid step = (e, d')" by (cases "vod_update io d sid step")
  have k: "vods_ok (Suc n) d'" using update_keeps [OF d small, of io sid] u by simp
  show ?thesis
    using d small u
  proof (cases rule: update_cases)
    case left
    then show ?thesis using u l by auto
  next
    case (done_ i i')
    show ?thesis
    proof (cases "x = sid")
      case True
      then have "i = j" using l done_(2) by simp
      moreover have "vodLoad d' sid = Inr i'" unfolding vod_loads [OF k] using done_(6) by simp
      ultimately show ?thesis using True done_(5) u by simp
    next
      case False
      then have "vodLoad d' x = vodLoad d x" using done_(6) by (simp add: vodLoad_def)
      then show ?thesis using u l by auto
    qed
  qed
qed

end

subsection \<open>Every method keeps its promise\<close>

lemma vod_next:
  assumes "vod_ok n j" and "Suc n < 2 ^ 64"
  shows "unat (VodNextSequence j + 1) = Suc (unat (VodNextSequence j))" "VodNextSequence j < VodNextSequence j + 1"
proof -
  have "VodNextSequence j \<noteq> max_u64"
    using assms unat_u64_less [of "VodNextSequence j"] by (auto simp: vod_ok_def max_u64_def unsigned_minus_1_eq_mask mask_eq_exp_minus_1)
  then show "unat (VodNextSequence j + 1) = Suc (unat (VodNextSequence j))" "VodNextSequence j < VodNextSequence j + 1"
    by (simp_all add: unat_Suc_u64 u64_less_Suc)
qed

text \<open>An event with the next number at the end, and perhaps fewer at the front.\<close>

lemma vod_append_ok:
  assumes j: "vod_events_ok j" and s: "VodSequence e = VodNextSequence j" and n: "unat (VodNextSequence j') = Suc (unat (VodNextSequence j))"
    and e: "VodEvents j' = drop m (VodEvents j @ [e])" and pos: "1 \<le> unat (VodNextSequence j)"
  shows "vod_events_ok j'"
proof -
  obtain k where k: "1 \<le> k" "map (\<lambda>e. unat (VodSequence e)) (VodEvents j) = [k..<unat (VodNextSequence j)]"
    using j by (auto simp: vod_events_ok_def)
  have all: "map (\<lambda>e. unat (VodSequence e)) (VodEvents j @ [e]) = [min k (unat (VodNextSequence j))..<Suc (unat (VodNextSequence j))]"
    using k s by (cases "k \<le> unat (VodNextSequence j)") (simp_all add: min_def)
  have "map (\<lambda>e. unat (VodSequence e)) (VodEvents j') = [min k (unat (VodNextSequence j)) + m..<unat (VodNextSequence j')]"
    unfolding e drop_map [symmetric] all n by (simp add: drop_upt)
  then show ?thesis unfolding vod_events_ok_def using k(1) pos by (intro exI [of _ "min k (unat (VodNextSequence j)) + m"]) simp
qed

lemma vod_opened: "vod_state_ok j \<Longrightarrow> vod_open j \<Longrightarrow> e \<in> set (VodEvents j) \<Longrightarrow> VodEvent e = ''progress''"
  by (simp add: vod_state_ok_def)

interpretation vod_progress_op: vod_op "vodProgress_step sid phase percent frames" for sid phase percent frames
proof
  fix n j j' assume ok: "vod_ok n j" and small: "Suc n < 2 ^ 64" and st: "vodProgress_step sid phase percent frames j = Inr j'"
  define e where "e = \<lparr>VodSequence = VodNextSequence j, VodEvent = ''progress'',
      VodData = json_vod_progress \<lparr>VodProgSchema = VODProgressSchemaV2, VodProgID = sid, VodProgSHA256 = VodRequestSHA256 j,
        VodProgSequence = VodNextSequence j, VodProgPhase = phase, VodProgOverall = percent, VodProgFrames = frames\<rparr>\<rparr>"
  have o: "vod_open j" using st by (auto simp: vodProgress_step_def vod_open_def fails_def split: if_splits)
  obtain m where m: "VodEvents j' = drop m (VodEvents j @ [e])"
    and j': "j' = j\<lparr>VodNextSequence := VodNextSequence j + 1, VodEvents := VodEvents j'\<rparr>"
  proof (cases "256 < Suc (length (VodEvents j))")
    case True
    then show ?thesis using st o that [of "Suc (length (VodEvents j)) - 256"]
      by (auto simp: vodProgress_step_def vod_open_def Let_def e_def)
  next
    case False
    then show ?thesis using st o that [of 0] by (auto simp: vodProgress_step_def vod_open_def Let_def e_def)
  qed
  have f: "VodNextSequence j' = VodNextSequence j + 1" "VodState j' = VodState j" "VodVersion j' = VodVersion j" "VodWorkloadID j' = VodWorkloadID j"
    "VodRequestSHA256 j' = VodRequestSHA256 j" "VodDelivered j' = VodDelivered j" by (subst j', simp)+
  have old: "x \<in> set (VodEvents j) \<or> x = e" if "x \<in> set (VodEvents j')" for x
    using that in_set_dropD [of x m "VodEvents j @ [e]"] unfolding m by auto
  note nx = vod_next [OF ok small]
  have "vod_events_ok j'"
    by (rule vod_append_ok [OF _ _ _ m]) (use ok f nx in \<open>simp_all add: vod_ok_def e_def\<close>)
  moreover have "vod_state_ok j'"
  proof -
    have "VodEvent x = ''progress''" if "x \<in> set (VodEvents j')" for x
      using old [OF that] vod_opened [of j x] o ok by (auto simp: vod_ok_def e_def)
    then show ?thesis using o f by (simp add: vod_state_ok_def vod_open_def)
  qed
  moreover have "vod_advances j j'"
  proof -
    have "x \<in> set (VodEvents j) \<or> VodNextSequence j \<le> VodSequence x" if "x \<in> set (VodEvents j')" for x
      using old [OF that] by (auto simp: e_def)
    then show ?thesis unfolding vod_advances_def using f o nx(2) by simp
  qed
  ultimately show "vod_ok (Suc n) j' \<and> vod_advances j j'" using ok f nx(1) by (simp add: vod_ok_def)
qed

interpretation vod_prepared_op: vod_op "vodPrepared_step path hash video file_bytes" for path hash video file_bytes
proof
  fix n j j' assume ok: "vod_ok n j" and st: "vodPrepared_step path hash video file_bytes j = Inr j'"
  then have o: "vod_open j" and j': "j' = j\<lparr>VodPreparedPath := path, VodPreparedHash := hash, VodVideo := video, VodFileSize := file_bytes\<rparr>"
    by (auto simp: vodPrepared_step_def vod_open_def fails_def split: if_splits)
  show "vod_ok (Suc n) j' \<and> vod_advances j j'"
    using ok o by (simp add: j' vod_ok_def vod_events_ok_def vod_state_ok_def vod_open_def vod_advances_def)
qed

interpretation vod_delivered_op: vod_op "\<lambda>j. Inr (j\<lparr>VodDelivered := True\<rparr>)"
proof
  fix n j j' assume ok: "vod_ok n j" and st: "Inr (j\<lparr>VodDelivered := True\<rparr>) = (Inr j' :: vodJournalV2 result)"
  have "vod_advances j (j\<lparr>VodDelivered := True\<rparr>)" unfolding vod_advances_def by auto
  then show "vod_ok (Suc n) j' \<and> vod_advances j j'"
    using ok st by (auto simp: vod_ok_def vod_events_ok_def vod_state_ok_def vod_open_def)
qed

interpretation vod_terminal_op: vod_op "vodTerminal_step value" for "value"
proof
  fix n j j' assume ok: "vod_ok n j" and small: "Suc n < 2 ^ 64" and st: "vodTerminal_step value j = Inr j'"
  then have o: "vod_open j" and j': "j' = j\<lparr>VodNextSequence := VodNextSequence j + 1,
      VodEvents := VodEvents j @ [vodTerminalEvent (VodNextSequence j) value],
      VodState := (case value of VodResult _ \<Rightarrow> ''succeeded'' | VodFailure _ \<Rightarrow> ''failed'')\<rparr>"
    by (auto simp: vodTerminal_step_def vod_open_def fails_def split: if_splits)
  have s: "VodSequence (vodTerminalEvent m value) = m" for m by (simp add: vodTerminalEvent_def split: vod_terminal.splits)
  note nx = vod_next [OF ok small]
  have "vod_events_ok j'"
    by (rule vod_append_ok [of j "vodTerminalEvent (VodNextSequence j) value" _ 0]) (use ok nx s in \<open>simp_all add: vod_ok_def j'\<close>)
  moreover have "vod_state_ok j'"
    using o ok by (auto simp: vod_state_ok_def vod_open_def vod_ok_def j' split: vod_terminal.splits)
  moreover have "vod_advances j j'" unfolding vod_advances_def using o nx(2) s by (auto simp: j')
  ultimately show "vod_ok (Suc n) j' \<and> vod_advances j j'" using ok nx(1) by (simp add: vod_ok_def j')
qed

end
