(* ===== verification/VOD_Executor.thy ===== *)
theory VOD_Executor
  imports VOD_Store FFmpeg_Args
begin

section \<open>The execution of a VOD job (transcode-runner/vod_v2.go, doExecute)\<close>

text \<open>
  Download, probe, encode, upload: what the journal has as prepared is kept when the file is intact, and
  what it has as delivered is not uploaded.  Progress that cannot be stored is ignored.  A journal is read
  from the disk, so reading may fail at any time; after the checkpoint of the encoding that error is
  ignored, and the use of the video that was not read is a panic (\<open>VodPanics\<close>).
\<close>

record vod_world = job_world +
  VodJournals :: vod_journals

datatype vod_stop = VodFails | VodPanics

type_synonym 'a vod_job = "(vod_world, vod_stop, 'a) job"

definition vod_call :: "job_tools \<Rightarrow> (save_outcome \<Rightarrow> vod_journals \<Rightarrow> error \<times> vod_journals) \<Rightarrow> unit vod_job" where
  "vod_call t f = (\<lambda>w. case f (Saves t (Tick w)) (VodJournals w) of
     (e, d) \<Rightarrow> ((case e of None \<Rightarrow> Inr () | Some _ \<Rightarrow> Inl VodFails), w\<lparr>Tick := Suc (Tick w), VodJournals := d\<rparr>))"

definition get_vod_journals :: "vod_journals vod_job" where
  "get_vod_journals = (\<lambda>w. (Inr (VodJournals w), w))"

definition vod_load :: "job_tools \<Rightarrow> string \<Rightarrow> vodJournalV2 vod_job" where
  "vod_load t sid = andThen (orFail (disk t) VodFails) (\<lambda>_. andThen get_vod_journals (\<lambda>d.
     case vodLoad d sid of Inl _ \<Rightarrow> stop VodFails | Inr j \<Rightarrow> give j))"

definition vod_report :: "job_tools \<Rightarrow> string \<Rightarrow> string \<Rightarrow> rat \<Rightarrow> u64 \<Rightarrow> unit vod_job" where
  "vod_report t sid phase percent frames = ignoring (vod_call t (\<lambda>io d. vodProgress io d sid phase percent frames))"

subsection \<open>The input\<close>

definition vodInput :: "job_tools \<Rightarrow> VODRequestV2 \<Rightarrow> string \<Rightarrow> unit vod_job" where
  "vodInput t req inputPath =
     (let partial = inputPath @ ''.partial''; sha = VodContentSHA256 (VodInput req) in
      andThen (attempt (read_file t inputPath)) (\<lambda>found.
        case found of
          Inr _ \<Rightarrow> give ()
        | Inl (_ :: unit) \<Rightarrow>
            andThen (vod_report t (VodReqID req) ''downloading'' 0 0) (\<lambda>_.
            andThen (remove_file t partial) (\<lambda>_.
            andThen (orFail (DownloadFile t (VodDownloadURL (VodInput req)) partial) VodFails) (\<lambda>_.
            andThen (if sha = [] then give ()
                     else andThen (attempt (file_digest t partial)) (\<lambda>got.
                       demand ((case got of Inr h \<Rightarrow> h | Inl (_ :: unit) \<Rightarrow> []) = sha) VodFails)) (\<lambda>_.
            orFail (rename_file t partial inputPath) VodFails))))))"

subsection \<open>The encoding\<close>

definition vodExactVideoV2 :: "job_tools \<Rightarrow> string \<Rightarrow> (vod_world, unit, VODVideoV2) job" where
  "vodExactVideoV2 t path =
     andThen (run_ffprobe t (frame_probe_args (in_state_dir t path)) path) (\<lambda>text.
       case decode_frame_probe text of
         Some (s # _) \<Rightarrow>
           (case parse_uint (NbReadFrames s) 64 of
              None \<Rightarrow> stop ()
            | Some frames \<Rightarrow>
                if frames = 0 then stop ()
                else give \<lparr>VodFrames = of_nat frames, VodVideoWidth = ProbedWidth s, VodVideoHeight = ProbedHeight s\<rparr>)
       | _ \<Rightarrow> stop ())"

definition vodPreparedValidV2 :: "job_tools \<Rightarrow> vodJournalV2 \<Rightarrow> bool vod_job" where
  "vodPreparedValidV2 t j =
     (if VodPreparedPath j = [] \<or> has_prefix (VodPreparedPath j) ''/'' \<or> contains (VodPreparedPath j) ''..'' \<or> VodPreparedHash j = [] \<or>
         VodVideo j = None
      then give False
      else andThen (attempt (file_digest t (path_clean (VodPreparedPath j)))) (\<lambda>h. give (h = (Inr (VodPreparedHash j) :: unit + string))))"

definition no_options :: "ProbeResult \<Rightarrow> TranscodeOptions" where
  "no_options probe = \<lparr>SubtitlePath = [], WatermarkPath = [], WatermarkPos = [], WatermarkScale = 0, ToneMap = IsHDR probe\<rparr>"

definition encodingProgressV2 :: "ProbeResult \<Rightarrow> ProgressInfo \<Rightarrow> rat" where
  "encodingProgressV2 probe info =
     fl_add 10 (fl_mul (CalcPercent (InfoTime info) (trunc (fl_mul (ProbeDuration probe) 1000000000))) (fl (8 / 10)))"

definition vodEncode :: "job_tools \<Rightarrow> HWProfile \<Rightarrow> VODRequestV2 \<Rightarrow> Preset \<Rightarrow> string \<Rightarrow> string \<Rightarrow> ProbeResult \<Rightarrow> vodJournalV2 vod_job" where
  "vodEncode t hw req preset inputPath outputPath probe =
     (let args = TranscodeCmd (in_state_dir t inputPath) (in_state_dir t outputPath) preset hw probe (no_options probe) in
      andThen (remove_file t outputPath) (\<lambda>_.
      andThen (vod_report t (VodReqID req) ''encoding'' 10 0) (\<lambda>_.
      andThen (orFail (run_ffmpeg t args inputPath
          (\<lambda>info. vod_report t (VodReqID req) ''encoding'' (encodingProgressV2 probe info) (of_int (max (InfoFrame info) 0)))) VodFails)
        (\<lambda>(_, exitOK, scanOK).
      andThen (demand exitOK VodFails) (\<lambda>_. andThen (demand scanOK VodFails) (\<lambda>_.
      andThen (orFail (vodExactVideoV2 t outputPath) VodFails) (\<lambda>video.
      andThen (orFail (file_digest t outputPath) VodFails) (\<lambda>hash.
      andThen (orFail (read_file t outputPath) VodFails) (\<lambda>c.
      andThen (vod_call t (\<lambda>io d. vodPrepared io d (VodReqID req) outputPath hash (Some video) (of_nat (length c)))) (\<lambda>_.
      andThen (attempt (vod_load t (VodReqID req))) (\<lambda>loaded.
        give (case loaded of Inr j \<Rightarrow> j | Inl (_ :: vod_stop) \<Rightarrow> (newVodJournalV2 [] [])\<lparr>VodVersion := 0, VodState := [], VodNextSequence := 0\<rparr>))))))))))))"

subsection \<open>The delivery and the whole execution\<close>

definition vodDeliver :: "job_tools \<Rightarrow> VODRequestV2 \<Rightarrow> vodJournalV2 \<Rightarrow> unit vod_job" where
  "vodDeliver t req j =
     (if VodDelivered j then give ()
      else (case VodVideo j of
        None \<Rightarrow> stop VodPanics
      | Some video \<Rightarrow>
          andThen (vod_report t (VodReqID req) ''uploading'' 95 (VodFrames video)) (\<lambda>_.
          andThen (orFail (UploadFile t (path_clean (VodPreparedPath j)) (VodUploadURL (VodStream req))) VodFails) (\<lambda>_.
          vod_call t (\<lambda>io d. vodDelivered io d (VodReqID req))))))"

definition vodResult :: "VODRequestV2 \<Rightarrow> string \<Rightarrow> vodJournalV2 \<Rightarrow> u64 \<Rightarrow> VODResultV2" where
  "vodResult req hash j units =
     \<lparr>VodResSchema = VODResultSchemaV2, VodResID = VodReqID req, VodResSHA256 = hash, VodResOutcome = ''succeeded'',
      VodResName = VodName (VodRendition req), VodStreamURI = VodArtifactURI (VodStream req), VodResVideo = VodVideo j,
      VodResSize = VodFileSize j, VodResUsage = \<lparr>VodUnit = VODWorkUnitV2, VodUnits = units\<rparr>\<rparr>"

definition doExecute :: "job_tools \<Rightarrow> HWProfile \<Rightarrow> VODRequestV2 \<Rightarrow> Preset \<Rightarrow> string \<Rightarrow> VODResultV2 vod_job" where
  "doExecute t hw req preset hash =
     (let workDir = path_join2 ''work'' (VodReqID req);
          inputPath = path_join2 workDir (''input'' @ guessExtension (VodDownloadURL (VodInput req)));
          outputPath = path_join2 workDir ''output.mp4'' in
      andThen (orFail (disk t) VodFails) (\<lambda>_.
      andThen (vodInput t req inputPath) (\<lambda>_.
      andThen (vod_report t (VodReqID req) ''probing'' 5 0) (\<lambda>_.
      andThen (orFail (probeMediaV2 t inputPath) VodFails) (\<lambda>probe.
      andThen (vod_load t (VodReqID req)) (\<lambda>loaded.
      andThen (vodPreparedValidV2 t loaded) (\<lambda>valid.
      andThen (if valid then give loaded else vodEncode t hw req preset inputPath outputPath probe) (\<lambda>j.
      andThen (vodDeliver t req j) (\<lambda>_.
        case vodUnitsV2 (VodVideo j) of
          Inl _ \<Rightarrow> stop VodFails
        | Inr units \<Rightarrow> give (vodResult req hash j units))))))))))"

text \<open>\<open>execute\<close> after \<open>doExecute\<close> returned: the terminal event, its error ignored.\<close>

definition vodFailure :: "string \<Rightarrow> string \<Rightarrow> VODErrorV2" where
  "vodFailure sid hash =
     \<lparr>VodErrSchema = VODResultSchemaV2, VodErrID = sid, VodErrSHA256 = hash, VodErrOutcome = ''failed'',
      VodErrBody = \<lparr>VodErrCode = ''execution_failed'', VodErrMessage = ''VOD execution failed'', VodErrRetryable = True\<rparr>,
      VodErrUsage = \<lparr>VodUnit = VODWorkUnitV2, VodUnits = 0\<rparr>\<rparr>"

definition vodOutcome :: "string \<Rightarrow> string \<Rightarrow> vod_stop + VODResultV2 \<Rightarrow> vod_terminal option" where
  "vodOutcome sid hash res =
     (case res of Inr v \<Rightarrow> Some (VodResult v) | Inl VodFails \<Rightarrow> Some (VodFailure (vodFailure sid hash)) | Inl VodPanics \<Rightarrow> None)"

end
