(* ===== verification/VOD_Execution.thy ===== *)
theory VOD_Execution
  imports VOD_Executor Job_Logic
begin

section \<open>What a VOD execution does\<close>

text \<open>
  Along the definition of \<open>doExecute\<close>, with the triples and views of \<open>Job_Logic\<close>: what it may do to the
  journals, and what is uploaded when a journal says that the output is delivered.
\<close>

subsection \<open>Calls of the store\<close>

datatype vod_store_call =
    VodOpen string string
  | VodReport string string rat u64
  | VodSave string string string "VODVideoV2 option" u64
  | VodMark string
  | VodEnd string vod_terminal

fun vod_run_call :: "save_outcome \<Rightarrow> vod_store_call \<Rightarrow> vod_journals \<Rightarrow> vod_journals" where
  "vod_run_call io (VodOpen sid hash) d = snd (vodLoadOrCreate io d sid hash)"
| "vod_run_call io (VodReport sid phase x frames) d = snd (vodProgress io d sid phase x frames)"
| "vod_run_call io (VodSave sid path hash video file_bytes) d = snd (vodPrepared io d sid path hash video file_bytes)"
| "vod_run_call io (VodMark sid) d = snd (vodDelivered io d sid)"
| "vod_run_call io (VodEnd sid value) d = snd (vodTerminal io d sid value)"

text \<open>The calls that an execution of a workload makes.\<close>

definition vod_own_call :: "string \<Rightarrow> vod_store_call \<Rightarrow> bool" where
  "vod_own_call sid c \<longleftrightarrow>
     (case c of VodReport x _ _ _ \<Rightarrow> x = sid | VodSave x _ _ _ _ \<Rightarrow> x = sid | VodMark x \<Rightarrow> x = sid | _ \<Rightarrow> False)"

lemma vod_call_keeps:
  assumes d: "vods_ok n d" and small: "Suc n < 2 ^ 64"
  shows "vods_ok (Suc n) (vod_run_call io c d)"
    and "vodLoad d x = Inr j \<Longrightarrow> \<exists>j'. vodLoad (vod_run_call io c d) x = Inr j' \<and> vod_advances j j'"
proof -
  have unread: "map_of d x \<noteq> Some VodGarbage" "map_of d x \<noteq> Some VodUnreadable" for x using d by (auto simp: vods_ok_def)
  have create: "snd (vodLoadOrCreate io d sid hash) = d \<or> (map_of d sid = None \<and> snd (vodLoadOrCreate io d sid hash) = put sid (VodJournal (newVodJournalV2 sid hash)) d)"
    for sid hash
    using unread [of sid] by (auto simp: vodLoadOrCreate_def vod_loads [OF d] vodSave_def newVodJournalV2_def Let_def split: option.splits vod_file.splits)
  have new: "vod_ok (Suc n) (newVodJournalV2 sid hash)" for sid hash
    by (simp add: vod_ok_def newVodJournalV2_def vod_events_ok_def vod_state_ok_def vod_open_def) (rule exI [of _ 1], simp)
  note later = vods_ok_mono [OF d, of "Suc n"]
  show "vods_ok (Suc n) (vod_run_call io c d)"
  proof (cases c)
    case (VodOpen sid hash)
    then show ?thesis using create [of sid hash] new [of sid hash] later
      by (auto simp: vods_ok_def newVodJournalV2_def split: if_splits)
  qed (simp_all add: vodProgress_def vodPrepared_def vodDelivered_def vodTerminal_def vod_progress_op.update_keeps [OF d small]
      vod_prepared_op.update_keeps [OF d small] vod_delivered_op.update_keeps [OF d small] vod_terminal_op.update_keeps [OF d small])
  assume l: "vodLoad d x = Inr j"
  show "\<exists>j'. vodLoad (vod_run_call io c d) x = Inr j' \<and> vod_advances j j'"
  proof (cases c)
    case (VodOpen sid hash)
    have "map_of d x \<noteq> None" using vod_loaded(3) [OF d l] by simp
    then have "map_of (vod_run_call io c d) x = map_of d x" using VodOpen create [of sid hash] by auto
    then show ?thesis using l by (auto simp: vodLoad_def)
  qed (simp_all add: vodProgress_def vodPrepared_def vodDelivered_def vodTerminal_def vod_progress_op.update_advances [OF d small l]
      vod_prepared_op.update_advances [OF d small l] vod_delivered_op.update_advances [OF d small l] vod_terminal_op.update_advances [OF d small l])
qed

inductive vod_runs :: "nat \<Rightarrow> vod_journals \<Rightarrow> vod_journals \<Rightarrow> bool" where
  no_runs: "vod_runs 0 d d"
| a_run: "vod_runs n d d' \<Longrightarrow> vod_runs (Suc n) d (vod_run_call io c d')"

lemma vod_runs_keep: "vod_runs m d d' \<Longrightarrow> vods_ok n d \<Longrightarrow> n + m < 2 ^ 64 \<Longrightarrow> vods_ok (n + m) d'"
proof (induction rule: vod_runs.induct)
  case (a_run m d d' io c)
  have "vods_ok (n + m) d'" by (rule a_run.IH) (use a_run.prems in simp_all)
  then have "vods_ok (Suc (n + m)) (vod_run_call io c d')" by (rule vod_call_keeps(1)) (use a_run.prems(2) in simp)
  then show ?case by simp
qed simp

lemma vod_runs_advance:
  "vod_runs m d d' \<Longrightarrow> vods_ok n d \<Longrightarrow> n + m < 2 ^ 64 \<Longrightarrow> vodLoad d x = Inr j \<Longrightarrow> \<exists>j'. vodLoad d' x = Inr j' \<and> vod_advances j j'"
proof (induction rule: vod_runs.induct)
  case (a_run m d d' io c)
  then obtain j' where j': "vodLoad d' x = Inr j'" "vod_advances j j'" by auto
  have "vods_ok (n + m) d'" by (rule vod_runs_keep [OF a_run.hyps a_run.prems(1)]) (use a_run.prems(2) in simp)
  then obtain j'' where "vodLoad (vod_run_call io c d') x = Inr j''" "vod_advances j' j''"
    using vod_call_keeps(2) [OF _ _ j'(1)] a_run.prems(2) by (metis add_Suc_right)
  then show ?case using vod_advances_trans [OF j'(2)] by blast
qed auto

text \<open>
  (C37) A VOD workload never moves back, whoever calls the store and whichever saves fail: once it can be loaded
  it stays loadable under the same request, its event numbers are consecutive and only grow, what is delivered
  stays delivered, and when it is terminal its last event and its state are final and nothing but the mark of
  delivery changes any more.
\<close>

theorem vod_workload_never_moves_back:
  assumes "vod_runs m [] d" and "vod_runs n d d'" and "m + n < 2 ^ 64" and "vodLoad d sid = Inr j"
  shows "\<exists>j' k. vodLoad d' sid = Inr j' \<and> vod_advances j j' \<and> (\<not> vod_open j \<longrightarrow> VodState j' = VodState j \<and> VodEvents j' = VodEvents j) \<and>
    map (\<lambda>e. unat (VodSequence e)) (VodEvents j') = [k..<unat (VodNextSequence j')]"
proof -
  have d: "vods_ok m d" using vod_runs_keep [OF assms(1), of 0] assms(3) by (simp add: vods_ok_def)
  obtain j' where j': "vodLoad d' sid = Inr j'" "vod_advances j j'" using vod_runs_advance [OF assms(2) d assms(3,4)] by blast
  have "vods_ok (m + n) d'" by (rule vod_runs_keep [OF assms(2) d assms(3)])
  then have "vod_events_ok j'" using vod_loaded(1) [OF _ j'(1)] by (simp add: vod_ok_def)
  moreover have "\<not> vod_open j \<longrightarrow> VodState j' = VodState j \<and> VodEvents j' = VodEvents j" using vod_advancesD(6) [OF j'(2)] by auto
  ultimately show ?thesis using j' unfolding vod_events_ok_def by blast
qed

subsection \<open>Only its own workload\<close>

locale vod_blind = file_blind I for I :: "vod_world \<Rightarrow> bool" and sid :: string +
  assumes any_uploads: "I w \<Longrightarrow> I (w\<lparr>Uploads := us\<rparr>)"
    and any_call: "I w \<Longrightarrow> vod_own_call sid c \<Longrightarrow> I (w\<lparr>Tick := Suc (Tick w), VodJournals := vod_run_call io c (VodJournals w)\<rparr>)"
begin

lemma store_call:
  assumes "\<And>io d. snd (f io d) = vod_run_call io c d" and "vod_own_call sid c"
  shows "keeps I (vod_call t f)"
proof -
  have "I (snd (vod_call t f w))" if "I w" for w
    using any_call [OF that assms(2), of "Saves t (Tick w)"] assms(1) [of "Saves t (Tick w)" "VodJournals w"]
    by (cases "f (Saves t (Tick w)) (VodJournals w)") (simp add: vod_call_def)
  then show ?thesis unfolding holds_def by (auto split: prod.splits sum.splits) (metis snd_conv)+
qed

lemma stores:
  "keeps I (vod_call t (\<lambda>io d. vodProgress io d sid phase x frames))"
  "keeps I (vod_call t (\<lambda>io d. vodPrepared io d sid path hash video file_bytes))"
  "keeps I (vod_call t (\<lambda>io d. vodDelivered io d sid))"
  by (rule store_call [of _ "VodReport sid phase x frames"] store_call [of _ "VodSave sid path hash video file_bytes"] store_call [of _ "VodMark sid"];
      simp add: vod_own_call_def; fail)+

lemma uploads: "keeps I (UploadFile t p url)"
proof -
  have "keeps I (log_upload url c)" for c by (simp add: holds_def log_upload_def any_uploads)
  then show ?thesis unfolding UploadFile_def by (intro basic reads)
qed

lemma gets: "keeps I get_vod_journals" by (simp add: holds_def get_vod_journals_def)

lemma loads: "keeps I (vod_load t x)" unfolding vod_load_def by (intro basic files gets)

lemma progress: "keeps I (vod_report t sid phase x frames)" unfolding vod_report_def by (intro basic stores)

lemmas calls = basic files encodes stores uploads loads progress

lemma list_case: "(\<And>s ss. holds P (f s ss) Q E) \<Longrightarrow> holds P m Q E \<Longrightarrow> holds P (case x of Some (s # ss) \<Rightarrow> f s ss | _ \<Rightarrow> m) Q E"
  by (auto split: option.splits list.splits)

lemma videos: "keeps I (vodExactVideoV2 t p)"
  unfolding vodExactVideoV2_def by (intro calls list_case)

lemma inputs: "VodReqID req = sid \<Longrightarrow> keeps I (vodInput t req p)"
  unfolding vodInput_def Let_def by (simp only:, intro calls)

lemma valids: "keeps I (vodPreparedValidV2 t j)"
  unfolding vodPreparedValidV2_def by (intro calls)

lemma encodings: "VodReqID req = sid \<Longrightarrow> keeps I (vodEncode t hw req preset input_path output_path probe)"
  unfolding vodEncode_def Let_def by (simp only:, intro calls videos)

lemma deliveries: "VodReqID req = sid \<Longrightarrow> keeps I (vodDeliver t req j)"
  unfolding vodDeliver_def by (simp only:, intro calls)

lemma executes: "VodReqID req = sid \<Longrightarrow> keeps I (doExecute t hw req preset hash)"
  unfolding doExecute_def Let_def by (simp only:, intro calls inputs valids encodings deliveries; assumption)

end

interpretation vod_late: vod_blind "\<lambda>w. k \<le> Tick w" sid for k sid
  by unfold_locales simp_all

inductive vod_reports :: "string \<Rightarrow> vod_journals \<Rightarrow> vod_journals \<Rightarrow> bool" for sid where
  nothing_yet: "vod_reports sid d d"
| one_more: "vod_reports sid d d' \<Longrightarrow> vod_own_call sid c \<Longrightarrow> vod_reports sid d (vod_run_call io c d')"

interpretation vod_reported: vod_blind "\<lambda>w. vod_reports sid d (VodJournals w)" sid for sid d
  by unfold_locales (auto intro: one_more)

lemma vod_executor_reports: "vod_reports (VodReqID req) (VodJournals w) (VodJournals (snd (doExecute t hw req preset hash w)))"
  by (rule keeps_world [OF vod_reported.executes]) (simp_all add: nothing_yet)

end
