(* ===== verification/VOD_Delivery.thy ===== *)
theory VOD_Delivery
  imports VOD_Execution
begin

section \<open>What a VOD execution delivers\<close>

text \<open>
  The view of a VOD execution: the journal of its workload with its uploads and files.  A result is only
  reported when the journal holds the output as delivered, and what was newly delivered was uploaded with
  the digest of the checkpoint.
\<close>

definition vod_tracked :: "nat \<Rightarrow> string \<Rightarrow> (vodJournalV2 \<Rightarrow> contents \<Rightarrow> contents \<Rightarrow> bool) \<Rightarrow> vod_world \<Rightarrow> bool" where
  "vod_tracked n sid R w \<longleftrightarrow> (n + Tick w < 2 ^ 64 \<longrightarrow> vods_ok (n + Tick w) (VodJournals w) \<and>
     (\<exists>j. vodLoad (VodJournals w) sid = Inr j \<and> R j (Uploads w) (Files w)))"

lemma vod_tracked_mono: "vod_tracked n sid R w \<Longrightarrow> (\<And>r u f. R r u f \<Longrightarrow> R' r u f) \<Longrightarrow> vod_tracked n sid R' w"
  by (auto simp: vod_tracked_def)

interpretation vod_view: job_view "vod_tracked n sid" for n sid
proof
  show "vod_tracked n sid R (w\<lparr>Tick := Suc (Tick w)\<rparr>)" if "vod_tracked n sid R w" for R w
    using that vods_ok_mono [of "n + Tick w" "VodJournals w" "Suc (n + Tick w)"] by (auto simp: vod_tracked_def)
qed (auto simp: vod_tracked_def)

context vod_op
begin

lemma tracked_call:
  assumes ok: "\<And>j j' u f. step j = Inr j' \<Longrightarrow> vod_advances j j' \<Longrightarrow> R j u f \<Longrightarrow> Q j' u f"
  shows "holds (vod_tracked n sid R) (vod_call t (\<lambda>io d. vod_update io d sid step)) (\<lambda>_. vod_tracked n sid Q) (\<lambda>_. vod_tracked n sid R)"
  unfolding holds_def
proof (intro allI impI)
  fix w assume w: "vod_tracked n sid R w"
  obtain e d' where u: "vod_update (Saves t (Tick w)) (VodJournals w) sid step = (e, d')"
    by (cases "vod_update (Saves t (Tick w)) (VodJournals w) sid step")
  let ?w = "w\<lparr>Tick := Suc (Tick w), VodJournals := d'\<rparr>"
  have c: "vod_call t (\<lambda>io d. vod_update io d sid step) w = ((case e of None \<Rightarrow> Inr () | Some _ \<Rightarrow> Inl VodFails), ?w)"
    using u by (simp add: vod_call_def)
  show "case vod_call t (\<lambda>io d. vod_update io d sid step) w of (Inl e, w') \<Rightarrow> vod_tracked n sid R w' | (Inr a, w') \<Rightarrow> vod_tracked n sid Q w'"
  proof (cases "Suc (n + Tick w) < 2 ^ 64")
    case False
    then have "vod_tracked n sid X ?w" for X by (simp add: vod_tracked_def)
    then show ?thesis unfolding c by (cases e) auto
  next
    case True
    then obtain j where j: "vodLoad (VodJournals w) sid = Inr j" "R j (Uploads w) (Files w)" and d: "vods_ok (n + Tick w) (VodJournals w)"
      using w by (auto simp: vod_tracked_def)
    have d': "vods_ok (Suc (n + Tick w)) d'" using update_keeps [OF d True, of "Saves t (Tick w)" sid] u by simp
    show ?thesis
      using d True u
    proof (cases rule: update_cases)
      case (left x)
      then have "vod_tracked n sid R ?w" using d' j by (simp add: vod_tracked_def)
      then show ?thesis unfolding c using left(1) by simp
    next
      case (done_ i i')
      then have "i = j" using j(1) by simp
      then have "Q i' (Uploads w) (Files w)" using ok done_(3,5) j(2) by blast
      moreover have "vodLoad d' sid = Inr i'" unfolding vod_loads [OF d'] using done_(6) by simp
      ultimately have "vod_tracked n sid Q ?w" using d' by (simp add: vod_tracked_def)
      then show ?thesis unfolding c using done_(1) by simp
    qed
  qed
qed

end

subsection \<open>What is known during an execution\<close>

definition vod_base :: "job_tools \<Rightarrow> VODRequestV2 \<Rightarrow> vodJournalV2 \<Rightarrow> contents \<Rightarrow> vodJournalV2 \<Rightarrow> contents \<Rightarrow> bool" where
  "vod_base t req j0 u0 j u \<longleftrightarrow> vod_advances j0 j \<and>
     (\<exists>new. u = u0 @ new \<and> (\<forall>(url, c)\<in>set new. url = VodUploadURL (VodStream req) \<and> \<not> VodDelivered j0) \<and>
        (VodDelivered j \<longrightarrow> \<not> VodDelivered j0 \<longrightarrow>
           (\<exists>c. (VodUploadURL (VodStream req), c) \<in> set new \<and> content_sha256 t c = VodPreparedHash j)))"

text \<open>The checkpoint of a journal.\<close>

definition same_output :: "vodJournalV2 \<Rightarrow> vodJournalV2 \<Rightarrow> bool" where
  "same_output i j \<longleftrightarrow> VodDelivered i = VodDelivered j \<and> VodPreparedPath i = VodPreparedPath j \<and> VodPreparedHash i = VodPreparedHash j \<and>
     VodVideo i = VodVideo j \<and> VodFileSize i = VodFileSize j"

definition output_intact :: "job_tools \<Rightarrow> vodJournalV2 \<Rightarrow> contents \<Rightarrow> bool" where
  "output_intact t j f \<longleftrightarrow> (\<exists>c. map_of f (path_clean (VodPreparedPath j)) = Some c \<and> content_sha256 t c = VodPreparedHash j)"

text \<open>Before the delivery: the mark is that of the start.\<close>

definition vod_before :: "job_tools \<Rightarrow> VODRequestV2 \<Rightarrow> vodJournalV2 \<Rightarrow> contents \<Rightarrow> vodJournalV2 \<Rightarrow> contents \<Rightarrow> bool" where
  "vod_before t req j0 u0 j u \<longleftrightarrow> vod_base t req j0 u0 j u \<and> VodDelivered j = VodDelivered j0"

lemma vod_base_step:
  assumes b: "vod_before t req j0 u0 j u" and adv: "vod_advances j j'" and same: "VodDelivered j' = VodDelivered j"
  shows "vod_before t req j0 u0 j' u"
proof -
  obtain new where "u = u0 @ new" "\<forall>(url, c)\<in>set new. url = VodUploadURL (VodStream req) \<and> \<not> VodDelivered j0"
    using b by (auto simp: vod_before_def vod_base_def)
  moreover have "vod_advances j0 j'" by (rule vod_advances_trans [OF _ adv]) (use b in \<open>simp add: vod_before_def vod_base_def\<close>)
  ultimately show ?thesis using b same unfolding vod_before_def vod_base_def by auto
qed

lemma report_result: "vodProgress_step sid phase x frames j = Inr j' \<Longrightarrow> same_output j' j"
  by (auto simp: vodProgress_step_def same_output_def fails_def Let_def split: if_splits)

lemma vod_spec_report:
  assumes "\<And>j j' u f. R j u f \<Longrightarrow> vod_advances j j' \<Longrightarrow> same_output j' j \<Longrightarrow> R j' u f"
  shows "keeps (vod_tracked n sid R) (vod_report t sid phase x frames)"
  unfolding vod_report_def vodProgress_def
  by (rule holds_ignoring, rule vod_progress_op.tracked_call [where R = R and Q = R]) (use assms report_result in blast)

definition vod_plain :: "(vodJournalV2 \<Rightarrow> contents \<Rightarrow> bool) \<Rightarrow> bool" where
  "vod_plain R \<longleftrightarrow> (\<forall>j j' u. R j u \<longrightarrow> vod_advances j j' \<longrightarrow> same_output j' j \<longrightarrow> R j' u)"

lemma vod_plain_report: "vod_plain R \<Longrightarrow> keeps (vod_tracked n sid (\<lambda>j u f. R j u)) (vod_report t sid phase x frames)"
  by (rule vod_spec_report) (simp add: vod_plain_def)

lemma vod_plain_before: "vod_plain (vod_before t req j0 u0)"
  unfolding vod_plain_def using vod_base_step by (auto simp: same_output_def)

lemma vod_plain_input: "vod_plain R \<Longrightarrow> keeps (vod_tracked n (VodReqID req) (\<lambda>j u f. R j u)) (vodInput t req p)"
  unfolding vodInput_def Let_def by (intro vod_view.blind.basic vod_view.blind.files vod_plain_report)

lemma vod_list_case: "(\<And>s ss. holds P (f s ss) Q E) \<Longrightarrow> holds P m Q E \<Longrightarrow> holds P (case x of Some (s # ss) \<Rightarrow> f s ss | _ \<Rightarrow> m) Q E"
  by (auto split: option.splits list.splits)

lemma vod_plain_video: "keeps (vod_tracked n sid (\<lambda>j u f. R j u)) (vodExactVideoV2 t p)"
  unfolding vodExactVideoV2_def by (intro vod_view.blind.basic vod_view.blind.files vod_list_case)

subsection \<open>The parts\<close>

text \<open>The journal that the execution holds in its variable: the one on the disk, with its file intact.\<close>

definition vod_ready :: "job_tools \<Rightarrow> VODRequestV2 \<Rightarrow> vodJournalV2 \<Rightarrow> contents \<Rightarrow> vodJournalV2 \<Rightarrow> vodJournalV2 \<Rightarrow> contents \<Rightarrow> contents \<Rightarrow> bool" where
  "vod_ready t req j0 u0 i j u f \<longleftrightarrow> vod_before t req j0 u0 j u \<and> same_output i j \<and> output_intact t i f"

lemma vod_spec_load:
  "holds (vod_tracked n sid (\<lambda>j u f. R j u f)) (vod_load t sid)
     (\<lambda>i. vod_tracked n sid (\<lambda>j u f. R j u f \<and> i = j)) (\<lambda>_. vod_tracked n sid (\<lambda>j u f. R j u f))"
proof -
  let ?T = "vod_tracked n sid (\<lambda>j u f. R j u f)"
  have "holds ?T get_vod_journals (\<lambda>d w. ?T w \<and> d = VodJournals w) (\<lambda>_. ?T)"
    by (simp add: holds_def get_vod_journals_def)
  moreover have "holds (\<lambda>w. ?T w \<and> d = VodJournals w) (case vodLoad d sid of Inl _ \<Rightarrow> stop VodFails | Inr j \<Rightarrow> give j)
      (\<lambda>i. vod_tracked n sid (\<lambda>j u f. R j u f \<and> i = j)) (\<lambda>_. ?T)" for d
    by (rule holds_sum; rule holds_stop holds_give) (auto simp: vod_tracked_def)
  ultimately show ?thesis
    unfolding vod_load_def by (intro holds_andThen [OF holds_orFail [OF vod_view.disks]] holds_andThen)
qed

lemma vod_spec_valid:
  "holds (vod_tracked n sid R) (vodPreparedValidV2 t i) (\<lambda>ok. vod_tracked n sid (\<lambda>j u f. R j u f \<and> (ok \<longrightarrow> output_intact t i f)))
     (\<lambda>_. vod_tracked n sid R)"
  unfolding vodPreparedValidV2_def
proof (rule holds_if)
  show "holds (vod_tracked n sid R) (give False) (\<lambda>ok. vod_tracked n sid (\<lambda>j u f. R j u f \<and> (ok \<longrightarrow> output_intact t i f))) (\<lambda>_. vod_tracked n sid R)"
    by (rule holds_give) (erule vod_tracked_mono, simp)
  have "holds (vod_tracked n sid R) (attempt (file_digest t (path_clean (VodPreparedPath i))))
      (\<lambda>x. vod_tracked n sid (\<lambda>j u f. R j u f \<and> (x = Inr (VodPreparedHash i) \<longrightarrow> output_intact t i f))) (\<lambda>_. vod_tracked n sid R)"
    by (intro holds_attempt holds_weaken [OF vod_view.digests]) (auto elim!: vod_tracked_mono simp: output_intact_def)
  then show "holds (vod_tracked n sid R) (andThen (attempt (file_digest t (path_clean (VodPreparedPath i))))
      (\<lambda>h. give (h = (Inr (VodPreparedHash i) :: unit + string))))
      (\<lambda>ok. vod_tracked n sid (\<lambda>j u f. R j u f \<and> (ok \<longrightarrow> output_intact t i f))) (\<lambda>_. vod_tracked n sid R)"
    by (rule holds_andThen) (auto intro!: holds_give elim: vod_tracked_mono)
qed

lemma prepared_result:
  assumes "vodPrepared_step path hash video file_bytes j = Inr j'"
  shows "j' = j\<lparr>VodPreparedPath := path, VodPreparedHash := hash, VodVideo := video, VodFileSize := file_bytes\<rparr>"
  using assms by (auto simp: vodPrepared_step_def fails_def split: if_splits)

lemma vod_spec_encode:
  assumes out: "path_clean out = out"
  shows "holds (vod_tracked n (VodReqID req) (\<lambda>j u f. vod_before t req j0 u0 j u)) (vodEncode t hw req preset input out probe)
    (\<lambda>i w. VodVideo i = None \<and> \<not> VodDelivered i \<and> vod_tracked n (VodReqID req) (\<lambda>j u f. vod_before t req j0 u0 j u) w \<or>
       vod_tracked n (VodReqID req) (vod_ready t req j0 u0 i) w)
    (\<lambda>_. vod_tracked n (VodReqID req) (\<lambda>j u f. vod_before t req j0 u0 j u))"
proof -
  let ?R = "vod_before t req j0 u0"
  let ?S = "vod_tracked n (VodReqID req) (\<lambda>j u f. ?R j u)"
  let ?H = "\<lambda>h. vod_tracked n (VodReqID req) (\<lambda>j u f. ?R j u \<and> (\<exists>c. map_of f out = Some c \<and> content_sha256 t c = h))"
  let ?P = "\<lambda>h. vod_tracked n (VodReqID req) (\<lambda>j u f. ?R j u \<and> VodPreparedPath j = out \<and> VodPreparedHash j = h \<and>
      (\<exists>c. map_of f out = Some c \<and> content_sha256 t c = h))"
  let ?Q = "\<lambda>i w. VodVideo i = None \<and> \<not> VodDelivered i \<and> ?S w \<or> vod_tracked n (VodReqID req) (vod_ready t req j0 u0 i) w"
  have weak: "?H h w \<Longrightarrow> ?S w" "?P h w \<Longrightarrow> ?S w" for h w by (erule vod_tracked_mono, simp)+
  have report: "keeps ?S (vod_report t (VodReqID req) phase x frames)" for phase x frames by (rule vod_plain_report [OF vod_plain_before])
  have run: "keeps ?S (orFail (run_ffmpeg t args input (\<lambda>info. vod_report t (VodReqID req) ''encoding'' (x info) (y info))) VodFails)" for args x y
    by (intro vod_view.blind.basic vod_view.blind.encodes report)
  have check: "keeps ?S (demand c e)" for c and e :: vod_stop by (rule vod_view.blind.basic)
  have video: "keeps ?S (orFail (vodExactVideoV2 t out) VodFails)" by (intro vod_view.blind.basic vod_plain_video)
  have digest: "holds ?S (orFail (file_digest t out) VodFails) ?H (\<lambda>_. ?S)" by (rule holds_orFail) (rule vod_view.digests)
  have sizes: "holds (?H h) (orFail (read_file t out) VodFails) (\<lambda>_. ?H h) (\<lambda>_. ?S)" for h
    by (rule holds_orFail, rule holds_weaken [OF vod_view.reads]) (assumption | erule weak | erule vod_tracked_mono, force)+
  have save: "holds (?H h) (vod_call t (\<lambda>io d. vodPrepared io d (VodReqID req) out h v b)) (\<lambda>_. ?P h) (\<lambda>_. ?S)" for h v b
    unfolding vodPrepared_def
  proof (rule holds_weaken [OF vod_prepared_op.tracked_call])
    fix j j' u f assume st: "vodPrepared_step out h v b j = Inr j'" "vod_advances j j'"
      and r: "?R j u \<and> (\<exists>c. map_of f out = Some c \<and> content_sha256 t c = h)"
    have "?R j' u" by (rule vod_base_step [OF _ st(2)]) (use r prepared_result [OF st(1)] in simp_all)
    then show "?R j' u \<and> VodPreparedPath j' = out \<and> VodPreparedHash j' = h \<and> (\<exists>c. map_of f out = Some c \<and> content_sha256 t c = h)"
      using r prepared_result [OF st(1)] by simp
  qed (assumption | erule weak)+
  have reload: "holds (?P h) (attempt (vod_load t (VodReqID req)))
      (\<lambda>x. ?Q (case x of Inr j \<Rightarrow> j | Inl (_ :: vod_stop) \<Rightarrow> (newVodJournalV2 [] [])\<lparr>VodVersion := 0, VodState := [], VodNextSequence := 0\<rparr>))
      (\<lambda>_. ?S)" for h
  proof (rule holds_attempt, rule holds_weaken [OF vod_spec_load])
    fix i w assume "vod_tracked n (VodReqID req) (\<lambda>j u f. (?R j u \<and> VodPreparedPath j = out \<and> VodPreparedHash j = h \<and>
      (\<exists>c. map_of f out = Some c \<and> content_sha256 t c = h)) \<and> i = j) w"
    then have "vod_tracked n (VodReqID req) (vod_ready t req j0 u0 i) w"
      by (rule vod_tracked_mono) (use out in \<open>auto simp: vod_ready_def same_output_def output_intact_def\<close>)
    then show "?Q (case Inr i of Inr j \<Rightarrow> j | Inl (_ :: vod_stop) \<Rightarrow> (newVodJournalV2 [] [])\<lparr>VodVersion := 0, VodState := [], VodNextSequence := 0\<rparr>) w"
      by simp
  qed (assumption | (rule disjI1, intro conjI, simp add: newVodJournalV2_def, simp add: newVodJournalV2_def, erule weak))+
  show ?thesis
    unfolding vodEncode_def Let_def
    by (rule holds_andThen [OF vod_view.blind.removes], rule holds_andThen [OF report], rule holds_andThen [OF run], rule holds_pair, rule holds_pair,
        rule holds_andThen [OF check], rule holds_andThen [OF check], rule holds_andThen [OF video], rule holds_andThen [OF digest],
        rule holds_andThen [OF sizes], rule holds_andThen [OF save], rule holds_andThen [OF reload], rule holds_give)
qed

lemma holds_either: "holds P m Q E \<Longrightarrow> holds P' m Q E \<Longrightarrow> holds (\<lambda>w. P w \<or> P' w) m Q E"
  by (auto simp: holds_def)

lemma vod_spec_deliver:
  "holds (\<lambda>w. VodVideo i = None \<and> \<not> VodDelivered i \<and> vod_tracked n (VodReqID req) (\<lambda>j u f. vod_before t req j0 u0 j u) w \<or>
       vod_tracked n (VodReqID req) (vod_ready t req j0 u0 i) w)
    (vodDeliver t req i)
    (\<lambda>_. vod_tracked n (VodReqID req) (\<lambda>j u f. vod_base t req j0 u0 j u \<and> VodDelivered j \<and> VodVideo j = VodVideo i \<and> VodFileSize j = VodFileSize i))
    (\<lambda>_. vod_tracked n (VodReqID req) (\<lambda>j u f. vod_base t req j0 u0 j u))"
proof -
  let ?T = "vod_tracked n (VodReqID req)" and ?E = "vod_tracked n (VodReqID req) (\<lambda>j u f. vod_base t req j0 u0 j u)"
  let ?G = "vod_ready t req j0 u0 i" and ?url = "VodUploadURL (VodStream req)"
  let ?Q = "\<lambda>j u f. vod_base t req j0 u0 j u \<and> VodDelivered j \<and> VodVideo j = VodVideo i \<and> VodFileSize j = VodFileSize i"
  have weak: "?T ?G w \<Longrightarrow> ?E w" "?T (\<lambda>j u f. vod_before t req j0 u0 j u) w \<Longrightarrow> ?E w" for w
    by (erule vod_tracked_mono, simp add: vod_ready_def vod_before_def)+
  have "holds (?T ?G) (vodDeliver t req i) (\<lambda>_. ?T ?Q) (\<lambda>_. ?E)"
    unfolding vodDeliver_def
  proof (rule holds_if)
    assume "VodDelivered i"
    then show "holds (?T ?G) (give ()) (\<lambda>_. ?T ?Q) (\<lambda>_. ?E)"
      by (intro holds_give) (erule vod_tracked_mono, auto simp: vod_ready_def vod_before_def same_output_def)
  next
    assume new: "\<not> VodDelivered i"
    let ?U = "\<lambda>j u f. vod_before t req j0 u0 j u \<and> same_output i j \<and> (\<exists>new c. u = u0 @ new \<and> (?url, c) \<in> set new \<and> content_sha256 t c = VodPreparedHash i)"
    have report: "holds (?T ?G) (vod_report t (VodReqID req) phase x frames) (\<lambda>_. ?T ?G) (\<lambda>_. ?E)" for phase x frames
    proof (rule holds_weaken [OF vod_spec_report])
      fix j j' u f assume "?G j u f" "vod_advances j j'" "same_output j' j"
      then show "?G j' u f" using vod_base_step [of t req j0 u0 j u j'] by (simp add: vod_ready_def same_output_def)
    qed (assumption | erule weak)+
    have up: "holds (?T ?G) (orFail (UploadFile t (path_clean (VodPreparedPath i)) ?url) VodFails) (\<lambda>_. ?T ?U) (\<lambda>_. ?E)"
    proof (rule holds_orFail, rule holds_weaken [OF vod_view.sends])
      fix j u f c assume r: "?G j u f" and c: "map_of f (path_clean (VodPreparedPath i)) = Some c"
      then obtain w0 where w0: "u = u0 @ w0" "\<forall>(url, c)\<in>set w0. url = ?url \<and> \<not> VodDelivered j0" "vod_advances j0 j"
        by (auto simp: vod_ready_def vod_before_def vod_base_def)
      have d: "\<not> VodDelivered j0" "\<not> VodDelivered j" using r new by (auto simp: vod_ready_def vod_before_def same_output_def)
      have "vod_before t req j0 u0 j (u @ [(?url, c)])"
        unfolding vod_before_def vod_base_def using w0 d by (auto intro!: exI [of _ "w0 @ [(?url, c)]"])
      moreover have "\<exists>new c'. u @ [(?url, c)] = u0 @ new \<and> (?url, c') \<in> set new \<and> content_sha256 t c' = VodPreparedHash i"
        by (rule exI [of _ "w0 @ [(?url, c)]"], rule exI [of _ c]) (use w0(1) r c in \<open>auto simp: vod_ready_def output_intact_def\<close>)
      ultimately show "?U j (u @ [(?url, c)]) f" using r by (simp add: vod_ready_def)
    qed (assumption | erule weak)+
    have mark: "holds (?T ?U) (vod_call t (\<lambda>io d. vodDelivered io d (VodReqID req))) (\<lambda>_. ?T ?Q) (\<lambda>_. ?E)"
      unfolding vodDelivered_def
    proof (rule holds_weaken [OF vod_delivered_op.tracked_call])
      fix j j' u f assume st: "Inr (j\<lparr>VodDelivered := True\<rparr>) = (Inr j' :: vodJournalV2 result)" "vod_advances j j'" and r: "?U j u f"
      then obtain w0 where w0: "u = u0 @ w0" "\<forall>(url, c)\<in>set w0. url = ?url \<and> \<not> VodDelivered j0" "vod_advances j0 j"
        "\<exists>c. (?url, c) \<in> set w0 \<and> content_sha256 t c = VodPreparedHash i"
        by (auto simp: vod_before_def vod_base_def)
      have "vod_base t req j0 u0 j' u"
        unfolding vod_base_def using w0 st r vod_advances_trans [OF w0(3) st(2)] by (auto simp: same_output_def)
      then show "?Q j' u f" using st r by (auto simp: same_output_def)
    qed (assumption | erule vod_tracked_mono, simp add: vod_before_def)+
    show "holds (?T ?G) (case VodVideo i of None \<Rightarrow> stop VodPanics
        | Some video \<Rightarrow> andThen (vod_report t (VodReqID req) ''uploading'' 95 (VodFrames video)) (\<lambda>_.
            andThen (orFail (UploadFile t (path_clean (VodPreparedPath i)) ?url) VodFails) (\<lambda>_.
            vod_call t (\<lambda>io d. vodDelivered io d (VodReqID req))))) (\<lambda>_. ?T ?Q) (\<lambda>_. ?E)"
      by (rule holds_option, rule holds_stop, erule weak, rule holds_andThen [OF report], rule holds_andThen [OF up mark])
  qed
  moreover have "holds (\<lambda>w. VodVideo i = None \<and> \<not> VodDelivered i \<and> ?T (\<lambda>j u f. vod_before t req j0 u0 j u) w) (vodDeliver t req i) (\<lambda>_. ?T ?Q) (\<lambda>_. ?E)"
    using weak(2) by (auto simp: holds_def vodDeliver_def stop_def)
  ultimately show ?thesis by (intro holds_either)
qed

subsection \<open>Where the output is\<close>

lemma split_at_one: "sep \<notin> set a \<Longrightarrow> split_at sep (a @ sep # b) = a # split_at sep b"
  by (rule split_at_append)

lemma work_paths:
  assumes "CHR ''/'' \<notin> set sid" "sid \<notin> {[], ''.'', ''..''}"
  shows "path_join2 ''work'' sid = ''work/'' @ sid" "path_join2 (''work/'' @ sid) ''output.mp4'' = ''work/'' @ sid @ ''/output.mp4''"
    "path_clean (''work/'' @ sid @ ''/output.mp4'') = ''work/'' @ sid @ ''/output.mp4''"
proof -
  have a: "split_at (CHR ''/'') (''work/'' @ sid) = [''work'', sid]"
    using split_at_one [of "CHR ''/''" "''work''" sid] split_at_none [OF assms(1)] by simp
  have b: "split_at (CHR ''/'') (''work/'' @ sid @ ''/output.mp4'') = [''work'', sid, ''output.mp4'']"
    using split_at_one [of "CHR ''/''" "''work''" "sid @ ''/output.mp4''"] split_at_one [OF assms(1), of "''output.mp4''"] by simp
  show "path_join2 ''work'' sid = ''work/'' @ sid"
    using a assms(2) by (simp add: path_join2_def path_clean_def Let_def)
  show "path_clean (''work/'' @ sid @ ''/output.mp4'') = ''work/'' @ sid @ ''/output.mp4''"
    using b assms(2) by (simp add: path_clean_def Let_def)
  then show "path_join2 (''work/'' @ sid) ''output.mp4'' = ''work/'' @ sid @ ''/output.mp4''" by (simp add: path_join2_def)
qed

lemma vod_id_path: "vodWorkloadIDPattern sid \<Longrightarrow> CHR ''/'' \<notin> set sid \<and> sid \<notin> {[], ''.'', ''..''}"
  using opaque_no_slash [of sid]
  by (auto simp: vodWorkloadIDPattern_def opaqueIDPattern_def is_alnum_def is_digit_def is_upper_def is_lower_def)

subsection \<open>The whole execution\<close>

definition vod_done :: "job_tools \<Rightarrow> VODRequestV2 \<Rightarrow> vodJournalV2 \<Rightarrow> contents \<Rightarrow> VODResultV2 \<Rightarrow> vodJournalV2 \<Rightarrow> contents \<Rightarrow> bool" where
  "vod_done t req j0 u0 v j u \<longleftrightarrow> vod_base t req j0 u0 j u \<and> VodDelivered j \<and> VodResVideo v = VodVideo j \<and> VodResSize v = VodFileSize j \<and>
     vodUnitsV2 (VodVideo j) = Inr (VodUnits (VodResUsage v))"

lemma vod_spec_execute:
  assumes sid: "vodWorkloadIDPattern (VodReqID req)"
  shows "holds (vod_tracked n (VodReqID req) (\<lambda>j u f. vod_before t req j0 u0 j u)) (doExecute t hw req preset hash)
    (\<lambda>v. vod_tracked n (VodReqID req) (\<lambda>j u f. vod_done t req j0 u0 v j u))
    (\<lambda>_. vod_tracked n (VodReqID req) (\<lambda>j u f. vod_base t req j0 u0 j u))"
proof -
  let ?T = "vod_tracked n (VodReqID req)" and ?E = "vod_tracked n (VodReqID req) (\<lambda>j u f. vod_base t req j0 u0 j u)"
  let ?S = "?T (\<lambda>j u f. vod_before t req j0 u0 j u)"
  let ?out = "path_join2 (path_join2 ''work'' (VodReqID req)) ''output.mp4''"
  have out: "path_clean ?out = ?out" using work_paths vod_id_path [OF sid] by simp
  have weak: "?T (\<lambda>j u f. vod_before t req j0 u0 j u \<and> X j u f) w \<Longrightarrow> ?E w" "?S w \<Longrightarrow> ?E w" for X w
    by (erule vod_tracked_mono, simp add: vod_before_def)+
  have pre: "holds ?S m (\<lambda>_. ?S) (\<lambda>_. ?E)" if "keeps ?S m" for m :: "'a vod_job"
    by (rule holds_weaken [OF that]) (assumption | erule weak)+
  have report: "holds ?S (vod_report t (VodReqID req) phase x frames) (\<lambda>_. ?S) (\<lambda>_. ?E)" for phase x frames
    by (rule pre [OF vod_plain_report [OF vod_plain_before]])
  have load: "holds ?S (vod_load t (VodReqID req)) (\<lambda>i. ?T (\<lambda>j u f. vod_before t req j0 u0 j u \<and> i = j)) (\<lambda>_. ?E)"
    by (rule holds_weaken [OF vod_spec_load]) (assumption | erule weak)+
  have valid: "holds (?T (\<lambda>j u f. vod_before t req j0 u0 j u \<and> i = j)) (vodPreparedValidV2 t i)
      (\<lambda>ok. ?T (\<lambda>j u f. (vod_before t req j0 u0 j u \<and> i = j) \<and> (ok \<longrightarrow> output_intact t i f))) (\<lambda>_. ?E)" for i
    by (rule holds_weaken [OF vod_spec_valid]) (assumption | erule weak)+
  let ?J = "\<lambda>i w. VodVideo i = None \<and> \<not> VodDelivered i \<and> ?S w \<or> ?T (vod_ready t req j0 u0 i) w"
  have encode: "holds (?T (\<lambda>j u f. (vod_before t req j0 u0 j u \<and> i = j) \<and> (ok \<longrightarrow> output_intact t i f)))
      (if ok then give i else vodEncode t hw req preset input ?out probe) ?J (\<lambda>_. ?E)" for i ok input probe
  proof (rule holds_if)
    assume ok
    have "?T (vod_ready t req j0 u0 i) w" if "?T (\<lambda>j u f. (vod_before t req j0 u0 j u \<and> i = j) \<and> (ok \<longrightarrow> output_intact t i f)) w" for w
      using that by (rule vod_tracked_mono) (use \<open>ok\<close> in \<open>auto simp: vod_ready_def same_output_def\<close>)
    then show "holds (?T (\<lambda>j u f. (vod_before t req j0 u0 j u \<and> i = j) \<and> (ok \<longrightarrow> output_intact t i f))) (give i) ?J (\<lambda>_. ?E)"
      by (intro holds_give) blast
  next
    show "holds (?T (\<lambda>j u f. (vod_before t req j0 u0 j u \<and> i = j) \<and> (ok \<longrightarrow> output_intact t i f)))
        (vodEncode t hw req preset input ?out probe) ?J (\<lambda>_. ?E)"
      by (rule holds_weaken [OF vod_spec_encode [OF out]]) (assumption | erule weak | erule vod_tracked_mono, blast)+
  qed
  have final: "holds (?T (\<lambda>j u f. vod_base t req j0 u0 j u \<and> VodDelivered j \<and> VodVideo j = VodVideo i \<and> VodFileSize j = VodFileSize i))
      (case vodUnitsV2 (VodVideo i) of Inl _ \<Rightarrow> stop VodFails | Inr units \<Rightarrow> give (vodResult req hash i units))
      (\<lambda>v. ?T (\<lambda>j u f. vod_done t req j0 u0 v j u)) (\<lambda>_. ?E)" for i
    by (rule holds_sum; rule holds_stop holds_give; erule vod_tracked_mono) (auto simp: vod_done_def vodResult_def)
  show ?thesis
    unfolding doExecute_def Let_def
    by (rule holds_andThen [OF pre], rule keeps_orFail, rule vod_view.blind.disks, rule holds_andThen [OF pre],
        rule vod_plain_input [OF vod_plain_before], rule holds_andThen [OF report], rule holds_andThen [OF pre], rule keeps_orFail,
        rule vod_view.blind.media, rule holds_andThen [OF load], rule holds_andThen [OF valid], rule holds_andThen [OF encode],
        rule holds_andThen [OF vod_spec_deliver], rule final)
qed

lemma validate_id: "validateAndResolve presets req = Inr preset \<Longrightarrow> vodWorkloadIDPattern (VodReqID req)"
  by (auto simp: validateAndResolve_def fails_def Let_def split: if_splits)


subsection \<open>A digest in capitals\<close>

lemma hex_lower: "list_all (\<lambda>c. \<not> is_upper c) (hex_encode s)"
proof -
  have "list_all is_lower_hex (hex_encode s)" by (induction s) (auto simp: hex_char_is_lower_hex of_char_nibbles)
  then show ?thesis by (rule list.pred_mono_strong) (auto simp: is_lower_hex_def is_digit_def is_upper_def)
qed


end
