(* ===== verification/VOD_System.thy ===== *)
theory VOD_System
  imports VOD_Execution
begin

section \<open>Executions and clients of the VOD runner (transcode-runner/vod_v2.go, VODServiceV2)\<close>

text \<open>
  One goroutine per execution (\<open>execute\<close>) and one per request (\<open>ServeHTTP\<close>) share the service, which has
  a lock, and the journals.  A client polls: every half second, or as soon as its run is done, it loads the
  journal and writes the events that are new.  An execution does any calls of its own and returns anything
  (\<open>doExecute\<close> is such an execution); the error of its terminal event is ignored.  The keepalive comments
  and the texts beside error codes are left out; the GPU gate is an answer to \<open>Acquire\<close>.
\<close>

definition errVODCapacity :: go_error where "errVODCapacity = ErrSentinel ''capacity reached''"
definition errGPUAdmission :: go_error where "errGPUAdmission = ErrSentinel ''GPU admission capacity reached''"

text \<open>\<open>Released\<close>: the deferred function has closed the lease and waits for the lock.\<close>

datatype vod_run_pc = VodExecuting | VodReturned | VodReleased

record vodRunV2 =
  RunHash :: string
  RunDone :: nat   \<comment> \<open>the channel \<open>done\<close>\<close>
  RunPC :: vod_run_pc

record VODServiceV2 =
  SvcLimit :: nat
  SvcRuns :: "(string \<times> vodRunV2) list"
  SvcActive :: int
  SvcRejected :: nat
  SvcLeases :: nat
  SvcChannels :: nat
  SvcClosed :: "nat list"

definition NewVODServiceV2 :: "Preset list \<Rightarrow> nat \<Rightarrow> VODServiceV2 result" where
  "NewVODServiceV2 presets limit =
     (if presets = [] \<or> limit = 0 then fails ''store, presets, and positive limit are required''
      else Inr \<lparr>SvcLimit = limit, SvcRuns = [], SvcActive = 0, SvcRejected = 0, SvcLeases = 0, SvcChannels = 0, SvcClosed = []\<rparr>)"

text \<open>\<open>subscribe\<close>: the channel of the run to wait for.  The disposition is that of the time when the journal was opened.\<close>

definition vodSubscribe :: "error \<Rightarrow> string \<Rightarrow> string \<Rightarrow> vod_disposition \<Rightarrow> VODServiceV2 \<Rightarrow> nat result \<times> VODServiceV2" where
  "vodSubscribe acquire sid hash disposition s =
     (if disposition = TerminalV2
      then (Inr (SvcChannels s), s\<lparr>SvcChannels := Suc (SvcChannels s), SvcClosed := SvcChannels s # SvcClosed s\<rparr>)
      else (case map_of (SvcRuns s) sid of
        Some run \<Rightarrow> if RunHash run \<noteq> hash then (fails ''identity mismatch'', s) else (Inr (RunDone run), s)
      | None \<Rightarrow>
          if length (SvcRuns s) \<ge> SvcLimit s then (Inl errVODCapacity, s)
          else (case acquire of
            Some e \<Rightarrow>
              if errors_is e errGPUAdmission then (Inl errVODCapacity, s\<lparr>SvcRejected := Suc (SvcRejected s)\<rparr>) else (Inl e, s)
          | None \<Rightarrow>
              (Inr (SvcChannels s),
               s\<lparr>SvcRuns := put sid \<lparr>RunHash = hash, RunDone = SvcChannels s, RunPC = VodExecuting\<rparr> (SvcRuns s),
                 SvcChannels := Suc (SvcChannels s), SvcActive := SvcActive s + 1, SvcLeases := Suc (SvcLeases s)\<rparr>))))"

definition vod_set_pc :: "string \<Rightarrow> vod_run_pc \<Rightarrow> VODServiceV2 \<Rightarrow> VODServiceV2" where
  "vod_set_pc sid pc s = s\<lparr>SvcRuns := map (\<lambda>(x, run). (x, if x = sid then run\<lparr>RunPC := pc\<rparr> else run)) (SvcRuns s)\<rparr>"

text \<open>The deferred function of \<open>execute\<close>: the lease, then the run under the lock.\<close>

definition vodRelease :: "string \<Rightarrow> VODServiceV2 \<Rightarrow> VODServiceV2" where
  "vodRelease sid s = (vod_set_pc sid VodReleased s)\<lparr>SvcLeases := SvcLeases s - 1\<rparr>"

definition vodRemove :: "string \<Rightarrow> VODServiceV2 \<Rightarrow> VODServiceV2" where
  "vodRemove sid s =
     (case map_of (SvcRuns s) sid of
        None \<Rightarrow> s
      | Some run \<Rightarrow> s\<lparr>SvcRuns := filter (\<lambda>e. fst e \<noteq> sid) (SvcRuns s), SvcClosed := RunDone run # SvcClosed s, SvcActive := SvcActive s - 1\<rparr>)"

subsection \<open>A client\<close>

datatype client_pc = VodOpened | VodPolling | VodWaiting | VodGone

record vod_client =
  ClientID :: string
  ClientHash :: string
  ClientDisposition :: vod_disposition
  ClientRun :: nat
  ClientLast :: u64
  ClientSent :: "vodEventV2 list"
  ClientTrailer :: "u64 option"
  ClientPC :: client_pc

definition new_client :: "string \<Rightarrow> string \<Rightarrow> vod_disposition \<Rightarrow> vod_client" where
  "new_client sid hash disposition =
     \<lparr>ClientID = sid, ClientHash = hash, ClientDisposition = disposition, ClientRun = 0, ClientLast = 0, ClientSent = [],
      ClientTrailer = None, ClientPC = VodOpened\<rparr>"

fun vod_write :: "vodEventV2 list \<Rightarrow> u64 \<Rightarrow> vodEventV2 list \<times> u64" where
  "vod_write [] last_sequence = ([], last_sequence)"
| "vod_write (e # es) last_sequence =
     (if VodSequence e > last_sequence then (case vod_write es (VodSequence e) of (sent, n) \<Rightarrow> (e # sent, n)) else vod_write es last_sequence)"

text \<open>One turn of the loop of \<open>ServeHTTP\<close> with the journal that was loaded.\<close>

definition vod_poll :: "vodJournalV2 \<Rightarrow> vod_client \<Rightarrow> vod_client" where
  "vod_poll j c =
     (let (sent, n) = vod_write (VodEvents j) (ClientLast c); c' = c\<lparr>ClientSent := ClientSent c @ sent, ClientLast := n\<rparr> in
      if VodState j \<noteq> ''in_progress'' then c'\<lparr>ClientTrailer := Some (vodTerminalUnitsV2 j), ClientPC := VodGone\<rparr>
      else c'\<lparr>ClientPC := VodWaiting\<rparr>)"

text \<open>A write to the client fails after some events.\<close>

definition vod_poll_breaks :: "nat \<Rightarrow> vodJournalV2 \<Rightarrow> vod_client \<Rightarrow> vod_client" where
  "vod_poll_breaks k j c = c\<lparr>ClientSent := ClientSent c @ take k (fst (vod_write (VodEvents j) (ClientLast c))), ClientPC := VodGone\<rparr>"

definition vodSubscribeErrorV2 :: "go_error \<Rightarrow> http_out" where
  "vodSubscribeErrorV2 e =
     (if errors_is e errVODCapacity then writeRunnerErrorV1 [] 429 ''capacity_reached'' else writeRunnerErrorV1 [] 500 ''execution_unavailable'')"

text \<open>Up to the journal: method, transport, body and preset.\<close>

definition vodAcceptV2 ::
    "(string \<Rightarrow> string) \<Rightarrow> Preset list \<Rightarrow> string \<Rightarrow> string \<Rightarrow> string \<Rightarrow> http_out + VODRequestV2 \<times> Preset \<times> string" where
  "vodAcceptV2 sha presets method accept body =
     (if method \<noteq> ''POST'' then Inl (writeRunnerErrorV1 [(''Allow'', ''POST'')] 405 ''method_not_allowed'')
      else if \<not> contains accept ''text/event-stream'' then Inl (writeRunnerErrorV1 [] 406 ''sse_transport_required'')
      else (case decodeVODRequestV2 body of
        None \<Rightarrow> Inl (writeRunnerErrorV1 [] 400 ''invalid_request'')
      | Some req \<Rightarrow>
          (case validateAndResolve presets req of
             Inl _ \<Rightarrow> Inl (writeRunnerErrorV1 [] 400 ''invalid_request'')
           | Inr preset \<Rightarrow> Inr (req, preset, vodRequestHashV2 sha req))))"

subsection \<open>The steps\<close>

record vod_system =
  VodDisk :: vod_journals
  Service :: VODServiceV2
  Clients :: "vod_client list"

definition client_at :: "vod_system \<Rightarrow> nat \<Rightarrow> vod_client \<Rightarrow> bool" where
  "client_at s k c \<longleftrightarrow> k < length (Clients s) \<and> Clients s ! k = c"

definition set_client :: "nat \<Rightarrow> vod_client \<Rightarrow> vod_system \<Rightarrow> vod_system" where
  "set_client k c s = s\<lparr>Clients := (Clients s)[k := c]\<rparr>"

definition vod_run_at :: "vod_system \<Rightarrow> string \<Rightarrow> string \<Rightarrow> vod_run_pc \<Rightarrow> bool" where
  "vod_run_at s sid hash pc \<longleftrightarrow> (\<exists>run. map_of (SvcRuns (Service s)) sid = Some run \<and> RunHash run = hash \<and> RunPC run = pc)"

text \<open>What \<open>execute\<close> may record: a result, or its one failure.\<close>

definition vod_terminal_of :: "string \<Rightarrow> string \<Rightarrow> vod_terminal \<Rightarrow> bool" where
  "vod_terminal_of sid hash value \<longleftrightarrow> (case value of VodResult _ \<Rightarrow> True | VodFailure v \<Rightarrow> v = vodFailure sid hash)"

inductive vod_step :: "vod_system \<Rightarrow> vod_system \<Rightarrow> bool" where
  client_opens:
    "vodLoadOrCreate io (VodDisk s) sid hash = (Inr (j, disposition), d) \<Longrightarrow> disposition \<noteq> ReuseV2 \<Longrightarrow>
     vod_step s (s\<lparr>VodDisk := d, Clients := Clients s @ [new_client sid hash disposition]\<rparr>)"
| client_refused:
    "vodLoadOrCreate io (VodDisk s) sid hash = (res, d) \<Longrightarrow> (\<exists>e. res = Inl e) \<or> (\<exists>j. res = Inr (j, ReuseV2)) \<Longrightarrow>
     vod_step s (s\<lparr>VodDisk := d\<rparr>)"
| client_subscribes:
    "client_at s k c \<Longrightarrow> ClientPC c = VodOpened \<Longrightarrow>
     vodSubscribe acquire (ClientID c) (ClientHash c) (ClientDisposition c) (Service s) = (Inr i, v) \<Longrightarrow>
     vod_step s (set_client k (c\<lparr>ClientRun := i, ClientPC := VodPolling\<rparr>) (s\<lparr>Service := v\<rparr>))"
| client_rejected:
    "client_at s k c \<Longrightarrow> ClientPC c = VodOpened \<Longrightarrow>
     vodSubscribe acquire (ClientID c) (ClientHash c) (ClientDisposition c) (Service s) = (Inl e, v) \<Longrightarrow>
     vod_step s (set_client k (c\<lparr>ClientPC := VodGone\<rparr>) (s\<lparr>Service := v\<rparr>))"
| client_polls:
    "client_at s k c \<Longrightarrow> ClientPC c = VodPolling \<Longrightarrow> vodLoad (VodDisk s) (ClientID c) = Inr j \<Longrightarrow>
     vod_step s (set_client k (vod_poll j c) s)"
| client_breaks:
    "client_at s k c \<Longrightarrow> ClientPC c = VodPolling \<Longrightarrow> vodLoad (VodDisk s) (ClientID c) = Inr j \<Longrightarrow>
     vod_step s (set_client k (vod_poll_breaks m j c) s)"
| client_wakes:   \<comment> \<open>the ticker, or the run is done\<close>
    "client_at s k c \<Longrightarrow> ClientPC c = VodWaiting \<Longrightarrow> vod_step s (set_client k (c\<lparr>ClientPC := VodPolling\<rparr>) s)"
| client_leaves:
    "client_at s k c \<Longrightarrow> ClientPC c \<in> {VodPolling, VodWaiting} \<Longrightarrow> vod_step s (set_client k (c\<lparr>ClientPC := VodGone\<rparr>) s)"
| run_calls:
    "vod_run_at s sid hash VodExecuting \<Longrightarrow> vod_own_call sid c \<Longrightarrow> vod_step s (s\<lparr>VodDisk := vod_run_call io c (VodDisk s)\<rparr>)"
| run_returns:
    "vod_run_at s sid hash VodExecuting \<Longrightarrow> vod_terminal_of sid hash value \<Longrightarrow>
     vod_step s (s\<lparr>VodDisk := vod_run_call io (VodEnd sid value) (VodDisk s), Service := vod_set_pc sid VodReturned (Service s)\<rparr>)"
| run_releases:
    "vod_run_at s sid hash VodReturned \<Longrightarrow> vod_step s (s\<lparr>Service := vodRelease sid (Service s)\<rparr>)"
| run_ends:
    "vod_run_at s sid hash VodReleased \<Longrightarrow> vod_step s (s\<lparr>Service := vodRemove sid (Service s)\<rparr>)"

inductive vod_reach :: "Preset list \<Rightarrow> nat \<Rightarrow> nat \<Rightarrow> vod_system \<Rightarrow> bool" for presets limit where
  vod_start: "NewVODServiceV2 presets limit = Inr v \<Longrightarrow> vod_reach presets limit 0 \<lparr>VodDisk = [], Service = v, Clients = []\<rparr>"
| vod_next: "vod_reach presets limit n s \<Longrightarrow> vod_step s s' \<Longrightarrow> vod_reach presets limit (Suc n) s'"

end
