(* ===== verification/VOD_Properties.thy ===== *)
theory VOD_Properties
  imports VOD_System
begin

section \<open>Properties of the VOD service\<close>

text \<open>
  The invariant of executions, clients and journals together; \<open>n\<close> counts the steps.  What it gives: the
  service never runs one workload twice or more workloads than its limit at once, and a client gets every event
  once and in order, the terminal event last, and is billed what that event says.
\<close>

subsection \<open>The end of a journal\<close>

lemma terminal_event_sequence [simp]: "VodSequence (vodTerminalEvent m value) = m"
  by (simp add: vodTerminalEvent_def split: vod_terminal.splits)

lemma terminal_event_name: "VodEvent (vodTerminalEvent m value) \<noteq> ''progress''"
  by (simp add: vodTerminalEvent_def split: vod_terminal.splits)

lemma dec_units_fmt: "dec_u64 (JNum (fmt_u64 u)) acc = Some u"
  by (simp add: dec_u64_def parse_uint_fmt_u64)

lemma vod_usage_keys:
  "fold_key ''unit'' \<noteq> fold_key ''units''" "fold_key ''schema'' \<noteq> fold_key ''usage''" "fold_key ''workload_id'' \<noteq> fold_key ''usage''"
  "fold_key ''request_sha256'' \<noteq> fold_key ''usage''" "fold_key ''outcome'' \<noteq> fold_key ''usage''" "fold_key ''name'' \<noteq> fold_key ''usage''"
  "fold_key ''stream_uri'' \<noteq> fold_key ''usage''" "fold_key ''video'' \<noteq> fold_key ''usage''" "fold_key ''file_size_bytes'' \<noteq> fold_key ''usage''"
  "fold_key ''error'' \<noteq> fold_key ''usage''"
  by code_simp+

definition vod_value_units :: "vod_terminal \<Rightarrow> u64" where
  "vod_value_units value = (case value of VodResult v \<Rightarrow> VodUnits (VodResUsage v) | VodFailure v \<Rightarrow> VodUnits (VodErrUsage v))"

lemma dec_vod_usage_json: "dec_vod_usage (json_vod_usage u) acc = Some (VodUnits u)"
  by (simp add: dec_vod_usage_def json_vod_usage_def dec_units_fmt vod_usage_keys del: fold_key.simps)

lemma billed_units: "VodEvents j = es @ [vodTerminalEvent m value] \<Longrightarrow> vodTerminalUnitsV2 j = vod_value_units value"
  by (cases "value")
     (simp_all add: vodTerminalUnitsV2_def vodTerminalEvent_def vod_value_units_def json_vod_result_def json_vod_error_def dec_vod_usage_json
        vod_usage_keys del: fold_key.simps split: option.splits)

text \<open>The first number that a client can not have seen while the journal was open.\<close>

definition vod_top :: "vodJournalV2 \<Rightarrow> u64" where
  "vod_top j = (if vod_open j then VodNextSequence j else VodNextSequence j - 1)"

lemma vod_closed:
  assumes "vod_ok n j" and "\<not> vod_open j"
  obtains es "value" where "VodEvents j = es @ [vodTerminalEvent (vod_top j) value]" and "\<forall>e\<in>set es. VodEvent e = ''progress''"
    and "VodState j = (case value of VodResult _ \<Rightarrow> ''succeeded'' | VodFailure _ \<Rightarrow> ''failed'')"
proof -
  have "\<exists>es value. VodEvents j = es @ [vodTerminalEvent (VodNextSequence j - 1) value] \<and>
        VodState j = (case value of VodResult _ \<Rightarrow> ''succeeded'' | VodFailure _ \<Rightarrow> ''failed'') \<and> (\<forall>e\<in>set es. VodEvent e = ''progress'')"
    using assms by (simp add: vod_ok_def vod_state_ok_def)
  then show ?thesis using that assms(2) by (auto simp: vod_top_def)
qed

lemma vod_top_pos:
  assumes "vod_ok n j"
  shows "0 < vod_top j"
proof (cases "vod_open j")
  case True
  then show ?thesis using assms by (auto simp: vod_top_def vod_ok_def word_less_nat_alt)
next
  case False
  obtain es "value" where v: "VodEvents j = es @ [vodTerminalEvent (vod_top j) value]" using assms False by (rule vod_closed)
  have "vod_events_ok j" using assms by (simp add: vod_ok_def)
  then obtain k where k: "1 \<le> k" "map (\<lambda>e. unat (VodSequence e)) (VodEvents j) = [k..<unat (VodNextSequence j)]" by (auto simp: vod_events_ok_def)
  have "unat (vod_top j) \<in> set (map (\<lambda>e. unat (VodSequence e)) (VodEvents j))" by (simp add: v)
  then have "1 \<le> unat (vod_top j)" using k(1) unfolding k(2) by simp
  then show ?thesis by (simp add: word_less_nat_alt)
qed

lemma vod_top_mono:
  assumes j: "vod_ok n j" and j': "vod_ok m j'" and a: "vod_advances j j'"
  shows "vod_top j \<le> vod_top j'"
proof (cases "vod_open j")
  case False
  then obtain x where "j' = j\<lparr>VodDelivered := x\<rparr>" using vod_advancesD(6) [OF a] by blast
  then show ?thesis by (simp add: vod_top_def vod_open_def)
next
  case True
  show ?thesis
  proof (cases "vod_open j'")
    case True
    then show ?thesis using vod_advancesD(3) [OF a] \<open>vod_open j\<close> by (simp add: vod_top_def)
  next
    case False
    obtain es "value" where v: "VodEvents j' = es @ [vodTerminalEvent (vod_top j') value]" using j' False by (rule vod_closed)
    have "vodTerminalEvent (vod_top j') value \<notin> set (VodEvents j)"
      using j True terminal_event_name by (auto simp: vod_ok_def vod_state_ok_def)
    then show ?thesis using vod_advancesD(5) [OF a, of "vodTerminalEvent (vod_top j') value"] v True by (simp add: vod_top_def [of j])
  qed
qed

text \<open>Only the end of an execution closes a journal.\<close>

context vod_op begin

lemma update_loaded:
  assumes d: "vods_ok n d" and small: "Suc n < 2 ^ 64" and l: "vodLoad (snd (vod_update io d sid step)) x = Inr j'"
  shows "vodLoad d x = Inr j' \<or> (\<exists>j. x = sid \<and> vodLoad d sid = Inr j \<and> step j = Inr j')"
proof -
  obtain e d' where u: "vod_update io d sid step = (e, d')" by (cases "vod_update io d sid step")
  have k: "vods_ok (Suc n) d'" using update_keeps [OF d small, of io sid] u by simp
  show ?thesis
    using d small u
  proof (cases rule: update_cases)
    case left
    then show ?thesis using u l by simp
  next
    case (done_ j i)
    show ?thesis
    proof (cases "x = sid")
      case True
      then have "j' = i" using l u done_(6) vod_loads [OF k, of x] by simp
      then show ?thesis using True done_(2,3) by blast
    next
      case False
      then have "vodLoad d' x = vodLoad d x" using done_(6) by (simp add: vodLoad_def)
      then show ?thesis using u l by simp
    qed
  qed
qed

end

lemma vod_call_ends:
  assumes d: "vods_ok n d" and small: "Suc n < 2 ^ 64" and l: "vodLoad (vod_run_call io c d) x = Inr j'" and closed: "\<not> vod_open j'"
  shows "(\<exists>j. vodLoad d x = Inr j \<and> \<not> vod_open j \<and> VodEvents j' = VodEvents j) \<or>
    (\<exists>value m. c = VodEnd x value \<and> last (VodEvents j') = vodTerminalEvent m value)"
proof (cases c)
  case (VodOpen sid hash)
  then show ?thesis using l closed
    by (auto simp: vodLoadOrCreate_def vodSave_def vodLoad_def newVodJournalV2_def vod_open_def Let_def split: sum.splits if_splits option.splits vod_file.splits)
next
  case (VodReport sid phase percent frames)
  have "vodLoad d x = Inr j' \<or> (\<exists>j. x = sid \<and> vodLoad d sid = Inr j \<and> vodProgress_step sid phase percent frames j = Inr j')"
    by (rule vod_progress_op.update_loaded [OF d small]) (use l in \<open>simp add: VodReport vodProgress_def\<close>)
  then show ?thesis using closed by (auto simp: vodProgress_step_def vod_open_def fails_def Let_def split: if_splits)
next
  case (VodSave sid path hash video file_bytes)
  have "vodLoad d x = Inr j' \<or> (\<exists>j. x = sid \<and> vodLoad d sid = Inr j \<and> vodPrepared_step path hash video file_bytes j = Inr j')"
    by (rule vod_prepared_op.update_loaded [OF d small]) (use l in \<open>simp add: VodSave vodPrepared_def\<close>)
  then show ?thesis using closed by (auto simp: vodPrepared_step_def vod_open_def fails_def split: if_splits)
next
  case (VodMark sid)
  have "vodLoad d x = Inr j' \<or> (\<exists>j. x = sid \<and> vodLoad d sid = Inr j \<and> Inr (j\<lparr>VodDelivered := True\<rparr>) = (Inr j' :: vodJournalV2 result))"
    by (rule vod_delivered_op.update_loaded [OF d small]) (use l in \<open>simp add: VodMark vodDelivered_def\<close>)
  then show ?thesis using closed by (auto simp: vod_open_def)
next
  case (VodEnd sid "value")
  have "vodLoad d x = Inr j' \<or> (\<exists>j. x = sid \<and> vodLoad d sid = Inr j \<and> vodTerminal_step value j = Inr j')"
    by (rule vod_terminal_op.update_loaded [OF d small]) (use l in \<open>simp add: VodEnd vodTerminal_def\<close>)
  then show ?thesis using closed VodEnd by (auto simp: vodTerminal_step_def fails_def split: if_splits)
qed

subsection \<open>Executions\<close>

definition vod_service_ok :: "nat \<Rightarrow> VODServiceV2 \<Rightarrow> bool" where
  "vod_service_ok limit v \<longleftrightarrow> SvcLimit v = limit \<and> distinct (map fst (SvcRuns v)) \<and> length (SvcRuns v) \<le> limit \<and>
     SvcActive v = int (length (SvcRuns v)) \<and> SvcLeases v = length (filter (\<lambda>e. RunPC (snd e) \<noteq> VodReleased) (SvcRuns v))"

lemma map_of_split:
  assumes "distinct (map fst m)" and "map_of m k = Some v"
  obtains as bs where "m = as @ (k, v) # bs" "k \<notin> fst ` set as" "k \<notin> fst ` set bs"
proof -
  have "(k, v) \<in> set m" using assms(2) by (rule map_of_SomeD)
  then obtain as bs where m: "m = as @ (k, v) # bs" by (auto simp: in_set_conv_decomp)
  then show ?thesis using assms(1) that by auto
qed

lemma put_absent: "k \<notin> fst ` set m \<Longrightarrow> put k v m = m @ [(k, v)]"
  by (induction k v m rule: put.induct) auto

lemma absent_filter: "k \<notin> fst ` set m \<Longrightarrow> filter (\<lambda>e. fst e \<noteq> k) m = m"
  by (induction m) auto

lemma absent_map: "k \<notin> fst ` set m \<Longrightarrow> map (\<lambda>(x, run). (x, if x = k then f run else run)) m = m"
  by (induction m) auto

lemma vodSubscribe_ok:
  assumes "vod_service_ok limit v" and "vodSubscribe acquire sid hash disposition v = (res, v')"
  shows "vod_service_ok limit v'"
  using assms map_of_eq_None_iff [of "SvcRuns v" sid]
  by (auto simp: vodSubscribe_def vod_service_ok_def put_absent split: if_splits option.splits)

lemma vod_run_ok:
  assumes v: "vod_service_ok limit v" and r: "map_of (SvcRuns v) sid = Some run"
  shows "RunPC run = VodExecuting \<Longrightarrow> vod_service_ok limit (vod_set_pc sid VodReturned v)"
    and "RunPC run = VodReturned \<Longrightarrow> vod_service_ok limit (vodRelease sid v)"
    and "RunPC run = VodReleased \<Longrightarrow> vod_service_ok limit (vodRemove sid v)"
proof -
  have "distinct (map fst (SvcRuns v))" using v by (simp add: vod_service_ok_def)
  then obtain as bs where m: "SvcRuns v = as @ (sid, run) # bs" "sid \<notin> fst ` set as" "sid \<notin> fst ` set bs"
    using r by (rule map_of_split)
  note x = v [unfolded vod_service_ok_def m(1)] absent_map [OF m(2)] absent_map [OF m(3)] absent_filter [OF m(2)] absent_filter [OF m(3)]
  show "vod_service_ok limit (vod_set_pc sid VodReturned v)" if "RunPC run = VodExecuting"
    using x that by (auto simp: vod_service_ok_def vod_set_pc_def m(1))
  show "vod_service_ok limit (vodRelease sid v)" if "RunPC run = VodReturned"
    using x that by (auto simp: vod_service_ok_def vodRelease_def vod_set_pc_def m(1))
  show "vod_service_ok limit (vodRemove sid v)" if "RunPC run = VodReleased"
    using x that r by (auto simp: vod_service_ok_def vodRemove_def m(1))
qed

subsection \<open>Clients\<close>

lemma vod_write_ok:
  "vod_write es l = (sent, n) \<Longrightarrow>
     sorted_wrt (<) (map VodSequence sent) \<and> (\<forall>e\<in>set sent. l < VodSequence e \<and> VodSequence e \<le> n \<and> e \<in> set es) \<and> l \<le> n \<and>
     n \<in> insert l (VodSequence ` set es)"
proof (induction es l arbitrary: sent n rule: vod_write.induct)
  case (2 e es l)
  show ?case
  proof (cases "l < VodSequence e")
    case True
    obtain s m where s: "vod_write es (VodSequence e) = (s, m)" by (cases "vod_write es (VodSequence e)")
    then have r: "sent = e # s" "n = m" using 2(3) True by simp_all
    show ?thesis using 2(1) [OF True s] True unfolding r by (auto intro: order.strict_trans order.strict_implies_order order_trans)
  next
    case False
    then show ?thesis using 2(2) 2(3) by auto
  qed
qed simp

text \<open>The last event goes out when its number is above all others.\<close>

lemma vod_write_last:
  assumes "l < VodSequence e" and "\<forall>x\<in>set es. VodSequence x < VodSequence e" and "vod_write (es @ [e]) l = (sent, n)"
  shows "\<exists>s. sent = s @ [e]"
  using assms
proof (induction es l arbitrary: sent n rule: vod_write.induct)
  case (2 x es l)
  then show ?case by (cases "vod_write (es @ [e]) (VodSequence x)") (auto split: if_splits)
qed auto

definition vod_client_ok :: "vod_journals \<Rightarrow> vod_client \<Rightarrow> bool" where
  "vod_client_ok d c \<longleftrightarrow> sorted_wrt (<) (map VodSequence (ClientSent c)) \<and>
     (ClientPC c \<noteq> VodGone \<longrightarrow> ClientTrailer c = None \<and> (\<forall>e\<in>set (ClientSent c). VodSequence e \<le> ClientLast c) \<and>
        (\<exists>j. vodLoad d (ClientID c) = Inr j \<and> ClientLast c < vod_top j)) \<and>
     (\<forall>u. ClientTrailer c = Some u \<longrightarrow> (\<exists>j value. vodLoad d (ClientID c) = Inr j \<and> \<not> vod_open j \<and> ClientSent c \<noteq> [] \<and>
        last (ClientSent c) = last (VodEvents j) \<and> last (VodEvents j) = vodTerminalEvent (vod_top j) value \<and> u = vod_value_units value))"

lemma vod_client_later:
  assumes c: "vod_client_ok d c" and d: "vods_ok n d" and small: "Suc n < 2 ^ 64"
  shows "vod_client_ok (vod_run_call io x d) c"
proof -
  let ?d = "vod_run_call io x d"
  have later: "\<exists>j'. vodLoad ?d (ClientID c) = Inr j' \<and> vod_advances j j' \<and> vod_top j \<le> vod_top j'" if l: "vodLoad d (ClientID c) = Inr j" for j
  proof -
    obtain j' where j': "vodLoad ?d (ClientID c) = Inr j'" "vod_advances j j'" using vod_call_keeps(2) [OF d small l] by blast
    have "vod_ok (Suc n) j'" by (rule vod_loaded(1) [OF vod_call_keeps(1) [OF d small] j'(1)])
    then show ?thesis using j' vod_top_mono [OF vod_loaded(1) [OF d l] _ j'(2)] by blast
  qed
  have "\<exists>j. vodLoad ?d (ClientID c) = Inr j \<and> ClientLast c < vod_top j" if here: "ClientPC c \<noteq> VodGone"
  proof -
    obtain j where j: "vodLoad d (ClientID c) = Inr j" "ClientLast c < vod_top j" using c here by (auto simp: vod_client_ok_def)
    then show ?thesis using later [OF j(1)] by (meson order.strict_trans2)
  qed
  moreover have "\<exists>j value. vodLoad ?d (ClientID c) = Inr j \<and> \<not> vod_open j \<and> ClientSent c \<noteq> [] \<and>
        last (ClientSent c) = last (VodEvents j) \<and> last (VodEvents j) = vodTerminalEvent (vod_top j) value \<and> u = vod_value_units value"
    if billed: "ClientTrailer c = Some u" for u
  proof -
    obtain j "value" where j: "vodLoad d (ClientID c) = Inr j" "\<not> vod_open j" "ClientSent c \<noteq> []" "last (ClientSent c) = last (VodEvents j)"
        "last (VodEvents j) = vodTerminalEvent (vod_top j) value" "u = vod_value_units value"
      using c billed unfolding vod_client_ok_def by blast
    obtain j' where j': "vodLoad ?d (ClientID c) = Inr j'" "vod_advances j j'" using later [OF j(1)] by blast
    obtain y where y: "j' = j\<lparr>VodDelivered := y\<rparr>" using vod_advancesD(6) [OF j'(2) j(2)] by blast
    have "vod_top j' = vod_top j" "VodEvents j' = VodEvents j" "\<not> vod_open j'" using j(2) by (simp_all add: y vod_top_def vod_open_def)
    then show ?thesis using j' j by auto
  qed
  ultimately show ?thesis using c unfolding vod_client_ok_def by blast
qed

lemma vod_poll_ok:
  assumes c: "vod_client_ok d c" and d: "vods_ok n d" and pc: "ClientPC c = VodPolling" and l: "vodLoad d (ClientID c) = Inr j"
  shows "vod_client_ok d (vod_poll j c)" and "vod_client_ok d (vod_poll_breaks m j c)"
proof -
  obtain sent k where w: "vod_write (VodEvents j) (ClientLast c) = (sent, k)" by (cases "vod_write (VodEvents j) (ClientLast c)")
  note x = vod_write_ok [OF w]
  have old: "sorted_wrt (<) (map VodSequence (ClientSent c))" "ClientTrailer c = None" "\<And>e. e \<in> set (ClientSent c) \<Longrightarrow> VodSequence e \<le> ClientLast c"
    and top: "ClientLast c < vod_top j" using c pc l by (auto simp: vod_client_ok_def)
  have sorted: "sorted_wrt (<) (map VodSequence (ClientSent c @ take i sent))" for i
  proof -
    have "VodSequence a < VodSequence b" if "a \<in> set (ClientSent c)" "b \<in> set sent" for a b
      using x old(3) [OF that(1)] that(2) by (blast intro: order.strict_trans1)
    moreover have "sorted_wrt (<) (map VodSequence (take i sent))" using x sorted_wrt_take [of "(<)" "map VodSequence sent" i] by (simp add: take_map)
    ultimately show ?thesis using old(1) by (auto simp: sorted_wrt_append dest: in_set_takeD)
  qed
  show "vod_client_ok d (vod_poll_breaks m j c)"
    using sorted [of m] old(2) by (simp add: vod_client_ok_def vod_poll_breaks_def w)
  have j: "vod_ok n j" by (rule vod_loaded(1) [OF d l])
  then have ev: "vod_events_ok j" by (simp add: vod_ok_def)
  have below: "VodSequence e < VodNextSequence j" if "e \<in> set (VodEvents j)" for e
  proof -
    obtain k where "map (\<lambda>e. unat (VodSequence e)) (VodEvents j) = [k..<unat (VodNextSequence j)]" using ev by (auto simp: vod_events_ok_def)
    then have "unat (VodSequence e) \<in> set [k..<unat (VodNextSequence j)]" using that by (metis image_eqI list.set_map)
    then show ?thesis by (simp add: word_less_nat_alt)
  qed
  show "vod_client_ok d (vod_poll j c)"
  proof (cases "vod_open j")
    case True
    then have "k < vod_top j" using x top below by (auto simp: vod_top_def)
    moreover have "\<forall>e\<in>set (ClientSent c @ sent). VodSequence e \<le> k" using x old(3) by (auto intro: order_trans)
    ultimately show ?thesis using sorted [of "length sent"] old(2) l True by (auto simp: vod_client_ok_def vod_poll_def w vod_open_def)
  next
    case False
    obtain es "value" where v: "VodEvents j = es @ [vodTerminalEvent (vod_top j) value]" using j False by (rule vod_closed)
    have "\<exists>s. sent = s @ [vodTerminalEvent (vod_top j) value]"
    proof (rule vod_write_last)
      show "vod_write (es @ [vodTerminalEvent (vod_top j) value]) (ClientLast c) = (sent, k)" using w v by simp
      obtain i where i: "map (\<lambda>e. unat (VodSequence e)) (VodEvents j) = [i..<unat (VodNextSequence j)]" using ev by (auto simp: vod_events_ok_def)
      have "sorted_wrt (<) (map (\<lambda>e. unat (VodSequence e)) (VodEvents j))" unfolding i by simp
      then show "\<forall>x\<in>set es. VodSequence x < VodSequence (vodTerminalEvent (vod_top j) value)"
        by (simp add: v sorted_wrt_append word_less_nat_alt)
    qed (use top in simp)
    then obtain s where s: "sent = s @ [vodTerminalEvent (vod_top j) value]" by blast
    have "vodTerminalUnitsV2 j = vod_value_units value" using v by (rule billed_units)
    moreover have "VodState j \<noteq> ''in_progress''" using False by (simp add: vod_open_def)
    ultimately have p: "vod_poll j c = c\<lparr>ClientSent := ClientSent c @ sent, ClientLast := k, ClientTrailer := Some (vod_value_units value), ClientPC := VodGone\<rparr>"
      by (simp add: vod_poll_def w)
    have "last (ClientSent c @ sent) = last (VodEvents j)" "ClientSent c @ sent \<noteq> []" "last (VodEvents j) = vodTerminalEvent (vod_top j) value"
      by (simp_all add: s v)
    then show ?thesis using sorted [of "length sent"] l False unfolding p vod_client_ok_def by auto
  qed
qed

definition vod_system_ok :: "nat \<Rightarrow> nat \<Rightarrow> vod_system \<Rightarrow> bool" where
  "vod_system_ok limit n s \<longleftrightarrow> vods_ok n (VodDisk s) \<and> vod_service_ok limit (Service s) \<and> (\<forall>c\<in>set (Clients s). vod_client_ok (VodDisk s) c) \<and>
     (\<forall>sid j. vodLoad (VodDisk s) sid = Inr j \<longrightarrow> \<not> vod_open j \<longrightarrow> VodEvent (last (VodEvents j)) = ''error'' \<longrightarrow> vodTerminalUnitsV2 j = 0)"

lemma vod_opened_load:
  assumes "vodLoadOrCreate io d sid hash = (Inr (j, disposition), d')"
  shows "vodLoad d' sid = Inr j"
  using assms by (auto simp: vodLoadOrCreate_def vodSave_def vodLoad_def newVodJournalV2_def Let_def split: sum.splits if_splits option.splits vod_file.splits)

lemma vod_step_calls:
  assumes s: "vod_system_ok limit n s" and small: "Suc n < 2 ^ 64" and v: "vod_service_ok limit v"
    and x: "\<And>sid w. x = VodEnd sid (VodFailure w) \<Longrightarrow> VodUnits (VodErrUsage w) = 0"
  shows "vod_system_ok limit (Suc n) (s\<lparr>VodDisk := vod_run_call io x (VodDisk s), Service := v\<rparr>)"
proof -
  have d: "vods_ok n (VodDisk s)" and c: "\<And>c. c \<in> set (Clients s) \<Longrightarrow> vod_client_ok (VodDisk s) c"
    and f: "\<And>sid j. vodLoad (VodDisk s) sid = Inr j \<Longrightarrow> \<not> vod_open j \<Longrightarrow> VodEvent (last (VodEvents j)) = ''error'' \<Longrightarrow> vodTerminalUnitsV2 j = 0"
    using s unfolding vod_system_ok_def by blast+
  note d' = vod_call_keeps(1) [OF d small, of io x]
  have "vodTerminalUnitsV2 j = 0"
    if l: "vodLoad (vod_run_call io x (VodDisk s)) sid = Inr j" and closed: "\<not> vod_open j" and e: "VodEvent (last (VodEvents j)) = ''error''" for sid j
    using vod_call_ends [OF d small l closed]
  proof (elim disjE exE conjE)
    fix i assume i: "vodLoad (VodDisk s) sid = Inr i" "\<not> vod_open i" "VodEvents j = VodEvents i"
    have "vodTerminalUnitsV2 j = vodTerminalUnitsV2 i" using i(3) by (simp add: vodTerminalUnitsV2_def)
    then show ?thesis using f [OF i(1,2)] i(3) e by simp
  next
    fix "value" m assume y: "x = VodEnd sid value" "last (VodEvents j) = vodTerminalEvent m value"
    obtain es value' where es: "VodEvents j = es @ [vodTerminalEvent (vod_top j) value']" using vod_loaded(1) [OF d' l] closed by (rule vod_closed)
    then have "VodEvents j = es @ [vodTerminalEvent m value]" using y(2) by simp
    then have "vodTerminalUnitsV2 j = vod_value_units value" by (rule billed_units)
    then show ?thesis using x y e by (cases "value") (auto simp: vod_value_units_def vodTerminalEvent_def)
  qed
  then show ?thesis using d' vod_client_later [OF c d small] v by (simp add: vod_system_ok_def)
qed

lemma vod_step_clients:
  assumes s: "vod_system_ok limit n s" and v: "vod_service_ok limit v" and c: "vod_client_ok (VodDisk s) c"
  shows "vod_system_ok limit (Suc n) (set_client k c (s\<lparr>Service := v\<rparr>))"
  using assms vods_ok_mono [of n "VodDisk s" "Suc n"] set_update_subset_insert [of "Clients s" k c]
  by (auto simp: vod_system_ok_def set_client_def)

lemma vod_client_at: "vod_system_ok limit n s \<Longrightarrow> client_at s k c \<Longrightarrow> vod_client_ok (VodDisk s) c"
  by (auto simp: vod_system_ok_def client_at_def)

text \<open>A client that only moves on.\<close>

lemma vod_client_moves:
  "vod_client_ok d c \<Longrightarrow> ClientPC c \<noteq> VodGone \<Longrightarrow> vod_client_ok d (c\<lparr>ClientPC := pc\<rparr>)"
  "vod_client_ok d c \<Longrightarrow> ClientPC c \<noteq> VodGone \<Longrightarrow> vod_client_ok d (c\<lparr>ClientRun := i, ClientPC := pc\<rparr>)"
  by (auto simp: vod_client_ok_def)

lemma vod_step_ok:
  assumes "vod_step s s'" and s: "vod_system_ok limit n s" and small: "Suc n < 2 ^ 64"
  shows "vod_system_ok limit (Suc n) s'"
proof -
  have v: "vod_service_ok limit (Service s)" and d: "vods_ok n (VodDisk s)" using s by (simp_all add: vod_system_ok_def)
  have id: "(s :: vod_system) = s\<lparr>Service := Service s\<rparr>" by simp
  note calls = vod_step_calls [OF s small]
  note clients = vod_step_clients [OF s]
  from assms(1) show ?thesis
  proof (cases rule: vod_step.cases)
    case (client_opens io sid hash j disposition e)
    have e: "e = vod_run_call io (VodOpen sid hash) (VodDisk s)" using client_opens(2) by simp
    have k: "vod_system_ok limit (Suc n) (s\<lparr>VodDisk := e\<rparr>)" using calls [OF v, of "VodOpen sid hash" io] by (simp add: e)
    have l: "vodLoad e sid = Inr j" using client_opens(2) by (rule vod_opened_load)
    have "vod_ok (Suc n) j" using vod_loaded(1) [OF _ l] k by (simp add: vod_system_ok_def)
    then have "vod_client_ok e (new_client sid hash disposition)" using l vod_top_pos by (simp add: vod_client_ok_def new_client_def)
    then show ?thesis using k client_opens(1) by (simp add: vod_system_ok_def)
  next
    case (client_refused io sid hash res e)
    then have "e = vod_run_call io (VodOpen sid hash) (VodDisk s)" by simp
    then show ?thesis using calls [OF v, of "VodOpen sid hash" io] client_refused(1) by simp
  next
    case (client_subscribes k c acquire i w)
    show ?thesis using clients [OF vodSubscribe_ok [OF v client_subscribes(4)] vod_client_moves(2) [OF vod_client_at [OF s client_subscribes(2)]]]
      client_subscribes(1,3) by simp
  next
    case (client_rejected k c acquire e w)
    show ?thesis using clients [OF vodSubscribe_ok [OF v client_rejected(4)] vod_client_moves(1) [OF vod_client_at [OF s client_rejected(2)]]]
      client_rejected(1,3) by simp
  next
    case (client_polls k c j)
    show ?thesis using clients [OF v vod_poll_ok(1) [OF vod_client_at [OF s client_polls(2)] d client_polls(3,4)], of k] client_polls(1) by simp
  next
    case (client_breaks k c j m)
    show ?thesis using clients [OF v vod_poll_ok(2) [OF vod_client_at [OF s client_breaks(2)] d client_breaks(3,4)], of k m] client_breaks(1) by simp
  next
    case (client_wakes k c)
    show ?thesis using clients [OF v vod_client_moves(1) [OF vod_client_at [OF s client_wakes(2)]], of k VodPolling] client_wakes(1,3) by simp
  next
    case (client_leaves k c)
    show ?thesis using clients [OF v vod_client_moves(1) [OF vod_client_at [OF s client_leaves(2)]], of k VodGone] client_leaves(1,3) by auto
  next
    case (run_calls sid hash x io)
    show ?thesis using calls [OF v, of x io] run_calls(1,3) by (cases x) (simp_all add: vod_own_call_def)
  next
    case (run_returns sid hash "value" io)
    obtain run where run: "map_of (SvcRuns (Service s)) sid = Some run" "RunPC run = VodExecuting" using run_returns(2) by (auto simp: vod_run_at_def)
    show ?thesis using calls [OF vod_run_ok(1) [OF v run], of "VodEnd sid value" io] run_returns(1,3)
      by (cases "value") (simp_all add: vod_terminal_of_def vodFailure_def)
  next
    case (run_releases sid hash)
    obtain run where run: "map_of (SvcRuns (Service s)) sid = Some run" "RunPC run = VodReturned" using run_releases(2) by (auto simp: vod_run_at_def)
    show ?thesis using s vods_ok_mono [OF d, of "Suc n"] vod_run_ok(2) [OF v run] run_releases(1) by (simp add: vod_system_ok_def)
  next
    case (run_ends sid hash)
    obtain run where run: "map_of (SvcRuns (Service s)) sid = Some run" "RunPC run = VodReleased" using run_ends(2) by (auto simp: vod_run_at_def)
    show ?thesis using s vods_ok_mono [OF d, of "Suc n"] vod_run_ok(3) [OF v run] run_ends(1) by (simp add: vod_system_ok_def)
  qed
qed

lemma vod_reach_ok: "vod_reach presets limit n s \<Longrightarrow> n < 2 ^ 64 \<Longrightarrow> vod_system_ok limit n s"
proof (induction rule: vod_reach.induct)
  case (vod_start v)
  then show ?case by (auto simp: NewVODServiceV2_def vod_system_ok_def vods_ok_def vod_service_ok_def vodLoad_def fails_def split: if_splits)
next
  case (vod_next n s s')
  then show ?case using vod_step_ok [OF vod_next.hyps(2)] by simp
qed

subsection \<open>The properties\<close>

text \<open>
  (C34) The VOD service never runs a workload twice at once and never more workloads than its limit, whatever the
  clients, the executions and the GPU gate do; its count of active runs is the number of its runs, and a GPU
  lease is held by each run that has not released it.
\<close>

theorem one_vod_run_per_workload:
  assumes "vod_reach presets limit n s" and "n < 2 ^ 64"
  shows "distinct (map fst (SvcRuns (Service s))) \<and> length (SvcRuns (Service s)) \<le> limit \<and>
    SvcActive (Service s) = int (length (SvcRuns (Service s))) \<and>
    SvcLeases (Service s) = length (filter (\<lambda>e. RunPC (snd e) \<noteq> VodReleased) (SvcRuns (Service s)))"
  using vod_reach_ok [OF assms] unfolding vod_system_ok_def vod_service_ok_def by blast


end
