(* ===== verification/VOD_Witnesses.thy ===== *)
theory VOD_Witnesses
  imports VOD_Delivery VOD_Properties
begin

section \<open>A concrete VOD workload\<close>

text \<open>
  A workload whose output was encoded before the runner went down: the execution finds the file intact, uploads
  it and is done.  Then one that fails while a client watches.
\<close>

definition y_digest :: string where "y_digest = replicate 32 (CHR ''d'')"

definition y_sha :: string where "y_sha = hex_encode y_digest"

definition y_tools :: job_tools where
  "y_tools = \<lparr>StateDir = ''/state'', Digest = (\<lambda>_. y_digest), DiskOK = (\<lambda>_. True), Live = (\<lambda>_. True), Fetch = (\<lambda>_ _. None),
     Send = (\<lambda>_ _ _. Some 200), FFprobe = (\<lambda>_ _ _. Some ''probe''),
     FFmpeg = (\<lambda>_ _ _. \<lparr>Starts = False, Writes = [], Stderr = [], ExitOK = False, KilledExitOK = False\<rparr>), Clock = (\<lambda>_. 0),
     Saves = (\<lambda>_. SaveOK), DecodeProbe = (\<lambda>_. Inr \<lparr>Streams = [], FormatDuration = [], FormatBitRate = []\<rparr>)\<rparr>"

text \<open>A request with the digest of its input in capitals, and one without.\<close>

definition y_request :: "string \<Rightarrow> VODRequestV2" where
  "y_request sha = \<lparr>VodReqSchema = VODRequestSchemaV2, VodReqID = ''w1'', VodInput = \<lparr>VodDownloadURL = ''https://d/in'', VodContentSHA256 = sha\<rparr>,
     VodRendition = \<lparr>VodName = ''720p'', VodWidth = 1280, VodHeight = 720, VodFPS = 30, VodCodec = ''h264''\<rparr>,
     VodStream = \<lparr>VodArtifactURI = ''s3://b/o'', VodUploadURL = ''https://u/o''\<rparr>\<rparr>"

definition y_preset :: Preset where
  "y_preset = \<lparr>PresetName = ''h264-720p'', PresetDescription = [], PresetVideoCodec = ''h264'', PresetAudioCodec = ''aac'', PresetWidth = 1280,
     PresetHeight = 720, PresetBitrate = ''2M'', PresetMaxRate = [], PresetBufSize = [], PresetCRF = 0, PresetFPS = 25, PresetPixFmt = [],
     PresetProfile = [], PresetTier = [], GPURequired = False, PresetAudioBitrate = ''128k'', PresetAudioChannels = 2, PresetAudioSampleRate = 48000\<rparr>"

definition y_journal :: vodJournalV2 where
  "y_journal = (newVodJournalV2 ''w1'' y_sha)\<lparr>VodPreparedPath := ''work/w1/output.mp4'', VodPreparedHash := y_sha,
     VodVideo := Some \<lparr>VodFrames = 300, VodVideoWidth = 1280, VodVideoHeight = 720\<rparr>, VodFileSize := 1\<rparr>"

definition y_files :: "(string \<times> string) list" where
  "y_files = [(''work/w1/input.mp4'', ''v''), (''work/w1/output.mp4'', ''o'')]"

abbreviation y_at :: "nat \<Rightarrow> (string \<times> string) list \<Rightarrow> vod_journals \<Rightarrow> vod_world" where
  "y_at k u d \<equiv> \<lparr>Tick = k, Files = y_files, Uploads = u, VodJournals = d\<rparr>"

lemma y_texts:
  "path_join2 ''work'' ''w1'' = ''work/w1''" "guessExtension ''https://d/in'' = ''.mp4''" "path_join2 ''work/w1'' ''input.mp4'' = ''work/w1/input.mp4''"
  "path_join2 ''work/w1'' ''output.mp4'' = ''work/w1/output.mp4''" "path_clean ''work/w1/output.mp4'' = ''work/w1/output.mp4''"
  "contains ''work/w1/output.mp4'' ''..'' = False" "has_prefix ''work/w1/output.mp4'' ''/'' = False" "y_sha \<noteq> []"
  by code_simp+

lemma y_accepted: "validateAndResolve [y_preset] (y_request []) = Inr (y_preset\<lparr>PresetFPS := 30\<rparr>)"
  "validateAndResolve [y_preset] (y_request (replicate 64 (CHR ''A''))) = Inr (y_preset\<lparr>PresetFPS := 30\<rparr>)"
  by code_simp+

lemma y_request_simps [simp]:
  "VodReqID (y_request sha) = ''w1''" "VodInput (y_request sha) = \<lparr>VodDownloadURL = ''https://d/in'', VodContentSHA256 = sha\<rparr>"
  "VodStream (y_request sha) = \<lparr>VodArtifactURI = ''s3://b/o'', VodUploadURL = ''https://u/o''\<rparr>"
  by (simp_all add: y_request_def)

lemma y_tools_simps [simp]:
  "DiskOK y_tools k" "Send y_tools k url c = Some 200" "FFprobe y_tools k args c = Some ''probe''" "Saves y_tools k = SaveOK" "Digest y_tools c = y_digest"
  "DecodeProbe y_tools c = Inr \<lparr>Streams = [], FormatDuration = [], FormatBitRate = []\<rparr>"
  by (simp_all add: y_tools_def)

lemma y_start: "vods_ok 1 [(''w1'', VodJournal y_journal)]" "vodLoad [(''w1'', VodJournal y_journal)] ''w1'' = Inr y_journal"
proof -
  have "vod_events_ok y_journal" by (auto simp: vod_events_ok_def y_journal_def newVodJournalV2_def intro: exI [of _ 1])
  then show "vods_ok 1 [(''w1'', VodJournal y_journal)]" "vodLoad [(''w1'', VodJournal y_journal)] ''w1'' = Inr y_journal"
    by (auto simp: vods_ok_def vod_ok_def vod_state_ok_def vod_open_def y_journal_def newVodJournalV2_def vodLoad_def)
qed

lemma y_disk: "disk y_tools (y_at k u d) = (Inr (), y_at (Suc k) u d)"
  by (simp add: disk_def andThen_def ask_def demand_def give_def)

lemma y_read: "map_of y_files p = Some c \<Longrightarrow> read_file y_tools p (y_at k u d) = (Inr c, y_at (Suc k) u d)"
  by (simp add: read_file_def andThen_def y_disk get_files_def give_def)

lemma y_upload: "map_of y_files p = Some c \<Longrightarrow>
    orFail (UploadFile y_tools p url) e (y_at k u d) = (Inr (), y_at (Suc (Suc k)) (u @ [(url, c)]) d)"
  by (simp add: orFail_def UploadFile_def andThen_def y_read ask_def log_upload_def)

lemma y_found [simp]: "map_of y_files ''work/w1/input.mp4'' = Some ''v''" "map_of y_files ''work/w1/output.mp4'' = Some ''o''"
  by (simp_all add: y_files_def)

lemma y_probe: "\<exists>probe. orFail (probeMediaV2 y_tools ''work/w1/input.mp4'') e (y_at k u d) = (Inr probe, y_at (Suc (Suc k)) u d)"
  by (simp add: orFail_def probeMediaV2_def run_ffprobe_def andThen_def y_read ask_def give_def ParseProbeOutput_def Let_def)

lemma y_load: "vodLoad d ''w1'' = Inr j \<Longrightarrow> vod_load y_tools ''w1'' (y_at k u d) = (Inr j, y_at (Suc k) u d)"
  by (simp add: vod_load_def andThen_def orFail_def y_disk get_vod_journals_def give_def)

lemma y_report:
  assumes "vodLoad d ''w1'' = Inr j" and "vod_open j"
  shows "\<exists>d' j'. vod_report y_tools ''w1'' phase x frames (y_at k u d) = (Inr (), y_at (Suc k) u d') \<and> vodLoad d' ''w1'' = Inr j' \<and> vod_open j' \<and>
    VodPreparedPath j' = VodPreparedPath j \<and> VodPreparedHash j' = VodPreparedHash j \<and> VodVideo j' = VodVideo j \<and> VodDelivered j' = VodDelivered j"
proof -
  obtain j' where st: "vodProgress_step ''w1'' phase x frames j = Inr j'" and same: "vod_open j'" "VodPreparedPath j' = VodPreparedPath j"
      "VodPreparedHash j' = VodPreparedHash j" "VodVideo j' = VodVideo j" "VodDelivered j' = VodDelivered j"
      "VodWorkloadID j' = VodWorkloadID j" "VodVersion j' = VodVersion j"
    using assms(2) by (auto simp: vodProgress_step_def vod_open_def Let_def)
  have id: "VodWorkloadID j = ''w1''" "VodVersion j = 1" using assms(1) by (auto simp: vodLoad_def fails_def split: option.splits vod_file.splits if_splits)
  have "vodProgress SaveOK d ''w1'' phase x frames = (None, put ''w1'' (VodJournal j') d)"
    using assms(1) st same(6) id by (simp add: vodProgress_def vod_update_def vodSave_def)
  then show ?thesis using same id by (simp add: vod_report_def ignoring_def vod_call_def vodLoad_def)
qed

lemma y_execution: "\<exists>v w'. doExecute y_tools emptyHWProfile (y_request []) preset y_sha (y_at 0 [] [(''w1'', VodJournal y_journal)]) = (Inr v, w') \<and>
    1 + Tick w' < 2 ^ 64"
proof -
  let ?d = "[(''w1'', VodJournal y_journal)]"
  have j: "vod_open y_journal" "VodPreparedPath y_journal = ''work/w1/output.mp4''" "VodPreparedHash y_journal = y_sha"
    "VodVideo y_journal = Some \<lparr>VodFrames = 300, VodVideoWidth = 1280, VodVideoHeight = 720\<rparr>" "\<not> VodDelivered y_journal"
    by (simp_all add: y_journal_def newVodJournalV2_def vod_open_def)
  obtain d1 j1 where 1: "vod_report y_tools ''w1'' ''probing'' 5 0 (y_at 2 [] ?d) = (Inr (), y_at 3 [] d1)" "vodLoad d1 ''w1'' = Inr j1" "vod_open j1"
      "VodPreparedPath j1 = ''work/w1/output.mp4''" "VodPreparedHash j1 = y_sha" "VodVideo j1 = VodVideo y_journal" "\<not> VodDelivered j1"
    using y_report [OF y_start(2) j(1), of "''probing''" 5 0 2 "[]"] j by auto
  obtain d2 j2 where 2: "vod_report y_tools ''w1'' ''uploading'' 95 300 (y_at 7 [] d1) = (Inr (), y_at 8 [] d2)" "vodLoad d2 ''w1'' = Inr j2" "vod_open j2"
    using y_report [OF 1(2,3), of "''uploading''" 95 300 7 "[]"] by auto
  obtain probe where probe: "orFail (probeMediaV2 y_tools ''work/w1/input.mp4'') VodFails (y_at 3 [] d1) = (Inr probe, y_at 5 [] d1)"
    using y_probe [of VodFails 3 "[]" d1] by auto
  have input: "vodInput y_tools (y_request []) ''work/w1/input.mp4'' (y_at (Suc 0) [] ?d) = (Inr (), y_at 2 [] ?d)"
    by (simp add: vodInput_def Let_def andThen_def attempt_def y_read give_def)
  have load: "vod_load y_tools ''w1'' (y_at 5 [] d1) = (Inr j1, y_at 6 [] d1)" using y_load [OF 1(2), of 5 "[]"] by simp
  have valid: "vodPreparedValidV2 y_tools j1 (y_at 6 [] d1) = (Inr True, y_at 7 [] d1)"
    using 1(4,5,6) j(4) y_texts
    by (simp add: vodPreparedValidV2_def file_digest_def attempt_def andThen_def y_read give_def content_sha256_def flip: y_sha_def)
  have id: "VodWorkloadID j2 = ''w1''" "VodVersion j2 = 1" using 2(2) by (auto simp: vodLoad_def fails_def split: option.splits vod_file.splits if_splits)
  have "vodDelivered SaveOK d2 ''w1'' = (None, put ''w1'' (VodJournal (j2\<lparr>VodDelivered := True\<rparr>)) d2)"
    using 2(2) id by (simp add: vodDelivered_def vod_update_def vodSave_def)
  then obtain w' where deliver: "vodDeliver y_tools (y_request []) j1 (y_at 7 [] d1) = (Inr (), w')" "Tick w' = 11"
    using 1(4,6,7) 2(1) j(4) y_texts(5) by (simp add: vodDeliver_def andThen_def y_upload vod_call_def)
  have units: "vodUnitsV2 (VodVideo y_journal) = Inr 277" unfolding j(4) vodUnits_iff by simp
  show ?thesis
    using deliver units
    by (simp add: doExecute_def Let_def andThen_def orFail_def [of "disk _"] y_disk y_texts input 1(1) probe load valid 1(6) give_def)
qed



subsection \<open>A workload that fails\<close>

definition z_opened :: vodJournalV2 where "z_opened = newVodJournalV2 ''w1'' y_sha"

definition z_failed :: vodJournalV2 where
  "z_failed = z_opened\<lparr>VodNextSequence := 2, VodEvents := [vodTerminalEvent 1 (VodFailure (vodFailure ''w1'' y_sha))], VodState := ''failed''\<rparr>"

lemma z_loads: "vodLoad [(''w1'', VodJournal z_opened)] ''w1'' = Inr z_opened" "vodLoad [(''w1'', VodJournal z_failed)] ''w1'' = Inr z_failed"
  by (simp_all add: vodLoad_def z_failed_def z_opened_def newVodJournalV2_def)

lemma z_open: "vodLoadOrCreate SaveOK [] ''w1'' y_sha = (Inr (z_opened, NewV2), [(''w1'', VodJournal z_opened)])"
  by (simp add: vodLoadOrCreate_def vodLoad_def vodSave_def Let_def z_opened_def newVodJournalV2_def)

lemma z_end: "vod_run_call SaveOK (VodEnd ''w1'' (VodFailure (vodFailure ''w1'' y_sha))) [(''w1'', VodJournal z_opened)] = [(''w1'', VodJournal z_failed)]"
  unfolding vod_run_call.simps vodTerminal_def vod_update_def z_loads
  by (simp add: vodTerminal_step_def vodSave_def z_failed_def z_opened_def newVodJournalV2_def)

theorem vod_workload_never_moves_back_witness:
  "\<exists>j. vodLoad (vod_run_call SaveOK (VodMark ''w1'') [(''w1'', VodJournal z_failed)]) ''w1'' = Inr j \<and> vod_advances z_failed j \<and>
    VodState j = ''failed'' \<and> VodEvents j = VodEvents z_failed"
proof -
  have "vod_runs (Suc (Suc 0)) [] (vod_run_call SaveOK (VodEnd ''w1'' (VodFailure (vodFailure ''w1'' y_sha))) (vod_run_call SaveOK (VodOpen ''w1'' y_sha) []))"
    by (intro vod_runs.intros)
  then have "vod_runs (Suc (Suc 0)) [] [(''w1'', VodJournal z_failed)]" using z_end by (simp add: z_open)
  moreover have "vod_runs (Suc 0) [(''w1'', VodJournal z_failed)] (vod_run_call SaveOK (VodMark ''w1'') [(''w1'', VodJournal z_failed)])"
    by (intro vod_runs.intros)
  moreover have "\<not> vod_open z_failed" "VodState z_failed = ''failed''" by (simp_all add: z_failed_def vod_open_def)
  ultimately show ?thesis
    using vod_workload_never_moves_back [of "Suc (Suc 0)" "[(''w1'', VodJournal z_failed)]" "Suc 0" _ "''w1''" z_failed] z_loads(2)
    by (auto simp del: vod_run_call.simps)
qed

definition z_client :: vod_client where "z_client = new_client ''w1'' y_sha NewV2"

definition z_service :: "vod_run_pc \<Rightarrow> VODServiceV2" where
  "z_service pc = \<lparr>SvcLimit = 1, SvcRuns = [(''w1'', \<lparr>RunHash = y_sha, RunDone = 0, RunPC = pc\<rparr>)], SvcActive = 1, SvcRejected = 0,
     SvcLeases = 1, SvcChannels = 1, SvcClosed = []\<rparr>"

definition z_end_state :: vod_system where
  "z_end_state = \<lparr>VodDisk = [(''w1'', VodJournal z_failed)], Service = z_service VodReturned,
     Clients = [vod_poll z_failed (z_client\<lparr>ClientRun := 0, ClientPC := VodPolling\<rparr>)]\<rparr>"

lemma z_reach: "vod_reach [y_preset] 1 4 z_end_state"
proof -
  let ?v = "\<lparr>SvcLimit = 1, SvcRuns = [], SvcActive = 0, SvcRejected = 0, SvcLeases = 0, SvcChannels = 0, SvcClosed = []\<rparr>"
  let ?s0 = "\<lparr>VodDisk = [], Service = ?v, Clients = []\<rparr>"
  let ?s1 = "\<lparr>VodDisk = [(''w1'', VodJournal z_opened)], Service = ?v, Clients = [z_client]\<rparr>"
  let ?c = "z_client\<lparr>ClientRun := 0, ClientPC := VodPolling\<rparr>"
  let ?s2 = "\<lparr>VodDisk = [(''w1'', VodJournal z_opened)], Service = z_service VodExecuting, Clients = [?c]\<rparr>"
  let ?s3 = "\<lparr>VodDisk = [(''w1'', VodJournal z_failed)], Service = z_service VodReturned, Clients = [?c]\<rparr>"
  have c: "ClientID z_client = ''w1''" "ClientHash z_client = y_sha" "ClientDisposition z_client = NewV2" "ClientPC z_client = VodOpened"
    by (simp_all add: z_client_def new_client_def)
  have 0: "vod_reach [y_preset] 1 0 ?s0" by (rule vod_start) (simp add: NewVODServiceV2_def)
  have "vod_step ?s0 (?s0\<lparr>VodDisk := [(''w1'', VodJournal z_opened)], Clients := Clients ?s0 @ [new_client ''w1'' y_sha NewV2]\<rparr>)"
    by (rule client_opens) (use z_open in simp_all)
  then have 1: "vod_step ?s0 ?s1" by (simp add: z_client_def)
  have "vod_step ?s1 (set_client 0 ?c (?s1\<lparr>Service := z_service VodExecuting\<rparr>))"
    by (rule client_subscribes [where acquire = None]) (simp_all add: client_at_def c vodSubscribe_def z_service_def)
  then have 2: "vod_step ?s1 ?s2" by (simp add: set_client_def)
  have "vod_step ?s2 (?s2\<lparr>VodDisk := vod_run_call SaveOK (VodEnd ''w1'' (VodFailure (vodFailure ''w1'' y_sha))) (VodDisk ?s2),
      Service := vod_set_pc ''w1'' VodReturned (Service ?s2)\<rparr>)"
    by (rule run_returns [where hash = y_sha]) (simp_all add: vod_run_at_def z_service_def vod_terminal_of_def)
  then have 3: "vod_step ?s2 ?s3" using z_end by (simp add: vod_set_pc_def z_service_def)
  have "vod_step ?s3 (set_client 0 (vod_poll z_failed ?c) ?s3)"
    by (rule client_polls) (simp_all add: client_at_def c z_loads)
  then have 4: "vod_step ?s3 z_end_state" by (simp add: set_client_def z_end_state_def)
  have "vod_reach [y_preset] 1 (Suc (Suc (Suc (Suc 0)))) z_end_state" by (rule vod_next [OF vod_next [OF vod_next [OF vod_next [OF 0 1] 2] 3] 4])
  then show ?thesis by (simp add: eval_nat_numeral)
qed

theorem one_vod_run_per_workload_witness:
  "length (SvcRuns (Service z_end_state)) = 1 \<and> SvcLeases (Service z_end_state) = 1 \<and> distinct (map fst (SvcRuns (Service z_end_state)))"
  using one_vod_run_per_workload [OF z_reach] by (simp add: z_end_state_def z_service_def)


end
