(* ===== verification/Spec2Isabelle.thy ===== *)
theory Spec2Isabelle
  imports Callback_Witnesses Media_Witnesses Router_Properties Meter_Witnesses Server_Witnesses FFmpeg_Properties GPU_Admission ABR_Witnesses ABR_Delivery_Witnesses VOD_Witnesses
begin

text \<open>
  A model of the transcode runners of this repository, translated from the Go sources under
  \<open>src/\<close>, and the properties that make its parts correct.

  The program.  Three runners share a library.  The live runner (\<open>live-runner\<close>) takes RTMP
  streams for a broker: it keeps every session in an encrypted file, lets MediaMTX admit the
  publisher, runs an ffmpeg ladder, meters the HLS output, serves it to viewers and reports to the
  broker by callbacks.  The ABR and VOD runners (\<open>abr-runner\<close>, \<open>transcode-runner\<close>)
  transcode files as jobs.  The library (\<open>transcode-core\<close>) builds the ffmpeg commands, detects
  the GPU, reads presets and keeps live and batch work from sharing a GPU.

  How the parts work together.  Everything the live runner knows of a session is in the store.  The
  HTTP handlers, the callback worker, the meter, the session runtime and the recovery at start-up are
  goroutines that share it; each of its methods runs under one lock.  So the model has the methods of
  the store as functions on the directory, the relation \<open>runs\<close> for any sequence of calls by
  anybody, and the other parts as clients: \<open>Store_Client\<close> gives them a \<open>setting\<close>
  that says what the other goroutines do to the directory before each of their accesses.

  Theories and sources (below \<open>src/\<close>).
    Runner_Prelude, Go_Library, Go_Float, Go_Json, Runner_HTTP: strings, words, errors, time stamps;
      \<open>net/url\<close>, \<open>path\<close>; \<open>float64\<close>; \<open>encoding/json\<close>; responses and cookie jars.
    Live_Contract: \<open>live-runner/contract.go\<close>, the wire types, validators and the event cursor.
    Session_Store, Session_Ops: \<open>store.go\<close> and the store part of \<open>create_recovery.go\<close>: the
      records, sealing, integrity, loading and saving, and every method.  A method that updates one
      session is a decision function \<open>..._step\<close> and the frame \<open>update_session\<close>.
    Session_Invariant, Session_Safety, Session_Methods, Session_Delivery, Session_Reachable: the
      invariant of a record, the contract of a method (locales \<open>session_op\<close>, \<open>plain_op\<close>),
      its interpretation on every method, and the runs of the store.
    Session_Credentials, Session_Closing: two further promises of every method (locales
      \<open>credential_op\<close>, \<open>closing_op\<close>): secrets outlive the outbox, and a stopping session
      stands still.
    Session_Properties: what callers may rely on; Session_Example, Session_Witnesses: a concrete run.
    Store_Client: clients among other goroutines (\<open>friendly\<close>) and alone (\<open>calm\<close>).
    Live_Callback with Callback_Properties, Callback_Liveness: \<open>callback.go\<close>, the delivery of
      events.
    Live_Media, Media_Properties: \<open>media.go\<close>, the media paths, keys and the authorisation.
    Live_Router, Router_Properties: \<open>router.go\<close>, the API of MediaMTX.
    Live_Playlist, Live_Meter with Playlist_Properties, Meter_Properties: \<open>metering.go\<close>.
    Live_HLS, HLS_Properties: \<open>hls.go\<close> and \<open>hls_master.go\<close>, the proxy for viewers.
    Live_Recovery, Recovery_Properties: \<open>recovery.go\<close>, the end of sessions and the restart.
    GPU_Presets: \<open>transcode-core/gpu.go\<close>, \<open>presets.go\<close>, \<open>abr_presets.go\<close>.
    FFmpeg_Args, FFmpeg_Properties: \<open>ffmpeg.go\<close>, \<open>filters.go\<close>, \<open>hls.go\<close>, \<open>live.go\<close>,
      \<open>progress.go\<close>, \<open>thumbnail.go\<close>, \<open>io.go\<close> of \<open>transcode-core\<close>.
    GPU_Admission: \<open>gpu_admission.go\<close>, the file locks as a transition system of many processes.
  The theories \<open>..._Witnesses\<close> apply the properties to concrete inputs.

  What is shown.  Of the store: every reachable directory loads, sessions never move back, terminal
  sessions are final, the first close reason wins, segments are metered once, one stream key is
  live, the outbox is well formed, creation replays or is fenced.  Of its clients: events leave the
  outbox only by an answer to them and a sweep drains it, only the holder of the live key
  publishes, a poll bills only new segments, viewers stay in their session, finishing a session
  cannot lose a race and a restart settles every session.  Of the library: presets, filters and
  playlists fit together, and live and batch leases never mix, through crashes too.

  Bounds and fuel.  The JSON scanner runs with fuel twice the length of its input plus two, which
  bounds its recursion; the depth limit of 10000 and the sizes of bodies, playlists (1 MiB) and
  scanner buffers are those of the code.  \<open>callbackWorkerRun\<close>, \<open>waitForPublisher\<close> and
  \<open>meterTicks\<close> are loops that run until their context ends; their fuel counts iterations, and
  the theorems about them hold for every fuel or say which fuel suffices.  Words have the width of
  the source; where Go wraps, so does the model.

  Assumptions.  \<open>crypto_ok\<close>: AES-GCM opens what it sealed, digests have their lengths, the
  JSON of a record and of its secrets is injective on valid UTF-8.  External programs, the broker,
  MediaMTX, the sources of YAML and the clock are parameters.  Times are integers of nanoseconds; the text of
  RFC 3339 is read back as the time it was printed from.  One HTTP request of the proxy is handled at a time, and
  headers arrive decoded.

  Not modelled.  The session runtime (\<open>runtime.go\<close>, \<open>process.go\<close>) with its goroutines per session
  and its ffmpeg processes, the HTTP server of the live runner (\<open>server.go\<close>), configuration
  and metrics text, and the ABR and VOD services.  They come next, in this order: server, ABR and
  VOD job stores with their handlers, runtime.  Build files, images, scripts and documents hold no Go logic.
\<close>

end
